(* ===== verification/Prelude.thy ===== *)
theory Prelude
  imports Main "HOL-Library.Word"
begin

text \<open>
  Shared vocabulary of the development: byte buffers and the \<open>memcpy\<close>-like reads and
  writes the firmware does on them, results that are either an error or a value, loops
  that stop at the first error, and the collections of facts the component theories
  extend: \<open>layout\<close> (lengths and slices of assembled buffers) and \<open>result_simps\<close>
  (inversion of successful results).
\<close>

unbundle bit_operations_syntax

named_theorems layout "lengths and slices of byte buffers"
named_theorems result_simps "inversion of successful results"

type_synonym u8 = "8 word"
type_synonym u16 = "16 word"
type_synonym u32 = "32 word"
type_synonym u64 = "64 word"
type_synonym bytes = "u8 list"

section \<open>Buffers\<close>

text \<open>\<open>read_at off n xs\<close>: the \<open>n\<close> elements that a pointer to \<open>xs + off\<close> gives access to.\<close>

definition read_at :: "nat \<Rightarrow> nat \<Rightarrow> 'a list \<Rightarrow> 'a list" where
  "read_at off n xs = take n (drop off xs)"

text \<open>
  \<open>write_at off src buf\<close>: \<open>buf\<close> after \<open>memcpy(buf + off, src, |src|)\<close>. The list grows
  exactly when the copy runs past the end of the buffer, so that the length of a result
  says whether every write was in bounds.
\<close>

definition write_at :: "nat \<Rightarrow> 'a list \<Rightarrow> 'a list \<Rightarrow> 'a list" where
  "write_at off src buf = take off buf @ src @ drop (off + length src) buf"

text \<open>\<open>zeros n\<close>: a buffer of \<open>n\<close> zero bytes, as \<open>memset(buf, 0, n)\<close> leaves it.\<close>

definition zeros :: "nat \<Rightarrow> bytes" where
  "zeros n = replicate n 0"

lemma length_read_at [simp]: "length (read_at off n xs) = min n (length xs - off)"
  by (simp add: read_at_def)

lemma read_at_0_all [simp]: "length xs \<le> n \<Longrightarrow> read_at 0 n xs = xs"
  by (simp add: read_at_def)

lemma length_read_at_le: "length (read_at off n xs) \<le> n"
  by simp

lemma read_at_append_left [layout]:
  "off + n \<le> length xs \<Longrightarrow> read_at off n (xs @ ys) = read_at off n xs"
  by (simp add: read_at_def)

lemma read_at_append_right [layout]:
  "length xs \<le> off \<Longrightarrow> read_at off n (xs @ ys) = read_at (off - length xs) n ys"
  by (simp add: read_at_def)

lemma read_at_append_exact [layout]:
  "off = length xs \<Longrightarrow> n = length ys \<Longrightarrow> read_at off n (xs @ ys @ zs) = ys"
  by (simp add: read_at_def)

lemma read_at_append_exact_end [layout]:
  "off = length xs \<Longrightarrow> length ys \<le> n \<Longrightarrow> read_at off n (xs @ ys) = ys"
  by (simp add: read_at_def)

lemma read_at_read_at [layout]:
  "i + m \<le> n \<Longrightarrow> read_at i m (read_at off n xs) = read_at (off + i) m xs"
  by (simp add: read_at_def drop_take take_take ac_simps min_def)

lemma nth_read_at: "i < n \<Longrightarrow> off + i < length xs \<Longrightarrow> read_at off n xs ! i = xs ! (off + i)"
  by (simp add: read_at_def)

lemma read_at_eq_map_nth: "off + n \<le> length xs \<Longrightarrow> read_at off n xs = map (\<lambda>i. xs ! (off + i)) [0..<n]"
  by (rule nth_equalityI) (simp_all add: nth_read_at)

lemma read_at_singleton: "off < length xs \<Longrightarrow> read_at off 1 xs = [xs ! off]"
  by (simp add: read_at_eq_map_nth)

lemma read_at_adjacent: "read_at off n xs @ read_at (off + n) m xs = read_at off (n + m) xs"
  by (simp add: read_at_def take_add drop_drop add.commute [of n off])

lemma length_write_at [simp]:
  "off + length src \<le> length buf \<Longrightarrow> length (write_at off src buf) = length buf"
  by (simp add: write_at_def)

lemma write_at_overruns:
  "off \<le> length buf \<Longrightarrow> length buf < off + length src \<Longrightarrow>
   length buf < length (write_at off src buf)"
  by (simp add: write_at_def)

lemma length_zeros [simp]: "length (zeros n) = n"
  by (simp add: zeros_def)

lemma nth_write_at:
  assumes "off + length src \<le> length buf" and "i < length buf"
  shows "write_at off src buf ! i =
    (if off \<le> i \<and> i < off + length src then src ! (i - off) else buf ! i)"
  using assms by (auto simp: write_at_def nth_append)

lemma read_at_write_at_same [layout]:
  "off \<le> length buf \<Longrightarrow> n = length src \<Longrightarrow> read_at off n (write_at off src buf) = src"
  by (simp add: read_at_def write_at_def)

lemma read_at_write_at_before [layout]:
  assumes "i + n \<le> off" and "off + length src \<le> length buf"
  shows "read_at i n (write_at off src buf) = read_at i n buf"
  using assms by (intro nth_equalityI) (simp_all add: nth_read_at nth_write_at)

lemma read_at_write_at_after [layout]:
  assumes "off + length src \<le> i" and "off + length src \<le> length buf"
  shows "read_at i n (write_at off src buf) = read_at i n buf"
  using assms by (intro nth_equalityI) (auto simp: nth_read_at nth_write_at)

lemma write_at_full: "length src = length buf \<Longrightarrow> write_at 0 src buf = src"
  by (simp add: write_at_def)

text \<open>
  Writing a field at the end of what has been filled so far: an assembled buffer is the
  concatenation of its fields and of what is left of the initial memory.
\<close>

lemma write_at_append [layout]:
  "off = length xs \<Longrightarrow> length src \<le> length ys \<Longrightarrow>
   write_at off src (xs @ ys) = (xs @ src) @ drop (length src) ys"
  by (simp add: write_at_def)

lemma drop_zeros [layout]: "drop m (zeros n) = zeros (n - m)"
  by (simp add: zeros_def)

lemma zeros_0 [layout]: "zeros 0 = []"
  by (simp add: zeros_def)

lemma write_at_zeros [layout]:
  "length src \<le> n \<Longrightarrow> write_at 0 src (zeros n) = src @ zeros (n - length src)"
  by (simp add: write_at_def drop_zeros)

text \<open>Filling a zeroed buffer front to back, with gaps that stay zero.\<close>

lemma zeros_add: "zeros (m + n) = zeros m @ zeros n"
  by (simp add: zeros_def replicate_add)

lemma write_at_gap [layout]:
  assumes "length xs \<le> off" and "off + length src \<le> length xs + n"
  shows "write_at off src (xs @ zeros n) =
    (xs @ zeros (off - length xs) @ src) @ zeros (length xs + n - off - length src)"
proof -
  have "zeros n = zeros (off - length xs) @ zeros (n - (off - length xs))"
    using assms by (simp flip: zeros_add)
  then show ?thesis
    using assms by (simp add: write_at_def drop_zeros zeros_0 ac_simps)
qed

lemma update_gap [layout]:
  assumes "length xs \<le> i" and "i < length xs + n"
  shows "(xs @ zeros n)[i := v] = (xs @ zeros (i - length xs) @ [v]) @ zeros (length xs + n - i - 1)"
proof -
  have "(xs @ zeros n)[i := v] = write_at i [v] (xs @ zeros n)"
    using assms by (simp add: write_at_def upd_conv_take_nth_drop)
  then show ?thesis using assms by (simp add: write_at_gap)
qed

section \<open>Results\<close>

text \<open>
  A fallible call returns \<open>Inl e\<close> (it returned false, with error \<open>e\<close>) or \<open>Inr v\<close> (it
  returned true and its output parameters hold \<open>v\<close>). \<open>bindE x f\<close> is
  \<open>if (!x) return false; f\<close>.
\<close>

definition bindE :: "'e + 'a \<Rightarrow> ('a \<Rightarrow> 'e + 'b) \<Rightarrow> 'e + 'b" where
  "bindE x f = (case x of Inl e \<Rightarrow> Inl e | Inr v \<Rightarrow> f v)"

lemma bindE_Inl [simp]: "bindE (Inl e) f = Inl e"
  by (simp add: bindE_def)

lemma bindE_Inr [simp]: "bindE (Inr v) f = f v"
  by (simp add: bindE_def)

lemma bindE_eq_Inr [result_simps]: "bindE x f = Inr y \<longleftrightarrow> (\<exists>v. x = Inr v \<and> f v = Inr y)"
  by (cases x) auto

lemma bindE_eq_Inl: "bindE x f = Inl e \<longleftrightarrow> x = Inl e \<or> (\<exists>v. x = Inr v \<and> f v = Inl e)"
  by (cases x) auto

lemma bindE_assoc: "bindE (bindE x f) g = bindE x (\<lambda>v. bindE (f v) g)"
  by (cases x) auto

lemma bindE_return: "bindE x Inr = x"
  by (cases x) auto

lemma bindE_cong [fundef_cong]:
  "x = y \<Longrightarrow> (\<And>v. y = Inr v \<Longrightarrow> f v = g v) \<Longrightarrow> bindE x f = bindE y g"
  by (cases y) auto

text \<open>\<open>succeeds x\<close>: the call returned true.\<close>

definition succeeds :: "'e + 'a \<Rightarrow> bool" where
  "succeeds x = (case x of Inl _ \<Rightarrow> False | Inr _ \<Rightarrow> True)"

lemma succeeds_simps [simp]: "succeeds (Inr v)" "\<not> succeeds (Inl e)"
  by (simp_all add: succeeds_def)

lemma succeeds_iff: "succeeds x \<longleftrightarrow> (\<exists>v. x = Inr v)"
  by (cases x) auto

lemma bindE_succeeds [intro]:
  "succeeds x \<Longrightarrow> (\<And>v. x = Inr v \<Longrightarrow> succeeds (f v)) \<Longrightarrow> succeeds (bindE x f)"
  by (cases x) auto

text \<open>
  \<open>mapE f xs\<close>: a counted loop whose body \<open>f\<close> yields one output block per index and
  returns from the function at the first failure.
\<close>

primrec mapE :: "('a \<Rightarrow> 'e + 'b) \<Rightarrow> 'a list \<Rightarrow> 'e + 'b list" where
  "mapE f [] = Inr []"
| "mapE f (x # xs) = bindE (f x) (\<lambda>y. bindE (mapE f xs) (\<lambda>ys. Inr (y # ys)))"

lemma mapE_eq_Inr [result_simps]:
  "mapE f xs = Inr ys \<longleftrightarrow> list_all2 (\<lambda>x y. f x = Inr y) xs ys"
  by (induction xs arbitrary: ys) (auto simp: bindE_eq_Inr list_all2_Cons1)

lemma mapE_cong [fundef_cong]:
  "xs = ys \<Longrightarrow> (\<And>x. x \<in> set ys \<Longrightarrow> f x = g x) \<Longrightarrow> mapE f xs = mapE g ys"
  by (induction ys arbitrary: xs) auto

lemma mapE_succeeds: "(\<And>x. x \<in> set xs \<Longrightarrow> succeeds (f x)) \<Longrightarrow> succeeds (mapE f xs)"
  by (induction xs) (fastforce simp: succeeds_iff)+

text \<open>The block that a successful loop wrote at index \<open>i\<close>.\<close>

lemma list_all2_upt_nth:
  "list_all2 P [0..<n] ys \<longleftrightarrow> length ys = n \<and> (\<forall>i<n. P i (ys ! i))"
  by (auto simp: list_all2_conv_all_nth)

lemma read_at_concat_blocks:
  assumes "\<forall>y \<in> set ys. length y = w" and "i < length ys"
  shows "read_at (i * w) w (concat ys) = ys ! i"
  using assms
proof (induction ys arbitrary: i)
  case Nil
  then show ?case by simp
next
  case (Cons y ys)
  then show ?case
    by (cases i) (simp_all add: read_at_append_left read_at_append_right)
qed

lemma length_concat_blocks:
  "\<forall>y \<in> set ys. length y = w \<Longrightarrow> length (concat ys) = length ys * w"
  by (induction ys) simp_all

section \<open>Stages\<close>

text \<open>
  A handler is cut into stages over a context \<open>'c\<close> (the object and the locals). A stage
  ends with \<open>Some True\<close> (control falls through), \<open>Some False\<close> (it jumps to the cleanup
  label) or \<open>None\<close> (it is still waiting for the network), and with the changed context.
\<close>

type_synonym 'c stage = "'c \<Rightarrow> bool option \<times> 'c"

definition andThen :: "'c stage \<Rightarrow> 'c stage \<Rightarrow> 'c stage" where
  "andThen f g c = (case f c of (r, c') \<Rightarrow> if r = Some True then g c' else (r, c'))"

fun runStages :: "'c stage list \<Rightarrow> 'c stage" where
  "runStages [] c = (Some True, c)"
| "runStages (f # fs) c = andThen f (runStages fs) c"

text \<open>A stage that only tests a condition.\<close>

definition guard :: "bool \<Rightarrow> 'c stage" where
  "guard b c = (Some b, c)"

lemma andThen_True [result_simps]:
  "andThen f g c = (Some True, c'') \<longleftrightarrow> (\<exists>c'. f c = (Some True, c') \<and> g c' = (Some True, c''))"
  by (auto simp: andThen_def split: prod.splits)

lemma runStages_append: "runStages (fs @ gs) c = andThen (runStages fs) (runStages gs) c"
  by (induction fs arbitrary: c) (auto simp: andThen_def split: prod.splits)

lemma guard_True [result_simps]: "guard b c = (Some True, c') \<longleftrightarrow> b \<and> c' = c"
  by (auto simp: guard_def)

text \<open>A predicate that every stage preserves, whichever way the stages end.\<close>

definition preserves :: "('c \<Rightarrow> 'c \<Rightarrow> bool) \<Rightarrow> 'c stage \<Rightarrow> bool" where
  "preserves R f \<longleftrightarrow> (\<forall>c. R c (snd (f c)))"

lemma preserves_andThen:
  "reflp R \<Longrightarrow> transp R \<Longrightarrow> preserves R f \<Longrightarrow> preserves R g \<Longrightarrow> preserves R (andThen f g)"
  by (auto simp: preserves_def andThen_def split_beta dest: transpD)

lemma preserves_runStages:
  "reflp R \<Longrightarrow> transp R \<Longrightarrow> (\<And>f. f \<in> set fs \<Longrightarrow> preserves R f) \<Longrightarrow> preserves R (runStages fs)"
proof (induction fs)
  case Nil
  then show ?case by (simp add: preserves_def reflp_def)
next
  case (Cons f fs)
  then have "preserves R (andThen f (runStages fs))" by (intro preserves_andThen) auto
  then show ?case by (simp add: preserves_def)
qed

end
