(* ===== verification/ProtocolConstants.thy ===== *)
theory ProtocolConstants
  imports Prelude
begin

text \<open>
  \<open>ProtocolConstants.h\<close> of the ESP32 package (namespace \<open>puav\<close>): sizes, wire codes,
  the node configuration, the per-session metrics and the big-endian integer codecs.
  The codecs share one interface, the locale \<open>byte_codec\<close>, which is interpreted for
  the 16-, 32- and 64-bit pairs. Pointers are non-null and arrays are byte lists; sizes
  (\<open>size_t\<close>) are natural numbers.
\<close>

section \<open>Sizes and wire codes\<close>

abbreviation (input) PROTOCOL_VERSION :: u8 where "PROTOCOL_VERSION \<equiv> 1"

abbreviation (input) ID_BYTES :: nat where "ID_BYTES \<equiv> 32"
abbreviation (input) NONCE_BYTES :: nat where "NONCE_BYTES \<equiv> 16"
abbreviation (input) HASH_BYTES :: nat where "HASH_BYTES \<equiv> 32"
abbreviation (input) HMAC_BYTES :: nat where "HMAC_BYTES \<equiv> 32"
abbreviation (input) FE_HELPER_PLACEHOLDER_BYTES :: nat where "FE_HELPER_PLACEHOLDER_BYTES \<equiv> 32"

abbreviation (input) MLKEM_PUBLIC_KEY_BYTES :: nat where "MLKEM_PUBLIC_KEY_BYTES \<equiv> 800"
abbreviation (input) MLKEM_CIPHERTEXT_BYTES :: nat where "MLKEM_CIPHERTEXT_BYTES \<equiv> 768"
abbreviation (input) MLKEM_SHARED_SECRET_BYTES :: nat where "MLKEM_SHARED_SECRET_BYTES \<equiv> 32"

abbreviation (input) LMOTS_SIGNATURE_BYTES :: nat where "LMOTS_SIGNATURE_BYTES \<equiv> 2180"
abbreviation (input) LMS_PATH_BYTES :: nat where "LMS_PATH_BYTES \<equiv> 320"
abbreviation (input) LMS_HEIGHT :: nat where "LMS_HEIGHT \<equiv> 10"
abbreviation (input) LMS_LEAVES :: nat where "LMS_LEAVES \<equiv> 1024"
abbreviation (input) LMS_TREE_NODES :: nat where "LMS_TREE_NODES \<equiv> 2048"

datatype PathDeliveryMode = RepositoryAssisted | SignerCarried

fun pathModeCode :: "PathDeliveryMode \<Rightarrow> u8" where
  "pathModeCode RepositoryAssisted = 1"
| "pathModeCode SignerCarried = 2"

abbreviation (input) SUITE_ID_REPOSITORY :: u32 where "SUITE_ID_REPOSITORY \<equiv> 0x00010001"
abbreviation (input) SUITE_ID_CARRIED :: u32 where "SUITE_ID_CARRIED \<equiv> 0x00010002"

definition suiteIdForMode :: "PathDeliveryMode \<Rightarrow> u32" where
  "suiteIdForMode mode =
    (if mode = SignerCarried then SUITE_ID_CARRIED else SUITE_ID_REPOSITORY)"

abbreviation (input) M0_BYTES :: nat where "M0_BYTES \<equiv> 86"
abbreviation (input) M1_BYTES :: nat where "M1_BYTES \<equiv> 102"
abbreviation (input) M4_BYTES :: nat where "M4_BYTES \<equiv> 66"
abbreviation (input) M2_BASE_BYTES :: nat where "M2_BASE_BYTES \<equiv> 3022"
abbreviation (input) M2_CARRIED_BYTES :: nat where "M2_CARRIED_BYTES \<equiv> 3342"
abbreviation (input) M2_MAX_BYTES :: nat where "M2_MAX_BYTES \<equiv> M2_CARRIED_BYTES"
abbreviation (input) M3_INNER_BASE_BYTES :: nat where "M3_INNER_BASE_BYTES \<equiv> 2990"
abbreviation (input) M3_INNER_CARRIED_BYTES :: nat where "M3_INNER_CARRIED_BYTES \<equiv> 3310"
abbreviation (input) M3_BASE_BYTES :: nat where "M3_BASE_BYTES \<equiv> 3058"
abbreviation (input) M3_CARRIED_BYTES :: nat where "M3_CARRIED_BYTES \<equiv> 3378"
abbreviation (input) M3_MAX_BYTES :: nat where "M3_MAX_BYTES \<equiv> M3_CARRIED_BYTES"

definition m2BytesForMode :: "PathDeliveryMode \<Rightarrow> nat" where
  "m2BytesForMode mode = (if mode = SignerCarried then M2_CARRIED_BYTES else M2_BASE_BYTES)"

definition m3InnerBytesForMode :: "PathDeliveryMode \<Rightarrow> nat" where
  "m3InnerBytesForMode mode =
    (if mode = SignerCarried then M3_INNER_CARRIED_BYTES else M3_INNER_BASE_BYTES)"

definition m3BytesForMode :: "PathDeliveryMode \<Rightarrow> nat" where
  "m3BytesForMode mode = (if mode = SignerCarried then M3_CARRIED_BYTES else M3_BASE_BYTES)"

definition expectedDirectApplicationBytes :: "PathDeliveryMode \<Rightarrow> nat" where
  "expectedDirectApplicationBytes mode =
    M0_BYTES + M1_BYTES + m2BytesForMode mode + m3BytesForMode mode + M4_BYTES"

abbreviation (input) MU_A_BYTES :: nat where "MU_A_BYTES \<equiv> 902"
abbreviation (input) MU_B_BYTES :: nat where "MU_B_BYTES \<equiv> 902"
abbreviation (input) LMOTS_SIGNED_OBJECT_BYTES :: nat where "LMOTS_SIGNED_OBJECT_BYTES \<equiv> 910"
abbreviation (input) SID0_INPUT_BYTES :: nat where "SID0_INPUT_BYTES \<equiv> 194"
abbreviation (input) SESSION_KEY_MATERIAL_BYTES :: nat where "SESSION_KEY_MATERIAL_BYTES \<equiv> 96"

abbreviation (input) DEFAULT_PROTOCOL_PORT :: u16 where "DEFAULT_PROTOCOL_PORT \<equiv> 4210"
abbreviation (input) DEFAULT_GCS_PORT :: u16 where "DEFAULT_GCS_PORT \<equiv> 5001"
abbreviation (input) DEFAULT_GCS_LOCAL_PORT :: u16 where "DEFAULT_GCS_LOCAL_PORT \<equiv> 5210"

abbreviation (input) FRAGMENT_MAGIC :: u16 where "FRAGMENT_MAGIC \<equiv> 0xA55A"
abbreviation (input) FRAGMENT_HEADER_BYTES :: nat where "FRAGMENT_HEADER_BYTES \<equiv> 14"
abbreviation (input) FRAGMENT_PAYLOAD_BYTES :: nat where "FRAGMENT_PAYLOAD_BYTES \<equiv> 1000"
abbreviation (input) MAX_FRAGMENTS :: nat where "MAX_FRAGMENTS \<equiv> 8"
abbreviation (input) MAX_PROTOCOL_MESSAGE_BYTES :: nat where "MAX_PROTOCOL_MESSAGE_BYTES \<equiv> M3_MAX_BYTES"

abbreviation (input) RECEIVE_TIMEOUT_MS :: u32 where "RECEIVE_TIMEOUT_MS \<equiv> 8000"
abbreviation (input) GCS_TIMEOUT_MS :: u32 where "GCS_TIMEOUT_MS \<equiv> 3000"
abbreviation (input) GCS_RETRIES :: nat where "GCS_RETRIES \<equiv> 4"

abbreviation (input) CREDENTIAL_STATUS_PENDING :: u8 where "CREDENTIAL_STATUS_PENDING \<equiv> 0"
abbreviation (input) CREDENTIAL_STATUS_ACTIVE :: u8 where "CREDENTIAL_STATUS_ACTIVE \<equiv> 1"

datatype Role = Initiator | Responder

abbreviation (input) MSG_M0_REQ :: u8 where "MSG_M0_REQ \<equiv> 0x10"
abbreviation (input) MSG_M1_CHAL :: u8 where "MSG_M1_CHAL \<equiv> 0x11"
abbreviation (input) MSG_M2_INIT :: u8 where "MSG_M2_INIT \<equiv> 0x12"
abbreviation (input) MSG_M3_RESP_FIN :: u8 where "MSG_M3_RESP_FIN \<equiv> 0x13"
abbreviation (input) MSG_M3_INNER :: u8 where "MSG_M3_INNER \<equiv> 0x14"
abbreviation (input) MSG_M4_INIT_FIN :: u8 where "MSG_M4_INIT_FIN \<equiv> 0x15"
abbreviation (input) MSG_RESULT :: u8 where "MSG_RESULT \<equiv> 0x7f"

abbreviation (input) DOMAIN_SID0 :: u8 where "DOMAIN_SID0 \<equiv> 0x30"
abbreviation (input) DOMAIN_INIT :: u8 where "DOMAIN_INIT \<equiv> 0x31"
abbreviation (input) DOMAIN_RESP :: u8 where "DOMAIN_RESP \<equiv> 0x32"
abbreviation (input) DOMAIN_LMOTS_SIGN :: u8 where "DOMAIN_LMOTS_SIGN \<equiv> 0x33"
abbreviation (input) DOMAIN_TRANSCRIPT :: u8 where "DOMAIN_TRANSCRIPT \<equiv> 0x34"
abbreviation (input) DOMAIN_UAV_AKE :: u8 where "DOMAIN_UAV_AKE \<equiv> 0x35"
abbreviation (input) DOMAIN_B_CONFIRM :: u8 where "DOMAIN_B_CONFIRM \<equiv> 0x36"
abbreviation (input) DOMAIN_A_CONFIRM :: u8 where "DOMAIN_A_CONFIRM \<equiv> 0x37"

abbreviation (input) RESULT_OK :: u8 where "RESULT_OK \<equiv> 0"

section \<open>Configuration and metrics\<close>

record NodeConfig =
  role :: Role
  pathMode :: PathDeliveryMode
  wifiSsid :: string
  wifiPassword :: string
  gcsIp :: u32
  responderIp :: u32
  protocolPort :: u16
  gcsPort :: u16
  gcsLocalPort :: u16
  deviceId :: bytes
  peerId :: bytes
  hardcodedPufRoot :: bytes
  hardcodedHelperData :: bytes
  lmsIdentifier :: bytes
  credentialVersion :: u32
  peerCredentialVersion :: u32
  credentialExpiryUnix :: u64
  nvsNamespace :: string
  firstQ :: u32
  numberOfSessions :: u32
  resetQCounter :: bool

text \<open>The array members of the struct have their declared sizes.\<close>

definition config_arrays :: "NodeConfig \<Rightarrow> bool" where
  "config_arrays c \<longleftrightarrow>
    length (deviceId c) = ID_BYTES \<and> length (peerId c) = ID_BYTES \<and>
    length (hardcodedPufRoot c) = HASH_BYTES \<and>
    length (hardcodedHelperData c) = FE_HELPER_PLACEHOLDER_BYTES \<and>
    length (lmsIdentifier c) = 16"

record LocalMetrics =
  shaUs :: u64
  hmacUs :: u64
  lmotsSignUs :: u64
  lmotsVerifyUs :: u64
  kemUs :: u64
  pufFeUs :: u64
  repositoryUs :: u64
  totalCryptoUs :: u64
  protocolUs :: u64
  appTxBytes :: u32
  appRxBytes :: u32
  framedTxBytes :: u32
  framedRxBytes :: u32
  repositoryTxBytes :: u32
  repositoryRxBytes :: u32

definition LocalMetrics_init :: LocalMetrics where
  "LocalMetrics_init =
    \<lparr>shaUs = 0, hmacUs = 0, lmotsSignUs = 0, lmotsVerifyUs = 0, kemUs = 0, pufFeUs = 0,
     repositoryUs = 0, totalCryptoUs = 0, protocolUs = 0, appTxBytes = 0, appRxBytes = 0,
     framedTxBytes = 0, framedRxBytes = 0, repositoryTxBytes = 0, repositoryRxBytes = 0\<rparr>"

section \<open>Big-endian integers\<close>

definition putU16 :: "u16 \<Rightarrow> bytes" where
  "putU16 value = [ucast (drop_bit 8 value), ucast value]"

definition putU32 :: "u32 \<Rightarrow> bytes" where
  "putU32 value =
    [ucast (drop_bit 24 value), ucast (drop_bit 16 value), ucast (drop_bit 8 value), ucast value]"

definition putU64 :: "u64 \<Rightarrow> bytes" where
  "putU64 value = map (\<lambda>i. ucast (drop_bit (i * 8) value)) (rev [0..<8])"

definition getU16 :: "bytes \<Rightarrow> u16" where
  "getU16 inp = (push_bit 8 (ucast (inp ! 0)) OR ucast (inp ! 1))"

definition getU32 :: "bytes \<Rightarrow> u32" where
  "getU32 inp =
    (push_bit 24 (ucast (inp ! 0)) OR push_bit 16 (ucast (inp ! 1)) OR
     push_bit 8 (ucast (inp ! 2)) OR ucast (inp ! 3))"

definition getU64 :: "bytes \<Rightarrow> u64" where
  "getU64 inp = foldl (\<lambda>value i. push_bit 8 value OR ucast (inp ! i)) 0 [0..<8]"

definition constantTimeEqual :: "bytes \<Rightarrow> bytes \<Rightarrow> nat \<Rightarrow> bool" where
  "constantTimeEqual left right n =
    (foldl (\<lambda>difference i. difference OR (left ! i XOR right ! i)) (0 :: u8) [0..<n] = 0)"

text \<open>The laboratory key shared by every node and the repository.\<close>

definition GCS_LEDGER_HMAC_KEY :: bytes where
  "GCS_LEDGER_HMAC_KEY =
    [0x61, 0x94, 0x0d, 0x2f, 0x73, 0xe1, 0x48, 0xac,
     0xb5, 0x39, 0x8c, 0x14, 0xd0, 0x6e, 0x2a, 0xf7,
     0x83, 0x45, 0x1b, 0xc9, 0x56, 0xaa, 0x30, 0x7d,
     0x1e, 0x68, 0xf2, 0x04, 0x9b, 0xcd, 0x77, 0x35]"

section \<open>The codec interface\<close>

text \<open>
  A fixed-width codec: \<open>put\<close> always writes \<open>width\<close> bytes, \<open>get\<close> reads only those, and
  the two are inverse to each other. Everything the message formats need about integers
  follows from these laws.
\<close>

locale byte_codec =
  fixes put :: "'a \<Rightarrow> bytes"
    and get :: "bytes \<Rightarrow> 'a"
    and width :: nat
  assumes put_length: "length (put v) = width"
    and get_prefix: "width \<le> length xs \<Longrightarrow> get xs = get (take width xs)"
    and get_of_put: "get (put v) = v"
    and put_of_get: "length xs = width \<Longrightarrow> put (get xs) = xs"
begin

lemma get_put_append: "get (put v @ xs) = v"
  using get_prefix [of "put v @ xs"] by (simp add: put_length get_of_put)

lemma put_inject: "put v = put w \<longleftrightarrow> v = w"
  by (metis get_of_put)

lemma get_write_same:
  "off + width \<le> length buf \<Longrightarrow> get (drop off (write_at off (put v) buf)) = v"
  by (simp add: write_at_def get_put_append)

lemma get_drop_read: "off + width \<le> length buf \<Longrightarrow> get (drop off buf) = get (read_at off width buf)"
  using get_prefix [of "drop off buf"] by (simp add: read_at_def)

lemma get_write_before:
  assumes "i + width \<le> off" and "off + length src \<le> length buf"
  shows "get (drop i (write_at off src buf)) = get (drop i buf)"
  using assms by (simp add: get_drop_read read_at_write_at_before)

lemma get_write_after:
  assumes "off + length src \<le> i" and "i + width \<le> length buf"
  shows "get (drop i (write_at off src buf)) = get (drop i buf)"
  using assms by (simp add: get_drop_read read_at_write_at_after)

lemma put_get_drop: "off + width \<le> length buf \<Longrightarrow> put (get (drop off buf)) = read_at off width buf"
  by (simp add: get_drop_read put_of_get)

end

lemma list2_cases: "length xs = 2 \<Longrightarrow> \<exists>a b. xs = [a, b]"
  by (auto simp: length_Suc_conv numeral_eq_Suc)

lemma list4_cases: "length xs = 4 \<Longrightarrow> \<exists>a b c d. xs = [a, b, c, d]"
  by (auto simp: length_Suc_conv numeral_eq_Suc)

section \<open>The codecs satisfy the interface\<close>

lemma bit_byte_high: "8 \<le> n \<Longrightarrow> \<not> bit (b :: u8) n"
  using bit_imp_le_length [of b n] by auto

lemma length_putU [simp, layout]:
  "length (putU16 v) = 2" "length (putU32 w) = 4" "length (putU64 x) = 8"
  by (simp_all add: putU16_def putU32_def putU64_def)

lemma getU16_putU16: "getU16 (putU16 v) = v"
  by (rule bit_word_eqI) (auto simp: getU16_def putU16_def bit_simps)

lemma putU16_getU16: "putU16 (getU16 [a, b]) = [a, b]"
  by (auto simp: getU16_def putU16_def bit_simps bit_byte_high intro!: bit_word_eqI)

lemma getU32_putU32: "getU32 (putU32 v) = v"
proof (rule bit_word_eqI)
  fix n :: nat
  consider "n < 8" | "8 \<le> n" "n < 16" | "16 \<le> n" "n < 24" | "24 \<le> n" by linarith
  then show "bit (getU32 (putU32 v)) n \<longleftrightarrow> bit v n" if "n < LENGTH(32)"
    using that by cases (auto simp: getU32_def putU32_def bit_simps less_diff_conv2)
qed

lemma putU32_getU32: "putU32 (getU32 [a, b, c, d]) = [a, b, c, d]"
  by (auto simp: getU32_def putU32_def bit_simps bit_byte_high intro!: bit_word_eqI)

text \<open>
  The 64-bit pair loops over the bytes. Decoding telescopes: after \<open>n\<close> bytes the
  accumulator is the value without its low \<open>64 - 8 n\<close> bits.
\<close>

lemma accumulate_byte:
  fixes v :: "'a::len word"
  shows "push_bit 8 (drop_bit (k + 8) v) OR ucast (ucast (drop_bit k v) :: u8) = drop_bit k v"
  by (rule bit_word_eqI) (auto simp: bit_simps)

lemma getU64_putU64: "getU64 (putU64 v) = v"
proof -
  have "foldl (\<lambda>x i. push_bit 8 x OR ucast (putU64 v ! i)) 0 [0..<n] = drop_bit (64 - 8 * n) v"
    if "n \<le> 8" for n
    using that
  proof (induction n)
    case 0
    then show ?case by simp
  next
    case (Suc n)
    then have "putU64 v ! n = ucast (drop_bit (64 - 8 * Suc n) v)"
      by (simp add: putU64_def rev_nth algebra_simps)
    moreover have "64 - 8 * n = (64 - 8 * Suc n) + 8" using Suc.prems by simp
    ultimately show ?case using Suc accumulate_byte [of "64 - 8 * Suc n" v] by simp
  qed
  from this [of 8] show ?thesis by (simp add: getU64_def)
qed

lemma shifted_out_byte:
  "drop_bit (8 * Suc j) (push_bit 8 x OR ucast (b :: u8)) = drop_bit (8 * j) (take_bit 56 (x :: u64))"
  by (rule bit_word_eqI) (auto simp: bit_simps bit_byte_high)

lemma low_byte_of_accumulated: "(ucast (push_bit 8 x OR (ucast (b :: u8) :: u64)) :: u8) = b"
  by (rule bit_word_eqI) (auto simp: bit_simps)

lemma byte_of_accumulated:
  "k < n \<Longrightarrow> n \<le> 8 \<Longrightarrow>
   ucast (drop_bit (8 * k) (foldl (\<lambda>x i. push_bit 8 x OR ucast (xs ! i)) 0 [0..<n] :: u64)) =
   (xs :: bytes) ! (n - 1 - k)"
proof (induction n arbitrary: k)
  case 0
  then show ?case by simp
next
  case (Suc n)
  let ?f = "foldl (\<lambda>x i. push_bit 8 x OR ucast (xs ! i)) (0::u64) [0..<n]"
  show ?case
  proof (cases k)
    case 0
    then show ?thesis by (simp add: low_byte_of_accumulated)
  next
    case (Suc j)
    have "drop_bit (8 * k) (push_bit 8 ?f OR ucast (xs ! n)) = drop_bit (8 * j) (take_bit 56 ?f)"
      unfolding Suc by (rule shifted_out_byte)
    moreover have "(ucast (drop_bit (8 * j) (take_bit 56 ?f)) :: u8) = ucast (drop_bit (8 * j) ?f)"
      using Suc.prems \<open>k = Suc j\<close> by (intro bit_word_eqI) (auto simp: bit_simps)
    ultimately show ?thesis using Suc.IH [of j] Suc.prems \<open>k = Suc j\<close> by simp
  qed
qed

lemma putU64_getU64: "length xs = 8 \<Longrightarrow> putU64 (getU64 xs) = xs"
  using byte_of_accumulated [of _ 8 xs]
  by (intro nth_equalityI)
    (simp_all add: putU64_def getU64_def rev_nth mult.commute [of 8] del: upt_rec_numeral)

lemma getU_prefix:
  "2 \<le> length xs \<Longrightarrow> getU16 xs = getU16 (take 2 xs)"
  "4 \<le> length xs \<Longrightarrow> getU32 xs = getU32 (take 4 xs)"
  "8 \<le> length xs \<Longrightarrow> getU64 xs = getU64 (take 8 xs)"
  by (simp_all add: getU16_def getU32_def getU64_def upt_rec)

interpretation u16: byte_codec putU16 getU16 2
  by unfold_locales
    ((rule length_putU getU_prefix getU16_putU16; assumption?)+, auto simp: putU16_getU16 dest!: list2_cases)

interpretation u32: byte_codec putU32 getU32 4
  by unfold_locales
    ((rule length_putU getU_prefix getU32_putU32; assumption?)+, auto simp: putU32_getU32 dest!: list4_cases)

interpretation u64: byte_codec putU64 getU64 8
  by unfold_locales
    ((rule length_putU getU_prefix getU64_putU64; assumption?)+, rule putU64_getU64)

lemmas get_put_simps [simp] =
  u16.get_of_put u32.get_of_put u64.get_of_put
  u16.get_put_append u32.get_put_append u64.get_put_append

section \<open>Constant-time comparison\<close>

lemma xor_eq_0: "(a :: 'a::len word) XOR b = 0 \<longleftrightarrow> a = b"
  by (metis xor.assoc xor.left_neutral xor_self_eq)

lemma constantTimeEqual_nth: "constantTimeEqual l r n \<longleftrightarrow> (\<forall>i<n. l ! i = r ! i)"
proof -
  have "foldl (\<lambda>d i. d OR (l ! i XOR r ! i)) (0 :: u8) [0..<n] = 0 \<longleftrightarrow> (\<forall>i<n. l ! i = r ! i)"
    by (induction n) (auto simp: less_Suc_eq or_eq_0_iff xor_eq_0)
  then show ?thesis by (simp add: constantTimeEqual_def)
qed

text \<open>On buffers that hold the compared bytes it decides their equality.\<close>

lemma constantTimeEqual_take:
  "n \<le> length l \<Longrightarrow> n \<le> length r \<Longrightarrow> constantTimeEqual l r n \<longleftrightarrow> take n l = take n r"
  by (auto simp: constantTimeEqual_nth list_eq_iff_nth_eq)

lemma constantTimeEqual_eq:
  "length l = n \<Longrightarrow> length r = n \<Longrightarrow> constantTimeEqual l r n \<longleftrightarrow> l = r"
  by (simp add: constantTimeEqual_take)

end
