(* ===== verification/CryptoHelpers.thy ===== *)
theory CryptoHelpers
  imports ProtocolConstants
begin

text \<open>
  \<open>CryptoHelpers.h/.cpp\<close> of the ESP32 package: SHA-256 and HMAC-SHA-256 as wrappers of
  the wolfSSL streaming calls, HKDF-SHA-256 written out by the firmware, and the LMS seed
  derivation.

  wolfSSL is not part of the repository. Its functions are the fields of the record
  \<open>wolf\<close>, an argument of every definition that calls them; each returns the C return
  code, 0 for success. A streaming context is represented by the bytes it has absorbed.
  What the code relies on is stated by \<open>wolf_sizes\<close> (digests have 32 bytes) and
  \<open>wolf_works\<close> (the hash calls return 0). Proved here: the HKDF loop computes the
  extract-and-expand construction of RFC 5869, whose block counter never wraps.
\<close>

section \<open>wolfSSL\<close>

record wolf =
  wc_InitSha256 :: int
  wc_Sha256Update :: "bytes \<Rightarrow> bytes \<Rightarrow> int"
  wc_Sha256Final :: "bytes \<Rightarrow> int \<times> bytes"
  wc_HmacSetKey :: "bytes \<Rightarrow> int"
  wc_HmacUpdate :: "bytes \<Rightarrow> bytes \<Rightarrow> bytes \<Rightarrow> int"
  wc_HmacFinal :: "bytes \<Rightarrow> bytes \<Rightarrow> int \<times> bytes"
  wc_InitRng :: int
  wc_MlKemKey_Init :: int
  wc_MlKemKey_MakeKey :: "bytes \<Rightarrow> int \<times> bytes"
  wc_MlKemKey_EncodePublicKey :: "bytes \<Rightarrow> int \<times> bytes"
  wc_MlKemKey_DecodePublicKey :: "bytes \<Rightarrow> int \<times> bytes"
  wc_MlKemKey_Encapsulate :: "bytes \<Rightarrow> bytes \<Rightarrow> int \<times> bytes \<times> bytes"
  wc_MlKemKey_Decapsulate :: "bytes \<Rightarrow> bytes \<Rightarrow> int \<times> bytes"

definition wolf_sizes :: "wolf \<Rightarrow> bool" where
  "wolf_sizes W \<longleftrightarrow>
    (\<forall>x. length (snd (wc_Sha256Final W x)) = HASH_BYTES) \<and>
    (\<forall>k x. length (snd (wc_HmacFinal W k x)) = HMAC_BYTES)"

definition wolf_works :: "wolf \<Rightarrow> bool" where
  "wolf_works W \<longleftrightarrow>
    wc_InitSha256 W = 0 \<and> (\<forall>c x. wc_Sha256Update W c x = 0) \<and> (\<forall>x. fst (wc_Sha256Final W x) = 0) \<and>
    (\<forall>k. wc_HmacSetKey W k = 0) \<and> (\<forall>k c x. wc_HmacUpdate W k c x = 0) \<and>
    (\<forall>k x. fst (wc_HmacFinal W k x) = 0)"

text \<open>
  Why a helper returned false: \<open>LastError e\<close> when it stored \<open>e\<close> in \<open>s_lastError\<close>,
  \<open>Refused\<close> when it returned without touching it.
\<close>

datatype crypto_error = LastError int | Refused

type_synonym 'a res = "crypto_error + 'a"

abbreviation (input) UINT32_MAX :: nat where "UINT32_MAX \<equiv> 4294967295"

section \<open>Operations\<close>

definition sha256 :: "wolf \<Rightarrow> bytes \<Rightarrow> bytes res" where
  "sha256 W data =
    (if length data > UINT32_MAX then Inl (LastError (-1))
     else
       let ret = wc_InitSha256 W;
           ret = (if ret = 0 \<and> length data \<noteq> 0 then wc_Sha256Update W [] data else ret);
           (ret, output) = (if ret = 0 then wc_Sha256Final W data else (ret, []))
       in if ret \<noteq> 0 then Inl (LastError ret) else Inr output)"

definition hmacSha256 :: "wolf \<Rightarrow> bytes \<Rightarrow> bytes \<Rightarrow> bytes res" where
  "hmacSha256 W key data =
    (if length key > UINT32_MAX \<or> length data > UINT32_MAX then Inl (LastError (-2))
     else
       let ret = wc_HmacSetKey W key;
           ret = (if ret = 0 \<and> length data \<noteq> 0 then wc_HmacUpdate W key [] data else ret);
           (ret, output) = (if ret = 0 then wc_HmacFinal W key data else (ret, []))
       in if ret \<noteq> 0 then Inl (LastError ret) else Inr output)"

text \<open>
  The expand loop: \<open>previous\<close> is empty in the first round (\<open>previousLength == 0\<close>) and the
  last block afterwards, \<open>counter\<close> is the 8-bit block number and \<open>output\<close> what has been
  copied so far, \<open>outputOffset\<close> bytes of it.
\<close>

function hkdf_expand ::
  "wolf \<Rightarrow> bytes \<Rightarrow> bytes \<Rightarrow> nat \<Rightarrow> bytes \<Rightarrow> u8 \<Rightarrow> nat \<Rightarrow> bytes \<Rightarrow> bytes res" where
  "hkdf_expand W prk info outputLength previous counter outputOffset output =
    (if outputOffset < outputLength then
       bindE (hmacSha256 W prk (previous @ info @ [counter]))
         (\<lambda>block.
           let remaining = outputLength - outputOffset;
               copyLength = (if remaining < HASH_BYTES then remaining else HASH_BYTES)
           in hkdf_expand W prk info outputLength block (counter + 1)
                (outputOffset + copyLength) (output @ take copyLength block))
     else Inr output)"
  by pat_completeness auto
termination
  by (relation "measure (\<lambda>(W, prk, info, L, previous, counter, off, output). L - off)") auto

declare hkdf_expand.simps [simp del]

definition hkdfSha256 :: "wolf \<Rightarrow> bytes \<Rightarrow> bytes \<Rightarrow> bytes \<Rightarrow> nat \<Rightarrow> bytes res" where
  "hkdfSha256 W ikm salt info outputLength =
    (if length ikm > UINT32_MAX \<or> length salt > UINT32_MAX \<or> length info > UINT32_MAX \<or>
        outputLength = 0 \<or> outputLength > 255 * HASH_BYTES
     then Inl (LastError (-3))
     else
       let effectiveSalt = (if length salt = 0 then zeros HASH_BYTES else salt)
       in bindE (hmacSha256 W effectiveSalt ikm)
            (\<lambda>prk. if length info > 128 then Inl (LastError (-4))
                   else hkdf_expand W prk info outputLength [] 1 0 []))"

text \<open>The characters of the label \<open>LMS-SEED\<close>.\<close>

definition lms_seed_label :: bytes where
  "lms_seed_label = [0x4c, 0x4d, 0x53, 0x2d, 0x53, 0x45, 0x45, 0x44]"

definition deriveLmsSeed :: "wolf \<Rightarrow> bytes \<Rightarrow> bytes \<Rightarrow> u32 \<Rightarrow> bytes \<Rightarrow> bytes res" where
  "deriveLmsSeed W pufRoot deviceId' credentialVersion' identifier =
    hkdfSha256 W pufRoot []
      (lms_seed_label @ deviceId' @ putU32 credentialVersion' @ identifier) HASH_BYTES"

definition helperDataDigest :: "wolf \<Rightarrow> bytes \<Rightarrow> bytes res" where
  "helperDataDigest W helperData = sha256 W helperData"

text \<open>\<open>secureZero\<close> overwrites byte by byte; past the end of the buffer it would grow it.\<close>

fun secureZero :: "nat \<Rightarrow> bytes \<Rightarrow> bytes" where
  "secureZero 0 memory = memory"
| "secureZero (Suc n) memory = 0 # secureZero n (tl memory)"

section \<open>Basic facts\<close>

lemma sha256_Inr_length [result_simps]:
  "wolf_sizes W \<Longrightarrow> sha256 W x = Inr d \<Longrightarrow> length d = HASH_BYTES"
  by (auto simp: sha256_def wolf_sizes_def Let_def split_beta split: if_splits)

lemma hmacSha256_Inr_length [result_simps]:
  "wolf_sizes W \<Longrightarrow> hmacSha256 W k x = Inr d \<Longrightarrow> length d = HMAC_BYTES"
  by (auto simp: hmacSha256_def wolf_sizes_def Let_def split_beta split: if_splits)

lemma sha256_works:
  "wolf_works W \<Longrightarrow> length x \<le> UINT32_MAX \<Longrightarrow> sha256 W x = Inr (snd (wc_Sha256Final W x))"
  by (auto simp: sha256_def wolf_works_def Let_def split_beta)

lemma hmacSha256_works:
  "wolf_works W \<Longrightarrow> length k \<le> UINT32_MAX \<Longrightarrow> length x \<le> UINT32_MAX \<Longrightarrow>
   hmacSha256 W k x = Inr (snd (wc_HmacFinal W k x))"
  by (auto simp: hmacSha256_def wolf_works_def Let_def split_beta)

lemma secureZero_all: "secureZero (length m) m = zeros (length m)"
  by (induction m) (simp_all add: zeros_def)

lemma secureZero_eq: "length m = n \<Longrightarrow> secureZero n m = zeros n"
  using secureZero_all by blast

lemma hkdf_expand_length:
  "hkdf_expand W prk info L previous counter off out = Inr okm \<Longrightarrow> wolf_sizes W \<Longrightarrow> length out = off \<Longrightarrow>
   off \<le> L \<Longrightarrow> length okm = L"
proof (induction W prk info L previous counter off out rule: hkdf_expand.induct)
  case (1 W prk info L previous counter off out)
  show ?case
  proof (cases "off < L")
    case True
    then obtain block where block: "hmacSha256 W prk (previous @ info @ [counter]) = Inr block"
      using "1.prems"(1) by (auto simp: hkdf_expand.simps [of W prk info L] bindE_eq_Inr)
    let ?c = "if L - off < HASH_BYTES then L - off else HASH_BYTES"
    have rec: "hkdf_expand W prk info L block (counter + 1) (off + ?c) (out @ take ?c block) = Inr okm"
      using "1.prems"(1) True block by (simp add: hkdf_expand.simps [of W prk info L previous] Let_def)
    have "length (out @ take ?c block) = off + ?c" and "off + ?c \<le> L"
      using "1.prems"(3) True hmacSha256_Inr_length [OF "1.prems"(2) block] by auto
    with rec show ?thesis using "1.IH" [of block "L - off" ?c] "1.prems"(2) True block by blast
  next
    case False
    then show ?thesis using "1.prems" by (simp add: hkdf_expand.simps [of W prk info L])
  qed
qed

lemma hkdfSha256_Inr_length [result_simps]:
  "wolf_sizes W \<Longrightarrow> hkdfSha256 W ikm salt info L = Inr okm \<Longrightarrow> length okm = L"
  by (auto simp: hkdfSha256_def Let_def bindE_eq_Inr dest: hkdf_expand_length split: if_splits)

section \<open>HKDF against RFC 5869\<close>

text \<open>
  The reference: \<open>T(0)\<close> is empty, \<open>T(i+1) = HMAC(PRK, T(i) | info | i+1)\<close>, and the output
  key material is the first \<open>L\<close> bytes of \<open>T(1) | T(2) | ...\<close>.
\<close>

primrec rfc5869_T :: "wolf \<Rightarrow> bytes \<Rightarrow> bytes \<Rightarrow> nat \<Rightarrow> bytes res" where
  "rfc5869_T W prk info 0 = Inr []"
| "rfc5869_T W prk info (Suc i) =
     bindE (rfc5869_T W prk info i) (\<lambda>t. hmacSha256 W prk (t @ info @ [of_nat (Suc i)]))"

definition rfc5869_expand :: "wolf \<Rightarrow> bytes \<Rightarrow> bytes \<Rightarrow> nat \<Rightarrow> bytes res" where
  "rfc5869_expand W prk info L =
    bindE (mapE (rfc5869_T W prk info) [1..<Suc ((L + HASH_BYTES - 1) div HASH_BYTES)])
      (\<lambda>ts. Inr (take L (concat ts)))"

definition rfc5869_hkdf :: "wolf \<Rightarrow> bytes \<Rightarrow> bytes \<Rightarrow> bytes \<Rightarrow> nat \<Rightarrow> bytes res" where
  "rfc5869_hkdf W ikm salt info L =
    bindE (hmacSha256 W (if salt = [] then zeros HASH_BYTES else salt) ikm)
      (\<lambda>prk. rfc5869_expand W prk info L)"

text \<open>
  Loop invariant: before round \<open>n + 1\<close> the state holds \<open>T(n)\<close>, the counter \<open>n + 1\<close> and
  \<open>n\<close> full blocks of output.
\<close>

lemma hkdf_expand_from:
  assumes sizes: "wolf_sizes W"
    and N: "N = (L + 31) div 32" and "n \<le> N"
    and t: "rfc5869_T W prk info n = Inr t"
    and out: "length out = min (32 * n) L"
  shows "hkdf_expand W prk info L t (of_nat (Suc n)) (min (32 * n) L) out =
    bindE (mapE (rfc5869_T W prk info) [Suc n..<Suc N]) (\<lambda>ts. Inr (take L (out @ concat ts)))"
  using assms(3-)
proof (induction "N - n" arbitrary: n t out)
  case 0
  then have "n = N" by simp
  moreover have "L \<le> 32 * N" using N by linarith
  ultimately show ?case using 0 by (simp add: hkdf_expand.simps [of W prk info L])
next
  case (Suc k)
  then have n: "n < N" by simp
  then have small: "32 * n < L" using N by linarith
  have step: "[Suc n..<Suc N] = Suc n # [Suc (Suc n)..<Suc N]"
    using n by (simp add: upt_rec)
  show ?case
  proof (cases "hmacSha256 W prk (t @ info @ [of_nat (Suc n)])")
    case (Inl e)
    then show ?thesis
      using small Suc.prems(2) by (simp add: hkdf_expand.simps [of W prk info L] step del: upt_Suc)
  next
    case (Inr block)
    have len: "length block = 32" using sizes Inr by (rule hmacSha256_Inr_length)
    have T: "rfc5869_T W prk info (Suc n) = Inr block"
      using Suc.prems(2) Inr by simp
    let ?c = "if L - 32 * n < 32 then L - 32 * n else 32"
    have off: "min (32 * Suc n) L = 32 * n + ?c" using small by simp
    have out': "length (out @ take ?c block) = min (32 * Suc n) L"
      using Suc.prems(3) small len by simp
    have "hkdf_expand W prk info L t (of_nat (Suc n)) (min (32 * n) L) out =
        hkdf_expand W prk info L block (of_nat (Suc (Suc n))) (min (32 * Suc n) L)
          (out @ take ?c block)"
      using small Inr by (subst hkdf_expand.simps) (simp add: Let_def off add.commute)
    also have "\<dots> = bindE (mapE (rfc5869_T W prk info) [Suc (Suc n)..<Suc N])
        (\<lambda>ts. Inr (take L ((out @ take ?c block) @ concat ts)))"
      using Suc.hyps n T out' by (intro Suc.hyps(1)) auto
    also have "\<dots> = bindE (mapE (rfc5869_T W prk info) [Suc n..<Suc N])
        (\<lambda>ts. Inr (take L (out @ concat ts)))"
      using T small len Suc.prems(3)
      by (simp add: step bindE_assoc del: upt_Suc rfc5869_T.simps)
    finally show ?thesis .
  qed
qed

lemma hkdf_expand_rfc5869:
  "wolf_sizes W \<Longrightarrow> hkdf_expand W prk info L [] 1 0 [] = rfc5869_expand W prk info L"
  using hkdf_expand_from [of W _ L 0 prk info "[]" "[]"] by (simp add: rfc5869_expand_def add.commute del: upt_Suc)

section \<open>A sample wolfSSL\<close>

text \<open>
  An instance of the parameter that satisfies what the code relies on, for the examples
  that show hypotheses can hold. It is not a cryptographic library: a digest folds its
  input into 32 bytes, a key object is its 32 bytes of randomness, the public key is the
  key padded to 800 bytes and the shared secret is the XOR of key and ciphertext.
\<close>

definition sample_digest :: "bytes \<Rightarrow> bytes" where
  "sample_digest x = putU64 (foldl (\<lambda>h b. 31 * h + ucast b + 1) 7 x) @ zeros 24"

definition xor32 :: "bytes \<Rightarrow> bytes \<Rightarrow> bytes" where
  "xor32 a b = map (\<lambda>i. (a @ zeros 32) ! i XOR (b @ zeros 32) ! i) [0..<32]"

definition sample_wolf :: wolf where
  "sample_wolf =
    \<lparr>wc_InitSha256 = 0,
     wc_Sha256Update = (\<lambda>_ _. 0),
     wc_Sha256Final = (\<lambda>x. (0, sample_digest x)),
     wc_HmacSetKey = (\<lambda>_. 0),
     wc_HmacUpdate = (\<lambda>_ _ _. 0),
     wc_HmacFinal = (\<lambda>k x. (0, sample_digest (k @ x))),
     wc_InitRng = 0,
     wc_MlKemKey_Init = 0,
     wc_MlKemKey_MakeKey = (\<lambda>r. (0, take 32 (r @ zeros 32))),
     wc_MlKemKey_EncodePublicKey = (\<lambda>k. (0, take 800 (k @ zeros 800))),
     wc_MlKemKey_DecodePublicKey = (\<lambda>p. (0, take 32 p)),
     wc_MlKemKey_Encapsulate = (\<lambda>k r. (0, take 768 (r @ zeros 768), xor32 k r)),
     wc_MlKemKey_Decapsulate = (\<lambda>k c. (0, xor32 k (take 32 c)))\<rparr>"

lemma length_sample_digest [simp]: "length (sample_digest x) = 32"
  by (simp add: sample_digest_def)

lemma sample_wolf_sizes: "wolf_sizes sample_wolf"
  by (simp add: wolf_sizes_def sample_wolf_def)

lemma sample_wolf_works: "wolf_works sample_wolf"
  by (simp add: wolf_works_def sample_wolf_def)

section \<open>Properties\<close>

text \<open>C15: For every admissible choice of lengths \<open>hkdfSha256\<close> computes HKDF as RFC 5869
  defines it: extraction with the zero salt as default, and the first \<open>L\<close> bytes of the
  chained blocks, for all output lengths up to 255 blocks (the 8-bit counter never wraps).\<close>

theorem hkdf_is_rfc5869:
  assumes "wolf_sizes W" and "0 < L" and "L \<le> 255 * HASH_BYTES"
    and "length ikm \<le> UINT32_MAX" and "length salt \<le> UINT32_MAX" and "length info \<le> 128"
  shows "hkdfSha256 W ikm salt info L = rfc5869_hkdf W ikm salt info L"
  using assms hkdf_expand_rfc5869 [OF assms(1), of _ info L]
  by (auto simp: hkdfSha256_def rfc5869_hkdf_def Let_def)

theorem hkdf_is_rfc5869_witness:
  "hkdfSha256 sample_wolf [1, 2] [] [3] 40 = rfc5869_hkdf sample_wolf [1, 2] [] [3] 40"
  by (rule hkdf_is_rfc5869 [OF sample_wolf_sizes]) simp_all

end
