(* ===== verification/LmotsLms.thy ===== *)
theory LmotsLms
  imports CryptoHelpers
begin

text \<open>
  \<open>LmotsLms.h/.cpp\<close>: the LM-OTS one-time signature (SHA-256, n = 32, w = 4, p = 67) and
  the LMS tree of height 10 over it. This theory holds the operations, in the order of
  the source; the static members are functions of their arguments, the object is the
  record \<open>LmsState\<close>.

  The code assembles every hash input field by field in a scratch buffer, which no
  operation reads before it has written it. An operation is therefore modelled twice: by the value it
  computes, where the hash input is the concatenation of its fields, and, under its name
  with the suffix \<open>_scratch\<close>, by what it leaves in the buffer, where each \<open>memcpy\<close> is a
  \<open>write_at\<close> at the offset of the code. \<open>LmotsScratch\<close> shows that the bytes hashed are
  those in the buffer, and that the buffers are not overrun.
\<close>

abbreviation (input) LMOTS_TYPE :: u32 where "LMOTS_TYPE \<equiv> 3"
abbreviation (input) LMOTS_P :: nat where "LMOTS_P \<equiv> 67"
abbreviation (input) LMOTS_LS :: nat where "LMOTS_LS \<equiv> 4"
abbreviation (input) MAX_CHAIN :: u8 where "MAX_CHAIN \<equiv> 15"
abbreviation (input) D_PBLC :: u16 where "D_PBLC \<equiv> 0x8080"
abbreviation (input) D_MESG :: u16 where "D_MESG \<equiv> 0x8181"
abbreviation (input) D_LEAF :: u16 where "D_LEAF \<equiv> 0x8282"
abbreviation (input) D_INTR :: u16 where "D_INTR \<equiv> 0x8383"

section \<open>The one-time signature\<close>

definition coefficientW4 :: "bytes \<Rightarrow> nat \<Rightarrow> u8" where
  "coefficientW4 data index =
    (let value = data ! (index div 2)
     in if even index then drop_bit 4 value AND 0x0f else value AND 0x0f)"

definition derivePrivateElement :: "wolf \<Rightarrow> bytes \<Rightarrow> bytes \<Rightarrow> u32 \<Rightarrow> u16 \<Rightarrow> bytes res" where
  "derivePrivateElement W identifier seed q chainIndex =
    sha256 W (identifier @ putU32 q @ putU16 chainIndex @ [0xff] @ seed)"

lemma unat_next_step: "(j :: u8) < e \<Longrightarrow> unat (j + 1) = Suc (unat j)"
proof -
  assume "j < e"
  moreover have "unat e < 2 ^ LENGTH(8)" by (rule unsigned_less)
  ultimately show ?thesis by (simp add: word_less_nat_alt unat_word_ariths)
qed

text \<open>The loop \<open>for (j = startStep; j < endStep; ++j)\<close>, with \<open>current\<close> as its state.\<close>

function chainHash :: "wolf \<Rightarrow> bytes \<Rightarrow> u32 \<Rightarrow> u16 \<Rightarrow> u8 \<Rightarrow> u8 \<Rightarrow> bytes \<Rightarrow> bytes res" where
  "chainHash W identifier q chainIndex j endStep current =
    (if j < endStep then
       bindE (sha256 W (identifier @ putU32 q @ putU16 chainIndex @ [j] @ current))
         (\<lambda>next. chainHash W identifier q chainIndex (j + 1) endStep next)
     else Inr current)"
  by pat_completeness auto
termination
  by (relation "measure (\<lambda>(W, identifier, q, chainIndex, j, endStep, current). unat endStep - unat j)")
    (auto simp: unat_next_step word_less_nat_alt)

declare chainHash.simps [simp del]

definition checksumW4 :: "bytes \<Rightarrow> u16" where
  "checksumW4 digest =
    push_bit LMOTS_LS (foldl (\<lambda>checksum i. checksum + 15 - ucast (coefficientW4 digest i)) 0 [0..<64])"

definition hashMessageWithChecksum ::
  "wolf \<Rightarrow> bytes \<Rightarrow> u32 \<Rightarrow> bytes \<Rightarrow> bytes \<Rightarrow> nat \<Rightarrow> bytes res" where
  "hashMessageWithChecksum W identifier q C message scratchLength =
    (let required = 16 + 4 + 2 + HASH_BYTES + length message
     in if required > scratchLength then Inl Refused
        else bindE (sha256 W (identifier @ putU32 q @ putU16 D_MESG @ C @ message))
               (\<lambda>digest. Inr (digest @ putU16 (checksumW4 digest))))"

definition lmotsPublicHash :: "wolf \<Rightarrow> bytes \<Rightarrow> bytes \<Rightarrow> u32 \<Rightarrow> bytes res" where
  "lmotsPublicHash W identifier seed q =
    bindE (mapE (\<lambda>i. bindE (derivePrivateElement W identifier seed q (of_nat i))
                  (\<lambda>x. chainHash W identifier q (of_nat i) 0 MAX_CHAIN x)) [0..<LMOTS_P])
      (\<lambda>chainEnds. sha256 W (identifier @ putU32 q @ putU16 D_PBLC @ concat chainEnds))"

definition hashLeaf :: "wolf \<Rightarrow> bytes \<Rightarrow> u32 \<Rightarrow> bytes \<Rightarrow> bytes res" where
  "hashLeaf W identifier nodeNumber lmotsPublicHashValue =
    sha256 W (identifier @ putU32 nodeNumber @ putU16 D_LEAF @ lmotsPublicHashValue)"

definition hashInternal :: "wolf \<Rightarrow> bytes \<Rightarrow> u32 \<Rightarrow> bytes \<Rightarrow> bytes \<Rightarrow> bytes res" where
  "hashInternal W identifier nodeNumber left right =
    sha256 W (identifier @ putU32 nodeNumber @ putU16 D_INTR @ left @ right)"

section \<open>What the operations leave in the scratch buffers\<close>

text \<open>The 55 bytes of a chain input: identifier, index, chain, a tag byte and a value.\<close>

definition fillElement :: "bytes \<Rightarrow> u32 \<Rightarrow> u16 \<Rightarrow> u8 \<Rightarrow> bytes \<Rightarrow> bytes \<Rightarrow> bytes" where
  "fillElement identifier q chainIndex tag value scratch =
    (let scratch = write_at 0 identifier scratch;
         scratch = write_at 16 (putU32 q) scratch;
         scratch = write_at 20 (putU16 chainIndex) scratch;
         scratch = scratch[22 := tag]
     in write_at 23 value scratch)"

definition derivePrivateElement_scratch :: "bytes \<Rightarrow> bytes \<Rightarrow> u32 \<Rightarrow> u16 \<Rightarrow> bytes \<Rightarrow> bytes" where
  "derivePrivateElement_scratch identifier seed q chainIndex = fillElement identifier q chainIndex 0xff seed"

function chainHash_scratch :: "wolf \<Rightarrow> bytes \<Rightarrow> u32 \<Rightarrow> u16 \<Rightarrow> u8 \<Rightarrow> u8 \<Rightarrow> bytes \<Rightarrow> bytes \<Rightarrow> bytes" where
  "chainHash_scratch W identifier q chainIndex j endStep current scratch =
    (if j < endStep then
       let scratch = fillElement identifier q chainIndex j current scratch
       in case sha256 W (identifier @ putU32 q @ putU16 chainIndex @ [j] @ current) of
            Inl _ \<Rightarrow> scratch
          | Inr next \<Rightarrow> chainHash_scratch W identifier q chainIndex (j + 1) endStep next scratch
     else scratch)"
  by pat_completeness auto
termination
  by (relation "measure (\<lambda>(W, identifier, q, chainIndex, j, endStep, current, scratch). unat endStep - unat j)")
    (auto simp: unat_next_step word_less_nat_alt)

declare chainHash_scratch.simps [simp del]

definition hashMessageWithChecksum_scratch :: "bytes \<Rightarrow> u32 \<Rightarrow> bytes \<Rightarrow> bytes \<Rightarrow> nat \<Rightarrow> bytes \<Rightarrow> bytes" where
  "hashMessageWithChecksum_scratch identifier q C message scratchLength scratch =
    (let required = 16 + 4 + 2 + HASH_BYTES + length message
     in if required > scratchLength then scratch
        else
          let scratch = write_at 0 identifier scratch;
              scratch = write_at 16 (putU32 q) scratch;
              scratch = write_at 20 (putU16 D_MESG) scratch;
              scratch = write_at 22 C scratch
          in write_at 54 message scratch)"

text \<open>
  The loop over the chains \<open>is\<close>, each from its private element up to step \<open>ends i\<close>; the small
  buffer of \<open>lmotsPublicHash\<close> and of \<open>sign\<close>.
\<close>

fun chains_scratch :: "wolf \<Rightarrow> bytes \<Rightarrow> bytes \<Rightarrow> u32 \<Rightarrow> (nat \<Rightarrow> u8) \<Rightarrow> nat list \<Rightarrow> bytes \<Rightarrow> bytes" where
  "chains_scratch W identifier seed q ends [] scratch = scratch"
| "chains_scratch W identifier seed q ends (i # is) scratch =
    (let scratch = derivePrivateElement_scratch identifier seed q (of_nat i) scratch
     in case derivePrivateElement W identifier seed q (of_nat i) of
          Inl _ \<Rightarrow> scratch
        | Inr x \<Rightarrow>
            let scratch = chainHash_scratch W identifier q (of_nat i) 0 (ends i) x scratch
            in case chainHash W identifier q (of_nat i) 0 (ends i) x of
                 Inl _ \<Rightarrow> scratch
               | Inr _ \<Rightarrow> chains_scratch W identifier seed q ends is scratch)"

text \<open>The public buffer of \<open>lmotsPublicHash\<close>: the prefix, then the end of each chain.\<close>

fun chainEnds_scratch :: "(nat \<Rightarrow> bytes res) \<Rightarrow> nat list \<Rightarrow> bytes \<Rightarrow> bytes" where
  "chainEnds_scratch chain [] publicScratch = publicScratch"
| "chainEnds_scratch chain (i # is) publicScratch =
    (case chain i of
       Inl _ \<Rightarrow> publicScratch
     | Inr chainEnd \<Rightarrow> chainEnds_scratch chain is (write_at (22 + i * HASH_BYTES) chainEnd publicScratch))"

definition publicPrefix_scratch :: "bytes \<Rightarrow> u32 \<Rightarrow> bytes \<Rightarrow> bytes" where
  "publicPrefix_scratch identifier q publicScratch =
    (let publicScratch = write_at 0 identifier publicScratch;
         publicScratch = write_at 16 (putU32 q) publicScratch
     in write_at 20 (putU16 D_PBLC) publicScratch)"

definition lmotsPublicHash_scratch :: "wolf \<Rightarrow> bytes \<Rightarrow> bytes \<Rightarrow> u32 \<Rightarrow> bytes \<times> bytes \<Rightarrow> bytes \<times> bytes" where
  "lmotsPublicHash_scratch W identifier seed q = (\<lambda>(smallScratch, publicScratch).
    (chains_scratch W identifier seed q (\<lambda>i. MAX_CHAIN) [0..<LMOTS_P] smallScratch,
     chainEnds_scratch (\<lambda>i. bindE (derivePrivateElement W identifier seed q (of_nat i))
         (\<lambda>x. chainHash W identifier q (of_nat i) 0 MAX_CHAIN x)) [0..<LMOTS_P]
       (publicPrefix_scratch identifier q publicScratch)))"

definition hashLeaf_scratch :: "bytes \<Rightarrow> u32 \<Rightarrow> bytes \<Rightarrow> bytes \<Rightarrow> bytes" where
  "hashLeaf_scratch identifier nodeNumber lmotsPublicHashValue scratch =
    (let scratch = write_at 0 identifier scratch;
         scratch = write_at 16 (putU32 nodeNumber) scratch;
         scratch = write_at 20 (putU16 D_LEAF) scratch
     in write_at 22 lmotsPublicHashValue scratch)"

definition hashInternal_scratch :: "bytes \<Rightarrow> u32 \<Rightarrow> bytes \<Rightarrow> bytes \<Rightarrow> bytes \<Rightarrow> bytes" where
  "hashInternal_scratch identifier nodeNumber left right scratch =
    (let scratch = write_at 0 identifier scratch;
         scratch = write_at 16 (putU32 nodeNumber) scratch;
         scratch = write_at 20 (putU16 D_INTR) scratch;
         scratch = write_at 22 left scratch
     in write_at 54 right scratch)"

section \<open>The tree object\<close>

text \<open>\<open>m_tree\<close> is \<open>None\<close> while the pointer is null, otherwise the 2048 nodes.\<close>

record LmsState =
  m_identifier :: bytes
  m_seed :: bytes
  m_tree :: "bytes list option"
  m_smallHashInput :: bytes
  m_publicHashInput :: bytes

definition LmotsLms_ctor :: LmsState where
  "LmotsLms_ctor =
    \<lparr>m_identifier = zeros 16, m_seed = zeros HASH_BYTES, m_tree = None,
     m_smallHashInput = zeros 1024, m_publicHashInput = zeros (16 + 4 + 2 + LMOTS_P * HASH_BYTES)\<rparr>"

text \<open>\<open>mallocOk\<close>: \<open>heap_caps_malloc\<close> returned memory.\<close>

definition initialize :: "bool \<Rightarrow> bytes \<Rightarrow> bytes \<Rightarrow> LmsState \<Rightarrow> bool \<times> LmsState" where
  "initialize mallocOk identifierValue seedValue s =
    (let s = s\<lparr>m_identifier := identifierValue, m_seed := seedValue\<rparr>
     in if m_tree s = None \<and> \<not> mallocOk then (False, s)
        else (True, s\<lparr>m_tree := Some (replicate LMS_TREE_NODES (zeros HASH_BYTES))\<rparr>))"

fun buildLeaves ::
  "wolf \<Rightarrow> bytes \<Rightarrow> bytes \<Rightarrow> nat list \<Rightarrow> bytes list \<Rightarrow> unit res \<times> bytes list" where
  "buildLeaves W identifier seed [] tree = (Inr (), tree)"
| "buildLeaves W identifier seed (q # qs) tree =
    (case bindE (lmotsPublicHash W identifier seed (of_nat q))
            (hashLeaf W identifier (of_nat (LMS_LEAVES + q))) of
       Inl e \<Rightarrow> (Inl e, tree)
     | Inr digest \<Rightarrow> buildLeaves W identifier seed qs (tree[LMS_LEAVES + q := digest]))"

fun buildInternal :: "wolf \<Rightarrow> bytes \<Rightarrow> nat list \<Rightarrow> bytes list \<Rightarrow> unit res \<times> bytes list" where
  "buildInternal W identifier [] tree = (Inr (), tree)"
| "buildInternal W identifier (node # nodes) tree =
    (case hashInternal W identifier (of_nat node) (tree ! (2 * node)) (tree ! (2 * node + 1)) of
       Inl e \<Rightarrow> (Inl e, tree)
     | Inr digest \<Rightarrow> buildInternal W identifier nodes (tree[node := digest]))"

text \<open>The scratch buffers under the two loops.\<close>

fun buildLeaves_scratch :: "wolf \<Rightarrow> bytes \<Rightarrow> bytes \<Rightarrow> nat list \<Rightarrow> bytes \<times> bytes \<Rightarrow> bytes \<times> bytes" where
  "buildLeaves_scratch W identifier seed [] scratch = scratch"
| "buildLeaves_scratch W identifier seed (q # qs) scratch =
    (let (smallScratch, publicScratch) = lmotsPublicHash_scratch W identifier seed (of_nat q) scratch
     in case lmotsPublicHash W identifier seed (of_nat q) of
          Inl _ \<Rightarrow> (smallScratch, publicScratch)
        | Inr lmotsHash \<Rightarrow>
            let smallScratch = hashLeaf_scratch identifier (of_nat (LMS_LEAVES + q)) lmotsHash smallScratch
            in case hashLeaf W identifier (of_nat (LMS_LEAVES + q)) lmotsHash of
                 Inl _ \<Rightarrow> (smallScratch, publicScratch)
               | Inr _ \<Rightarrow> buildLeaves_scratch W identifier seed qs (smallScratch, publicScratch))"

fun buildInternal_scratch :: "wolf \<Rightarrow> bytes \<Rightarrow> nat list \<Rightarrow> bytes list \<Rightarrow> bytes \<Rightarrow> bytes" where
  "buildInternal_scratch W identifier [] tree scratch = scratch"
| "buildInternal_scratch W identifier (node # nodes) tree scratch =
    (let left = tree ! (2 * node); right = tree ! (2 * node + 1);
         scratch = hashInternal_scratch identifier (of_nat node) left right scratch
     in case hashInternal W identifier (of_nat node) left right of
          Inl _ \<Rightarrow> scratch
        | Inr digest \<Rightarrow> buildInternal_scratch W identifier nodes (tree[node := digest]) scratch)"

text \<open>
  The leaf loop returns at its first failure; the loop over the internal nodes, from
  1023 down to 1, erases the seed before it does.
\<close>

definition buildTree :: "wolf \<Rightarrow> LmsState \<Rightarrow> unit res \<times> LmsState" where
  "buildTree W s =
    (case m_tree s of
       None \<Rightarrow> (Inl Refused, s)
     | Some tree \<Rightarrow>
         let (smallScratch, publicScratch) =
           buildLeaves_scratch W (m_identifier s) (m_seed s) [0..<LMS_LEAVES] (m_smallHashInput s, m_publicHashInput s)
         in case buildLeaves W (m_identifier s) (m_seed s) [0..<LMS_LEAVES] tree of
              (Inl e, tree) \<Rightarrow>
                (Inl e, s\<lparr>m_tree := Some tree, m_smallHashInput := smallScratch, m_publicHashInput := publicScratch\<rparr>)
            | (Inr _, tree) \<Rightarrow>
                let smallScratch = buildInternal_scratch W (m_identifier s) (rev [1..<LMS_LEAVES]) tree smallScratch
                in case buildInternal W (m_identifier s) (rev [1..<LMS_LEAVES]) tree of
                     (r, tree) \<Rightarrow>
                       (r, s\<lparr>m_tree := Some tree, m_seed := secureZero HASH_BYTES (m_seed s),
                         m_smallHashInput := smallScratch, m_publicHashInput := publicScratch\<rparr>))"

definition root :: "LmsState \<Rightarrow> bytes option" where
  "root s = (case m_tree s of None \<Rightarrow> None | Some tree \<Rightarrow> Some (tree ! 1))"

primrec pathNodes :: "bytes list \<Rightarrow> nat \<Rightarrow> u32 \<Rightarrow> bytes list" where
  "pathNodes tree 0 node = []"
| "pathNodes tree (Suc levels) node =
    tree ! unat (node XOR 1) # pathNodes tree levels (drop_bit 1 node)"

definition extractPath :: "LmsState \<Rightarrow> u32 \<Rightarrow> bytes option" where
  "extractPath s q =
    (case m_tree s of
       None \<Rightarrow> None
     | Some tree \<Rightarrow>
         if q \<ge> 1024 then None else Some (concat (pathNodes tree LMS_HEIGHT (1024 + q))))"

lemma tree_under_scratch [simp]:
  "extractPath (s\<lparr>m_smallHashInput := small\<rparr>) q = extractPath s q" "root (s\<lparr>m_smallHashInput := small\<rparr>) = root s"
  by (simp_all add: extractPath_def root_def)

text \<open>\<open>C\<close>: the bytes \<open>esp_fill_random\<close> produced.\<close>

definition sign :: "wolf \<Rightarrow> LmsState \<Rightarrow> u32 \<Rightarrow> bytes \<Rightarrow> bytes \<Rightarrow> bytes \<Rightarrow> bytes res" where
  "sign W s q message runtimeSeed C =
    (if q \<ge> 1024 then Inl Refused
     else
       bindE (hashMessageWithChecksum W (m_identifier s) q C message 1024)
         (\<lambda>digestAndChecksum.
           bindE (mapE (\<lambda>i.
                    let a = coefficientW4 digestAndChecksum i
                    in bindE (derivePrivateElement W (m_identifier s) runtimeSeed q (of_nat i))
                         (\<lambda>x. chainHash W (m_identifier s) q (of_nat i) 0 a x)) [0..<LMOTS_P])
             (\<lambda>ys. Inr (putU32 LMOTS_TYPE @ C @ concat ys))))"

definition sign_scratch :: "wolf \<Rightarrow> LmsState \<Rightarrow> u32 \<Rightarrow> bytes \<Rightarrow> bytes \<Rightarrow> bytes \<Rightarrow> bytes" where
  "sign_scratch W s q message runtimeSeed C =
    (if q \<ge> 1024 then m_smallHashInput s
     else
       let scratch = hashMessageWithChecksum_scratch (m_identifier s) q C message 1024 (m_smallHashInput s)
       in case hashMessageWithChecksum W (m_identifier s) q C message 1024 of
            Inl _ \<Rightarrow> scratch
          | Inr digestAndChecksum \<Rightarrow>
              chains_scratch W (m_identifier s) runtimeSeed q (coefficientW4 digestAndChecksum) [0..<LMOTS_P] scratch)"

text \<open>\<open>sign\<close> on the object: the signature, or a failure, and the buffer it leaves.\<close>

definition LmotsLms_sign :: "wolf \<Rightarrow> LmsState \<Rightarrow> u32 \<Rightarrow> bytes \<Rightarrow> bytes \<Rightarrow> bytes \<Rightarrow> bytes res \<times> LmsState" where
  "LmotsLms_sign W s q message runtimeSeed C =
    (sign W s q message runtimeSeed C, s\<lparr>m_smallHashInput := sign_scratch W s q message runtimeSeed C\<rparr>)"

definition lmotsCandidatePublicHash :: "wolf \<Rightarrow> bytes \<Rightarrow> u32 \<Rightarrow> bytes \<Rightarrow> bytes \<Rightarrow> bytes res" where
  "lmotsCandidatePublicHash W identifier q message signature =
    (if getU32 signature \<noteq> LMOTS_TYPE then Inl Refused
     else
       let C = read_at 4 HASH_BYTES signature;
           yArray = drop (4 + HASH_BYTES) signature
       in bindE (hashMessageWithChecksum W identifier q C message 1024)
            (\<lambda>digestAndChecksum.
              bindE (mapE (\<lambda>i.
                       let a = coefficientW4 digestAndChecksum i
                       in chainHash W identifier q (of_nat i) a MAX_CHAIN
                            (read_at (i * HASH_BYTES) HASH_BYTES yArray)) [0..<LMOTS_P])
                (\<lambda>chainEnds. sha256 W (identifier @ putU32 q @ putU16 D_PBLC @ concat chainEnds))))"

fun climbPath :: "wolf \<Rightarrow> bytes \<Rightarrow> bytes \<Rightarrow> nat list \<Rightarrow> u32 \<Rightarrow> bytes \<Rightarrow> bytes res" where
  "climbPath W identifier path [] node current = Inr current"
| "climbPath W identifier path (level # levels) node current =
    (let sibling = read_at (level * HASH_BYTES) HASH_BYTES path;
         parentNode = drop_bit 1 node
     in bindE (if node AND 1 = 0 then hashInternal W identifier parentNode current sibling
               else hashInternal W identifier parentNode sibling current)
          (\<lambda>parent. climbPath W identifier path levels parentNode parent))"

definition candidateRoot :: "wolf \<Rightarrow> u32 \<Rightarrow> bytes \<Rightarrow> bytes \<Rightarrow> bytes \<Rightarrow> bytes \<Rightarrow> bytes res" where
  "candidateRoot W q message signature peerIdentifier peerPath =
    bindE (lmotsCandidatePublicHash W peerIdentifier q message signature)
      (\<lambda>lmotsHash. bindE (hashLeaf W peerIdentifier (1024 + q) lmotsHash)
        (\<lambda>current. climbPath W peerIdentifier peerPath [0..<LMS_HEIGHT] (1024 + q) current))"

definition verify :: "wolf \<Rightarrow> u32 \<Rightarrow> bytes \<Rightarrow> bytes \<Rightarrow> bytes \<Rightarrow> bytes \<Rightarrow> bytes \<Rightarrow> bool" where
  "verify W q message signature peerIdentifier peerPath peerRoot =
    (if q \<ge> 1024 then False
     else case candidateRoot W q message signature peerIdentifier peerPath of
       Inl _ \<Rightarrow> False
     | Inr current \<Rightarrow> constantTimeEqual current peerRoot HASH_BYTES)"

text \<open>The two static buffers of \<open>verify\<close>, \<open>smallScratch\<close> and \<open>publicScratch\<close>.\<close>

fun verifyChains_scratch :: "wolf \<Rightarrow> bytes \<Rightarrow> u32 \<Rightarrow> (nat \<Rightarrow> u8) \<Rightarrow> bytes \<Rightarrow> nat list \<Rightarrow> bytes \<Rightarrow> bytes" where
  "verifyChains_scratch W identifier q starts yArray [] scratch = scratch"
| "verifyChains_scratch W identifier q starts yArray (i # is) scratch =
    (let y = read_at (i * HASH_BYTES) HASH_BYTES yArray;
         scratch = chainHash_scratch W identifier q (of_nat i) (starts i) MAX_CHAIN y scratch
     in case chainHash W identifier q (of_nat i) (starts i) MAX_CHAIN y of
          Inl _ \<Rightarrow> scratch
        | Inr _ \<Rightarrow> verifyChains_scratch W identifier q starts yArray is scratch)"

definition lmotsCandidatePublicHash_scratch ::
  "wolf \<Rightarrow> bytes \<Rightarrow> u32 \<Rightarrow> bytes \<Rightarrow> bytes \<Rightarrow> bytes \<times> bytes \<Rightarrow> bytes \<times> bytes" where
  "lmotsCandidatePublicHash_scratch W identifier q message signature = (\<lambda>(smallScratch, publicScratch).
    if getU32 signature \<noteq> LMOTS_TYPE then (smallScratch, publicScratch)
    else
      let C = read_at 4 HASH_BYTES signature;
          yArray = drop (4 + HASH_BYTES) signature;
          smallScratch = hashMessageWithChecksum_scratch identifier q C message 1024 smallScratch
      in case hashMessageWithChecksum W identifier q C message 1024 of
           Inl _ \<Rightarrow> (smallScratch, publicScratch)
         | Inr digestAndChecksum \<Rightarrow>
             (verifyChains_scratch W identifier q (coefficientW4 digestAndChecksum) yArray [0..<LMOTS_P] smallScratch,
              chainEnds_scratch (\<lambda>i. chainHash W identifier q (of_nat i) (coefficientW4 digestAndChecksum i) MAX_CHAIN
                  (read_at (i * HASH_BYTES) HASH_BYTES yArray)) [0..<LMOTS_P]
                (publicPrefix_scratch identifier q publicScratch)))"

fun climbPath_scratch :: "wolf \<Rightarrow> bytes \<Rightarrow> bytes \<Rightarrow> nat list \<Rightarrow> u32 \<Rightarrow> bytes \<Rightarrow> bytes \<Rightarrow> bytes" where
  "climbPath_scratch W identifier path [] node current scratch = scratch"
| "climbPath_scratch W identifier path (level # levels) node current scratch =
    (let sibling = read_at (level * HASH_BYTES) HASH_BYTES path;
         parentNode = drop_bit 1 node;
         (left, right) = (if node AND 1 = 0 then (current, sibling) else (sibling, current));
         scratch = hashInternal_scratch identifier parentNode left right scratch
     in case hashInternal W identifier parentNode left right of
          Inl _ \<Rightarrow> scratch
        | Inr parent \<Rightarrow> climbPath_scratch W identifier path levels parentNode parent scratch)"

definition verify_scratch ::
  "wolf \<Rightarrow> u32 \<Rightarrow> bytes \<Rightarrow> bytes \<Rightarrow> bytes \<Rightarrow> bytes \<Rightarrow> bytes \<times> bytes \<Rightarrow> bytes \<times> bytes" where
  "verify_scratch W q message signature peerIdentifier peerPath buffers =
    (if q \<ge> 1024 then buffers
     else
       let (smallScratch, publicScratch) = lmotsCandidatePublicHash_scratch W peerIdentifier q message signature buffers
       in case lmotsCandidatePublicHash W peerIdentifier q message signature of
            Inl _ \<Rightarrow> (smallScratch, publicScratch)
          | Inr lmotsHash \<Rightarrow>
              let smallScratch = hashLeaf_scratch peerIdentifier (1024 + q) lmotsHash smallScratch
              in case hashLeaf W peerIdentifier (1024 + q) lmotsHash of
                   Inl _ \<Rightarrow> (smallScratch, publicScratch)
                 | Inr current \<Rightarrow>
                     (climbPath_scratch W peerIdentifier peerPath [0..<LMS_HEIGHT] (1024 + q) current smallScratch,
                      publicScratch))"

end
