(* ===== verification/FragmentedUdp.thy ===== *)
theory FragmentedUdp
  imports ProtocolConstants
begin

text \<open>
  \<open>FragmentedUdp.h/.cpp\<close>: a message of at most 3378 bytes is cut into fragments of 1000
  payload bytes behind a 14-byte header; the receiver collects the fragments of one
  message from one source until all have arrived or the time is over.

  The socket and the clock are not under our control and appear as arguments: for sending,
  what \<open>beginPacket\<close>, \<open>write\<close> and \<open>endPacket\<close> return for each fragment; for receiving, the
  list of what the successive iterations of the polling loop observe (\<open>poll\<close>). A list
  that ends before the loop has returned stands for a loop still running: \<open>None\<close>.
\<close>

section \<open>The object\<close>

text \<open>\<open>udpBegin\<close>: what \<open>m_udp.begin\<close> returned.\<close>

record FragmentedUdpState =
  m_localPort :: u16
  m_fragmentBuffer :: bytes

definition FragmentedUdp_ctor :: FragmentedUdpState where
  "FragmentedUdp_ctor = \<lparr>m_localPort = 0, m_fragmentBuffer = zeros (FRAGMENT_HEADER_BYTES + FRAGMENT_PAYLOAD_BYTES)\<rparr>"

definition FragmentedUdp_begin :: "int \<Rightarrow> u16 \<Rightarrow> FragmentedUdpState \<Rightarrow> bool \<times> FragmentedUdpState" where
  "FragmentedUdp_begin udpBegin localPort s = (udpBegin = 1, s\<lparr>m_localPort := localPort\<rparr>)"

section \<open>Sending\<close>

record send_outcome =
  beginPacketOk :: bool
  written :: nat
  endPacketOk :: bool

definition fragmentHeader :: "u8 \<Rightarrow> u32 \<Rightarrow> u16 \<Rightarrow> u8 \<Rightarrow> u8 \<Rightarrow> u16 \<Rightarrow> bytes" where
  "fragmentHeader type session len fragmentIndex fragmentCount payloadLength =
    putU16 FRAGMENT_MAGIC @ [PROTOCOL_VERSION, type] @ putU32 session @ putU16 len @
    [fragmentIndex, fragmentCount] @ putU16 payloadLength"

text \<open>
  The loop over the fragments. The result is the returned flag, \<open>framedBytes\<close>, and the
  datagrams handed to \<open>endPacket\<close> (a short write still ends its packet).
\<close>

fun sendFragments ::
  "(nat \<Rightarrow> send_outcome) \<Rightarrow> u8 \<Rightarrow> u32 \<Rightarrow> bytes \<Rightarrow> u16 \<Rightarrow> u8 \<Rightarrow> nat list \<Rightarrow> u32 \<Rightarrow>
   bool \<times> u32 \<times> bytes list" where
  "sendFragments net type session data len fragmentCount [] framedBytes = (True, framedBytes, [])"
| "sendFragments net type session data len fragmentCount (fragmentIndex # rest) framedBytes =
    (let sourceOffset = fragmentIndex * FRAGMENT_PAYLOAD_BYTES;
         payloadLength = of_nat (min FRAGMENT_PAYLOAD_BYTES (unat len - sourceOffset)) :: u16;
         datagram = fragmentHeader type session len (of_nat fragmentIndex) fragmentCount payloadLength @
           read_at sourceOffset (unat payloadLength) data;
         datagramLength = FRAGMENT_HEADER_BYTES + unat payloadLength;
         o' = net fragmentIndex
     in if \<not> beginPacketOk o' then (False, framedBytes, [])
        else if written o' \<noteq> datagramLength then (False, framedBytes, [take (written o') datagram])
        else if \<not> endPacketOk o' then (False, framedBytes, [datagram])
        else case sendFragments net type session data len fragmentCount rest
                    (framedBytes + of_nat datagramLength) of
               (ok, framed, datagrams) \<Rightarrow> (ok, framed, datagram # datagrams))"

definition sendMessage ::
  "(nat \<Rightarrow> send_outcome) \<Rightarrow> u8 \<Rightarrow> u32 \<Rightarrow> bytes \<Rightarrow> u16 \<Rightarrow> u32 \<Rightarrow> bool \<times> u32 \<times> bytes list" where
  "sendMessage net type session data len framedBytes =
    (if len = 0 \<or> unat len > MAX_PROTOCOL_MESSAGE_BYTES then (False, framedBytes, [])
     else
       let fragmentCount =
         of_nat ((unat len + FRAGMENT_PAYLOAD_BYTES - 1) div FRAGMENT_PAYLOAD_BYTES) :: u8
       in if fragmentCount = 0 \<or> unat fragmentCount > MAX_FRAGMENTS then (False, framedBytes, [])
          else sendFragments net type session data len fragmentCount [0..<unat fragmentCount] 0)"

section \<open>Receiving\<close>

text \<open>
  What one iteration observes: the clock at the loop head, the size \<open>parsePacket\<close>
  reports, the return value of \<open>read\<close>, \<open>m_fragmentBuffer\<close> after it, and the sender.
\<close>

record poll =
  pollMillis :: u32
  parsePacket :: int
  readLength :: int
  readBuffer :: bytes
  remoteIP :: u32
  remotePort :: u16

text \<open>What one call of \<open>receiveMessage\<close> observes.\<close>

record radio =
  rx_start :: u32
  rx_polls :: "poll list"

record datagram =
  d_type :: u8
  d_session :: u32
  d_totalLength :: u16
  d_fragmentIndex :: u8
  d_fragmentCount :: u8
  d_payloadLength :: u16
  d_sourceIp :: u32
  d_sourcePort :: u16
  d_datagramBytes :: u32

definition readOneDatagram :: "poll \<Rightarrow> datagram option" where
  "readOneDatagram p =
    (let buf = readBuffer p;
         fragmentIndex = buf ! 10;
         fragmentCount = buf ! 11;
         totalLength = getU16 (drop 8 buf);
         payloadLength = getU16 (drop 12 buf)
     in if parsePacket p \<le> 0 then None
        else if parsePacket p > int (FRAGMENT_HEADER_BYTES + FRAGMENT_PAYLOAD_BYTES) then None
        else if readLength p < int FRAGMENT_HEADER_BYTES then None
        else if getU16 buf \<noteq> FRAGMENT_MAGIC \<or> buf ! 2 \<noteq> PROTOCOL_VERSION then None
        else if fragmentCount = 0 \<or> unat fragmentCount > MAX_FRAGMENTS \<or>
                fragmentIndex \<ge> fragmentCount \<or> unat payloadLength > FRAGMENT_PAYLOAD_BYTES \<or>
                int (FRAGMENT_HEADER_BYTES + unat payloadLength) \<noteq> readLength p \<or>
                unat totalLength > MAX_PROTOCOL_MESSAGE_BYTES
        then None
        else Some \<lparr>d_type = buf ! 3, d_session = getU32 (drop 4 buf), d_totalLength = totalLength,
               d_fragmentIndex = fragmentIndex, d_fragmentCount = fragmentCount,
               d_payloadLength = payloadLength, d_sourceIp = remoteIP p,
               d_sourcePort = remotePort p, d_datagramBytes = of_int (readLength p)\<rparr>)"

record ReceivedPacket =
  r_type :: u8
  r_session :: u32
  r_length :: u16
  r_sourceIp :: u32
  r_sourcePort :: u16
  r_framedBytes :: u32

text \<open>The locals of \<open>receiveMessage\<close>, with the caller's output buffer.\<close>

record rx_state =
  receivedFragments :: "bool list"
  activeType :: u8
  activeSession :: u32
  activeLength :: u16
  activeCount :: u8
  completed :: u8
  active :: bool
  framedBytes :: u32
  activeIp :: u32
  activePort :: u16
  outputBuffer :: bytes

definition rx_init :: "bytes \<Rightarrow> rx_state" where
  "rx_init output =
    \<lparr>receivedFragments = replicate MAX_FRAGMENTS False, activeType = 0, activeSession = 0,
     activeLength = 0, activeCount = 0, completed = 0, active = False, framedBytes = 0,
     activeIp = 0, activePort = 0, outputBuffer = output\<rparr>"

text \<open>\<open>Continue s\<close>: the iteration ends and the loop goes on; \<open>Return r s\<close>: it returns true.\<close>

datatype rx_step = Continue rx_state | Return ReceivedPacket rx_state

definition activate :: "datagram \<Rightarrow> rx_state \<Rightarrow> rx_state" where
  "activate d s =
    s\<lparr>active := True, activeType := d_type d, activeSession := d_session d,
      activeLength := d_totalLength d, activeCount := d_fragmentCount d,
      activeIp := d_sourceIp d, activePort := d_sourcePort d, framedBytes := 0\<rparr>"

definition storeFragment :: "bytes \<Rightarrow> datagram \<Rightarrow> rx_state \<Rightarrow> rx_state" where
  "storeFragment payload d s =
    s\<lparr>outputBuffer := write_at (unat (d_fragmentIndex d) * FRAGMENT_PAYLOAD_BYTES) payload (outputBuffer s),
      receivedFragments := (receivedFragments s)[unat (d_fragmentIndex d) := True],
      completed := completed s + 1,
      framedBytes := framedBytes s + d_datagramBytes d\<rparr>"

text \<open>The checks after the header has been adopted, and the bookkeeping of one fragment.\<close>

definition finishOrContinue :: "rx_state \<Rightarrow> rx_step" where
  "finishOrContinue s =
    (if completed s = activeCount s
     then Return \<lparr>r_type = activeType s, r_session = activeSession s, r_length = activeLength s,
            r_sourceIp = activeIp s, r_sourcePort = activePort s, r_framedBytes = framedBytes s\<rparr> s
     else Continue s)"

definition acceptFragment :: "poll \<Rightarrow> datagram \<Rightarrow> rx_state \<Rightarrow> rx_step" where
  "acceptFragment p d s =
    (if d_type d \<noteq> activeType s \<or> d_session d \<noteq> activeSession s \<or>
        d_totalLength d \<noteq> activeLength s \<or> d_fragmentCount d \<noteq> activeCount s \<or>
        d_sourceIp d \<noteq> activeIp s \<or> d_sourcePort d \<noteq> activePort s
     then Continue s
     else if unat (d_fragmentIndex d) * FRAGMENT_PAYLOAD_BYTES + unat (d_payloadLength d) > unat (activeLength s)
     then Continue s
     else finishOrContinue
       (if receivedFragments s ! unat (d_fragmentIndex d) then s
        else storeFragment
          (read_at FRAGMENT_HEADER_BYTES (unat (d_payloadLength d)) (readBuffer p)) d s))"

definition receiveIteration :: "u8 \<Rightarrow> u32 \<Rightarrow> u16 \<Rightarrow> poll \<Rightarrow> rx_state \<Rightarrow> rx_step" where
  "receiveIteration expectedType expectedSession outputCapacity p s =
    (case readOneDatagram p of
       None \<Rightarrow> Continue s
     | Some d \<Rightarrow>
         if expectedType \<noteq> 0xff \<and> d_type d \<noteq> expectedType then Continue s
         else if expectedSession \<noteq> 0 \<and> d_session d \<noteq> expectedSession then Continue s
         else if active s then acceptFragment p d s
         else if d_totalLength d > outputCapacity then Continue s
         else acceptFragment p d (activate d s))"

fun receiveLoop ::
  "u8 \<Rightarrow> u32 \<Rightarrow> u16 \<Rightarrow> u32 \<Rightarrow> u32 \<Rightarrow> poll list \<Rightarrow> rx_state \<Rightarrow> (ReceivedPacket option \<times> bytes) option" where
  "receiveLoop expectedType expectedSession outputCapacity timeoutMs startMs [] s = None"
| "receiveLoop expectedType expectedSession outputCapacity timeoutMs startMs (p # ps) s =
    (if pollMillis p - startMs < timeoutMs then
       (case receiveIteration expectedType expectedSession outputCapacity p s of
          Continue s' \<Rightarrow> receiveLoop expectedType expectedSession outputCapacity timeoutMs startMs ps s'
        | Return r s' \<Rightarrow> Some (Some r, outputBuffer s'))
     else Some (None, outputBuffer s))"

definition receiveMessage ::
  "u8 \<Rightarrow> u32 \<Rightarrow> bytes \<Rightarrow> u16 \<Rightarrow> u32 \<Rightarrow> u32 \<Rightarrow> poll list \<Rightarrow> (ReceivedPacket option \<times> bytes) option" where
  "receiveMessage expectedType expectedSession output outputCapacity timeoutMs startMs polls =
    receiveLoop expectedType expectedSession outputCapacity timeoutMs startMs polls (rx_init output)"

text \<open>\<open>discardPending\<close>: drop queued datagrams (their \<open>parsePacket\<close> sizes) until none is left.\<close>

fun discardPending :: "int list \<Rightarrow> int list" where
  "discardPending [] = []"
| "discardPending (packetSize # queue) = (if packetSize > 0 then discardPending queue else packetSize # queue)"

end
