(* ===== verification/GcsLedgerClient.thy ===== *)
theory GcsLedgerClient
  imports LmotsLms FragmentedUdp
begin

text \<open>
  \<open>GcsLedgerClient.h/.cpp\<close>: the client of the public repository. Requests and responses
  are single datagrams authenticated with HMAC-SHA-256 under a key all parties share; a
  request is repeated up to four times, and the first response that is authentic and
  answers the question ends the exchange.

  As in \<open>FragmentedUdp\<close> the network is an argument: for every attempt what sending
  returned, the clock at its start and the list of polls. A call whose list of polls (or
  attempts) ends before it has returned is still running: \<open>None\<close>. The datagrams dropped
  before the first attempt are not observable and not part of the lists.
\<close>

section \<open>State and constants\<close>

abbreviation (input) OP_ENROLL_ROOT :: u8 where "OP_ENROLL_ROOT \<equiv> 1"
abbreviation (input) OP_ENROLL_PATH :: u8 where "OP_ENROLL_PATH \<equiv> 2"
abbreviation (input) OP_GET_ROOT :: u8 where "OP_GET_ROOT \<equiv> 3"
abbreviation (input) OP_GET_PATH :: u8 where "OP_GET_PATH \<equiv> 4"
abbreviation (input) OP_ROOT_RECORD :: u8 where "OP_ROOT_RECORD \<equiv> 5"
abbreviation (input) OP_PATH_RECORD :: u8 where "OP_PATH_RECORD \<equiv> 6"
abbreviation (input) OP_ACK :: u8 where "OP_ACK \<equiv> 7"
abbreviation (input) OP_NOT_FOUND :: u8 where "OP_NOT_FOUND \<equiv> 8"

abbreviation (input) ROOT_RECORD_BYTES :: nat where "ROOT_RECORD_BYTES \<equiv> 140"
abbreviation (input) PATH_RECORD_BYTES :: nat where "PATH_RECORD_BYTES \<equiv> 400"
abbreviation (input) GET_ROOT_BYTES :: nat where "GET_ROOT_BYTES \<equiv> 108"
abbreviation (input) GET_PATH_BYTES :: nat where "GET_PATH_BYTES \<equiv> 112"
abbreviation (input) ACK_BYTES :: nat where "ACK_BYTES \<equiv> 84"
abbreviation (input) MAX_GCS_PACKET_BYTES :: nat where "MAX_GCS_PACKET_BYTES \<equiv> PATH_RECORD_BYTES"
abbreviation (input) ANY_Q :: u32 where "ANY_Q \<equiv> 0xffffffff"

text \<open>The bytes \<open>GCS2\<close>.\<close>

definition GCS2 :: bytes where
  "GCS2 = [0x47, 0x43, 0x53, 0x32]"

record PeerPublicRecord =
  p_ready :: bool
  p_version :: u32
  p_identifier :: bytes
  p_root :: bytes
  p_suiteId :: u32
  p_status :: u8
  p_expiryUnix :: u64

definition PeerPublicRecord_init :: PeerPublicRecord where
  "PeerPublicRecord_init =
    \<lparr>p_ready = False, p_version = 0, p_identifier = zeros 16, p_root = zeros HASH_BYTES,
     p_suiteId = 0, p_status = CREDENTIAL_STATUS_PENDING, p_expiryUnix = 0\<rparr>"

record RepositoryOperationMetrics =
  elapsedUs :: u64
  op_txBytes :: u32
  op_rxBytes :: u32

text \<open>\<open>gcs_sent\<close> is not in the code: it records the datagrams handed to the network with their destinations.\<close>

record GcsState =
  m_gcsIp :: u32
  m_gcsPort :: u16
  m_gcsLocalPort :: u16
  m_deviceId :: bytes
  m_peerId :: bytes
  m_buffer :: bytes
  m_txBytes :: u32
  m_rxBytes :: u32
  gcs_sent :: "(u32 \<times> u16 \<times> bytes) list"

definition GcsLedgerClient_ctor :: GcsState where
  "GcsLedgerClient_ctor =
    \<lparr>m_gcsIp = 0, m_gcsPort = 0, m_gcsLocalPort = 0, m_deviceId = zeros ID_BYTES, m_peerId = zeros ID_BYTES,
     m_buffer = zeros MAX_GCS_PACKET_BYTES, m_txBytes = 0, m_rxBytes = 0, gcs_sent = []\<rparr>"

definition GcsLedgerClient_begin ::
  "int \<Rightarrow> u32 \<Rightarrow> u16 \<Rightarrow> u16 \<Rightarrow> bytes \<Rightarrow> bytes \<Rightarrow> GcsState \<Rightarrow> bool \<times> GcsState" where
  "GcsLedgerClient_begin udpBegin ip port localPort device peer s =
    (udpBegin = 1,
     s\<lparr>m_gcsIp := ip, m_gcsPort := port, m_gcsLocalPort := localPort, m_deviceId := device, m_peerId := peer\<rparr>)"

definition computeTag :: "wolf \<Rightarrow> bytes \<Rightarrow> bytes res" where
  "computeTag W data = hmacSha256 W GCS_LEDGER_HMAC_KEY data"

section \<open>One exchange\<close>

text \<open>How one poll ends: \<open>continue\<close>, \<open>return false\<close> or \<open>return true\<close> with the length.\<close>

datatype gcs_step = Ignore | NotFound | Accept nat

text \<open>\<open>buf\<close> is \<open>m_buffer\<close> after the read of \<open>len\<close> bytes from the repository's address.\<close>

definition authenticResponse :: "wolf \<Rightarrow> bytes \<Rightarrow> nat \<Rightarrow> bool" where
  "authenticResponse W buf len =
    (case computeTag W (take (len - HMAC_BYTES) buf) of
       Inl _ \<Rightarrow> False
     | Inr expectedTag \<Rightarrow> constantTimeEqual (drop (len - HMAC_BYTES) buf) expectedTag HMAC_BYTES)"

definition classifyResponse :: "u8 \<Rightarrow> u32 \<Rightarrow> u32 \<Rightarrow> bytes \<Rightarrow> nat \<Rightarrow> gcs_step" where
  "classifyResponse expectedOp expectedVersion expectedQ buf len =
    (let receivedOp = buf ! 4
     in if receivedOp = OP_NOT_FOUND then NotFound
        else if receivedOp \<noteq> expectedOp then Ignore
        else
          let receivedVersion =
                (if receivedOp = OP_ACK \<or> receivedOp = OP_ROOT_RECORD \<or> receivedOp = OP_PATH_RECORD
                 then getU32 (drop 40 buf) else 0);
              receivedQ =
                (if receivedOp = OP_ACK \<or> receivedOp = OP_PATH_RECORD then getU32 (drop 44 buf) else 0)
          in if receivedVersion \<noteq> expectedVersion \<or> (expectedQ \<noteq> ANY_Q \<and> receivedQ \<noteq> expectedQ)
             then Ignore else Accept len)"

definition pollResponse ::
  "wolf \<Rightarrow> u8 \<Rightarrow> u32 \<Rightarrow> u32 \<Rightarrow> poll \<Rightarrow> GcsState \<Rightarrow> gcs_step \<times> GcsState" where
  "pollResponse W expectedOp expectedVersion expectedQ p s =
    (if parsePacket p \<le> 0 then (Ignore, s)
     else if parsePacket p > int MAX_GCS_PACKET_BYTES then (Ignore, s)
     else
       let s = s\<lparr>m_buffer := readBuffer p\<rparr>
       in if readLength p < int (8 + HMAC_BYTES) then (Ignore, s)
          else
            let s = s\<lparr>m_rxBytes := m_rxBytes s + of_int (readLength p)\<rparr>
            in if remoteIP p \<noteq> m_gcsIp s \<or> remotePort p \<noteq> m_gcsPort s \<or> take 4 (m_buffer s) \<noteq> GCS2
               then (Ignore, s)
               else if \<not> authenticResponse W (m_buffer s) (nat (readLength p)) then (Ignore, s)
               else (classifyResponse expectedOp expectedVersion expectedQ (m_buffer s) (nat (readLength p)), s))"

text \<open>
  The inner loop of an attempt. \<open>Ignore\<close> as its result means that the time ran out.
\<close>

fun awaitResponse ::
  "wolf \<Rightarrow> u8 \<Rightarrow> u32 \<Rightarrow> u32 \<Rightarrow> u32 \<Rightarrow> poll list \<Rightarrow> GcsState \<Rightarrow> (gcs_step \<times> GcsState) option" where
  "awaitResponse W expectedOp expectedVersion expectedQ startMs [] s = None"
| "awaitResponse W expectedOp expectedVersion expectedQ startMs (p # ps) s =
    (if pollMillis p - startMs < GCS_TIMEOUT_MS then
       (case pollResponse W expectedOp expectedVersion expectedQ p s of
          (Ignore, s) \<Rightarrow> awaitResponse W expectedOp expectedVersion expectedQ startMs ps s
        | (r, s) \<Rightarrow> Some (r, s))
     else Some (Ignore, s))"

record gcs_attempt =
  sendOutcome :: send_outcome
  attemptStart :: u32
  attemptPolls :: "poll list"

text \<open>
  The attempts, \<open>left\<close> of them still allowed. The result is \<open>Some len\<close> for true with that
  response length and \<open>None\<close> for false.
\<close>

fun sendAttempts ::
  "wolf \<Rightarrow> bytes \<Rightarrow> u8 \<Rightarrow> u32 \<Rightarrow> u32 \<Rightarrow> nat \<Rightarrow> gcs_attempt list \<Rightarrow> GcsState \<Rightarrow> (nat option \<times> GcsState) option"
where
  "sendAttempts W request expectedOp expectedVersion expectedQ 0 attempts s = Some (None, s)"
| "sendAttempts W request expectedOp expectedVersion expectedQ (Suc left) [] s = None"
| "sendAttempts W request expectedOp expectedVersion expectedQ (Suc left) (a # attempts) s =
    (if \<not> beginPacketOk (sendOutcome a) then Some (None, s)
     else if written (sendOutcome a) \<noteq> length request \<or> \<not> endPacketOk (sendOutcome a) then Some (None, s)
     else
       let s = s\<lparr>m_txBytes := m_txBytes s + of_nat (length request), gcs_sent := gcs_sent s @ [(m_gcsIp s, m_gcsPort s, request)]\<rparr>
       in case awaitResponse W expectedOp expectedVersion expectedQ (attemptStart a) (attemptPolls a) s of
            None \<Rightarrow> None
          | Some (Accept len, s) \<Rightarrow> Some (Some len, s)
          | Some (NotFound, s) \<Rightarrow> Some (None, s)
          | Some (Ignore, s) \<Rightarrow> sendAttempts W request expectedOp expectedVersion expectedQ left attempts s)"

definition sendAndReceive ::
  "wolf \<Rightarrow> bytes \<Rightarrow> u8 \<Rightarrow> u32 \<Rightarrow> u32 \<Rightarrow> gcs_attempt list \<Rightarrow> GcsState \<Rightarrow> (nat option \<times> GcsState) option" where
  "sendAndReceive W request expectedOp expectedVersion expectedQ attempts s =
    sendAttempts W request expectedOp expectedVersion expectedQ GCS_RETRIES attempts s"

section \<open>Requests\<close>

text \<open>The tag goes into the last 32 bytes of the packet.\<close>

definition sealRequest :: "wolf \<Rightarrow> bytes \<Rightarrow> bytes res" where
  "sealRequest W request =
    bindE (computeTag W (take (length request - HMAC_BYTES) request))
      (\<lambda>tag. Inr (write_at (length request - HMAC_BYTES) tag request))"

definition enrollRootRequest :: "bytes \<Rightarrow> bytes \<Rightarrow> bytes \<Rightarrow> u32 \<Rightarrow> u32 \<Rightarrow> u8 \<Rightarrow> u64 \<Rightarrow> bytes" where
  "enrollRootRequest device ident rootValue version suiteId status expiryUnix =
    (let request = zeros ROOT_RECORD_BYTES;
         request = write_at 0 GCS2 request;
         request = request[4 := OP_ENROLL_ROOT];
         request = write_at 8 device request;
         request = write_at 40 (putU32 version) request;
         request = write_at 44 ident request;
         request = write_at 60 rootValue request;
         request = write_at 92 (putU32 suiteId) request;
         request = request[96 := status]
     in write_at 100 (putU64 expiryUnix) request)"

definition enrollPathRequest :: "bytes \<Rightarrow> u32 \<Rightarrow> u32 \<Rightarrow> bytes \<Rightarrow> bytes" where
  "enrollPathRequest device version q path =
    (let request = zeros PATH_RECORD_BYTES;
         request = write_at 0 GCS2 request;
         request = request[4 := OP_ENROLL_PATH];
         request = write_at 8 device request;
         request = write_at 40 (putU32 version) request;
         request = write_at 44 (putU32 q) request
     in write_at 48 path request)"

definition getRootRequest :: "bytes \<Rightarrow> bytes \<Rightarrow> u32 \<Rightarrow> bytes" where
  "getRootRequest device peer version =
    (let request = zeros GET_ROOT_BYTES;
         request = write_at 0 GCS2 request;
         request = request[4 := OP_GET_ROOT];
         request = write_at 8 device request;
         request = write_at 40 peer request
     in write_at 72 (putU32 version) request)"

definition getPathRequest :: "bytes \<Rightarrow> bytes \<Rightarrow> u32 \<Rightarrow> u32 \<Rightarrow> bytes" where
  "getPathRequest device peer version q =
    (let request = zeros GET_PATH_BYTES;
         request = write_at 0 GCS2 request;
         request = request[4 := OP_GET_PATH];
         request = write_at 8 device request;
         request = write_at 40 peer request;
         request = write_at 72 (putU32 version) request
     in write_at 76 (putU32 q) request)"

section \<open>Operations\<close>

text \<open>
  The pointer \<open>lms.root()\<close> is copied from without a null check: with no tree the call has
  no result.
\<close>

definition enrollOwnRoot ::
  "wolf \<Rightarrow> LmsState \<Rightarrow> u32 \<Rightarrow> u32 \<Rightarrow> u8 \<Rightarrow> u64 \<Rightarrow> gcs_attempt list \<Rightarrow> GcsState \<Rightarrow> (bool \<times> GcsState) option" where
  "enrollOwnRoot W lms version suiteId status expiryUnix attempts s =
    (case root lms of
       None \<Rightarrow> None
     | Some rootValue \<Rightarrow>
         (case sealRequest W (enrollRootRequest (m_deviceId s) (m_identifier lms) rootValue version suiteId status expiryUnix) of
            Inl _ \<Rightarrow> Some (False, s)
          | Inr request \<Rightarrow>
              (case sendAndReceive W request OP_ACK version ANY_Q attempts s of
                 None \<Rightarrow> None
               | Some (None, s) \<Rightarrow> Some (False, s)
               | Some (Some responseLength, s) \<Rightarrow>
                   Some (responseLength = ACK_BYTES \<and> m_buffer s ! 48 = 0, s))))"

text \<open>The loop over the paths; \<open>net i\<close> is what the exchange of round \<open>i\<close> observes.\<close>

fun enrollPathsFrom ::
  "wolf \<Rightarrow> LmsState \<Rightarrow> u32 \<Rightarrow> u32 \<Rightarrow> (nat \<Rightarrow> gcs_attempt list) \<Rightarrow> nat list \<Rightarrow> GcsState \<Rightarrow> (bool \<times> GcsState) option"
where
  "enrollPathsFrom W lms version first net [] s = Some (True, s)"
| "enrollPathsFrom W lms version first net (i # is) s =
    (let q = first + of_nat i
     in case extractPath lms q of
          None \<Rightarrow> Some (False, s)
        | Some path \<Rightarrow>
            (case sealRequest W (enrollPathRequest (m_deviceId s) version q path) of
               Inl _ \<Rightarrow> Some (False, s)
             | Inr request \<Rightarrow>
                 (case sendAndReceive W request OP_ACK version q (net i) s of
                    None \<Rightarrow> None
                  | Some (None, s) \<Rightarrow> Some (False, s)
                  | Some (Some responseLength, s) \<Rightarrow>
                      if responseLength \<noteq> ACK_BYTES \<or> m_buffer s ! 48 \<noteq> 0 then Some (False, s)
                      else enrollPathsFrom W lms version first net is s)))"

definition enrollOwnPaths ::
  "wolf \<Rightarrow> LmsState \<Rightarrow> u32 \<Rightarrow> u32 \<Rightarrow> u32 \<Rightarrow> (nat \<Rightarrow> gcs_attempt list) \<Rightarrow> GcsState \<Rightarrow> (bool \<times> GcsState) option" where
  "enrollOwnPaths W lms version first count net s =
    (if count = 0 \<or> first + count > 1024 then Some (False, s)
     else enrollPathsFrom W lms version first net [0..<unat count] s)"

definition parseRootRecord :: "bytes \<Rightarrow> PeerPublicRecord" where
  "parseRootRecord buf =
    \<lparr>p_ready = True, p_version = getU32 (drop 40 buf), p_identifier = read_at 44 16 buf,
     p_root = read_at 60 HASH_BYTES buf, p_suiteId = getU32 (drop 92 buf), p_status = buf ! 96,
     p_expiryUnix = getU64 (drop 100 buf)\<rparr>"

text \<open>The wait rounds, \<open>left\<close> of them still allowed, one list of attempts for each.\<close>

fun fetchRootRounds ::
  "wolf \<Rightarrow> bytes \<Rightarrow> u32 \<Rightarrow> nat \<Rightarrow> gcs_attempt list list \<Rightarrow> GcsState \<Rightarrow> (PeerPublicRecord option \<times> GcsState) option"
where
  "fetchRootRounds W request version 0 rounds s = Some (None, s)"
| "fetchRootRounds W request version (Suc left) [] s = None"
| "fetchRootRounds W request version (Suc left) (attempts # rounds) s =
    (case sendAndReceive W request OP_ROOT_RECORD version ANY_Q attempts s of
       None \<Rightarrow> None
     | Some (Some responseLength, s) \<Rightarrow>
         if responseLength \<noteq> ROOT_RECORD_BYTES \<or> \<not> constantTimeEqual (drop 8 (m_buffer s)) (m_peerId s) ID_BYTES
         then Some (None, s)
         else Some (Some (parseRootRecord (m_buffer s)), s)
     | Some (None, s) \<Rightarrow> fetchRootRounds W request version left rounds s)"

definition fetchPeerRoot ::
  "wolf \<Rightarrow> u32 \<Rightarrow> gcs_attempt list list \<Rightarrow> GcsState \<Rightarrow> (PeerPublicRecord option \<times> GcsState) option" where
  "fetchPeerRoot W version rounds s =
    (case sealRequest W (getRootRequest (m_deviceId s) (m_peerId s) version) of
       Inl _ \<Rightarrow> Some (None, s)
     | Inr request \<Rightarrow> fetchRootRounds W request version 120 rounds s)"

text \<open>
  \<open>elapsed\<close>: the microseconds \<open>esp_timer\<close> measured around the exchange. The second
  component is \<open>*operationMetrics\<close> after the call, \<open>None\<close> when it was not written.
\<close>

definition fetchPeerPath ::
  "wolf \<Rightarrow> u32 \<Rightarrow> u32 \<Rightarrow> u64 \<Rightarrow> gcs_attempt list \<Rightarrow> GcsState \<Rightarrow>
   (bytes option \<times> RepositoryOperationMetrics option \<times> GcsState) option" where
  "fetchPeerPath W version q elapsed attempts s =
    (if q \<ge> 1024 then Some (None, None, s)
     else
       case sealRequest W (getPathRequest (m_deviceId s) (m_peerId s) version q) of
         Inl _ \<Rightarrow> Some (None, None, s)
       | Inr request \<Rightarrow>
           (case sendAndReceive W request OP_PATH_RECORD version q attempts s of
              None \<Rightarrow> None
            | Some (received, s') \<Rightarrow>
                let metrics = \<lparr>elapsedUs = elapsed, op_txBytes = m_txBytes s' - m_txBytes s,
                                op_rxBytes = m_rxBytes s' - m_rxBytes s\<rparr>
                in if received \<noteq> Some PATH_RECORD_BYTES \<or>
                      \<not> constantTimeEqual (drop 8 (m_buffer s')) (m_peerId s') ID_BYTES
                   then Some (None, Some metrics, s')
                   else Some (Some (read_at 48 LMS_PATH_BYTES (m_buffer s')), Some metrics, s')))"

end
