(* ===== verification/ProposedUavProtocol.thy ===== *)
theory ProposedUavProtocol
  imports GcsLedgerClient
begin

text \<open>
  \<open>ProposedUavProtocol.h/.cpp\<close>, first part: the object (\<open>node\<close>), the locals of a session
  (\<open>session\<close>, an extension of the object's record), what a session observes of the outside
  world (\<open>env\<close>), and the operations the handlers are made of, in the order of the source.
  Serial output, delays and the memory statistics it prints are left out.

  \<open>PufFeProvider::reconstruct\<close> is declared in the repository and defined elsewhere: it is
  the field \<open>puf\<close> of the environment, as are the clock, the random bytes, the NVS write
  result and the network.
\<close>

abbreviation (input) RESULT_BYTES :: nat where "RESULT_BYTES \<equiv> 116"

section \<open>State\<close>

text \<open>
  \<open>nextq\<close> is the NVS entry \<open>"nextq"\<close> (\<open>None\<close> when absent). The transport's only lasting
  state is its local port. Two fields are not members and are only written, for stating
  properties: \<open>wire\<close> records what left the node, the destination and the datagrams of every
  message, and \<open>signatures\<close> every signature it made, the LM-OTS index and the signed object.
\<close>

record node =
  config :: NodeConfig
  m_lms :: LmsState
  m_peerRecord :: PeerPublicRecord
  m_gcs :: GcsState
  m_transport :: FragmentedUdpState
  nextq :: "u32 option"
  m_kemKey :: bytes
  m_rngInitialized :: bool
  m_kemInitialized :: bool
  m_ready :: bool
  m_initiatorCompleted :: bool
  m_bootSeed :: bytes
  m_m0 :: bytes
  m_m1 :: bytes
  m_m2 :: bytes
  m_m3 :: bytes
  m_m4 :: bytes
  m_mu :: bytes
  m_signInput :: bytes
  m_result :: bytes
  wire :: "(u32 \<times> u16 \<times> bytes list) list"
  signatures :: "(u32 \<times> bytes) list"

definition node_ctor :: "NodeConfig \<Rightarrow> u32 option \<Rightarrow> node" where
  "node_ctor cfg nvs =
    \<lparr>config = cfg, m_lms = LmotsLms_ctor, m_peerRecord = PeerPublicRecord_init, m_gcs = GcsLedgerClient_ctor,
     m_transport = FragmentedUdp_ctor, nextq = nvs, m_kemKey = [], m_rngInitialized = False,
     m_kemInitialized = False, m_ready = False, m_initiatorCompleted = False, m_bootSeed = zeros HASH_BYTES,
     m_m0 = zeros M0_BYTES, m_m1 = zeros M1_BYTES, m_m2 = zeros M2_MAX_BYTES, m_m3 = zeros M3_MAX_BYTES,
     m_m4 = zeros M4_BYTES, m_mu = zeros MU_A_BYTES, m_signInput = zeros LMOTS_SIGNED_OBJECT_BYTES,
     m_result = zeros 128, wire = [], signatures = []\<rparr>"

text \<open>The locals of \<open>runInitiatorSession\<close> and \<open>runResponderOnce\<close>.\<close>

record session = node +
  l_metrics :: LocalMetrics
  l_packet :: ReceivedPacket
  l_session :: u32
  l_nonceA :: bytes
  l_nonceB :: bytes
  l_sid :: bytes
  l_hashM2 :: bytes
  l_transcriptHash :: bytes
  l_runtimeSeed :: bytes
  l_sharedSecret :: bytes
  l_sessionKey :: bytes
  l_confirmA :: bytes
  l_confirmB :: bytes
  l_tauA :: bytes
  l_tauB :: bytes
  l_peerPath :: bytes
  l_qA :: u32
  l_qB :: u32
  l_accepted :: bool

text \<open>
  What a session observes, in the order of use: the sends and receives are numbered from
  0, and so are the timed sections (0 SID0, 1 KEM, 2 PUF, 3 seed KDF, 4 signing, 5 hash of
  M2, 6 verification, 7 decapsulation, 8 transcript, 9 HKDF, 10 tag of B, 11 tag of A,
  12 the whole protocol).
\<close>

record env =
  puf :: "NodeConfig \<Rightarrow> bytes option"
  e_nonce :: bytes
  e_session :: u32
  e_kemRandom :: bytes
  e_putOk :: bool
  e_C :: bytes
  e_now :: int
  e_gcs :: "gcs_attempt list"
  e_gcsUs :: u64
  e_sends :: "nat \<Rightarrow> nat \<Rightarrow> send_outcome"
  e_recvs :: "nat \<Rightarrow> radio"
  e_us :: "nat \<Rightarrow> u64"
  e_freeHeap :: u32
  e_minFreeHeap :: u32

section \<open>Peer record, counter and KEM object\<close>

definition validatePeerRecord :: "int \<Rightarrow> u32 \<Rightarrow> 'a node_scheme \<Rightarrow> bool" where
  "validatePeerRecord now version n =
    (let r = m_peerRecord n
     in if \<not> p_ready r \<or> p_version r \<noteq> version \<or> p_version r \<noteq> peerCredentialVersion (config n) \<or>
           p_suiteId r \<noteq> suiteIdForMode (pathMode (config n)) \<or> p_status r \<noteq> CREDENTIAL_STATUS_ACTIVE
        then False
        else if p_expiryUnix r \<noteq> 0 then \<not> (now < 1700000000 \<or> of_int now > p_expiryUnix r)
        else True)"

text \<open>\<open>getUInt("nextq", firstQ)\<close>.\<close>

definition storedQ :: "'a node_scheme \<Rightarrow> u32" where
  "storedQ n = (case nextq n of None \<Rightarrow> firstQ (config n) | Some q \<Rightarrow> q)"

definition qOutOfRange :: "u32 \<Rightarrow> 'a node_scheme \<Rightarrow> bool" where
  "qOutOfRange nextQ n =
    (let endQ = firstQ (config n) + numberOfSessions (config n)
     in nextQ < firstQ (config n) \<or> nextQ \<ge> endQ \<or> nextQ \<ge> 1024)"

text \<open>\<open>nvsOk\<close>: \<open>Preferences.begin\<close>; \<open>putOk\<close>: the reset write took effect.\<close>

definition initializePersistentCounter :: "bool \<Rightarrow> bool \<Rightarrow> 'a node_scheme \<Rightarrow> bool \<times> 'a node_scheme" where
  "initializePersistentCounter nvsOk putOk n =
    (if \<not> nvsOk then (False, n)
     else
       let n = (if resetQCounter (config n) \<and> putOk then n\<lparr>nextq := Some (firstQ (config n))\<rparr> else n)
       in if qOutOfRange (storedQ n) n then (False, n) else (True, n))"

text \<open>A write that reports 0 bytes leaves the entry as it was.\<close>

definition reserveQ :: "bool \<Rightarrow> 'a node_scheme \<Rightarrow> u32 option \<times> 'a node_scheme" where
  "reserveQ putOk n =
    (let nextQ = storedQ n
     in if qOutOfRange nextQ n then (None, n)
        else if \<not> putOk then (None, n)
        else (Some nextQ, n\<lparr>nextq := Some (nextQ + 1)\<rparr>))"

definition freeKem :: "'a node_scheme \<Rightarrow> 'a node_scheme" where
  "freeKem n = (if m_kemInitialized n then n\<lparr>m_kemKey := zeros (length (m_kemKey n)), m_kemInitialized := False\<rparr> else n)"

definition initializeKem :: "wolf \<Rightarrow> 'a node_scheme \<Rightarrow> bool \<times> 'a node_scheme" where
  "initializeKem W n =
    (let n = freeKem n
     in if wc_MlKemKey_Init W \<noteq> 0 then (False, n) else (True, n\<lparr>m_kemInitialized := True\<rparr>))"

section \<open>Sending and receiving\<close>

definition sendProtocolMessage ::
  "(nat \<Rightarrow> send_outcome) \<Rightarrow> u32 \<Rightarrow> u16 \<Rightarrow> u8 \<Rightarrow> u32 \<Rightarrow> bytes \<Rightarrow> nat \<Rightarrow> bool \<Rightarrow> session stage" where
  "sendProtocolMessage net destination destinationPort type session data len countAsProtocol c =
    (case sendMessage net type session (take len data) (of_nat len) 0 of
       (ok, framed, datagrams) \<Rightarrow>
         let c = c\<lparr>wire := wire c @ [(destination, destinationPort, datagrams)]\<rparr>;
             m = l_metrics c
         in if \<not> ok then (Some False, c)
            else if countAsProtocol
            then (Some True, c\<lparr>l_metrics := m\<lparr>appTxBytes := appTxBytes m + of_nat len,
                    framedTxBytes := framedTxBytes m + framed\<rparr>\<rparr>)
            else (Some True, c))"

text \<open>The result carries the caller's buffer after the call.\<close>

definition receiveProtocolMessage ::
  "radio \<Rightarrow> u8 \<Rightarrow> u32 \<Rightarrow> bytes \<Rightarrow> u16 \<Rightarrow> u16 \<Rightarrow> bool \<Rightarrow> session \<Rightarrow> bool option \<times> bytes \<times> session" where
  "receiveProtocolMessage rx expectedType expectedSession data capacity expectedLength countAsProtocol c =
    (case receiveMessage expectedType expectedSession data capacity RECEIVE_TIMEOUT_MS (rx_start rx) (rx_polls rx) of
       None \<Rightarrow> (None, data, c)
     | Some (None, data) \<Rightarrow> (Some False, data, c)
     | Some (Some packet, data) \<Rightarrow>
         let c = c\<lparr>l_packet := packet\<rparr>;
             m = l_metrics c
         in if expectedLength \<noteq> 0 \<and> r_length packet \<noteq> expectedLength then (Some False, data, c)
            else if countAsProtocol
            then (Some True, data, c\<lparr>l_metrics := m\<lparr>appRxBytes := appRxBytes m + ucast (r_length packet),
                    framedRxBytes := framedRxBytes m + r_framedBytes packet\<rparr>\<rparr>)
            else (Some True, data, c))"

end
