(* ===== verification/ProtocolMessages.thy ===== *)
theory ProtocolMessages
  imports ProposedUavProtocol
begin

text \<open>
  \<open>ProposedUavProtocol.cpp\<close>, second part: building and validating the direct messages, the
  session identifier, the two signed objects, the transcript hash, the key schedule and the
  confirmation tags. Each builder is the sequence of the code's writes into a zeroed member
  array; \<open>MessageLayout\<close> proves what the arrays contain. The \<open>timed\<close> wrappers add the
  measured time \<open>us\<close> to the metrics, whether the call succeeds or not.
\<close>

section \<open>M0 and M1\<close>

definition buildM0 :: "NodeConfig \<Rightarrow> bytes \<Rightarrow> bytes" where
  "buildM0 cfg nonceA =
    (let m = zeros M0_BYTES;
         m = m[0 := PROTOCOL_VERSION];
         m = m[1 := MSG_M0_REQ];
         m = write_at 2 (deviceId cfg) m;
         m = write_at 34 (peerId cfg) m;
         m = write_at 66 nonceA m
     in write_at 82 (putU32 (suiteIdForMode (pathMode cfg))) m)"

definition validateM0 :: "NodeConfig \<Rightarrow> bytes \<Rightarrow> bytes \<Rightarrow> bool" where
  "validateM0 cfg m0 nonceA \<longleftrightarrow>
    m0 ! 0 = PROTOCOL_VERSION \<and> m0 ! 1 = MSG_M0_REQ \<and>
    constantTimeEqual (drop 2 m0) (peerId cfg) ID_BYTES \<and>
    constantTimeEqual (drop 34 m0) (deviceId cfg) ID_BYTES \<and>
    constantTimeEqual (drop 66 m0) nonceA NONCE_BYTES \<and>
    getU32 (drop 82 m0) = suiteIdForMode (pathMode cfg)"

definition buildM1 :: "NodeConfig \<Rightarrow> bytes \<Rightarrow> bytes \<Rightarrow> bytes" where
  "buildM1 cfg nonceA nonceB =
    (let m = zeros M1_BYTES;
         m = m[0 := PROTOCOL_VERSION];
         m = m[1 := MSG_M1_CHAL];
         m = write_at 2 (deviceId cfg) m;
         m = write_at 34 (peerId cfg) m;
         m = write_at 66 nonceA m;
         m = write_at 82 nonceB m
     in write_at 98 (putU32 (suiteIdForMode (pathMode cfg))) m)"

text \<open>The result is the extracted \<open>nonceB\<close> when M1 is valid.\<close>

definition validateM1 :: "NodeConfig \<Rightarrow> bytes \<Rightarrow> bytes \<Rightarrow> bytes option" where
  "validateM1 cfg m1 nonceA =
    (if m1 ! 0 = PROTOCOL_VERSION \<and> m1 ! 1 = MSG_M1_CHAL \<and>
        constantTimeEqual (drop 2 m1) (peerId cfg) ID_BYTES \<and>
        constantTimeEqual (drop 34 m1) (deviceId cfg) ID_BYTES \<and>
        constantTimeEqual (drop 66 m1) nonceA NONCE_BYTES \<and>
        getU32 (drop 98 m1) = suiteIdForMode (pathMode cfg)
     then Some (read_at 82 NONCE_BYTES m1) else None)"

section \<open>Hashed and signed objects\<close>

definition computeSid0 :: "wolf \<Rightarrow> bytes \<Rightarrow> bytes \<Rightarrow> bytes res" where
  "computeSid0 W m0 m1 =
    sha256 W ([PROTOCOL_VERSION, DOMAIN_SID0] @ putU16 (of_nat M0_BYTES) @ m0 @ putU16 (of_nat M1_BYTES) @ m1)"

definition idA :: "NodeConfig \<Rightarrow> bytes" where
  "idA cfg = (if role cfg = Initiator then deviceId cfg else peerId cfg)"

definition idB :: "NodeConfig \<Rightarrow> bytes" where
  "idB cfg = (if role cfg = Initiator then peerId cfg else deviceId cfg)"

text \<open>The wrapping of \<open>m_mu\<close> into \<open>m_signInput\<close>, the same code in both builders.\<close>

definition wrapSigned :: "bytes \<Rightarrow> nat \<Rightarrow> u32 \<Rightarrow> bytes" where
  "wrapSigned mu muBytes q =
    (let s = zeros LMOTS_SIGNED_OBJECT_BYTES;
         s = s[0 := PROTOCOL_VERSION];
         s = s[1 := DOMAIN_LMOTS_SIGN];
         s = write_at 2 (putU16 (of_nat muBytes)) s;
         s = write_at 4 mu s
     in write_at (4 + muBytes) (putU32 q) s)"

text \<open>\<open>m_mu\<close> and \<open>m_signInput\<close> after the call.\<close>

definition buildM2SignedInput :: "NodeConfig \<Rightarrow> bytes \<Rightarrow> u32 \<Rightarrow> u32 \<Rightarrow> bytes \<Rightarrow> bytes \<times> bytes" where
  "buildM2SignedInput cfg sid version q publicKey =
    (let mu = zeros MU_A_BYTES;
         mu = mu[0 := PROTOCOL_VERSION];
         mu = mu[1 := DOMAIN_INIT];
         mu = write_at 2 sid mu;
         mu = write_at 34 (idA cfg) mu;
         mu = write_at 66 (idB cfg) mu;
         mu = write_at 98 (putU32 version) mu;
         mu = write_at 102 publicKey mu
     in (mu, wrapSigned mu MU_A_BYTES q))"

definition buildM3SignedInput :: "NodeConfig \<Rightarrow> bytes \<Rightarrow> bytes \<Rightarrow> u32 \<Rightarrow> u32 \<Rightarrow> bytes \<Rightarrow> bytes \<times> bytes" where
  "buildM3SignedInput cfg sid hashM2 version q ciphertext =
    (let mu = zeros MU_B_BYTES;
         mu = mu[0 := PROTOCOL_VERSION];
         mu = mu[1 := DOMAIN_RESP];
         mu = write_at 2 sid mu;
         mu = write_at 34 hashM2 mu;
         mu = write_at 66 (idA cfg) mu;
         mu = write_at 98 (idB cfg) mu;
         mu = write_at 130 (putU32 version) mu;
         mu = write_at 134 ciphertext mu
     in (mu, wrapSigned mu MU_B_BYTES q))"

section \<open>Transcript hash\<close>

text \<open>
  The loop over the length-prefixed fields: \<open>ctx\<close> is what the SHA-256 context has
  absorbed and \<open>ret\<close> the return code so far.
\<close>

fun transcriptFields :: "wolf \<Rightarrow> bytes list \<Rightarrow> bytes \<Rightarrow> int \<Rightarrow> int \<times> bytes" where
  "transcriptFields W [] ctx ret = (ret, ctx)"
| "transcriptFields W (fld # flds) ctx ret =
    (if ret \<noteq> 0 \<or> length fld > 65535 then (-1, ctx)
     else
       let header = putU16 (of_nat (length fld));
           ret = wc_Sha256Update W ctx header;
           ctx = ctx @ header
       in if ret = 0 then transcriptFields W flds (ctx @ fld) (wc_Sha256Update W ctx fld)
          else transcriptFields W flds ctx ret)"

definition transcriptHash :: "wolf \<Rightarrow> bytes \<Rightarrow> bytes \<Rightarrow> bytes \<Rightarrow> bytes \<Rightarrow> bytes \<Rightarrow> bytes option" where
  "transcriptHash W sid m0 m1 m2 m3Inner =
    (let domain = [PROTOCOL_VERSION, DOMAIN_TRANSCRIPT];
         ret = wc_InitSha256 W;
         ret = (if ret = 0 then wc_Sha256Update W [] domain else ret);
         ret = (if ret = 0 then wc_Sha256Update W domain sid else ret);
         (ret, ctx) = transcriptFields W [m0, m1, m2, m3Inner] (domain @ sid) ret;
         (ret, output) = (if ret = 0 then wc_Sha256Final W ctx else (ret, []))
     in if ret \<noteq> 0 then None else Some output)"

section \<open>Keys and tags\<close>

text \<open>The session key and the two confirmation keys, in the order of the key material.\<close>

definition deriveSessionKeys :: "wolf \<Rightarrow> bytes \<Rightarrow> bytes \<Rightarrow> (bytes \<times> bytes \<times> bytes) res" where
  "deriveSessionKeys W sharedSecret transcript =
    bindE (hkdfSha256 W sharedSecret transcript
        ([PROTOCOL_VERSION, DOMAIN_UAV_AKE] @ putU16 (of_nat HASH_BYTES) @ transcript) SESSION_KEY_MATERIAL_BYTES)
      (\<lambda>material. Inr (read_at 0 HASH_BYTES material, read_at HASH_BYTES HASH_BYTES material,
        read_at (2 * HASH_BYTES) HASH_BYTES material))"

definition computeConfirmationTag :: "wolf \<Rightarrow> u8 \<Rightarrow> bytes \<Rightarrow> bytes \<Rightarrow> bytes res" where
  "computeConfirmationTag W domain confirmationKey transcript =
    hmacSha256 W confirmationKey ([PROTOCOL_VERSION, domain] @ putU16 (of_nat HASH_BYTES) @ transcript)"

definition runtimeSeed :: "wolf \<Rightarrow> (NodeConfig \<Rightarrow> bytes option) \<Rightarrow> NodeConfig \<Rightarrow> bytes option" where
  "runtimeSeed W reconstruct cfg =
    (case reconstruct cfg of
       None \<Rightarrow> None
     | Some pufRoot \<Rightarrow>
         (case deriveLmsSeed W pufRoot (deviceId cfg) (credentialVersion cfg) (lmsIdentifier cfg) of
            Inl _ \<Rightarrow> None
          | Inr seed \<Rightarrow> Some seed))"

section \<open>Timed operations on a session\<close>

definition addSha :: "u64 \<Rightarrow> session \<Rightarrow> session" where
  "addSha us c = c\<lparr>l_metrics := (l_metrics c)\<lparr>shaUs := shaUs (l_metrics c) + us\<rparr>\<rparr>"

definition addHmac :: "u64 \<Rightarrow> session \<Rightarrow> session" where
  "addHmac us c = c\<lparr>l_metrics := (l_metrics c)\<lparr>hmacUs := hmacUs (l_metrics c) + us\<rparr>\<rparr>"

definition addKem :: "u64 \<Rightarrow> session \<Rightarrow> session" where
  "addKem us c = c\<lparr>l_metrics := (l_metrics c)\<lparr>kemUs := kemUs (l_metrics c) + us\<rparr>\<rparr>"

definition addSign :: "u64 \<Rightarrow> session \<Rightarrow> session" where
  "addSign us c = c\<lparr>l_metrics := (l_metrics c)\<lparr>lmotsSignUs := lmotsSignUs (l_metrics c) + us\<rparr>\<rparr>"

definition addVerify :: "u64 \<Rightarrow> session \<Rightarrow> session" where
  "addVerify us c = c\<lparr>l_metrics := (l_metrics c)\<lparr>lmotsVerifyUs := lmotsVerifyUs (l_metrics c) + us\<rparr>\<rparr>"

definition addPufFe :: "u64 \<Rightarrow> session \<Rightarrow> session" where
  "addPufFe us c = c\<lparr>l_metrics := (l_metrics c)\<lparr>pufFeUs := pufFeUs (l_metrics c) + us\<rparr>\<rparr>"

definition timedSid0 :: "wolf \<Rightarrow> env \<Rightarrow> session stage" where
  "timedSid0 W e c =
    (let c = addSha (e_us e 0) c
     in case computeSid0 W (m_m0 c) (m_m1 c) of
          Inl _ \<Rightarrow> (Some False, c)
        | Inr sid \<Rightarrow> (Some True, c\<lparr>l_sid := sid\<rparr>))"

definition timedHashM2 :: "wolf \<Rightarrow> env \<Rightarrow> session stage" where
  "timedHashM2 W e c =
    (let c = addSha (e_us e 5) c
     in case sha256 W (take (m2BytesForMode (pathMode (config c))) (m_m2 c)) of
          Inl _ \<Rightarrow> (Some False, c)
        | Inr h \<Rightarrow> (Some True, c\<lparr>l_hashM2 := h\<rparr>))"

definition timedRuntimeSeed :: "wolf \<Rightarrow> env \<Rightarrow> session stage" where
  "timedRuntimeSeed W e c =
    (let c = addPufFe (e_us e 2) c
     in case puf e (config c) of
          None \<Rightarrow> (Some False, c)
        | Some _ \<Rightarrow>
            let c = addHmac (e_us e 3) c
            in case runtimeSeed W (puf e) (config c) of
                 None \<Rightarrow> (Some False, c)
               | Some seed \<Rightarrow> (Some True, c\<lparr>l_runtimeSeed := seed\<rparr>))"

definition timedTranscriptHash :: "wolf \<Rightarrow> env \<Rightarrow> bytes \<Rightarrow> session stage" where
  "timedTranscriptHash W e m3Inner c =
    (let c = addSha (e_us e 8) c
     in case transcriptHash W (l_sid c) (m_m0 c) (m_m1 c)
               (take (m2BytesForMode (pathMode (config c))) (m_m2 c)) m3Inner of
          None \<Rightarrow> (Some False, c)
        | Some h \<Rightarrow> (Some True, c\<lparr>l_transcriptHash := h\<rparr>))"

definition timedSessionKeys :: "wolf \<Rightarrow> env \<Rightarrow> session stage" where
  "timedSessionKeys W e c =
    (let c = addHmac (e_us e 9) c
     in case deriveSessionKeys W (l_sharedSecret c) (l_transcriptHash c) of
          Inl _ \<Rightarrow> (Some False, c)
        | Inr (key, confirmA, confirmB) \<Rightarrow>
            (Some True, c\<lparr>l_sessionKey := key, l_confirmA := confirmA, l_confirmB := confirmB\<rparr>))"

text \<open>The tag of B into \<open>tauB\<close> (or \<open>expectedTauB\<close>), the tag of A into \<open>tauA\<close> (or \<open>expectedTauA\<close>).\<close>

definition timedTagB :: "wolf \<Rightarrow> env \<Rightarrow> session stage" where
  "timedTagB W e c =
    (let c = addHmac (e_us e 10) c
     in case computeConfirmationTag W DOMAIN_B_CONFIRM (l_confirmB c) (l_transcriptHash c) of
          Inl _ \<Rightarrow> (Some False, c)
        | Inr tag \<Rightarrow> (Some True, c\<lparr>l_tauB := tag\<rparr>))"

definition timedTagA :: "wolf \<Rightarrow> env \<Rightarrow> session stage" where
  "timedTagA W e c =
    (let c = addHmac (e_us e 11) c
     in case computeConfirmationTag W DOMAIN_A_CONFIRM (l_confirmA c) (l_transcriptHash c) of
          Inl _ \<Rightarrow> (Some False, c)
        | Inr tag \<Rightarrow> (Some True, c\<lparr>l_tauA := tag\<rparr>))"

text \<open>In repository mode the fetch needs the authenticated response of the repository.\<close>

definition obtainPeerPath :: "wolf \<Rightarrow> env \<Rightarrow> u32 \<Rightarrow> u32 \<Rightarrow> bytes option \<Rightarrow> session stage" where
  "obtainPeerPath W e version q carriedPath c =
    (if pathMode (config c) = SignerCarried then
       (case carriedPath of
          None \<Rightarrow> (Some False, c)
        | Some path \<Rightarrow> (Some True, c\<lparr>l_peerPath := take LMS_PATH_BYTES path\<rparr>))
     else
       (case fetchPeerPath W version q (e_gcsUs e) (e_gcs e) (m_gcs c) of
          None \<Rightarrow> (None, c)
        | Some (None, _, gcs) \<Rightarrow> (Some False, c\<lparr>m_gcs := gcs\<rparr>)
        | Some (Some path, operation, gcs) \<Rightarrow>
            let c = c\<lparr>m_gcs := gcs, l_peerPath := path\<rparr>;
                m = l_metrics c
            in case operation of
                 None \<Rightarrow> (Some True, c)
               | Some op \<Rightarrow> (Some True, c\<lparr>l_metrics := m\<lparr>repositoryUs := repositoryUs m + elapsedUs op,
                   repositoryTxBytes := repositoryTxBytes m + op_txBytes op,
                   repositoryRxBytes := repositoryRxBytes m + op_rxBytes op\<rparr>\<rparr>)))"

definition wipeSessionSecrets :: "session \<Rightarrow> session" where
  "wipeSessionSecrets c =
    c\<lparr>l_runtimeSeed := secureZero HASH_BYTES (l_runtimeSeed c),
      l_sharedSecret := secureZero MLKEM_SHARED_SECRET_BYTES (l_sharedSecret c),
      l_sessionKey := secureZero HASH_BYTES (l_sessionKey c),
      l_confirmA := secureZero HASH_BYTES (l_confirmA c),
      l_confirmB := secureZero HASH_BYTES (l_confirmB c),
      m_mu := secureZero MU_A_BYTES (m_mu c),
      m_signInput := secureZero LMOTS_SIGNED_OBJECT_BYTES (m_signInput c)\<rparr>"

definition finalizeMetrics :: "LocalMetrics \<Rightarrow> LocalMetrics" where
  "finalizeMetrics m =
    m\<lparr>totalCryptoUs := shaUs m + hmacUs m + lmotsSignUs m + lmotsVerifyUs m + kemUs m + pufFeUs m\<rparr>"

end
