(* ===== verification/InitiatorSession.thy ===== *)
theory InitiatorSession
  imports ProtocolMessages
begin

text \<open>
  \<open>runInitiatorSession\<close> of \<open>ProposedUavProtocol.cpp\<close>: the initiator's side of the exchange
  M0 to M4, as a list of stages, each ending where the code can jump to \<open>cleanup\<close>, and the
  cleanup that every way out goes through. Sends are numbered 0 (M0), 1 (M2), 2 (M4), and
  receives 0 (M1), 1 (M3), 2 (RESULT).
\<close>

section \<open>Entering and leaving a session\<close>

definition enterSession :: "node \<Rightarrow> session" where
  "enterSession n = node.extend n
    (session.fields LocalMetrics_init
      \<lparr>r_type = 0, r_session = 0, r_length = 0, r_sourceIp = 0, r_sourcePort = 0, r_framedBytes = 0\<rparr>
      0 (zeros NONCE_BYTES) (zeros NONCE_BYTES) (zeros HASH_BYTES) (zeros HASH_BYTES) (zeros HASH_BYTES)
      (zeros HASH_BYTES) (zeros MLKEM_SHARED_SECRET_BYTES) (zeros HASH_BYTES) (zeros HASH_BYTES) (zeros HASH_BYTES)
      (zeros HMAC_BYTES) (zeros HMAC_BYTES) (zeros LMS_PATH_BYTES) 0 0 False)"

definition clearMessages :: "session \<Rightarrow> session" where
  "clearMessages c =
    c\<lparr>m_m0 := zeros M0_BYTES, m_m1 := zeros M1_BYTES, m_m2 := zeros M2_MAX_BYTES,
      m_m3 := zeros M3_MAX_BYTES, m_m4 := zeros M4_BYTES\<rparr>"

text \<open>The code after \<open>cleanup:\<close>.\<close>

definition sessionCleanup :: "session \<Rightarrow> session" where
  "sessionCleanup c =
    (let c = wipeSessionSecrets (freeKem c)
     in c\<lparr>l_tauA := secureZero HMAC_BYTES (l_tauA c), l_tauB := secureZero HMAC_BYTES (l_tauB c),
          l_peerPath := secureZero LMS_PATH_BYTES (l_peerPath c)\<rparr>)"

section \<open>M0, M1 and the KEM key\<close>

definition initiatorStart :: "env \<Rightarrow> session stage" where
  "initiatorStart e c =
    (let c = clearMessages c
     in (Some True, c\<lparr>l_session := e_session e OR 1, l_nonceA := e_nonce e, m_m0 := buildM0 (config c) (e_nonce e)\<rparr>))"

definition sendM0 :: "env \<Rightarrow> session stage" where
  "sendM0 e c =
    sendProtocolMessage (e_sends e 0) (responderIp (config c)) (protocolPort (config c)) MSG_M0_REQ
      (l_session c) (m_m0 c) M0_BYTES True c"

definition receiveM1 :: "env \<Rightarrow> session stage" where
  "receiveM1 e c =
    (case receiveProtocolMessage (e_recvs e 0) MSG_M1_CHAL (l_session c) (m_m1 c) (of_nat M1_BYTES) (of_nat M1_BYTES) True c of
       (r, m1, c) \<Rightarrow>
         let c = c\<lparr>m_m1 := m1\<rparr>
         in if r \<noteq> Some True then (r, c)
            else case validateM1 (config c) m1 (l_nonceA c) of
                   None \<Rightarrow> (Some False, c)
                 | Some nonceB \<Rightarrow> (Some True, c\<lparr>l_nonceB := nonceB\<rparr>))"

definition kemInit :: "wolf \<Rightarrow> session stage" where
  "kemInit W c = (case initializeKem W c of (ok, c) \<Rightarrow> (Some ok, c))"

text \<open>The public key is exported straight into M2.\<close>

definition makeKemKey :: "wolf \<Rightarrow> env \<Rightarrow> session stage" where
  "makeKemKey W e c =
    (case wc_MlKemKey_MakeKey W (e_kemRandom e) of
       (ret, key) \<Rightarrow>
         let c = c\<lparr>m_kemKey := key\<rparr>
         in if ret \<noteq> 0 then (Some False, addKem (e_us e 1) c)
            else case wc_MlKemKey_EncodePublicKey W key of
                   (ret, publicKey) \<Rightarrow>
                     let c = addKem (e_us e 1) (c\<lparr>m_m2 := write_at 42 publicKey (m_m2 c)\<rparr>)
                     in (Some (ret = 0), c))"

section \<open>M2\<close>

definition reserveQA :: "env \<Rightarrow> session stage" where
  "reserveQA e c =
    (case reserveQ (e_putOk e) c of
       (None, c) \<Rightarrow> (Some False, c)
     | (Some q, c) \<Rightarrow> (Some True, c\<lparr>l_qA := q\<rparr>))"

definition fillM2 :: "session stage" where
  "fillM2 c =
    (let m2 = m_m2 c;
         m2 = m2[0 := PROTOCOL_VERSION];
         m2 = m2[1 := MSG_M2_INIT];
         m2 = write_at 2 (l_sid c) m2;
         m2 = write_at 34 (putU32 (credentialVersion (config c))) m2;
         m2 = write_at 38 (putU32 (l_qA c)) m2;
         (mu, signInput) = buildM2SignedInput (config c) (l_sid c) (credentialVersion (config c)) (l_qA c)
           (read_at 42 MLKEM_PUBLIC_KEY_BYTES m2)
     in (Some True, c\<lparr>m_m2 := m2, m_mu := mu, m_signInput := signInput\<rparr>))"

definition signM2 :: "wolf \<Rightarrow> env \<Rightarrow> session stage" where
  "signM2 W e c =
    (let c = addSign (e_us e 4) c
     in case LmotsLms_sign W (m_lms c) (l_qA c) (m_signInput c) (l_runtimeSeed c) (e_C e) of
          (Inl _, lms) \<Rightarrow> (Some False, c\<lparr>m_lms := lms\<rparr>)
        | (Inr sig, lms) \<Rightarrow>
            (Some True, c\<lparr>m_lms := lms, m_m2 := write_at 842 sig (m_m2 c), signatures := signatures c @ [(l_qA c, m_signInput c)]\<rparr>))"

definition attachPathA :: "session stage" where
  "attachPathA c =
    (if pathMode (config c) = SignerCarried then
       (case extractPath (m_lms c) (l_qA c) of
          None \<Rightarrow> (Some False, c)
        | Some path \<Rightarrow> (Some True, c\<lparr>m_m2 := write_at M2_BASE_BYTES path (m_m2 c)\<rparr>))
     else (Some True, c))"

definition sendM2 :: "env \<Rightarrow> session stage" where
  "sendM2 e c =
    sendProtocolMessage (e_sends e 1) (r_sourceIp (l_packet c)) (r_sourcePort (l_packet c)) MSG_M2_INIT
      (l_session c) (m_m2 c) (m2BytesForMode (pathMode (config c))) True c"

section \<open>M3\<close>

definition receiveM3 :: "env \<Rightarrow> session stage" where
  "receiveM3 e c =
    (case receiveProtocolMessage (e_recvs e 1) MSG_M3_RESP_FIN (l_session c) (m_m3 c) (of_nat M3_MAX_BYTES)
            (of_nat (m3BytesForMode (pathMode (config c)))) True c of
       (r, m3, c) \<Rightarrow> (r, c\<lparr>m_m3 := m3\<rparr>))"

text \<open>\<open>inner\<close> points into M3.\<close>

definition m3Inner :: "session \<Rightarrow> bytes" where
  "m3Inner c = read_at 36 (m3InnerBytesForMode (pathMode (config c))) (m_m3 c)"

definition parseM3 :: "session stage" where
  "parseM3 c =
    (let m3 = m_m3 c; inner = drop 36 m3
     in if m3 ! 0 \<noteq> PROTOCOL_VERSION \<or> m3 ! 1 \<noteq> MSG_M3_RESP_FIN \<or>
           \<not> constantTimeEqual (drop 2 m3) (l_sid c) HASH_BYTES \<or>
           unat (getU16 (drop 34 m3)) \<noteq> m3InnerBytesForMode (pathMode (config c))
        then (Some False, c)
        else if inner ! 0 \<noteq> PROTOCOL_VERSION \<or> inner ! 1 \<noteq> MSG_M3_INNER \<or>
                \<not> constantTimeEqual (drop 2 inner) (l_sid c) HASH_BYTES
        then (Some False, c)
        else (Some True, c\<lparr>l_qB := getU32 (drop 38 inner)\<rparr>))"

definition checkPeerB :: "env \<Rightarrow> session stage" where
  "checkPeerB e c =
    (let versionB = getU32 (drop 34 (drop 36 (m_m3 c)))
     in guard (\<not> (l_qB c \<ge> 1024 \<or> \<not> validatePeerRecord (e_now e) versionB c)) c)"

definition obtainPathB :: "wolf \<Rightarrow> env \<Rightarrow> session stage" where
  "obtainPathB W e c =
    (let inner = drop 36 (m_m3 c);
         carriedPath = (if pathMode (config c) = SignerCarried then Some (drop M3_INNER_BASE_BYTES inner) else None)
     in obtainPeerPath W e (getU32 (drop 34 inner)) (l_qB c) carriedPath c)"

definition verifyM3 :: "wolf \<Rightarrow> env \<Rightarrow> session stage" where
  "verifyM3 W e c =
    (let inner = drop 36 (m_m3 c);
         (mu, signInput) = buildM3SignedInput (config c) (l_sid c) (l_hashM2 c) (getU32 (drop 34 inner)) (l_qB c)
           (read_at 42 MLKEM_CIPHERTEXT_BYTES inner);
         c = addVerify (e_us e 6) (c\<lparr>m_mu := mu, m_signInput := signInput\<rparr>)
     in (Some (verify W (l_qB c) signInput (drop 810 inner) (p_identifier (m_peerRecord c)) (l_peerPath c)
           (p_root (m_peerRecord c))), c))"

definition decapsulate :: "wolf \<Rightarrow> env \<Rightarrow> session stage" where
  "decapsulate W e c =
    (case wc_MlKemKey_Decapsulate W (m_kemKey c) (read_at 42 MLKEM_CIPHERTEXT_BYTES (drop 36 (m_m3 c))) of
       (ret, secret) \<Rightarrow> (Some (ret = 0), addKem (e_us e 7) (c\<lparr>l_sharedSecret := secret\<rparr>)))"

definition checkTauB :: "session stage" where
  "checkTauB c =
    guard (constantTimeEqual (l_tauB c)
      (drop (36 + m3InnerBytesForMode (pathMode (config c))) (m_m3 c)) HMAC_BYTES) c"

section \<open>M4 and RESULT\<close>

definition sendM4 :: "env \<Rightarrow> session stage" where
  "sendM4 e c =
    (let m4 = m_m4 c;
         m4 = m4[0 := PROTOCOL_VERSION];
         m4 = m4[1 := MSG_M4_INIT_FIN];
         m4 = write_at 2 (l_sid c) m4;
         m4 = write_at 34 (l_tauA c) m4
     in sendProtocolMessage (e_sends e 2) (r_sourceIp (l_packet c)) (r_sourcePort (l_packet c)) MSG_M4_INIT_FIN
          (l_session c) m4 M4_BYTES True (c\<lparr>m_m4 := m4\<rparr>))"

text \<open>The packet goes to a separate variable, \<open>resultPacket\<close>.\<close>

definition receiveResult :: "env \<Rightarrow> session stage" where
  "receiveResult e c =
    (let c = c\<lparr>l_metrics := (l_metrics c)\<lparr>protocolUs := e_us e 12\<rparr>\<rparr>;
         packet = l_packet c
     in case receiveProtocolMessage (e_recvs e 2) MSG_RESULT (l_session c) (m_result c) 128 (of_nat RESULT_BYTES) False c of
          (r, result, c) \<Rightarrow>
            let c = c\<lparr>m_result := result, l_packet := packet\<rparr>
            in if r \<noteq> Some True then (r, c)
               else (Some (result ! 0 = RESULT_OK), c\<lparr>l_metrics := finalizeMetrics (l_metrics c)\<rparr>))"

section \<open>The session\<close>

definition initiatorStages :: "wolf \<Rightarrow> env \<Rightarrow> session stage list" where
  "initiatorStages W e =
    [initiatorStart e, sendM0 e, receiveM1 e,
     timedSid0 W e, kemInit W, makeKemKey W e,
     reserveQA e, timedRuntimeSeed W e,
     fillM2, signM2 W e, attachPathA, timedHashM2 W e, sendM2 e,
     receiveM3 e, parseM3, checkPeerB e, obtainPathB W e, verifyM3 W e, decapsulate W e,
     \<lambda>c. timedTranscriptHash W e (m3Inner c) c, timedSessionKeys W e, timedTagB W e, checkTauB,
     timedTagA W e, sendM4 e, receiveResult e]"

text \<open>
  The result is \<open>None\<close> while the session waits for the network, otherwise the returned
  flag and the object afterwards.
\<close>

definition runInitiatorSession :: "wolf \<Rightarrow> env \<Rightarrow> node \<Rightarrow> (bool \<times> node) option" where
  "runInitiatorSession W e n =
    (case runStages (initiatorStages W e) (enterSession n) of
       (None, _) \<Rightarrow> None
     | (Some success, c) \<Rightarrow> Some (success, node.truncate (sessionCleanup c)))"

text \<open>The loop over the sessions, each with its own environment.\<close>

fun runSessions :: "wolf \<Rightarrow> (nat \<Rightarrow> env) \<Rightarrow> nat list \<Rightarrow> nat \<Rightarrow> node \<Rightarrow> (nat \<times> node) option" where
  "runSessions W es [] successful n = Some (successful, n)"
| "runSessions W es (run # runs) successful n =
    (case runInitiatorSession W (es run) n of
       None \<Rightarrow> None
     | Some (ok, n) \<Rightarrow> runSessions W es runs (if ok then successful + 1 else successful) n)"

definition runInitiatorExperiments :: "wolf \<Rightarrow> (nat \<Rightarrow> env) \<Rightarrow> node \<Rightarrow> (nat \<times> node) option" where
  "runInitiatorExperiments W es n =
    map_option (\<lambda>(successful, n). (successful, n\<lparr>m_initiatorCompleted := True\<rparr>))
      (runSessions W es [1..<Suc (unat (numberOfSessions (config n)))] 0 n)"

end
