(* ===== verification/ResponderSession.thy ===== *)
theory ResponderSession
  imports InitiatorSession
begin

text \<open>
  \<open>runResponderOnce\<close> and \<open>loop\<close> of \<open>ProposedUavProtocol.cpp\<close>, as stages like the initiator's.
  Receives are numbered 0 (M0), 1 (M2), 2 (M4), and sends 0 (M1), 1 (M3), 2 (RESULT). The
  handler returns nothing; the model returns its local \<open>accepted\<close>.
\<close>

section \<open>M0 and M1\<close>

text \<open>A failure to receive M0 returns without going through \<open>cleanup\<close>.\<close>

definition receiveM0 :: "env \<Rightarrow> session stage" where
  "receiveM0 e c =
    (let c = (clearMessages c)\<lparr>m_result := zeros 128\<rparr>
     in case receiveProtocolMessage (e_recvs e 0) MSG_M0_REQ 0 (m_m0 c) (of_nat M0_BYTES) (of_nat M0_BYTES) True c of
          (r, m0, c) \<Rightarrow> (r, c\<lparr>m_m0 := m0\<rparr>))"

definition answerM0 :: "env \<Rightarrow> session stage" where
  "answerM0 e c =
    (let nonceA = read_at 66 NONCE_BYTES (m_m0 c);
         c = c\<lparr>l_session := r_session (l_packet c), l_nonceA := nonceA\<rparr>
     in if \<not> validateM0 (config c) (m_m0 c) nonceA then (Some False, c)
        else (Some True, c\<lparr>l_nonceB := e_nonce e, m_m1 := buildM1 (config c) nonceA (e_nonce e)\<rparr>))"

text \<open>
  Later messages go to the source of M0: its address is kept in \<open>initiatorIp\<close> and
  \<open>initiatorPort\<close>, here arguments of the stages that send.
\<close>

definition sendM1 :: "env \<Rightarrow> u32 \<Rightarrow> u16 \<Rightarrow> session stage" where
  "sendM1 e initiatorIp initiatorPort c =
    sendProtocolMessage (e_sends e 0) initiatorIp initiatorPort MSG_M1_CHAL (l_session c) (m_m1 c) M1_BYTES True c"

section \<open>M2\<close>

definition receiveM2 :: "env \<Rightarrow> session stage" where
  "receiveM2 e c =
    (case receiveProtocolMessage (e_recvs e 1) MSG_M2_INIT (l_session c) (m_m2 c) (of_nat M2_MAX_BYTES)
            (of_nat (m2BytesForMode (pathMode (config c)))) True c of
       (r, m2, c) \<Rightarrow> (r, c\<lparr>m_m2 := m2\<rparr>))"

definition parseM2 :: "session stage" where
  "parseM2 c =
    (let m2 = m_m2 c
     in if m2 ! 0 \<noteq> PROTOCOL_VERSION \<or> m2 ! 1 \<noteq> MSG_M2_INIT \<or>
           \<not> constantTimeEqual (drop 2 m2) (l_sid c) HASH_BYTES
        then (Some False, c)
        else (Some True, c\<lparr>l_qA := getU32 (drop 38 m2)\<rparr>))"

definition checkPeerA :: "env \<Rightarrow> session stage" where
  "checkPeerA e c =
    (let versionA = getU32 (drop 34 (m_m2 c))
     in guard (\<not> (l_qA c \<ge> 1024 \<or> \<not> validatePeerRecord (e_now e) versionA c)) c)"

definition obtainPathA :: "wolf \<Rightarrow> env \<Rightarrow> session stage" where
  "obtainPathA W e c =
    (let carriedPath = (if pathMode (config c) = SignerCarried then Some (drop M2_BASE_BYTES (m_m2 c)) else None)
     in obtainPeerPath W e (getU32 (drop 34 (m_m2 c))) (l_qA c) carriedPath c)"

definition verifyM2 :: "wolf \<Rightarrow> env \<Rightarrow> session stage" where
  "verifyM2 W e c =
    (let m2 = m_m2 c;
         (mu, signInput) = buildM2SignedInput (config c) (l_sid c) (getU32 (drop 34 m2)) (l_qA c)
           (read_at 42 MLKEM_PUBLIC_KEY_BYTES m2);
         c = addVerify (e_us e 6) (c\<lparr>m_mu := mu, m_signInput := signInput\<rparr>)
     in (Some (verify W (l_qA c) signInput (drop 842 m2) (p_identifier (m_peerRecord c)) (l_peerPath c)
           (p_root (m_peerRecord c))), c))"

section \<open>M3\<close>

text \<open>The ciphertext goes straight into the inner part of M3.\<close>

definition encapsulate :: "wolf \<Rightarrow> env \<Rightarrow> session stage" where
  "encapsulate W e c =
    (case wc_MlKemKey_DecodePublicKey W (read_at 42 MLKEM_PUBLIC_KEY_BYTES (m_m2 c)) of
       (ret, key) \<Rightarrow>
         let c = c\<lparr>m_kemKey := key\<rparr>
         in if ret \<noteq> 0 then (Some False, addKem (e_us e 1) c)
            else case wc_MlKemKey_Encapsulate W key (e_kemRandom e) of
                   (ret, ciphertext, secret) \<Rightarrow>
                     let c = addKem (e_us e 1)
                       (c\<lparr>m_m3 := write_at (36 + 42) ciphertext (m_m3 c), l_sharedSecret := secret\<rparr>)
                     in (Some (ret = 0), c))"

definition reserveQB :: "env \<Rightarrow> session stage" where
  "reserveQB e c =
    (case reserveQ (e_putOk e) c of
       (None, c) \<Rightarrow> (Some False, c)
     | (Some q, c) \<Rightarrow> (Some True, c\<lparr>l_qB := q\<rparr>))"

definition fillM3Inner :: "session stage" where
  "fillM3Inner c =
    (let m3 = m_m3 c;
         m3 = m3[36 := PROTOCOL_VERSION];
         m3 = m3[37 := MSG_M3_INNER];
         m3 = write_at (36 + 2) (l_sid c) m3;
         m3 = write_at (36 + 34) (putU32 (credentialVersion (config c))) m3;
         m3 = write_at (36 + 38) (putU32 (l_qB c)) m3;
         (mu, signInput) = buildM3SignedInput (config c) (l_sid c) (l_hashM2 c) (credentialVersion (config c)) (l_qB c)
           (read_at (36 + 42) MLKEM_CIPHERTEXT_BYTES m3)
     in (Some True, c\<lparr>m_m3 := m3, m_mu := mu, m_signInput := signInput\<rparr>))"

definition signM3 :: "wolf \<Rightarrow> env \<Rightarrow> session stage" where
  "signM3 W e c =
    (let c = addSign (e_us e 4) c
     in case LmotsLms_sign W (m_lms c) (l_qB c) (m_signInput c) (l_runtimeSeed c) (e_C e) of
          (Inl _, lms) \<Rightarrow> (Some False, c\<lparr>m_lms := lms\<rparr>)
        | (Inr sig, lms) \<Rightarrow>
            (Some True, c\<lparr>m_lms := lms, m_m3 := write_at (36 + 810) sig (m_m3 c), signatures := signatures c @ [(l_qB c, m_signInput c)]\<rparr>))"

definition attachPathB :: "session stage" where
  "attachPathB c =
    (if pathMode (config c) = SignerCarried then
       (case extractPath (m_lms c) (l_qB c) of
          None \<Rightarrow> (Some False, c)
        | Some path \<Rightarrow> (Some True, c\<lparr>m_m3 := write_at (36 + M3_INNER_BASE_BYTES) path (m_m3 c)\<rparr>))
     else (Some True, c))"

definition fillM3Outer :: "session stage" where
  "fillM3Outer c =
    (let m3InnerLength = m3InnerBytesForMode (pathMode (config c));
         m3 = m_m3 c;
         m3 = m3[0 := PROTOCOL_VERSION];
         m3 = m3[1 := MSG_M3_RESP_FIN];
         m3 = write_at 2 (l_sid c) m3;
         m3 = write_at 34 (putU16 (of_nat m3InnerLength)) m3;
         m3 = write_at (36 + m3InnerLength) (l_tauB c) m3
     in (Some True, c\<lparr>m_m3 := m3\<rparr>))"

definition sendM3 :: "env \<Rightarrow> u32 \<Rightarrow> u16 \<Rightarrow> session stage" where
  "sendM3 e initiatorIp initiatorPort c =
    sendProtocolMessage (e_sends e 1) initiatorIp initiatorPort MSG_M3_RESP_FIN (l_session c) (m_m3 c)
      (m3BytesForMode (pathMode (config c))) True c"

section \<open>M4 and RESULT\<close>

definition receiveM4 :: "env \<Rightarrow> session stage" where
  "receiveM4 e c =
    (case receiveProtocolMessage (e_recvs e 2) MSG_M4_INIT_FIN (l_session c) (m_m4 c) (of_nat M4_BYTES) (of_nat M4_BYTES) True c of
       (r, m4, c) \<Rightarrow> (r, c\<lparr>m_m4 := m4\<rparr>))"

definition parseM4 :: "session stage" where
  "parseM4 c =
    guard (m_m4 c ! 0 = PROTOCOL_VERSION \<and> m_m4 c ! 1 = MSG_M4_INIT_FIN \<and>
      constantTimeEqual (drop 2 (m_m4 c)) (l_sid c) HASH_BYTES) c"

definition checkTauA :: "session stage" where
  "checkTauA c = guard (constantTimeEqual (l_tauA c) (drop 34 (m_m4 c)) HMAC_BYTES) c"

definition encodeResult :: "env \<Rightarrow> u32 \<Rightarrow> u32 \<Rightarrow> LocalMetrics \<Rightarrow> bytes \<Rightarrow> bytes" where
  "encodeResult e qa qb m result =
    (let r = write_at 0 (zeros RESULT_BYTES) result;
         r = r[0 := RESULT_OK];
         r = write_at 4 (putU32 qa) r;
         r = write_at 8 (putU32 qb) r;
         r = write_at 12 (putU64 (protocolUs m)) r;
         r = write_at 20 (putU64 (totalCryptoUs m)) r;
         r = write_at 28 (putU64 (shaUs m)) r;
         r = write_at 36 (putU64 (hmacUs m)) r;
         r = write_at 44 (putU64 (lmotsSignUs m)) r;
         r = write_at 52 (putU64 (lmotsVerifyUs m)) r;
         r = write_at 60 (putU64 (kemUs m)) r;
         r = write_at 68 (putU64 (pufFeUs m)) r;
         r = write_at 76 (putU64 (repositoryUs m)) r;
         r = write_at 84 (putU32 (appTxBytes m)) r;
         r = write_at 88 (putU32 (appRxBytes m)) r;
         r = write_at 92 (putU32 (framedTxBytes m)) r;
         r = write_at 96 (putU32 (framedRxBytes m)) r;
         r = write_at 100 (putU32 (repositoryTxBytes m)) r;
         r = write_at 104 (putU32 (repositoryRxBytes m)) r;
         r = write_at 108 (putU32 (e_freeHeap e)) r
     in write_at 112 (putU32 (e_minFreeHeap e)) r)"

text \<open>The outcome of sending the result is ignored, but a send happens.\<close>

definition acceptSession :: "env \<Rightarrow> u32 \<Rightarrow> u16 \<Rightarrow> session stage" where
  "acceptSession e initiatorIp initiatorPort c =
    (let m = finalizeMetrics ((l_metrics c)\<lparr>protocolUs := e_us e 12\<rparr>);
         c = c\<lparr>l_metrics := m, l_accepted := True,
               m_result := encodeResult e (l_qA c) (l_qB c) m (m_result c)\<rparr>
     in case sendProtocolMessage (e_sends e 2) initiatorIp initiatorPort MSG_RESULT (l_session c) (m_result c)
               RESULT_BYTES False c of
          (_, c) \<Rightarrow> (Some True, c))"

section \<open>The handler\<close>

definition responderStages :: "wolf \<Rightarrow> env \<Rightarrow> u32 \<Rightarrow> u16 \<Rightarrow> session stage list" where
  "responderStages W e ip port =
    [answerM0 e, timedSid0 W e, sendM1 e ip port,
     receiveM2 e, parseM2, checkPeerA e, timedHashM2 W e, obtainPathA W e, verifyM2 W e,
     kemInit W, encapsulate W e, reserveQB e, timedRuntimeSeed W e,
     fillM3Inner, signM3 W e, attachPathB,
     \<lambda>c. timedTranscriptHash W e (m3Inner c) c, timedSessionKeys W e, timedTagB W e, fillM3Outer, sendM3 e ip port,
     receiveM4 e, parseM4, timedTagA W e, checkTauA, acceptSession e ip port]"

definition runResponderOnce :: "wolf \<Rightarrow> env \<Rightarrow> node \<Rightarrow> (bool \<times> node) option" where
  "runResponderOnce W e n =
    (case receiveM0 e (enterSession n) of
       (None, _) \<Rightarrow> None
     | (Some False, c) \<Rightarrow> Some (False, node.truncate c)
     | (Some True, c0) \<Rightarrow>
         (case runStages (responderStages W e (r_sourceIp (l_packet c0)) (r_sourcePort (l_packet c0))) c0 of
            (None, _) \<Rightarrow> None
          | (Some _, c) \<Rightarrow> Some (l_accepted c, node.truncate (sessionCleanup c))))"

text \<open>One call of \<open>loop\<close>; \<open>es\<close> are the environments of the initiator's sessions, \<open>es 0\<close> the responder's.\<close>

definition protocolLoop :: "wolf \<Rightarrow> (nat \<Rightarrow> env) \<Rightarrow> node \<Rightarrow> node option" where
  "protocolLoop W es n =
    (if \<not> m_ready n then Some n
     else if role (config n) = Initiator then
       (if \<not> m_initiatorCompleted n then map_option snd (runInitiatorExperiments W es n) else Some n)
     else map_option snd (runResponderOnce W (es 0) n))"

end
