(* ===== verification/Provisioning.thy ===== *)
theory Provisioning
  imports ResponderSession
begin

text \<open>
  \<open>begin\<close> of \<open>ProposedUavProtocol.cpp\<close> and what it calls: the boot-time derivation of the
  LMS seed, the construction of the tree, the network, the enrolment of the node's public
  record, the fetch of the peer's, and the check of the persistent counter. Like the
  handlers, \<open>prepareLmsAndLedger\<close> is a list of stages over the object. Its printouts
  and the helper-data digest, which is only printed, leave no state.
\<close>

text \<open>What one boot observes of the outside world.\<close>

record boot =
  b_puf :: "NodeConfig \<Rightarrow> bytes option"
  b_mallocOk :: bool
  b_wifiStart :: u32
  b_wifiPolls :: "(bool \<times> u32) list"
  b_wifiConnected :: bool
  b_udpBegin :: int
  b_gcsUdpBegin :: int
  b_rootNet :: "gcs_attempt list"
  b_pathNet :: "nat \<Rightarrow> gcs_attempt list"
  b_fetchRounds :: "gcs_attempt list list"
  b_now :: int
  b_nvsOk :: bool
  b_putOk :: bool

text \<open>
  The wait for the access point: every poll is the connection status and the clock. The
  status is read once more after the loop.
\<close>

fun waitWiFi :: "u32 \<Rightarrow> (bool \<times> u32) list \<Rightarrow> bool" where
  "waitWiFi startMs [] = False"
| "waitWiFi startMs ((connected, now) # polls) =
    (if \<not> connected \<and> now - startMs < 30000 then waitWiFi startMs polls else True)"

definition connectWiFi :: "boot \<Rightarrow> node stage" where
  "connectWiFi b n =
    (if \<not> waitWiFi (b_wifiStart b) (b_wifiPolls b) then (None, n) else (Some (b_wifiConnected b), n))"

section \<open>Preparing the tree\<close>

definition deriveBootSeed :: "wolf \<Rightarrow> boot \<Rightarrow> node stage" where
  "deriveBootSeed W b n =
    (case helperDataDigest W (hardcodedHelperData (config n)) of
       Inl _ \<Rightarrow> (Some False, n)
     | Inr _ \<Rightarrow>
         (case b_puf b (config n) of
            None \<Rightarrow> (Some False, n)
          | Some pufRoot \<Rightarrow>
              (case deriveLmsSeed W pufRoot (deviceId (config n)) (credentialVersion (config n)) (lmsIdentifier (config n)) of
                 Inl _ \<Rightarrow> (Some False, n)
               | Inr seed \<Rightarrow> (Some True, n\<lparr>m_bootSeed := seed\<rparr>))))"

definition initializeLms :: "boot \<Rightarrow> node stage" where
  "initializeLms b n =
    (case initialize (b_mallocOk b) (lmsIdentifier (config n)) (m_bootSeed n) (m_lms n) of
       (ok, lms) \<Rightarrow> (Some ok, n\<lparr>m_lms := lms\<rparr>))"

definition buildLmsTree :: "wolf \<Rightarrow> node stage" where
  "buildLmsTree W n =
    (case buildTree W (m_lms n) of
       (Inl _, lms) \<Rightarrow> (Some False, n\<lparr>m_lms := lms\<rparr>)
     | (Inr _, lms) \<Rightarrow> (Some True, n\<lparr>m_lms := lms, m_bootSeed := secureZero HASH_BYTES (m_bootSeed n)\<rparr>))"

section \<open>Network and repository\<close>

definition startTransport :: "boot \<Rightarrow> node stage" where
  "startTransport b n =
    (case FragmentedUdp_begin (b_udpBegin b) (protocolPort (config n)) (m_transport n) of
       (ok, t) \<Rightarrow> (Some ok, n\<lparr>m_transport := t\<rparr>))"

definition startGcs :: "boot \<Rightarrow> node stage" where
  "startGcs b n =
    (let cfg = config n
     in case GcsLedgerClient_begin (b_gcsUdpBegin b) (gcsIp cfg) (gcsPort cfg) (gcsLocalPort cfg)
               (deviceId cfg) (peerId cfg) (m_gcs n) of
          (ok, g) \<Rightarrow> (Some ok, n\<lparr>m_gcs := g\<rparr>))"

definition publishRoot :: "wolf \<Rightarrow> boot \<Rightarrow> node stage" where
  "publishRoot W b n =
    (case enrollOwnRoot W (m_lms n) (credentialVersion (config n)) (suiteIdForMode (pathMode (config n)))
            CREDENTIAL_STATUS_ACTIVE (credentialExpiryUnix (config n)) (b_rootNet b) (m_gcs n) of
       None \<Rightarrow> (None, n)
     | Some (ok, g) \<Rightarrow> (Some ok, n\<lparr>m_gcs := g\<rparr>))"

definition publishPaths :: "wolf \<Rightarrow> boot \<Rightarrow> node stage" where
  "publishPaths W b n =
    (if pathMode (config n) = RepositoryAssisted then
       (case enrollOwnPaths W (m_lms n) (credentialVersion (config n)) (firstQ (config n))
               (numberOfSessions (config n)) (b_pathNet b) (m_gcs n) of
          None \<Rightarrow> (None, n)
        | Some (ok, g) \<Rightarrow> (Some ok, n\<lparr>m_gcs := g\<rparr>))
     else (Some True, n))"

definition fetchPeer :: "wolf \<Rightarrow> boot \<Rightarrow> node stage" where
  "fetchPeer W b n =
    (case fetchPeerRoot W (peerCredentialVersion (config n)) (b_fetchRounds b) (m_gcs n) of
       None \<Rightarrow> (None, n)
     | Some (None, g) \<Rightarrow> (Some False, n\<lparr>m_gcs := g\<rparr>)
     | Some (Some record, g) \<Rightarrow> (Some True, n\<lparr>m_gcs := g, m_peerRecord := record\<rparr>))"

definition checkPeer :: "boot \<Rightarrow> node stage" where
  "checkPeer b n = guard (validatePeerRecord (b_now b) (p_version (m_peerRecord n)) n) n"

definition provisioningStages :: "wolf \<Rightarrow> boot \<Rightarrow> node stage list" where
  "provisioningStages W b =
    [deriveBootSeed W b, initializeLms b, buildLmsTree W, connectWiFi b, startTransport b, startGcs b,
     publishRoot W b, publishPaths W b, fetchPeer W b, checkPeer b]"

definition prepareLmsAndLedger :: "wolf \<Rightarrow> boot \<Rightarrow> node stage" where
  "prepareLmsAndLedger W b n = runStages (provisioningStages W b) n"

section \<open>Boot\<close>

text \<open>The sum of the range check is a 32-bit sum.\<close>

definition checkRange :: "node stage" where
  "checkRange n =
    guard (\<not> (numberOfSessions (config n) = 0 \<or> firstQ (config n) + numberOfSessions (config n) > 1024)) n"

definition startRng :: "wolf \<Rightarrow> node stage" where
  "startRng W n = (if wc_InitRng W \<noteq> 0 then (Some False, n) else (Some True, n\<lparr>m_rngInitialized := True\<rparr>))"

definition openCounter :: "boot \<Rightarrow> node stage" where
  "openCounter b n =
    (case initializePersistentCounter (b_nvsOk b) (b_putOk b) n of (ok, n) \<Rightarrow> (Some ok, n))"

definition protocolBegin :: "wolf \<Rightarrow> boot \<Rightarrow> node stage" where
  "protocolBegin W b n =
    runStages [checkRange, prepareLmsAndLedger W b, startRng W, openCounter b,
      \<lambda>n. (Some True, n\<lparr>m_ready := True\<rparr>)] n"

end
