(* ===== verification/SessionEffects.thy ===== *)
theory SessionEffects
  imports Provisioning
begin

text \<open>
  What each stage of the two handlers can change. \<open>touches put f\<close> says that a run of the
  stage \<open>f\<close>, however it ends, changes only the fields \<open>put\<close> copies; the collection
  \<open>effects\<close> has one such fact per stage. A view of the state that \<open>put\<close> does not disturb
  is then preserved (\<open>spares\<close>), by single stages and by sequences of them.
\<close>

named_theorems effects "the fields a stage may change"

definition touches :: "('c \<Rightarrow> 'c \<Rightarrow> 'c) \<Rightarrow> 'c stage \<Rightarrow> bool" where
  "touches put f \<longleftrightarrow> (\<forall>c. snd (f c) = put (snd (f c)) c)"

definition spares :: "('c \<Rightarrow> 'v) \<Rightarrow> 'c stage \<Rightarrow> bool" where
  "spares view f \<longleftrightarrow> (\<forall>c. view (snd (f c)) = view c)"

lemma spares_touches: "touches put f \<Longrightarrow> (\<And>s c. view (put s c) = view c) \<Longrightarrow> spares view f"
  by (metis spares_def touches_def)

text \<open>
  Proof outlines. \<open>outline I P fs\<close>: from a state satisfying \<open>P\<close> the stages \<open>fs\<close> keep \<open>I\<close>
  at every point where the handler can be left or cut off, with an intermediate
  assertion between any two stages.
\<close>

inductive outline :: "('c \<Rightarrow> bool) \<Rightarrow> ('c \<Rightarrow> bool) \<Rightarrow> 'c stage list \<Rightarrow> bool" for I where
  outline_end: "(\<And>c. P c \<Longrightarrow> I c) \<Longrightarrow> outline I P []"
| outline_stage: "(\<And>c. P c \<Longrightarrow> I c) \<Longrightarrow>
    (\<And>c. P c \<Longrightarrow> I (snd (f c)) \<and> (fst (f c) = Some True \<longrightarrow> Q (snd (f c)))) \<Longrightarrow>
    outline I Q fs \<Longrightarrow> outline I P (f # fs)"

lemma outline_pre: "outline I P fs \<Longrightarrow> P c \<Longrightarrow> I c"
  by (cases rule: outline.cases) simp_all

lemma outline_weaken:
  assumes "outline I Q fs" and "\<And>c. P c \<Longrightarrow> Q c"
  shows "outline I P fs"
  using assms(1)
proof (cases rule: outline.cases)
  case outline_end
  then show ?thesis using assms(2) by (auto intro: outline.outline_end)
next
  case (outline_stage f R gs)
  show ?thesis unfolding outline_stage(1)
    by (rule outline.outline_stage [OF _ _ outline_stage(4)]) (use outline_stage(2,3) assms(2) in blast)+
qed

lemma outline_cut: "outline I P fs \<Longrightarrow> P c \<Longrightarrow> I (snd (runStages (take k fs) c))"
proof (induction arbitrary: c k rule: outline.induct)
  case (outline_stage P f Q fs)
  show ?case
  proof (cases k)
    case (Suc k')
    then show ?thesis
      using outline_stage.hyps(2) [OF outline_stage.prems] outline_stage.IH [of "snd (f c)" k']
      by (auto simp: andThen_def split_beta)
  qed (simp add: outline_stage)
qed simp

lemma outline_run: "outline I P fs \<Longrightarrow> P c \<Longrightarrow> I (snd (runStages fs c))"
  using outline_cut [of I P fs c "length fs"] by simp

lemma outline_spares:
  assumes "outline I P gs" and "list_all (spares view) fs" and "\<And>c c'. view c' = view c \<Longrightarrow> P c \<Longrightarrow> P c'"
  shows "outline I P (fs @ gs)"
  using assms(2)
proof (induction fs)
  case (Cons f fs)
  have P: "P (snd (f c))" if "P c" for c using Cons.prems that assms(3) by (auto simp: spares_def)
  have "outline I P (fs @ gs)" using Cons by simp
  from outline_stage [OF _ _ this, of P f] show ?case using P outline_pre [OF assms(1)] by simp
qed (use assms(1) in simp)

section \<open>The effects of the stages\<close>

text \<open>The stages that only test.\<close>

lemma test_effects [effects]:
  "touches (\<lambda>s c. c) (checkPeerA e)" "touches (\<lambda>s c. c) (checkPeerB e)" "touches (\<lambda>s c. c) checkTauA"
  "touches (\<lambda>s c. c) checkTauB" "touches (\<lambda>s c. c) parseM4"
  by (simp_all add: touches_def guard_def checkPeerA_def checkPeerB_def checkTauA_def checkTauB_def parseM4_def)

lemma spares_run: "list_all (spares view) fs \<Longrightarrow> spares view (runStages fs)"
  using preserves_runStages [of "\<lambda>c c'. view c' = view c" fs]
  by (simp add: spares_def preserves_def list_all_iff reflp_def transp_def)

lemma spares_result: "spares view f \<Longrightarrow> f c = (r, c') \<Longrightarrow> view c' = view c"
  by (metis snd_conv spares_def)

lemma initiatorStart_effect [effects]:
  "touches (\<lambda>s c. c\<lparr>m_m0 := m_m0 s, m_m1 := m_m1 s, m_m2 := m_m2 s, m_m3 := m_m3 s, m_m4 := m_m4 s, l_session := l_session s, l_nonceA := l_nonceA s\<rparr>) (initiatorStart e)"
  by (simp add: touches_def initiatorStart_def clearMessages_def Let_def split_beta split: option.split sum.split)

lemma sendM0_effect [effects]:
  "touches (\<lambda>s c. c\<lparr>wire := wire s, l_metrics := l_metrics s\<rparr>) (sendM0 e)"
  by (simp add: touches_def sendM0_def sendProtocolMessage_def Let_def split_beta split: option.split sum.split)

lemma receiveM1_effect [effects]:
  "touches (\<lambda>s c. c\<lparr>m_m1 := m_m1 s, l_packet := l_packet s, l_metrics := l_metrics s, l_nonceB := l_nonceB s\<rparr>) (receiveM1 e)"
  by (simp add: touches_def receiveM1_def receiveProtocolMessage_def Let_def split_beta split: option.split sum.split)

lemma timedSid0_effect [effects]:
  "touches (\<lambda>s c. c\<lparr>l_metrics := l_metrics s, l_sid := l_sid s\<rparr>) (timedSid0 W e)"
  by (simp add: touches_def timedSid0_def addSha_def Let_def split_beta split: option.split sum.split)

lemma kemInit_effect [effects]:
  "touches (\<lambda>s c. c\<lparr>m_kemKey := m_kemKey s, m_kemInitialized := m_kemInitialized s\<rparr>) (kemInit W)"
  by (simp add: touches_def kemInit_def initializeKem_def freeKem_def Let_def split_beta split: option.split sum.split)

lemma makeKemKey_effect [effects]:
  "touches (\<lambda>s c. c\<lparr>m_kemKey := m_kemKey s, m_m2 := m_m2 s, l_metrics := l_metrics s\<rparr>) (makeKemKey W e)"
  by (simp add: touches_def makeKemKey_def addKem_def Let_def split_beta split: option.split sum.split)

lemma reserveQA_effect [effects]:
  "touches (\<lambda>s c. c\<lparr>nextq := nextq s, l_qA := l_qA s\<rparr>) (reserveQA e)"
  by (simp add: touches_def reserveQA_def reserveQ_def Let_def split_beta split: option.split sum.split)

lemma timedRuntimeSeed_effect [effects]:
  "touches (\<lambda>s c. c\<lparr>l_metrics := l_metrics s, l_runtimeSeed := l_runtimeSeed s\<rparr>) (timedRuntimeSeed W e)"
  by (simp add: touches_def timedRuntimeSeed_def addPufFe_def addHmac_def Let_def split_beta split: option.split sum.split)

lemma fillM2_effect [effects]:
  "touches (\<lambda>s c. c\<lparr>m_m2 := m_m2 s, m_mu := m_mu s, m_signInput := m_signInput s\<rparr>) fillM2"
  by (simp add: touches_def fillM2_def Let_def split_beta split: option.split sum.split)

lemma signM2_effect [effects]:
  "touches (\<lambda>s c. c\<lparr>m_lms := m_lms s, m_m2 := m_m2 s, signatures := signatures s, l_metrics := l_metrics s\<rparr>) (signM2 W e)"
  by (simp add: touches_def signM2_def LmotsLms_sign_def addSign_def Let_def split_beta split: option.split sum.split)

lemma attachPathA_effect [effects]:
  "touches (\<lambda>s c. c\<lparr>m_m2 := m_m2 s\<rparr>) attachPathA"
  by (simp add: touches_def attachPathA_def Let_def split_beta split: option.split sum.split)

lemma timedHashM2_effect [effects]:
  "touches (\<lambda>s c. c\<lparr>l_metrics := l_metrics s, l_hashM2 := l_hashM2 s\<rparr>) (timedHashM2 W e)"
  by (simp add: touches_def timedHashM2_def addSha_def Let_def split_beta split: option.split sum.split)

lemma sendM2_effect [effects]:
  "touches (\<lambda>s c. c\<lparr>wire := wire s, l_metrics := l_metrics s\<rparr>) (sendM2 e)"
  by (simp add: touches_def sendM2_def sendProtocolMessage_def Let_def split_beta split: option.split sum.split)

lemma receiveM3_effect [effects]:
  "touches (\<lambda>s c. c\<lparr>m_m3 := m_m3 s, l_packet := l_packet s, l_metrics := l_metrics s\<rparr>) (receiveM3 e)"
  by (simp add: touches_def receiveM3_def receiveProtocolMessage_def Let_def split_beta split: option.split sum.split)

lemma parseM3_effect [effects]:
  "touches (\<lambda>s c. c\<lparr>l_qB := l_qB s\<rparr>) parseM3"
  by (simp add: touches_def parseM3_def Let_def split_beta split: option.split sum.split)

lemma obtainPathB_effect [effects]:
  "touches (\<lambda>s c. c\<lparr>m_gcs := m_gcs s, l_peerPath := l_peerPath s, l_metrics := l_metrics s\<rparr>) (obtainPathB W e)"
  by (simp add: touches_def obtainPathB_def obtainPeerPath_def Let_def split_beta split: option.split sum.split)

lemma verifyM3_effect [effects]:
  "touches (\<lambda>s c. c\<lparr>m_mu := m_mu s, m_signInput := m_signInput s, l_metrics := l_metrics s\<rparr>) (verifyM3 W e)"
  by (simp add: touches_def verifyM3_def addVerify_def Let_def split_beta split: option.split sum.split)

lemma decapsulate_effect [effects]:
  "touches (\<lambda>s c. c\<lparr>l_sharedSecret := l_sharedSecret s, l_metrics := l_metrics s\<rparr>) (decapsulate W e)"
  by (simp add: touches_def decapsulate_def addKem_def Let_def split_beta split: option.split sum.split)

lemma timedTranscriptHash_effect [effects]:
  "touches (\<lambda>s c. c\<lparr>l_transcriptHash := l_transcriptHash s, l_metrics := l_metrics s\<rparr>) (\<lambda>c. timedTranscriptHash W e (inner c) c)"
  by (simp add: touches_def timedTranscriptHash_def addSha_def Let_def split_beta split: option.split sum.split)

lemma timedSessionKeys_effect [effects]:
  "touches (\<lambda>s c. c\<lparr>l_sessionKey := l_sessionKey s, l_confirmA := l_confirmA s, l_confirmB := l_confirmB s, l_metrics := l_metrics s\<rparr>) (timedSessionKeys W e)"
  by (simp add: touches_def timedSessionKeys_def addHmac_def Let_def split_beta split: option.split sum.split)

lemma timedTagB_effect [effects]:
  "touches (\<lambda>s c. c\<lparr>l_tauB := l_tauB s, l_metrics := l_metrics s\<rparr>) (timedTagB W e)"
  by (simp add: touches_def timedTagB_def addHmac_def Let_def split_beta split: option.split sum.split)

lemma timedTagA_effect [effects]:
  "touches (\<lambda>s c. c\<lparr>l_tauA := l_tauA s, l_metrics := l_metrics s\<rparr>) (timedTagA W e)"
  by (simp add: touches_def timedTagA_def addHmac_def Let_def split_beta split: option.split sum.split)

lemma sendM4_effect [effects]:
  "touches (\<lambda>s c. c\<lparr>m_m4 := m_m4 s, wire := wire s, l_metrics := l_metrics s\<rparr>) (sendM4 e)"
  by (simp add: touches_def sendM4_def sendProtocolMessage_def Let_def split_beta split: option.split sum.split)

lemma receiveResult_effect [effects]:
  "touches (\<lambda>s c. c\<lparr>m_result := m_result s, l_metrics := l_metrics s\<rparr>) (receiveResult e)"
  by (simp add: touches_def receiveResult_def receiveProtocolMessage_def Let_def split_beta split: option.split sum.split)

lemma receiveM0_effect [effects]:
  "touches (\<lambda>s c. c\<lparr>m_m0 := m_m0 s, m_m1 := m_m1 s, m_m2 := m_m2 s, m_m3 := m_m3 s, m_m4 := m_m4 s, m_result := m_result s, l_packet := l_packet s, l_metrics := l_metrics s\<rparr>) (receiveM0 e)"
  by (simp add: touches_def receiveM0_def clearMessages_def receiveProtocolMessage_def Let_def split_beta split: option.split sum.split)

lemma answerM0_effect [effects]:
  "touches (\<lambda>s c. c\<lparr>m_m1 := m_m1 s, l_session := l_session s, l_nonceA := l_nonceA s, l_nonceB := l_nonceB s\<rparr>) (answerM0 e)"
  by (simp add: touches_def answerM0_def Let_def split_beta split: option.split sum.split)

lemma sendM1_effect [effects]:
  "touches (\<lambda>s c. c\<lparr>wire := wire s, l_metrics := l_metrics s\<rparr>) (sendM1 e ip port)"
  by (simp add: touches_def sendM1_def sendProtocolMessage_def Let_def split_beta split: option.split sum.split)

lemma receiveM2_effect [effects]:
  "touches (\<lambda>s c. c\<lparr>m_m2 := m_m2 s, l_packet := l_packet s, l_metrics := l_metrics s\<rparr>) (receiveM2 e)"
  by (simp add: touches_def receiveM2_def receiveProtocolMessage_def Let_def split_beta split: option.split sum.split)

lemma parseM2_effect [effects]:
  "touches (\<lambda>s c. c\<lparr>l_qA := l_qA s\<rparr>) parseM2"
  by (simp add: touches_def parseM2_def Let_def split_beta split: option.split sum.split)

lemma obtainPathA_effect [effects]:
  "touches (\<lambda>s c. c\<lparr>m_gcs := m_gcs s, l_peerPath := l_peerPath s, l_metrics := l_metrics s\<rparr>) (obtainPathA W e)"
  by (simp add: touches_def obtainPathA_def obtainPeerPath_def Let_def split_beta split: option.split sum.split)

lemma verifyM2_effect [effects]:
  "touches (\<lambda>s c. c\<lparr>m_mu := m_mu s, m_signInput := m_signInput s, l_metrics := l_metrics s\<rparr>) (verifyM2 W e)"
  by (simp add: touches_def verifyM2_def addVerify_def Let_def split_beta split: option.split sum.split)

lemma encapsulate_effect [effects]:
  "touches (\<lambda>s c. c\<lparr>m_kemKey := m_kemKey s, m_m3 := m_m3 s, l_sharedSecret := l_sharedSecret s, l_metrics := l_metrics s\<rparr>) (encapsulate W e)"
  by (simp add: touches_def encapsulate_def addKem_def Let_def split_beta split: option.split sum.split)

lemma reserveQB_effect [effects]:
  "touches (\<lambda>s c. c\<lparr>nextq := nextq s, l_qB := l_qB s\<rparr>) (reserveQB e)"
  by (simp add: touches_def reserveQB_def reserveQ_def Let_def split_beta split: option.split sum.split)

lemma fillM3Inner_effect [effects]:
  "touches (\<lambda>s c. c\<lparr>m_m3 := m_m3 s, m_mu := m_mu s, m_signInput := m_signInput s\<rparr>) fillM3Inner"
  by (simp add: touches_def fillM3Inner_def Let_def split_beta split: option.split sum.split)

lemma signM3_effect [effects]:
  "touches (\<lambda>s c. c\<lparr>m_lms := m_lms s, m_m3 := m_m3 s, signatures := signatures s, l_metrics := l_metrics s\<rparr>) (signM3 W e)"
  by (simp add: touches_def signM3_def LmotsLms_sign_def addSign_def Let_def split_beta split: option.split sum.split)

lemma attachPathB_effect [effects]:
  "touches (\<lambda>s c. c\<lparr>m_m3 := m_m3 s\<rparr>) attachPathB"
  by (simp add: touches_def attachPathB_def Let_def split_beta split: option.split sum.split)

lemma fillM3Outer_effect [effects]:
  "touches (\<lambda>s c. c\<lparr>m_m3 := m_m3 s\<rparr>) fillM3Outer"
  by (simp add: touches_def fillM3Outer_def Let_def split_beta split: option.split sum.split)

lemma sendM3_effect [effects]:
  "touches (\<lambda>s c. c\<lparr>wire := wire s, l_metrics := l_metrics s\<rparr>) (sendM3 e ip port)"
  by (simp add: touches_def sendM3_def sendProtocolMessage_def Let_def split_beta split: option.split sum.split)

lemma receiveM4_effect [effects]:
  "touches (\<lambda>s c. c\<lparr>m_m4 := m_m4 s, l_packet := l_packet s, l_metrics := l_metrics s\<rparr>) (receiveM4 e)"
  by (simp add: touches_def receiveM4_def receiveProtocolMessage_def Let_def split_beta split: option.split sum.split)

lemma acceptSession_effect [effects]:
  "touches (\<lambda>s c. c\<lparr>m_result := m_result s, l_metrics := l_metrics s, l_accepted := l_accepted s, wire := wire s\<rparr>) (acceptSession e ip port)"
  by (simp add: touches_def acceptSession_def sendProtocolMessage_def Let_def split_beta split: option.split sum.split)

end
