(* ===== verification/LmotsTheorems.thy ===== *)
theory LmotsTheorems
  imports LmotsLms
begin

text \<open>
  The one-time signature: hash chains compose, the public key hash recomputed from a
  signature is the signer's, coefficients are four-bit digits, the checksum does not
  overflow its 16 bits, and it makes distinct digests incomparable (lowering one digit
  raises another), which is what stops a forger from walking chains forward only.
  The verifier's view of a one-time signature is the locale \<open>one_time_signature\<close>.
\<close>

section \<open>Hash chains\<close>

lemma chainHash_done: "\<not> j < e \<Longrightarrow> chainHash W ident q i j e x = Inr x"
  by (subst chainHash.simps) simp

lemma chainHash_step:
  "j < e \<Longrightarrow> chainHash W ident q i j e x =
    bindE (sha256 W (ident @ putU32 q @ putU16 i @ [j] @ x)) (chainHash W ident q i (j + 1) e)"
  by (subst chainHash.simps) simp

lemma chainHash_compose:
  "a \<le> b \<Longrightarrow> b \<le> c \<Longrightarrow>
   chainHash W ident q i a c x = bindE (chainHash W ident q i a b x) (chainHash W ident q i b c)"
proof (induction W ident q i a b x rule: chainHash.induct)
  case (1 W ident q i a b x)
  show ?case
  proof (cases "a < b")
    case True
    then have "a + 1 \<le> b" by (simp add: inc_le)
    moreover have "a < c" using True "1.prems" by simp
    ultimately show ?thesis
      using True 1 by (simp add: chainHash_step bindE_assoc cong: bindE_cong)
  next
    case False
    then have "a = b" using "1.prems" by simp
    then show ?thesis by (simp add: chainHash_done)
  qed
qed

lemma chainHash_length:
  "wolf_sizes W \<Longrightarrow> length x = HASH_BYTES \<Longrightarrow> chainHash W ident q i a b x = Inr y \<Longrightarrow>
   length y = HASH_BYTES"
proof (induction W ident q i a b x rule: chainHash.induct)
  case (1 W ident q i a b x)
  then show ?case
    by (cases "a < b")
      (auto simp: chainHash_step chainHash_done bindE_eq_Inr dest: sha256_Inr_length)
qed

section \<open>Coefficients and checksum\<close>

lemma coefficientW4_le: "coefficientW4 d i \<le> 15"
  by (simp add: coefficientW4_def Let_def word_and_le1)

lemma unat_coefficientW4_le: "unat (coefficientW4 d i) \<le> 15"
  using coefficientW4_le [of d i] by (simp add: word_le_nat_alt)

lemma coefficientW4_append:
  "i < 2 * length d \<Longrightarrow> coefficientW4 (d @ c) i = coefficientW4 d i"
  by (simp add: coefficientW4_def Let_def nth_append less_mult_imp_div_less mult.commute)

text \<open>The two coefficients of a byte determine it.\<close>

lemma byte_of_nibbles:
  "drop_bit 4 (x :: u8) AND 0x0f = drop_bit 4 y AND 0x0f \<Longrightarrow> x AND 0x0f = y AND 0x0f \<Longrightarrow> x = y"
proof (rule bit_word_eqI)
  fix n assume hi: "drop_bit 4 x AND 0x0f = drop_bit 4 y AND 0x0f"
    and lo: "x AND 0x0f = y AND 0x0f" and n: "n < LENGTH(8)"
  show "bit x n \<longleftrightarrow> bit y n"
  proof (cases "n < 4")
    case True
    have "bit (x AND mask 4) n = bit (y AND mask 4) n" using lo by (simp add: mask_eq_exp_minus_1)
    then show ?thesis using True n by (simp add: bit_simps)
  next
    case False
    have "bit (drop_bit 4 x AND mask 4) (n - 4) = bit (drop_bit 4 y AND mask 4) (n - 4)"
      using hi by (simp add: mask_eq_exp_minus_1)
    then show ?thesis using False n by (simp add: bit_simps less_diff_conv2)
  qed
qed

lemma coefficients_determine:
  assumes "length d = length d'" and "\<And>i. i < 2 * length d \<Longrightarrow> coefficientW4 d i = coefficientW4 d' i"
  shows "d = d'"
proof (rule nth_equalityI)
  fix k assume k: "k < length d"
  then have "coefficientW4 d (2 * k) = coefficientW4 d' (2 * k)"
    and "coefficientW4 d (2 * k + 1) = coefficientW4 d' (2 * k + 1)"
    using assms(2) by auto
  then show "d ! k = d' ! k"
    unfolding coefficientW4_def Let_def
    by (intro byte_of_nibbles [of "d ! k" "d' ! k"]) simp_all
qed (rule assms(1))

text \<open>The checksum over the natural numbers; it is at most 960, far below \<open>2^16\<close>.\<close>

definition checksum_nat :: "bytes \<Rightarrow> nat" where
  "checksum_nat d = (\<Sum>i<64. 15 - unat (coefficientW4 d i))"

lemma checksum_nat_le: "checksum_nat d \<le> 960"
  unfolding checksum_nat_def
  using sum_bounded_above [of "{..<64}" "\<lambda>i. 15 - unat (coefficientW4 d i)" 15] by simp

lemma checksum_loop:
  "foldl (\<lambda>c i. c + 15 - ucast (coefficientW4 d i)) (0 :: u16) [0..<n] =
   of_nat (\<Sum>i<n. 15 - unat (coefficientW4 d i))"
proof (induction n)
  case 0
  then show ?case by simp
next
  case (Suc n)
  have "(of_nat (15 - unat (coefficientW4 d n)) :: u16) = 15 - ucast (coefficientW4 d n)"
    using unat_coefficientW4_le [of d n] by (simp add: of_nat_diff unsigned_ucast_eq [symmetric])
  then show ?case using Suc by simp
qed

lemma checksumW4_nat: "checksumW4 d = of_nat (16 * checksum_nat d)"
  by (simp add: checksumW4_def checksum_loop checksum_nat_def push_bit_eq_mult mult.commute)

lemma unat_checksumW4: "unat (checksumW4 d) = 16 * checksum_nat d"
proof -
  have "unat (of_nat (16 * checksum_nat d) :: u16) = 16 * checksum_nat d"
    using checksum_nat_le [of d] by (subst unat_of_nat) simp
  then show ?thesis by (simp only: checksumW4_nat)
qed

section \<open>Distinct digests are incomparable\<close>

text \<open>The digit string that a signature walks: digest, then checksum.\<close>

definition withChecksum :: "bytes \<Rightarrow> bytes" where
  "withChecksum digest = digest @ putU16 (checksumW4 digest)"

lemma unat_and_15: "unat ((x :: u8) AND 0x0f) = unat x mod 16"
proof -
  have "x AND 0x0f = take_bit 4 x" by (simp add: take_bit_eq_mask mask_eq_exp_minus_1)
  then have "unat (x AND 0x0f) = take_bit 4 (unat x)" by (simp only: unsigned_take_bit_eq)
  then show ?thesis by (simp add: take_bit_eq_mod)
qed

lemma unat_high_nibble: "unat (drop_bit 4 (x :: u8) AND 0x0f) = unat x div 16 mod 16"
  by (simp only: unat_and_15 unat_drop_bit_eq) (simp add: drop_bit_eq_div)

lemma checksum_digits:
  assumes "length d = 32"
  shows "unat (coefficientW4 (withChecksum d) 64) = checksum_nat d div 256"
    and "unat (coefficientW4 (withChecksum d) 65) = checksum_nat d div 16 mod 16"
    and "unat (coefficientW4 (withChecksum d) 66) = checksum_nat d mod 16"
proof -
  let ?c = "checksum_nat d"
  have hi: "withChecksum d ! 32 = ucast (drop_bit 8 (checksumW4 d))"
    and lo: "withChecksum d ! 33 = ucast (checksumW4 d)"
    using assms by (simp_all add: withChecksum_def nth_append putU16_def)
  have w: "unat (checksumW4 d) = 16 * ?c" by (rule unat_checksumW4)
  have hi': "unat (withChecksum d ! 32) = ?c div 16"
    using checksum_nat_le [of d]
    by (simp only: hi unsigned_ucast_eq unat_drop_bit_eq w)
      (simp add: drop_bit_eq_div take_bit_eq_mod)
  have lo': "unat (withChecksum d ! 33) = 16 * (?c mod 16)"
    using mult_mod_right [of 16 ?c 16] by (simp add: lo unsigned_ucast_eq take_bit_eq_mod w)
  show "unat (coefficientW4 (withChecksum d) 64) = ?c div 256"
    using checksum_nat_le [of d]
    by (simp add: coefficientW4_def Let_def unat_high_nibble hi' div_mult2_eq [symmetric])
  show "unat (coefficientW4 (withChecksum d) 65) = ?c div 16 mod 16"
    by (simp add: coefficientW4_def Let_def unat_and_15 hi')
  show "unat (coefficientW4 (withChecksum d) 66) = ?c mod 16"
    by (simp add: coefficientW4_def Let_def unat_high_nibble lo')
qed

lemma checksum_from_digits:
  assumes "length d = 32"
  shows "checksum_nat d = 256 * unat (coefficientW4 (withChecksum d) 64) +
    16 * unat (coefficientW4 (withChecksum d) 65) + unat (coefficientW4 (withChecksum d) 66)"
proof -
  have "c = 256 * (c div 256) + 16 * (c div 16 mod 16) + c mod 16" for c :: nat
  proof -
    have "c div 256 = c div 16 div 16" by (simp add: div_mult2_eq [symmetric])
    then show ?thesis using div_mult_mod_eq [of c 16] div_mult_mod_eq [of "c div 16" 16] by linarith
  qed
  from this [of "checksum_nat d"] show ?thesis by (simp only: checksum_digits [OF assms])
qed

lemma withChecksum_dominated:
  assumes len: "length d = 32" "length d' = 32"
    and le: "\<And>i. i < 67 \<Longrightarrow> coefficientW4 (withChecksum d) i \<le> coefficientW4 (withChecksum d') i"
  shows "d = d'"
proof (rule coefficients_determine)
  have le': "unat (coefficientW4 d i) \<le> unat (coefficientW4 d' i)" if "i < 64" for i
    using le [of i] that len by (simp add: withChecksum_def coefficientW4_append word_le_nat_alt)
  have "checksum_nat d \<le> checksum_nat d'"
    using le [of 64] le [of 65] le [of 66]
      checksum_from_digits [OF len(1)] checksum_from_digits [OF len(2)]
    by (simp add: word_le_nat_alt)
  moreover have "checksum_nat d' \<le> checksum_nat d"
    unfolding checksum_nat_def by (intro sum_mono diff_le_mono2 le') simp
  ultimately have "(\<Sum>i<64. 15 - unat (coefficientW4 d i)) = (\<Sum>i<64. 15 - unat (coefficientW4 d' i))"
    by (simp add: checksum_nat_def)
  then have "15 - unat (coefficientW4 d i) = 15 - unat (coefficientW4 d' i)" if "i < 64" for i
    using that le' sum_mono_inv [of "\<lambda>i. 15 - unat (coefficientW4 d' i)" "{..<64}"
        "\<lambda>i. 15 - unat (coefficientW4 d i)" i]
    by (simp add: diff_le_mono2)
  then have "unat (coefficientW4 d i) = unat (coefficientW4 d' i)" if "i < 64" for i
    using that unat_coefficientW4_le by (metis diff_diff_cancel)
  then show "coefficientW4 d i = coefficientW4 d' i" if "i < 2 * length d" for i
    using that len by (simp add: word_unat_eq_iff)
qed (simp add: len)

section \<open>Recovering the public key from a signature\<close>

text \<open>
  A one-time signature: \<open>pk\<close> is the public value of a key and index, \<open>sgn\<close> signs with
  randomness, \<open>cand\<close> recomputes a public value from the public parameters, a message and
  a signature.
\<close>

locale one_time_signature =
  fixes good :: "'k \<Rightarrow> 'r \<Rightarrow> bool"
    and pub :: "'k \<Rightarrow> 'p"
    and pk :: "'k \<Rightarrow> 'q \<Rightarrow> 'e + 'h"
    and sgn :: "'k \<Rightarrow> 'q \<Rightarrow> 'm \<Rightarrow> 'r \<Rightarrow> 'e + 's"
    and cand :: "'p \<Rightarrow> 'q \<Rightarrow> 'm \<Rightarrow> 's \<Rightarrow> 'e + 'h"
  assumes cand_recovers:
    "good k r \<Longrightarrow> pk k q = Inr h \<Longrightarrow> sgn k q m r = Inr s \<Longrightarrow> cand (pub k) q m s = Inr h"
begin

text \<open>Whatever a verifier derives from the public value alone holds for honest signatures.\<close>

lemma honest_signature_accepted:
  assumes "good k r" and "sgn k q m r = Inr s" and "bindE (pk k q) f = Inr v"
  shows "bindE (cand (pub k) q m s) f = Inr v"
  using assms cand_recovers by (auto simp: bindE_eq_Inr)

lemma one_public_value:
  "good k r \<Longrightarrow> good k r' \<Longrightarrow> pk k q = Inr h \<Longrightarrow> sgn k q m r = Inr s \<Longrightarrow> sgn k q m' r' = Inr s' \<Longrightarrow>
   cand (pub k) q m s = cand (pub k) q m' s'"
  by (simp add: cand_recovers)

end

text \<open>Finishing a chain that the signer left at coefficient \<open>a\<close> gives the full chain.\<close>

lemma chain_finishes:
  "a \<le> 15 \<Longrightarrow> chainHash W ident q i 0 a x = Inr y \<Longrightarrow>
   chainHash W ident q i a 15 y = chainHash W ident q i 0 15 x"
  using chainHash_compose [of 0 a 15 W ident q i x] by simp

lemma derivePrivateElement_length:
  "wolf_sizes W \<Longrightarrow> derivePrivateElement W ident seed q i = Inr x \<Longrightarrow> length x = HASH_BYTES"
  by (auto simp: derivePrivateElement_def dest: sha256_Inr_length)

text \<open>What a successful \<open>sign\<close> returned: type, randomizer and the 67 chain values.\<close>

lemma sign_eq_Inr:
  assumes "sign W s q message seed C = Inr sig"
  obtains dc ys where "q < 1024"
    and "hashMessageWithChecksum W (m_identifier s) q C message 1024 = Inr dc"
    and "length ys = 67"
    and "\<And>i. i < 67 \<Longrightarrow> bindE (derivePrivateElement W (m_identifier s) seed q (of_nat i))
          (chainHash W (m_identifier s) q (of_nat i) 0 (coefficientW4 dc i)) = Inr (ys ! i)"
    and "sig = putU32 LMOTS_TYPE @ C @ concat ys"
  using assms by (auto simp: sign_def result_simps list_all2_upt_nth Let_def split: if_splits)

lemma sign_blocks:
  assumes W: "wolf_sizes W" and len: "length ys = 67"
    and ys: "\<And>i. i < 67 \<Longrightarrow> bindE (derivePrivateElement W ident seed q (of_nat i))
          (chainHash W ident q (of_nat i) 0 (f i)) = Inr (ys ! i)"
  shows "\<forall>y \<in> set ys. length y = HASH_BYTES"
proof
  fix y assume "y \<in> set ys"
  then obtain i where "i < 67" "y = ys ! i" using len by (auto simp: in_set_conv_nth)
  with ys [of i] W show "length y = HASH_BYTES"
    by (auto simp: bindE_eq_Inr dest: derivePrivateElement_length chainHash_length)
qed

lemma sign_length:
  assumes "wolf_sizes W" and "length C = HASH_BYTES" and "sign W s q message seed C = Inr sig"
  shows "length sig = LMOTS_SIGNATURE_BYTES"
proof -
  from assms(3) obtain dc ys where "length ys = 67"
    and "\<And>i. i < 67 \<Longrightarrow> bindE (derivePrivateElement W (m_identifier s) seed q (of_nat i))
          (chainHash W (m_identifier s) q (of_nat i) 0 (coefficientW4 dc i)) = Inr (ys ! i)"
    and sig: "sig = putU32 LMOTS_TYPE @ C @ concat ys"
    by (rule sign_eq_Inr) blast
  then have "length (concat ys) = 67 * 32"
    using sign_blocks [OF assms(1)] length_concat_blocks by metis
  then show ?thesis using assms(2) by (simp add: sig)
qed

lemma candidate_recovers:
  assumes W: "wolf_sizes W" and C: "length C = HASH_BYTES"
    and sig: "sign W s q message seed C = Inr sig"
    and pk: "lmotsPublicHash W (m_identifier s) seed q = Inr h"
  shows "lmotsCandidatePublicHash W (m_identifier s) q message sig = Inr h"
proof -
  let ?id = "m_identifier s"
  from sig obtain dc ys where dc: "hashMessageWithChecksum W ?id q C message 1024 = Inr dc"
    and len: "length ys = 67"
    and ys: "\<And>i. i < 67 \<Longrightarrow> bindE (derivePrivateElement W ?id seed q (of_nat i))
          (chainHash W ?id q (of_nat i) 0 (coefficientW4 dc i)) = Inr (ys ! i)"
    and sig_eq: "sig = putU32 LMOTS_TYPE @ C @ concat ys"
    by (rule sign_eq_Inr) blast
  have blocks: "\<forall>y \<in> set ys. length y = HASH_BYTES" using W len ys by (rule sign_blocks)
  have y: "read_at (i * 32) 32 (drop 36 sig) = ys ! i" if "i < 67" for i
    using read_at_concat_blocks [OF blocks, of i] that len C by (simp add: sig_eq)
  have chain: "chainHash W ?id q (of_nat i) (coefficientW4 dc i) 15 (ys ! i) =
      bindE (derivePrivateElement W ?id seed q (of_nat i)) (chainHash W ?id q (of_nat i) 0 15)"
    if "i < 67" for i
    using ys [OF that] coefficientW4_le [of dc i] by (auto simp: bindE_eq_Inr chain_finishes)
  have "mapE (\<lambda>i. chainHash W ?id q (of_nat i) (coefficientW4 dc i) 15
          (read_at (i * 32) 32 (drop 36 sig))) [0..<67] =
      mapE (\<lambda>i. bindE (derivePrivateElement W ?id seed q (of_nat i))
          (chainHash W ?id q (of_nat i) 0 15)) [0..<67]"
    by (intro mapE_cong) (simp_all add: y chain)
  then show ?thesis
    using pk C dc by (simp add: lmotsCandidatePublicHash_def lmotsPublicHash_def sig_eq
        read_at_append_exact Let_def)
qed

interpretation lmots: one_time_signature
  "\<lambda>(W, s, seed) C. wolf_sizes W \<and> length C = HASH_BYTES"
  "\<lambda>(W, s, seed). (W, m_identifier s)"
  "\<lambda>(W, s, seed) q. lmotsPublicHash W (m_identifier s) seed q"
  "\<lambda>(W, s, seed) q message C. sign W s q message seed C"
  "\<lambda>(W, ident) q message sig. lmotsCandidatePublicHash W ident q message sig"
  by unfold_locales (auto intro: candidate_recovers)

end
