(* ===== verification/HashTree.thy ===== *)
theory HashTree
  imports Prelude
begin

text \<open>
  Authentication paths in a complete binary tree of hashes, abstracted from LMS: nodes
  are numbered from the root 1, the children of \<open>n\<close> are \<open>2 n\<close> and \<open>2 n + 1\<close>, and
  \<open>inner n l r\<close> is the fallible hash of the two children of node \<open>n\<close>. The locale
  \<open>hash_tree\<close> states what a built tree promises (every internal node is the hash of its
  children); from it follow that climbing with the genuine siblings reaches the root, and
  that climbing with anything else and still reaching the root exhibits a second preimage
  among the hash calls made on the way.
\<close>

definition sibling :: "nat \<Rightarrow> nat" where
  "sibling n = (if even n then n + 1 else n - 1)"

primrec siblings :: "(nat \<Rightarrow> 'a) \<Rightarrow> nat \<Rightarrow> nat \<Rightarrow> 'a list" where
  "siblings node 0 n = []"
| "siblings node (Suc k) n = node (sibling n) # siblings node k (n div 2)"

text \<open>One level: the parent's children in order.\<close>

definition children :: "nat \<Rightarrow> 'a \<Rightarrow> 'a \<Rightarrow> 'a \<times> 'a" where
  "children n current sib = (if even n then (current, sib) else (sib, current))"

primrec climb :: "(nat \<Rightarrow> 'a \<Rightarrow> 'a \<Rightarrow> 'e + 'a) \<Rightarrow> 'a list \<Rightarrow> nat \<Rightarrow> 'a \<Rightarrow> 'e + 'a" where
  "climb inner [] n current = Inr current"
| "climb inner (s # ss) n current =
    (case children n current s of (l, r) \<Rightarrow>
      bindE (inner (n div 2) l r) (climb inner ss (n div 2)))"

text \<open>The hash calls a climb makes: node number and the two children hashed.\<close>

primrec climb_calls ::
  "(nat \<Rightarrow> 'a \<Rightarrow> 'a \<Rightarrow> 'e + 'a) \<Rightarrow> 'a list \<Rightarrow> nat \<Rightarrow> 'a \<Rightarrow> (nat \<times> 'a \<times> 'a) list" where
  "climb_calls inner [] n current = []"
| "climb_calls inner (s # ss) n current =
    (n div 2, children n current s) #
      (case children n current s of (l, r) \<Rightarrow>
        case inner (n div 2) l r of
          Inl _ \<Rightarrow> []
        | Inr parent \<Rightarrow> climb_calls inner ss (n div 2) parent)"

text \<open>
  A call on children other than the tree's own that hashes to the tree's node.
\<close>

definition second_preimage ::
  "(nat \<Rightarrow> 'a \<Rightarrow> 'a \<Rightarrow> 'e + 'a) \<Rightarrow> (nat \<Rightarrow> 'a) \<Rightarrow> nat \<Rightarrow> nat \<times> 'a \<times> 'a \<Rightarrow> bool" where
  "second_preimage inner node height = (\<lambda>(m, l, r).
    1 \<le> m \<and> m < 2 ^ height \<and> (l, r) \<noteq> (node (2 * m), node (2 * m + 1)) \<and>
    inner m l r = Inr (node m))"

lemma length_siblings [simp]: "length (siblings node k n) = k"
  by (induction k arbitrary: n) simp_all

lemma children_genuine:
  "2 \<le> n \<Longrightarrow> children n (node n) (node (sibling n)) = (node (2 * (n div 2)), node (2 * (n div 2) + 1))"
  by (auto simp: children_def sibling_def elim: oddE)

lemma children_eq:
  assumes "2 \<le> n" and "children n c s = (node (2 * (n div 2)), node (2 * (n div 2) + 1))"
  shows "c = node n \<and> s = node (sibling n)"
  using assms by (auto simp: children_def sibling_def split: if_splits elim: oddE)

lemma two_power_pos: "(1::nat) \<le> 2 ^ k"
  by simp

locale hash_tree =
  fixes good :: "'t \<Rightarrow> bool"
    and height :: nat
    and node :: "'t \<Rightarrow> nat \<Rightarrow> 'a"
    and inner :: "'t \<Rightarrow> nat \<Rightarrow> 'a \<Rightarrow> 'a \<Rightarrow> 'e + 'a"
  assumes inner_node:
    "good t \<Longrightarrow> 1 \<le> n \<Longrightarrow> n < 2 ^ height \<Longrightarrow>
     inner t n (node t (2 * n)) (node t (2 * n + 1)) = Inr (node t n)"
begin

lemma climb_genuine:
  assumes "good t" and "k \<le> height" and "2 ^ k \<le> n" and "n < 2 ^ Suc k"
  shows "climb (inner t) (siblings (node t) k n) n (node t n) = Inr (node t 1)"
  using assms(2-4)
proof (induction k arbitrary: n)
  case 0
  then have "n = 1" by simp
  then show ?case by simp
next
  case (Suc k)
  have par: "2 ^ k \<le> n div 2" "n div 2 < 2 ^ Suc k" using Suc.prems by auto
  have "(2::nat) ^ Suc k \<le> 2 ^ height" using Suc.prems(1) by (rule power_increasing) simp
  then have "inner t (n div 2) (node t (2 * (n div 2))) (node t (2 * (n div 2) + 1)) =
      Inr (node t (n div 2))"
    using par assms(1) two_power_pos [of k] by (intro inner_node) auto
  moreover have "2 \<le> n" using Suc.prems(2) two_power_pos [of k] unfolding power_Suc by linarith
  ultimately show ?case
    using Suc.IH [of "n div 2"] par Suc.prems(1) by (simp add: children_genuine)
qed

text \<open>
  Reaching the root from node \<open>n\<close> with value \<open>c\<close> and siblings \<open>ss\<close>: either both are the
  tree's own, or some call on the way hashed children that are not the node's children
  to the node's value.
\<close>

lemma climb_binding:
  assumes "good t" and "length ss \<le> height" and "2 ^ length ss \<le> n" and "n < 2 ^ Suc (length ss)"
    and "climb (inner t) ss n c = Inr (node t 1)"
  shows "(c = node t n \<and> ss = siblings (node t) (length ss) n) \<or>
    (\<exists>call \<in> set (climb_calls (inner t) ss n c). second_preimage (inner t) (node t) height call)"
  using assms(2-)
proof (induction ss arbitrary: n c)
  case Nil
  then have "n = 1" by simp
  with Nil show ?case by simp
next
  case (Cons s ss)
  let ?m = "n div 2"
  obtain l r where lr: "children n c s = (l, r)" by fastforce
  have par: "2 ^ length ss \<le> ?m" "?m < 2 ^ Suc (length ss)" using Cons.prems by auto
  have n2: "2 \<le> n"
    using Cons.prems(2) two_power_pos [of "length ss"] unfolding length_Cons power_Suc by linarith
  have "(2::nat) ^ Suc (length ss) \<le> 2 ^ height"
    using Cons.prems(1) by (intro power_increasing) simp_all
  then have m: "1 \<le> ?m" "?m < 2 ^ height" using par two_power_pos [of "length ss"] by linarith+
  from Cons.prems(4) lr obtain p where p: "inner t ?m l r = Inr p"
    and up: "climb (inner t) ss ?m p = Inr (node t 1)"
    by (auto simp: bindE_eq_Inr)
  have calls: "climb_calls (inner t) (s # ss) n c = (?m, l, r) # climb_calls (inner t) ss ?m p"
    by (simp add: lr p)
  have "length ss \<le> height" using Cons.prems(1) by simp
  from Cons.IH [OF this par up] consider
      "p = node t ?m" "ss = siblings (node t) (length ss) ?m"
    | "\<exists>call \<in> set (climb_calls (inner t) ss ?m p). second_preimage (inner t) (node t) height call"
    by blast
  then show ?case
  proof cases
    case 1
    show ?thesis
    proof (cases "(l, r) = (node t (2 * ?m), node t (2 * ?m + 1))")
      case True
      then have "c = node t n \<and> s = node t (sibling n)" using lr n2 by (intro children_eq) simp_all
      then show ?thesis using 1(2) by simp
    next
      case False
      then have "second_preimage (inner t) (node t) height (?m, l, r)"
        using p 1(1) m by (simp add: second_preimage_def)
      then show ?thesis unfolding calls by (meson list.set_intros(1))
    qed
  next
    case 2
    then show ?thesis unfolding calls by (meson list.set_intros(2))
  qed
qed

end

end
