(* ===== verification/LmsTree.thy ===== *)
theory LmsTree
  imports LmotsTheorems HashTree
begin

text \<open>
  The tree object: \<open>buildTree\<close> fills the array so that leaf \<open>1024 + q\<close> is the leaf hash
  of the public key with index \<open>q\<close> and every internal node is the hash of its children;
  \<open>extractPath\<close> returns the siblings; \<open>verify\<close> climbs. The array of a built object is
  an instance of \<open>hash_tree\<close> of height 10.
\<close>

section \<open>What a built tree is\<close>

definition tree_inner :: "wolf \<Rightarrow> bytes \<Rightarrow> nat \<Rightarrow> bytes \<Rightarrow> bytes \<Rightarrow> bytes res" where
  "tree_inner W identifier n = hashInternal W identifier (of_nat n)"

definition lms_leaf :: "wolf \<Rightarrow> bytes \<Rightarrow> bytes \<Rightarrow> nat \<Rightarrow> bytes res" where
  "lms_leaf W identifier seed q =
    bindE (lmotsPublicHash W identifier seed (of_nat q)) (hashLeaf W identifier (of_nat (LMS_LEAVES + q)))"

definition tree_of :: "wolf \<Rightarrow> bytes \<Rightarrow> bytes \<Rightarrow> bytes list \<Rightarrow> bool" where
  "tree_of W identifier seed tree \<longleftrightarrow>
    length tree = LMS_TREE_NODES \<and>
    (\<forall>q < LMS_LEAVES. lms_leaf W identifier seed q = Inr (tree ! (LMS_LEAVES + q))) \<and>
    (\<forall>n. 1 \<le> n \<and> n < LMS_LEAVES \<longrightarrow>
       tree_inner W identifier n (tree ! (2 * n)) (tree ! (2 * n + 1)) = Inr (tree ! n))"

text \<open>An object whose tree has been built from \<open>seed\<close>.\<close>

definition built_from :: "wolf \<Rightarrow> bytes \<Rightarrow> LmsState \<Rightarrow> bool" where
  "built_from W seed s \<longleftrightarrow>
    (\<exists>tree. m_tree s = Some tree \<and> tree_of W (m_identifier s) seed tree)"

section \<open>Building\<close>

lemma buildLeaves_spec:
  assumes "buildLeaves W ident seed [k..<n] tree = (Inr (), tree')"
    and "n \<le> LMS_LEAVES" and "length tree = LMS_TREE_NODES"
  shows "length tree' = LMS_TREE_NODES \<and>
    (\<forall>q. k \<le> q \<and> q < n \<longrightarrow> lms_leaf W ident seed q = Inr (tree' ! (LMS_LEAVES + q))) \<and>
    (\<forall>m < LMS_LEAVES + k. tree' ! m = tree ! m)"
  using assms
proof (induction "n - k" arbitrary: k tree)
  case 0
  then show ?case by auto
next
  case (Suc j)
  then have kn: "k < n" by simp
  then obtain d where d: "lms_leaf W ident seed k = Inr d"
    and rest: "buildLeaves W ident seed [Suc k..<n] (tree[LMS_LEAVES + k := d]) = (Inr (), tree')"
    using Suc.prems(1) by (auto simp: upt_rec [of k] lms_leaf_def split: sum.splits)
  have IH: "length tree' = LMS_TREE_NODES \<and>
    (\<forall>q. Suc k \<le> q \<and> q < n \<longrightarrow> lms_leaf W ident seed q = Inr (tree' ! (LMS_LEAVES + q))) \<and>
    (\<forall>m < LMS_LEAVES + Suc k. tree' ! m = tree[LMS_LEAVES + k := d] ! m)"
    using Suc.hyps(2) rest Suc.prems by (intro Suc.hyps(1)) auto
  then have "tree' ! (LMS_LEAVES + k) = d" using Suc.prems kn by simp
  then have "lms_leaf W ident seed q = Inr (tree' ! (LMS_LEAVES + q))" if "k \<le> q" "q < n" for q
    using that IH d by (cases "q = k") auto
  then show ?case using IH Suc.prems kn by auto
qed

lemma buildInternal_spec:
  assumes "buildInternal W ident (rev [1..<Suc n]) tree = (Inr (), tree')"
    and "n < LMS_LEAVES" and "length tree = LMS_TREE_NODES"
  shows "length tree' = LMS_TREE_NODES \<and>
    (\<forall>m. 1 \<le> m \<and> m \<le> n \<longrightarrow>
       tree_inner W ident m (tree' ! (2 * m)) (tree' ! (2 * m + 1)) = Inr (tree' ! m)) \<and>
    (\<forall>m > n. tree' ! m = tree ! m)"
  using assms
proof (induction n arbitrary: tree)
  case 0
  then show ?case by simp
next
  case (Suc n)
  then obtain d
    where d: "tree_inner W ident (Suc n) (tree ! (2 * Suc n)) (tree ! (2 * Suc n + 1)) = Inr d"
      and rest: "buildInternal W ident (rev [1..<Suc n]) (tree[Suc n := d]) = (Inr (), tree')"
    by (auto simp: tree_inner_def split: sum.splits)
  have IH: "length tree' = LMS_TREE_NODES \<and>
    (\<forall>m. 1 \<le> m \<and> m \<le> n \<longrightarrow>
       tree_inner W ident m (tree' ! (2 * m)) (tree' ! (2 * m + 1)) = Inr (tree' ! m)) \<and>
    (\<forall>m > n. tree' ! m = tree[Suc n := d] ! m)"
    using rest Suc.prems by (intro Suc.IH) simp_all
  then have "tree' ! Suc n = d" using Suc.prems by simp
  then show ?case using IH d by (auto simp: le_Suc_eq)
qed

lemma initialize_True:
  "initialize ok ident seed s = (True, s') \<Longrightarrow>
   m_identifier s' = ident \<and> m_seed s' = seed \<and>
   m_tree s' = Some (replicate LMS_TREE_NODES (zeros HASH_BYTES)) \<and>
   m_smallHashInput s' = m_smallHashInput s \<and> m_publicHashInput s' = m_publicHashInput s"
  by (auto simp: initialize_def Let_def split: if_splits)

lemma buildTree_built:
  assumes "m_tree s = Some tree" and "length tree = LMS_TREE_NODES"
    and "buildTree W s = (Inr (), s')"
  shows "built_from W (m_seed s) s' \<and> m_identifier s' = m_identifier s \<and>
    m_seed s' = secureZero HASH_BYTES (m_seed s)"
proof -
  let ?id = "m_identifier s"
  from assms(1,3) obtain t1 t2 small public
    where leaves: "buildLeaves W ?id (m_seed s) [0..<LMS_LEAVES] tree = (Inr (), t1)"
      and inner: "buildInternal W ?id (rev [1..<LMS_LEAVES]) t1 = (Inr (), t2)"
      and s': "s' = s\<lparr>m_tree := Some t2, m_seed := secureZero HASH_BYTES (m_seed s), m_smallHashInput := small,
        m_publicHashInput := public\<rparr>"
    by (auto simp: buildTree_def Let_def simp del: upt_rec_numeral split: sum.splits prod.splits)
  note L = buildLeaves_spec [OF leaves _ assms(2)]
  have "(1024::nat) = Suc 1023" by simp
  note I = buildInternal_spec [where n = 1023, unfolded this [symmetric], OF inner]
  have "tree_of W ?id (m_seed s) t2"
    using L I by (auto simp: tree_of_def)
  then show ?thesis by (auto simp: built_from_def s')
qed

lemma built_node_length:
  assumes "wolf_sizes W" and "tree_of W ident seed tree" and "1 \<le> n" and "n < LMS_TREE_NODES"
  shows "length (tree ! n) = HASH_BYTES"
proof (cases "n < LMS_LEAVES")
  case True
  then have "tree_inner W ident n (tree ! (2 * n)) (tree ! (2 * n + 1)) = Inr (tree ! n)"
    using assms(2,3) by (simp add: tree_of_def)
  then show ?thesis using assms(1) by (simp add: tree_inner_def hashInternal_def sha256_Inr_length)
next
  case False
  then have "lms_leaf W ident seed (n - LMS_LEAVES) = Inr (tree ! n)"
    using assms(2,4) by (auto simp: tree_of_def dest!: spec [of _ "n - LMS_LEAVES"])
  then show ?thesis
    using assms(1) by (auto simp: lms_leaf_def hashLeaf_def bindE_eq_Inr dest: sha256_Inr_length)
qed

section \<open>The built array is a hash tree\<close>

interpretation lms: hash_tree
  "\<lambda>(W, ident, tree). \<exists>seed. tree_of W ident seed tree"
  10
  "\<lambda>(W, ident, tree) n. tree ! n"
  "\<lambda>(W, ident, tree). tree_inner W ident"
  by unfold_locales (auto simp: tree_of_def)

lemma u32_parent: "unat (drop_bit 1 (w :: u32)) = unat w div 2"
  by (simp only: unat_drop_bit_eq) (simp add: drop_bit_eq_div)

lemma u32_low_bit: "(w :: u32) AND 1 = 0 \<longleftrightarrow> even (unat w)"
proof -
  have "(w AND 1 = 0) = (unat (w AND 1) = 0)" by (simp only: unat_eq_0)
  also have "unat (w AND 1) = unat w AND 1" by (simp only: unsigned_and_eq unsigned_1)
  also have "\<dots> = unat w mod 2" by (rule and_one_eq)
  finally show ?thesis by (simp add: even_iff_mod_2_eq_zero)
qed

lemma u32_sibling: "unat ((w :: u32) XOR 1) = sibling (unat w)"
  by (simp only: unsigned_xor_eq unsigned_1 One_nat_def xor_Suc_0_eq) (simp add: sibling_def)

end
