(* ===== verification/LmotsScratch.thy ===== *)
theory LmotsScratch
  imports LmsTree
begin

text \<open>
  The scratch buffers of \<open>LmotsLms\<close>. What a hash call reads from its buffer is the input that the
  value of the operation is defined with; no operation writes past the end of a buffer; and
  the small buffer after a successful \<open>sign\<close> ends with the input of the last hash call for
  the last chain, which holds the seed or an unreleased value of that chain.
\<close>

section \<open>The bytes in front of a scratch buffer\<close>

lemma write_start: "write_at 0 src s = src @ drop (length src) s"
  by (simp add: write_at_def)

lemma update_write_at: "i < length s \<Longrightarrow> s[i := v] = write_at i [v] s"
  by (simp add: write_at_def upd_conv_take_nth_drop)

lemma write_behind: "length xs = off \<Longrightarrow> write_at off src (xs @ ys) = (xs @ src) @ drop (length src) ys"
  by (simp add: write_at_def)

lemmas filling = write_start update_write_at write_behind

lemma fillElement_eq:
  assumes "length ident = 16" and "length v = HASH_BYTES" and "55 \<le> length s"
  shows "fillElement ident q i tag v s = (ident @ putU32 q @ putU16 i @ [tag] @ v) @ drop 55 s"
  using assms by (simp add: fillElement_def filling del: append_assoc)

lemma hashMessage_scratch_eq:
  assumes "length ident = 16" and "length C = HASH_BYTES" and "54 + length m \<le> n" and "n \<le> length s"
  shows "hashMessageWithChecksum_scratch ident q C m n s = (ident @ putU32 q @ putU16 D_MESG @ C @ m) @ drop (54 + length m) s"
  using assms by (simp add: hashMessageWithChecksum_scratch_def filling del: append_assoc) (simp add: ac_simps)

lemma hashLeaf_scratch_eq:
  assumes "length ident = 16" and "length h = HASH_BYTES" and "54 \<le> length s"
  shows "hashLeaf_scratch ident n h s = (ident @ putU32 n @ putU16 D_LEAF @ h) @ drop 54 s"
  using assms by (simp add: hashLeaf_scratch_def filling del: append_assoc)

lemma hashInternal_scratch_eq:
  assumes "length ident = 16" and "length l = HASH_BYTES" and "length r = HASH_BYTES" and "86 \<le> length s"
  shows "hashInternal_scratch ident n l r s = (ident @ putU32 n @ putU16 D_INTR @ l @ r) @ drop 86 s"
  using assms by (simp add: hashInternal_scratch_def filling del: append_assoc)

lemma publicPrefix_scratch_eq:
  assumes "length ident = 16" and "22 \<le> length s"
  shows "publicPrefix_scratch ident q s = (ident @ putU32 q @ putU16 D_PBLC) @ drop 22 s"
  using assms by (simp add: publicPrefix_scratch_def filling del: append_assoc)

lemmas scratch_eqs = fillElement_eq hashLeaf_scratch_eq hashInternal_scratch_eq publicPrefix_scratch_eq

section \<open>No operation runs past the end of its buffer\<close>

lemma fill_lengths:
  "length ident = 16 \<Longrightarrow> length v = HASH_BYTES \<Longrightarrow> 55 \<le> length s \<Longrightarrow> length (fillElement ident q i tag v s) = length s"
  "length ident = 16 \<Longrightarrow> length v = HASH_BYTES \<Longrightarrow> 54 \<le> length s \<Longrightarrow> length (hashLeaf_scratch ident n v s) = length s"
  "length ident = 16 \<Longrightarrow> length v = HASH_BYTES \<Longrightarrow> length r = HASH_BYTES \<Longrightarrow> 86 \<le> length s \<Longrightarrow>
    length (hashInternal_scratch ident n v r s) = length s"
  "length ident = 16 \<Longrightarrow> 22 \<le> length s \<Longrightarrow> length (publicPrefix_scratch ident q s) = length s"
  by (simp_all add: scratch_eqs)

lemma derive_scratch_length:
  "length ident = 16 \<Longrightarrow> length seed = HASH_BYTES \<Longrightarrow> 55 \<le> length s \<Longrightarrow>
   length (derivePrivateElement_scratch ident seed q i s) = length s"
  by (simp add: derivePrivateElement_scratch_def fill_lengths)

lemma hashMessage_scratch_length:
  "length ident = 16 \<Longrightarrow> length C = HASH_BYTES \<Longrightarrow> n \<le> length s \<Longrightarrow>
   length (hashMessageWithChecksum_scratch ident q C m n s) = length s"
  by (cases "54 + length m \<le> n")
    (simp add: hashMessage_scratch_eq, simp add: hashMessageWithChecksum_scratch_def)

lemma chainHash_scratch_done: "\<not> j < e \<Longrightarrow> chainHash_scratch W ident q i j e x s = s"
  by (subst chainHash_scratch.simps) simp

lemma chainHash_scratch_step:
  "j < e \<Longrightarrow> chainHash_scratch W ident q i j e x s =
    (case sha256 W (ident @ putU32 q @ putU16 i @ [j] @ x) of
       Inl _ \<Rightarrow> fillElement ident q i j x s
     | Inr y \<Rightarrow> chainHash_scratch W ident q i (j + 1) e y (fillElement ident q i j x s))"
  by (subst chainHash_scratch.simps) (simp add: Let_def)

lemma chainHash_scratch_length:
  "wolf_sizes W \<Longrightarrow> length ident = 16 \<Longrightarrow> length x = HASH_BYTES \<Longrightarrow> 55 \<le> length s \<Longrightarrow>
   length (chainHash_scratch W ident q i j e x s) = length s"
proof (induction W ident q i j e x s rule: chainHash_scratch.induct)
  case (1 W ident q i j e x s)
  then show ?case
    by (cases "j < e")
      (auto simp: chainHash_scratch_step chainHash_scratch_done fill_lengths dest: sha256_Inr_length split: sum.split)
qed

lemma chains_scratch_length:
  assumes "wolf_sizes W" and "length ident = 16" and "length seed = HASH_BYTES"
  shows "55 \<le> length s \<Longrightarrow> length (chains_scratch W ident seed q ends is s) = length s"
proof (induction "is" arbitrary: s)
  case (Cons i "is")
  note d = derive_scratch_length [OF assms(2,3) Cons.prems]
  show ?case
  proof (cases "derivePrivateElement W ident seed q (of_nat i)")
    case (Inr x)
    then have "length x = HASH_BYTES" using assms(1) by (rule derivePrivateElement_length [rotated])
    with d have "length (chainHash_scratch W ident q (of_nat i) 0 (ends i) x (derivePrivateElement_scratch ident seed q (of_nat i) s)) = length s"
      using assms Cons.prems by (simp add: chainHash_scratch_length)
    then show ?thesis using Inr Cons by (simp add: Let_def split: sum.split)
  qed (simp add: Let_def d)
qed simp

lemma verifyChains_scratch_length:
  "wolf_sizes W \<Longrightarrow> length ident = 16 \<Longrightarrow> 55 \<le> length s \<Longrightarrow> \<forall>i \<in> set is. i * HASH_BYTES + HASH_BYTES \<le> length ys \<Longrightarrow>
   length (verifyChains_scratch W ident q starts ys is s) = length s"
  by (induction "is" arbitrary: s) (auto simp: Let_def chainHash_scratch_length split: sum.split)

lemma chainEnds_scratch_length:
  "\<forall>i \<in> set is. 54 + i * HASH_BYTES \<le> length s \<Longrightarrow> \<forall>i \<in> set is. \<forall>v. chain i = Inr v \<longrightarrow> length v = HASH_BYTES \<Longrightarrow>
   length (chainEnds_scratch chain is s) = length s"
  by (induction "is" arbitrary: s) (auto simp: ac_simps split: sum.split)

text \<open>The declared sizes of \<open>m_smallHashInput\<close> and \<open>m_publicHashInput\<close>.\<close>

abbreviation (input) smallHashInput :: nat where "smallHashInput \<equiv> 1024"
abbreviation (input) publicHashInput :: nat where "publicHashInput \<equiv> 16 + 4 + 2 + 67 * 32"

lemma lmotsPublicHash_scratch_lengths:
  assumes "wolf_sizes W" and "length ident = 16" and "length seed = HASH_BYTES"
    and "length small = smallHashInput" and "length public = publicHashInput"
    and "lmotsPublicHash_scratch W ident seed q (small, public) = (small', public')"
  shows "length small' = smallHashInput" and "length public' = publicHashInput"
proof -
  let ?chain = "\<lambda>i. bindE (derivePrivateElement W ident seed q (of_nat i)) (\<lambda>x. chainHash W ident q (of_nat i) 0 MAX_CHAIN x)"
  have s: "small' = chains_scratch W ident seed q (\<lambda>i. MAX_CHAIN) [0..<LMOTS_P] small"
    "public' = chainEnds_scratch ?chain [0..<LMOTS_P] (publicPrefix_scratch ident q public)"
    using assms(6) by (simp_all add: lmotsPublicHash_scratch_def del: upt_rec_numeral)
  show "length small' = smallHashInput" using assms(1-4) by (simp add: s chains_scratch_length del: upt_rec_numeral)
  have p: "length (publicPrefix_scratch ident q public) = publicHashInput" using assms(2,5) by (simp add: fill_lengths)
  moreover have "length v = HASH_BYTES" if "?chain i = Inr v" for i v
    using that assms(1) by (auto simp: bindE_eq_Inr dest: derivePrivateElement_length chainHash_length)
  ultimately show "length public' = publicHashInput"
    unfolding s by (subst chainEnds_scratch_length) (auto simp del: upt_rec_numeral)
qed

lemma buildLeaves_scratch_lengths:
  assumes "wolf_sizes W" and "length ident = 16" and "length seed = HASH_BYTES"
  shows "length small = smallHashInput \<Longrightarrow> length public = publicHashInput \<Longrightarrow>
    buildLeaves_scratch W ident seed qs (small, public) = (small', public') \<Longrightarrow>
    length small' = smallHashInput \<and> length public' = publicHashInput"
proof (induction qs arbitrary: small public)
  case (Cons q qs)
  obtain s1 p1 where h: "lmotsPublicHash_scratch W ident seed (of_nat q) (small, public) = (s1, p1)" by fastforce
  note l = lmotsPublicHash_scratch_lengths [OF assms Cons.prems(1,2) h]
  show ?case
  proof (cases "lmotsPublicHash W ident seed (of_nat q)")
    case (Inr d)
    then have "length d = HASH_BYTES"
      using assms(1) by (auto simp: lmotsPublicHash_def bindE_eq_Inr dest: sha256_Inr_length)
    with l have "length (hashLeaf_scratch ident (of_nat (LMS_LEAVES + q)) d s1) = smallHashInput"
      using assms(2) by (simp add: fill_lengths)
    then show ?thesis
      using Cons.IH [of "hashLeaf_scratch ident (of_nat (LMS_LEAVES + q)) d s1" p1] Cons.prems h l Inr
      by (auto simp: Let_def split: sum.splits)
  qed (use l h Cons.prems in simp)
qed simp

lemma buildInternal_scratch_length:
  assumes "wolf_sizes W" and "length ident = 16" and "86 \<le> length small"
  shows "length tree = LMS_TREE_NODES \<Longrightarrow> \<forall>x \<in> set tree. length x = HASH_BYTES \<Longrightarrow> \<forall>n \<in> set ns. n < LMS_LEAVES \<Longrightarrow>
    length (buildInternal_scratch W ident ns tree small) = length small"
  using assms(3)
proof (induction ns arbitrary: tree small)
  case (Cons n ns)
  let ?l = "tree ! (2 * n)" and ?r = "tree ! (2 * n + 1)"
  have lr: "length ?l = HASH_BYTES" "length ?r = HASH_BYTES" using Cons.prems by (auto intro!: bspec nth_mem)
  then have s: "length (hashInternal_scratch ident (of_nat n) ?l ?r small) = length small"
    using assms(2) Cons.prems(4) by (intro fill_lengths(3))
  show ?case
  proof (cases "hashInternal W ident (of_nat n) ?l ?r")
    case (Inr d)
    then have "length d = HASH_BYTES" using assms(1) by (auto simp: hashInternal_def dest: sha256_Inr_length)
    then have "\<forall>x \<in> set (tree[n := d]). length x = HASH_BYTES"
      using Cons.prems(2) by (auto dest!: subsetD [OF set_update_subset_insert])
    then show ?thesis
      using Cons.IH [of "tree[n := d]" "hashInternal_scratch ident (of_nat n) ?l ?r small"] Cons.prems s Inr by (simp add: Let_def)
  qed (use s in \<open>simp add: Let_def\<close>)
qed simp

lemma nodes_update:
  "\<forall>x \<in> set tree. length x = HASH_BYTES \<Longrightarrow> length d = HASH_BYTES \<Longrightarrow> \<forall>x \<in> set (tree[i := d]). length x = HASH_BYTES"
  by (auto dest!: subsetD [OF set_update_subset_insert])

lemma buildLeaves_arrays:
  "wolf_sizes W \<Longrightarrow> buildLeaves W ident seed qs tree = (r, tree') \<Longrightarrow> \<forall>x \<in> set tree. length x = HASH_BYTES \<Longrightarrow>
   length tree' = length tree \<and> (\<forall>x \<in> set tree'. length x = HASH_BYTES)"
proof (induction qs arbitrary: tree)
  case (Cons q qs)
  show ?case
  proof (cases "bindE (lmotsPublicHash W ident seed (of_nat q)) (hashLeaf W ident (of_nat (LMS_LEAVES + q)))")
    case (Inr d)
    then have "length d = HASH_BYTES"
      using Cons.prems(1) by (auto simp: bindE_eq_Inr hashLeaf_def dest: sha256_Inr_length)
    from Cons.IH [OF Cons.prems(1) _ nodes_update [OF Cons.prems(3) this]] show ?thesis
      using Cons.prems(2) Inr by simp
  qed (use Cons.prems in simp)
qed simp

lemma buildInternal_arrays:
  "wolf_sizes W \<Longrightarrow> buildInternal W ident nodes tree = (r, tree') \<Longrightarrow> \<forall>x \<in> set tree. length x = HASH_BYTES \<Longrightarrow>
   length tree' = length tree \<and> (\<forall>x \<in> set tree'. length x = HASH_BYTES)"
proof (induction nodes arbitrary: tree)
  case (Cons node nodes)
  show ?case
  proof (cases "hashInternal W ident (of_nat node) (tree ! (2 * node)) (tree ! (2 * node + 1))")
    case (Inr d)
    then have "length d = HASH_BYTES"
      using Cons.prems(1) by (auto simp: hashInternal_def dest: sha256_Inr_length)
    from Cons.IH [OF Cons.prems(1) _ nodes_update [OF Cons.prems(3) this]] show ?thesis
      using Cons.prems(2) Inr by simp
  qed (use Cons.prems in simp)
qed simp

lemma buildTree_scratch_lengths:
  assumes "wolf_sizes W" and "length (m_identifier s) = 16" and "length (m_seed s) = HASH_BYTES"
    and "\<And>tree. m_tree s = Some tree \<Longrightarrow> length tree = LMS_TREE_NODES \<and> (\<forall>x \<in> set tree. length x = HASH_BYTES)"
    and small: "length (m_smallHashInput s) = smallHashInput" and public: "length (m_publicHashInput s) = publicHashInput"
    and run: "buildTree W s = (r, s')"
  shows "length (m_smallHashInput s') = smallHashInput \<and> length (m_publicHashInput s') = publicHashInput"
proof (cases "m_tree s")
  case None
  then show ?thesis using small public run by (auto simp: buildTree_def)
next
  case (Some tree)
  obtain sm pb where leaves: "buildLeaves_scratch W (m_identifier s) (m_seed s) [0..<LMS_LEAVES] (m_smallHashInput s, m_publicHashInput s) = (sm, pb)"
    by fastforce
  note l = buildLeaves_scratch_lengths [OF assms(1-3) small public leaves]
  obtain r1 t1 where t1: "buildLeaves W (m_identifier s) (m_seed s) [0..<LMS_LEAVES] tree = (r1, t1)" by fastforce
  have "length t1 = LMS_TREE_NODES \<and> (\<forall>x \<in> set t1. length x = HASH_BYTES)"
    using buildLeaves_arrays [OF assms(1) t1] assms(4) [OF Some] by simp
  then have "length (buildInternal_scratch W (m_identifier s) (rev [1..<LMS_LEAVES]) t1 sm) = length sm"
    using l assms(1,2) by (intro buildInternal_scratch_length) (auto simp del: upt_rec_numeral)
  then show ?thesis
    using run Some leaves t1 l by (cases r1) (auto simp: buildTree_def Let_def simp del: upt_rec_numeral split: prod.splits)
qed

lemma sign_scratch_length:
  assumes "wolf_sizes W" and "length (m_identifier s) = 16" and "length seed = HASH_BYTES" and "length C = HASH_BYTES"
    and "length (m_smallHashInput s) = smallHashInput"
  shows "length (sign_scratch W s q message seed C) = smallHashInput"
proof -
  have "length (hashMessageWithChecksum_scratch (m_identifier s) q C message 1024 (m_smallHashInput s)) = smallHashInput"
    using assms(2,4,5) by (subst hashMessage_scratch_length) simp_all
  then show ?thesis
    using assms(1-3,5)
    by (auto simp: sign_scratch_def Let_def chains_scratch_length simp del: upt_rec_numeral split: sum.split)
qed

lemma candidate_scratch_lengths:
  assumes "wolf_sizes W" and "length ident = 16" and "length sig = LMOTS_SIGNATURE_BYTES"
    and "length small = smallHashInput" and "length public = publicHashInput"
    and run: "lmotsCandidatePublicHash_scratch W ident q message sig (small, public) = (small', public')"
  shows "length small' = smallHashInput \<and> length public' = publicHashInput"
proof (cases "getU32 sig = LMOTS_TYPE")
  case True
  let ?C = "read_at 4 HASH_BYTES sig" and ?ys = "drop (4 + HASH_BYTES) sig"
  let ?m = "hashMessageWithChecksum_scratch ident q ?C message 1024 small"
  have m: "length ?m = smallHashInput" using assms(2-4) by (subst hashMessage_scratch_length) simp_all
  show ?thesis
  proof (cases "hashMessageWithChecksum W ident q ?C message 1024")
    case (Inl err)
    then show ?thesis using run True m assms(5) by (auto simp: lmotsCandidatePublicHash_scratch_def Let_def)
  next
    case (Inr dc)
    let ?chain = "\<lambda>i. chainHash W ident q (of_nat i) (coefficientW4 dc i) MAX_CHAIN (read_at (i * HASH_BYTES) HASH_BYTES ?ys)"
    have s: "small' = verifyChains_scratch W ident q (coefficientW4 dc) ?ys [0..<LMOTS_P] ?m"
      "public' = chainEnds_scratch ?chain [0..<LMOTS_P] (publicPrefix_scratch ident q public)"
      using run True Inr by (simp_all add: lmotsCandidatePublicHash_scratch_def Let_def del: upt_rec_numeral)
    have y: "length (read_at (i * HASH_BYTES) HASH_BYTES ?ys) = HASH_BYTES" if "i < 67" for i using that assms(3) by simp
    have "length small' = smallHashInput"
      unfolding s(1) using m assms(1-3) by (subst verifyChains_scratch_length) (auto simp del: upt_rec_numeral)
    moreover have "length (publicPrefix_scratch ident q public) = publicHashInput" using assms(2,5) by (simp add: fill_lengths)
    then have "length public' = publicHashInput"
      unfolding s(2) using chainHash_length [OF assms(1) y]
      by (subst chainEnds_scratch_length) (auto simp del: upt_rec_numeral)
    ultimately show ?thesis ..
  qed
qed (use run assms(4,5) in \<open>simp add: lmotsCandidatePublicHash_scratch_def\<close>)

lemma climbPath_scratch_length:
  assumes "wolf_sizes W" and "length ident = 16"
  shows "length current = HASH_BYTES \<Longrightarrow> 86 \<le> length s \<Longrightarrow> \<forall>l \<in> set levels. l * HASH_BYTES + HASH_BYTES \<le> length path \<Longrightarrow>
    length (climbPath_scratch W ident path levels node current s) = length s"
proof (induction levels arbitrary: node current s)
  case (Cons level levels)
  let ?sib = "read_at (level * HASH_BYTES) HASH_BYTES path"
  define lr where "lr = (if node AND 1 = 0 then (current, ?sib) else (?sib, current))"
  have len: "length (fst lr) = HASH_BYTES" "length (snd lr) = HASH_BYTES" using Cons.prems by (auto simp: lr_def)
  let ?s = "hashInternal_scratch ident (drop_bit 1 node) (fst lr) (snd lr) s"
  have s: "length ?s = length s" using len assms(2) Cons.prems(2) by (intro fill_lengths(3))
  have d: "length d = HASH_BYTES" if "hashInternal W ident (drop_bit 1 node) (fst lr) (snd lr) = Inr d" for d
    using that assms(1) by (auto simp: hashInternal_def dest: sha256_Inr_length)
  have "climbPath_scratch W ident path (level # levels) node current s =
      (case hashInternal W ident (drop_bit 1 node) (fst lr) (snd lr) of
        Inl _ \<Rightarrow> ?s | Inr parent \<Rightarrow> climbPath_scratch W ident path levels (drop_bit 1 node) parent ?s)"
    by (simp add: Let_def split_beta lr_def cong: sum.case_cong)
  then show ?case using Cons.IH [OF d, of _ ?s] Cons.prems s by (auto split: sum.split)
qed simp

text \<open>The two buffers of \<open>verify\<close>.\<close>

lemma verify_scratch_lengths:
  assumes "wolf_sizes W" and "length ident = 16" and "length sig = LMOTS_SIGNATURE_BYTES" and "length path = LMS_PATH_BYTES"
    and "length small = smallHashInput" and "length public = publicHashInput"
    and run: "verify_scratch W q message sig ident path (small, public) = (small', public')"
  shows "length small' = smallHashInput \<and> length public' = publicHashInput"
proof (cases "q \<ge> 1024")
  case False
  obtain s1 p1 where c: "lmotsCandidatePublicHash_scratch W ident q message sig (small, public) = (s1, p1)" by fastforce
  note l = candidate_scratch_lengths [OF assms(1-3,5,6) c]
  show ?thesis
  proof (cases "lmotsCandidatePublicHash W ident q message sig")
    case (Inl err)
    then show ?thesis using run False c l by (simp add: verify_scratch_def)
  next
    case (Inr h)
    then have "length h = HASH_BYTES"
      using assms(1) by (auto simp: lmotsCandidatePublicHash_def Let_def bindE_eq_Inr dest: sha256_Inr_length split: if_splits)
    then have s2: "length (hashLeaf_scratch ident (1024 + q) h s1) = smallHashInput" using assms(2) l by (simp add: fill_lengths)
    have "length current = HASH_BYTES" if "hashLeaf W ident (1024 + q) h = Inr current" for current
      using that assms(1) by (auto simp: hashLeaf_def dest: sha256_Inr_length)
    then show ?thesis
      using run False c l Inr s2 climbPath_scratch_length [OF assms(1,2), of _ "hashLeaf_scratch ident (1024 + q) h s1" "[0..<LMS_HEIGHT]" path] assms(4)
      by (auto simp: verify_scratch_def Let_def simp del: upt_rec_numeral split: sum.splits)
  qed
qed (use run assms(5,6) in \<open>simp add: verify_scratch_def\<close>)

section \<open>What a signature leaves in the small buffer\<close>

lemma chainHash_scratch_last:
  assumes "wolf_sizes W" and "length ident = 16"
  shows "j < e \<Longrightarrow> length x = HASH_BYTES \<Longrightarrow> 55 \<le> length s \<Longrightarrow> chainHash W ident q i j e x = Inr y \<Longrightarrow>
    \<exists>z. chainHash W ident q i j (e - 1) x = Inr z \<and> length z = HASH_BYTES \<and>
      take 55 (chainHash_scratch W ident q i j e x s) = ident @ putU32 q @ putU16 i @ [e - 1] @ z"
proof (induction W \<equiv> W ident \<equiv> ident q i j e x s rule: chainHash_scratch.induct)
  case (1 q i j e x s)
  from "1.prems"(1,4) obtain v where v: "sha256 W (ident @ putU32 q @ putU16 i @ [j] @ x) = Inr v"
    and rest: "chainHash W ident q i (j + 1) e v = Inr y"
    by (auto simp: chainHash_step bindE_eq_Inr)
  have lv: "length v = HASH_BYTES" using v assms(1) by (simp add: sha256_Inr_length)
  note s = chainHash_scratch_step [OF "1.prems"(1), of W ident q i x s, unfolded v, simplified]
  let ?f = "fillElement ident q i j x s"
  have f: "?f = (ident @ putU32 q @ putU16 i @ [j] @ x) @ drop 55 s" "length ?f = length s"
    using fillElement_eq [OF assms(2) "1.prems"(2,3)] fill_lengths(1) [OF assms(2) "1.prems"(2,3)] by simp_all
  have "e \<noteq> 0" using "1.prems"(1) by auto
  then have step: "unat (j + 1) = Suc (unat j)" "unat (e - 1) = unat e - 1"
    using unat_next_step [OF "1.prems"(1)] unat_minus_one [of e] "1.prems"(1) by (auto simp: word_less_nat_alt)
  show ?case
  proof (cases "j + 1 < e")
    case True
    then have "j < e - 1" using step by (simp add: word_less_nat_alt unat_next_step)
    then show ?thesis
      using "1.hyps" [OF "1.prems"(1) refl v True lv _ rest] s f v "1.prems"(3) by (simp add: chainHash_step)
  next
    case False
    then have "unat e = unat (j + 1)" using "1.prems"(1) by (simp add: word_less_nat_alt unat_next_step [OF "1.prems"(1)])
    then have "e = j + 1" by (simp only: unat_arith_simps)
    then show ?thesis
      using s f(1) False "1.prems"(2) assms(2) by (simp add: chainHash_scratch_done chainHash_done)
  qed
qed

text \<open>
  The value that the last chain of a signature was computed from: the seed when the last
  coefficient is 0, otherwise the value one step before the one that was released.
\<close>

definition last_chain_secret :: "wolf \<Rightarrow> bytes \<Rightarrow> bytes \<Rightarrow> u32 \<Rightarrow> bytes \<Rightarrow> bytes res" where
  "last_chain_secret W identifier seed q digestAndChecksum =
    (let a = coefficientW4 digestAndChecksum 66
     in if a = 0 then Inr seed
        else bindE (derivePrivateElement W identifier seed q 66) (chainHash W identifier q 66 0 (a - 1)))"

lemma chains_scratch_append:
  assumes "mapE (\<lambda>i. bindE (derivePrivateElement W ident seed q (of_nat i)) (\<lambda>x. chainHash W ident q (of_nat i) 0 (ends i) x)) is = Inr ys"
  shows "chains_scratch W ident seed q ends (is @ js) s = chains_scratch W ident seed q ends js (chains_scratch W ident seed q ends is s)"
  using assms by (induction "is" arbitrary: s ys) (auto simp: Let_def bindE_eq_Inr simp del: mapE_eq_Inr)

lemma upt_chains: "[0..<67] = [0..<66] @ [66 :: nat]"
  using upt_Suc_append [of 0 66] by simp

lemma last_chain_scratch:
  assumes W: "wolf_sizes W" and i: "length ident = 16" and sd: "length seed = HASH_BYTES" and s: "55 \<le> length s"
    and x: "derivePrivateElement W ident seed q 66 = Inr x" and y: "chainHash W ident q 66 0 (coefficientW4 dc 66) x = Inr y"
  shows "last_chain_secret W ident seed q dc = Inr (read_at 23 HASH_BYTES (chains_scratch W ident seed q (coefficientW4 dc) [66] s))"
proof -
  let ?a = "coefficientW4 dc 66" and ?d = "derivePrivateElement_scratch ident seed q 66 s"
  have d: "?d = (ident @ putU32 q @ putU16 66 @ [0xff] @ seed) @ drop 55 s"
    unfolding derivePrivateElement_scratch_def by (rule fillElement_eq [OF i sd s])
  have eq: "chains_scratch W ident seed q (coefficientW4 dc) [66] s = chainHash_scratch W ident q 66 0 ?a x ?d"
    using x y by (simp add: Let_def)
  have ld: "55 \<le> length ?d" using derive_scratch_length [OF i sd s] s by simp
  show ?thesis
  proof (cases "0 < ?a")
    case True
    obtain z where z: "chainHash W ident q 66 0 (?a - 1) x = Inr z" "length z = HASH_BYTES"
        "take 55 (chainHash_scratch W ident q 66 0 ?a x ?d) = ident @ putU32 q @ putU16 66 @ [?a - 1] @ z"
      using chainHash_scratch_last [OF W i True derivePrivateElement_length [OF W x] ld y] by blast
    have "read_at 23 HASH_BYTES (take 55 m) = read_at 23 HASH_BYTES m" for m :: bytes
      by (simp add: read_at_def drop_take)
    with z(3) have "read_at 23 HASH_BYTES (chainHash_scratch W ident q 66 0 ?a x ?d) = read_at 23 HASH_BYTES (ident @ putU32 q @ putU16 66 @ [?a - 1] @ z)"
      by metis
    also have "\<dots> = z" using i z(2) by (simp add: read_at_def)
    finally show ?thesis unfolding eq using True x z(1) by (simp add: last_chain_secret_def Let_def word_gt_0)
  next
    case False
    then have "?a = 0" by (simp add: word_gt_0)
    moreover have "read_at 23 HASH_BYTES ?d = seed" using i sd by (simp add: d read_at_def)
    ultimately show ?thesis unfolding eq by (simp add: last_chain_secret_def Let_def chainHash_scratch_done)
  qed
qed

lemma sign_residue:
  assumes W: "wolf_sizes W" and i: "length (m_identifier s) = 16" and sd: "length seed = HASH_BYTES" and C: "length C = HASH_BYTES"
    and s: "length (m_smallHashInput s) = smallHashInput" and sig: "sign W s q message seed C = Inr sig"
  shows "\<exists>dc. hashMessageWithChecksum W (m_identifier s) q C message 1024 = Inr dc \<and>
    last_chain_secret W (m_identifier s) seed q dc = Inr (read_at 23 HASH_BYTES (sign_scratch W s q message seed C))"
proof -
  let ?chain = "\<lambda>dc i. bindE (derivePrivateElement W (m_identifier s) seed q (of_nat i))
    (\<lambda>x. chainHash W (m_identifier s) q (of_nat i) 0 (coefficientW4 dc i) x)"
  let ?m = "hashMessageWithChecksum_scratch (m_identifier s) q C message 1024 (m_smallHashInput s)"
  obtain dc ys where q: "\<not> q \<ge> 1024" and dc: "hashMessageWithChecksum W (m_identifier s) q C message 1024 = Inr dc"
    and ys: "mapE (?chain dc) [0..<67] = Inr ys"
    using sig by (auto simp: sign_def Let_def bindE_eq_Inr simp del: upt_rec_numeral split: if_splits)
  then obtain zs z where zs: "mapE (?chain dc) [0..<66] = Inr zs" and z: "?chain dc 66 = Inr z"
    unfolding upt_chains by (auto simp: mapE_eq_Inr list_all2_append1 list_all2_Cons1 simp del: upt_rec_numeral)
  obtain x where x: "derivePrivateElement W (m_identifier s) seed q 66 = Inr x"
      "chainHash W (m_identifier s) q 66 0 (coefficientW4 dc 66) x = Inr z"
    using z by (auto simp: bindE_eq_Inr)
  let ?s = "chains_scratch W (m_identifier s) seed q (coefficientW4 dc) [0..<66] ?m"
  have "length ?m = smallHashInput" using i C s by (subst hashMessage_scratch_length) simp_all
  then have "length ?s = smallHashInput" using W i sd by (simp add: chains_scratch_length del: upt_rec_numeral)
  then have "last_chain_secret W (m_identifier s) seed q dc =
      Inr (read_at 23 HASH_BYTES (chains_scratch W (m_identifier s) seed q (coefficientW4 dc) [66] ?s))"
    by (intro last_chain_scratch [OF W i sd _ x]) simp
  moreover have "sign_scratch W s q message seed C = chains_scratch W (m_identifier s) seed q (coefficientW4 dc) [66] ?s"
    using q dc chains_scratch_append [OF zs, of "[66]" ?m] upt_chains by (simp only: sign_scratch_def if_False Let_def sum.case)
  ultimately show ?thesis using dc by (simp only: sum.inject) blast
qed

end
