(* ===== verification/LmsTotal.thy ===== *)
theory LmsTotal
  imports LmsVerify LmotsScratch
begin

text \<open>
  The LMS component as a whole. First its totality: with hash calls that work on inputs of
  at most 1024 bytes for a single hash and exactly 2166 for a public key, building, signing and
  verifying succeed (that no input outgrows the buffer it is assembled in is shown in
  \<open>LmotsScratch\<close>). Then the properties of the component.
\<close>

section \<open>Totality and the scratch buffers\<close>

text \<open>SHA-256 calls on inputs of at most \<open>n\<close> bytes return 0.\<close>

definition sha_works_upto :: "nat \<Rightarrow> wolf \<Rightarrow> bool" where
  "sha_works_upto n W \<longleftrightarrow>
    wc_InitSha256 W = 0 \<and> (\<forall>x. length x \<le> n \<longrightarrow> wc_Sha256Update W [] x = 0 \<and> fst (wc_Sha256Final W x) = 0)"

text \<open>The inputs that fit the two scratch buffers: a single hash, or the whole public buffer.\<close>

definition sha_works_buffers :: "wolf \<Rightarrow> bool" where
  "sha_works_buffers W \<longleftrightarrow> sha_works_upto smallHashInput W \<and>
    (\<forall>x. length x = publicHashInput \<longrightarrow> wc_Sha256Update W [] x = 0 \<and> fst (wc_Sha256Final W x) = 0)"

lemma wolf_works_sha: "wolf_works W \<Longrightarrow> sha_works_upto n W"
  by (simp add: wolf_works_def sha_works_upto_def)

lemma wolf_works_buffers: "wolf_works W \<Longrightarrow> sha_works_buffers W"
  by (simp add: wolf_works_def sha_works_buffers_def sha_works_upto_def)

lemma sha256_succeeds:
  "sha_works_upto n W \<Longrightarrow> n \<le> UINT32_MAX \<Longrightarrow> length x \<le> n \<Longrightarrow> succeeds (sha256 W x)"
  by (auto simp: sha256_def sha_works_upto_def Let_def split_beta)

lemma sha_works_small: "sha_works_buffers W \<Longrightarrow> sha_works_upto smallHashInput W"
  by (simp add: sha_works_buffers_def)

lemma public_hash_succeeds: "sha_works_buffers W \<Longrightarrow> length x = publicHashInput \<Longrightarrow> succeeds (sha256 W x)"
  by (auto simp: sha256_def sha_works_buffers_def sha_works_upto_def Let_def split_beta)

lemma derivePrivateElement_succeeds:
  assumes "sha_works_upto smallHashInput W" "length ident = 16" "length seed = HASH_BYTES"
  shows "succeeds (derivePrivateElement W ident seed q i)"
  using assms by (simp add: derivePrivateElement_def sha256_succeeds)

lemma chainHash_succeeds:
  "sha_works_upto smallHashInput W \<Longrightarrow> wolf_sizes W \<Longrightarrow> length ident = 16 \<Longrightarrow>
   length x = HASH_BYTES \<Longrightarrow> succeeds (chainHash W ident q i j e x)"
proof (induction W ident q i j e x rule: chainHash.induct)
  case (1 W ident q i j e x)
  show ?case
  proof (cases "j < e")
    case True
    then show ?thesis
      unfolding chainHash_step [OF True]
      using 1 True by (intro bindE_succeeds) (auto intro: sha256_succeeds dest: sha256_Inr_length)
  qed (simp add: chainHash_done)
qed

lemma hashMessageWithChecksum_succeeds:
  assumes "sha_works_upto smallHashInput W" "length ident = 16" "length C = HASH_BYTES"
    and "length message \<le> 970"
  shows "succeeds (hashMessageWithChecksum W ident q C message smallHashInput)"
  using assms by (auto simp: hashMessageWithChecksum_def Let_def sha256_succeeds)

lemma lmots_publicInput_succeeds:
  assumes "sha_works_buffers W" "length ident = 16"
    and "\<And>i. i < 67 \<Longrightarrow> succeeds (f i)" and "\<And>i v. i < 67 \<Longrightarrow> f i = Inr v \<Longrightarrow> length v = HASH_BYTES"
  shows "succeeds (bindE (mapE f [0..<67])
    (\<lambda>ends. sha256 W (ident @ putU32 q @ putU16 D_PBLC @ concat ends)))"
proof (intro bindE_succeeds mapE_succeeds)
  fix ends assume "mapE f [0..<67] = Inr ends"
  then have len: "length ends = 67" and e: "\<And>i. i < 67 \<Longrightarrow> f i = Inr (ends ! i)"
    by (auto simp: mapE_eq_Inr list_all2_upt_nth simp del: upt_rec_numeral)
  have "\<forall>y \<in> set ends. length y = HASH_BYTES"
    using len e assms(4) by (auto simp: in_set_conv_nth)
  from length_concat_blocks [OF this]
  show "succeeds (sha256 W (ident @ putU32 q @ putU16 D_PBLC @ concat ends))"
    using assms(1,2) len by (intro public_hash_succeeds) simp_all
qed (simp add: assms(3))

lemma lmotsPublicHash_succeeds:
  assumes "wolf_sizes W" "sha_works_buffers W" "length ident = 16" "length seed = HASH_BYTES"
  shows "succeeds (lmotsPublicHash W ident seed q)"
  unfolding lmotsPublicHash_def
  using assms sha_works_small [OF assms(2)]
  by (intro lmots_publicInput_succeeds)
    (auto intro!: derivePrivateElement_succeeds chainHash_succeeds
      simp: bindE_eq_Inr dest: derivePrivateElement_length chainHash_length)

lemma hashLeaf_succeeds:
  "sha_works_upto smallHashInput W \<Longrightarrow> length ident = 16 \<Longrightarrow> length h = HASH_BYTES \<Longrightarrow>
   succeeds (hashLeaf W ident n h)"
  by (simp add: hashLeaf_def sha256_succeeds)

lemma hashInternal_succeeds:
  "sha_works_upto smallHashInput W \<Longrightarrow> length ident = 16 \<Longrightarrow> length l = HASH_BYTES \<Longrightarrow>
   length r = HASH_BYTES \<Longrightarrow> succeeds (hashInternal W ident n l r)"
  by (simp add: hashInternal_def sha256_succeeds)

lemma lms_leaf_succeeds:
  assumes "wolf_sizes W" "sha_works_buffers W" "length ident = 16" "length seed = HASH_BYTES"
  shows "\<exists>d. bindE (lmotsPublicHash W ident seed q) (hashLeaf W ident n) = Inr d \<and> length d = HASH_BYTES"
proof -
  from lmotsPublicHash_succeeds [OF assms] obtain h where h: "lmotsPublicHash W ident seed q = Inr h"
    by (auto simp: succeeds_iff)
  then have "length h = HASH_BYTES"
    using assms(1) by (auto simp: lmotsPublicHash_def bindE_eq_Inr dest: sha256_Inr_length)
  then obtain d where "hashLeaf W ident n h = Inr d"
    using hashLeaf_succeeds [OF sha_works_small [OF assms(2)] assms(3)] by (auto simp: succeeds_iff)
  then show ?thesis using h assms(1) by (auto simp: hashLeaf_def dest: sha256_Inr_length)
qed

abbreviation (input) node_list :: "bytes list \<Rightarrow> bool" where
  "node_list tree \<equiv> length tree = LMS_TREE_NODES \<and> (\<forall>x \<in> set tree. length x = HASH_BYTES)"

lemma buildLeaves_succeeds:
  assumes "wolf_sizes W" "sha_works_buffers W" "length ident = 16" "length seed = HASH_BYTES"
  shows "node_list tree \<Longrightarrow> \<exists>tree'. buildLeaves W ident seed qs tree = (Inr (), tree') \<and> node_list tree'"
proof (induction qs arbitrary: tree)
  case (Cons q qs)
  obtain d where "bindE (lmotsPublicHash W ident seed (of_nat q))
      (hashLeaf W ident (of_nat (LMS_LEAVES + q))) = Inr d" "length d = HASH_BYTES"
    using lms_leaf_succeeds [OF assms] by blast
  then show ?case
    using Cons.IH [of "tree[LMS_LEAVES + q := d]"] Cons.prems
    by (auto dest!: set_update_subset_insert [THEN subsetD])
qed simp

lemma buildInternal_succeeds:
  assumes "wolf_sizes W" "sha_works_upto smallHashInput W" "length ident = 16"
  shows "node_list tree \<Longrightarrow> \<forall>n \<in> set ns. n < LMS_LEAVES \<Longrightarrow>
    \<exists>tree'. buildInternal W ident ns tree = (Inr (), tree') \<and> node_list tree'"
proof (induction ns arbitrary: tree)
  case (Cons n ns)
  have "length (tree ! (2 * n)) = HASH_BYTES" "length (tree ! (2 * n + 1)) = HASH_BYTES"
    using Cons.prems by (auto intro!: bspec nth_mem)
  then obtain d where d: "hashInternal W ident (of_nat n) (tree ! (2 * n)) (tree ! (2 * n + 1)) = Inr d"
    using hashInternal_succeeds [OF assms(2,3)] unfolding succeeds_iff by meson
  then have "length d = HASH_BYTES" using assms(1) by (auto simp: hashInternal_def dest: sha256_Inr_length)
  then show ?case
    using Cons.IH [of "tree[n := d]"] Cons.prems d
    by (auto dest!: set_update_subset_insert [THEN subsetD])
qed simp

lemma buildTree_succeeds:
  assumes "wolf_sizes W" "sha_works_buffers W"
    and "length (m_identifier s) = 16" "length (m_seed s) = HASH_BYTES"
    and "m_tree s = Some tree" "node_list tree"
  shows "\<exists>s'. buildTree W s = (Inr (), s')"
proof -
  obtain t1 where l: "buildLeaves W (m_identifier s) (m_seed s) [0..<LMS_LEAVES] tree = (Inr (), t1)"
    and n: "node_list t1"
    using buildLeaves_succeeds [OF assms(1-4,6)] by blast
  obtain t2 where "buildInternal W (m_identifier s) (rev [1..<LMS_LEAVES]) t1 = (Inr (), t2)"
    using buildInternal_succeeds [OF assms(1) sha_works_small [OF assms(2)] assms(3) n,
        of "rev [1..<LMS_LEAVES]"] by auto
  then show ?thesis using assms(5) l by (simp add: buildTree_def Let_def split_beta del: upt_rec_numeral)
qed

lemma sign_succeeds:
  assumes "wolf_sizes W" "sha_works_upto smallHashInput W"
    and "length (m_identifier s) = 16" "length seed = HASH_BYTES" "length C = HASH_BYTES"
    and "q < 1024" "length message \<le> 970"
  shows "succeeds (sign W s q message seed C)"
  unfolding sign_def Let_def using assms
  by (auto simp: not_le simp del: upt_rec_numeral
      intro!: bindE_succeeds hashMessageWithChecksum_succeeds mapE_succeeds
        derivePrivateElement_succeeds chainHash_succeeds
      dest: derivePrivateElement_length)

section \<open>A concrete object\<close>

text \<open>An object initialised and built over the sample wolfSSL, for the examples.\<close>

definition sample_lms :: LmsState where
  "sample_lms = snd (initialize True (zeros 16) (zeros 32) LmotsLms_ctor)"

lemma sample_initialize: "initialize True (zeros 16) (zeros 32) LmotsLms_ctor = (True, sample_lms)"
  by (simp add: sample_lms_def initialize_def)

lemma sample_lms_fields:
  "m_identifier sample_lms = zeros 16" "m_seed sample_lms = zeros 32"
  "m_tree sample_lms = Some (replicate LMS_TREE_NODES (zeros 32))"
  by (simp_all add: sample_lms_def initialize_def LmotsLms_ctor_def)

lemma sample_works: "sha_works_upto n sample_wolf" "sha_works_buffers sample_wolf"
  using sample_wolf_works by (rule wolf_works_sha, rule wolf_works_buffers)

lemma sample_built: obtains s where "buildTree sample_wolf sample_lms = (Inr (), s)"
  using buildTree_succeeds [OF sample_wolf_sizes sample_works(2), of sample_lms]
  by (auto simp: sample_lms_fields)

lemma built_fields:
  assumes "initialize ok ident seed s0 = (True, s1)" "length ident = 16" "length seed = HASH_BYTES"
    and "buildTree W s1 = (Inr (), s2)"
  shows "built_from W seed s2" "m_identifier s2 = ident" "m_seed s2 = zeros HASH_BYTES"
  using initialize_True [OF assms(1)] buildTree_built [OF _ _ assms(4)] assms(3)
  by (auto simp: secureZero_eq)

lemma sample_signed:
  obtains s sig where "buildTree sample_wolf sample_lms = (Inr (), s)"
    and "sign sample_wolf s 5 [1, 2, 3] (zeros 32) (zeros 32) = Inr sig"
proof -
  obtain s where s: "buildTree sample_wolf sample_lms = (Inr (), s)" by (rule sample_built)
  then have "m_identifier s = zeros 16"
    using built_fields [OF sample_initialize] by simp
  then have "succeeds (sign sample_wolf s 5 [1, 2, 3] (zeros 32) (zeros 32))"
    by (intro sign_succeeds [OF sample_wolf_sizes sample_works(1)]) simp_all
  then show ?thesis using s that by (auto simp: succeeds_iff)
qed

lemma extractPath_root_built:
  "built_from W seed s \<Longrightarrow> q < 1024 \<Longrightarrow> \<exists>path r. extractPath s q = Some path \<and> root s = Some r"
  by (auto simp: built_from_def extractPath_def root_def)

lemma sample_verified:
  obtains s :: LmsState and tree sig path where "m_tree s = Some tree" "tree_of sample_wolf (zeros 16) (zeros 32) tree"
    "sign sample_wolf s 5 [1, 2, 3] (zeros 32) (zeros 32) = Inr sig"
    "verify sample_wolf 5 [1, 2, 3] sig (zeros 16) path (tree ! 1)"
proof -
  obtain s sig where s: "buildTree sample_wolf sample_lms = (Inr (), s)"
    and g: "sign sample_wolf s 5 [1, 2, 3] (zeros 32) (zeros 32) = Inr sig"
    by (rule sample_signed)
  have b: "built_from sample_wolf (zeros 32) s" and i: "m_identifier s = zeros 16"
    using built_fields [OF sample_initialize _ _ s] by simp_all
  obtain path r where p: "extractPath s 5 = Some path" "root s = Some r"
    using extractPath_root_built [OF b, of 5] by auto
  obtain tree where t: "m_tree s = Some tree" "tree_of sample_wolf (zeros 16) (zeros 32) tree"
    using b i by (auto simp: built_from_def)
  with p have "r = tree ! 1" by (simp add: root_def)
  then show ?thesis
    using that [OF t g] honest_verify [OF sample_wolf_sizes b _ g p] i by simp
qed

section \<open>Properties\<close>

text \<open>C7: An object that was initialised and built signs messages that verify: for every
  signature \<open>sign\<close> returns, with any 32-byte randomizer, the tree yields a path and a
  root under which \<open>verify\<close> accepts that signature.\<close>

theorem signed_messages_verify:
  assumes "wolf_sizes W" and "length ident = 16" and "length seed = HASH_BYTES" and "length C = HASH_BYTES"
    and "initialize ok ident seed s0 = (True, s1)" and "buildTree W s1 = (Inr (), s2)"
    and "sign W s2 q message seed C = Inr sig"
  shows "\<exists>path r. extractPath s2 q = Some path \<and> root s2 = Some r \<and> verify W q message sig ident path r"
proof -
  note b = built_fields [OF assms(5,2,3,6)]
  have "q < 1024" using assms(7) by (auto simp: sign_def not_le split: if_splits)
  then obtain path r where "extractPath s2 q = Some path" "root s2 = Some r"
    using extractPath_root_built [OF b(1)] by blast
  then show ?thesis using honest_verify [OF assms(1) b(1) assms(4,7)] b(2) by blast
qed

theorem signed_messages_verify_witness:
  "\<exists>s sig path r. buildTree sample_wolf sample_lms = (Inr (), s) \<and>
    sign sample_wolf s 5 [1, 2, 3] (zeros 32) (zeros 32) = Inr sig \<and>
    verify sample_wolf 5 [1, 2, 3] sig (zeros 16) path r"
proof -
  obtain s sig where s: "buildTree sample_wolf sample_lms = (Inr (), s)"
    and g: "sign sample_wolf s 5 [1, 2, 3] (zeros 32) (zeros 32) = Inr sig"
    by (rule sample_signed)
  from signed_messages_verify [OF sample_wolf_sizes _ _ _ sample_initialize s g] s g
  show ?thesis by auto
qed

text \<open>C9: What an accepted signature proves about the tree behind the root. The verifier
  recomputed the one-time public key of the tree at index \<open>q\<close> and was given the tree's own
  path; or the value it recomputed collides with that key in the leaf hash; or one of the
  internal hashes it computed is a second preimage of a node of the tree.\<close>

theorem accepted_signature_binds:
  assumes "wolf_sizes W" and "tree_of W ident seed tree" and "verify W q message sig ident path (tree ! 1)"
  shows "\<exists>h h' leaf. lmotsCandidatePublicHash W ident q message sig = Inr h \<and>
    lmotsPublicHash W ident seed q = Inr h' \<and> hashLeaf W ident (1024 + q) h = Inr leaf \<and>
    (h = h' \<and> map (\<lambda>l. read_at (l * HASH_BYTES) HASH_BYTES path) [0..<LMS_HEIGHT] =
                siblings (\<lambda>n. tree ! n) LMS_HEIGHT (1024 + unat q) \<or>
     h \<noteq> h' \<and> hashLeaf W ident (1024 + q) h = hashLeaf W ident (1024 + q) h' \<or>
     (\<exists>call \<in> set (verify_calls W ident path q leaf).
        second_preimage (tree_inner W ident) (\<lambda>n. tree ! n) LMS_HEIGHT call))"
proof (rule accepted_leaf [OF assms])
  fix h leaf
  assume h: "lmotsCandidatePublicHash W ident q message sig = Inr h"
    "hashLeaf W ident (1024 + q) h = Inr leaf" and q: "q < 1024"
    and alt: "leaf = tree ! (1024 + unat q) \<and>
        map (\<lambda>l. read_at (l * HASH_BYTES) HASH_BYTES path) [0..<LMS_HEIGHT] =
          siblings (\<lambda>n. tree ! n) LMS_HEIGHT (1024 + unat q) \<or>
      (\<exists>call \<in> set (verify_calls W ident path q leaf).
        second_preimage (tree_inner W ident) (\<lambda>n. tree ! n) LMS_HEIGHT call)"
  have "lms_leaf W ident seed (unat q) = Inr (tree ! (1024 + unat q))"
    using assms(2) unat_index_less [OF q] by (simp add: tree_of_def)
  then obtain h' where h': "lmotsPublicHash W ident seed q = Inr h'"
    "hashLeaf W ident (1024 + q) h' = Inr (tree ! (1024 + unat q))"
    by (auto simp: lms_leaf_def bindE_eq_Inr)
  show ?thesis
    by (intro exI [of _ h] exI [of _ h'] exI [of _ leaf] conjI h h') (use alt h(2) h'(2) in auto)
qed

theorem accepted_signature_binds_witness:
  "\<exists>(s :: LmsState) tree sig path h leaf. m_tree s = Some tree \<and> verify sample_wolf 5 [1, 2, 3] sig (zeros 16) path (tree ! 1) \<and>
    lmotsCandidatePublicHash sample_wolf (zeros 16) 5 [1, 2, 3] sig = Inr h \<and>
    hashLeaf sample_wolf (zeros 16) (1024 + 5) h = Inr leaf"
proof -
  obtain s :: LmsState and tree sig path
    where t: "m_tree s = Some tree" "tree_of sample_wolf (zeros 16) (zeros 32) tree"
    and v: "verify sample_wolf 5 [1, 2, 3] sig (zeros 16) path (tree ! 1)"
    by (rule sample_verified)
  from accepted_signature_binds [OF sample_wolf_sizes t(2) v] obtain h leaf
    where "lmotsCandidatePublicHash sample_wolf (zeros 16) 5 [1, 2, 3] sig = Inr h"
      and "hashLeaf sample_wolf (zeros 16) (1024 + 5) h = Inr leaf" by blast
  with t(1) v show ?thesis by blast
qed

text \<open>C16: One-time keys cannot be mixed: of two distinct 32-byte digests, each demands a
  longer chain than the other somewhere among the 67 positions of digest and checksum, so
  the chain values revealed for one never suffice to sign the other.\<close>

theorem coefficients_incomparable:
  assumes "length d = HASH_BYTES" and "length d' = HASH_BYTES" and "d \<noteq> d'"
  shows "\<exists>i<LMOTS_P. coefficientW4 (d' @ putU16 (checksumW4 d')) i < coefficientW4 (d @ putU16 (checksumW4 d)) i"
proof (rule ccontr)
  assume "\<not> ?thesis"
  then have "d = d'"
    by (intro withChecksum_dominated [OF assms(1,2)]) (metis withChecksum_def not_less)
  with assms(3) show False ..
qed

theorem coefficients_incomparable_witness:
  "\<exists>i<LMOTS_P. coefficientW4 (replicate 32 1 @ putU16 (checksumW4 (replicate 32 1))) i <
    coefficientW4 (zeros 32 @ putU16 (checksumW4 (zeros 32))) i"
  by (rule coefficients_incomparable) (simp_all add: zeros_def)

text \<open>The 16-bit checksum never wraps: it is 16 times the sum of the 64 complements
  \<open>15 - c\<close> computed over the natural numbers, at most 15360.\<close>

theorem checksum_exact:
  "unat (checksumW4 digest) = 16 * (\<Sum>i<64. 15 - unat (coefficientW4 digest i)) \<and>
   unat (checksumW4 digest) \<le> 15360"
  using unat_checksumW4 [of digest] checksum_nat_le [of digest] by (simp add: checksum_nat_def)

text \<open>C18: \<open>buildTree\<close> succeeds whenever SHA-256 works on the inputs that its two buffers can hold, those of at
  most 1024 bytes (\<open>m_smallHashInput\<close>) and those of exactly 2166 (\<open>m_publicHashInput\<close>); it fills every
  node of the array as the LMS tree of the seed and leaves the seed erased, and
  neither buffer is written past its end.\<close>

theorem buildTree_total:
  assumes "wolf_sizes W" and "sha_works_buffers W"
    and "length ident = 16" and "length seed = HASH_BYTES"
    and "length (m_smallHashInput s0) = smallHashInput" and "length (m_publicHashInput s0) = publicHashInput"
    and "initialize ok ident seed s0 = (True, s1)"
  shows "\<exists>s2 tree. buildTree W s1 = (Inr (), s2) \<and> m_tree s2 = Some tree \<and>
    tree_of W ident seed tree \<and> m_seed s2 = zeros HASH_BYTES \<and>
    length (m_smallHashInput s2) = smallHashInput \<and> length (m_publicHashInput s2) = publicHashInput"
proof -
  note i = initialize_True [OF assms(7)]
  then obtain s2 where s2: "buildTree W s1 = (Inr (), s2)"
    using buildTree_succeeds [OF assms(1,2), of s1] assms(3,4)
    by auto
  have "length (m_smallHashInput s2) = smallHashInput \<and> length (m_publicHashInput s2) = publicHashInput"
    using i assms(3-6) by (intro buildTree_scratch_lengths [OF assms(1) _ _ _ _ _ s2]) auto
  then show ?thesis using built_fields [OF assms(7,3,4) s2] s2 by (auto simp: built_from_def)
qed

theorem buildTree_total_witness:
  "\<exists>s2 tree. buildTree sample_wolf sample_lms = (Inr (), s2) \<and> m_tree s2 = Some tree \<and>
    tree_of sample_wolf (zeros 16) (zeros 32) tree \<and> m_seed s2 = zeros HASH_BYTES \<and>
    length (m_smallHashInput s2) = 1024 \<and> length (m_publicHashInput s2) = 16 + 4 + 2 + 67 * 32"
  by (rule buildTree_total [OF sample_wolf_sizes sample_works(2) _ _ _ _ sample_initialize]) (simp_all add: LmotsLms_ctor_def)

text \<open>\<open>sign\<close> succeeds exactly for the indices below 1024 and the messages of at most
  970 bytes, on a SHA-256 that works up to the scratch size 1024; the signature then has
  2180 bytes and starts with the type word 3 and the randomizer.\<close>

theorem sign_total:
  assumes "wolf_sizes W" and "sha_works_upto smallHashInput W"
    and "length (m_identifier s) = 16" and "length seed = HASH_BYTES" and "length C = HASH_BYTES"
  shows "if q < 1024 \<and> length message \<le> 970
    then \<exists>sig. sign W s q message seed C = Inr sig \<and> length sig = LMOTS_SIGNATURE_BYTES \<and>
           getU32 sig = LMOTS_TYPE \<and> read_at 4 HASH_BYTES sig = C
    else sign W s q message seed C = Inl Refused"
proof (cases "q < 1024 \<and> length message \<le> 970")
  case True
  then obtain sig where sig: "sign W s q message seed C = Inr sig"
    using sign_succeeds [OF assms] by (auto simp: succeeds_iff)
  moreover have "getU32 sig = LMOTS_TYPE \<and> read_at 4 HASH_BYTES sig = C"
    using sig assms(5) by (auto elim!: sign_eq_Inr simp: read_at_append_exact)
  ultimately show ?thesis using True sign_length [OF assms(1,5) sig] by simp
qed (auto simp: sign_def hashMessageWithChecksum_def Let_def not_le)

theorem sign_total_witness:
  "if (5 :: u32) < 1024 \<and> length [1, 2, 3 :: u8] \<le> 970
    then \<exists>sig. sign sample_wolf sample_lms 5 [1, 2, 3] (zeros 32) (zeros 32) = Inr sig \<and>
      length sig = LMOTS_SIGNATURE_BYTES \<and> getU32 sig = LMOTS_TYPE \<and> read_at 4 HASH_BYTES sig = zeros 32
    else sign sample_wolf sample_lms 5 [1, 2, 3] (zeros 32) (zeros 32) = Inl Refused"
  by (rule sign_total [OF sample_wolf_sizes sample_works(1)]) (simp_all add: sample_lms_fields)

text \<open>\<open>verify\<close> rejects, whatever the hash functions do, an index above 1023, a
  signature whose type word is not 3, and a message that does not fit the scratch buffer.\<close>

theorem verify_rejects:
  "verify W q message sig ident path r \<Longrightarrow> q < 1024 \<and> getU32 sig = LMOTS_TYPE \<and> length message \<le> 970"
  by (auto simp: verify_def candidateRoot_def lmotsCandidatePublicHash_def hashMessageWithChecksum_def
      Let_def not_le simp del: upt_rec_numeral split: if_splits)

theorem verify_rejects_witness:
  "\<exists>sig path r. verify sample_wolf 5 [1, 2, 3] sig (zeros 16) path r \<and> getU32 sig = LMOTS_TYPE"
proof (rule sample_verified)
  fix tree sig path
  assume v: "verify sample_wolf 5 [1, 2, 3] sig (zeros 16) path (tree ! 1)"
  with verify_rejects [OF v] show ?thesis by blast
qed

end
