(* ===== verification/PollLoop.thy ===== *)
theory PollLoop
  imports Prelude
begin

text \<open>
  The interface of the firmware's waiting loops. All four (the two reassemblers and the two
  clients) read the clock, leave when the time is over, take at most one datagram per
  iteration and either go on or return. A loop is modelled over the list of what its
  iterations observe; when the list ends first, it is still waiting.
\<close>

locale waiting =
  fixes late :: "'p \<Rightarrow> bool"
    and step :: "'p \<Rightarrow> 's \<Rightarrow> 's + 'r"
    and expire :: "'s \<Rightarrow> 'r"
    and loop :: "'p list \<Rightarrow> 's \<Rightarrow> 'r option"
  assumes loop_Nil: "loop [] s = None"
    and loop_Cons: "loop (p # ps) s =
      (if late p then Some (expire s) else case step p s of Inl s' \<Rightarrow> loop ps s' | Inr r \<Rightarrow> Some r)"
begin

text \<open>The loop has returned once the clock was read past the deadline.\<close>

lemma returns_late: "p \<in> set ps \<Longrightarrow> late p \<Longrightarrow> \<exists>r. loop ps s = Some r"
  by (induction ps arbitrary: s) (auto simp: loop_Cons split: sum.splits)

text \<open>Nothing that arrives after the return matters.\<close>

lemma extends: "loop ps s = Some r \<Longrightarrow> loop (ps @ rest) s = Some r"
  by (induction ps arbitrary: s) (auto simp: loop_Nil loop_Cons split: sum.splits)

text \<open>The invariant rule: \<open>I\<close> between iterations, \<open>Q\<close> of what is returned.\<close>

lemma invariant:
  assumes "loop ps s = Some r" and "I s"
    and "\<And>p s s'. p \<in> set ps \<Longrightarrow> I s \<Longrightarrow> step p s = Inl s' \<Longrightarrow> I s'"
    and "\<And>p s r. p \<in> set ps \<Longrightarrow> I s \<Longrightarrow> step p s = Inr r \<Longrightarrow> Q r"
    and "\<And>s. I s \<Longrightarrow> Q (expire s)"
  shows "Q r"
  using assms(1-4)
proof (induction ps arbitrary: s)
  case (Cons p ps)
  show ?case
  proof (cases "late p")
    case True
    then show ?thesis using Cons.prems(1) assms(5) [OF Cons.prems(2)] by (simp add: loop_Cons)
  next
    case now: False
    show ?thesis
    proof (cases "step p s")
      case (Inl s')
      then have "loop ps s' = Some r" "I s'" using Cons.prems now by (auto simp: loop_Cons)
      then show ?thesis using Cons.IH [of s'] Cons.prems(3,4) by (meson list.set_intros(2))
    next
      case (Inr r')
      then have "r' = r" using Cons.prems(1) now by (simp add: loop_Cons)
      then show ?thesis using Cons.prems(4) [OF _ Cons.prems(2) Inr] by simp
    qed
  qed
qed (simp add: loop_Nil)

text \<open>Iterations that go on are followed by one that returns.\<close>

lemma answered:
  assumes "\<forall>p' \<in> set pre. \<not> late p' \<and> (\<forall>s. I s \<longrightarrow> (\<exists>s'. step p' s = Inl s' \<and> I s'))" and "I s"
    and "\<not> late p" and "\<And>s. I s \<Longrightarrow> \<exists>r. step p s = Inr r \<and> Q r"
  shows "\<exists>r. loop (pre @ p # post) s = Some r \<and> Q r"
  using assms(1,2)
proof (induction pre arbitrary: s)
  case Nil
  then show ?case using assms(3,4) by (fastforce simp: loop_Cons)
next
  case (Cons p' pre)
  then obtain s' where "\<not> late p'" "step p' s = Inl s'" "I s'" by auto
  then show ?case using Cons.IH [of s'] Cons.prems(1) by (simp add: loop_Cons)
qed

end

text \<open>
  A client waits with the state of its object: what its iterations leave alone, the whole
  wait leaves alone.
\<close>

locale client_waiting = waiting late step expire loop
  for late :: "'p \<Rightarrow> bool" and step :: "'p \<Rightarrow> 's \<Rightarrow> 's + 'a \<times> 's" and expire :: "'s \<Rightarrow> 'a \<times> 's"
    and loop :: "'p list \<Rightarrow> 's \<Rightarrow> ('a \<times> 's) option" +
  fixes view :: "'s \<Rightarrow> 'v"
  assumes step_view: "step p s = Inl s' \<Longrightarrow> view s' = view s" "step p s = Inr (a, s') \<Longrightarrow> view s' = view s"
    and expire_view: "view (snd (expire s)) = view s"
begin

lemma loop_view:
  assumes "loop ps s = Some (a, s')"
  shows "view s' = view s"
proof -
  have "view (snd (a, s')) = view s"
    by (rule invariant [OF assms, where I = "\<lambda>t. view t = view s"]) (auto simp: step_view expire_view)
  then show ?thesis by simp
qed

text \<open>An answer was returned for one of the datagrams, in a state with the same view.\<close>

lemma loop_answer:
  assumes "loop ps s = Some (a, s')" and "\<And>t. fst (expire t) \<noteq> a"
  shows "\<exists>p \<in> set ps. \<exists>t. view t = view s \<and> step p t = Inr (a, s')"
proof -
  let ?Q = "\<lambda>r. fst r = a \<longrightarrow> (\<exists>p \<in> set ps. \<exists>t. view t = view s \<and> step p t = Inr r)"
  have "?Q (a, s')"
    by (rule invariant [OF assms(1), where I = "\<lambda>t. view t = view s"]) (use assms(2) in \<open>auto simp: step_view\<close>)
  then show ?thesis by simp
qed

end

end
