(* ===== verification/GcsTheorems.thy ===== *)
theory GcsTheorems
  imports GcsLedgerClient PollLoop
begin

text \<open>
  The repository client: what an accepted response is (\<open>answers\<close>), that an exchange only
  ever returns such a response, that it returns the first one that arrives in time, that it
  ends, and how it accounts bytes. The layouts of the four requests close the theory.
\<close>

section \<open>Accepted responses\<close>

text \<open>
  A poll whose datagram ends the exchange with true: from the repository's address,
  tagged under the shared key, of the expected kind, version and index.
\<close>

definition answers :: "wolf \<Rightarrow> u8 \<Rightarrow> u32 \<Rightarrow> u32 \<Rightarrow> GcsState \<Rightarrow> poll \<Rightarrow> bool" where
  "answers W op version q s p \<longleftrightarrow>
    0 < parsePacket p \<and> parsePacket p \<le> int MAX_GCS_PACKET_BYTES \<and> int (8 + HMAC_BYTES) \<le> readLength p \<and>
    remoteIP p = m_gcsIp s \<and> remotePort p = m_gcsPort s \<and> take 4 (readBuffer p) = GCS2 \<and>
    authenticResponse W (readBuffer p) (nat (readLength p)) \<and>
    classifyResponse op version q (readBuffer p) (nat (readLength p)) = Accept (nat (readLength p))"

text \<open>The part of the state that configures the client.\<close>

definition same_peers :: "GcsState \<Rightarrow> GcsState \<Rightarrow> bool" where
  "same_peers s s' \<longleftrightarrow>
    m_gcsIp s' = m_gcsIp s \<and> m_gcsPort s' = m_gcsPort s \<and> m_deviceId s' = m_deviceId s \<and>
    m_peerId s' = m_peerId s \<and> m_gcsLocalPort s' = m_gcsLocalPort s"

lemma same_peers_refl [simp]: "same_peers s s"
  by (simp add: same_peers_def)

lemma same_peers_trans: "same_peers s s' \<Longrightarrow> same_peers s' s'' \<Longrightarrow> same_peers s s''"
  by (simp add: same_peers_def)

lemma classify_Accept_len: "classifyResponse op v q buf len = Accept n \<Longrightarrow> n = len"
  by (auto simp: classifyResponse_def Let_def split: if_splits)

lemma pollResponse_same: "same_peers s (snd (pollResponse W op v q p s))"
  by (simp add: pollResponse_def same_peers_def Let_def)

lemma pollResponse_Accept:
  assumes "pollResponse W op v q p s = (Accept n, s')"
  shows "answers W op v q s p \<and> m_buffer s' = readBuffer p \<and> n = nat (readLength p)"
  using assms
  by (auto simp: pollResponse_def answers_def Let_def not_le not_less dest: classify_Accept_len split: if_splits)

lemma answers_pollResponse:
  "answers W op v q s p \<Longrightarrow>
   \<exists>s'. pollResponse W op v q p s = (Accept (nat (readLength p)), s') \<and> m_buffer s' = readBuffer p"
  by (auto simp: pollResponse_def answers_def Let_def)

lemma answers_same: "same_peers s s' \<Longrightarrow> answers W op v q s' p \<longleftrightarrow> answers W op v q s p"
  by (simp add: answers_def same_peers_def)

section \<open>The wait of one attempt\<close>

text \<open>One iteration as a step of \<open>client_waiting\<close>, and what no iteration touches.\<close>

definition gcs_iteration :: "wolf \<Rightarrow> u8 \<Rightarrow> u32 \<Rightarrow> u32 \<Rightarrow> poll \<Rightarrow> GcsState \<Rightarrow> GcsState + gcs_step \<times> GcsState" where
  "gcs_iteration W op v q p s =
    (case pollResponse W op v q p s of (Ignore, s') \<Rightarrow> Inl s' | (r, s') \<Rightarrow> Inr (r, s'))"

definition gcs_view :: "GcsState \<Rightarrow> u32 \<times> u16 \<times> bytes \<times> bytes \<times> u16 \<times> u32 \<times> (u32 \<times> u16 \<times> bytes) list" where
  "gcs_view s = (m_gcsIp s, m_gcsPort s, m_deviceId s, m_peerId s, m_gcsLocalPort s, m_txBytes s, gcs_sent s)"

lemma pollResponse_view: "gcs_view (snd (pollResponse W op v q p s)) = gcs_view s"
  by (simp add: pollResponse_def gcs_view_def Let_def)

lemma gcs_iteration_Inl: "gcs_iteration W op v q p s = Inl s' \<longleftrightarrow> pollResponse W op v q p s = (Ignore, s')"
  by (auto simp: gcs_iteration_def split: prod.splits gcs_step.splits)

lemma gcs_iteration_Inr:
  "gcs_iteration W op v q p s = Inr (r, s') \<longleftrightarrow> r \<noteq> Ignore \<and> pollResponse W op v q p s = (r, s')"
  by (auto simp: gcs_iteration_def split: prod.splits gcs_step.splits)

interpretation gcs_wait: client_waiting "\<lambda>p. \<not> pollMillis p - t < GCS_TIMEOUT_MS" "gcs_iteration W op v q" "Pair Ignore"
  "awaitResponse W op v q t" gcs_view
  for W op v q t
proof unfold_locales
  show "awaitResponse W op v q t [] s = None" for s by simp
  show "awaitResponse W op v q t (p # ps) s =
    (if \<not> pollMillis p - t < GCS_TIMEOUT_MS then Some (Ignore, s)
     else case gcs_iteration W op v q p s of Inl s' \<Rightarrow> awaitResponse W op v q t ps s' | Inr r \<Rightarrow> Some r)" for p ps s
    by (simp add: gcs_iteration_def split: prod.split gcs_step.split)
  show "gcs_view s' = gcs_view s" if "gcs_iteration W op v q p s = Inl s'" for p s s'
    using that pollResponse_view [of W op v q p s] by (simp add: gcs_iteration_Inl)
  show "gcs_view s' = gcs_view s" if "gcs_iteration W op v q p s = Inr (a, s')" for p s a s'
    using that pollResponse_view [of W op v q p s] by (simp add: gcs_iteration_Inr)
  show "gcs_view (snd (Ignore, s)) = gcs_view s" for s :: GcsState by simp
qed

section \<open>Soundness of an exchange\<close>

lemma awaitResponse_sound:
  assumes "awaitResponse W op v q t ps s = Some (r, s')"
  shows "same_peers s s' \<and>
   (\<forall>n. r = Accept n \<longrightarrow> (\<exists>p \<in> set ps. answers W op v q s p \<and> m_buffer s' = readBuffer p \<and> n = nat (readLength p)))"
proof (intro conjI allI impI)
  show "same_peers s s'" using gcs_wait.loop_view [OF assms] by (simp add: gcs_view_def same_peers_def)
  fix n
  assume "r = Accept n"
  with gcs_wait.loop_answer [OF assms] obtain p u where p: "p \<in> set ps" and u: "gcs_view u = gcs_view s"
    and "gcs_iteration W op v q p u = Inr (Accept n, s')" by auto
  then have "answers W op v q u p \<and> m_buffer s' = readBuffer p \<and> n = nat (readLength p)"
    using pollResponse_Accept by (simp add: gcs_iteration_Inr)
  moreover have "same_peers s u" using u by (simp add: gcs_view_def same_peers_def)
  ultimately show "\<exists>p \<in> set ps. answers W op v q s p \<and> m_buffer s' = readBuffer p \<and> n = nat (readLength p)"
    using p answers_same [of s u] by blast
qed

lemma sendAttempts_sound:
  "sendAttempts W request op v q k as s = Some (r, s') \<Longrightarrow>
   same_peers s s' \<and>
   (\<forall>n. r = Some n \<longrightarrow> (\<exists>a \<in> set as. \<exists>p \<in> set (attemptPolls a).
      answers W op v q s p \<and> m_buffer s' = readBuffer p \<and> n = nat (readLength p)))"
proof (induction as arbitrary: k s)
  case Nil
  then show ?case by (cases k) simp_all
next
  case (Cons a as)
  let ?s = "s\<lparr>m_txBytes := m_txBytes s + of_nat (length request), gcs_sent := gcs_sent s @ [(m_gcsIp s, m_gcsPort s, request)]\<rparr>"
  have same: "same_peers s ?s" by (simp add: same_peers_def)
  show ?case
  proof (cases k)
    case 0
    then show ?thesis using Cons.prems by simp
  next
    case (Suc k')
    show ?thesis
    proof (cases "beginPacketOk (sendOutcome a) \<and> written (sendOutcome a) = length request \<and> endPacketOk (sendOutcome a)")
      case False
      then show ?thesis using Cons.prems Suc by (auto split: if_splits)
    next
      case True
      then obtain r1 s1 where aw: "awaitResponse W op v q (attemptStart a) (attemptPolls a) ?s = Some (r1, s1)"
        using Cons.prems Suc by (auto split: option.splits)
      note sound = awaitResponse_sound [OF aw]
      have same1: "same_peers s s1" using same sound same_peers_trans by blast
      show ?thesis
      proof (cases r1)
        case Ignore
        then have "sendAttempts W request op v q k' as s1 = Some (r, s')" using Cons.prems True aw Suc by simp
        from Cons.IH [OF this] show ?thesis
          using answers_same [OF same1] same_peers_trans [OF same1] by auto
      next
        case NotFound
        then show ?thesis using Cons.prems True aw same1 Suc by simp
      next
        case (Accept n)
        then show ?thesis using Cons.prems True aw same1 sound answers_same [OF same] Suc by auto
      qed
    qed
  qed
qed

text \<open>A poll the exchange observed.\<close>

definition observed :: "gcs_attempt list \<Rightarrow> poll \<Rightarrow> bool" where
  "observed attempts p \<longleftrightarrow> (\<exists>a \<in> set attempts. p \<in> set (attemptPolls a))"

text \<open>The polls of an exchange fill the 400-byte member array.\<close>

definition gcs_buffers :: "gcs_attempt list \<Rightarrow> bool" where
  "gcs_buffers attempts \<longleftrightarrow> (\<forall>p. observed attempts p \<longrightarrow> length (readBuffer p) = MAX_GCS_PACKET_BYTES)"

lemma sendAndReceive_sound:
  assumes "sendAndReceive W request op v q attempts s = Some (r, s')"
  shows "same_peers s s'"
    and "r = Some n \<Longrightarrow> \<exists>p. observed attempts p \<and> answers W op v q s p \<and>
      m_buffer s' = readBuffer p \<and> n = nat (readLength p)"
  using sendAttempts_sound [OF assms [unfolded sendAndReceive_def]] by (auto simp: observed_def)

section \<open>What an answer says\<close>

lemma answers_op: "answers W op v q s p \<Longrightarrow> readBuffer p ! 4 = op"
  by (auto simp: answers_def classifyResponse_def Let_def split: if_splits)

lemma answers_version:
  "answers W op v q s p \<Longrightarrow> op \<in> {OP_ACK, OP_ROOT_RECORD, OP_PATH_RECORD} \<Longrightarrow> getU32 (drop 40 (readBuffer p)) = v"
  by (auto simp: answers_def classifyResponse_def Let_def split: if_splits)

lemma answers_index:
  "answers W op v q s p \<Longrightarrow> op \<in> {OP_ACK, OP_PATH_RECORD} \<Longrightarrow> q \<noteq> ANY_Q \<Longrightarrow> getU32 (drop 44 (readBuffer p)) = q"
  by (auto simp: answers_def classifyResponse_def Let_def split: if_splits)

lemma authenticResponse_tag:
  assumes "wolf_sizes W" and "HMAC_BYTES \<le> len" and "len \<le> length buf"
  shows "authenticResponse W buf len \<longleftrightarrow>
    computeTag W (take (len - HMAC_BYTES) buf) = Inr (read_at (len - HMAC_BYTES) HMAC_BYTES buf)"
proof (cases "computeTag W (take (len - HMAC_BYTES) buf)")
  case (Inr tag)
  then have "length tag = HMAC_BYTES" using assms(1) by (auto simp: computeTag_def dest: hmacSha256_Inr_length)
  then show ?thesis
    using Inr assms(2,3) by (auto simp: authenticResponse_def constantTimeEqual_take read_at_def)
qed (simp add: authenticResponse_def)

lemma answers_tag:
  assumes "wolf_sizes W" and "answers W op v q s p" and "readLength p = int n" and "n \<le> length (readBuffer p)"
  shows "computeTag W (take (n - HMAC_BYTES) (readBuffer p)) =
    Inr (read_at (n - HMAC_BYTES) HMAC_BYTES (readBuffer p))"
  using assms authenticResponse_tag [OF assms(1), of n "readBuffer p"] by (auto simp: answers_def)

text \<open>The comparison of the peer identity in a response.\<close>

lemma peer_in_response:
  "length peer = ID_BYTES \<Longrightarrow> 8 + ID_BYTES \<le> length buf \<Longrightarrow>
   constantTimeEqual (drop 8 buf) peer ID_BYTES \<longleftrightarrow> read_at 8 ID_BYTES buf = peer"
  by (simp add: constantTimeEqual_take read_at_def)

section \<open>The first answer wins\<close>

lemma pollResponse_same_result:
  "same_peers s s' \<Longrightarrow> fst (pollResponse W op v q p s') = fst (pollResponse W op v q p s)"
  by (simp add: pollResponse_def same_peers_def Let_def)

lemma awaitResponse_answer:
  assumes "\<forall>p' \<in> set pre. pollMillis p' - t < GCS_TIMEOUT_MS \<and> fst (pollResponse W op v q p' s) = Ignore"
    and "pollMillis p - t < GCS_TIMEOUT_MS" and "answers W op v q s p"
  shows "\<exists>s'. awaitResponse W op v q t (pre @ p # post) s = Some (Accept (nat (readLength p)), s') \<and>
    m_buffer s' = readBuffer p \<and> same_peers s s'"
proof -
  let ?Q = "\<lambda>(r, s'). r = Accept (nat (readLength p)) \<and> m_buffer s' = readBuffer p \<and> same_peers s s'"
  have "\<exists>r. awaitResponse W op v q t (pre @ p # post) s = Some r \<and> ?Q r"
  proof (rule gcs_wait.answered [where I = "same_peers s"])
    show "\<forall>p' \<in> set pre. \<not> \<not> pollMillis p' - t < GCS_TIMEOUT_MS \<and>
        (\<forall>u. same_peers s u \<longrightarrow> (\<exists>u'. gcs_iteration W op v q p' u = Inl u' \<and> same_peers s u'))"
    proof (intro ballI conjI allI impI)
      show "\<not> \<not> pollMillis p' - t < GCS_TIMEOUT_MS" if "p' \<in> set pre" for p' using assms(1) that by simp
      fix p' u assume p': "p' \<in> set pre" and u: "same_peers s u"
      have "pollResponse W op v q p' u = (Ignore, snd (pollResponse W op v q p' u))"
        using assms(1) p' pollResponse_same_result [OF u] by (simp add: prod_eq_iff)
      then show "\<exists>u'. gcs_iteration W op v q p' u = Inl u' \<and> same_peers s u'"
        using same_peers_trans [OF u pollResponse_same] gcs_iteration_Inl by blast
    qed
    fix u assume u: "same_peers s u"
    obtain u' where "pollResponse W op v q p u = (Accept (nat (readLength p)), u')" "m_buffer u' = readBuffer p"
      using answers_pollResponse [of W op v q u p] answers_same [OF u] assms(3) by blast
    then show "\<exists>r. gcs_iteration W op v q p u = Inr r \<and> ?Q r"
      using pollResponse_same [of u W op v q p] same_peers_trans [OF u]
      by (intro exI [of _ "(Accept (nat (readLength p)), u')"]) (simp add: gcs_iteration_Inr)
  qed (use assms(2) in simp_all)
  then show ?thesis by auto
qed

definition sent_ok :: "bytes \<Rightarrow> gcs_attempt \<Rightarrow> bool" where
  "sent_ok request a \<longleftrightarrow>
    beginPacketOk (sendOutcome a) \<and> written (sendOutcome a) = length request \<and> endPacketOk (sendOutcome a)"

lemma sendAndReceive_answer:
  assumes "sent_ok request a" and "attemptPolls a = pre @ p # post"
    and "\<forall>p' \<in> set pre. pollMillis p' - attemptStart a < GCS_TIMEOUT_MS \<and>
      fst (pollResponse W op v q p' s) = Ignore"
    and "pollMillis p - attemptStart a < GCS_TIMEOUT_MS" and "answers W op v q s p"
  shows "\<exists>s'. sendAndReceive W request op v q (a # as) s = Some (Some (nat (readLength p)), s') \<and>
    m_buffer s' = readBuffer p \<and> same_peers s s'"
proof -
  let ?s = "s\<lparr>m_txBytes := m_txBytes s + of_nat (length request), gcs_sent := gcs_sent s @ [(m_gcsIp s, m_gcsPort s, request)]\<rparr>"
  have same: "same_peers s ?s" by (simp add: same_peers_def)
  have "\<exists>s'. awaitResponse W op v q (attemptStart a) (pre @ p # post) ?s = Some (Accept (nat (readLength p)), s') \<and>
      m_buffer s' = readBuffer p \<and> same_peers ?s s'"
    using assms(3-5) answers_same [OF same] pollResponse_same_result [OF same]
    by (intro awaitResponse_answer) auto
  then obtain s' where aw: "awaitResponse W op v q (attemptStart a) (pre @ p # post) ?s = Some (Accept (nat (readLength p)), s')"
    and s': "m_buffer s' = readBuffer p" "same_peers ?s s'" by blast
  have four: "(4 :: nat) = Suc 3" by simp
  have "sendAndReceive W request op v q (a # as) s = Some (Some (nat (readLength p)), s')"
    using assms(1,2) aw unfolding sendAndReceive_def sent_ok_def four sendAttempts.simps by simp
  then show ?thesis using s' same_peers_trans [OF same] by blast
qed

section \<open>Termination and byte accounting\<close>

lemmas awaitResponse_returns = gcs_wait.returns_late

text \<open>An attempt whose clock passes its deadline.\<close>

definition expires :: "gcs_attempt \<Rightarrow> bool" where
  "expires a \<longleftrightarrow> (\<exists>p \<in> set (attemptPolls a). \<not> pollMillis p - attemptStart a < GCS_TIMEOUT_MS)"

lemma sendAttempts_returns:
  "k \<le> length as \<Longrightarrow> \<forall>a \<in> set as. expires a \<Longrightarrow> \<exists>x. sendAttempts W request op v q k as s = Some x"
proof (induction as arbitrary: k s)
  case Nil
  then show ?case by simp
next
  case (Cons a as)
  show ?case
  proof (cases k)
    case (Suc k')
    from Cons.prems(2) obtain p where "p \<in> set (attemptPolls a)" "\<not> pollMillis p - attemptStart a < GCS_TIMEOUT_MS"
      by (auto simp: expires_def)
    then obtain r1 s1 where "awaitResponse W op v q (attemptStart a) (attemptPolls a)
        (s\<lparr>m_txBytes := m_txBytes s + of_nat (length request), gcs_sent := gcs_sent s @ [(m_gcsIp s, m_gcsPort s, request)]\<rparr>) = Some (r1, s1)"
      using awaitResponse_returns by (metis surj_pair)
    then show ?thesis using Cons Suc by (cases r1) simp_all
  qed simp
qed

lemma awaitResponse_tx: "awaitResponse W op v q t ps s = Some (r, s') \<Longrightarrow> m_txBytes s' = m_txBytes s"
  by (drule gcs_wait.loop_view) (simp add: gcs_view_def)

lemma sendAttempts_tx:
  "sendAttempts W request op v q k as s = Some (r, s') \<Longrightarrow>
   \<exists>n \<le> k. m_txBytes s' = m_txBytes s + of_nat (n * length request) \<and> (r \<noteq> None \<longrightarrow> 0 < n)"
proof (induction as arbitrary: k s)
  case Nil
  then show ?case by (cases k) auto
next
  case (Cons a as)
  let ?s = "s\<lparr>m_txBytes := m_txBytes s + of_nat (length request), gcs_sent := gcs_sent s @ [(m_gcsIp s, m_gcsPort s, request)]\<rparr>"
  show ?case
  proof (cases k)
    case 0
    then show ?thesis using Cons.prems by auto
  next
    case (Suc k')
    show ?thesis
    proof (cases "beginPacketOk (sendOutcome a) \<and> written (sendOutcome a) = length request \<and> endPacketOk (sendOutcome a)")
      case False
      then show ?thesis using Cons.prems Suc by (auto split: if_splits)
    next
      case True
      then obtain r1 s1 where aw: "awaitResponse W op v q (attemptStart a) (attemptPolls a) ?s = Some (r1, s1)"
        using Cons.prems Suc by (auto split: option.splits)
      have tx: "m_txBytes s1 = m_txBytes s + of_nat (length request)" using awaitResponse_tx [OF aw] by simp
      show ?thesis
      proof (cases r1)
        case Ignore
        then have "sendAttempts W request op v q k' as s1 = Some (r, s')" using Cons.prems True aw Suc by simp
        from Cons.IH [OF this] obtain n where "n \<le> k'" "m_txBytes s' = m_txBytes s1 + of_nat (n * length request)"
          by blast
        then show ?thesis using tx Suc by (intro exI [of _ "Suc n"]) (simp add: algebra_simps)
      qed (use Cons.prems True aw tx Suc in \<open>auto intro!: exI [of _ 1]\<close>)
    qed
  qed
qed

section \<open>The requests that go out\<close>

text \<open>\<open>n\<close> copies of a request to the repository that \<open>s\<close> is configured for.\<close>

definition copies_sent :: "GcsState \<Rightarrow> nat \<Rightarrow> bytes \<Rightarrow> (u32 \<times> u16 \<times> bytes) list" where
  "copies_sent s n request = replicate n (m_gcsIp s, m_gcsPort s, request)"

lemma copies_add: "copies_sent s m request @ copies_sent s n request = copies_sent s (m + n) request"
  by (simp add: copies_sent_def replicate_add)

lemma copies_same: "same_peers s s' \<Longrightarrow> copies_sent s' n request = copies_sent s n request"
  by (simp add: copies_sent_def same_peers_def)

lemma awaitResponse_log: "awaitResponse W op v q t ps s = Some (r, s') \<Longrightarrow> gcs_sent s' = gcs_sent s"
  by (drule gcs_wait.loop_view) (simp add: gcs_view_def)

lemma sendAttempts_log:
  "sendAttempts W request op v q k as s = Some (r, s') \<Longrightarrow>
   \<exists>n. gcs_sent s' = gcs_sent s @ copies_sent s n request \<and> (r \<noteq> None \<longrightarrow> 0 < n)"
proof (induction as arbitrary: k s)
  case Nil
  then show ?case by (cases k) (auto simp: copies_sent_def)
next
  case (Cons a as)
  let ?s = "s\<lparr>m_txBytes := m_txBytes s + of_nat (length request), gcs_sent := gcs_sent s @ [(m_gcsIp s, m_gcsPort s, request)]\<rparr>"
  have one: "gcs_sent ?s = gcs_sent s @ copies_sent s 1 request" by (simp add: copies_sent_def)
  show ?case
  proof (cases k)
    case 0
    then show ?thesis using Cons.prems by (auto simp: copies_sent_def)
  next
    case (Suc k')
    show ?thesis
    proof (cases "beginPacketOk (sendOutcome a) \<and> written (sendOutcome a) = length request \<and> endPacketOk (sendOutcome a)")
      case False
      then show ?thesis using Cons.prems Suc by (auto simp: copies_sent_def split: if_splits)
    next
      case True
      then obtain r1 s1 where aw: "awaitResponse W op v q (attemptStart a) (attemptPolls a) ?s = Some (r1, s1)"
        using Cons.prems Suc by (auto split: option.splits)
      have s1: "gcs_sent s1 = gcs_sent s @ copies_sent s 1 request" using awaitResponse_log [OF aw] one by simp
      have same: "same_peers s s1"
        using awaitResponse_sound [OF aw] by (simp add: same_peers_def)
      show ?thesis
      proof (cases r1)
        case Ignore
        then have "sendAttempts W request op v q k' as s1 = Some (r, s')" using Cons.prems True aw Suc by simp
        from Cons.IH [OF this] obtain n where "gcs_sent s' = gcs_sent s1 @ copies_sent s1 n request" by blast
        then have "gcs_sent s' = gcs_sent s @ copies_sent s (1 + n) request"
          using s1 copies_same [OF same] copies_add [of s 1 request n] by simp
        then show ?thesis by (intro exI [of _ "1 + n"]) simp
      qed (use Cons.prems True aw s1 Suc in \<open>auto intro!: exI [of _ 1]\<close>)
    qed
  qed
qed

lemma sendAndReceive_log:
  assumes "sendAndReceive W request op v q attempts s = Some (r, s')"
  obtains n where "gcs_sent s' = gcs_sent s @ copies_sent s n request" and "r \<noteq> None \<Longrightarrow> 0 < n"
  using sendAttempts_log [OF assms [unfolded sendAndReceive_def]] that by blast

lemma enrollOwnRoot_log:
  assumes "enrollOwnRoot W lms version suiteId status expiry attempts s = Some (True, s')"
  obtains r packet n where "root lms = Some r"
    and "sealRequest W (enrollRootRequest (m_deviceId s) (m_identifier lms) r version suiteId status expiry) = Inr packet"
    and "gcs_sent s' = gcs_sent s @ copies_sent s (Suc n) packet"
proof -
  from assms obtain r packet len where "root lms = Some r"
    "sealRequest W (enrollRootRequest (m_deviceId s) (m_identifier lms) r version suiteId status expiry) = Inr packet"
    and ex: "sendAndReceive W packet OP_ACK version ANY_Q attempts s = Some (Some len, s')"
    by (auto simp: enrollOwnRoot_def split: option.splits sum.splits)
  moreover obtain n where "gcs_sent s' = gcs_sent s @ copies_sent s n packet" "0 < n"
    using sendAndReceive_log [OF ex] by blast
  ultimately show ?thesis using that by (cases n) simp_all
qed

lemma enrollPathsFrom_log:
  "enrollPathsFrom W lms version first net is s = Some (True, s') \<Longrightarrow>
   \<exists>logs. gcs_sent s' = gcs_sent s @ concat logs \<and> list_all2 (\<lambda>i log. \<exists>path packet n.
     extractPath lms (first + of_nat i) = Some path \<and>
     sealRequest W (enrollPathRequest (m_deviceId s) version (first + of_nat i) path) = Inr packet \<and>
     log = copies_sent s (Suc n) packet) is logs"
proof (induction "is" arbitrary: s)
  case (Cons i "is")
  let ?q = "first + of_nat i"
  from Cons.prems obtain path packet len s1 where path: "extractPath lms ?q = Some path"
    and seal: "sealRequest W (enrollPathRequest (m_deviceId s) version ?q path) = Inr packet"
    and ex: "sendAndReceive W packet OP_ACK version ?q (net i) s = Some (Some len, s1)"
    and rest: "enrollPathsFrom W lms version first net is s1 = Some (True, s')"
    by (auto simp: Let_def split: option.splits sum.splits if_splits)
  obtain n where "gcs_sent s1 = gcs_sent s @ copies_sent s n packet" "0 < n" using sendAndReceive_log [OF ex] by blast
  then obtain m where s1: "gcs_sent s1 = gcs_sent s @ copies_sent s (Suc m) packet" by (cases n) simp_all
  have same: "same_peers s s1" using sendAndReceive_sound(1) [OF ex] .
  then have dev: "m_deviceId s1 = m_deviceId s" by (simp add: same_peers_def)
  from Cons.IH [OF rest] obtain logs where "gcs_sent s' = gcs_sent s1 @ concat logs" and "list_all2 (\<lambda>i log. \<exists>path packet n.
     extractPath lms (first + of_nat i) = Some path \<and>
     sealRequest W (enrollPathRequest (m_deviceId s) version (first + of_nat i) path) = Inr packet \<and>
     log = copies_sent s (Suc n) packet) is logs"
    by (auto simp: dev copies_same [OF same])
  then show ?case
    using path seal s1 by (intro exI [of _ "copies_sent s (Suc m) packet # logs"]) auto
qed simp

lemma fetchRootRounds_log:
  "fetchRootRounds W request version k rounds s = Some (Some rec, s') \<Longrightarrow>
   \<exists>n. gcs_sent s' = gcs_sent s @ copies_sent s (Suc n) request"
proof (induction W request version k rounds s rule: fetchRootRounds.induct)
  case (3 W request version left attempts rounds s)
  from "3.prems" obtain x s1 where ex: "sendAndReceive W request OP_ROOT_RECORD version ANY_Q attempts s = Some (x, s1)"
    by (auto split: option.splits)
  obtain n where n: "gcs_sent s1 = gcs_sent s @ copies_sent s n request" "x \<noteq> None \<Longrightarrow> 0 < n"
    using sendAndReceive_log [OF ex] by blast
  show ?case
  proof (cases x)
    case None
    then have "fetchRootRounds W request version left rounds s1 = Some (Some rec, s')" using "3.prems" ex by simp
    from "3.IH" [OF ex [unfolded None] refl refl this] obtain m where "gcs_sent s' = gcs_sent s1 @ copies_sent s1 (Suc m) request" by blast
    then have "gcs_sent s' = gcs_sent s @ copies_sent s (Suc (n + m)) request"
      using n(1) copies_same [OF sendAndReceive_sound(1) [OF ex]] copies_add [of s n request "Suc m"] by simp
    then show ?thesis ..
  next
    case (Some len)
    then have "s' = s1" using "3.prems" ex by (auto split: if_splits)
    then show ?thesis using n Some by (cases n) auto
  qed
qed simp_all

section \<open>The receive buffer\<close>

lemma pollResponse_buffer:
  "length (readBuffer p) = MAX_GCS_PACKET_BYTES \<Longrightarrow> length (m_buffer s) = MAX_GCS_PACKET_BYTES \<Longrightarrow>
   length (m_buffer (snd (pollResponse W op v q p s))) = MAX_GCS_PACKET_BYTES"
  by (simp add: pollResponse_def Let_def)

lemma awaitResponse_buffer:
  assumes "awaitResponse W op v q t ps s = Some (r, s')" and "\<forall>p \<in> set ps. length (readBuffer p) = MAX_GCS_PACKET_BYTES"
    and "length (m_buffer s) = MAX_GCS_PACKET_BYTES"
  shows "length (m_buffer s') = MAX_GCS_PACKET_BYTES"
proof -
  have keeps: "length (m_buffer u') = MAX_GCS_PACKET_BYTES"
    if "p \<in> set ps" "length (m_buffer u) = MAX_GCS_PACKET_BYTES" "pollResponse W op v q p u = (r', u')" for p u u' r'
    using pollResponse_buffer [of p u W op v q] assms(2) that by simp
  have "(\<lambda>(_, u). length (m_buffer u) = MAX_GCS_PACKET_BYTES) (r, s')"
    by (rule gcs_wait.invariant [OF assms(1), where I = "\<lambda>u. length (m_buffer u) = MAX_GCS_PACKET_BYTES"])
      (use assms(3) keeps in \<open>auto simp: gcs_iteration_Inl gcs_iteration_Inr\<close>)
  then show ?thesis by simp
qed

lemma sendAttempts_buffer:
  "sendAttempts W request op v q k as s = Some (r, s') \<Longrightarrow>
   \<forall>a \<in> set as. \<forall>p \<in> set (attemptPolls a). length (readBuffer p) = MAX_GCS_PACKET_BYTES \<Longrightarrow>
   length (m_buffer s) = MAX_GCS_PACKET_BYTES \<Longrightarrow> length (m_buffer s') = MAX_GCS_PACKET_BYTES"
proof (induction as arbitrary: k s)
  case Nil
  then show ?case by (cases k) simp_all
next
  case (Cons a as)
  show ?case
  proof (cases k)
    case (Suc k')
    let ?s = "s\<lparr>m_txBytes := m_txBytes s + of_nat (length request), gcs_sent := gcs_sent s @ [(m_gcsIp s, m_gcsPort s, request)]\<rparr>"
    show ?thesis
    proof (cases "awaitResponse W op v q (attemptStart a) (attemptPolls a) ?s")
      case (Some x)
      then obtain r1 s1 where "awaitResponse W op v q (attemptStart a) (attemptPolls a) ?s = Some (r1, s1)"
        by (cases x) simp
      then show ?thesis
        using Cons Suc awaitResponse_buffer by (fastforce split: if_splits gcs_step.splits)
    qed (use Cons Suc in \<open>simp split: if_splits\<close>)
  qed (use Cons in simp)
qed

lemma sendAndReceive_buffer:
  assumes "sendAndReceive W request op v q attempts s = Some (r, s')" and "gcs_buffers attempts"
    and "length (m_buffer s) = MAX_GCS_PACKET_BYTES"
  shows "length (m_buffer s') = MAX_GCS_PACKET_BYTES"
  using sendAttempts_buffer [OF assms(1) [unfolded sendAndReceive_def]] assms(2,3)
  by (auto simp: gcs_buffers_def observed_def)

section \<open>Layout of the requests\<close>

lemma length_GCS2 [simp]: "length GCS2 = 4"
  by (simp add: GCS2_def)

lemma sealRequest_layout:
  assumes "wolf_sizes W" and "request = body @ zeros HMAC_BYTES" and "computeTag W body = Inr tag"
  shows "sealRequest W request = Inr (body @ tag)"
proof -
  have "length tag = HMAC_BYTES" using assms(1,3) by (auto simp: computeTag_def dest: hmacSha256_Inr_length)
  then show ?thesis using assms by (simp add: sealRequest_def write_at_def)
qed

abbreviation (input) gcs_header :: "u8 \<Rightarrow> bytes" where
  "gcs_header op \<equiv> GCS2 @ [op] @ zeros 3"

lemma write_at_start: "write_at 0 src (zeros n) = src @ drop (length src) (zeros n)"
  by (simp add: write_at_def)

lemma enrollRoot_layout:
  "length device = ID_BYTES \<Longrightarrow> length ident = 16 \<Longrightarrow> length rootValue = HASH_BYTES \<Longrightarrow>
   enrollRootRequest device ident rootValue version suiteId status expiry =
     (gcs_header OP_ENROLL_ROOT @ device @ putU32 version @ ident @ rootValue @ putU32 suiteId @ [status] @ zeros 3 @
      putU64 expiry) @ zeros HMAC_BYTES"
  unfolding enrollRootRequest_def Let_def write_at_start drop_zeros
  by (simp add: layout del: append_assoc)

lemma enrollPath_layout:
  "length device = ID_BYTES \<Longrightarrow> length path = LMS_PATH_BYTES \<Longrightarrow>
   enrollPathRequest device version q path =
     (gcs_header OP_ENROLL_PATH @ device @ putU32 version @ putU32 q @ path) @ zeros HMAC_BYTES"
  unfolding enrollPathRequest_def Let_def write_at_start drop_zeros
  by (simp add: layout del: append_assoc)

lemma getRoot_layout:
  "length device = ID_BYTES \<Longrightarrow> length peer = ID_BYTES \<Longrightarrow>
   getRootRequest device peer version =
     (gcs_header OP_GET_ROOT @ device @ peer @ putU32 version) @ zeros HMAC_BYTES"
  unfolding getRootRequest_def Let_def write_at_start drop_zeros
  by (simp add: layout del: append_assoc)

lemma getPath_layout:
  "length device = ID_BYTES \<Longrightarrow> length peer = ID_BYTES \<Longrightarrow>
   getPathRequest device peer version q =
     (gcs_header OP_GET_PATH @ device @ peer @ putU32 version @ putU32 q) @ zeros HMAC_BYTES"
  unfolding getPathRequest_def Let_def write_at_start drop_zeros
  by (simp add: layout del: append_assoc)

end
