(* ===== verification/FragmentationTheorems.thy ===== *)
theory FragmentationTheorems
  imports FragmentedUdp PollLoop
begin

text \<open>
  Fragmentation and reassembly. The receiver is first analysed without assumptions on what
  arrives (an invariant of its loop: memory safety, and evidence for every byte range it
  reports); then for a sender whose datagrams are delivered in any order, repeated, and
  mixed with foreign traffic, where it reassembles exactly the message sent.
\<close>

section \<open>The loop of the receiver\<close>

text \<open>A datagram belongs to the message being assembled.\<close>

definition belongs :: "datagram \<Rightarrow> rx_state \<Rightarrow> bool" where
  "belongs d s \<longleftrightarrow>
    d_type d = activeType s \<and> d_session d = activeSession s \<and> d_totalLength d = activeLength s \<and>
    d_fragmentCount d = activeCount s \<and> d_sourceIp d = activeIp s \<and> d_sourcePort d = activePort s"

text \<open>The filter on the expected type and session.\<close>

definition passes :: "u8 \<Rightarrow> u32 \<Rightarrow> u8 \<Rightarrow> u32 \<Rightarrow> bool" where
  "passes expectedType expectedSession type session \<longleftrightarrow>
    (expectedType = 0xff \<or> type = expectedType) \<and> (expectedSession = 0 \<or> session = expectedSession)"

lemma readOneDatagram_Some:
  "readOneDatagram p = Some d \<Longrightarrow>
    d_fragmentIndex d < d_fragmentCount d \<and> unat (d_fragmentCount d) \<le> MAX_FRAGMENTS \<and>
    unat (d_payloadLength d) \<le> FRAGMENT_PAYLOAD_BYTES \<and> unat (d_totalLength d) \<le> MAX_PROTOCOL_MESSAGE_BYTES \<and>
    readLength p = int (FRAGMENT_HEADER_BYTES + unat (d_payloadLength d)) \<and>
    d_datagramBytes d = of_int (readLength p) \<and>
    d_sourceIp d = remoteIP p \<and> d_sourcePort d = remotePort p"
  by (auto simp: readOneDatagram_def Let_def not_le split: if_splits)

text \<open>An iteration that stores or repeats a fragment, after the header has been adopted.\<close>

definition adopt :: "datagram \<Rightarrow> rx_state \<Rightarrow> rx_state" where
  "adopt d s = (if active s then s else activate d s)"

definition store :: "poll \<Rightarrow> datagram \<Rightarrow> rx_state \<Rightarrow> rx_state" where
  "store p d s =
    (if receivedFragments s ! unat (d_fragmentIndex d) then s
     else storeFragment (read_at FRAGMENT_HEADER_BYTES (unat (d_payloadLength d)) (readBuffer p)) d s)"

text \<open>The four ways an iteration can end.\<close>

lemma receiveIteration_cases:
  obtains (skip) "receiveIteration et es cap p s = Continue s"
  | (header) d where "readOneDatagram p = Some d" "passes et es (d_type d) (d_session d)"
      "\<not> active s \<Longrightarrow> d_totalLength d \<le> cap"
      "receiveIteration et es cap p s = Continue (adopt d s)"
  | (stored) d where "readOneDatagram p = Some d" "passes et es (d_type d) (d_session d)"
      "\<not> active s \<Longrightarrow> d_totalLength d \<le> cap" "belongs d (adopt d s)"
      "unat (d_fragmentIndex d) * FRAGMENT_PAYLOAD_BYTES + unat (d_payloadLength d) \<le> unat (activeLength (adopt d s))"
      "receiveIteration et es cap p s = finishOrContinue (store p d (adopt d s))"
proof (cases "readOneDatagram p")
  case None
  then show thesis using skip by (simp add: receiveIteration_def)
next
  case (Some d)
  show thesis
  proof (cases "passes et es (d_type d) (d_session d) \<and> (active s \<or> d_totalLength d \<le> cap)")
    case False
    then show thesis using Some skip by (auto simp: receiveIteration_def passes_def not_le)
  next
    case True
    then have eq: "receiveIteration et es cap p s = acceptFragment p d (adopt d s)"
      using Some by (auto simp: receiveIteration_def passes_def adopt_def)
    have "acceptFragment p d s' = Continue s' \<or>
      belongs d s' \<and> unat (d_fragmentIndex d) * FRAGMENT_PAYLOAD_BYTES + unat (d_payloadLength d) \<le> unat (activeLength s') \<and>
      acceptFragment p d s' = finishOrContinue (store p d s')" for s'
      by (auto simp: acceptFragment_def belongs_def store_def not_less)
    then show thesis
      using Some True eq header [of d] stored [of d] by metis
  qed
qed

section \<open>Invariant without assumptions on the traffic\<close>

text \<open>Fragment \<open>i\<close> was carried by a datagram of this message, and its bytes are in place.\<close>

definition slot_ok :: "poll set \<Rightarrow> rx_state \<Rightarrow> nat \<Rightarrow> bool" where
  "slot_ok P s i \<longleftrightarrow>
    (\<exists>p \<in> P. \<exists>d. readOneDatagram p = Some d \<and> belongs d s \<and> unat (d_fragmentIndex d) = i \<and>
      i * FRAGMENT_PAYLOAD_BYTES + unat (d_payloadLength d) \<le> unat (activeLength s) \<and>
      read_at (i * FRAGMENT_PAYLOAD_BYTES) (unat (d_payloadLength d)) (outputBuffer s) =
        read_at FRAGMENT_HEADER_BYTES (unat (d_payloadLength d)) (readBuffer p))"

abbreviation (input) received_set :: "rx_state \<Rightarrow> nat set" where
  "received_set s \<equiv> {i. i < MAX_FRAGMENTS \<and> receivedFragments s ! i}"

definition rx_inv :: "u8 \<Rightarrow> u32 \<Rightarrow> u16 \<Rightarrow> bytes \<Rightarrow> poll set \<Rightarrow> rx_state \<Rightarrow> bool" where
  "rx_inv et es cap out P s \<longleftrightarrow>
    length (receivedFragments s) = MAX_FRAGMENTS \<and> length (outputBuffer s) = length out \<and>
    unat (completed s) = card (received_set s) \<and>
    (if active s then
       activeLength s \<le> cap \<and> 0 < activeCount s \<and> unat (activeCount s) \<le> MAX_FRAGMENTS \<and>
       passes et es (activeType s) (activeSession s) \<and>
       (\<forall>i \<in> received_set s. slot_ok P s i) \<and>
       drop (unat (activeLength s)) (outputBuffer s) = drop (unat (activeLength s)) out
     else s = rx_init out)"

text \<open>Every buffer the socket filled is the 1014-byte member array.\<close>

abbreviation (input) buffers_ok :: "poll set \<Rightarrow> bool" where
  "buffers_ok P \<equiv> \<forall>p \<in> P. length (readBuffer p) = FRAGMENT_HEADER_BYTES + FRAGMENT_PAYLOAD_BYTES"

lemma rx_inv_init: "rx_inv et es cap out P (rx_init out)"
  by (simp add: rx_inv_def rx_init_def del: replicate.simps)

lemma belongs_adopt: "\<not> active s \<Longrightarrow> belongs d (adopt d s)"
  by (simp add: belongs_def adopt_def activate_def)

lemma active_adopt [simp]: "active (adopt d s)"
  by (simp add: adopt_def activate_def)

lemma adopt_same [simp]:
  "receivedFragments (adopt d s) = receivedFragments s" "outputBuffer (adopt d s) = outputBuffer s"
  "completed (adopt d s) = completed s"
  by (simp_all add: adopt_def activate_def)

lemma rx_inv_adopt:
  assumes inv: "rx_inv et es cap out P s" and d: "readOneDatagram p = Some d"
    and "passes et es (d_type d) (d_session d)" and "\<not> active s \<Longrightarrow> d_totalLength d \<le> cap"
  shows "rx_inv et es cap out P (adopt d s)"
proof (cases "active s")
  case True
  then show ?thesis using inv by (simp add: adopt_def)
next
  case False
  then have s: "s = rx_init out" using inv by (simp add: rx_inv_def)
  have "received_set (rx_init out) = {}" by (auto simp: rx_init_def)
  moreover have "0 < d_fragmentCount d" using readOneDatagram_Some [OF d]
    by (metis word_not_simps(1) word_gt_0)
  ultimately show ?thesis
    using inv readOneDatagram_Some [OF d] assms(3,4) False
    by (auto simp: rx_inv_def s) (auto simp: adopt_def activate_def rx_init_def)
qed

lemma slot_ok_write:
  assumes "slot_ok P s j" and "j \<noteq> i" and "length payload \<le> FRAGMENT_PAYLOAD_BYTES"
    and "i * FRAGMENT_PAYLOAD_BYTES + length payload \<le> length (outputBuffer s)"
    and s': "s' = s\<lparr>outputBuffer := write_at (i * FRAGMENT_PAYLOAD_BYTES) payload (outputBuffer s),
      receivedFragments := R, completed := c, framedBytes := f\<rparr>"
  shows "slot_ok P s' j"
proof -
  from assms(1) obtain p d where p: "p \<in> P" and d: "readOneDatagram p = Some d" and b: "belongs d s"
    and j: "unat (d_fragmentIndex d) = j"
    and le: "j * FRAGMENT_PAYLOAD_BYTES + unat (d_payloadLength d) \<le> unat (activeLength s)"
    and eq: "read_at (j * FRAGMENT_PAYLOAD_BYTES) (unat (d_payloadLength d)) (outputBuffer s) =
        read_at FRAGMENT_HEADER_BYTES (unat (d_payloadLength d)) (readBuffer p)"
    by (auto simp: slot_ok_def)
  have n: "unat (d_payloadLength d) \<le> FRAGMENT_PAYLOAD_BYTES" using readOneDatagram_Some [OF d] by simp
  have "read_at (j * FRAGMENT_PAYLOAD_BYTES) (unat (d_payloadLength d)) (outputBuffer s') =
      read_at (j * FRAGMENT_PAYLOAD_BYTES) (unat (d_payloadLength d)) (outputBuffer s)"
    using assms(2-4) n
    by (cases "j < i") (simp_all add: s' read_at_write_at_before read_at_write_at_after)
  then show ?thesis
    using p d b j le eq unfolding slot_ok_def by (intro bexI exI conjI) (auto simp: s' belongs_def)
qed

lemma card_insert_new: "finite A \<Longrightarrow> i \<notin> A \<Longrightarrow> card (insert i A) = Suc (card A)"
  by simp

lemma received_set_update:
  "length R = MAX_FRAGMENTS \<Longrightarrow> i < MAX_FRAGMENTS \<Longrightarrow>
   {j. j < MAX_FRAGMENTS \<and> R[i := True] ! j} = insert i {j. j < MAX_FRAGMENTS \<and> R ! j}"
  by (auto simp: nth_list_update)

lemma card_received_le: "card {j. j < MAX_FRAGMENTS \<and> R ! j} \<le> MAX_FRAGMENTS"
  using card_mono [of "{..<MAX_FRAGMENTS}" "{j. j < MAX_FRAGMENTS \<and> R ! j}"] by auto

lemma completed_increment:
  "unat (c :: u8) = card {j. j < MAX_FRAGMENTS \<and> R ! j} \<Longrightarrow> unat (c + 1) = Suc (unat c)"
  using card_received_le [of R] by (simp add: unat_word_ariths)

lemma rx_inv_store:
  assumes inv: "rx_inv et es cap out P s" and act: "active s" and cap: "unat cap \<le> length out"
    and p: "p \<in> P" and bufs: "buffers_ok P" and d: "readOneDatagram p = Some d" and b: "belongs d s"
    and le: "unat (d_fragmentIndex d) * FRAGMENT_PAYLOAD_BYTES + unat (d_payloadLength d) \<le> unat (activeLength s)"
  shows "rx_inv et es cap out P (store p d s)"
proof (cases "receivedFragments s ! unat (d_fragmentIndex d)")
  case True
  then show ?thesis using inv by (simp add: store_def)
next
  case False
  let ?i = "unat (d_fragmentIndex d)" and ?n = "unat (d_payloadLength d)"
  let ?pl = "read_at FRAGMENT_HEADER_BYTES ?n (readBuffer p)"
  let ?s' = "storeFragment ?pl d s"
  note f = readOneDatagram_Some [OF d]
  have i: "?i < MAX_FRAGMENTS" using f by (auto simp: word_less_nat_alt)
  have len: "length ?pl = ?n" using f bufs p by simp
  have I: "length (receivedFragments s) = MAX_FRAGMENTS" "length (outputBuffer s) = length out"
    "unat (completed s) = card (received_set s)" "activeLength s \<le> cap"
    "0 < activeCount s" "unat (activeCount s) \<le> MAX_FRAGMENTS"
    "passes et es (activeType s) (activeSession s)" "\<And>j. j \<in> received_set s \<Longrightarrow> slot_ok P s j"
    "drop (unat (activeLength s)) (outputBuffer s) = drop (unat (activeLength s)) out"
    using inv act by (auto simp: rx_inv_def)
  have fits: "unat (activeLength s) \<le> length (outputBuffer s)"
    using I(2,4) cap by (simp add: word_le_nat_alt)
  have rs: "received_set ?s' = insert ?i (received_set s)"
    using I(1) i by (simp add: storeFragment_def received_set_update)
  have new: "slot_ok P ?s' ?i"
    unfolding slot_ok_def using p d b le fits len
    by (intro bexI [of _ p] exI [of _ d] conjI)
      (auto simp: storeFragment_def belongs_def read_at_write_at_same)
  have old: "slot_ok P ?s' j" if "j \<in> received_set s" for j
  proof (rule slot_ok_write [OF I(8) [OF that]])
    show "j \<noteq> ?i" using that False by auto
    show "length ?pl \<le> FRAGMENT_PAYLOAD_BYTES" unfolding len using f by simp
    show "?i * FRAGMENT_PAYLOAD_BYTES + length ?pl \<le> length (outputBuffer s)"
      unfolding len using le fits by linarith
  qed (simp only: storeFragment_def)
  have keep: "activeLength ?s' = activeLength s" "activeCount ?s' = activeCount s" "active ?s' = active s"
    "activeType ?s' = activeType s" "activeSession ?s' = activeSession s"
    "length (receivedFragments ?s') = length (receivedFragments s)"
    "length (outputBuffer ?s') = length (outputBuffer s)"
    using le len fits by (simp_all add: storeFragment_def)
  have "unat (completed ?s') = card (received_set ?s')"
    using completed_increment [OF I(3)] I(3) False unfolding rs
    by (simp add: storeFragment_def)
  moreover have "drop (unat (activeLength s)) (outputBuffer ?s') = drop (unat (activeLength s)) out"
    using le len fits I(9) by (simp add: storeFragment_def write_at_def)
  moreover have "\<forall>j \<in> received_set ?s'. slot_ok P ?s' j" unfolding rs using new old by blast
  ultimately have "rx_inv et es cap out P ?s'"
    unfolding rx_inv_def keep using I(1,2,4-7) act by simp
  then show ?thesis using False by (simp add: store_def)
qed

lemma store_active [simp]: "active (store p d s) = active s"
  by (simp add: store_def storeFragment_def)

text \<open>The result a completed assembly returns.\<close>

definition result_of :: "rx_state \<Rightarrow> ReceivedPacket" where
  "result_of s =
    \<lparr>r_type = activeType s, r_session = activeSession s, r_length = activeLength s,
     r_sourceIp = activeIp s, r_sourcePort = activePort s, r_framedBytes = framedBytes s\<rparr>"

lemma finishOrContinue_eq:
  "finishOrContinue s = (if completed s = activeCount s then Return (result_of s) s else Continue s)"
  by (simp add: finishOrContinue_def result_of_def)

lemma rx_inv_iteration:
  assumes "rx_inv et es cap out P s" and "unat cap \<le> length out" and "p \<in> P" and "buffers_ok P"
  shows "case receiveIteration et es cap p s of
      Continue s' \<Rightarrow> rx_inv et es cap out P s'
    | Return r s' \<Rightarrow> rx_inv et es cap out P s' \<and> active s' \<and> completed s' = activeCount s' \<and> r = result_of s'"
proof (cases et es cap p s rule: receiveIteration_cases)
  case (stored d)
  then have "rx_inv et es cap out P (store p d (adopt d s))"
    using assms by (intro rx_inv_store rx_inv_adopt) auto
  then show ?thesis using stored(6) by (simp add: finishOrContinue_eq)
qed (use assms rx_inv_adopt in auto)

lemma rx_inv_length: "rx_inv et es cap out P s \<Longrightarrow> length (outputBuffer s) = length out"
  by (simp add: rx_inv_def)

text \<open>One iteration as a step of \<open>waiting\<close>.\<close>

definition rx_iteration ::
  "u8 \<Rightarrow> u32 \<Rightarrow> u16 \<Rightarrow> poll \<Rightarrow> rx_state \<Rightarrow> rx_state + ReceivedPacket option \<times> bytes" where
  "rx_iteration et es cap p s =
    (case receiveIteration et es cap p s of Continue s' \<Rightarrow> Inl s' | Return r s' \<Rightarrow> Inr (Some r, outputBuffer s'))"

interpretation rx_wait: waiting "\<lambda>p. \<not> pollMillis p - startMs < timeoutMs" "rx_iteration et es cap"
  "\<lambda>s. (None, outputBuffer s)" "receiveLoop et es cap timeoutMs startMs"
  for et es cap timeoutMs startMs
  by unfold_locales (simp_all add: rx_iteration_def split: rx_step.split)

lemma rx_inv_loop:
  assumes "unat cap \<le> length out" and "buffers_ok P" and "set ps \<subseteq> P" and "rx_inv et es cap out P s"
    and "receiveLoop et es cap timeoutMs startMs ps s = Some (r, out')"
  shows "length out' = length out \<and>
    (\<forall>r'. r = Some r' \<longrightarrow> (\<exists>s'. rx_inv et es cap out P s' \<and> active s' \<and>
       completed s' = activeCount s' \<and> r' = result_of s' \<and> out' = outputBuffer s'))"
proof -
  let ?Q = "\<lambda>(r, out'). length out' = length out \<and>
    (\<forall>r'. r = Some r' \<longrightarrow> (\<exists>s'. rx_inv et es cap out P s' \<and> active s' \<and>
       completed s' = activeCount s' \<and> r' = result_of s' \<and> out' = outputBuffer s'))"
  have step: "case receiveIteration et es cap p u of Continue u' \<Rightarrow> rx_inv et es cap out P u'
      | Return r' u' \<Rightarrow> ?Q (Some r', outputBuffer u')" if "p \<in> set ps" "rx_inv et es cap out P u" for p u
    using rx_inv_iteration [OF that(2) assms(1) subsetD [OF assms(3) that(1)] assms(2)]
    by (auto split: rx_step.splits simp: rx_inv_length)
  have "?Q (r, out')"
    by (rule rx_wait.invariant [OF assms(5), where I = "rx_inv et es cap out P"])
      (use assms(4) step rx_inv_length in \<open>fastforce simp: rx_iteration_def split: rx_step.splits\<close>)+
  then show ?thesis by simp
qed

text \<open>A completed assembly has received exactly the fragments below its count.\<close>

lemma received_complete:
  assumes "rx_inv et es cap out P s" and "active s" and "completed s = activeCount s"
  shows "received_set s = {..<unat (activeCount s)}"
proof (rule card_subset_eq)
  have "slot_ok P s i" if "i \<in> received_set s" for i
    using that assms(1,2) by (simp add: rx_inv_def)
  then show "received_set s \<subseteq> {..<unat (activeCount s)}"
    using readOneDatagram_Some by (fastforce simp: slot_ok_def belongs_def word_less_nat_alt)
  show "card (received_set s) = card {..<unat (activeCount s)}"
    using assms by (simp add: rx_inv_def)
qed simp

text \<open>Evidence for fragment \<open>i\<close> of \<open>count\<close> in the returned packet and buffer.\<close>

definition carried :: "poll set \<Rightarrow> ReceivedPacket \<Rightarrow> nat \<Rightarrow> bytes \<Rightarrow> nat \<Rightarrow> bool" where
  "carried P r count out i \<longleftrightarrow>
    (\<exists>p \<in> P. \<exists>d. readOneDatagram p = Some d \<and>
      d_type d = r_type r \<and> d_session d = r_session r \<and> d_totalLength d = r_length r \<and>
      d_sourceIp d = r_sourceIp r \<and> d_sourcePort d = r_sourcePort r \<and>
      unat (d_fragmentCount d) = count \<and> unat (d_fragmentIndex d) = i \<and>
      i * FRAGMENT_PAYLOAD_BYTES + unat (d_payloadLength d) \<le> unat (r_length r) \<and>
      read_at (i * FRAGMENT_PAYLOAD_BYTES) (unat (d_payloadLength d)) out =
        read_at FRAGMENT_HEADER_BYTES (unat (d_payloadLength d)) (readBuffer p))"

lemma slot_ok_carried:
  "slot_ok P s i \<Longrightarrow> carried P (result_of s) (unat (activeCount s)) (outputBuffer s) i"
  unfolding slot_ok_def carried_def belongs_def result_of_def by (elim bexE exE, intro bexI exI) auto

lemma receive_evidence:
  assumes "unat cap \<le> length out" and "buffers_ok (set polls)"
    and "receiveMessage et es out cap timeoutMs startMs polls = Some (Some r, out')"
  shows "r_length r \<le> cap \<and> passes et es (r_type r) (r_session r) \<and>
    drop (unat (r_length r)) out' = drop (unat (r_length r)) out \<and>
    (\<exists>count. 0 < count \<and> count \<le> MAX_FRAGMENTS \<and> (\<forall>i<count. carried (set polls) r count out' i))"
proof -
  from rx_inv_loop [OF assms(1,2) order_refl rx_inv_init assms(3) [unfolded receiveMessage_def]]
  obtain s where inv: "rx_inv et es cap out (set polls) s" and act: "active s"
    and full: "completed s = activeCount s" and r: "r = result_of s" and out': "out' = outputBuffer s"
    by auto
  have "\<forall>i < unat (activeCount s). carried (set polls) r (unat (activeCount s)) out' i"
    using received_complete [OF inv act full] inv act slot_ok_carried [of "set polls" s]
    by (auto simp: rx_inv_def r out')
  moreover have "0 < unat (activeCount s)" "unat (activeCount s) \<le> MAX_FRAGMENTS"
    using inv act by (auto simp: rx_inv_def word_less_nat_alt)
  ultimately show ?thesis
    using inv act by (auto simp: rx_inv_def r out' result_of_def)
qed

section \<open>The sender's datagrams\<close>

abbreviation (input) fragment_count :: "nat \<Rightarrow> nat" where
  "fragment_count len \<equiv> (len + FRAGMENT_PAYLOAD_BYTES - 1) div FRAGMENT_PAYLOAD_BYTES"

definition payload_length :: "nat \<Rightarrow> nat \<Rightarrow> nat" where
  "payload_length len i = min FRAGMENT_PAYLOAD_BYTES (len - i * FRAGMENT_PAYLOAD_BYTES)"

text \<open>Fragment \<open>i\<close> of message \<open>data\<close>.\<close>

definition fragment :: "u8 \<Rightarrow> u32 \<Rightarrow> bytes \<Rightarrow> nat \<Rightarrow> bytes" where
  "fragment type session data i =
    fragmentHeader type session (of_nat (length data)) (of_nat i) (of_nat (fragment_count (length data)))
      (of_nat (payload_length (length data) i)) @
    read_at (i * FRAGMENT_PAYLOAD_BYTES) (payload_length (length data) i) data"

lemma payload_length_le: "payload_length len i \<le> FRAGMENT_PAYLOAD_BYTES"
  by (simp add: payload_length_def)

lemma unat_u16_small: "n < 65536 \<Longrightarrow> unat (of_nat n :: u16) = n"
  by (simp add: unat_of_nat take_bit_eq_mod)

lemma unat_u8_small: "n < 256 \<Longrightarrow> unat (of_nat n :: u8) = n"
  by (simp add: unat_of_nat take_bit_eq_mod)

lemma sendFragments_True:
  assumes len: "unat len = length data" "length data \<le> MAX_PROTOCOL_MESSAGE_BYTES"
  shows "sendFragments net type session data len (of_nat (fragment_count (length data))) idxs framed =
      (True, framed', datagrams) \<Longrightarrow>
    datagrams = map (fragment type session data) idxs \<and>
    framed' = framed + of_nat (\<Sum>i\<leftarrow>idxs. FRAGMENT_HEADER_BYTES + payload_length (length data) i)"
proof (induction idxs arbitrary: framed datagrams)
  case (Cons i idxs)
  have [simp]: "unat (of_nat (payload_length (length data) i) :: u16) = payload_length (length data) i"
    using payload_length_le [of "length data" i] by (intro unat_u16_small) simp
  have l: "len = of_nat (length data)" by (simp flip: len(1))
  from Cons.prems obtain ds
    where rest: "sendFragments net type session data len (of_nat (fragment_count (length data))) idxs
        (framed + of_nat (FRAGMENT_HEADER_BYTES + payload_length (length data) i)) = (True, framed', ds)"
      and ds: "datagrams = fragment type session data i # ds"
    using len by (auto simp: Let_def payload_length_def [symmetric] fragment_def l split: if_splits prod.splits)
  from Cons.IH [OF rest] ds show ?case by (simp add: add.assoc)
qed simp

text \<open>The payloads of the fragments cover the message.\<close>

lemma payload_sum: "(\<Sum>i\<leftarrow>[0..<k]. payload_length len i) = min (k * FRAGMENT_PAYLOAD_BYTES) len"
  by (induction k) (auto simp: payload_length_def)

lemma fragment_count_covers: "len \<le> fragment_count len * FRAGMENT_PAYLOAD_BYTES"
  by linarith

lemma fragment_count_le: "len \<le> MAX_PROTOCOL_MESSAGE_BYTES \<Longrightarrow> fragment_count len \<le> MAX_FRAGMENTS"
  by linarith

lemma fragment_starts_inside: "i < fragment_count len \<Longrightarrow> i * FRAGMENT_PAYLOAD_BYTES < len"
  by linarith

lemma sum_list_header: "(\<Sum>i\<leftarrow>xs. FRAGMENT_HEADER_BYTES + f i) = length xs * FRAGMENT_HEADER_BYTES + (\<Sum>i\<leftarrow>xs. f i)"
  by (induction xs) simp_all

lemma sendMessage_True:
  assumes "sendMessage net type session data len framed0 = (True, framed, datagrams)"
    and len: "unat len = length data"
  shows "0 < length data \<and> length data \<le> MAX_PROTOCOL_MESSAGE_BYTES \<and>
    datagrams = map (fragment type session data) [0..<fragment_count (length data)] \<and>
    framed = of_nat (length data + FRAGMENT_HEADER_BYTES * fragment_count (length data))"
proof -
  let ?c = "fragment_count (length data)"
  from assms(1) have l: "len \<noteq> 0" "length data \<le> MAX_PROTOCOL_MESSAGE_BYTES"
    by (auto simp: sendMessage_def len split: if_splits)
  have c: "unat (of_nat ?c :: u8) = ?c" using fragment_count_le [OF l(2)] by (intro unat_u8_small) simp
  have sent: "sendFragments net type session data len (of_nat ?c) [0..<?c] 0 = (True, framed, datagrams)"
    using assms(1) c unfolding sendMessage_def len Let_def by (simp split: if_splits)
  have sum: "(\<Sum>i\<leftarrow>[0..<?c]. FRAGMENT_HEADER_BYTES + payload_length (length data) i) =
      length data + FRAGMENT_HEADER_BYTES * ?c"
    unfolding sum_list_header payload_sum
    using fragment_count_covers [of "length data"] by simp
  have "datagrams = map (fragment type session data) [0..<?c] \<and>
      framed = of_nat (length data + FRAGMENT_HEADER_BYTES * ?c)"
    using sendFragments_True [OF len l(2) sent] unfolding sum by simp
  moreover have "0 < length data" using l(1) len by (metis gr0I unat_eq_0)
  ultimately show ?thesis using l(2) by blast
qed

section \<open>Delivered fragments\<close>

text \<open>An iteration that observes datagram \<open>dg\<close> from a given source.\<close>

definition delivers :: "u32 \<Rightarrow> u16 \<Rightarrow> bytes \<Rightarrow> poll \<Rightarrow> bool" where
  "delivers src port dg p \<longleftrightarrow>
    parsePacket p = int (length dg) \<and> readLength p = int (length dg) \<and>
    length (readBuffer p) = FRAGMENT_HEADER_BYTES + FRAGMENT_PAYLOAD_BYTES \<and>
    take (length dg) (readBuffer p) = dg \<and> remoteIP p = src \<and> remotePort p = port"

lemma fragmentHeader_fields:
  fixes h xs :: bytes and len n :: u16 and session :: u32 and idx cnt type :: u8
  assumes h_def: "h = fragmentHeader type session len idx cnt n @ xs"
  shows "length (fragmentHeader type session len idx cnt n) = FRAGMENT_HEADER_BYTES"
    "getU16 h = FRAGMENT_MAGIC" "h ! 2 = PROTOCOL_VERSION" "h ! 3 = type" "getU32 (drop 4 h) = session"
    "getU16 (drop 8 h) = len" "h ! 10 = idx" "h ! 11 = cnt" "getU16 (drop 12 h) = n"
  by (simp_all add: h_def fragmentHeader_def nth_append)

definition fragment_datagram :: "u8 \<Rightarrow> u32 \<Rightarrow> nat \<Rightarrow> u32 \<Rightarrow> u16 \<Rightarrow> nat \<Rightarrow> datagram" where
  "fragment_datagram type session len src port i =
    \<lparr>d_type = type, d_session = session, d_totalLength = of_nat len, d_fragmentIndex = of_nat i,
     d_fragmentCount = of_nat (fragment_count len), d_payloadLength = of_nat (payload_length len i),
     d_sourceIp = src, d_sourcePort = port,
     d_datagramBytes = of_nat (FRAGMENT_HEADER_BYTES + payload_length len i)\<rparr>"

lemma read_fragment:
  assumes len: "length data \<le> MAX_PROTOCOL_MESSAGE_BYTES"
    and i: "i < fragment_count (length data)"
    and p: "delivers src port (fragment type session data i) p"
  shows "readOneDatagram p = Some (fragment_datagram type session (length data) src port i)"
    and "read_at FRAGMENT_HEADER_BYTES (payload_length (length data) i) (readBuffer p) =
      read_at (i * FRAGMENT_PAYLOAD_BYTES) (payload_length (length data) i) data"
proof -
  let ?n = "payload_length (length data) i" and ?c = "fragment_count (length data)"
  let ?pl = "read_at (i * FRAGMENT_PAYLOAD_BYTES) ?n data"
  have c8: "?c \<le> MAX_FRAGMENTS" using len by (rule fragment_count_le)
  have n: "?n \<le> FRAGMENT_PAYLOAD_BYTES" by (rule payload_length_le)
  have pl: "length ?pl = ?n"
    using fragment_starts_inside [OF i] by (simp add: payload_length_def)
  have words: "unat (of_nat ?n :: u16) = ?n" "unat (of_nat (length data) :: u16) = length data"
    "unat (of_nat ?c :: u8) = ?c" "unat (of_nat i :: u8) = i"
    using n len c8 i by (simp_all add: unat_u16_small unat_u8_small)
  obtain rest where buf: "readBuffer p = fragment type session data i @ rest"
    using p by (metis append_take_drop_id delivers_def)
  have flen: "length (fragment type session data i) = FRAGMENT_HEADER_BYTES + ?n"
    using pl by (simp add: fragment_def fragmentHeader_fields(1) [OF refl])
  have "(of_nat i :: u8) < of_nat ?c" "(of_nat ?c :: u8) \<noteq> 0"
    using words(3,4) i by (auto simp: word_less_nat_alt simp flip: unat_eq_0)
  then show "readOneDatagram p = Some (fragment_datagram type session (length data) src port i)"
    using p n c8 len words flen
    unfolding readOneDatagram_def Let_def buf fragment_def append_assoc fragmentHeader_fields [OF refl]
    by (simp add: delivers_def fragment_def fragmentHeader_fields(1) [OF refl] fragment_datagram_def)
  show "read_at FRAGMENT_HEADER_BYTES ?n (readBuffer p) = ?pl"
    unfolding buf fragment_def append_assoc
    by (rule read_at_append_exact) (simp_all only: fragmentHeader_fields(1) [OF refl] pl)
qed

section \<open>Reassembly\<close>

text \<open>Foreign traffic that the filter on type and session drops.\<close>

definition quiet :: "u8 \<Rightarrow> u32 \<Rightarrow> poll \<Rightarrow> bool" where
  "quiet et es p \<longleftrightarrow>
    (case readOneDatagram p of None \<Rightarrow> True | Some d \<Rightarrow> \<not> passes et es (d_type d) (d_session d))"

text \<open>Nothing passes the filter but fragments of one message from one source.\<close>

definition traffic :: "u8 \<Rightarrow> u32 \<Rightarrow> u8 \<Rightarrow> u32 \<Rightarrow> bytes \<Rightarrow> u32 \<Rightarrow> u16 \<Rightarrow> poll list \<Rightarrow> bool" where
  "traffic et es type session data src port polls \<longleftrightarrow>
    (\<forall>p \<in> set polls. quiet et es p \<or>
      (\<exists>i < fragment_count (length data). delivers src port (fragment type session data i) p))"

definition assembling :: "u8 \<Rightarrow> u32 \<Rightarrow> bytes \<Rightarrow> u32 \<Rightarrow> u16 \<Rightarrow> rx_state \<Rightarrow> bool" where
  "assembling type session data src port s \<longleftrightarrow>
    length (receivedFragments s) = MAX_FRAGMENTS \<and> unat (completed s) = card (received_set s) \<and>
    received_set s \<subseteq> {..<fragment_count (length data)} \<and>
    (if active s then
       activeType s = type \<and> activeSession s = session \<and> activeLength s = of_nat (length data) \<and>
       activeCount s = of_nat (fragment_count (length data)) \<and> activeIp s = src \<and> activePort s = port \<and>
       framedBytes s = of_nat (\<Sum>i \<in> received_set s. FRAGMENT_HEADER_BYTES + payload_length (length data) i)
     else received_set s = {})"

lemma iteration_quiet: "quiet et es p \<Longrightarrow> receiveIteration et es cap p s = Continue s"
  by (auto simp: quiet_def receiveIteration_def passes_def split: option.splits)

lemma assembling_adopt:
  assumes "assembling type session data src port s"
  shows "assembling type session data src port
      (adopt (fragment_datagram type session (length data) src port i) s)"
    and "belongs (fragment_datagram type session (length data) src port i)
      (adopt (fragment_datagram type session (length data) src port i) s)"
  using assms
  by (auto simp: assembling_def adopt_def activate_def fragment_datagram_def belongs_def)

lemma finite_received: "finite (received_set s)"
  by simp

lemma assembling_store:
  assumes d_def: "d = fragment_datagram type session (length data) src port i"
    and s: "assembling type session data src port s" and act: "active s"
    and i: "i < fragment_count (length data)" and len: "length data \<le> MAX_PROTOCOL_MESSAGE_BYTES"
  shows "assembling type session data src port (store p d s) \<and>
    received_set (store p d s) = insert i (received_set s)"
proof -
  have i8: "i < MAX_FRAGMENTS" using i fragment_count_le [OF len] by linarith
  then have di: "unat (d_fragmentIndex d) = i"
    by (simp add: d_def fragment_datagram_def unat_u8_small)
  have bytes: "d_datagramBytes d = of_nat (FRAGMENT_HEADER_BYTES + payload_length (length data) i)"
    by (simp add: d_def fragment_datagram_def)
  have S: "length (receivedFragments s) = MAX_FRAGMENTS" "unat (completed s) = card (received_set s)"
    "received_set s \<subseteq> {..<fragment_count (length data)}"
    "framedBytes s = of_nat (\<Sum>i \<in> received_set s. FRAGMENT_HEADER_BYTES + payload_length (length data) i)"
    using s act by (simp_all add: assembling_def)
  show ?thesis
  proof (cases "receivedFragments s ! i")
    case True
    then have "i \<in> received_set s" using i8 by simp
    then show ?thesis using s True by (auto simp: store_def di)
  next
    case False
    let ?s' = "store p d s"
    have rs: "received_set ?s' = insert i (received_set s)"
      using False S(1) i8 by (simp add: store_def di storeFragment_def received_set_update)
    have new: "i \<notin> received_set s" using False by simp
    have "unat (completed ?s') = card (received_set ?s')"
      using completed_increment [OF S(2)] S(2) False unfolding rs
      by (simp add: store_def di storeFragment_def)
    moreover have "framedBytes ?s' =
        of_nat (\<Sum>i \<in> received_set ?s'. FRAGMENT_HEADER_BYTES + payload_length (length data) i)"
      using False S(4) unfolding rs sum.insert [OF finite_received new]
      by (simp add: store_def di storeFragment_def bytes)
    moreover have "received_set ?s' \<subseteq> {..<fragment_count (length data)}"
      unfolding rs using S(3) i by simp
    moreover have "length (receivedFragments ?s') = MAX_FRAGMENTS"
      using S(1) by (simp add: store_def storeFragment_def)
    ultimately have "assembling type session data src port ?s'"
      using s act unfolding assembling_def by (simp add: store_def storeFragment_def)
    then show ?thesis using rs by simp
  qed
qed

lemma iteration_fragment:
  assumes s: "assembling type session data src port s"
    and i: "i < fragment_count (length data)" and len: "length data \<le> MAX_PROTOCOL_MESSAGE_BYTES"
    and cap: "length data \<le> unat cap" and ok: "passes et es type session"
    and p: "delivers src port (fragment type session data i) p"
  shows "\<exists>s'. receiveIteration et es cap p s = finishOrContinue s' \<and>
    assembling type session data src port s' \<and> active s' \<and> received_set s' = insert i (received_set s)"
proof -
  let ?d = "fragment_datagram type session (length data) src port i"
  note read = read_fragment [OF len i p]
  note ad = assembling_adopt [OF s, of i]
  have lenw: "unat (of_nat (length data) :: u16) = length data" using len by (simp add: unat_u16_small)
  have plw: "unat (of_nat (payload_length (length data) i) :: u16) = payload_length (length data) i"
    using payload_length_le [of "length data" i] by (simp add: unat_u16_small)
  have "i < MAX_FRAGMENTS" using i fragment_count_le [OF len] by linarith
  then have iw: "unat (of_nat i :: u8) = i" by (simp add: unat_u8_small)
  have "i * FRAGMENT_PAYLOAD_BYTES + payload_length (length data) i \<le> length data"
    using fragment_starts_inside [OF i] by (simp add: payload_length_def)
  then have inside: "unat (d_fragmentIndex ?d) * FRAGMENT_PAYLOAD_BYTES + unat (d_payloadLength ?d) \<le>
      unat (activeLength (adopt ?d s))"
    using ad(1) by (simp add: assembling_def fragment_datagram_def lenw plw iw)
  have "d_totalLength ?d \<le> cap"
    using cap by (simp add: fragment_datagram_def word_le_nat_alt lenw)
  then have "receiveIteration et es cap p s = acceptFragment p ?d (adopt ?d s)"
    using read ok by (auto simp: receiveIteration_def adopt_def passes_def fragment_datagram_def not_less)
  also have "\<dots> = finishOrContinue (store p ?d (adopt ?d s))"
    using ad(2) inside by (auto simp: acceptFragment_def belongs_def store_def not_less)
  finally show ?thesis
    using assembling_store [OF refl ad(1) active_adopt i len, of p]
    by (intro exI [of _ "store p ?d (adopt ?d s)"]) simp
qed

text \<open>
  The loop over polls that are in time: it returns once every fragment has been received
  before or occurs in the list.
\<close>

lemma loop_reassembles:
  assumes len: "length data \<le> MAX_PROTOCOL_MESSAGE_BYTES" "0 < length data"
    and cap: "length data \<le> unat cap" and ok: "passes et es type session"
  shows "traffic et es type session data src port ps \<Longrightarrow>
    \<forall>p \<in> set ps. pollMillis p - startMs < timeoutMs \<Longrightarrow>
    assembling type session data src port s \<Longrightarrow> (active s \<longrightarrow> completed s \<noteq> activeCount s) \<Longrightarrow>
    \<forall>i < fragment_count (length data). i \<in> received_set s \<or>
      (\<exists>p \<in> set ps. delivers src port (fragment type session data i) p) \<Longrightarrow>
    \<exists>s'. receiveLoop et es cap timeoutMs startMs (ps @ rest) s = Some (Some (result_of s'), outputBuffer s') \<and>
      assembling type session data src port s' \<and> active s' \<and> completed s' = activeCount s'"
proof (induction ps arbitrary: s)
  case Nil
  let ?c = "fragment_count (length data)"
  have all: "received_set s = {..<?c}" using Nil.prems(3,5) by (auto simp: assembling_def)
  have "0 < ?c" using fragment_count_covers [of "length data"] len(2) by linarith
  then have "active s" using all Nil.prems(3) by (auto simp: assembling_def split: if_splits)
  moreover have "unat (of_nat ?c :: u8) = ?c" using fragment_count_le [OF len(1)] by (simp add: unat_u8_small)
  then have "completed s = activeCount s"
    using Nil.prems(3) all \<open>active s\<close> by (simp add: assembling_def word_unat_eq_iff)
  ultimately show ?case using Nil.prems(4) by simp
next
  case (Cons p ps)
  let ?loop = "receiveLoop et es cap timeoutMs startMs"
  have time: "pollMillis p - startMs < timeoutMs" and traffic: "traffic et es type session data src port ps"
    using Cons.prems(1,2) by (simp_all add: traffic_def)
  have deliver_only: "delivers src port (fragment type session data j) p \<Longrightarrow> \<not> quiet et es p"
    if "j < fragment_count (length data)" for j
    using read_fragment(1) [OF len(1) that, of src port type session p] ok
    by (simp add: quiet_def fragment_datagram_def)
  show ?case
  proof (cases "quiet et es p")
    case True
    have "\<forall>i < fragment_count (length data). i \<in> received_set s \<or>
        (\<exists>p \<in> set ps. delivers src port (fragment type session data i) p)"
      using Cons.prems(5) deliver_only True by fastforce
    then show ?thesis
      using Cons.IH [OF traffic _ Cons.prems(3,4)] Cons.prems(2) time True by (simp add: iteration_quiet)
  next
    case False
    then obtain i where i: "i < fragment_count (length data)"
      and p: "delivers src port (fragment type session data i) p"
      using Cons.prems(1) by (auto simp: traffic_def)
    obtain s' where it: "receiveIteration et es cap p s = finishOrContinue s'"
      and s': "assembling type session data src port s'" "active s'" "received_set s' = insert i (received_set s)"
      using iteration_fragment [OF Cons.prems(3) i len(1) cap ok p] by blast
    have same: "j = i" if "j < fragment_count (length data)"
      "delivers src port (fragment type session data j) p" for j
    proof -
      have "(of_nat j :: u8) = of_nat i"
        using read_fragment(1) [OF len(1) that] read_fragment(1) [OF len(1) i p]
        by (simp add: fragment_datagram_def)
      moreover have "j < 256" "i < 256" using that(1) i fragment_count_le [OF len(1)] by linarith+
      ultimately show "j = i" by (metis unat_u8_small)
    qed
    show ?thesis
    proof (cases "completed s' = activeCount s'")
      case True
      then show ?thesis using it s' time by (auto simp: finishOrContinue_eq)
    next
      case unfinished: False
      have "\<forall>j < fragment_count (length data). j \<in> received_set s' \<or>
          (\<exists>p \<in> set ps. delivers src port (fragment type session data j) p)"
        unfolding s'(3) using Cons.prems(5) same by fastforce
      then show ?thesis
        using Cons.IH [OF traffic _ s'(1)] Cons.prems(2) unfinished it time
        by (simp add: finishOrContinue_eq)
    qed
  qed
qed

lemmas receiveLoop_extend = rx_wait.extends

lemma blocks_cover:
  fixes data out :: bytes
  assumes "length data \<le> length out"
    and "\<And>i. i < fragment_count (length data) \<Longrightarrow>
      read_at (i * FRAGMENT_PAYLOAD_BYTES) (payload_length (length data) i) out =
      read_at (i * FRAGMENT_PAYLOAD_BYTES) (payload_length (length data) i) data"
  shows "take (length data) out = data"
proof (rule nth_equalityI)
  fix j assume "j < length (take (length data) out)"
  then have j: "j < length data" "j < length out" by simp_all
  let ?i = "j div FRAGMENT_PAYLOAD_BYTES" and ?o = "j mod FRAGMENT_PAYLOAD_BYTES"
  have "?i < fragment_count (length data)" using j by linarith
  from arg_cong [OF assms(2) [OF this], of "\<lambda>xs. xs ! ?o"]
  have "read_at (?i * FRAGMENT_PAYLOAD_BYTES) (payload_length (length data) ?i) out ! ?o =
      read_at (?i * FRAGMENT_PAYLOAD_BYTES) (payload_length (length data) ?i) data ! ?o" .
  moreover have "?o < payload_length (length data) ?i"
    using j by (simp add: payload_length_def minus_mod_eq_div_mult [symmetric] less_diff_conv)
  ultimately show "take (length data) out ! j = data ! j"
    using j by (simp add: nth_read_at)
qed (use assms(1) in simp)

text \<open>The datagrams a delivery list mentions are those of the message.\<close>

lemma carried_fragment:
  assumes len: "length data \<le> MAX_PROTOCOL_MESSAGE_BYTES"
    and traffic: "traffic et es type session data src port ps"
    and ok: "passes et es (r_type r) (r_session r)"
    and carried: "carried (set ps) r count out i"
  shows "count = fragment_count (length data)"
    and "read_at (i * FRAGMENT_PAYLOAD_BYTES) (payload_length (length data) i) out =
      read_at (i * FRAGMENT_PAYLOAD_BYTES) (payload_length (length data) i) data"
proof -
  obtain p d where p: "p \<in> set ps" and d: "readOneDatagram p = Some d"
    and hd: "d_type d = r_type r" "d_session d = r_session r" "unat (d_fragmentCount d) = count"
      "unat (d_fragmentIndex d) = i"
    and eq: "read_at (i * FRAGMENT_PAYLOAD_BYTES) (unat (d_payloadLength d)) out =
        read_at FRAGMENT_HEADER_BYTES (unat (d_payloadLength d)) (readBuffer p)"
    using carried unfolding carried_def by blast
  have "\<not> quiet et es p" using d hd ok by (simp add: quiet_def)
  then obtain j where j: "j < fragment_count (length data)"
    and dl: "delivers src port (fragment type session data j) p"
    using traffic p by (auto simp: traffic_def)
  have jj: "j < 256" using j fragment_count_le [OF len] by linarith
  note read = read_fragment [OF len j dl]
  have dd: "d = fragment_datagram type session (length data) src port j" using read(1) d by simp
  then have ij: "i = j" and c: "count = fragment_count (length data)"
    using hd(3,4) jj fragment_count_le [OF len] by (auto simp: fragment_datagram_def unat_u8_small)
  have pl: "unat (d_payloadLength d) = payload_length (length data) j"
    using payload_length_le [of "length data" j] by (simp add: dd fragment_datagram_def unat_u16_small)
  show "count = fragment_count (length data)" by (rule c)
  show "read_at (i * FRAGMENT_PAYLOAD_BYTES) (payload_length (length data) i) out =
      read_at (i * FRAGMENT_PAYLOAD_BYTES) (payload_length (length data) i) data"
    using eq read(2) by (simp add: pl ij)
qed

lemma reassembled:
  assumes len: "length data \<le> MAX_PROTOCOL_MESSAGE_BYTES" "0 < length data"
    and cap: "length data \<le> unat cap" "unat cap \<le> length out" and ok: "passes et es type session"
    and bufs: "buffers_ok (set ps)" and traffic: "traffic et es type session data src port ps"
    and time: "\<forall>p \<in> set ps. pollMillis p - startMs < timeoutMs"
    and all: "\<forall>i < fragment_count (length data). \<exists>p \<in> set ps. delivers src port (fragment type session data i) p"
  shows "\<exists>out'. receiveMessage et es out cap timeoutMs startMs (ps @ rest) =
      Some (Some \<lparr>r_type = type, r_session = session, r_length = of_nat (length data), r_sourceIp = src,
        r_sourcePort = port,
        r_framedBytes = of_nat (length data + FRAGMENT_HEADER_BYTES * fragment_count (length data))\<rparr>, out') \<and>
      take (length data) out' = data \<and> drop (length data) out' = drop (length data) out"
proof -
  let ?c = "fragment_count (length data)"
  have init: "assembling type session data src port (rx_init out)" "\<not> active (rx_init out)"
    by (auto simp: assembling_def rx_init_def)
  obtain s' where run: "receiveMessage et es out cap timeoutMs startMs ps =
        Some (Some (result_of s'), outputBuffer s')"
    and s': "assembling type session data src port s'" "active s'" "completed s' = activeCount s'"
    using loop_reassembles [OF len cap(1) ok traffic time init(1), of "[]"] init(2) all
    by (auto simp: receiveMessage_def)
  have lw: "unat (of_nat (length data) :: u16) = length data" using len(1) by (simp add: unat_u16_small)
  have cw: "unat (of_nat ?c :: u8) = ?c" using fragment_count_le [OF len(1)] by (simp add: unat_u8_small)
  have rs: "received_set s' = {..<?c}"
    using s' cw by (intro card_subset_eq) (auto simp: assembling_def)
  have "(\<Sum>i<?c. FRAGMENT_HEADER_BYTES + payload_length (length data) i) =
      length data + FRAGMENT_HEADER_BYTES * ?c"
    using payload_sum [of "length data" ?c] fragment_count_covers [of "length data"]
    by (simp add: sum.distrib interv_sum_list_conv_sum_set_nat atLeast0LessThan)
  then have r: "result_of s' = \<lparr>r_type = type, r_session = session, r_length = of_nat (length data),
      r_sourceIp = src, r_sourcePort = port,
      r_framedBytes = of_nat (length data + FRAGMENT_HEADER_BYTES * ?c)\<rparr>"
    using s'(1,2) rs by (simp add: assembling_def result_of_def)
  from receive_evidence [OF cap(2) bufs run]
  obtain count where tail: "drop (length data) (outputBuffer s') = drop (length data) out"
    and pos: "0 < count" and ev: "\<And>i. i < count \<Longrightarrow> carried (set ps) (result_of s') count (outputBuffer s') i"
    by (auto simp: r lw)
  have okr: "passes et es (r_type (result_of s')) (r_session (result_of s'))" using ok by (simp add: r)
  have count: "count = ?c" using carried_fragment(1) [OF len(1) traffic okr ev [OF pos]] .
  have "length (outputBuffer s') = length out"
    using rx_inv_loop [OF cap(2) bufs order_refl rx_inv_init run [unfolded receiveMessage_def]] by simp
  then have "take (length data) (outputBuffer s') = data"
    using carried_fragment(2) [OF len(1) traffic okr ev] count cap by (intro blocks_cover) auto
  then show ?thesis
    using receiveLoop_extend [OF run [unfolded receiveMessage_def], of rest] tail r
    by (auto simp: receiveMessage_def)
qed

end
