(* ===== verification/MemorySafety.thy ===== *)
theory MemorySafety
  imports SessionEffects LmsTotal GcsTheorems FragmentationTheorems
begin

text \<open>
  Array bounds. A \<open>memcpy\<close> past the end of an array makes the list that models it longer,
  so that \<open>node_arrays\<close> and \<open>session_arrays\<close>, which give every array its declared size, are
  the type invariant of the object and of the locals of a handler. Every stage of both
  handlers and of \<open>begin\<close> keeps it.
\<close>

section \<open>The invariant\<close>

definition lms_arrays :: "LmsState \<Rightarrow> bool" where
  "lms_arrays s \<longleftrightarrow> length (m_identifier s) = 16 \<and> length (m_seed s) = HASH_BYTES \<and>
    (\<forall>tree. m_tree s = Some tree \<longrightarrow> length tree = LMS_TREE_NODES \<and> (\<forall>x \<in> set tree. length x = HASH_BYTES)) \<and>
    length (m_smallHashInput s) = smallHashInput \<and> length (m_publicHashInput s) = publicHashInput"

definition gcs_arrays :: "GcsState \<Rightarrow> bool" where
  "gcs_arrays s \<longleftrightarrow> length (m_deviceId s) = ID_BYTES \<and> length (m_peerId s) = ID_BYTES \<and>
    length (m_buffer s) = MAX_GCS_PACKET_BYTES"

definition record_arrays :: "PeerPublicRecord \<Rightarrow> bool" where
  "record_arrays r \<longleftrightarrow> length (p_identifier r) = 16 \<and> length (p_root r) = HASH_BYTES"

definition node_arrays :: "'a node_scheme \<Rightarrow> bool" where
  "node_arrays n \<longleftrightarrow>
    config_arrays (config n) \<and> lms_arrays (m_lms n) \<and> record_arrays (m_peerRecord n) \<and> gcs_arrays (m_gcs n) \<and>
    length (m_bootSeed n) = HASH_BYTES \<and> length (m_m0 n) = M0_BYTES \<and> length (m_m1 n) = M1_BYTES \<and>
    length (m_m2 n) = M2_MAX_BYTES \<and> length (m_m3 n) = M3_MAX_BYTES \<and> length (m_m4 n) = M4_BYTES \<and>
    length (m_mu n) = MU_A_BYTES \<and> length (m_signInput n) = LMOTS_SIGNED_OBJECT_BYTES \<and> length (m_result n) = 128"

definition session_arrays :: "session \<Rightarrow> bool" where
  "session_arrays c \<longleftrightarrow> node_arrays c \<and>
    length (l_nonceA c) = NONCE_BYTES \<and> length (l_nonceB c) = NONCE_BYTES \<and> length (l_sid c) = HASH_BYTES \<and>
    length (l_hashM2 c) = HASH_BYTES \<and> length (l_transcriptHash c) = HASH_BYTES \<and> length (l_runtimeSeed c) = HASH_BYTES \<and>
    length (l_sharedSecret c) = MLKEM_SHARED_SECRET_BYTES \<and> length (l_sessionKey c) = HASH_BYTES \<and>
    length (l_confirmA c) = HASH_BYTES \<and> length (l_confirmB c) = HASH_BYTES \<and> length (l_tauA c) = HMAC_BYTES \<and>
    length (l_tauB c) = HMAC_BYTES \<and> length (l_peerPath c) = LMS_PATH_BYTES"

lemmas arrays_defs = session_arrays_def node_arrays_def

text \<open>
  What the code relies on of the KEM and of what it observes: output buffers have their
  sizes, random bytes and PUF roots too, and datagrams are read into the arrays that the
  transports pass to \<open>read\<close>.
\<close>

definition kem_sizes :: "wolf \<Rightarrow> bool" where
  "kem_sizes W \<longleftrightarrow>
    (\<forall>k. length (snd (wc_MlKemKey_EncodePublicKey W k)) = MLKEM_PUBLIC_KEY_BYTES) \<and>
    (\<forall>k r. length (fst (snd (wc_MlKemKey_Encapsulate W k r))) = MLKEM_CIPHERTEXT_BYTES \<and>
           length (snd (snd (wc_MlKemKey_Encapsulate W k r))) = MLKEM_SHARED_SECRET_BYTES) \<and>
    (\<forall>k c. length (snd (wc_MlKemKey_Decapsulate W k c)) = MLKEM_SHARED_SECRET_BYTES)"

definition env_arrays :: "env \<Rightarrow> bool" where
  "env_arrays e \<longleftrightarrow>
    length (e_nonce e) = NONCE_BYTES \<and> length (e_C e) = HASH_BYTES \<and>
    (\<forall>i. buffers_ok (set (rx_polls (e_recvs e i)))) \<and> gcs_buffers (e_gcs e)"

lemma length_take_pad: "length (take n (xs @ zeros n)) = n"
  by (simp only: length_take length_append length_zeros)

lemma sample_kem_sizes: "kem_sizes sample_wolf"
  by (simp add: kem_sizes_def sample_wolf_def xor32_def length_take_pad del: upt_rec_numeral take_append)

section \<open>What the stages are made of\<close>

lemma write_fits: "length buf = n \<Longrightarrow> off + length src \<le> n \<Longrightarrow> length (write_at off src buf) = n"
  by simp

lemma update_fits: "length buf = n \<Longrightarrow> length (buf[i := v]) = n"
  by simp

lemma receiveMessage_length:
  assumes "receiveMessage et es out cap timeout t polls = Some (r, out')"
    and "buffers_ok (set polls)" and "unat cap \<le> length out"
  shows "length out' = length out"
  using rx_inv_loop [OF assms(3,2) order_refl rx_inv_init assms(1) [unfolded receiveMessage_def]] by simp

lemma receiveProtocolMessage_length:
  assumes "receiveProtocolMessage rx t s data cap len cnt c = (r, data', c')"
    and "buffers_ok (set (rx_polls rx))" and "unat cap \<le> length data"
  shows "length data' = length data"
  using assms(1) receiveMessage_length [OF _ assms(2,3)]
  by (auto simp: receiveProtocolMessage_def Let_def split: option.splits if_splits)

lemma extractPath_length:
  assumes "lms_arrays s" and "extractPath s q = Some path"
  shows "length path = LMS_PATH_BYTES"
proof -
  from assms(2) obtain tree where tree: "m_tree s = Some tree" and q: "q < 1024"
    and path: "path = concat (siblings (\<lambda>n. tree ! n) 10 (1024 + unat q))"
    by (auto simp: extractPath_def pathNodes_siblings leaf_number not_le simp del: siblings.simps
        split: option.splits if_splits)
  have "\<forall>x \<in> set (siblings (\<lambda>n. tree ! n) 10 (1024 + unat q)). length x = HASH_BYTES"
  proof
    fix x assume "x \<in> set (siblings (\<lambda>n. tree ! n) 10 (1024 + unat q))"
    then obtain m where "m < LMS_TREE_NODES" "x = tree ! m"
      using siblings_subset [of 10 "1024 + unat q" x "\<lambda>n. tree ! n"] unat_index_less [OF q] by auto
    then show "length x = HASH_BYTES" using assms(1) tree by (auto simp: lms_arrays_def)
  qed
  from length_concat_blocks [OF this] show ?thesis by (simp add: path)
qed

lemma fetchPeerPath_length:
  assumes "fetchPeerPath W version q us attempts g = Some (path, m, g')" and "gcs_arrays g" and "gcs_buffers attempts"
  shows "gcs_arrays g'" and "path = Some p \<Longrightarrow> length p = LMS_PATH_BYTES"
proof -
  have "length (m_buffer g') = MAX_GCS_PACKET_BYTES \<and> same_peers g g' \<and> (\<forall>p. path = Some p \<longrightarrow> length p = LMS_PATH_BYTES)"
    using assms sendAndReceive_buffer [where attempts = attempts] sendAndReceive_sound(1) [where attempts = attempts]
    by (fastforce simp: fetchPeerPath_def gcs_arrays_def Let_def split: if_splits sum.splits option.splits)
  then show "gcs_arrays g'" and "path = Some p \<Longrightarrow> length p = LMS_PATH_BYTES"
    using assms(2) by (simp_all add: gcs_arrays_def same_peers_def)
qed

lemma message_lengths:
  "config_arrays cfg \<Longrightarrow> length nonceA = NONCE_BYTES \<Longrightarrow> length (buildM0 cfg nonceA) = M0_BYTES"
  "config_arrays cfg \<Longrightarrow> length nonceA = NONCE_BYTES \<Longrightarrow> length nonceB = NONCE_BYTES \<Longrightarrow>
     length (buildM1 cfg nonceA nonceB) = M1_BYTES"
  by (simp_all add: buildM0_def buildM1_def config_arrays_def)

lemma ids_length: "config_arrays cfg \<Longrightarrow> length (idA cfg) = ID_BYTES \<and> length (idB cfg) = ID_BYTES"
  by (simp add: idA_def idB_def config_arrays_def)

lemma wrapSigned_length: "length mu = n \<Longrightarrow> n \<le> 902 \<Longrightarrow> length (wrapSigned mu n q) = LMOTS_SIGNED_OBJECT_BYTES"
  unfolding wrapSigned_def Let_def by (intro write_fits update_fits) simp_all

lemma signed_lengths [simp]:
  assumes "config_arrays cfg" and "length sid = HASH_BYTES"
  shows "length publicKey = MLKEM_PUBLIC_KEY_BYTES \<Longrightarrow>
      length (fst (buildM2SignedInput cfg sid version q publicKey)) = MU_A_BYTES"
    and "length publicKey = MLKEM_PUBLIC_KEY_BYTES \<Longrightarrow>
      length (snd (buildM2SignedInput cfg sid version q publicKey)) = LMOTS_SIGNED_OBJECT_BYTES"
    and "length hashM2 = HASH_BYTES \<Longrightarrow> length ciphertext = MLKEM_CIPHERTEXT_BYTES \<Longrightarrow>
      length (fst (buildM3SignedInput cfg sid hashM2 version q ciphertext)) = MU_B_BYTES"
    and "length hashM2 = HASH_BYTES \<Longrightarrow> length ciphertext = MLKEM_CIPHERTEXT_BYTES \<Longrightarrow>
      length (snd (buildM3SignedInput cfg sid hashM2 version q ciphertext)) = LMOTS_SIGNED_OBJECT_BYTES"
  unfolding buildM2SignedInput_def buildM3SignedInput_def Let_def fst_conv snd_conv
  by (intro wrapSigned_length write_fits update_fits; simp add: assms ids_length)+

lemma runtimeSeed_length:
  "wolf_sizes W \<Longrightarrow> runtimeSeed W reconstruct cfg = Some seed \<Longrightarrow> length seed = HASH_BYTES"
  by (auto simp: runtimeSeed_def deriveLmsSeed_def dest: hkdfSha256_Inr_length split: option.splits sum.splits)

lemma transcriptHash_length:
  "wolf_sizes W \<Longrightarrow> transcriptHash W sid m0 m1 m2 inner = Some h \<Longrightarrow> length h = HASH_BYTES"
  by (auto simp: transcriptHash_def wolf_sizes_def Let_def split_beta split: if_splits)

lemma deriveSessionKeys_lengths:
  "wolf_sizes W \<Longrightarrow> deriveSessionKeys W ss th = Inr (key, a, b) \<Longrightarrow>
   length key = HASH_BYTES \<and> length a = HASH_BYTES \<and> length b = HASH_BYTES"
  by (auto simp: deriveSessionKeys_def bindE_eq_Inr dest: hkdfSha256_Inr_length)

lemma computeConfirmationTag_length:
  "wolf_sizes W \<Longrightarrow> computeConfirmationTag W d k th = Inr tag \<Longrightarrow> length tag = HMAC_BYTES"
  unfolding computeConfirmationTag_def by (rule hmacSha256_Inr_length)

lemma computeSid0_length: "wolf_sizes W \<Longrightarrow> computeSid0 W m0 m1 = Inr sid \<Longrightarrow> length sid = HASH_BYTES"
  unfolding computeSid0_def by (rule sha256_Inr_length)

lemma secureZero_length [simp]: "length (secureZero n m) = max n (length m)"
  by (induction n arbitrary: m) auto

section \<open>The stages keep the invariant\<close>

named_theorems arrays_kept "stages that keep the arrays"

definition keeps_arrays :: "session stage \<Rightarrow> bool" where
  "keeps_arrays f \<longleftrightarrow> (\<forall>c. session_arrays c \<longrightarrow> session_arrays (snd (f c)))"

lemma keeps_arraysI: "(\<And>c r c'. session_arrays c \<Longrightarrow> f c = (r, c') \<Longrightarrow> session_arrays c') \<Longrightarrow> keeps_arrays f"
  by (metis keeps_arrays_def prod.collapse)

text \<open>A stage that touches no array.\<close>

lemma arrays_spared: "touches put f \<Longrightarrow> (\<And>s c. session_arrays (put s c) = session_arrays c) \<Longrightarrow> keeps_arrays f"
  by (metis keeps_arrays_def touches_def)

lemma untouched [arrays_kept]:
  "keeps_arrays (sendM0 e)" "keeps_arrays (sendM2 e)" "keeps_arrays (sendM1 e ip port)" "keeps_arrays (sendM3 e ip port)"
  "keeps_arrays (reserveQA e)" "keeps_arrays (reserveQB e)" "keeps_arrays (kemInit W)" "keeps_arrays parseM2"
  "keeps_arrays parseM3" "keeps_arrays parseM4" "keeps_arrays (checkPeerA e)" "keeps_arrays (checkPeerB e)"
  "keeps_arrays checkTauA" "keeps_arrays checkTauB"
  by (rule arrays_spared, rule effects, simp add: arrays_defs)+

text \<open>What the stages rely on.\<close>

definition sized :: "wolf \<Rightarrow> env \<Rightarrow> bool" where
  "sized W e \<longleftrightarrow> wolf_sizes W \<and> kem_sizes W \<and> env_arrays e"

lemma sizedD: "sized W e \<Longrightarrow> wolf_sizes W" "sized W e \<Longrightarrow> kem_sizes W" "sized W e \<Longrightarrow> env_arrays e"
  by (simp_all add: sized_def)

lemma radio_sized: "sized W e \<Longrightarrow> buffers_ok (set (rx_polls (e_recvs e i)))"
  by (simp add: sized_def env_arrays_def)

lemma start_kept [arrays_kept]:
  "sized W e \<Longrightarrow> keeps_arrays (initiatorStart e)" "sized W e \<Longrightarrow> keeps_arrays (answerM0 e)"
  by (auto simp: keeps_arrays_def initiatorStart_def answerM0_def clearMessages_def arrays_defs Let_def
      sized_def env_arrays_def message_lengths)

lemma receiveProtocolMessage_kept:
  assumes "receiveProtocolMessage (e_recvs e i) t s data cap len cnt c = (r, data', c')" and "sized W e"
    and "unat cap \<le> length data"
  shows "length data' = length data \<and> (\<exists>p m. c' = c\<lparr>l_packet := p, l_metrics := m\<rparr>)"
proof -
  have "c' = c\<lparr>l_packet := l_packet c', l_metrics := l_metrics c'\<rparr>"
    using assms(1) by (auto simp: receiveProtocolMessage_def Let_def split: option.splits if_splits)
  then show ?thesis using receiveProtocolMessage_length [OF assms(1) radio_sized [OF assms(2)] assms(3)] by blast
qed

lemma received_kept [arrays_kept]:
  assumes "sized W e"
  shows "keeps_arrays (receiveM0 e)" "keeps_arrays (receiveM2 e)" "keeps_arrays (receiveM3 e)" "keeps_arrays (receiveM4 e)"
  by (rule keeps_arraysI, auto simp: receiveM0_def receiveM2_def receiveM3_def receiveM4_def clearMessages_def Let_def arrays_defs
      split: prod.splits dest!: receiveProtocolMessage_kept [OF _ assms])+

lemma nonceB_arrays: "validateM1 cfg m1 nonceA = Some nonceB \<Longrightarrow> length m1 = M1_BYTES \<Longrightarrow> length nonceB = NONCE_BYTES"
  by (auto simp: validateM1_def split: if_splits)

lemma receiveM1_kept [arrays_kept]:
  assumes "sized W e"
  shows "keeps_arrays (receiveM1 e)"
proof (rule keeps_arraysI)
  fix c r c' assume c: "session_arrays c" and run: "receiveM1 e c = (r, c')"
  obtain r1 m1 c1 where rx: "receiveProtocolMessage (e_recvs e 0) MSG_M1_CHAL (l_session c) (m_m1 c) 102 102 True c = (r1, m1, c1)"
    by (metis prod_cases3)
  from receiveProtocolMessage_kept [OF rx assms] c obtain p m
    where "length m1 = M1_BYTES" "c1 = c\<lparr>l_packet := p, l_metrics := m\<rparr>" by (auto simp: arrays_defs)
  note c1 = this
  consider "c' = c1\<lparr>m_m1 := m1\<rparr>"
    | nonceB where "validateM1 (config c1) m1 (l_nonceA c1) = Some nonceB" "c' = c1\<lparr>m_m1 := m1, l_nonceB := nonceB\<rparr>"
    using run by (auto simp: receiveM1_def rx Let_def split: if_splits option.splits)
  then show "session_arrays c'"
    by cases (use c c1 nonceB_arrays in \<open>simp_all add: arrays_defs\<close>)
qed

lemma receiveResult_kept [arrays_kept]:
  assumes "sized W e"
  shows "keeps_arrays (receiveResult e)"
proof (rule keeps_arraysI)
  fix c r c' assume c: "session_arrays c" and run: "receiveResult e c = (r, c')"
  let ?c = "c\<lparr>l_metrics := (l_metrics c)\<lparr>protocolUs := e_us e 12\<rparr>\<rparr>"
  obtain r1 d c1 where rx: "receiveProtocolMessage (e_recvs e 2) MSG_RESULT (l_session c) (m_result c) 128 116 False ?c = (r1, d, c1)"
    by (metis prod_cases3)
  from receiveProtocolMessage_kept [OF rx assms] c obtain p m
    where "length d = 128" "c1 = c\<lparr>l_packet := p, l_metrics := m\<rparr>" by (auto simp: arrays_defs)
  then show "session_arrays c'"
    using run rx c by (auto simp: receiveResult_def arrays_defs Let_def split: if_splits)
qed

lemma hashed_kept [arrays_kept]:
  assumes "sized W e"
  shows "keeps_arrays (timedSid0 W e)" "keeps_arrays (timedHashM2 W e)" "keeps_arrays (timedRuntimeSeed W e)"
    "keeps_arrays (\<lambda>c. timedTranscriptHash W e (inner c) c)" "keeps_arrays (timedSessionKeys W e)"
    "keeps_arrays (timedTagA W e)" "keeps_arrays (timedTagB W e)"
  using sizedD(1) [OF assms]
  by (auto simp: keeps_arrays_def timedSid0_def timedHashM2_def timedRuntimeSeed_def timedTranscriptHash_def
      timedSessionKeys_def timedTagA_def timedTagB_def addSha_def addHmac_def addPufFe_def arrays_defs Let_def
      split: sum.split option.split
      dest: computeSid0_length sha256_Inr_length runtimeSeed_length transcriptHash_length deriveSessionKeys_lengths
        computeConfirmationTag_length)

lemma kem_kept [arrays_kept]:
  assumes "sized W e"
  shows "keeps_arrays (makeKemKey W e)" "keeps_arrays (encapsulate W e)" "keeps_arrays (decapsulate W e)"
  using sizedD(2) [OF assms]
  by (auto simp: keeps_arrays_def makeKemKey_def encapsulate_def decapsulate_def addKem_def arrays_defs Let_def
      split_beta kem_sizes_def)

lemma path_kept [arrays_kept]:
  assumes "sized W e"
  shows "keeps_arrays (obtainPathA W e)" "keeps_arrays (obtainPathB W e)" "keeps_arrays attachPathA" "keeps_arrays attachPathB"
  using sizedD(3) [OF assms]
  by (auto simp: keeps_arrays_def obtainPathA_def obtainPathB_def obtainPeerPath_def attachPathA_def attachPathB_def
      arrays_defs Let_def env_arrays_def split: option.splits dest: fetchPeerPath_length extractPath_length)

lemma sign_scratch_arrays:
  "wolf_sizes W \<Longrightarrow> lms_arrays s \<Longrightarrow> length seed = HASH_BYTES \<Longrightarrow> length C = HASH_BYTES \<Longrightarrow>
   lms_arrays (s\<lparr>m_smallHashInput := sign_scratch W s q message seed C\<rparr>)"
  by (simp add: lms_arrays_def sign_scratch_length)

lemma signed_kept [arrays_kept]:
  assumes "sized W e"
  shows "keeps_arrays (signM2 W e)" "keeps_arrays (signM3 W e)"
  using sizedD(1,3) [OF assms]
  by (auto simp: keeps_arrays_def signM2_def signM3_def LmotsLms_sign_def addSign_def arrays_defs Let_def env_arrays_def
      sign_scratch_arrays split: sum.split dest!: sign_length)

lemma filled_kept [arrays_kept]:
  "keeps_arrays fillM2" "keeps_arrays fillM3Inner" "keeps_arrays (verifyM2 W e)" "keeps_arrays (verifyM3 W e)"
  by (simp_all add: keeps_arrays_def arrays_defs fillM2_def fillM3Inner_def verifyM2_def verifyM3_def Let_def
      addVerify_def split_beta)

lemma encodeResult_length: "length result = 128 \<Longrightarrow> length (encodeResult e qa qb m result) = 128"
  unfolding encodeResult_def Let_def by (intro write_fits update_fits) simp_all

lemma completed_kept [arrays_kept]:
  "keeps_arrays fillM3Outer" "keeps_arrays (sendM4 e)" "keeps_arrays (acceptSession e ip port)"
  by (simp_all add: keeps_arrays_def fillM3Outer_def sendM4_def acceptSession_def encodeResult_length
      sendProtocolMessage_def m3InnerBytesForMode_def arrays_defs Let_def split_beta)

section \<open>The handlers keep the invariant\<close>

lemma keeps_arrays_run: "list_all keeps_arrays fs \<Longrightarrow> session_arrays c \<Longrightarrow> session_arrays (snd (runStages (take k fs) c))"
proof (induction fs arbitrary: c k)
  case (Cons f fs)
  then show ?case by (cases k) (simp_all add: keeps_arrays_def andThen_def split_beta)
qed simp

lemma initiator_keeps_arrays: "sized W e \<Longrightarrow> list_all keeps_arrays (initiatorStages W e)"
  by (simp add: initiatorStages_def arrays_kept)

lemma responder_keeps_arrays: "sized W e \<Longrightarrow> list_all keeps_arrays (receiveM0 e # responderStages W e ip port)"
  by (simp add: responderStages_def arrays_kept)

lemma enterSession_arrays: "session_arrays (enterSession n) = node_arrays n"
  by (simp add: session_arrays_def node_arrays_def enterSession_def node.defs session.defs)

lemma truncate_arrays: "node_arrays (node.truncate c) = node_arrays c"
  by (simp add: node_arrays_def node.defs)

lemma cleanup_arrays: "session_arrays c \<Longrightarrow> session_arrays (sessionCleanup c)"
  by (simp add: arrays_defs sessionCleanup_def wipeSessionSecrets_def freeKem_def Let_def)

section \<open>The boot keeps the invariant\<close>

definition boot_arrays :: "boot \<Rightarrow> bool" where
  "boot_arrays b \<longleftrightarrow> gcs_buffers (b_rootNet b) \<and> (\<forall>i. gcs_buffers (b_pathNet b i)) \<and>
    (\<forall>attempts \<in> set (b_fetchRounds b). gcs_buffers attempts)"

lemma gcs_arrays_exchange:
  assumes "sendAndReceive W request op v q attempts g = Some (r, g')" and "gcs_buffers attempts" and "gcs_arrays g"
  shows "gcs_arrays g'"
  using assms sendAndReceive_buffer [OF assms(1,2)] sendAndReceive_sound(1) [OF assms(1)]
  by (simp add: gcs_arrays_def same_peers_def)

lemma enrollOwnRoot_arrays:
  "enrollOwnRoot W lms v su st ex attempts g = Some (ok, g') \<Longrightarrow> gcs_buffers attempts \<Longrightarrow> gcs_arrays g \<Longrightarrow> gcs_arrays g'"
  by (auto simp: enrollOwnRoot_def dest: gcs_arrays_exchange split: option.splits sum.splits)

lemma enrollPathsFrom_arrays:
  "enrollPathsFrom W lms v first net is g = Some (ok, g') \<Longrightarrow> \<forall>i. gcs_buffers (net i) \<Longrightarrow> gcs_arrays g \<Longrightarrow> gcs_arrays g'"
  by (induction "is" arbitrary: g)
    (auto simp: Let_def dest: gcs_arrays_exchange split: option.splits sum.splits if_splits)

lemma enrollOwnPaths_arrays:
  "enrollOwnPaths W lms v first count net g = Some (ok, g') \<Longrightarrow> \<forall>i. gcs_buffers (net i) \<Longrightarrow> gcs_arrays g \<Longrightarrow> gcs_arrays g'"
  by (auto simp: enrollOwnPaths_def dest: enrollPathsFrom_arrays split: if_splits)

lemma fetchRootRounds_arrays:
  "fetchRootRounds W request v k rounds g = Some (r, g') \<Longrightarrow> \<forall>attempts \<in> set rounds. gcs_buffers attempts \<Longrightarrow>
   gcs_arrays g \<Longrightarrow> gcs_arrays g' \<and> (\<forall>record. r = Some record \<longrightarrow> record_arrays record)"
proof (induction rounds arbitrary: k g)
  case Nil
  then show ?case by (cases k) auto
next
  case (Cons attempts rounds)
  show ?case
  proof (cases k)
    case 0
    then show ?thesis using Cons.prems by simp
  next
    case (Suc k')
    then obtain x g1 where ex: "sendAndReceive W request OP_ROOT_RECORD v ANY_Q attempts g = Some (x, g1)"
      using Cons.prems(1) by (auto split: option.splits)
    have g1: "gcs_arrays g1" using gcs_arrays_exchange [OF ex] Cons.prems(2,3) by simp
    show ?thesis
    proof (cases x)
      case None
      then show ?thesis using Cons.IH [of k', OF _ _ g1] Cons.prems ex Suc by auto
    next
      case (Some n)
      then show ?thesis
        using Cons.prems(1) ex Suc g1
        by (auto simp: record_arrays_def parseRootRecord_def gcs_arrays_def split: if_splits)
    qed
  qed
qed

lemma buildTree_arrays:
  assumes W: "wolf_sizes W" and s: "lms_arrays s" and run: "buildTree W s = (r, s')"
  shows "lms_arrays s'"
proof (cases "m_tree s")
  case None
  then show ?thesis using s run by (simp add: buildTree_def)
next
  case (Some tree)
  obtain r1 t1 where leaves: "buildLeaves W (m_identifier s) (m_seed s) [0..<LMS_LEAVES] tree = (r1, t1)" by fastforce
  obtain r2 t2 where inner: "buildInternal W (m_identifier s) (rev [1..<LMS_LEAVES]) t1 = (r2, t2)" by fastforce
  have t1: "length t1 = LMS_TREE_NODES \<and> (\<forall>x \<in> set t1. length x = HASH_BYTES)"
    using buildLeaves_arrays [OF W leaves] s Some by (simp add: lms_arrays_def)
  then have t2: "length t2 = LMS_TREE_NODES \<and> (\<forall>x \<in> set t2. length x = HASH_BYTES)"
    using buildInternal_arrays [OF W inner] by simp
  have "length (m_smallHashInput s') = smallHashInput \<and> length (m_publicHashInput s') = publicHashInput"
    using s by (intro buildTree_scratch_lengths [OF W _ _ _ _ _ run]) (auto simp: lms_arrays_def)
  then show ?thesis
    using run Some leaves inner t1 t2 s
    by (cases r1) (auto simp: buildTree_def lms_arrays_def Let_def split_beta simp del: upt_rec_numeral)
qed

section \<open>Boot stages\<close>

definition boot_keeps :: "node stage \<Rightarrow> bool" where
  "boot_keeps f \<longleftrightarrow> (\<forall>n. node_arrays n \<longrightarrow> node_arrays (snd (f n)))"

lemma provisioning_keeps_arrays:
  assumes "wolf_sizes W" and "boot_arrays b"
  shows "list_all boot_keeps (provisioningStages W b)"
proof -
  have "boot_keeps (deriveBootSeed W b)"
    using assms(1) by (auto simp: boot_keeps_def deriveBootSeed_def node_arrays_def deriveLmsSeed_def
        dest: hkdfSha256_Inr_length split: sum.split option.split)
  moreover have "boot_keeps (initializeLms b)"
    by (auto simp: boot_keeps_def initializeLms_def initialize_def node_arrays_def lms_arrays_def config_arrays_def Let_def)
  moreover have "boot_keeps (buildLmsTree W)"
    using buildTree_arrays [OF assms(1)]
    by (auto simp: boot_keeps_def buildLmsTree_def node_arrays_def split: prod.splits sum.splits)
  moreover have "boot_keeps (connectWiFi b)" "boot_keeps (startTransport b)" "boot_keeps (startGcs b)" "boot_keeps (checkPeer b)"
    by (simp_all add: boot_keeps_def connectWiFi_def startTransport_def startGcs_def checkPeer_def guard_def node_arrays_def
        FragmentedUdp_begin_def GcsLedgerClient_begin_def gcs_arrays_def config_arrays_def Let_def)
  moreover have "boot_keeps (publishRoot W b)" "boot_keeps (publishPaths W b)" "boot_keeps (fetchPeer W b)"
    using assms(2)
    by (auto simp: boot_keeps_def publishRoot_def publishPaths_def fetchPeer_def node_arrays_def boot_arrays_def
        fetchPeerRoot_def split: option.splits sum.splits
        dest: enrollOwnRoot_arrays enrollOwnPaths_arrays fetchRootRounds_arrays)
  ultimately show ?thesis by (simp add: provisioningStages_def)
qed

lemma boot_keeps_run: "list_all boot_keeps fs \<Longrightarrow> node_arrays n \<Longrightarrow> node_arrays (snd (runStages fs n))"
  by (induction fs arbitrary: n) (simp_all add: boot_keeps_def andThen_def split_beta)

lemma protocolBegin_keeps_arrays:
  assumes "wolf_sizes W" and "boot_arrays b" and "node_arrays n"
  shows "node_arrays (snd (protocolBegin W b n))"
proof -
  have "boot_keeps (prepareLmsAndLedger W b)"
    using boot_keeps_run [OF provisioning_keeps_arrays [OF assms(1,2)]] by (simp add: boot_keeps_def prepareLmsAndLedger_def)
  moreover have "boot_keeps checkRange" "boot_keeps (startRng W)" "boot_keeps (openCounter b)"
      "boot_keeps (\<lambda>n. (Some True, n\<lparr>m_ready := True\<rparr>))"
    by (simp_all add: boot_keeps_def checkRange_def guard_def startRng_def openCounter_def initializePersistentCounter_def
        node_arrays_def Let_def)
  ultimately have "list_all boot_keeps [checkRange, prepareLmsAndLedger W b, startRng W, openCounter b,
      \<lambda>n. (Some True, n\<lparr>m_ready := True\<rparr>)]" by simp
  from boot_keeps_run [OF this assms(3)] show ?thesis unfolding protocolBegin_def .
qed

end
