(* ===== verification/RepositoryExchange.thy ===== *)
theory RepositoryExchange
  imports LedgerServer
begin

text \<open>
  Firmware and repository together: the server accepts exactly the requests the client
  builds, the client accepts the server's responses, and so a node fetches what its peer
  enrolled. Both sides are linked by one hypothesis, \<open>same_hmac\<close>: wolfSSL and Python
  compute the same HMAC-SHA-256 for packets of at most 400 bytes.
\<close>

definition same_hmac :: "wolf \<Rightarrow> hmac \<Rightarrow> bool" where
  "same_hmac W H \<longleftrightarrow> (\<forall>x. length x \<le> MAX_GCS_PACKET_BYTES \<longrightarrow> computeTag W x = Inr (compute_tag H x))"

lemma shared_hmac_key: "LAB_KEY = GCS_LEDGER_HMAC_KEY"
  by (simp add: LAB_KEY_def GCS_LEDGER_HMAC_KEY_def)

definition sample_hmac :: hmac where
  "sample_hmac k x = sample_digest (k @ x)"

lemma sample_same_hmac: "same_hmac sample_wolf sample_hmac"
  by (simp add: same_hmac_def computeTag_def compute_tag_def sample_hmac_def shared_hmac_key
      hmacSha256_works [OF sample_wolf_works] GCS_LEDGER_HMAC_KEY_def)
    (simp add: sample_wolf_def)

lemma same_hmac_length:
  "wolf_sizes W \<Longrightarrow> same_hmac W H \<Longrightarrow> length x \<le> MAX_GCS_PACKET_BYTES \<Longrightarrow> length (compute_tag H x) = HMAC_BYTES"
  by (metis computeTag_def hmacSha256_Inr_length same_hmac_def)

section \<open>Requests\<close>

lemma sealRequest_eq:
  assumes "wolf_sizes W" and "same_hmac W H" and "length body \<le> MAX_GCS_PACKET_BYTES"
  shows "sealRequest W (body @ zeros HMAC_BYTES) = Inr (body @ compute_tag H body)"
  using sealRequest_layout [OF assms(1) refl] assms(2,3) by (simp add: same_hmac_def)

lemma verify_tag_sealed:
  "wolf_sizes W \<Longrightarrow> same_hmac W H \<Longrightarrow> length body \<le> MAX_GCS_PACKET_BYTES \<Longrightarrow>
   verify_tag H (body @ compute_tag H body)"
  by (simp add: verify_tag_def same_hmac_length)

text \<open>Reading a field behind a prefix.\<close>

lemma drop_behind: "length xs \<le> n \<Longrightarrow> drop n (xs @ ys) = drop (n - length xs) ys"
  by simp

lemma read_at_behind: "length xs \<le> n \<Longrightarrow> read_at n k (xs @ ys) = read_at (n - length xs) k ys"
  by (simp add: read_at_def)

lemma read_at_front: "length xs = k \<Longrightarrow> read_at 0 k (xs @ ys) = xs"
  by (simp add: read_at_def)

lemma nth_behind: "length xs \<le> n \<Longrightarrow> (xs @ ys) ! n = ys ! (n - length xs)"
  by (simp add: nth_append)

lemma read_at_Cons: "0 < n \<Longrightarrow> read_at n k (x # xs) = read_at (n - 1) k xs"
  by (cases n) (simp_all add: read_at_def)

lemmas field_simps = drop_behind read_at_behind read_at_front nth_behind read_at_Cons

lemma parse_enroll_root:
  assumes W: "wolf_sizes W" "same_hmac W H"
    and len: "length device = ID_BYTES" "length ident = 16" "length rootValue = HASH_BYTES"
    and req: "sealRequest W (enrollRootRequest device ident rootValue version suiteId status expiry) = Inr request"
    and status: "status \<le> 3"
  shows "parse_root_record H request = Some ((device, version), (ident, rootValue, suiteId, status, expiry))"
    and "length request = ROOT_RECORD_BYTES" and "take 4 request = GCS2" and "request ! 4 = OP_ENROLL_ROOT"
proof -
  let ?body = "gcs_header OP_ENROLL_ROOT @ device @ putU32 version @ ident @ rootValue @ putU32 suiteId @ [status] @
    zeros 3 @ putU64 expiry"
  have body: "length ?body \<le> MAX_GCS_PACKET_BYTES" using len by simp
  have r: "request = ?body @ compute_tag H ?body"
    using req sealRequest_eq [OF W body] unfolding enrollRoot_layout [OF len] by simp
  show l: "length request = ROOT_RECORD_BYTES"
    unfolding r using same_hmac_length [OF W body] len by simp
  show t: "take 4 request = GCS2" and o: "request ! 4 = OP_ENROLL_ROOT"
    unfolding r by (simp_all add: field_simps)
  have "verify_tag H request" unfolding r using W body by (rule verify_tag_sealed)
  moreover have "read_at 8 32 request = device" "getU32 (drop 40 request) = version" "read_at 44 16 request = ident"
    "read_at 60 32 request = rootValue" "getU32 (drop 92 request) = suiteId" "request ! 96 = status"
    "getU64 (drop 100 request) = expiry"
    unfolding r append_assoc using len by (simp_all add: field_simps)
  ultimately show "parse_root_record H request = Some ((device, version), (ident, rootValue, suiteId, status, expiry))"
    using l t o status by (simp add: parse_root_record_def not_less)
qed


lemma parse_get_root_request:
  assumes W: "wolf_sizes W" "same_hmac W H"
    and len: "length device = ID_BYTES" "length peer = ID_BYTES"
    and req: "sealRequest W (getRootRequest device peer version) = Inr request"
  shows "parse_get_root H request = Some (device, peer, version)"
    and "length request = GET_ROOT_BYTES" and "take 4 request = GCS2" and "request ! 4 = OP_GET_ROOT"
proof -
  let ?body = "gcs_header OP_GET_ROOT @ device @ peer @ putU32 version"
  have body: "length ?body \<le> MAX_GCS_PACKET_BYTES" using len by simp
  have r: "request = ?body @ compute_tag H ?body"
    using req sealRequest_eq [OF W body] unfolding getRoot_layout [OF len] by simp
  show l: "length request = GET_ROOT_BYTES"
    unfolding r using same_hmac_length [OF W body] len by simp
  show t: "take 4 request = GCS2" and o: "request ! 4 = OP_GET_ROOT"
    unfolding r by (simp_all add: field_simps)
  have "verify_tag H request" unfolding r using W body by (rule verify_tag_sealed)
  moreover have "read_at 8 32 request = device" "read_at 40 32 request = peer" "getU32 (drop 72 request) = version"
    unfolding r append_assoc using len by (simp_all add: field_simps)
  ultimately show "parse_get_root H request = Some (device, peer, version)"
    using l t o by (simp add: parse_get_root_def)
qed

lemma parse_enroll_path:
  assumes W: "wolf_sizes W" "same_hmac W H"
    and len: "length device = ID_BYTES" "length path = LMS_PATH_BYTES"
    and req: "sealRequest W (enrollPathRequest device version q path) = Inr request" and q: "q < 1024"
  shows "parse_path_record H request = Some ((device, version, q), path)"
    and "length request = PATH_RECORD_BYTES" and "take 4 request = GCS2" and "request ! 4 = OP_ENROLL_PATH"
proof -
  let ?body = "gcs_header OP_ENROLL_PATH @ device @ putU32 version @ putU32 q @ path"
  have body: "length ?body \<le> MAX_GCS_PACKET_BYTES" using len by simp
  have r: "request = ?body @ compute_tag H ?body"
    using req sealRequest_eq [OF W body] unfolding enrollPath_layout [OF len] by simp
  show l: "length request = PATH_RECORD_BYTES"
    unfolding r using same_hmac_length [OF W body] len by simp
  show t: "take 4 request = GCS2" and o: "request ! 4 = OP_ENROLL_PATH"
    unfolding r by (simp_all add: field_simps)
  have "verify_tag H request" unfolding r using W body by (rule verify_tag_sealed)
  moreover have "read_at 8 32 request = device" "getU32 (drop 40 request) = version"
    "getU32 (drop 44 request) = q" "read_at 48 320 request = path"
    unfolding r append_assoc using len by (simp_all add: field_simps)
  ultimately show "parse_path_record H request = Some ((device, version, q), path)"
    using l t o q by (simp add: parse_path_record_def not_le)
qed

lemma parse_get_path_request:
  assumes W: "wolf_sizes W" "same_hmac W H"
    and len: "length device = ID_BYTES" "length peer = ID_BYTES"
    and req: "sealRequest W (getPathRequest device peer version q) = Inr request" and q: "q < 1024"
  shows "parse_get_path H request = Some (device, peer, version, q)"
    and "length request = GET_PATH_BYTES" and "take 4 request = GCS2" and "request ! 4 = OP_GET_PATH"
proof -
  let ?body = "gcs_header OP_GET_PATH @ device @ peer @ putU32 version @ putU32 q"
  have body: "length ?body \<le> MAX_GCS_PACKET_BYTES" using len by simp
  have r: "request = ?body @ compute_tag H ?body"
    using req sealRequest_eq [OF W body] unfolding getPath_layout [OF len] by simp
  show l: "length request = GET_PATH_BYTES"
    unfolding r using same_hmac_length [OF W body] len by simp
  show t: "take 4 request = GCS2" and o: "request ! 4 = OP_GET_PATH"
    unfolding r by (simp_all add: field_simps)
  have "verify_tag H request" unfolding r using W body by (rule verify_tag_sealed)
  moreover have "read_at 8 32 request = device" "read_at 40 32 request = peer" "getU32 (drop 72 request) = version"
    "getU32 (drop 76 request) = q"
    unfolding r append_assoc using len by (simp_all add: field_simps)
  ultimately show "parse_get_path H request = Some (device, peer, version, q)"
    using l t o q by (simp add: parse_get_path_def not_le)
qed

section \<open>Responses\<close>

lemma seal_packet_eq: "length body \<le> MAX_GCS_PACKET_BYTES \<Longrightarrow> wolf_sizes W \<Longrightarrow> same_hmac W H \<Longrightarrow>
  seal_packet H (body @ zeros TAG_BYTES) = body @ compute_tag H body"
  using same_hmac_length [of W H body] by (simp add: seal_packet_def write_at_def)

lemma root_response_layout:
  assumes "wolf_sizes W" "same_hmac W H"
    and "length device = ID_BYTES" "length ident = 16" "length rootValue = HASH_BYTES"
  shows "build_root_response H device version (ident, rootValue, suiteId, status, expiry) =
    (let body = gcs_header OP_ROOT_RECORD @ device @ putU32 version @ ident @ rootValue @ putU32 suiteId @ [status] @
       zeros 3 @ putU64 expiry in body @ compute_tag H body)"
proof -
  have "build_root_response H device version (ident, rootValue, suiteId, status, expiry) =
      seal_packet H ((gcs_header OP_ROOT_RECORD @ device @ putU32 version @ ident @ rootValue @ putU32 suiteId @ [status] @
        zeros 3 @ putU64 expiry) @ zeros TAG_BYTES)"
    unfolding build_root_response_def Let_def write_at_start drop_zeros prod.case using assms(3-5)
    by (simp add: layout del: append_assoc) simp
  then show ?thesis using assms by (simp add: seal_packet_eq Let_def del: append_assoc append.simps)
qed

lemma path_response_layout:
  assumes "wolf_sizes W" "same_hmac W H"
    and "length device = ID_BYTES" "length path = LMS_PATH_BYTES"
  shows "build_path_response H device version q path =
    (let body = gcs_header OP_PATH_RECORD @ device @ putU32 version @ putU32 q @ path in body @ compute_tag H body)"
proof -
  have "build_path_response H device version q path =
      seal_packet H ((gcs_header OP_PATH_RECORD @ device @ putU32 version @ putU32 q @ path) @ zeros TAG_BYTES)"
    unfolding build_path_response_def Let_def write_at_start drop_zeros using assms(3,4)
    by (simp add: layout del: append_assoc) simp
  then show ?thesis using assms by (simp add: seal_packet_eq Let_def del: append_assoc append.simps)
qed

text \<open>A poll that observes the reply \<open>dg\<close> of the repository.\<close>

definition replies :: "GcsState \<Rightarrow> bytes \<Rightarrow> poll \<Rightarrow> bool" where
  "replies s dg p \<longleftrightarrow>
    parsePacket p = int (length dg) \<and> readLength p = int (length dg) \<and>
    length (readBuffer p) = MAX_GCS_PACKET_BYTES \<and> take (length dg) (readBuffer p) = dg \<and>
    remoteIP p = m_gcsIp s \<and> remotePort p = m_gcsPort s"

lemma replies_buffer: "replies s dg p \<Longrightarrow> \<exists>rest. readBuffer p = dg @ rest"
  by (metis append_take_drop_id replies_def)

lemma sealed_authentic:
  assumes "wolf_sizes W" "same_hmac W H" "length body \<le> MAX_GCS_PACKET_BYTES"
  shows "authenticResponse W ((body @ compute_tag H body) @ rest) (length body + HMAC_BYTES)"
  using assms same_hmac_length [OF assms]
  by (simp add: authenticResponse_tag same_hmac_def field_simps)


lemma root_response_answers:
  assumes W: "wolf_sizes W" "same_hmac W H"
    and len: "length device = ID_BYTES" "length ident = 16" "length rootValue = HASH_BYTES"
    and p: "replies s (build_root_response H device version (ident, rootValue, suiteId, status, expiry)) p"
  shows "answers W OP_ROOT_RECORD version ANY_Q s p" and "readLength p = int ROOT_RECORD_BYTES"
    and "read_at 8 ID_BYTES (readBuffer p) = device"
    and "parseRootRecord (readBuffer p) =
      \<lparr>p_ready = True, p_version = version, p_identifier = ident, p_root = rootValue, p_suiteId = suiteId,
       p_status = status, p_expiryUnix = expiry\<rparr>"
proof -
  let ?body = "gcs_header OP_ROOT_RECORD @ device @ putU32 version @ ident @ rootValue @ putU32 suiteId @ [status] @
    zeros 3 @ putU64 expiry"
  have bl: "length ?body = 108" using len by simp
  then have body: "length ?body \<le> MAX_GCS_PACKET_BYTES" by simp
  have resp: "build_root_response H device version (ident, rootValue, suiteId, status, expiry) = ?body @ compute_tag H ?body"
    using root_response_layout [OF W len] by (simp add: Let_def)
  obtain rest where buf: "readBuffer p = (?body @ compute_tag H ?body) @ rest"
    using replies_buffer [OF p] unfolding resp by blast
  have tl: "length (compute_tag H ?body) = HMAC_BYTES" using W body by (rule same_hmac_length)
  show rl: "readLength p = int ROOT_RECORD_BYTES"
    using p len tl unfolding replies_def resp by simp
  have ps: "parsePacket p = int ROOT_RECORD_BYTES"
    using p len tl unfolding replies_def resp by simp
  have "authenticResponse W (readBuffer p) (nat (readLength p))"
    using sealed_authentic [OF W body, of rest] unfolding buf rl bl by simp
  moreover have "take 4 (readBuffer p) = GCS2" "readBuffer p ! 4 = OP_ROOT_RECORD"
    "getU32 (drop 40 (readBuffer p)) = version"
    unfolding buf append_assoc using len by (simp_all add: field_simps)
  ultimately show "answers W OP_ROOT_RECORD version ANY_Q s p"
    using p rl ps by (simp add: answers_def replies_def classifyResponse_def)
  show "read_at 8 ID_BYTES (readBuffer p) = device"
    unfolding buf append_assoc using len by (simp add: field_simps)
  show "parseRootRecord (readBuffer p) =
      \<lparr>p_ready = True, p_version = version, p_identifier = ident, p_root = rootValue, p_suiteId = suiteId,
       p_status = status, p_expiryUnix = expiry\<rparr>"
    unfolding parseRootRecord_def buf append_assoc using len by (simp add: field_simps)
qed

lemma path_response_answers:
  assumes W: "wolf_sizes W" "same_hmac W H"
    and len: "length device = ID_BYTES" "length path = LMS_PATH_BYTES"
    and p: "replies s (build_path_response H device version q path) p"
  shows "answers W OP_PATH_RECORD version q s p" and "readLength p = int PATH_RECORD_BYTES"
    and "read_at 8 ID_BYTES (readBuffer p) = device" and "read_at 48 LMS_PATH_BYTES (readBuffer p) = path"
proof -
  let ?body = "gcs_header OP_PATH_RECORD @ device @ putU32 version @ putU32 q @ path"
  have bl: "length ?body = 368" using len by simp
  then have body: "length ?body \<le> MAX_GCS_PACKET_BYTES" by simp
  have resp: "build_path_response H device version q path = ?body @ compute_tag H ?body"
    using path_response_layout [OF W len] by (simp add: Let_def)
  obtain rest where buf: "readBuffer p = (?body @ compute_tag H ?body) @ rest"
    using replies_buffer [OF p] unfolding resp by blast
  have tl: "length (compute_tag H ?body) = HMAC_BYTES" using W body by (rule same_hmac_length)
  show rl: "readLength p = int PATH_RECORD_BYTES"
    using p len tl unfolding replies_def resp by simp
  have ps: "parsePacket p = int PATH_RECORD_BYTES"
    using p len tl unfolding replies_def resp by simp
  have "authenticResponse W (readBuffer p) (nat (readLength p))"
    using sealed_authentic [OF W body, of rest] unfolding buf rl bl by simp
  moreover have "take 4 (readBuffer p) = GCS2" "readBuffer p ! 4 = OP_PATH_RECORD"
    "getU32 (drop 40 (readBuffer p)) = version" "getU32 (drop 44 (readBuffer p)) = q"
    unfolding buf append_assoc using len by (simp_all add: field_simps)
  ultimately show "answers W OP_PATH_RECORD version q s p"
    using p rl ps by (simp add: answers_def replies_def classifyResponse_def)
  show "read_at 8 ID_BYTES (readBuffer p) = device" "read_at 48 LMS_PATH_BYTES (readBuffer p) = path"
    unfolding buf append_assoc using len by (simp_all add: field_simps)
qed

end
