(* ===== verification/MessageLayout.thy ===== *)
theory MessageLayout
  imports MemorySafety RepositoryExchange
begin

text \<open>
  What the builders put into the buffers: the messages M0 to M4, the two signed objects and
  the RESULT as concatenations of their fields, as \<open>docs/MESSAGE_LAYOUT.md\<close> gives them, and
  the exact conditions under which the receiving side accepts M0 and M1.
\<close>

section \<open>M0 and M1\<close>

lemma update_zeros: "i < n \<Longrightarrow> (zeros n)[i := v] = (zeros i @ [v]) @ zeros (n - i - 1)"
  using update_gap [of "[]" i n v] by simp

lemma two_bytes: "2 \<le> n \<Longrightarrow> (zeros n)[0 := a, Suc 0 := b] = [a, b] @ zeros (n - 2)"
  by (simp add: update_zeros zeros_0 layout del: append_assoc) (simp add: zeros_0 Suc_diff_Suc numeral_2_eq_2)

lemma buildM0_layout:
  assumes "config_arrays cfg" and "length nonceA = NONCE_BYTES"
  shows "buildM0 cfg nonceA =
    [PROTOCOL_VERSION, MSG_M0_REQ] @ deviceId cfg @ peerId cfg @ nonceA @ putU32 (suiteIdForMode (pathMode cfg))"
  unfolding buildM0_def Let_def using assms
  by (simp add: two_bytes layout config_arrays_def del: append_assoc append_Cons)

lemma buildM1_layout:
  assumes "config_arrays cfg" and "length nonceA = NONCE_BYTES" and "length nonceB = NONCE_BYTES"
  shows "buildM1 cfg nonceA nonceB =
    [PROTOCOL_VERSION, MSG_M1_CHAL] @ deviceId cfg @ peerId cfg @ nonceA @ nonceB @
      putU32 (suiteIdForMode (pathMode cfg))"
  unfolding buildM1_def Let_def using assms
  by (simp add: two_bytes layout config_arrays_def del: append_assoc append_Cons)

section \<open>Signed objects\<close>

lemma wrapSigned_layout:
  assumes "length mu = MU_A_BYTES"
  shows "wrapSigned mu MU_A_BYTES q =
    [PROTOCOL_VERSION, DOMAIN_LMOTS_SIGN] @ putU16 (of_nat MU_A_BYTES) @ mu @ putU32 q"
  unfolding wrapSigned_def Let_def using assms
  by (simp add: two_bytes layout del: append_assoc append_Cons)

lemma buildM2SignedInput_layout:
  assumes "config_arrays cfg" and "length sid = HASH_BYTES" and "length publicKey = MLKEM_PUBLIC_KEY_BYTES"
  shows "snd (buildM2SignedInput cfg sid version q publicKey) =
    [PROTOCOL_VERSION, DOMAIN_LMOTS_SIGN] @ putU16 (of_nat MU_A_BYTES) @
    ([PROTOCOL_VERSION, DOMAIN_INIT] @ sid @ idA cfg @ idB cfg @ putU32 version @ publicKey) @ putU32 q"
  unfolding buildM2SignedInput_def Let_def snd_conv using assms ids_length [OF assms(1)]
  by (simp add: two_bytes layout wrapSigned_layout del: append_assoc append_Cons)

lemma buildM3SignedInput_layout:
  assumes "config_arrays cfg" and "length sid = HASH_BYTES" and "length hashM2 = HASH_BYTES"
    and "length ciphertext = MLKEM_CIPHERTEXT_BYTES"
  shows "snd (buildM3SignedInput cfg sid hashM2 version q ciphertext) =
    [PROTOCOL_VERSION, DOMAIN_LMOTS_SIGN] @ putU16 (of_nat MU_B_BYTES) @
    ([PROTOCOL_VERSION, DOMAIN_RESP] @ sid @ hashM2 @ idA cfg @ idB cfg @ putU32 version @ ciphertext) @ putU32 q"
  unfolding buildM3SignedInput_def Let_def snd_conv using assms ids_length [OF assms(1)]
  by (simp add: two_bytes layout wrapSigned_layout del: append_assoc append_Cons)

section \<open>Fields of a received message\<close>

lemma read_field: "off + n \<le> length xs \<Longrightarrow> drop off xs = read_at off n xs @ drop (off + n) xs"
  by (metis append_take_drop_id drop_drop add.commute read_at_def)

lemma two_bytes_read: "2 \<le> length m \<Longrightarrow> m = [m ! 0, m ! 1] @ drop 2 m"
  by (cases m; cases "tl m") auto

lemma field_eq: "off + n \<le> length m \<Longrightarrow> length x = n \<Longrightarrow> constantTimeEqual (drop off m) x n \<longleftrightarrow> read_at off n m = x"
  by (simp add: constantTimeEqual_take read_at_def)

lemma field_eq': "off + n \<le> length m \<Longrightarrow> length x = n \<Longrightarrow> constantTimeEqual x (drop off m) n \<longleftrightarrow> x = read_at off n m"
  by (simp add: constantTimeEqual_take read_at_def)

lemma u32_field: "off + 4 \<le> length m \<Longrightarrow> getU32 (drop off m) = v \<longleftrightarrow> read_at off 4 m = putU32 v"
  using u32.put_get_drop [of off m] u32.put_inject by metis

lemma m0_fields:
  assumes "length m = M0_BYTES"
  shows "m = [m ! 0, m ! 1] @ read_at 2 32 m @ read_at 34 32 m @ read_at 66 16 m @ read_at 82 4 m"
  using assms two_bytes_read [of m] read_field [of 2 32 m] read_field [of 34 32 m] read_field [of 66 16 m]
    read_field [of 82 4 m] by simp

lemma m1_fields:
  assumes "length m = M1_BYTES"
  shows "m = [m ! 0, m ! 1] @ read_at 2 32 m @ read_at 34 32 m @ read_at 66 16 m @ read_at 82 16 m @ read_at 98 4 m"
  using assms two_bytes_read [of m] read_field [of 2 32 m] read_field [of 34 32 m] read_field [of 66 16 m]
    read_field [of 82 16 m] read_field [of 98 4 m] by simp

lemma validateM0_layout:
  assumes "config_arrays cfg" and "length m = M0_BYTES"
  shows "validateM0 cfg m (read_at 66 NONCE_BYTES m) \<longleftrightarrow>
    m = [PROTOCOL_VERSION, MSG_M0_REQ] @ peerId cfg @ deviceId cfg @ read_at 66 NONCE_BYTES m @
      putU32 (suiteIdForMode (pathMode cfg))" (is "?V \<longleftrightarrow> m = ?M")
proof -
  have "?V \<longleftrightarrow> m ! 0 = PROTOCOL_VERSION \<and> m ! 1 = MSG_M0_REQ \<and> read_at 2 32 m = peerId cfg \<and>
      read_at 34 32 m = deviceId cfg \<and> read_at 82 4 m = putU32 (suiteIdForMode (pathMode cfg))"
    using assms by (simp add: validateM0_def field_eq u32_field config_arrays_def)
  also have "\<dots> \<longleftrightarrow> [m ! 0, m ! 1] @ read_at 2 32 m @ read_at 34 32 m @ read_at 66 16 m @ read_at 82 4 m = ?M"
    using assms by (auto simp: config_arrays_def)
  finally show ?thesis unfolding m0_fields [OF assms(2), symmetric] .
qed

lemma validateM1_layout:
  assumes "config_arrays cfg" and "length m = M1_BYTES" and "length nonceA = NONCE_BYTES"
  shows "validateM1 cfg m nonceA = Some nonceB \<longleftrightarrow> length nonceB = NONCE_BYTES \<and>
    m = [PROTOCOL_VERSION, MSG_M1_CHAL] @ peerId cfg @ deviceId cfg @ nonceA @ nonceB @
      putU32 (suiteIdForMode (pathMode cfg))" (is "?V \<longleftrightarrow> _ \<and> m = ?M")
proof -
  have "?V \<longleftrightarrow> m ! 0 = PROTOCOL_VERSION \<and> m ! 1 = MSG_M1_CHAL \<and> read_at 2 32 m = peerId cfg \<and>
      read_at 34 32 m = deviceId cfg \<and> read_at 66 16 m = nonceA \<and>
      read_at 98 4 m = putU32 (suiteIdForMode (pathMode cfg)) \<and> read_at 82 16 m = nonceB"
    using assms by (auto simp: validateM1_def field_eq u32_field config_arrays_def)
  also have "\<dots> \<longleftrightarrow> length nonceB = NONCE_BYTES \<and>
      [m ! 0, m ! 1] @ read_at 2 32 m @ read_at 34 32 m @ read_at 66 16 m @ read_at 82 16 m @ read_at 98 4 m = ?M"
    using assms by (auto simp: config_arrays_def)
  finally show ?thesis unfolding m1_fields [OF assms(2), symmetric] .
qed

text \<open>Configurations of the two ends of one link.\<close>

definition paired :: "NodeConfig \<Rightarrow> NodeConfig \<Rightarrow> bool" where
  "paired a b \<longleftrightarrow> config_arrays a \<and> config_arrays b \<and> role a = Initiator \<and> role b = Responder \<and>
    deviceId a = peerId b \<and> peerId a = deviceId b \<and> pathMode a = pathMode b"

lemma paired_ids: "paired a b \<Longrightarrow> idA b = idA a \<and> idB b = idB a"
  by (simp add: paired_def idA_def idB_def)

end
