(* ===== verification/InitiatorTheorems.thy ===== *)
theory InitiatorTheorems
  imports MessageLayout
begin

text \<open>
  What the initiator has checked when it accepts. A stage establishes facts about the fields
  it sets or tests; since no later stage changes those fields, the facts hold at the end.
\<close>

section \<open>Facts established by a stage of a run\<close>

lemma run_at:
  assumes "runStages fs c0 = (Some True, c)" and "i < length fs"
  shows "\<exists>c1 c2. runStages (take i fs) c0 = (Some True, c1) \<and> (fs ! i) c1 = (Some True, c2) \<and>
    runStages (drop (Suc i) fs) c2 = (Some True, c)"
proof -
  have "runStages (take i fs @ fs ! i # drop (Suc i) fs) c0 = (Some True, c)"
    using assms id_take_nth_drop [of i fs] by simp
  then show ?thesis by (auto simp: runStages_append andThen_True)
qed

lemma established:
  assumes "runStages fs c0 = (Some True, c)" and "list_all keeps_arrays fs" and "session_arrays c0"
    and "i < length fs" and "list_all (spares view) (drop (Suc i) fs)"
  obtains c1 c2 where "session_arrays c1" and "(fs ! i) c1 = (Some True, c2)" and "view c = view c2"
proof -
  from run_at [OF assms(1,4)] obtain c1 c2 where c1: "runStages (take i fs) c0 = (Some True, c1)"
    and c2: "(fs ! i) c1 = (Some True, c2)" and rest: "runStages (drop (Suc i) fs) c2 = (Some True, c)" by blast
  have "session_arrays c1" using keeps_arrays_run [OF assms(2,3), of i] c1 by simp
  moreover have "view c = view c2" by (rule spares_result [OF spares_run [OF assms(5)] rest])
  ultimately show ?thesis using that c2 by blast
qed

section \<open>The initiator\<close>

text \<open>The stages up to the check of B's confirmation tag.\<close>

definition checkedStages :: "wolf \<Rightarrow> env \<Rightarrow> session stage list" where
  "checkedStages W e =
    [initiatorStart e, sendM0 e, receiveM1 e,
     timedSid0 W e, kemInit W, makeKemKey W e,
     reserveQA e, timedRuntimeSeed W e,
     fillM2, signM2 W e, attachPathA, timedHashM2 W e, sendM2 e,
     receiveM3 e, parseM3, checkPeerB e, obtainPathB W e, verifyM3 W e, decapsulate W e,
     \<lambda>c. timedTranscriptHash W e (m3Inner c) c, timedSessionKeys W e, timedTagB W e, checkTauB]"

lemma initiatorStages_split: "initiatorStages W e = checkedStages W e @ [timedTagA W e, sendM4 e, receiveResult e]"
  by (simp add: initiatorStages_def checkedStages_def)

text \<open>
  What the initiator knows about the messages \<open>m0\<close> to \<open>m3\<close> after that check, for its own nonce
  and some session identifier, digest of M2, path, shared secret, transcript hash and keys: M0 is
  its own greeting, M1 is the answer to its nonce, byte by byte, and M3 passed every check.
\<close>

definition initiator_checked ::
  "wolf \<Rightarrow> int \<Rightarrow> bytes \<Rightarrow> NodeConfig \<Rightarrow> PeerPublicRecord \<Rightarrow> bytes \<Rightarrow> bytes \<Rightarrow> bytes \<Rightarrow> bytes \<Rightarrow> bytes \<Rightarrow> bytes \<Rightarrow> bytes \<Rightarrow>
   bytes \<Rightarrow> bytes \<Rightarrow> bytes \<Rightarrow> bytes \<Rightarrow> bytes \<Rightarrow> bool" where
  "initiator_checked W now nonceA cfg peer m0 m1 m2 m3 sid hashM2 path secret th key keyA keyB \<longleftrightarrow>
    (let inner = drop 36 m3;
         innerBytes = m3InnerBytesForMode (pathMode cfg);
         version = getU32 (drop 34 inner);
         q = getU32 (drop 38 inner);
         ciphertext = read_at 42 MLKEM_CIPHERTEXT_BYTES inner;
         suite = putU32 (suiteIdForMode (pathMode cfg));
         nonceB = read_at 82 NONCE_BYTES m1
     in m0 = [PROTOCOL_VERSION, MSG_M0_REQ] @ deviceId cfg @ peerId cfg @ nonceA @ suite \<and>
        length m1 = M1_BYTES \<and>
        m1 = [PROTOCOL_VERSION, MSG_M1_CHAL] @ peerId cfg @ deviceId cfg @ nonceA @ nonceB @ suite \<and>
        computeSid0 W m0 m1 = Inr sid \<and>
        sha256 W (take (m2BytesForMode (pathMode cfg)) m2) = Inr hashM2 \<and>
        take 34 m3 = [PROTOCOL_VERSION, MSG_M3_RESP_FIN] @ sid \<and> unat (getU16 (drop 34 m3)) = innerBytes \<and>
        take 34 inner = [PROTOCOL_VERSION, MSG_M3_INNER] @ sid \<and>
        q < 1024 \<and> version = p_version peer \<and> p_ready peer \<and> version = peerCredentialVersion cfg \<and>
        p_suiteId peer = suiteIdForMode (pathMode cfg) \<and> p_status peer = CREDENTIAL_STATUS_ACTIVE \<and>
        (p_expiryUnix peer = 0 \<or> 1700000000 \<le> now \<and> of_int now \<le> p_expiryUnix peer) \<and>
        (pathMode cfg = SignerCarried \<longrightarrow> path = read_at M3_INNER_BASE_BYTES LMS_PATH_BYTES inner) \<and>
        verify W q
          ([PROTOCOL_VERSION, DOMAIN_LMOTS_SIGN] @ putU16 (of_nat MU_B_BYTES) @
           ([PROTOCOL_VERSION, DOMAIN_RESP] @ sid @ hashM2 @ idA cfg @ idB cfg @ putU32 version @ ciphertext) @ putU32 q)
          (drop 810 inner) (p_identifier peer) path (p_root peer) \<and>
        transcriptHash W sid m0 m1 (take (m2BytesForMode (pathMode cfg)) m2) (read_at 36 innerBytes m3) = Some th \<and>
        deriveSessionKeys W secret th = Inr (key, keyA, keyB) \<and>
        computeConfirmationTag W DOMAIN_B_CONFIRM keyB th = Inr (read_at (36 + innerBytes) HMAC_BYTES m3))"

lemma initiator_checked_keys:
  assumes "initiator_checked W now nonceA cfg peer m0 m1 m2 m3 sid hashM2 path secret th key keyA keyB"
  shows "computeSid0 W m0 m1 = Inr sid"
    and "transcriptHash W sid m0 m1 (take (m2BytesForMode (pathMode cfg)) m2)
      (read_at 36 (m3InnerBytesForMode (pathMode cfg)) m3) = Some th"
    and "deriveSessionKeys W secret th = Inr (key, keyA, keyB)"
  using assms unfolding initiator_checked_def Let_def by blast+

lemma validatePeerRecord_iff:
  "validatePeerRecord now version n \<longleftrightarrow>
    p_ready (m_peerRecord n) \<and> version = p_version (m_peerRecord n) \<and> version = peerCredentialVersion (config n) \<and>
    p_suiteId (m_peerRecord n) = suiteIdForMode (pathMode (config n)) \<and>
    p_status (m_peerRecord n) = CREDENTIAL_STATUS_ACTIVE \<and>
    (p_expiryUnix (m_peerRecord n) = 0 \<or> 1700000000 \<le> now \<and> of_int now \<le> p_expiryUnix (m_peerRecord n))"
  by (auto simp: validatePeerRecord_def Let_def)

lemma checked_spares:
  "list_all (spares (\<lambda>c. (config c, m_peerRecord c))) (checkedStages W e)"
  "list_all (spares (\<lambda>c. (m_m0 c, m_m1 c, l_sid c))) (drop 4 (checkedStages W e))"
  "list_all (spares (\<lambda>c. (config c, m_m2 c, l_hashM2 c))) (drop 12 (checkedStages W e))"
  "list_all (spares (\<lambda>c. (config c, m_m3 c, l_sid c, l_qB c))) (drop 15 (checkedStages W e))"
  "list_all (spares (\<lambda>c. (config c, m_m3 c, l_qB c, m_peerRecord c))) (drop 16 (checkedStages W e))"
  "list_all (spares (\<lambda>c. (config c, m_m3 c, l_peerPath c))) (drop 17 (checkedStages W e))"
  "list_all (spares (\<lambda>c. (config c, m_m3 c, l_sid c, l_hashM2 c, l_qB c, l_peerPath c, m_peerRecord c)))
    (drop 18 (checkedStages W e))"
  "list_all (spares (\<lambda>c. (config c, l_sid c, m_m0 c, m_m1 c, m_m2 c, m_m3 c, l_transcriptHash c))) (drop 20 (checkedStages W e))"
  "list_all (spares (\<lambda>c. (l_sharedSecret c, l_transcriptHash c, l_sessionKey c, l_confirmA c, l_confirmB c)))
    (drop 21 (checkedStages W e))"
  "list_all (spares (\<lambda>c. (l_confirmB c, l_transcriptHash c, l_tauB c))) (drop 22 (checkedStages W e))"
  "list_all (spares (\<lambda>c. (config c, m_m0 c, l_nonceA c))) (drop 1 (checkedStages W e))"
  "list_all (spares (\<lambda>c. (config c, m_m1 c, l_nonceA c))) (drop 3 (checkedStages W e))"
  by (simp_all add: checkedStages_def) (intro conjI, (rule spares_touches, rule effects, simp)+)+

lemma header_eq: "length m \<ge> n + 2 \<Longrightarrow> length x = n \<Longrightarrow>
   take (n + 2) m = [a, b] @ x \<longleftrightarrow> m ! 0 = a \<and> m ! 1 = b \<and> constantTimeEqual (drop 2 m) x n"
  by (cases m; cases "tl m") (auto simp: constantTimeEqual_take)

lemma parseM3_checks:
  assumes "session_arrays c" and "parseM3 c = (Some True, c')"
  shows "take 34 (m_m3 c') = [PROTOCOL_VERSION, MSG_M3_RESP_FIN] @ l_sid c' \<and>
    unat (getU16 (drop 34 (m_m3 c'))) = m3InnerBytesForMode (pathMode (config c')) \<and>
    take 34 (drop 36 (m_m3 c')) = [PROTOCOL_VERSION, MSG_M3_INNER] @ l_sid c' \<and>
    l_qB c' = getU32 (drop 38 (drop 36 (m_m3 c')))"
  using assms header_eq [of 32 "m_m3 c" "l_sid c"] header_eq [of 32 "drop 36 (m_m3 c)" "l_sid c"]
  by (auto simp: parseM3_def arrays_defs Let_def split: if_splits)

lemma verifyM3_checks:
  assumes "session_arrays c" and "verifyM3 W e c = (Some True, c')"
  shows "verify W (l_qB c')
    ([PROTOCOL_VERSION, DOMAIN_LMOTS_SIGN] @ putU16 (of_nat MU_B_BYTES) @
      ([PROTOCOL_VERSION, DOMAIN_RESP] @ l_sid c' @ l_hashM2 c' @ idA (config c') @ idB (config c') @
        putU32 (getU32 (drop 34 (drop 36 (m_m3 c')))) @ read_at 42 MLKEM_CIPHERTEXT_BYTES (drop 36 (m_m3 c'))) @
      putU32 (l_qB c'))
    (drop 810 (drop 36 (m_m3 c'))) (p_identifier (m_peerRecord c')) (l_peerPath c') (p_root (m_peerRecord c'))"
  using assms buildM3SignedInput_layout [of "config c" "l_sid c" "l_hashM2 c"]
  by (simp add: verifyM3_def addVerify_def arrays_defs Let_def split_beta) auto

text \<open>M0 is built for the own nonce, and M1 is accepted only as the answer to it.\<close>

lemma initiatorStart_builds:
  assumes "session_arrays c" and "length (e_nonce e) = NONCE_BYTES" and "initiatorStart e c = (Some True, c')"
  shows "l_nonceA c' = e_nonce e \<and> m_m0 c' = [PROTOCOL_VERSION, MSG_M0_REQ] @ deviceId (config c') @ peerId (config c') @
    e_nonce e @ putU32 (suiteIdForMode (pathMode (config c')))"
  using assms buildM0_layout [of "config c" "e_nonce e"]
  by (auto simp: initiatorStart_def clearMessages_def arrays_defs Let_def)

lemma receiveM1_checks:
  assumes "session_arrays c" and "sized W e" and "receiveM1 e c = (Some True, c')"
  shows "length (m_m1 c') = M1_BYTES \<and> m_m1 c' = [PROTOCOL_VERSION, MSG_M1_CHAL] @ peerId (config c') @ deviceId (config c') @
    l_nonceA c' @ read_at 82 NONCE_BYTES (m_m1 c') @ putU32 (suiteIdForMode (pathMode (config c')))"
proof -
  have c': "session_arrays c'"
    using receiveM1_kept [OF assms(2)] assms(1,3) unfolding keeps_arrays_def by (metis snd_conv)
  have "validateM1 (config c') (m_m1 c') (l_nonceA c') = Some (l_nonceB c')"
    using assms(3) by (auto simp: receiveM1_def receiveProtocolMessage_def Let_def split: prod.splits option.splits if_splits)
  then have m: "m_m1 c' = [PROTOCOL_VERSION, MSG_M1_CHAL] @ peerId (config c') @ deviceId (config c') @
      l_nonceA c' @ l_nonceB c' @ putU32 (suiteIdForMode (pathMode (config c')))"
    using validateM1_layout [of "config c'" "m_m1 c'" "l_nonceA c'" "l_nonceB c'"] c' by (simp add: arrays_defs)
  have "read_at 82 16 (m_m1 c') = l_nonceB c'"
    using c' by (subst m) (simp add: read_at_def arrays_defs config_arrays_def)
  then show ?thesis using m c' by (simp add: arrays_defs)
qed

lemma timedSid0_checks:
  "timedSid0 W e c = (Some True, c') \<Longrightarrow> computeSid0 W (m_m0 c') (m_m1 c') = Inr (l_sid c')"
  by (auto simp: timedSid0_def addSha_def Let_def split: sum.splits)

lemma timedHashM2_checks:
  "timedHashM2 W e c = (Some True, c') \<Longrightarrow>
   sha256 W (take (m2BytesForMode (pathMode (config c'))) (m_m2 c')) = Inr (l_hashM2 c')"
  by (auto simp: timedHashM2_def addSha_def Let_def split: sum.splits)

lemma checkPeerB_checks:
  "checkPeerB e c = (Some True, c') \<Longrightarrow>
   l_qB c' < 1024 \<and> validatePeerRecord (e_now e) (getU32 (drop 34 (drop 36 (m_m3 c')))) c'"
  by (auto simp: checkPeerB_def guard_True Let_def not_le)

lemma obtainPathB_checks:
  "obtainPathB W e c = (Some True, c') \<Longrightarrow> pathMode (config c') = SignerCarried \<Longrightarrow>
   l_peerPath c' = read_at M3_INNER_BASE_BYTES LMS_PATH_BYTES (drop 36 (m_m3 c'))"
  by (auto simp: obtainPathB_def obtainPeerPath_def read_at_def Let_def split: if_splits option.splits)

lemma timedTranscriptHash_checks:
  "timedTranscriptHash W e (m3Inner c) c = (Some True, c') \<Longrightarrow>
   transcriptHash W (l_sid c') (m_m0 c') (m_m1 c') (take (m2BytesForMode (pathMode (config c'))) (m_m2 c'))
     (read_at 36 (m3InnerBytesForMode (pathMode (config c'))) (m_m3 c')) = Some (l_transcriptHash c')"
  by (auto simp: timedTranscriptHash_def m3Inner_def addSha_def Let_def split: option.splits)

lemma timedSessionKeys_checks:
  "timedSessionKeys W e c = (Some True, c') \<Longrightarrow>
   deriveSessionKeys W (l_sharedSecret c') (l_transcriptHash c') = Inr (l_sessionKey c', l_confirmA c', l_confirmB c')"
  by (auto simp: timedSessionKeys_def addHmac_def Let_def split: sum.splits)

lemma timedTag_checks:
  "timedTagB W e c = (Some True, c') \<Longrightarrow>
   computeConfirmationTag W DOMAIN_B_CONFIRM (l_confirmB c') (l_transcriptHash c') = Inr (l_tauB c')"
  "timedTagA W e c = (Some True, c') \<Longrightarrow>
   computeConfirmationTag W DOMAIN_A_CONFIRM (l_confirmA c') (l_transcriptHash c') = Inr (l_tauA c')"
  by (auto simp: timedTagB_def timedTagA_def addHmac_def Let_def split: sum.splits)

lemma checkTauB_checks:
  "session_arrays c \<Longrightarrow> checkTauB c = (Some True, c') \<Longrightarrow>
   l_tauB c' = read_at (36 + m3InnerBytesForMode (pathMode (config c'))) HMAC_BYTES (m_m3 c')"
  by (auto simp: checkTauB_def guard_True field_eq' arrays_defs m3InnerBytesForMode_def split: if_splits)

lemma checked_nth:
  "checkedStages W e ! 0 = initiatorStart e" "checkedStages W e ! 2 = receiveM1 e"
  "checkedStages W e ! 3 = timedSid0 W e" "checkedStages W e ! 11 = timedHashM2 W e" "checkedStages W e ! 14 = parseM3"
  "checkedStages W e ! 15 = checkPeerB e" "checkedStages W e ! 16 = obtainPathB W e" "checkedStages W e ! 17 = verifyM3 W e"
  "checkedStages W e ! 19 = (\<lambda>c. timedTranscriptHash W e (m3Inner c) c)" "checkedStages W e ! 20 = timedSessionKeys W e"
  "checkedStages W e ! 21 = timedTagB W e" "checkedStages W e ! 22 = checkTauB"
  by (simp_all add: checkedStages_def)

lemma checked_at:
  assumes "runStages (checkedStages W e) (enterSession n) = (Some True, c)" and "sized W e" and "node_arrays n"
    and "i < 23" and "list_all (spares view) (drop (Suc i) (checkedStages W e))"
  obtains c1 c2 where "session_arrays c1" and "(checkedStages W e ! i) c1 = (Some True, c2)" and "view c = view c2"
proof -
  have "list_all keeps_arrays (checkedStages W e)"
    using initiator_keeps_arrays [OF assms(2)] by (simp add: initiatorStages_split)
  moreover have "i < length (checkedStages W e)" using assms(4) by (simp add: checkedStages_def)
  ultimately show ?thesis
    using established [OF assms(1) _ _ _ assms(5)] assms(3) that by (auto simp: enterSession_arrays)
qed

lemma checked_facts:
  assumes run: "runStages (checkedStages W e) (enterSession n) = (Some True, c)" and S: "sized W e" and A: "node_arrays n"
  shows "initiator_checked W (e_now e) (e_nonce e) (config c) (m_peerRecord c) (m_m0 c) (m_m1 c) (m_m2 c) (m_m3 c) (l_sid c)
    (l_hashM2 c) (l_peerPath c) (l_sharedSecret c) (l_transcriptHash c) (l_sessionKey c) (l_confirmA c) (l_confirmB c)"
    and "config c = config n" and "m_peerRecord c = m_peerRecord n" and "session_arrays c"
proof -
  note at = checked_at [OF run S A]
  show keep: "config c = config n" "m_peerRecord c = m_peerRecord n"
    using spares_result [OF spares_run [OF checked_spares(1)] run] by (simp_all add: enterSession_def node.defs)
  have "list_all keeps_arrays (checkedStages W e)"
    using initiator_keeps_arrays [OF S] by (simp add: initiatorStages_split)
  from keeps_arrays_run [OF this, of "enterSession n" "length (checkedStages W e)"]
  show arrays: "session_arrays c" using run A by (simp add: enterSession_arrays)
  have greeted: "l_nonceA c = e_nonce e \<and> m_m0 c = [PROTOCOL_VERSION, MSG_M0_REQ] @ deviceId (config c) @ peerId (config c) @
      e_nonce e @ putU32 (suiteIdForMode (pathMode (config c)))"
    by (rule at [of 0], simp, use checked_spares(11) in simp)
      (use S in \<open>auto simp: checked_nth sized_def env_arrays_def dest!: initiatorStart_builds\<close>)
  have challenged: "length (m_m1 c) = M1_BYTES \<and> m_m1 c = [PROTOCOL_VERSION, MSG_M1_CHAL] @ peerId (config c) @ deviceId (config c) @
      l_nonceA c @ read_at 82 NONCE_BYTES (m_m1 c) @ putU32 (suiteIdForMode (pathMode (config c)))"
  proof (rule at [of 2])
    fix c1 c2 assume c1: "session_arrays c1" "(checkedStages W e ! 2) c1 = (Some True, c2)"
      "(config c, m_m1 c, l_nonceA c) = (config c2, m_m1 c2, l_nonceA c2)"
    from receiveM1_checks [OF c1(1) S c1(2) [unfolded checked_nth]] c1(3) show ?thesis by simp
  qed (simp, use checked_spares(12) in simp)
  have sid: "computeSid0 W (m_m0 c) (m_m1 c) = Inr (l_sid c)"
    by (rule at [of 3], simp, use checked_spares(2) in simp)
      (auto simp: checked_nth dest: timedSid0_checks)
  have hash: "sha256 W (take (m2BytesForMode (pathMode (config c))) (m_m2 c)) = Inr (l_hashM2 c)"
    by (rule at [of 11], simp, use checked_spares(3) in simp) (auto simp: checked_nth dest: timedHashM2_checks)
  have parsed: "take 34 (m_m3 c) = [PROTOCOL_VERSION, MSG_M3_RESP_FIN] @ l_sid c \<and>
    unat (getU16 (drop 34 (m_m3 c))) = m3InnerBytesForMode (pathMode (config c)) \<and>
    take 34 (drop 36 (m_m3 c)) = [PROTOCOL_VERSION, MSG_M3_INNER] @ l_sid c \<and>
    l_qB c = getU32 (drop 38 (drop 36 (m_m3 c)))"
    by (rule at [of 14], simp, use checked_spares(4) in simp) (auto simp: checked_nth dest!: parseM3_checks)
  have peer: "l_qB c < 1024 \<and> validatePeerRecord (e_now e) (getU32 (drop 34 (drop 36 (m_m3 c)))) c"
    by (rule at [of 15], simp, use checked_spares(5) in simp)
      (auto simp: checked_nth validatePeerRecord_iff dest!: checkPeerB_checks)
  have path: "pathMode (config c) = SignerCarried \<longrightarrow>
      l_peerPath c = read_at M3_INNER_BASE_BYTES LMS_PATH_BYTES (drop 36 (m_m3 c))"
    by (rule at [of 16], simp, use checked_spares(6) in simp) (auto simp: checked_nth dest!: obtainPathB_checks)
  have verified: "verify W (l_qB c)
    ([PROTOCOL_VERSION, DOMAIN_LMOTS_SIGN] @ putU16 (of_nat MU_B_BYTES) @
      ([PROTOCOL_VERSION, DOMAIN_RESP] @ l_sid c @ l_hashM2 c @ idA (config c) @ idB (config c) @
        putU32 (getU32 (drop 34 (drop 36 (m_m3 c)))) @ read_at 42 MLKEM_CIPHERTEXT_BYTES (drop 36 (m_m3 c))) @
      putU32 (l_qB c))
    (drop 810 (drop 36 (m_m3 c))) (p_identifier (m_peerRecord c)) (l_peerPath c) (p_root (m_peerRecord c))"
    by (rule at [of 17], simp, use checked_spares(7) in simp)
      (auto simp: checked_nth dest!: verifyM3_checks)
  have th: "transcriptHash W (l_sid c) (m_m0 c) (m_m1 c) (take (m2BytesForMode (pathMode (config c))) (m_m2 c))
     (read_at 36 (m3InnerBytesForMode (pathMode (config c))) (m_m3 c)) = Some (l_transcriptHash c)"
    by (rule at [of 19], simp, use checked_spares(8) in simp) (auto simp: checked_nth dest!: timedTranscriptHash_checks)
  have keys: "deriveSessionKeys W (l_sharedSecret c) (l_transcriptHash c) =
      Inr (l_sessionKey c, l_confirmA c, l_confirmB c)"
    by (rule at [of 20], simp, use checked_spares(9) in simp) (auto simp: checked_nth dest!: timedSessionKeys_checks)
  have tag: "computeConfirmationTag W DOMAIN_B_CONFIRM (l_confirmB c) (l_transcriptHash c) = Inr (l_tauB c)"
    by (rule at [of 21], simp, use checked_spares(10) in simp) (auto simp: checked_nth dest!: timedTag_checks(1))
  have tau: "l_tauB c = read_at (36 + m3InnerBytesForMode (pathMode (config c))) HMAC_BYTES (m_m3 c)"
    by (rule at [of 22 "\<lambda>c. (config c, l_tauB c, m_m3 c)"], simp, simp add: checkedStages_def)
      (auto simp: checked_nth dest!: checkTauB_checks)
  show "initiator_checked W (e_now e) (e_nonce e) (config c) (m_peerRecord c) (m_m0 c) (m_m1 c) (m_m2 c) (m_m3 c) (l_sid c)
    (l_hashM2 c) (l_peerPath c) (l_sharedSecret c) (l_transcriptHash c) (l_sessionKey c) (l_confirmA c) (l_confirmB c)"
    unfolding initiator_checked_def Let_def
  proof (intro conjI)
    show "m_m0 c = [PROTOCOL_VERSION, MSG_M0_REQ] @ deviceId (config c) @ peerId (config c) @ e_nonce e @
        putU32 (suiteIdForMode (pathMode (config c)))" using greeted by blast
    show "m_m1 c = [PROTOCOL_VERSION, MSG_M1_CHAL] @ peerId (config c) @ deviceId (config c) @ e_nonce e @
        read_at 82 NONCE_BYTES (m_m1 c) @ putU32 (suiteIdForMode (pathMode (config c)))" using greeted challenged by metis
  qed (use conjunct1 [OF challenged] sid hash parsed peer path verified th keys tag tau in \<open>auto simp: validatePeerRecord_iff\<close>)
qed

section \<open>Sessions that succeed and messages that leave\<close>

lemma tail_spares:
  "list_all (spares (\<lambda>c. (config c, m_peerRecord c, m_m0 c, m_m1 c, m_m2 c, m_m3 c, l_sid c, l_hashM2 c, l_peerPath c,
      l_sharedSecret c, l_transcriptHash c, l_sessionKey c, l_confirmA c, l_confirmB c)))
    [timedTagA W e, sendM4 e, receiveResult e]"
  by simp (intro conjI, (rule spares_touches, rule effects, simp)+)

lemma initiator_run_checked:
  assumes "runStages (initiatorStages W e) (enterSession n) = (Some True, c)"
  obtains c1 where "runStages (checkedStages W e) (enterSession n) = (Some True, c1)"
    and "runStages [timedTagA W e, sendM4 e, receiveResult e] c1 = (Some True, c)"
  using assms by (auto simp: initiatorStages_split runStages_append andThen_True)

text \<open>The fields of the object after the session are those before the cleanup.\<close>

lemma cleanup_fields [simp]:
  "m_m0 (sessionCleanup c) = m_m0 c" "m_m1 (sessionCleanup c) = m_m1 c" "m_m2 (sessionCleanup c) = m_m2 c"
  "m_m3 (sessionCleanup c) = m_m3 c" "m_m4 (sessionCleanup c) = m_m4 c" "config (sessionCleanup c) = config c"
  "m_peerRecord (sessionCleanup c) = m_peerRecord c" "wire (sessionCleanup c) = wire c" "m_lms (sessionCleanup c) = m_lms c"
  by (simp_all add: sessionCleanup_def wipeSessionSecrets_def freeKem_def Let_def)

lemma initiator_success:
  assumes "runInitiatorSession W e n = Some (True, n')"
  obtains c where "runStages (initiatorStages W e) (enterSession n) = (Some True, c)"
    and "n' = node.truncate (sessionCleanup c)"
  using assms by (auto simp: runInitiatorSession_def split: prod.splits option.splits)

lemma sendM4_writes:
  assumes "session_arrays c" and "sendM4 e c = (Some True, c')"
  shows "m_m4 c' = [PROTOCOL_VERSION, MSG_M4_INIT_FIN] @ l_sid c @ l_tauA c"
proof -
  have "m_m4 c' = write_at 34 (l_tauA c) (write_at 2 (l_sid c) ((m_m4 c)[0 := PROTOCOL_VERSION, 1 := MSG_M4_INIT_FIN]))"
    using assms(2) by (auto simp: sendM4_def sendProtocolMessage_def Let_def split: prod.splits if_splits)
  moreover obtain a b rest where "m_m4 c = a # b # rest" "length rest = 64"
    using assms(1) by (cases "m_m4 c"; cases "tl (m_m4 c)") (auto simp: arrays_defs)
  ultimately show ?thesis using assms(1) by (simp add: write_at_def arrays_defs)
qed

end
