(* ===== verification/ResponderTheorems.thy ===== *)
theory ResponderTheorems
  imports InitiatorTheorems
begin

text \<open>
  What the responder has checked when it answers with M3 and when it accepts, in the manner
  of \<open>InitiatorTheorems\<close>.
\<close>

text \<open>The stages up to the verification of A's signature, and those up to the end.\<close>

definition verifiedStages :: "wolf \<Rightarrow> env \<Rightarrow> u32 \<Rightarrow> u16 \<Rightarrow> session stage list" where
  "verifiedStages W e ip port =
    [receiveM0 e, answerM0 e, timedSid0 W e, sendM1 e ip port,
     receiveM2 e, parseM2, checkPeerA e, timedHashM2 W e, obtainPathA W e, verifyM2 W e]"

definition answerStages :: "wolf \<Rightarrow> env \<Rightarrow> u32 \<Rightarrow> u16 \<Rightarrow> session stage list" where
  "answerStages W e ip port =
    [kemInit W, encapsulate W e, reserveQB e, timedRuntimeSeed W e,
     fillM3Inner, signM3 W e, attachPathB,
     \<lambda>c. timedTranscriptHash W e (m3Inner c) c, timedSessionKeys W e, timedTagB W e, fillM3Outer, sendM3 e ip port,
     receiveM4 e, parseM4, timedTagA W e, checkTauA, acceptSession e ip port]"

lemma responderStages_split:
  "receiveM0 e # responderStages W e ip port = verifiedStages W e ip port @ answerStages W e ip port"
  by (simp add: responderStages_def verifiedStages_def answerStages_def)

text \<open>What the responder knows about M0, M1 and M2 before it commits to an answer.\<close>

definition m2_verified ::
  "wolf \<Rightarrow> int \<Rightarrow> NodeConfig \<Rightarrow> PeerPublicRecord \<Rightarrow> bytes \<Rightarrow> bytes \<Rightarrow> bytes \<Rightarrow> bytes \<Rightarrow> bytes \<Rightarrow> bytes \<Rightarrow> bytes \<Rightarrow> bytes \<Rightarrow> bool"
where
  "m2_verified W now cfg peer m0 m1 m2 nonceA nonceB sid hashM2 path \<longleftrightarrow>
    (let version = getU32 (drop 34 m2);
         q = getU32 (drop 38 m2);
         publicKey = read_at 42 MLKEM_PUBLIC_KEY_BYTES m2;
         suite = putU32 (suiteIdForMode (pathMode cfg))
     in m0 = [PROTOCOL_VERSION, MSG_M0_REQ] @ peerId cfg @ deviceId cfg @ nonceA @ suite \<and>
        m1 = [PROTOCOL_VERSION, MSG_M1_CHAL] @ deviceId cfg @ peerId cfg @ nonceA @ nonceB @ suite \<and>
        computeSid0 W m0 m1 = Inr sid \<and>
        take 34 m2 = [PROTOCOL_VERSION, MSG_M2_INIT] @ sid \<and>
        sha256 W (take (m2BytesForMode (pathMode cfg)) m2) = Inr hashM2 \<and>
        q < 1024 \<and> version = p_version peer \<and> p_ready peer \<and> version = peerCredentialVersion cfg \<and>
        p_suiteId peer = suiteIdForMode (pathMode cfg) \<and> p_status peer = CREDENTIAL_STATUS_ACTIVE \<and>
        (p_expiryUnix peer = 0 \<or> 1700000000 \<le> now \<and> of_int now \<le> p_expiryUnix peer) \<and>
        (pathMode cfg = SignerCarried \<longrightarrow> path = read_at M2_BASE_BYTES LMS_PATH_BYTES m2) \<and>
        verify W q
          ([PROTOCOL_VERSION, DOMAIN_LMOTS_SIGN] @ putU16 (of_nat MU_A_BYTES) @
           ([PROTOCOL_VERSION, DOMAIN_INIT] @ sid @ idA cfg @ idB cfg @ putU32 version @ publicKey) @ putU32 q)
          (drop 842 m2) (p_identifier peer) path (p_root peer))"

section \<open>What the stages establish\<close>

lemma answerM0_checks:
  assumes "sized W e" and "session_arrays c" and "answerM0 e c = (Some True, c')"
  shows "m_m0 c' = [PROTOCOL_VERSION, MSG_M0_REQ] @ peerId (config c') @ deviceId (config c') @ l_nonceA c' @
      putU32 (suiteIdForMode (pathMode (config c')))"
    and "m_m1 c' = [PROTOCOL_VERSION, MSG_M1_CHAL] @ deviceId (config c') @ peerId (config c') @ l_nonceA c' @ l_nonceB c' @
      putU32 (suiteIdForMode (pathMode (config c')))"
  using assms validateM0_layout [of "config c" "m_m0 c"] buildM1_layout [of "config c" "read_at 66 16 (m_m0 c)" "e_nonce e"]
  by (auto simp: answerM0_def Let_def arrays_defs sized_def env_arrays_def split: if_splits)

lemma parseM2_checks:
  assumes "session_arrays c" and "parseM2 c = (Some True, c')"
  shows "take 34 (m_m2 c') = [PROTOCOL_VERSION, MSG_M2_INIT] @ l_sid c' \<and> l_qA c' = getU32 (drop 38 (m_m2 c'))"
  using assms header_eq [of 32 "m_m2 c" "l_sid c"]
  by (auto simp: parseM2_def arrays_defs Let_def split: if_splits)

lemma checkPeerA_checks:
  "checkPeerA e c = (Some True, c') \<Longrightarrow>
   l_qA c' < 1024 \<and> validatePeerRecord (e_now e) (getU32 (drop 34 (m_m2 c'))) c'"
  by (auto simp: checkPeerA_def guard_True Let_def not_le)

lemma obtainPathA_checks:
  "obtainPathA W e c = (Some True, c') \<Longrightarrow> pathMode (config c') = SignerCarried \<Longrightarrow>
   l_peerPath c' = read_at M2_BASE_BYTES LMS_PATH_BYTES (m_m2 c')"
  by (auto simp: obtainPathA_def obtainPeerPath_def read_at_def Let_def split: if_splits option.splits)

lemma verifyM2_checks:
  assumes "session_arrays c" and "verifyM2 W e c = (Some True, c')"
  shows "verify W (l_qA c')
    ([PROTOCOL_VERSION, DOMAIN_LMOTS_SIGN] @ putU16 (of_nat MU_A_BYTES) @
      ([PROTOCOL_VERSION, DOMAIN_INIT] @ l_sid c' @ idA (config c') @ idB (config c') @
        putU32 (getU32 (drop 34 (m_m2 c'))) @ read_at 42 MLKEM_PUBLIC_KEY_BYTES (m_m2 c')) @
      putU32 (l_qA c'))
    (drop 842 (m_m2 c')) (p_identifier (m_peerRecord c')) (l_peerPath c') (p_root (m_peerRecord c'))"
  using assms buildM2SignedInput_layout [of "config c" "l_sid c"]
  by (simp add: verifyM2_def addVerify_def arrays_defs Let_def split_beta) auto

lemma verified_nth:
  "verifiedStages W e ip port ! Suc 0 = answerM0 e" "verifiedStages W e ip port ! 2 = timedSid0 W e"
  "verifiedStages W e ip port ! 5 = parseM2" "verifiedStages W e ip port ! 6 = checkPeerA e"
  "verifiedStages W e ip port ! 7 = timedHashM2 W e" "verifiedStages W e ip port ! 8 = obtainPathA W e"
  "verifiedStages W e ip port ! 9 = verifyM2 W e"
  by (simp_all add: verifiedStages_def)

lemma verified_spares:
  "list_all (spares (\<lambda>c. (config c, m_peerRecord c))) (verifiedStages W e ip port)"
  "list_all (spares (\<lambda>c. (config c, m_m0 c, m_m1 c, l_nonceA c, l_nonceB c))) (drop 2 (verifiedStages W e ip port))"
  "list_all (spares (\<lambda>c. (m_m0 c, m_m1 c, l_sid c))) (drop 3 (verifiedStages W e ip port))"
  "list_all (spares (\<lambda>c. (config c, m_m2 c, l_sid c, l_qA c))) (drop 6 (verifiedStages W e ip port))"
  "list_all (spares (\<lambda>c. (config c, m_m2 c, l_qA c, m_peerRecord c))) (drop 7 (verifiedStages W e ip port))"
  "list_all (spares (\<lambda>c. (config c, m_m2 c, l_hashM2 c))) (drop 8 (verifiedStages W e ip port))"
  "list_all (spares (\<lambda>c. (config c, m_m2 c, l_peerPath c))) (drop 9 (verifiedStages W e ip port))"
  "list_all (spares (\<lambda>c. (config c, m_m2 c, l_sid c, l_qA c, l_peerPath c, m_peerRecord c))) (drop 10 (verifiedStages W e ip port))"
  by (simp_all add: verifiedStages_def) (intro conjI, (rule spares_touches, rule effects, simp)+)+

lemma verified_at:
  assumes "runStages (verifiedStages W e ip port) (enterSession n) = (Some True, c)" and "sized W e" and "node_arrays n"
    and "i < 10" and "list_all (spares view) (drop (Suc i) (verifiedStages W e ip port))"
  obtains c1 c2 where "session_arrays c1" and "(verifiedStages W e ip port ! i) c1 = (Some True, c2)" and "view c = view c2"
proof -
  have "list_all keeps_arrays (verifiedStages W e ip port)"
    using responder_keeps_arrays [OF assms(2)] by (simp add: responderStages_split)
  moreover have "i < length (verifiedStages W e ip port)" using assms(4) by (simp add: verifiedStages_def)
  ultimately show ?thesis
    using established [OF assms(1) _ _ _ assms(5)] assms(3) that by (auto simp: enterSession_arrays)
qed

lemma verified_facts:
  assumes run: "runStages (verifiedStages W e ip port) (enterSession n) = (Some True, c)"
    and S: "sized W e" and A: "node_arrays n"
  shows "m2_verified W (e_now e) (config c) (m_peerRecord c) (m_m0 c) (m_m1 c) (m_m2 c) (l_nonceA c) (l_nonceB c)
      (l_sid c) (l_hashM2 c) (l_peerPath c)"
    and "config c = config n" and "m_peerRecord c = m_peerRecord n" and "session_arrays c"
proof -
  note at = verified_at [OF run S A]
  show keep: "config c = config n" "m_peerRecord c = m_peerRecord n"
    using spares_result [OF spares_run [OF verified_spares(1)] run] by (simp_all add: enterSession_def node.defs)
  have "list_all keeps_arrays (verifiedStages W e ip port)"
    using responder_keeps_arrays [OF S] by (simp add: responderStages_split)
  from keeps_arrays_run [OF this, of "enterSession n" "length (verifiedStages W e ip port)"]
  show arrays: "session_arrays c" using run A by (simp add: enterSession_arrays)
  obtain c1 c2 where c1: "session_arrays c1" "answerM0 e c1 = (Some True, c2)"
    "(config c, m_m0 c, m_m1 c, l_nonceA c, l_nonceB c) = (config c2, m_m0 c2, m_m1 c2, l_nonceA c2, l_nonceB c2)"
    by (rule at [of "Suc 0"], simp, rule verified_spares(2) [unfolded numeral_2_eq_2]) (simp add: verified_nth)
  have answered: "m_m0 c = [PROTOCOL_VERSION, MSG_M0_REQ] @ peerId (config c) @ deviceId (config c) @ l_nonceA c @
      putU32 (suiteIdForMode (pathMode (config c)))"
    "m_m1 c = [PROTOCOL_VERSION, MSG_M1_CHAL] @ deviceId (config c) @ peerId (config c) @ l_nonceA c @ l_nonceB c @
      putU32 (suiteIdForMode (pathMode (config c)))"
    using answerM0_checks [OF S c1(1,2)] c1(3) by simp_all
  have sid: "computeSid0 W (m_m0 c) (m_m1 c) = Inr (l_sid c)"
    by (rule at [of 2], simp, use verified_spares(3) in simp) (auto simp: verified_nth dest: timedSid0_checks)
  have parsed: "take 34 (m_m2 c) = [PROTOCOL_VERSION, MSG_M2_INIT] @ l_sid c \<and> l_qA c = getU32 (drop 38 (m_m2 c))"
    by (rule at [of 5], simp, use verified_spares(4) in simp) (auto simp: verified_nth dest!: parseM2_checks)
  have peer: "l_qA c < 1024 \<and> validatePeerRecord (e_now e) (getU32 (drop 34 (m_m2 c))) c"
    by (rule at [of 6], simp, use verified_spares(5) in simp)
      (auto simp: verified_nth validatePeerRecord_iff dest!: checkPeerA_checks)
  have hash: "sha256 W (take (m2BytesForMode (pathMode (config c))) (m_m2 c)) = Inr (l_hashM2 c)"
    by (rule at [of 7], simp, use verified_spares(6) in simp) (auto simp: verified_nth dest: timedHashM2_checks)
  have path: "pathMode (config c) = SignerCarried \<longrightarrow> l_peerPath c = read_at M2_BASE_BYTES LMS_PATH_BYTES (m_m2 c)"
    by (rule at [of 8], simp, use verified_spares(7) in simp) (auto simp: verified_nth dest!: obtainPathA_checks)
  have verified: "verify W (l_qA c)
    ([PROTOCOL_VERSION, DOMAIN_LMOTS_SIGN] @ putU16 (of_nat MU_A_BYTES) @
      ([PROTOCOL_VERSION, DOMAIN_INIT] @ l_sid c @ idA (config c) @ idB (config c) @
        putU32 (getU32 (drop 34 (m_m2 c))) @ read_at 42 MLKEM_PUBLIC_KEY_BYTES (m_m2 c)) @
      putU32 (l_qA c))
    (drop 842 (m_m2 c)) (p_identifier (m_peerRecord c)) (l_peerPath c) (p_root (m_peerRecord c))"
    by (rule at [of 9], simp, use verified_spares(8) in simp) (auto simp: verified_nth dest!: verifyM2_checks)
  show "m2_verified W (e_now e) (config c) (m_peerRecord c) (m_m0 c) (m_m1 c) (m_m2 c) (l_nonceA c) (l_nonceB c)
      (l_sid c) (l_hashM2 c) (l_peerPath c)"
    using sid hash parsed peer path verified answered
    unfolding m2_verified_def Let_def validatePeerRecord_iff by auto
qed

section \<open>The answer\<close>

definition keyStages :: "wolf \<Rightarrow> env \<Rightarrow> session stage list" where
  "keyStages W e =
    [kemInit W, encapsulate W e, reserveQB e, timedRuntimeSeed W e, fillM3Inner, signM3 W e, attachPathB,
     \<lambda>c. timedTranscriptHash W e (m3Inner c) c, timedSessionKeys W e, timedTagB W e]"

definition finishStages :: "wolf \<Rightarrow> env \<Rightarrow> u32 \<Rightarrow> u16 \<Rightarrow> session stage list" where
  "finishStages W e ip port = [sendM3 e ip port, receiveM4 e, parseM4, timedTagA W e, checkTauA]"

lemma answerStages_split:
  "answerStages W e ip port = keyStages W e @ fillM3Outer # finishStages W e ip port @ [acceptSession e ip port]"
  by (simp add: answerStages_def keyStages_def finishStages_def)

text \<open>The key material of the responder, bound to the four messages.\<close>

definition keys_bound ::
  "wolf \<Rightarrow> NodeConfig \<Rightarrow> bytes \<Rightarrow> bytes \<Rightarrow> bytes \<Rightarrow> bytes \<Rightarrow> bytes \<Rightarrow> bytes \<Rightarrow> bytes \<Rightarrow> bytes \<Rightarrow> bytes \<Rightarrow> bytes \<Rightarrow> bool"
where
  "keys_bound W cfg m0 m1 m2 m3 sid secret th key keyA keyB \<longleftrightarrow>
    (let innerBytes = m3InnerBytesForMode (pathMode cfg)
     in transcriptHash W sid m0 m1 (take (m2BytesForMode (pathMode cfg)) m2) (read_at 36 innerBytes m3) = Some th \<and>
        deriveSessionKeys W secret th = Inr (key, keyA, keyB) \<and>
        computeConfirmationTag W DOMAIN_B_CONFIRM keyB th = Inr (read_at (36 + innerBytes) HMAC_BYTES m3))"

lemma key_spares:
  "list_all (spares (\<lambda>c. (config c, m_peerRecord c, m_m0 c, m_m1 c, m_m2 c, l_nonceA c, l_nonceB c, l_sid c, l_hashM2 c,
      l_peerPath c))) (keyStages W e)"
  "list_all (spares (\<lambda>c. (config c, l_sid c, m_m0 c, m_m1 c, m_m2 c, m_m3 c, l_transcriptHash c))) (drop 8 (keyStages W e))"
  "list_all (spares (\<lambda>c. (l_sharedSecret c, l_transcriptHash c, l_sessionKey c, l_confirmA c, l_confirmB c)))
    (drop 9 (keyStages W e))"
  "list_all (spares (\<lambda>c. (l_confirmB c, l_transcriptHash c, l_tauB c))) (drop 10 (keyStages W e))"
  by (simp_all add: keyStages_def) (intro conjI, (rule spares_touches, rule effects, simp)+)+

lemma key_nth:
  "keyStages W e ! 7 = (\<lambda>c. timedTranscriptHash W e (m3Inner c) c)" "keyStages W e ! 8 = timedSessionKeys W e"
  "keyStages W e ! 9 = timedTagB W e"
  by (simp_all add: keyStages_def)

lemma key_arrays:
  assumes "sized W e"
  shows "list_all keeps_arrays (keyStages W e)" and "list_all keeps_arrays (finishStages W e ip port)"
    and "keeps_arrays fillM3Outer" and "keeps_arrays (acceptSession e ip port)"
  using responder_keeps_arrays [OF assms, of ip port] by (simp_all add: responderStages_split answerStages_split)

lemma key_facts:
  assumes run: "runStages (keyStages W e) c0 = (Some True, c)" and S: "sized W e" and A: "session_arrays c0"
  shows "transcriptHash W (l_sid c) (m_m0 c) (m_m1 c) (take (m2BytesForMode (pathMode (config c))) (m_m2 c))
      (read_at 36 (m3InnerBytesForMode (pathMode (config c))) (m_m3 c)) = Some (l_transcriptHash c)"
    and "deriveSessionKeys W (l_sharedSecret c) (l_transcriptHash c) = Inr (l_sessionKey c, l_confirmA c, l_confirmB c)"
    and "computeConfirmationTag W DOMAIN_B_CONFIRM (l_confirmB c) (l_transcriptHash c) = Inr (l_tauB c)"
    and "session_arrays c"
proof -
  note at = established [OF run key_arrays(1) [OF S] A]
  show "transcriptHash W (l_sid c) (m_m0 c) (m_m1 c) (take (m2BytesForMode (pathMode (config c))) (m_m2 c))
      (read_at 36 (m3InnerBytesForMode (pathMode (config c))) (m_m3 c)) = Some (l_transcriptHash c)"
    by (rule at [of 7], simp add: keyStages_def, use key_spares(2) in simp)
      (auto simp: key_nth dest!: timedTranscriptHash_checks)
  show "deriveSessionKeys W (l_sharedSecret c) (l_transcriptHash c) = Inr (l_sessionKey c, l_confirmA c, l_confirmB c)"
    by (rule at [of 8], simp add: keyStages_def, use key_spares(3) in simp) (auto simp: key_nth dest!: timedSessionKeys_checks)
  show "computeConfirmationTag W DOMAIN_B_CONFIRM (l_confirmB c) (l_transcriptHash c) = Inr (l_tauB c)"
    by (rule at [of 9], simp add: keyStages_def, use key_spares(4) in simp) (auto simp: key_nth dest!: timedTag_checks)
  show "session_arrays c"
    using keeps_arrays_run [OF key_arrays(1) [OF S] A, of "length (keyStages W e)"] run by simp
qed

text \<open>The outer fields of M3 go around the inner part.\<close>

lemma write_at_behind: "length xs \<le> off \<Longrightarrow> write_at off src (xs @ ys) = xs @ write_at (off - length xs) src ys"
  by (simp add: write_at_def)

lemma inner_bytes_cases: "m3InnerBytesForMode mode = 2990 \<or> m3InnerBytesForMode mode = 3310"
  by (simp add: m3InnerBytesForMode_def)

lemma fillM3Outer_layout:
  assumes "fillM3Outer c = (Some True, c')" and "session_arrays c"
  shows "c' = c\<lparr>m_m3 := m_m3 c'\<rparr>" and "m_m3 c' =
    ([PROTOCOL_VERSION, MSG_M3_RESP_FIN] @ l_sid c @ putU16 (of_nat (m3InnerBytesForMode (pathMode (config c))))) @
      write_at (m3InnerBytesForMode (pathMode (config c))) (l_tauB c) (drop 36 (m_m3 c))"
proof -
  let ?L = "m3InnerBytesForMode (pathMode (config c))"
  obtain a b rest where m: "m_m3 c = a # b # rest"
    using assms(2) by (cases "m_m3 c"; cases "tl (m_m3 c)") (auto simp: arrays_defs)
  have "m_m3 c' = write_at (36 + ?L) (l_tauB c) (write_at 34 (putU16 (of_nat ?L))
      (write_at 2 (l_sid c) ([PROTOCOL_VERSION, MSG_M3_RESP_FIN] @ rest)))"
    using assms(1) m by (auto simp: fillM3Outer_def Let_def)
  also have "\<dots> = write_at (36 + ?L) (l_tauB c)
      (([PROTOCOL_VERSION, MSG_M3_RESP_FIN] @ l_sid c @ putU16 (of_nat ?L)) @ drop 34 rest)"
    using assms(2) m by (simp add: write_at_def arrays_defs)
  finally show "m_m3 c' = ([PROTOCOL_VERSION, MSG_M3_RESP_FIN] @ l_sid c @ putU16 (of_nat ?L)) @
      write_at ?L (l_tauB c) (drop 36 (m_m3 c))"
    using assms(2) m by (subst (asm) write_at_behind) (simp_all add: arrays_defs)
  show "c' = c\<lparr>m_m3 := m_m3 c'\<rparr>" using assms(1) by (auto simp: fillM3Outer_def Let_def)
qed

lemma fillM3Outer_facts:
  assumes "fillM3Outer c = (Some True, c')" and "session_arrays c"
  shows "read_at 36 (m3InnerBytesForMode (pathMode (config c))) (m_m3 c') =
      read_at 36 (m3InnerBytesForMode (pathMode (config c))) (m_m3 c)"
    and "read_at (36 + m3InnerBytesForMode (pathMode (config c))) HMAC_BYTES (m_m3 c') = l_tauB c"
    and "take 34 (m_m3 c') = [PROTOCOL_VERSION, MSG_M3_RESP_FIN] @ l_sid c"
    and "unat (getU16 (drop 34 (m_m3 c'))) = m3InnerBytesForMode (pathMode (config c))"
  using assms(2) inner_bytes_cases [of "pathMode (config c)"] unfolding fillM3Outer_layout(2) [OF assms]
  by (auto simp: arrays_defs read_at_def write_at_def take_Cons' drop_Cons' unat_u16_small)

section \<open>The end\<close>

text \<open>What the responder has checked when it accepts.\<close>

definition m4_confirmed :: "wolf \<Rightarrow> bytes \<Rightarrow> bytes \<Rightarrow> bytes \<Rightarrow> bytes \<Rightarrow> bool" where
  "m4_confirmed W sid th keyA m4 \<longleftrightarrow>
    (\<exists>tauA. computeConfirmationTag W DOMAIN_A_CONFIRM keyA th = Inr tauA \<and>
      m4 = [PROTOCOL_VERSION, MSG_M4_INIT_FIN] @ sid @ tauA)"

lemma finish_spares:
  "list_all (spares (\<lambda>c. (config c, m_peerRecord c, m_m0 c, m_m1 c, m_m2 c, m_m3 c, l_nonceA c, l_nonceB c, l_sid c, l_hashM2 c,
      l_peerPath c, l_sharedSecret c, l_transcriptHash c, l_sessionKey c, l_confirmA c, l_confirmB c)))
    (finishStages W e ip port @ [acceptSession e ip port])"
  "list_all (spares (\<lambda>c. (m_m4 c, l_sid c))) (drop 3 (finishStages W e ip port))"
  "list_all (spares (\<lambda>c. (l_confirmA c, l_transcriptHash c, l_tauA c))) (drop 4 (finishStages W e ip port))"
  "list_all (spares (\<lambda>c. (m_m4 c, l_tauA c))) (drop 5 (finishStages W e ip port))"
  "list_all (spares (\<lambda>c. (m_m4 c, l_sid c, l_confirmA c, l_transcriptHash c))) [acceptSession e ip port]"
  by (simp_all add: finishStages_def) (intro conjI, (rule spares_touches, rule effects, simp)+)+

lemma finish_nth:
  "finishStages W e ip port ! 2 = parseM4" "finishStages W e ip port ! 3 = timedTagA W e"
  "finishStages W e ip port ! 4 = checkTauA"
  by (simp_all add: finishStages_def)

lemma parseM4_checks:
  "session_arrays c \<Longrightarrow> parseM4 c = (Some True, c') \<Longrightarrow> take 34 (m_m4 c') = [PROTOCOL_VERSION, MSG_M4_INIT_FIN] @ l_sid c'"
  using header_eq [of 32 "m_m4 c" "l_sid c"] by (auto simp: parseM4_def guard_True arrays_defs)

lemma checkTauA_checks:
  "session_arrays c \<Longrightarrow> checkTauA c = (Some True, c') \<Longrightarrow> drop 34 (m_m4 c') = l_tauA c'"
  by (auto simp: checkTauA_def guard_True constantTimeEqual_take arrays_defs)

lemma finish_facts:
  assumes run: "runStages (finishStages W e ip port) c0 = (Some True, c)" and S: "sized W e" and A: "session_arrays c0"
  shows "m4_confirmed W (l_sid c) (l_transcriptHash c) (l_confirmA c) (m_m4 c)"
proof -
  note at = established [OF run key_arrays(2) [OF S] A]
  have header: "take 34 (m_m4 c) = [PROTOCOL_VERSION, MSG_M4_INIT_FIN] @ l_sid c"
    by (rule at [of 2], simp add: finishStages_def, use finish_spares(2) in simp) (auto simp: finish_nth dest!: parseM4_checks)
  have tag: "computeConfirmationTag W DOMAIN_A_CONFIRM (l_confirmA c) (l_transcriptHash c) = Inr (l_tauA c)"
    by (rule at [of 3], simp add: finishStages_def, use finish_spares(3) in simp) (auto simp: finish_nth dest!: timedTag_checks)
  have tau: "drop 34 (m_m4 c) = l_tauA c"
    by (rule at [of 4], simp add: finishStages_def, use finish_spares(4) in simp) (auto simp: finish_nth dest!: checkTauA_checks)
  show ?thesis
    unfolding m4_confirmed_def using tag header tau append_take_drop_id [of 34 "m_m4 c"] by (intro exI [of _ "l_tauA c"]) simp
qed

text \<open>\<open>accepted\<close> is set by the last stage only.\<close>

lemma accepted_only_at_end:
  assumes "runStages (receiveM0 e # responderStages W e ip port) (enterSession n) = (r, c)" and "l_accepted c"
  shows "r = Some True"
proof -
  let ?init = "verifiedStages W e ip port @ keyStages W e @ fillM3Outer # finishStages W e ip port"
  have "list_all (spares l_accepted) ?init"
    by (simp add: verifiedStages_def keyStages_def finishStages_def)
      (intro conjI, (rule spares_touches, rule effects, simp)+)
  moreover obtain r1 c1 where init: "runStages ?init (enterSession n) = (r1, c1)" by fastforce
  ultimately have "\<not> l_accepted c1"
    using spares_result [OF spares_run] by (fastforce simp: enterSession_def node.defs session.defs)
  moreover have "andThen (runStages ?init) (runStages [acceptSession e ip port]) (enterSession n) = (r, c)"
    using assms(1) by (simp add: responderStages_split answerStages_split flip: runStages_append)
  moreover have "fst (acceptSession e ip port c1) = Some True"
    by (simp add: acceptSession_def Let_def split_beta)
  ultimately show ?thesis
    using assms(2) init by (auto simp: andThen_def split: prod.splits if_splits)
qed

end
