(* ===== verification/FragmentationProperties.thy ===== *)
theory FragmentationProperties
  imports FragmentationTheorems
begin

text \<open>
  The properties of \<open>FragmentedUdp\<close>, with a concrete two-fragment run for their examples,
  and the run that shows what the reassembler does not check.
\<close>

section \<open>A concrete run\<close>

definition perfect_net :: "nat \<Rightarrow> send_outcome" where
  "perfect_net i = \<lparr>beginPacketOk = True, written = 14 + min 1000 (1500 - i * 1000), endPacketOk = True\<rparr>"

definition sample_message :: bytes where
  "sample_message = replicate 1500 7"

definition sample_datagrams :: "bytes list" where
  "sample_datagrams = map (fragment 0x12 9 sample_message) [0, 1]"

text \<open>A poll at time \<open>t\<close> that observes \<open>dg\<close>; the rest of the buffer is stale.\<close>

definition poll_of :: "u32 \<Rightarrow> bytes \<Rightarrow> poll" where
  "poll_of t dg =
    \<lparr>pollMillis = t, parsePacket = int (length dg), readLength = int (length dg),
     readBuffer = take 1014 (dg @ replicate 1014 0xee), remoteIP = 0x0a000001, remotePort = 5000\<rparr>"

definition idle_poll :: "u32 \<Rightarrow> poll" where
  "idle_poll t =
    \<lparr>pollMillis = t, parsePacket = 0, readLength = 0, readBuffer = replicate 1014 0xee,
     remoteIP = 0, remotePort = 0\<rparr>"

text \<open>The second fragment first, the clock wrapping on the way, and a repetition.\<close>

definition sample_polls :: "poll list" where
  "sample_polls =
    [idle_poll 0xfffffff0, poll_of 0xfffffff8 (fragment 0x12 9 sample_message 1),
     poll_of 4 (fragment 0x12 9 sample_message 1), poll_of 6 (fragment 0x12 9 sample_message 0)]"

lemma fragment_length:
  assumes "i < fragment_count (length data)"
  shows "length (fragment type session data i) = FRAGMENT_HEADER_BYTES + payload_length (length data) i"
  using fragment_starts_inside [OF assms]
  by (simp add: fragment_def fragmentHeader_fields(1) [OF refl] payload_length_def)

lemma poll_of_delivers:
  "length dg \<le> 1014 \<Longrightarrow> delivers 0x0a000001 5000 dg (poll_of t dg)"
  by (simp add: delivers_def poll_of_def)

lemma pollMillis_poll_of [simp]: "pollMillis (poll_of t dg) = t"
  by (simp add: poll_of_def)

lemma idle_poll_quiet: "quiet et es (idle_poll t)"
  by (simp add: quiet_def idle_poll_def readOneDatagram_def)

lemma sample_fragment_length:
  "length (fragment 0x12 9 sample_message 0) = 1014" "length (fragment 0x12 9 sample_message 1) = 514"
  by (simp_all add: fragment_length sample_message_def payload_length_def del: replicate.simps)

lemma sample_count: "fragment_count (length sample_message) = 2"
  by (simp add: sample_message_def)

lemma sample_delivers:
  "i < 2 \<Longrightarrow> delivers 0x0a000001 5000 (fragment 0x12 9 sample_message i)
    (poll_of t (fragment 0x12 9 sample_message i))"
  using sample_fragment_length by (intro poll_of_delivers) (auto simp: less_2_cases_iff)

lemma sample_traffic: "traffic 0x12 9 0x12 9 sample_message 0x0a000001 5000 sample_polls"
proof -
  have "\<exists>j < fragment_count (length sample_message). delivers 0x0a000001 5000 (fragment 0x12 9 sample_message j)
      (poll_of t (fragment 0x12 9 sample_message i))" if "i < 2" for i t
    using sample_delivers [OF that] that unfolding sample_count by blast
  from this [of 0] this [of 1] show ?thesis
    unfolding traffic_def sample_polls_def by (simp add: idle_poll_quiet)
qed

lemma sample_buffers: "buffers_ok (set sample_polls)"
  using sample_fragment_length by (simp add: sample_polls_def poll_of_def idle_poll_def)

lemma sample_length: "length sample_message = 1500"
  by (simp add: sample_message_def)

lemma sample_sent:
  "sendMessage perfect_net 0x12 9 sample_message 1500 0 = (True, 1528, sample_datagrams)"
  by (simp add: sendMessage_def perfect_net_def sample_datagrams_def fragment_def payload_length_def
      Let_def upt_rec sample_length)

lemma sample_run:
  obtains r out'
  where "receiveMessage 0x12 9 (zeros 3378) 3378 8000 0xfffffff0 (sample_polls @ rest) = Some (Some r, out')"
proof -
  have "\<forall>i < fragment_count (length sample_message). \<exists>p \<in> set sample_polls.
      delivers 0x0a000001 5000 (fragment 0x12 9 sample_message i) p"
    unfolding sample_count using sample_delivers [of 0] sample_delivers [of 1]
    by (auto simp: less_2_cases_iff sample_polls_def)
  moreover have "\<forall>p \<in> set sample_polls. pollMillis p - 0xfffffff0 < 8000"
    by (simp add: sample_polls_def idle_poll_def poll_of_def)
  ultimately show ?thesis
    using reassembled [where out = "zeros 3378" and cap = 3378 and rest = rest
          and startMs = "0xfffffff0" and timeoutMs = 8000,
        OF _ _ _ _ _ sample_buffers sample_traffic] that
    by (auto simp: sample_length passes_def)
qed

section \<open>Properties\<close>

text \<open>C8: End to end: a message that \<open>sendMessage\<close> reported as sent is reassembled by
  \<open>receiveMessage\<close> when each of its datagrams is delivered at least once before the
  deadline, in any order and with any repetition, mixed with traffic the filter on type and
  session drops. The buffer then starts with exactly the message, its tail is untouched,
  and the reported type, session, length, source and framed bytes are the sender's.\<close>

theorem message_reassembled:
  assumes "sendMessage net type session data len framed0 = (True, framed, datagrams)"
    and "unat len = length data" and "length data \<le> unat capacity" and "unat capacity \<le> length out"
    and "passes expectedType expectedSession type session"
    and "\<forall>p \<in> set ps. length (readBuffer p) = FRAGMENT_HEADER_BYTES + FRAGMENT_PAYLOAD_BYTES"
    and "traffic expectedType expectedSession type session data src port ps"
    and "\<forall>p \<in> set ps. pollMillis p - startMs < timeoutMs"
    and "\<forall>dg \<in> set datagrams. \<exists>p \<in> set ps. delivers src port dg p"
  shows "\<exists>out'. receiveMessage expectedType expectedSession out capacity timeoutMs startMs (ps @ rest) =
      Some (Some \<lparr>r_type = type, r_session = session, r_length = len, r_sourceIp = src,
        r_sourcePort = port, r_framedBytes = framed\<rparr>, out') \<and>
      take (length data) out' = data \<and> drop (length data) out' = drop (length data) out"
proof -
  note sent = sendMessage_True [OF assms(1,2)]
  have len: "len = of_nat (length data)" by (simp flip: assms(2))
  show ?thesis
    using reassembled [OF _ _ assms(3-8), of rest] sent assms(9) unfolding len by fastforce
qed

theorem message_reassembled_witness:
  "\<exists>out'. receiveMessage 0x12 9 (zeros 3378) 3378 8000 0xfffffff0 (sample_polls @ []) =
      Some (Some \<lparr>r_type = 0x12, r_session = 9, r_length = 1500, r_sourceIp = 0x0a000001,
        r_sourcePort = 5000, r_framedBytes = 1528\<rparr>, out') \<and>
      take (length sample_message) out' = sample_message \<and>
      drop (length sample_message) out' = drop (length sample_message) (zeros 3378)"
proof (rule message_reassembled [OF sample_sent _ _ _ _ sample_buffers sample_traffic])
  show "\<forall>dg \<in> set sample_datagrams. \<exists>p \<in> set sample_polls. delivers 0x0a000001 5000 dg p"
    using sample_delivers [of 0] sample_delivers [of 1] by (simp add: sample_datagrams_def sample_polls_def)
qed (simp_all add: sample_length passes_def sample_polls_def idle_poll_def poll_of_def)

text \<open>C17: Whatever arrives, a successful \<open>receiveMessage\<close> is backed by datagrams: it
  returns a packet within the capacity that passes the filter, and for every fragment index
  below some count of at most 8 one of the observed datagrams has that index and count, the
  packet's type, session, length and source, and its payload stands at its place in the
  buffer. Bytes behind the reported length are untouched.\<close>

theorem received_message_backed:
  assumes "unat capacity \<le> length out"
    and "\<forall>p \<in> set polls. length (readBuffer p) = FRAGMENT_HEADER_BYTES + FRAGMENT_PAYLOAD_BYTES"
    and "receiveMessage expectedType expectedSession out capacity timeoutMs startMs polls = Some (Some r, out')"
  shows "r_length r \<le> capacity \<and> passes expectedType expectedSession (r_type r) (r_session r) \<and>
    drop (unat (r_length r)) out' = drop (unat (r_length r)) out \<and>
    (\<exists>count. 0 < count \<and> count \<le> MAX_FRAGMENTS \<and> (\<forall>i<count. carried (set polls) r count out' i))"
  using assms by (rule receive_evidence)

theorem received_message_backed_witness:
  "\<exists>r out'. receiveMessage 0x12 9 (zeros 3378) 3378 8000 0xfffffff0 (sample_polls @ []) = Some (Some r, out') \<and>
    (\<exists>count. 0 < count \<and> count \<le> MAX_FRAGMENTS \<and> (\<forall>i<count. carried (set (sample_polls @ [])) r count out' i))"
proof -
  obtain r out'
    where run: "receiveMessage 0x12 9 (zeros 3378) 3378 8000 0xfffffff0 (sample_polls @ []) = Some (Some r, out')"
    by (rule sample_run)
  from received_message_backed [OF _ _ run] sample_buffers run show ?thesis by auto
qed

text \<open>C19: Memory safety of the receiver: whatever datagrams arrive, on success and on timeout
  the caller's buffer keeps its size (no write runs past its end), as long as it is at
  least as large as the stated capacity.\<close>

theorem receive_in_bounds:
  assumes "unat capacity \<le> length out"
    and "\<forall>p \<in> set polls. length (readBuffer p) = FRAGMENT_HEADER_BYTES + FRAGMENT_PAYLOAD_BYTES"
    and "receiveMessage expectedType expectedSession out capacity timeoutMs startMs polls = Some (r, out')"
  shows "length out' = length out"
  using rx_inv_loop [OF assms(1,2) order_refl rx_inv_init assms(3) [unfolded receiveMessage_def]] by simp

theorem receive_in_bounds_witness:
  "\<exists>r out'. receiveMessage 0x12 9 (zeros 3378) 3378 8000 0xfffffff0 (sample_polls @ []) = Some (Some r, out') \<and>
    length out' = length (zeros 3378)"
proof -
  obtain r out'
    where run: "receiveMessage 0x12 9 (zeros 3378) 3378 8000 0xfffffff0 (sample_polls @ []) = Some (Some r, out')"
    by (rule sample_run)
  from receive_in_bounds [OF _ _ run] sample_buffers run show ?thesis by auto
qed

lemmas loop_returns = rx_wait.returns_late

text \<open>C20: The receive loop ends: once an iteration reads the clock \<open>elapsed\<close> milliseconds after the
  start, \<open>timeoutMs \<le> elapsed < 2^32\<close>, the call has returned, even if the 32-bit clock
  wrapped in between.\<close>

theorem receive_returns_after_deadline:
  assumes "p \<in> set polls" and "pollMillis p = startMs + of_nat elapsed"
    and "unat timeoutMs \<le> elapsed" and "elapsed < 2 ^ 32"
  shows "\<exists>r out'. receiveMessage expectedType expectedSession out capacity timeoutMs startMs polls = Some (r, out')"
proof -
  have "unat (of_nat elapsed :: u32) = elapsed" using assms(4) by (simp add: unat_of_nat take_bit_eq_mod)
  then have "\<not> pollMillis p - startMs < timeoutMs"
    using assms(2,3) by (simp add: word_less_nat_alt)
  from loop_returns [OF assms(1) this] show ?thesis by (auto simp: receiveMessage_def)
qed

theorem receive_returns_after_deadline_witness:
  "\<exists>r out'. receiveMessage 0x12 9 (zeros 3378) 3378 8000 0xfffffff0
    [idle_poll 0xfffffff1, idle_poll (0xfffffff0 + of_nat 8001)] = Some (r, out')"
  by (rule receive_returns_after_deadline [where elapsed = 8001 and p = "idle_poll (0xfffffff0 + of_nat 8001)"]) (simp_all add: idle_poll_def)

definition accepting_net :: "(nat \<Rightarrow> send_outcome) \<Rightarrow> nat \<Rightarrow> bool" where
  "accepting_net net len \<longleftrightarrow>
    (\<forall>i. beginPacketOk (net i) \<and> endPacketOk (net i) \<and>
      written (net i) = FRAGMENT_HEADER_BYTES + payload_length len i)"

lemma sendFragments_accepted:
  assumes "accepting_net net (unat len)"
  shows "fst (sendFragments net type session data len cnt idxs framed)"
proof (induction idxs arbitrary: framed)
  case (Cons i idxs)
  have "unat (of_nat (payload_length (unat len) i) :: u16) = payload_length (unat len) i"
    using payload_length_le [of "unat len" i] by (simp add: unat_u16_small)
  then show ?case
    using assms Cons.IH by (simp add: Let_def payload_length_def [symmetric] accepting_net_def split_beta)
qed simp

lemma sendMessage_accepted:
  assumes "accepting_net net (length data)" and "unat len = length data"
  shows "sendMessage net type session data len framed0 =
    (if 0 < length data \<and> length data \<le> MAX_PROTOCOL_MESSAGE_BYTES
     then (True, of_nat (length data + FRAGMENT_HEADER_BYTES * fragment_count (length data)),
       map (fragment type session data) [0..<fragment_count (length data)])
     else (False, framed0, []))"
proof (cases "0 < length data \<and> length data \<le> MAX_PROTOCOL_MESSAGE_BYTES")
  case True
  let ?c = "fragment_count (length data)"
  have "?c \<le> MAX_FRAGMENTS" using True fragment_count_le by blast
  moreover have "0 < ?c" using True fragment_count_covers [of "length data"] by linarith
  ultimately have c: "unat (of_nat ?c :: u8) = ?c" "0 < ?c" "?c \<le> MAX_FRAGMENTS"
    by (simp_all add: unat_u8_small)
  have "len \<noteq> 0" "(of_nat ?c :: u8) \<noteq> 0" using True assms(2) c by auto
  then have "fst (sendMessage net type session data len framed0)"
    using True c assms sendFragments_accepted [of net len] unfolding sendMessage_def Let_def by simp
  then obtain framed dgs where s: "sendMessage net type session data len framed0 = (True, framed, dgs)"
    by (metis (full_types) prod.collapse)
  from sendMessage_True [OF s assms(2)]
  have "framed = of_nat (length data + FRAGMENT_HEADER_BYTES * ?c)" "dgs = map (fragment type session data) [0..<?c]"
    by blast+
  then show ?thesis unfolding s if_P [OF True] by blast
next
  case False
  have "len = 0 \<longleftrightarrow> length data = 0" by (metis assms(2) unat_eq_0)
  then have "len = 0 \<or> unat len > MAX_PROTOCOL_MESSAGE_BYTES" using False assms(2) by linarith
  then show ?thesis unfolding if_not_P [OF False] by (simp add: sendMessage_def)
qed

text \<open>\<open>sendMessage\<close> on a network that accepts every datagram sends a message of 1 to 3378
  bytes as \<open>\<lceil>n / 1000\<rceil>\<close> datagrams of at most 1014 bytes and accounts \<open>n\<close> plus 14 bytes per
  fragment; it refuses every other length without sending or accounting anything.\<close>

theorem send_total:
  assumes "accepting_net net (length data)" and "unat len = length data"
  shows "sendMessage net type session data len framed0 =
    (if 0 < length data \<and> length data \<le> MAX_PROTOCOL_MESSAGE_BYTES
     then (True, of_nat (length data + FRAGMENT_HEADER_BYTES * fragment_count (length data)),
       map (fragment type session data) [0..<fragment_count (length data)])
     else (False, framed0, []))"
  using assms by (rule sendMessage_accepted)

theorem send_total_witness:
  "sendMessage perfect_net 0x12 9 sample_message 1500 0 =
    (if 0 < length sample_message \<and> length sample_message \<le> MAX_PROTOCOL_MESSAGE_BYTES
     then (True, of_nat (length sample_message + FRAGMENT_HEADER_BYTES * fragment_count (length sample_message)),
       map (fragment 0x12 9 sample_message) [0..<fragment_count (length sample_message)])
     else (False, 0, []))"
  by (rule send_total) (simp_all add: accepting_net_def perfect_net_def payload_length_def sample_length)

section \<open>Fragments that leave gaps\<close>

text \<open>Fragment \<open>i\<close> of a message of which only the blocks \<open>ys\<close> are sent, announcing \<open>announced\<close> bytes.\<close>

definition gap_fragment :: "u8 \<Rightarrow> u32 \<Rightarrow> nat \<Rightarrow> bytes list \<Rightarrow> nat \<Rightarrow> bytes" where
  "gap_fragment type session announced ys i =
    fragmentHeader type session (of_nat announced) (of_nat i) (of_nat (length ys)) (of_nat (length (ys ! i))) @ ys ! i"

text \<open>Every block fits its slot and the announced length; together they may be shorter.\<close>

definition gap_blocks :: "nat \<Rightarrow> bytes list \<Rightarrow> bool" where
  "gap_blocks announced ys \<longleftrightarrow>
    0 < length ys \<and> length ys \<le> MAX_FRAGMENTS \<and> announced \<le> MAX_PROTOCOL_MESSAGE_BYTES \<and>
    (\<forall>i < length ys. length (ys ! i) \<le> FRAGMENT_PAYLOAD_BYTES \<and>
      i * FRAGMENT_PAYLOAD_BYTES + length (ys ! i) \<le> announced)"

text \<open>The state after the first \<open>k\<close> fragments, once one has come.\<close>

fun place :: "bytes list \<Rightarrow> nat \<Rightarrow> bytes \<Rightarrow> bytes" where
  "place ys 0 out = out"
| "place ys (Suc k) out = write_at (k * FRAGMENT_PAYLOAD_BYTES) (ys ! k) (place ys k out)"

definition gap_bytes :: "bytes list \<Rightarrow> nat \<Rightarrow> nat" where
  "gap_bytes ys k = (\<Sum>i<k. FRAGMENT_HEADER_BYTES + length (ys ! i))"

definition gap_state :: "u8 \<Rightarrow> u32 \<Rightarrow> nat \<Rightarrow> u32 \<Rightarrow> u16 \<Rightarrow> bytes list \<Rightarrow> bytes \<Rightarrow> nat \<Rightarrow> rx_state" where
  "gap_state type session announced src port ys out k =
    \<lparr>receivedFragments = replicate k True @ replicate (MAX_FRAGMENTS - k) False, activeType = type,
     activeSession = session, activeLength = of_nat announced, activeCount = of_nat (length ys),
     completed = of_nat k, active = True, framedBytes = of_nat (gap_bytes ys k), activeIp = src,
     activePort = port, outputBuffer = place ys k out\<rparr>"

lemma length_place:
  "gap_blocks announced ys \<Longrightarrow> announced \<le> length out \<Longrightarrow> k \<le> length ys \<Longrightarrow> length (place ys k out) = length out"
proof (induction k)
  case (Suc k)
  then have "k * FRAGMENT_PAYLOAD_BYTES + length (ys ! k) \<le> announced" by (auto simp: gap_blocks_def)
  then show ?case using Suc by simp
qed simp

lemma place_block:
  assumes "gap_blocks announced ys" and "announced \<le> length out"
  shows "k \<le> length ys \<Longrightarrow> i < k \<Longrightarrow>
    read_at (i * FRAGMENT_PAYLOAD_BYTES) (length (ys ! i)) (place ys k out) = ys ! i"
proof (induction k)
  case (Suc k)
  have b: "length (ys ! i) \<le> FRAGMENT_PAYLOAD_BYTES" "k * FRAGMENT_PAYLOAD_BYTES + length (ys ! k) \<le> announced"
    using assms(1) Suc.prems by (auto simp: gap_blocks_def)
  have len: "length (place ys k out) = length out" using Suc.prems by (intro length_place [OF assms]) simp
  show ?case
  proof (cases "i = k")
    case True
    then show ?thesis using b(2) assms(2) len by (simp add: read_at_write_at_same)
  next
    case False
    then have "i * FRAGMENT_PAYLOAD_BYTES + length (ys ! i) \<le> k * FRAGMENT_PAYLOAD_BYTES"
      using b(1) Suc.prems by simp
    then show ?thesis
      using Suc False b(2) assms(2) len by (simp add: read_at_write_at_before)
  qed
qed simp

lemma place_elsewhere:
  assumes "gap_blocks announced ys" and "announced \<le> length out" and "j < length out"
    and "\<And>i. i < length ys \<Longrightarrow> j < i * FRAGMENT_PAYLOAD_BYTES \<or> i * FRAGMENT_PAYLOAD_BYTES + length (ys ! i) \<le> j"
  shows "k \<le> length ys \<Longrightarrow> place ys k out ! j = out ! j"
proof (induction k)
  case (Suc k)
  have b: "k * FRAGMENT_PAYLOAD_BYTES + length (ys ! k) \<le> announced"
    using assms(1) Suc.prems by (auto simp: gap_blocks_def)
  have len: "length (place ys k out) = length out" using Suc.prems by (intro length_place [OF assms(1,2)]) simp
  show ?case using Suc assms(2,3) assms(4) [of k] b len by (auto simp: nth_write_at)
qed simp


lemma read_gap_fragment:
  assumes ys: "gap_blocks announced ys" and i: "i < length ys"
    and p: "delivers src port (gap_fragment type session announced ys i) p"
  shows "readOneDatagram p = Some \<lparr>d_type = type, d_session = session, d_totalLength = of_nat announced,
      d_fragmentIndex = of_nat i, d_fragmentCount = of_nat (length ys),
      d_payloadLength = of_nat (length (ys ! i)), d_sourceIp = src, d_sourcePort = port,
      d_datagramBytes = of_nat (FRAGMENT_HEADER_BYTES + length (ys ! i))\<rparr>"
    and "read_at FRAGMENT_HEADER_BYTES (length (ys ! i)) (readBuffer p) = ys ! i"
proof -
  let ?h = "fragmentHeader type session (of_nat announced) (of_nat i) (of_nat (length ys)) (of_nat (length (ys ! i)))"
  have hl: "length ?h = FRAGMENT_HEADER_BYTES" by (rule fragmentHeader_fields(1) [OF refl])
  have n: "length (ys ! i) \<le> FRAGMENT_PAYLOAD_BYTES" "announced \<le> MAX_PROTOCOL_MESSAGE_BYTES"
    "0 < length ys" "length ys \<le> MAX_FRAGMENTS"
    using ys i by (auto simp: gap_blocks_def)
  have "take (length (gap_fragment type session announced ys i)) (readBuffer p) = gap_fragment type session announced ys i"
    using p by (simp only: delivers_def)
  from arg_cong [OF this, of "\<lambda>xs. xs @ drop (length (gap_fragment type session announced ys i)) (readBuffer p)"]
  obtain stale where buf: "readBuffer p = ?h @ (ys ! i @ stale)"
    unfolding append_take_drop_id gap_fragment_def append_assoc by blast
  have rest: "parsePacket p = int (FRAGMENT_HEADER_BYTES + length (ys ! i))"
    "readLength p = int (FRAGMENT_HEADER_BYTES + length (ys ! i))" "remoteIP p = src" "remotePort p = port"
    using p hl by (simp_all add: delivers_def gap_fragment_def)
  have u: "unat (of_nat (length (ys ! i)) :: u16) = length (ys ! i)" "unat (of_nat announced :: u16) = announced"
    "unat (of_nat (length ys) :: u8) = length ys" "unat (of_nat i :: u8) = i"
    using n i by (simp_all add: unat_u16_small unat_u8_small)
  have c: "(of_nat (length ys) :: u8) \<noteq> 0" "(of_nat i :: u8) < of_nat (length ys)"
    using u n i by (auto simp: word_less_nat_alt)
  show "readOneDatagram p = Some \<lparr>d_type = type, d_session = session, d_totalLength = of_nat announced,
      d_fragmentIndex = of_nat i, d_fragmentCount = of_nat (length ys),
      d_payloadLength = of_nat (length (ys ! i)), d_sourceIp = src, d_sourcePort = port,
      d_datagramBytes = of_nat (FRAGMENT_HEADER_BYTES + length (ys ! i))\<rparr>"
    unfolding readOneDatagram_def Let_def rest fragmentHeader_fields(2-) [OF buf]
    using u n c by (simp add: not_le)
  show "read_at FRAGMENT_HEADER_BYTES (length (ys ! i)) (readBuffer p) = ys ! i"
    by (subst buf) (simp add: read_at_def hl)
qed

text \<open>One fragment in turn moves the assembly from \<open>k\<close> to \<open>k + 1\<close> fragments.\<close>

lemma gap_store:
  assumes ys: "gap_blocks announced ys" and k: "k < length ys"
    and p: "delivers src port (gap_fragment type session announced ys k) p"
  shows "acceptFragment p (the (readOneDatagram p)) (gap_state type session announced src port ys out k) =
    finishOrContinue (gap_state type session announced src port ys out (Suc k))"
proof -
  note read = read_gap_fragment [OF ys k p]
  have b: "length (ys ! k) \<le> FRAGMENT_PAYLOAD_BYTES" "k * FRAGMENT_PAYLOAD_BYTES + length (ys ! k) \<le> announced"
    "announced \<le> MAX_PROTOCOL_MESSAGE_BYTES" "k < MAX_FRAGMENTS"
    using ys k by (auto simp: gap_blocks_def)
  have u: "unat (of_nat (length (ys ! k)) :: u16) = length (ys ! k)" "unat (of_nat announced :: u16) = announced"
    "unat (of_nat k :: u8) = k"
    using b by (simp_all add: unat_u16_small unat_u8_small)
  have flags: "(replicate k True @ replicate (MAX_FRAGMENTS - k) False)[k := True] =
      replicate (Suc k) True @ replicate (MAX_FRAGMENTS - Suc k) False"
    "(replicate k True @ replicate (MAX_FRAGMENTS - k) False) ! k = False"
  proof -
    define none where "none = replicate (MAX_FRAGMENTS - Suc k) False"
    have "replicate (MAX_FRAGMENTS - k) False = False # none"
      unfolding none_def using b(4) by (metis Suc_diff_Suc replicate_Suc)
    then show "(replicate k True @ replicate (MAX_FRAGMENTS - k) False)[k := True] =
        replicate (Suc k) True @ replicate (MAX_FRAGMENTS - Suc k) False"
      "(replicate k True @ replicate (MAX_FRAGMENTS - k) False) ! k = False"
      unfolding none_def [symmetric] by (simp_all add: list_update_append nth_append replicate_app_Cons_same)
  qed
  show ?thesis
    unfolding read(1) acceptFragment_def using u b(2) flags read(2)
    by (simp add: gap_state_def storeFragment_def gap_bytes_def add.commute del: replicate.simps)
qed

definition gap_start :: "u8 \<Rightarrow> u32 \<Rightarrow> nat \<Rightarrow> u32 \<Rightarrow> u16 \<Rightarrow> bytes list \<Rightarrow> bytes \<Rightarrow> nat \<Rightarrow> rx_state" where
  "gap_start type session announced src port ys out k =
    (if k = 0 then rx_init out else gap_state type session announced src port ys out k)"

lemma gap_iteration:
  assumes ys: "gap_blocks announced ys" and k: "k < length ys" and cap: "announced \<le> unat capacity"
    and ok: "passes expectedType expectedSession type session"
    and p: "delivers src port (gap_fragment type session announced ys k) p"
  shows "receiveIteration expectedType expectedSession capacity p (gap_start type session announced src port ys out k) =
    finishOrContinue (gap_state type session announced src port ys out (Suc k))"
proof -
  note read = read_gap_fragment(1) [OF ys k p]
  have "unat (of_nat announced :: u16) = announced" using ys by (simp add: gap_blocks_def unat_u16_small)
  then have fits: "\<not> (of_nat announced :: u16) > capacity" using cap by (simp add: word_less_nat_alt)
  have zero: "activate (the (readOneDatagram p)) (rx_init out) = gap_state type session announced src port ys out 0"
    by (simp add: read activate_def rx_init_def gap_state_def gap_bytes_def)
  have act: "active (gap_state type session announced src port ys out k)" "\<not> active (rx_init out)"
    by (simp_all add: gap_state_def rx_init_def)
  have "(expectedType \<noteq> 0xff \<and> type \<noteq> expectedType) = False" "(expectedSession \<noteq> 0 \<and> session \<noteq> expectedSession) = False"
    using ok by (auto simp: passes_def)
  then show ?thesis
    using gap_store [OF ys k p, of out] act zero fits unfolding receiveIteration_def gap_start_def read
    by (cases "k = 0") (simp_all only: option.case datagram.simps if_False if_True refl simp_thms option.sel)
qed

lemma gap_loop:
  assumes ys: "gap_blocks announced ys" and cap: "announced \<le> unat capacity"
    and ok: "passes expectedType expectedSession type session"
  shows "k < length ys \<Longrightarrow>
    list_all2 (delivers src port) (map (gap_fragment type session announced ys) [k..<length ys]) ps \<Longrightarrow>
    \<forall>p \<in> set ps. pollMillis p - startMs < timeoutMs \<Longrightarrow>
    receiveLoop expectedType expectedSession capacity timeoutMs startMs (ps @ rest)
      (gap_start type session announced src port ys out k) =
    Some (Some (result_of (gap_state type session announced src port ys out (length ys))), place ys (length ys) out)"
proof (induction ps arbitrary: k)
  case Nil
  then show ?case by simp
next
  case (Cons p ps)
  let ?s = "gap_state type session announced src port ys out"
  have "[k..<length ys] = k # [Suc k..<length ys]" using Cons.prems(1) by (simp add: upt_conv_Cons)
  then have p: "delivers src port (gap_fragment type session announced ys k) p"
    and ps: "list_all2 (delivers src port) (map (gap_fragment type session announced ys) [Suc k..<length ys]) ps"
    using Cons.prems(2) by simp_all
  have time: "pollMillis p - startMs < timeoutMs" "\<forall>p \<in> set ps. pollMillis p - startMs < timeoutMs"
    using Cons.prems(3) by simp_all
  have small: "length ys \<le> MAX_FRAGMENTS" using ys by (simp add: gap_blocks_def)
  have "unat (of_nat (Suc k) :: u8) = Suc k" "unat (of_nat (length ys) :: u8) = length ys"
    using Cons.prems(1) small unat_u8_small [of "Suc k"] unat_u8_small [of "length ys"] by simp_all
  then have all: "completed (?s (Suc k)) = activeCount (?s (Suc k)) \<longleftrightarrow> Suc k = length ys"
    unfolding gap_state_def rx_state.simps by metis
  note it = gap_iteration [OF ys Cons.prems(1) cap ok p, of out]
  show ?case
  proof (cases "Suc k = length ys")
    case True
    then show ?thesis using it time(1) all by (simp add: finishOrContinue_eq gap_state_def)
  next
    case False
    have "gap_start type session announced src port ys out (Suc k) = ?s (Suc k)" by (simp add: gap_start_def)
    then show ?thesis using Cons.IH [OF _ ps time(2)] False Cons.prems(1) it time(1) all
      by (simp add: finishOrContinue_eq)
  qed
qed

definition sample_gap :: "poll list" where
  "sample_gap = map (\<lambda>i. poll_of (of_nat i) (gap_fragment 0x12 9 1500 [[], [1, 2]] i)) [0, 1]"

text \<open>C28: What the reassembler does not check: the payloads of the fragments need not add up to the
  announced length. For every type and session the filter passes, every announced length within
  the capacity and every list of 1 to 8 blocks of which each only fits its own slot, the
  datagrams of these blocks, delivered before the deadline, are returned as a complete message
  of the announced length. The blocks stand at their places, and every byte that no block covers,
  also below that length, is what the caller's buffer held before the call.\<close>

theorem gap_accepted:
  assumes "gap_blocks announced ys" and "announced \<le> unat capacity" and "unat capacity \<le> length out"
    and "passes expectedType expectedSession type session"
    and "list_all2 (delivers src port) (map (gap_fragment type session announced ys) [0..<length ys]) ps"
    and "\<forall>p \<in> set ps. pollMillis p - startMs < timeoutMs"
  shows "\<exists>out'. receiveMessage expectedType expectedSession out capacity timeoutMs startMs (ps @ rest) =
      Some (Some \<lparr>r_type = type, r_session = session, r_length = of_nat announced, r_sourceIp = src,
        r_sourcePort = port, r_framedBytes = of_nat (gap_bytes ys (length ys))\<rparr>, out') \<and>
      length out' = length out \<and>
      (\<forall>i < length ys. read_at (i * FRAGMENT_PAYLOAD_BYTES) (length (ys ! i)) out' = ys ! i) \<and>
      (\<forall>j < length out. (\<forall>i < length ys. j < i * FRAGMENT_PAYLOAD_BYTES \<or> i * FRAGMENT_PAYLOAD_BYTES + length (ys ! i) \<le> j) \<longrightarrow>
        out' ! j = out ! j)"
proof -
  have n: "0 < length ys" "announced \<le> length out" using assms(1-3) by (auto simp: gap_blocks_def)
  have "receiveMessage expectedType expectedSession out capacity timeoutMs startMs (ps @ rest) =
      Some (Some (result_of (gap_state type session announced src port ys out (length ys))), place ys (length ys) out)"
    using gap_loop [OF assms(1,2,4) n(1) assms(5,6), of rest out] by (simp add: gap_start_def receiveMessage_def)
  moreover have "result_of (gap_state type session announced src port ys out (length ys)) =
      \<lparr>r_type = type, r_session = session, r_length = of_nat announced, r_sourceIp = src,
        r_sourcePort = port, r_framedBytes = of_nat (gap_bytes ys (length ys))\<rparr>"
    by (simp add: result_of_def gap_state_def)
  ultimately show ?thesis
    using length_place [OF assms(1) n(2) order_refl] place_block [OF assms(1) n(2) order_refl]
      place_elsewhere [OF assms(1) n(2) _ _ order_refl] by auto
qed

text \<open>Two bytes arrive of a message announced as 1500 bytes long.\<close>

theorem gap_accepted_witness:
  "\<exists>out'. receiveMessage 0x12 9 (replicate 3378 5) 3378 8000 0 (sample_gap @ []) =
      Some (Some \<lparr>r_type = 0x12, r_session = 9, r_length = 1500, r_sourceIp = 0x0a000001,
        r_sourcePort = 5000, r_framedBytes = 30\<rparr>, out') \<and>
      read_at 1000 2 out' = [1, 2] \<and> out' ! 0 = 5 \<and> out' ! 1002 = 5 \<and> out' ! 1499 = 5"
proof -
  let ?ys = "[[], [1, 2]] :: bytes list"
  have blocks: "gap_blocks 1500 ?ys" by (simp add: gap_blocks_def less_Suc_eq)
  have short: "length (gap_fragment 0x12 9 1500 ?ys i) \<le> 1014" if "i < 2" for i
    using that by (auto simp: gap_fragment_def fragmentHeader_fields(1) [OF refl] less_2_cases_iff)
  have delivered: "list_all2 (delivers 0x0a000001 5000) (map (gap_fragment 0x12 9 1500 ?ys) [0..<length ?ys]) sample_gap"
    using poll_of_delivers [OF short [of 0]] poll_of_delivers [OF short [of 1]]
    by (simp add: sample_gap_def upt_rec)
  have time: "\<forall>p \<in> set sample_gap. pollMillis p - 0 < 8000" by (simp add: sample_gap_def)
  have "gap_bytes ?ys (length ?ys) = 30" by (simp add: gap_bytes_def numeral_2_eq_2)
  with gap_accepted [where capacity = 3378 and out = "replicate 3378 5" and expectedType = "0x12"
      and expectedSession = 9 and rest = "[]", OF blocks _ _ _ delivered time]
  obtain out' where out': "receiveMessage 0x12 9 (replicate 3378 5) 3378 8000 0 (sample_gap @ []) =
      Some (Some \<lparr>r_type = 0x12, r_session = 9, r_length = 1500, r_sourceIp = 0x0a000001,
        r_sourcePort = 5000, r_framedBytes = 30\<rparr>, out')"
    and at: "\<forall>i < length ?ys. read_at (i * FRAGMENT_PAYLOAD_BYTES) (length (?ys ! i)) out' = ?ys ! i"
    and kept: "\<And>j. j < 3378 \<Longrightarrow> (\<forall>i < length ?ys. j < i * FRAGMENT_PAYLOAD_BYTES \<or> i * FRAGMENT_PAYLOAD_BYTES + length (?ys ! i) \<le> j) \<Longrightarrow>
        out' ! j = 5"
    by (auto simp: passes_def simp del: replicate.simps)
  have "read_at 1000 2 out' = [1, 2]" using at [THEN spec, of 1] by (simp add: numeral_2_eq_2)
  moreover have "out' ! 0 = 5" "out' ! 1002 = 5" "out' ! 1499 = 5"
    by (rule kept; simp add: less_Suc_eq)+
  ultimately show ?thesis using out' by blast
qed

end
