(* ===== verification/Exchange.thy ===== *)
theory Exchange
  imports ResponderTheorems FragmentationProperties
begin

text \<open>
  The specification of an undisturbed exchange: the values two parties agree on, the five
  messages as concatenations of fields, the equations between the values, and the delivery
  of a message by the network.
\<close>

section \<open>Messages of an exchange\<close>

record exchange =
  x_mode :: PathDeliveryMode
  x_idA :: bytes
  x_idB :: bytes
  x_versionA :: u32
  x_versionB :: u32
  x_session :: u32
  x_nonceA :: bytes
  x_nonceB :: bytes
  x_sid :: bytes
  x_qA :: u32
  x_publicKey :: bytes
  x_signatureA :: bytes
  x_pathA :: bytes
  x_hashM2 :: bytes
  x_qB :: u32
  x_ciphertext :: bytes
  x_signatureB :: bytes
  x_pathB :: bytes
  x_secret :: bytes
  x_transcript :: bytes
  x_key :: bytes
  x_confirmA :: bytes
  x_confirmB :: bytes
  x_tauA :: bytes
  x_tauB :: bytes

definition exchange_arrays :: "exchange \<Rightarrow> bool" where
  "exchange_arrays x \<longleftrightarrow>
    length (x_idA x) = ID_BYTES \<and> length (x_idB x) = ID_BYTES \<and>
    length (x_nonceA x) = NONCE_BYTES \<and> length (x_nonceB x) = NONCE_BYTES \<and> length (x_sid x) = HASH_BYTES \<and>
    length (x_publicKey x) = MLKEM_PUBLIC_KEY_BYTES \<and> length (x_signatureA x) = LMOTS_SIGNATURE_BYTES \<and>
    length (x_pathA x) = LMS_PATH_BYTES \<and> length (x_hashM2 x) = HASH_BYTES \<and>
    length (x_ciphertext x) = MLKEM_CIPHERTEXT_BYTES \<and> length (x_signatureB x) = LMOTS_SIGNATURE_BYTES \<and>
    length (x_pathB x) = LMS_PATH_BYTES \<and> length (x_tauA x) = HMAC_BYTES \<and> length (x_tauB x) = HMAC_BYTES"

definition spec_suite :: "exchange \<Rightarrow> bytes" where
  "spec_suite x = putU32 (suiteIdForMode (x_mode x))"

text \<open>The path travels with the message in signer-carried mode only.\<close>

definition carried :: "exchange \<Rightarrow> bytes \<Rightarrow> bytes" where
  "carried x path = (if x_mode x = SignerCarried then path else [])"

definition M0_of :: "exchange \<Rightarrow> bytes" where
  "M0_of x = [PROTOCOL_VERSION, MSG_M0_REQ] @ x_idA x @ x_idB x @ x_nonceA x @ spec_suite x"

definition M1_of :: "exchange \<Rightarrow> bytes" where
  "M1_of x = [PROTOCOL_VERSION, MSG_M1_CHAL] @ x_idB x @ x_idA x @ x_nonceA x @ x_nonceB x @ spec_suite x"

definition signedA_of :: "exchange \<Rightarrow> bytes" where
  "signedA_of x = [PROTOCOL_VERSION, DOMAIN_LMOTS_SIGN] @ putU16 (of_nat MU_A_BYTES) @
    ([PROTOCOL_VERSION, DOMAIN_INIT] @ x_sid x @ x_idA x @ x_idB x @ putU32 (x_versionA x) @ x_publicKey x) @ putU32 (x_qA x)"

definition head2_of :: "exchange \<Rightarrow> bytes" where
  "head2_of x = [PROTOCOL_VERSION, MSG_M2_INIT] @ x_sid x @ putU32 (x_versionA x) @ putU32 (x_qA x)"

definition M2_of :: "exchange \<Rightarrow> bytes" where
  "M2_of x = head2_of x @ x_publicKey x @ x_signatureA x @ carried x (x_pathA x)"

definition signedB_of :: "exchange \<Rightarrow> bytes" where
  "signedB_of x = [PROTOCOL_VERSION, DOMAIN_LMOTS_SIGN] @ putU16 (of_nat MU_B_BYTES) @
    ([PROTOCOL_VERSION, DOMAIN_RESP] @ x_sid x @ x_hashM2 x @ x_idA x @ x_idB x @ putU32 (x_versionB x) @ x_ciphertext x) @
    putU32 (x_qB x)"

definition head3_of :: "exchange \<Rightarrow> bytes" where
  "head3_of x = [PROTOCOL_VERSION, MSG_M3_INNER] @ x_sid x @ putU32 (x_versionB x) @ putU32 (x_qB x)"

definition inner_of :: "exchange \<Rightarrow> bytes" where
  "inner_of x = head3_of x @ x_ciphertext x @ x_signatureB x @ carried x (x_pathB x)"

definition M3_of :: "exchange \<Rightarrow> bytes" where
  "M3_of x = ([PROTOCOL_VERSION, MSG_M3_RESP_FIN] @ x_sid x @ putU16 (of_nat (m3InnerBytesForMode (x_mode x)))) @
    inner_of x @ x_tauB x"

definition M4_of :: "exchange \<Rightarrow> bytes" where
  "M4_of x = [PROTOCOL_VERSION, MSG_M4_INIT_FIN] @ x_sid x @ x_tauA x"

lemma message_of_lengths:
  assumes "exchange_arrays x"
  shows "length (M0_of x) = M0_BYTES" "length (M1_of x) = M1_BYTES" "length (M2_of x) = m2BytesForMode (x_mode x)"
    "length (inner_of x) = m3InnerBytesForMode (x_mode x)" "length (M3_of x) = m3BytesForMode (x_mode x)"
    "length (M4_of x) = M4_BYTES"
  using assms
  by (simp_all add: exchange_arrays_def M0_of_def M1_of_def M2_of_def M3_of_def inner_of_def M4_of_def head2_of_def head3_of_def spec_suite_def carried_def
      m2BytesForMode_def m3BytesForMode_def m3InnerBytesForMode_def)

lemma field_lengths:
  assumes "exchange_arrays x"
  shows "length (x_publicKey x) = MLKEM_PUBLIC_KEY_BYTES" "length (x_ciphertext x) = MLKEM_CIPHERTEXT_BYTES"
    "length (x_signatureA x) = LMOTS_SIGNATURE_BYTES" "length (x_signatureB x) = LMOTS_SIGNATURE_BYTES"
    "length (x_pathA x) = LMS_PATH_BYTES" "length (x_pathB x) = LMS_PATH_BYTES" "length (x_sid x) = HASH_BYTES"
    "length (x_hashM2 x) = HASH_BYTES" "length (x_tauA x) = HMAC_BYTES" "length (x_tauB x) = HMAC_BYTES"
    "length (head2_of x) = 42" "length (head3_of x) = 42"
  using assms by (simp_all add: exchange_arrays_def head2_of_def head3_of_def)

text \<open>The buffers hold the messages of the exchange.\<close>

definition holds_messages :: "exchange \<Rightarrow> 'a node_scheme \<Rightarrow> bool" where
  "holds_messages x n \<longleftrightarrow> m_m0 n = M0_of x \<and> m_m1 n = M1_of x \<and>
    take (m2BytesForMode (x_mode x)) (m_m2 n) = M2_of x \<and> take (m3BytesForMode (x_mode x)) (m_m3 n) = M3_of x \<and> m_m4 n = M4_of x"

text \<open>The equations between the values of an exchange.\<close>

definition consistent :: "wolf \<Rightarrow> exchange \<Rightarrow> bool" where
  "consistent W x \<longleftrightarrow>
    exchange_arrays x \<and>
    computeSid0 W (M0_of x) (M1_of x) = Inr (x_sid x) \<and>
    sha256 W (M2_of x) = Inr (x_hashM2 x) \<and>
    transcriptHash W (x_sid x) (M0_of x) (M1_of x) (M2_of x) (inner_of x) = Some (x_transcript x) \<and>
    deriveSessionKeys W (x_secret x) (x_transcript x) = Inr (x_key x, x_confirmA x, x_confirmB x) \<and>
    computeConfirmationTag W DOMAIN_B_CONFIRM (x_confirmB x) (x_transcript x) = Inr (x_tauB x) \<and>
    computeConfirmationTag W DOMAIN_A_CONFIRM (x_confirmA x) (x_transcript x) = Inr (x_tauA x)"

section \<open>Delivery\<close>

text \<open>
  \<open>hears rx type wanted session msg ip port\<close>: among the observations of \<open>rx\<close>, before the
  timeout, is every fragment of the message from that source, and nothing else that passes
  the filter.
\<close>

definition hears :: "radio \<Rightarrow> u8 \<Rightarrow> u32 \<Rightarrow> u32 \<Rightarrow> bytes \<Rightarrow> u32 \<Rightarrow> u16 \<Rightarrow> bool" where
  "hears rx type wanted session msg ip port \<longleftrightarrow>
    (\<exists>ps rest. rx_polls rx = ps @ rest \<and> buffers_ok (set ps) \<and> traffic type wanted type session msg ip port ps \<and>
      (\<forall>p \<in> set ps. pollMillis p - rx_start rx < RECEIVE_TIMEOUT_MS) \<and>
      (\<forall>i < fragment_count (length msg). \<exists>p \<in> set ps. delivers ip port (fragment type session msg i) p))"

definition packet_of :: "u8 \<Rightarrow> u32 \<Rightarrow> bytes \<Rightarrow> u32 \<Rightarrow> u16 \<Rightarrow> ReceivedPacket" where
  "packet_of type session msg ip port =
    \<lparr>r_type = type, r_session = session, r_length = of_nat (length msg), r_sourceIp = ip, r_sourcePort = port,
     r_framedBytes = of_nat (length msg + FRAGMENT_HEADER_BYTES * fragment_count (length msg))\<rparr>"

lemma packet_of_fields [simp]:
  "r_session (packet_of t s m ip port) = s" "r_sourceIp (packet_of t s m ip port) = ip"
  "r_sourcePort (packet_of t s m ip port) = port"
  by (simp_all add: packet_of_def)

text \<open>The metrics after sending or receiving a message.\<close>

definition counted_tx :: "bytes \<Rightarrow> LocalMetrics \<Rightarrow> LocalMetrics" where
  "counted_tx msg m = m\<lparr>appTxBytes := appTxBytes m + of_nat (length msg),
    framedTxBytes := framedTxBytes m + of_nat (length msg + FRAGMENT_HEADER_BYTES * fragment_count (length msg))\<rparr>"

definition counted_rx :: "bytes \<Rightarrow> LocalMetrics \<Rightarrow> LocalMetrics" where
  "counted_rx msg m = m\<lparr>appRxBytes := appRxBytes m + of_nat (length msg),
    framedRxBytes := framedRxBytes m + of_nat (length msg + FRAGMENT_HEADER_BYTES * fragment_count (length msg))\<rparr>"

lemma heard:
  assumes "hears rx type wanted session msg ip port" and "wanted = 0 \<or> wanted = session"
    and "0 < length msg" and "length msg \<le> unat cap" and "unat cap \<le> length data" and "length msg \<le> MAX_PROTOCOL_MESSAGE_BYTES"
    and "len = of_nat (length msg)"
  obtains data' where
    "receiveProtocolMessage rx type wanted data cap len cnt c = (Some True, data',
       c\<lparr>l_packet := packet_of type session msg ip port,
         l_metrics := (if cnt then counted_rx msg (l_metrics c) else l_metrics c)\<rparr>)"
    and "take (length msg) data' = msg" and "length data' = length data"
proof -
  from assms(1) obtain ps rest where rx: "rx_polls rx = ps @ rest" and bufs: "buffers_ok (set ps)"
    and tr: "traffic type wanted type session msg ip port ps"
    and time: "\<forall>p \<in> set ps. pollMillis p - rx_start rx < RECEIVE_TIMEOUT_MS"
    and all: "\<forall>i < fragment_count (length msg). \<exists>p \<in> set ps. delivers ip port (fragment type session msg i) p"
    by (auto simp: hears_def)
  have "passes type wanted type session" using assms(2) by (auto simp: passes_def)
  from reassembled [OF assms(6,3-5) this bufs tr time all, of rest] obtain data' where
    run: "receiveMessage type wanted data cap RECEIVE_TIMEOUT_MS (rx_start rx) (rx_polls rx) =
      Some (Some (packet_of type session msg ip port), data')"
    and data': "take (length msg) data' = msg" "drop (length msg) data' = drop (length msg) data"
    by (auto simp: rx packet_of_def)
  have "length data' = length data"
    using data' assms(4,5) by (metis append_take_drop_id length_append length_drop le_add_diff_inverse le_trans)
  moreover have "ucast (of_nat (length msg) :: u16) = (of_nat (length msg) :: u32)"
    using assms(6) by (simp add: unsigned_of_nat take_bit_nat_eq_self)
  ultimately show ?thesis
    using that data'(1) run assms(7)
    by (auto simp: receiveProtocolMessage_def packet_of_def counted_rx_def Let_def)
qed

definition datagrams_of :: "u8 \<Rightarrow> u32 \<Rightarrow> bytes \<Rightarrow> bytes list" where
  "datagrams_of type session msg = map (fragment type session msg) [0..<fragment_count (length msg)]"

lemma sent:
  assumes "accepting_net net len" and "take len data = msg" and "length msg = len"
    and "0 < len" and "len \<le> MAX_PROTOCOL_MESSAGE_BYTES"
  shows "sendProtocolMessage net ip port type session data len cnt c = (Some True,
    c\<lparr>wire := wire c @ [(ip, port, datagrams_of type session msg)],
      l_metrics := (if cnt then counted_tx msg (l_metrics c) else l_metrics c)\<rparr>)"
proof -
  have "unat (of_nat len :: u16) = length msg" using assms(3,5) by (simp add: unat_u16_small)
  from sendMessage_accepted [OF _ this, of net type session 0] assms
  have "sendMessage net type session (take len data) (of_nat len) 0 =
      (True, of_nat (length msg + FRAGMENT_HEADER_BYTES * fragment_count (length msg)), datagrams_of type session msg)"
    by (simp add: datagrams_of_def)
  then show ?thesis using assms(2,3) by (simp add: sendProtocolMessage_def counted_tx_def Let_def)
qed

section \<open>Filling M2 and M3\<close>

lemma header_filled:
  assumes "length buf = n" and "42 \<le> n" and "length sid = HASH_BYTES"
  shows "write_at 38 (putU32 q) (write_at 34 (putU32 v) (write_at 2 sid (buf[0 := a, Suc 0 := b]))) =
    ([a, b] @ sid @ putU32 v @ putU32 q) @ drop 42 buf"
proof -
  obtain x y rest where "buf = x # y # rest" using assms(1,2) by (cases buf; cases "tl buf") auto
  then show ?thesis using assms by (simp add: write_at_def)
qed

lemma verify_prefix:
  assumes "length sig = LMOTS_SIGNATURE_BYTES"
  shows "verify W q m (sig @ rest) ident path r = verify W q m sig ident path r"
proof -
  have "getU32 (sig @ rest) = getU32 sig" using assms by (simp add: getU32_def nth_append)
  moreover have "read_at 4 32 (sig @ rest) = read_at 4 32 sig" using assms by (simp add: layout)
  moreover have "mapE (\<lambda>i. chainHash W ident q (of_nat i) (coefficientW4 dc i) 15 (read_at (i * 32) 32 (drop 36 (sig @ rest)))) [0..<67] =
      mapE (\<lambda>i. chainHash W ident q (of_nat i) (coefficientW4 dc i) 15 (read_at (i * 32) 32 (drop 36 sig))) [0..<67]" for dc
    using assms by (intro mapE_cong) (auto simp: layout simp del: upt_rec_numeral)
  ultimately have "lmotsCandidatePublicHash W ident q m (sig @ rest) = lmotsCandidatePublicHash W ident q m sig"
    by (simp add: lmotsCandidatePublicHash_def Let_def del: drop_append upt_rec_numeral)
  then show ?thesis by (simp add: verify_def candidateRoot_def)
qed

section \<open>Reading M2 and M3\<close>

lemma M2_parts:
  assumes "exchange_arrays x"
  shows "(M2_of x @ t) ! 0 = PROTOCOL_VERSION" "(M2_of x @ t) ! Suc 0 = MSG_M2_INIT"
    "constantTimeEqual (drop 2 (M2_of x @ t)) (x_sid x) HASH_BYTES"
    "getU32 (drop 34 (M2_of x @ t)) = x_versionA x" "getU32 (drop 38 (M2_of x @ t)) = x_qA x"
    "read_at 42 MLKEM_PUBLIC_KEY_BYTES (M2_of x @ t) = x_publicKey x"
    "drop 842 (M2_of x @ t) = x_signatureA x @ carried x (x_pathA x) @ t"
    "x_mode x = SignerCarried \<Longrightarrow> take LMS_PATH_BYTES (drop M2_BASE_BYTES (M2_of x @ t)) = x_pathA x"
  using field_lengths [OF assms]
  by (simp_all add: M2_of_def head2_of_def carried_def read_at_def constantTimeEqual_take)

lemma inner_parts:
  assumes "exchange_arrays x"
  shows "(inner_of x @ t) ! 0 = PROTOCOL_VERSION" "(inner_of x @ t) ! Suc 0 = MSG_M3_INNER"
    "constantTimeEqual (drop 2 (inner_of x @ t)) (x_sid x) HASH_BYTES"
    "getU32 (drop 34 (inner_of x @ t)) = x_versionB x" "getU32 (drop 38 (inner_of x @ t)) = x_qB x"
    "read_at 42 MLKEM_CIPHERTEXT_BYTES (inner_of x @ t) = x_ciphertext x"
    "drop 810 (inner_of x @ t) = x_signatureB x @ carried x (x_pathB x) @ t"
    "x_mode x = SignerCarried \<Longrightarrow> take LMS_PATH_BYTES (drop M3_INNER_BASE_BYTES (inner_of x @ t)) = x_pathB x"
  using field_lengths [OF assms]
  by (simp_all add: inner_of_def head3_of_def carried_def read_at_def constantTimeEqual_take)

lemma M3_parts:
  assumes "exchange_arrays x"
  shows "(M3_of x @ t) ! 0 = PROTOCOL_VERSION" "(M3_of x @ t) ! Suc 0 = MSG_M3_RESP_FIN"
    "constantTimeEqual (drop 2 (M3_of x @ t)) (x_sid x) HASH_BYTES"
    "unat (getU16 (drop 34 (M3_of x @ t))) = m3InnerBytesForMode (x_mode x)"
    "drop 36 (M3_of x @ t) = inner_of x @ x_tauB x @ t"
    "read_at 36 (m3InnerBytesForMode (x_mode x)) (M3_of x @ t) = inner_of x"
    "constantTimeEqual (x_tauB x) (drop (36 + m3InnerBytesForMode (x_mode x)) (M3_of x @ t)) HMAC_BYTES"
  using field_lengths [OF assms] message_of_lengths(4) [OF assms] inner_bytes_cases [of "x_mode x"]
  by (auto simp: M3_of_def read_at_def constantTimeEqual_take unat_u16_small)

section \<open>Stages both handlers share\<close>

lemma enterSession_fields [simp]:
  "config (enterSession n) = config n" "m_lms (enterSession n) = m_lms n" "m_peerRecord (enterSession n) = m_peerRecord n"
  "m_gcs (enterSession n) = m_gcs n" "nextq (enterSession n) = nextq n" "m_kemKey (enterSession n) = m_kemKey n"
  "m_kemInitialized (enterSession n) = m_kemInitialized n" "m_m0 (enterSession n) = m_m0 n" "m_m1 (enterSession n) = m_m1 n"
  "m_m2 (enterSession n) = m_m2 n" "m_m3 (enterSession n) = m_m3 n" "m_m4 (enterSession n) = m_m4 n"
  "m_mu (enterSession n) = m_mu n" "m_signInput (enterSession n) = m_signInput n" "m_result (enterSession n) = m_result n"
  "wire (enterSession n) = wire n" "signatures (enterSession n) = signatures n"
  by (simp_all add: enterSession_def node.defs)

lemma kemInit_succeeds:
  "wc_MlKemKey_Init W = 0 \<Longrightarrow> kemInit W c = (Some True, (freeKem c)\<lparr>m_kemInitialized := True\<rparr>)"
  by (simp add: kemInit_def initializeKem_def)

lemma freeKem_node [simp]:
  "config (freeKem c) = config c" "m_lms (freeKem c) = m_lms c" "m_peerRecord (freeKem c) = m_peerRecord c"
  "m_gcs (freeKem c) = m_gcs c" "nextq (freeKem c) = nextq c" "m_m0 (freeKem c) = m_m0 c" "m_m1 (freeKem c) = m_m1 c"
  "m_m2 (freeKem c) = m_m2 c" "m_m3 (freeKem c) = m_m3 c" "m_m4 (freeKem c) = m_m4 c" "m_result (freeKem c) = m_result c"
  "wire (freeKem c) = wire c" "signatures (freeKem c) = signatures c"
  by (simp_all add: freeKem_def)

lemma freeKem_locals [simp]:
  "l_metrics (freeKem c) = l_metrics c" "l_packet (freeKem c) = l_packet c" "l_session (freeKem c) = l_session c"
  "l_sid (freeKem c) = l_sid c" "l_hashM2 (freeKem c) = l_hashM2 c" "l_qA (freeKem c) = l_qA c" "l_peerPath (freeKem c) = l_peerPath c"
  by (simp_all add: freeKem_def)

lemma reserveQ_succeeds:
  "storedQ c = q \<Longrightarrow> \<not> qOutOfRange q c \<Longrightarrow> reserveQ True c = (Some q, c\<lparr>nextq := Some (q + 1)\<rparr>)"
  by (simp add: reserveQ_def Let_def)

text \<open>The reading of a message into a buffer of the size of the longest one.\<close>

lemma heard_prefix:
  assumes "hears rx type wanted session msg ip port" and "wanted = 0 \<or> wanted = session" and "length msg \<le> unat cap" and "unat cap \<le> length data"
    and "0 < length msg" and "length msg \<le> MAX_PROTOCOL_MESSAGE_BYTES" and "len = of_nat (length msg)"
  obtains t where
    "receiveProtocolMessage rx type wanted data cap len cnt c = (Some True, msg @ t,
       c\<lparr>l_packet := packet_of type session msg ip port, l_metrics := (if cnt then counted_rx msg (l_metrics c) else l_metrics c)\<rparr>)"
    and "length (msg @ t) = length data"
proof -
  obtain data' where r: "receiveProtocolMessage rx type wanted data cap len cnt c = (Some True, data',
       c\<lparr>l_packet := packet_of type session msg ip port, l_metrics := (if cnt then counted_rx msg (l_metrics c) else l_metrics c)\<rparr>)"
    and d: "take (length msg) data' = msg" "length data' = length data"
    by (rule heard [OF assms(1,2,5,3,4,6,7), of cnt c])
  have "data' = msg @ drop (length msg) data'" using d(1) by (metis append_take_drop_id)
  then show ?thesis using that r d(2) by metis
qed

lemma validatePeerRecord_frame:
  "config c = config n \<Longrightarrow> m_peerRecord c = m_peerRecord n \<Longrightarrow> validatePeerRecord now v c = validatePeerRecord now v n"
  by (simp add: validatePeerRecord_def)

end
