(* ===== verification/CounterSafety.thy ===== *)
theory CounterSafety
  imports SessionEffects
begin

text \<open>
  The life of a device: restarts, boots, calls of \<open>loop\<close> and losses of power in the middle
  of a session, as a step relation. The invariant of the persistent counter and of the log
  of signatures: no LM-OTS index signs twice, whatever happens in between.
\<close>

section \<open>Life of a device\<close>

text \<open>A restart: the constructor runs again; the NVS keeps its entry, and the records of what
  the device did so far are kept.\<close>

definition restart :: "node \<Rightarrow> node" where
  "restart n = (node_ctor (config n) (nextq n))\<lparr>wire := wire n, signatures := signatures n\<rparr>"

text \<open>
  \<open>initiator_cut\<close>: power is lost in a session of the experiment loop, after \<open>run\<close> complete
  ones and \<open>k\<close> stages. \<open>responder_cut\<close>: in a session of the responder.
\<close>

inductive device_step :: "wolf \<Rightarrow> node \<Rightarrow> node \<Rightarrow> bool" for W where
  restarted: "device_step W n (restart n)"
| booted: "protocolBegin W b n = (r, n') \<Longrightarrow> device_step W n n'"
| looped: "protocolLoop W es n = Some n' \<Longrightarrow> device_step W n n'"
| initiator_cut: "m_ready n \<Longrightarrow> role (config n) = Initiator \<Longrightarrow>
    runSessions W es [1..<Suc run] 0 n = Some (successful, n1) \<Longrightarrow>
    runStages (take k (initiatorStages W (es (Suc run)))) (enterSession n1) = (r, c) \<Longrightarrow>
    device_step W n (restart (node.truncate c))"
| responder_cut: "m_ready n \<Longrightarrow> role (config n) = Responder \<Longrightarrow>
    runStages (take k (receiveM0 e # responderStages W e ip port)) (enterSession n) = (r, c) \<Longrightarrow>
    device_step W n (restart (node.truncate c))"

section \<open>The counter invariant\<close>

definition spent :: "'a node_scheme \<Rightarrow> u32 list" where
  "spent n = map fst (signatures n)"

definition in_range :: "NodeConfig \<Rightarrow> u32 \<Rightarrow> bool" where
  "in_range cfg q \<longleftrightarrow>
    unat (firstQ cfg) \<le> unat q \<and> unat q < unat (firstQ cfg) + unat (numberOfSessions cfg) \<and> unat q < LMS_LEAVES"

definition counter_inv :: "NodeConfig \<Rightarrow> 'a node_scheme \<Rightarrow> bool" where
  "counter_inv cfg n \<longleftrightarrow>
    config n = cfg \<and> sorted_wrt (<) (spent n) \<and> (\<forall>q \<in> set (spent n). in_range (config n) q \<and> q < storedQ n)"

text \<open>An index that has just been reserved.\<close>

definition reserved :: "NodeConfig \<Rightarrow> u32 \<Rightarrow> 'a node_scheme \<Rightarrow> bool" where
  "reserved cfg q n \<longleftrightarrow> counter_inv cfg n \<and> in_range (config n) q \<and> (\<forall>s \<in> set (spent n). s < q) \<and> q < storedQ n"

text \<open>The 32-bit end of the range may wrap; the comparison then refuses every index.\<close>

lemma qOutOfRange_in_range: "\<not> qOutOfRange q n \<Longrightarrow> in_range (config n) q"
  using mod_less_eq_dividend [of "unat (firstQ (config n)) + unat (numberOfSessions (config n))" "2 ^ 32"]
  by (auto simp: qOutOfRange_def in_range_def Let_def not_le not_less word_le_nat_alt word_less_nat_alt
      unat_word_ariths)
lemma storedQ_next: "in_range (config n) q \<Longrightarrow> nextq n' = Some (q + 1) \<Longrightarrow> q < storedQ n'"
  by (auto simp: in_range_def storedQ_def word_less_nat_alt unat_word_ariths)

lemma storedQ_cong: "config n' = config n \<Longrightarrow> nextq n' = nextq n \<Longrightarrow> storedQ n' = storedQ n"
  by (simp add: storedQ_def split: option.split)

text \<open>What the invariant depends on.\<close>

definition counter_view :: "'a node_scheme \<Rightarrow> NodeConfig \<times> u32 option \<times> (u32 \<times> bytes) list" where
  "counter_view n = (config n, nextq n, signatures n)"

lemma counter_inv_view: "counter_view n' = counter_view n \<Longrightarrow> counter_inv cfg n \<longleftrightarrow> counter_inv cfg n'"
  using storedQ_cong [of n' n] by (simp add: counter_view_def counter_inv_def spent_def)

lemma reserved_view: "counter_view n' = counter_view n \<Longrightarrow> reserved cfg q n \<longleftrightarrow> reserved cfg q n'"
  using counter_inv_view [of n' n] storedQ_cong [of n' n] by (simp add: counter_view_def reserved_def spent_def)

lemma reserveQ_reserves:
  assumes "counter_inv cfg n" and "reserveQ putOk n = (r, n')"
  shows "counter_inv cfg n'" and "r = Some q \<Longrightarrow> reserved cfg q n'"
proof -
  have Q: "in_range (config n) (storedQ n) \<and> n' = n\<lparr>nextq := Some (storedQ n + 1)\<rparr>" if "r = Some q" for q
    using assms(2) that by (auto simp: reserveQ_def Let_def dest: qOutOfRange_in_range split: if_splits)
  have *: "reserved cfg q n'" if r: "r = Some q" for q
  proof -
    have q: "q = storedQ n" using assms(2) r by (auto simp: reserveQ_def Let_def split: if_splits)
    then have lt: "q < storedQ n'" using Q [OF r] storedQ_next [of n q n'] by simp
    with q assms(1) have "\<forall>s \<in> set (spent n). s < q \<and> s < storedQ n'" by (auto simp: counter_inv_def)
    then show ?thesis using Q [OF r] lt assms(1) q by (auto simp: reserved_def counter_inv_def spent_def)
  qed
  then show "r = Some q \<Longrightarrow> reserved cfg q n'" .
  show "counter_inv cfg n'"
  proof (cases r)
    case None
    then have "n' = n" using assms(2) by (auto simp: reserveQ_def Let_def split: if_splits)
    then show ?thesis using assms(1) by simp
  qed (use * in \<open>auto simp: reserved_def\<close>)
qed

lemma reserved_signs:
  assumes "reserved cfg q n" and "counter_view n' = (config n, nextq n, signatures n @ [(q, obj)])"
  shows "counter_inv cfg n'"
  using assms storedQ_cong [of n' n]
  by (auto simp: reserved_def counter_inv_def counter_view_def spent_def sorted_wrt_append)

section \<open>Sessions keep the invariant\<close>

text \<open>
  Both handlers have the same shape: stages that leave the counter and the log alone, the
  reservation, stages that also leave the reserved index alone, the signature under that
  index, and stages that leave counter and log alone again.
\<close>

lemma session_outline:
  assumes pre: "list_all (spares counter_view) pre"
    and reserve: "\<And>c r c'. counter_inv cfg c \<Longrightarrow> reserve c = (r, c') \<Longrightarrow>
      counter_inv cfg c' \<and> (r = Some True \<longrightarrow> reserved cfg (idx c') c')"
    and mid: "list_all (spares (\<lambda>c. (counter_view c, idx c))) mid"
    and sign: "\<And>c. counter_view (snd (sig c)) = counter_view c \<or>
      (\<exists>obj. counter_view (snd (sig c)) = (config c, nextq c, signatures c @ [(idx c, obj)]))"
    and post: "list_all (spares counter_view) post"
  shows "outline (counter_inv cfg :: session \<Rightarrow> bool) (counter_inv cfg) (pre @ reserve # mid @ sig # post)"
proof -
  have "outline (counter_inv cfg) (counter_inv cfg :: session \<Rightarrow> bool) (post @ [])"
    by (rule outline_spares [OF outline_end post]) (use counter_inv_view in blast)+
  moreover have "counter_inv cfg (snd (sig c))" if "reserved cfg (idx c) c" for c
    using sign [of c] that counter_inv_view [of "snd (sig c)" c] reserved_signs [OF that]
    by (auto simp: reserved_def)
  ultimately have "outline (counter_inv cfg) (\<lambda>c. reserved cfg (idx c) c) (sig # post)"
    by (intro outline_stage [where Q = "counter_inv cfg"]) (auto simp: reserved_def)
  then have "outline (counter_inv cfg) (\<lambda>c. reserved cfg (idx c) c) (mid @ sig # post)"
    by (rule outline_spares [OF _ mid]) (metis prod.inject reserved_view)
  then have "outline (counter_inv cfg) (counter_inv cfg) (reserve # mid @ sig # post)"
    using reserve by (intro outline_stage [where Q = "\<lambda>c. reserved cfg (idx c) c"]) (simp, metis prod.collapse, assumption)
  then show ?thesis by (rule outline_spares [OF _ pre]) (use counter_inv_view in blast)
qed

lemma reservation:
  assumes "counter_inv cfg c" and "reserveQ putOk c = (q, n)" and "counter_view c' = counter_view n"
    and "ok \<Longrightarrow> q = Some i"
  shows "counter_inv cfg c' \<and> (ok \<longrightarrow> reserved cfg i c')"
  using reserveQ_reserves [OF assms(1,2)] assms(3,4) counter_inv_view [of c' n] reserved_view [of c' n cfg i] by auto

lemma initiator_outline: "outline (counter_inv cfg) (counter_inv cfg) (initiatorStages W e)"
proof -
  let ?pre = "[initiatorStart e, sendM0 e, receiveM1 e, timedSid0 W e, kemInit W, makeKemKey W e]"
  have pre: "list_all (spares counter_view) ?pre"
    by (simp, intro conjI; rule spares_touches, rule effects, simp add: counter_view_def)
  have mid: "list_all (spares (\<lambda>c. (counter_view c, l_qA c))) [timedRuntimeSeed W e, fillM2]"
    by (simp, intro conjI; rule spares_touches, rule effects, simp add: counter_view_def)
  have post: "list_all (spares counter_view) [attachPathA, timedHashM2 W e, sendM2 e,
     receiveM3 e, parseM3, checkPeerB e, obtainPathB W e, verifyM3 W e, decapsulate W e,
     \<lambda>c. timedTranscriptHash W e (m3Inner c) c, timedSessionKeys W e, timedTagB W e, checkTauB,
     timedTagA W e, sendM4 e, receiveResult e]"
    by (simp, intro conjI; rule spares_touches, rule effects, simp add: counter_view_def)
  have res: "counter_inv cfg c' \<and> (r = Some True \<longrightarrow> reserved cfg (l_qA c') c')"
    if "counter_inv cfg c" "reserveQA e c = (r, c')" for c r c'
    using that(2)
    by (intro reservation [OF that(1) prod.collapse [symmetric], where putOk = "e_putOk e"])
      (auto simp: reserveQA_def counter_view_def split: prod.splits option.splits)
  have sig: "counter_view (snd (signM2 W e c)) = counter_view c \<or>
      (\<exists>obj. counter_view (snd (signM2 W e c)) = (config c, nextq c, signatures c @ [(l_qA c, obj)]))" for c
    by (simp add: signM2_def LmotsLms_sign_def counter_view_def addSign_def Let_def split: sum.split)
  from session_outline [OF pre res mid sig post] show ?thesis by (simp add: initiatorStages_def)
qed

lemma responder_outline: "outline (counter_inv cfg) (counter_inv cfg) (receiveM0 e # responderStages W e ip port)"
proof -
  let ?pre = "[receiveM0 e, answerM0 e, timedSid0 W e, sendM1 e ip port, receiveM2 e, parseM2, checkPeerA e,
    timedHashM2 W e, obtainPathA W e, verifyM2 W e, kemInit W, encapsulate W e]"
  have pre: "list_all (spares counter_view) ?pre"
    by (simp, intro conjI; rule spares_touches, rule effects, simp add: counter_view_def)
  have mid: "list_all (spares (\<lambda>c. (counter_view c, l_qB c))) [timedRuntimeSeed W e, fillM3Inner]"
    by (simp, intro conjI; rule spares_touches, rule effects, simp add: counter_view_def)
  have post: "list_all (spares counter_view) [attachPathB,
     \<lambda>c. timedTranscriptHash W e (m3Inner c) c, timedSessionKeys W e, timedTagB W e, fillM3Outer, sendM3 e ip port,
     receiveM4 e, parseM4, timedTagA W e, checkTauA, acceptSession e ip port]"
    by (simp, intro conjI; rule spares_touches, rule effects, simp add: counter_view_def)
  have res: "counter_inv cfg c' \<and> (r = Some True \<longrightarrow> reserved cfg (l_qB c') c')"
    if "counter_inv cfg c" "reserveQB e c = (r, c')" for c r c'
    using that(2)
    by (intro reservation [OF that(1) prod.collapse [symmetric], where putOk = "e_putOk e"])
      (auto simp: reserveQB_def counter_view_def split: prod.splits option.splits)
  have sig: "counter_view (snd (signM3 W e c)) = counter_view c \<or>
      (\<exists>obj. counter_view (snd (signM3 W e c)) = (config c, nextq c, signatures c @ [(l_qB c, obj)]))" for c
    by (simp add: signM3_def LmotsLms_sign_def counter_view_def addSign_def Let_def split: sum.split)
  from session_outline [OF pre res mid sig post] show ?thesis by (simp add: responderStages_def)
qed

section \<open>Boots, loops and lives keep the invariant\<close>

lemma counter_view_frames [simp]:
  "counter_view (enterSession n) = counter_view n" "counter_view (node.truncate c) = counter_view c"
  "counter_view (sessionCleanup c) = counter_view c" "counter_view (restart n) = counter_view n"
  by (simp_all add: counter_view_def enterSession_def node.defs sessionCleanup_def wipeSessionSecrets_def freeKem_def
      restart_def node_ctor_def Let_def)

lemma initiator_keeps:
  assumes "counter_inv cfg n"
  shows "counter_inv cfg (snd (runStages (take k (initiatorStages W e)) (enterSession n)))"
  by (rule outline_cut [OF initiator_outline]) (use assms counter_inv_view [of "enterSession n" n] in simp)

lemma responder_keeps:
  assumes "counter_inv cfg n"
  shows "counter_inv cfg (snd (runStages (take k (receiveM0 e # responderStages W e ip port)) (enterSession n)))"
  by (rule outline_cut [OF responder_outline]) (use assms counter_inv_view [of "enterSession n" n] in simp)

lemma runInitiatorSession_keeps:
  assumes "counter_inv cfg n" and "runInitiatorSession W e n = Some (ok, n')"
  shows "counter_inv cfg n'"
proof -
  from assms(2) obtain r c where run: "runStages (initiatorStages W e) (enterSession n) = (r, c)"
    and n': "n' = node.truncate (sessionCleanup c)"
    by (auto simp: runInitiatorSession_def split: prod.splits option.splits)
  have "counter_inv cfg c" using initiator_keeps [OF assms(1), of "length (initiatorStages W e)" W e] run by simp
  then show ?thesis using counter_inv_view [of n' c] n' by simp
qed

lemma runResponderOnce_keeps:
  assumes "counter_inv cfg n" and "runResponderOnce W e n = Some (ok, n')"
  shows "counter_inv cfg n'"
proof -
  obtain r c0 where m0: "receiveM0 e (enterSession n) = (r, c0)" by fastforce
  let ?ss = "responderStages W e (r_sourceIp (l_packet c0)) (r_sourcePort (l_packet c0))"
  have c0: "counter_inv cfg c0" using responder_keeps [OF assms(1), of 1 e W] m0 by (simp add: andThen_def split: if_splits)
  have "counter_inv cfg (snd (runStages ?ss c0))" if "r = Some True"
    using responder_keeps [OF assms(1), of "Suc (length ?ss)" e W "r_sourceIp (l_packet c0)" "r_sourcePort (l_packet c0)"] m0 that by (simp add: andThen_def)
  then show ?thesis
    using assms(2) m0 c0 counter_inv_view [of n' c0] counter_inv_view [of n' "snd (runStages ?ss c0)"]
    by (auto simp: runResponderOnce_def split: prod.splits option.splits bool.splits)
qed

lemma runSessions_keeps:
  "counter_inv cfg n \<Longrightarrow> runSessions W es runs k n = Some (k', n') \<Longrightarrow> counter_inv cfg n'"
  by (induction runs arbitrary: n k) (auto split: option.splits dest: runInitiatorSession_keeps)

lemma protocolLoop_keeps:
  assumes "counter_inv cfg n" and "protocolLoop W es n = Some n'"
  shows "counter_inv cfg n'"
proof -
  have completed: "counter_inv cfg (n\<lparr>m_initiatorCompleted := True\<rparr>)" if "counter_inv cfg n" for n :: node
    using that counter_inv_view [of "n\<lparr>m_initiatorCompleted := True\<rparr>" n] by (simp add: counter_view_def)
  from assms(2) consider "n' = n"
    | k n1 where "runSessions W es [1..<Suc (unat (numberOfSessions (config n)))] 0 n = Some (k, n1)"
        "n' = n1\<lparr>m_initiatorCompleted := True\<rparr>"
    | ok where "runResponderOnce W (es 0) n = Some (ok, n')"
    by (auto simp: protocolLoop_def runInitiatorExperiments_def simp del: upt_Suc split: if_splits)
  then show ?thesis
    by cases (use assms(1) completed runSessions_keeps runResponderOnce_keeps in blast)+
qed

text \<open>A boot leaves the counter and the log alone, unless the configuration asks for a reset.\<close>

lemma provisioning_spares: "list_all (spares counter_view) (provisioningStages W b)"
  unfolding provisioningStages_def list.pred_inject
  by (intro conjI TrueI)
    (simp_all add: spares_def counter_view_def guard_def Let_def split_beta deriveBootSeed_def initializeLms_def
      buildLmsTree_def connectWiFi_def startTransport_def startGcs_def publishRoot_def publishPaths_def fetchPeer_def
      checkPeer_def split: sum.split option.split)

lemma openCounter_keeps:
  "\<not> resetQCounter (config n) \<Longrightarrow> counter_view (snd (openCounter b n)) = counter_view n"
  by (simp add: openCounter_def initializePersistentCounter_def Let_def)

lemma protocolBegin_keeps:
  assumes "\<not> resetQCounter (config n)" and "protocolBegin W b n = (r, n')"
  shows "counter_view n' = counter_view n"
proof -
  let ?P = "\<lambda>m :: node. counter_view m = counter_view n"
  have prepare: "spares counter_view (prepareLmsAndLedger W b)"
    using spares_run [OF provisioning_spares] by (simp add: prepareLmsAndLedger_def spares_def)
  have cfg: "\<not> resetQCounter (config m)" if "?P m" for m :: node
    using assms(1) that by (simp add: counter_view_def)
  have "outline ?P ?P ([checkRange, prepareLmsAndLedger W b, startRng W] @ openCounter b # [\<lambda>n. (Some True, n\<lparr>m_ready := True\<rparr>)] @ [])"
    by (rule outline_spares [where view = counter_view], rule outline_stage [where Q = ?P], simp,
        simp add: openCounter_keeps cfg, rule outline_spares [where view = counter_view], rule outline_end)
      (simp_all add: prepare, simp_all add: spares_def counter_view_def checkRange_def guard_def startRng_def)
  from outline_run [OF this, of n] show ?thesis using assms(2) by (simp add: protocolBegin_def)
qed

lemma restart_config [simp]: "config (restart n) = config n"
  by (simp add: restart_def node_ctor_def)

lemma counter_view_config: "counter_view n' = counter_view n \<Longrightarrow> config n' = config n"
  by (simp add: counter_view_def)

lemma device_step_keeps:
  assumes "device_step W n n'" and "counter_inv cfg n" and "\<not> resetQCounter cfg"
  shows "counter_inv cfg n'"
  using assms(1)
proof cases
  case restarted
  then show ?thesis using assms(2) counter_inv_view [of n' n] by simp
next
  case (booted b r)
  have "config n = cfg" using assms(2) by (simp add: counter_inv_def)
  then show ?thesis using booted assms protocolBegin_keeps [of n W b r n'] counter_inv_view [of n' n] by simp
next
  case (looped es)
  then show ?thesis using assms(2) protocolLoop_keeps by blast
next
  case (initiator_cut es run successful n1 k r c)
  have "counter_inv cfg n1" using runSessions_keeps [OF assms(2) initiator_cut(4)] .
  then have "counter_inv cfg c"
    using initiator_keeps [of cfg n1 k W "es (Suc run)"] initiator_cut(5) by simp
  then show ?thesis using initiator_cut(1) counter_inv_view [of n' c] by simp
next
  case (responder_cut k e ip port r c)
  then have "counter_inv cfg c" using responder_keeps [OF assms(2), of k e W ip port] by simp
  then show ?thesis using responder_cut(1) counter_inv_view [of n' c] by simp
qed

lemma reachable_counter_inv:
  "(device_step W)\<^sup>*\<^sup>* n n' \<Longrightarrow> counter_inv cfg n \<Longrightarrow> \<not> resetQCounter cfg \<Longrightarrow> counter_inv cfg n'"
  by (induction rule: rtranclp_induct) (auto intro: device_step_keeps)

lemma fresh_counter_inv: "counter_inv cfg (node_ctor cfg nvs)"
  by (simp add: counter_inv_def node_ctor_def spent_def)

lemma spent_length:
  assumes "counter_inv cfg n"
  shows "length (signatures n) \<le> unat (numberOfSessions cfg)"
proof -
  have "distinct (map unat (spent n))"
    using assms by (auto simp: counter_inv_def distinct_map strict_sorted_iff intro!: inj_onI word_unat_eq_iff [THEN iffD2])
  moreover have "set (map unat (spent n)) \<subseteq> {unat (firstQ cfg)..<unat (firstQ cfg) + unat (numberOfSessions cfg)}"
    using assms by (auto simp: counter_inv_def in_range_def)
  ultimately have "length (map unat (spent n)) \<le> unat (numberOfSessions cfg)"
    using distinct_card [of "map unat (spent n)"] card_mono [of "{unat (firstQ cfg)..<unat (firstQ cfg) + unat (numberOfSessions cfg)}" "set (map unat (spent n))"]
    by (simp add: distinct_card)
  then show ?thesis by (simp add: spent_def)
qed

text \<open>C3: One-time keys are used once. In every state that a device can reach from the
  factory (with any content of the counter entry) through restarts, boots, calls of \<open>loop\<close> and losses of power
  anywhere in a session, the indices it has signed with are strictly increasing, lie in the
  configured range below 1024, and are at most \<open>numberOfSessions\<close> many, as long as the configuration does
  not ask for a reset of the counter. The range is exact: its 32-bit end never wraps.\<close>

theorem one_time_keys:
  assumes "(device_step W)\<^sup>*\<^sup>* (node_ctor cfg nvs) n" and "\<not> resetQCounter cfg"
  shows "sorted_wrt (<) (map fst (signatures n)) \<and> distinct (map fst (signatures n)) \<and>
    length (signatures n) \<le> unat (numberOfSessions cfg) \<and>
    (\<forall>q \<in> fst ` set (signatures n). unat (firstQ cfg) \<le> unat q \<and>
      unat q < unat (firstQ cfg) + unat (numberOfSessions cfg) \<and> unat q < LMS_LEAVES)"
proof -
  have "counter_inv cfg n" using reachable_counter_inv [OF assms(1) fresh_counter_inv assms(2)] .
  then show ?thesis
    using spent_length by (auto simp: counter_inv_def spent_def in_range_def strict_sorted_iff)
qed

text \<open>Configurations of the two ends, for the examples.\<close>

definition sample_config :: "Role \<Rightarrow> PathDeliveryMode \<Rightarrow> NodeConfig" where
  "sample_config r mode =
    \<lparr>role = r, pathMode = mode, wifiSsid = ''lab'', wifiPassword = ''lab'', gcsIp = 0x0a000003, responderIp = 0x0a000002,
     protocolPort = 5000, gcsPort = 5100, gcsLocalPort = 5101,
     deviceId = replicate 32 (if r = Initiator then 0xa1 else 0xb2), peerId = replicate 32 (if r = Initiator then 0xb2 else 0xa1),
     hardcodedPufRoot = zeros 32, hardcodedHelperData = zeros 32, lmsIdentifier = zeros 16, credentialVersion = 1,
     peerCredentialVersion = 1, credentialExpiryUnix = 0, nvsNamespace = ''puav'', firstQ = 10, numberOfSessions = 4,
     resetQCounter = False\<rparr>"

lemma one_time_keys_witness:
  "length (signatures (restart (node_ctor (sample_config Initiator SignerCarried) (Some 12)))) \<le> 4 \<and>
   nextq (restart (node_ctor (sample_config Initiator SignerCarried) (Some 12))) = Some 12"
proof -
  have "(device_step sample_wolf)\<^sup>*\<^sup>* (node_ctor (sample_config Initiator SignerCarried) (Some 12))
    (restart (node_ctor (sample_config Initiator SignerCarried) (Some 12)))"
    by (rule r_into_rtranclp) (rule device_step.restarted)
  from one_time_keys [OF this] show ?thesis by (simp add: sample_config_def restart_def node_ctor_def)
qed

end
