(* ===== verification/HonestInitiator.thy ===== *)
theory HonestInitiator
  imports Exchange CounterSafety
begin

text \<open>
  The initiator's side of an undisturbed exchange: with what it needs of its own state and
  with the messages of the exchange delivered, every stage succeeds and the messages it sends
  are those of the exchange.
\<close>

section \<open>What the initiator needs\<close>

definition initiates :: "wolf \<Rightarrow> env \<Rightarrow> node \<Rightarrow> exchange \<Rightarrow> bool" where
  "initiates W e n x \<longleftrightarrow>
    node_arrays n \<and> role (config n) = Initiator \<and> pathMode (config n) = x_mode x \<and>
    deviceId (config n) = x_idA x \<and> peerId (config n) = x_idB x \<and> credentialVersion (config n) = x_versionA x \<and>
    e_nonce e = x_nonceA x \<and> e_session e OR 1 = x_session x \<and>
    wc_MlKemKey_Init W = 0 \<and>
    (\<exists>key. wc_MlKemKey_MakeKey W (e_kemRandom e) = (0, key) \<and> wc_MlKemKey_EncodePublicKey W key = (0, x_publicKey x) \<and>
      wc_MlKemKey_Decapsulate W key (x_ciphertext x) = (0, x_secret x)) \<and>
    storedQ n = x_qA x \<and> \<not> qOutOfRange (x_qA x) n \<and> e_putOk e \<and>
    (\<exists>seed. runtimeSeed W (puf e) (config n) = Some seed \<and>
      sign W (m_lms n) (x_qA x) (signedA_of x) seed (e_C e) = Inr (x_signatureA x)) \<and>
    (x_mode x = SignerCarried \<longrightarrow> extractPath (m_lms n) (x_qA x) = Some (x_pathA x)) \<and>
    x_qB x < 1024 \<and> validatePeerRecord (e_now e) (x_versionB x) n \<and>
    (x_mode x = RepositoryAssisted \<longrightarrow>
      (\<exists>op g. fetchPeerPath W (x_versionB x) (x_qB x) (e_gcsUs e) (e_gcs e) (m_gcs n) = Some (Some (x_pathB x), op, g))) \<and>
    verify W (x_qB x) (signedB_of x) (x_signatureB x) (p_identifier (m_peerRecord n)) (x_pathB x) (p_root (m_peerRecord n))"

definition initiator_linked :: "env \<Rightarrow> u32 \<Rightarrow> u16 \<Rightarrow> bytes \<Rightarrow> exchange \<Rightarrow> bool" where
  "initiator_linked e ip port result x \<longleftrightarrow>
    accepting_net (e_sends e 0) M0_BYTES \<and> accepting_net (e_sends e 1) (m2BytesForMode (x_mode x)) \<and>
    accepting_net (e_sends e 2) M4_BYTES \<and>
    hears (e_recvs e 0) MSG_M1_CHAL (x_session x) (x_session x) (M1_of x) ip port \<and>
    hears (e_recvs e 1) MSG_M3_RESP_FIN (x_session x) (x_session x) (M3_of x) ip port \<and>
    hears (e_recvs e 2) MSG_RESULT (x_session x) (x_session x) result ip port \<and>
    length result = RESULT_BYTES \<and> result ! 0 = RESULT_OK"

section \<open>Stages that succeed\<close>

lemma sendM0_succeeds:
  assumes "accepting_net (e_sends e 0) M0_BYTES" and "length (m_m0 c) = M0_BYTES"
  shows "sendM0 e c = (Some True, c\<lparr>
      wire := wire c @ [(responderIp (config c), protocolPort (config c), datagrams_of MSG_M0_REQ (l_session c) (m_m0 c))],
      l_metrics := counted_tx (m_m0 c) (l_metrics c)\<rparr>)"
  unfolding sendM0_def using sent [OF assms(1) _ assms(2)] assms(2) by simp

lemma receiveM1_succeeds:
  assumes "hears (e_recvs e 0) MSG_M1_CHAL (l_session c) (l_session c) msg ip port" and "length msg = M1_BYTES"
    and "length (m_m1 c) = M1_BYTES" and "validateM1 (config c) msg (l_nonceA c) = Some nonceB"
  shows "receiveM1 e c = (Some True, c\<lparr>m_m1 := msg, l_packet := packet_of MSG_M1_CHAL (l_session c) msg ip port,
      l_metrics := counted_rx msg (l_metrics c), l_nonceB := nonceB\<rparr>)"
proof -
  have "length msg \<le> unat (102 :: u16)" "unat (102 :: u16) \<le> length (m_m1 c)" "(102 :: u16) = of_nat (length msg)" "0 < length msg"
    using assms(2,3) by simp_all
  from heard [OF assms(1) _ this(4,1,2) _ this(3), of True c] assms(2) obtain data' where
    "receiveProtocolMessage (e_recvs e 0) MSG_M1_CHAL (l_session c) (m_m1 c) 102 102 True c =
      (Some True, data', c\<lparr>l_packet := packet_of MSG_M1_CHAL (l_session c) msg ip port, l_metrics := counted_rx msg (l_metrics c)\<rparr>)"
    "take 102 data' = msg" "length data' = 102" using assms(3) by auto
  then show ?thesis using assms(4) by (simp add: receiveM1_def Let_def)
qed

text \<open>The state after M1 and the generation of the KEM key.\<close>

definition opened :: "node \<Rightarrow> u32 \<Rightarrow> u16 \<Rightarrow> bytes \<Rightarrow> exchange \<Rightarrow> session \<Rightarrow> bool" where
  "opened n ip port key x c \<longleftrightarrow>
    m_m0 c = M0_of x \<and> m_m1 c = M1_of x \<and> m_m2 c = zeros 42 @ x_publicKey x @ zeros 2500 \<and>
    m_m3 c = zeros M3_MAX_BYTES \<and> m_m4 c = zeros M4_BYTES \<and>
    l_session c = x_session x \<and> l_sid c = x_sid x \<and> m_kemKey c = key \<and>
    r_sourceIp (l_packet c) = ip \<and> r_sourcePort (l_packet c) = port \<and>
    config c = config n \<and> m_lms c = m_lms n \<and> m_peerRecord c = m_peerRecord n \<and> m_gcs c = m_gcs n \<and>
    nextq c = nextq n \<and> m_result c = m_result n \<and>
    wire c = wire n @ [(responderIp (config n), protocolPort (config n), datagrams_of MSG_M0_REQ (x_session x) (M0_of x))]"

lemma initiator_opens:
  assumes able: "initiates W e n x" and link: "initiator_linked e ip port result x" and x: "consistent W x"
    and key: "wc_MlKemKey_MakeKey W (e_kemRandom e) = (0, key)" "wc_MlKemKey_EncodePublicKey W key = (0, x_publicKey x)"
  shows "\<exists>c. runStages [initiatorStart e, sendM0 e, receiveM1 e, timedSid0 W e, kemInit W, makeKemKey W e]
      (enterSession n) = (Some True, c) \<and> opened n ip port key x c"
proof -
  note arrays = x [unfolded consistent_def, THEN conjunct1]
  have cfg: "config_arrays (config n)" using able by (simp add: initiates_def node_arrays_def)
  have m0: "buildM0 (config n) (x_nonceA x) = M0_of x"
    using able arrays cfg by (simp add: buildM0_layout M0_of_def spec_suite_def initiates_def exchange_arrays_def)
  have m1: "validateM1 (config n) (M1_of x) (x_nonceA x) = Some (x_nonceB x)"
    using able arrays cfg message_of_lengths(2) [OF arrays]
    by (simp add: validateM1_layout M1_of_def spec_suite_def initiates_def exchange_arrays_def)
  have m2: "write_at 42 (x_publicKey x) (zeros 3342) = zeros 42 @ x_publicKey x @ zeros 2500"
    using arrays write_at_gap [of "[]" 42 "x_publicKey x" 3342] by (simp add: exchange_arrays_def)
  note rx = receiveM1_succeeds [where msg = "M1_of x" and ip = ip and port = port and nonceB = "x_nonceB x"]
  show ?thesis
    using able link x key message_of_lengths(1,2) [OF arrays]
    by (simp add: andThen_def initiatorStart_def clearMessages_def m0 m1 m2 sendM0_succeeds rx kemInit_succeeds
        initiates_def initiator_linked_def timedSid0_def addSha_def consistent_def makeKemKey_def addKem_def opened_def)
qed

text \<open>The state after M2 was sent.\<close>

definition offered :: "node \<Rightarrow> u32 \<Rightarrow> u16 \<Rightarrow> bytes \<Rightarrow> exchange \<Rightarrow> session \<Rightarrow> bool" where
  "offered n ip port key x c \<longleftrightarrow>
    m_m0 c = M0_of x \<and> m_m1 c = M1_of x \<and> take (m2BytesForMode (x_mode x)) (m_m2 c) = M2_of x \<and>
    m_m3 c = zeros M3_MAX_BYTES \<and> m_m4 c = zeros M4_BYTES \<and>
    l_session c = x_session x \<and> l_sid c = x_sid x \<and> m_kemKey c = key \<and> l_hashM2 c = x_hashM2 x \<and>
    config c = config n \<and> m_peerRecord c = m_peerRecord n \<and> m_gcs c = m_gcs n \<and> m_result c = m_result n \<and>
    wire c = wire n @ [(responderIp (config n), protocolPort (config n), datagrams_of MSG_M0_REQ (x_session x) (M0_of x)),
      (ip, port, datagrams_of MSG_M2_INIT (x_session x) (M2_of x))]"

lemma fillM2_fills:
  assumes "exchange_arrays x" and "initiates W e n x" and "config c = config n" and "l_sid c = x_sid x" and "l_qA c = x_qA x"
    and "m_m2 c = zeros 42 @ x_publicKey x @ rest"
  shows "fillM2 c = (Some True, c\<lparr>m_m2 := head2_of x @ x_publicKey x @ rest,
    m_mu := fst (buildM2SignedInput (config n) (x_sid x) (x_versionA x) (x_qA x) (x_publicKey x)), m_signInput := signedA_of x\<rparr>)"
proof -
  have cfg: "config_arrays (config n)" using assms(2) by (simp add: initiates_def node_arrays_def)
  note l = field_lengths [OF assms(1)]
  have "write_at 38 (putU32 (x_qA x)) (write_at 34 (putU32 (x_versionA x)) (write_at 2 (x_sid x) ((m_m2 c)[0 := 1, Suc 0 := MSG_M2_INIT]))) =
      head2_of x @ x_publicKey x @ rest"
    using l assms(6) by (subst header_filled [OF refl]) (simp_all add: head2_of_def)
  moreover have "read_at 42 800 (head2_of x @ x_publicKey x @ rest) = x_publicKey x"
    using l by (simp add: read_at_def)
  moreover have "snd (buildM2SignedInput (config n) (x_sid x) (x_versionA x) (x_qA x) (x_publicKey x)) = signedA_of x"
    using l assms(2) by (subst buildM2SignedInput_layout [OF cfg])
      (simp_all add: signedA_of_def idA_def idB_def initiates_def)
  ultimately show ?thesis
    using assms(2-5) by (simp add: fillM2_def Let_def split_beta initiates_def)
qed

lemma sendM2_succeeds:
  assumes "accepting_net (e_sends e 1) len" and "len = m2BytesForMode (pathMode (config c))" and "take len (m_m2 c) = msg" and "length msg = len"
  shows "sendM2 e c = (Some True, c\<lparr>
      wire := wire c @ [(r_sourceIp (l_packet c), r_sourcePort (l_packet c), datagrams_of MSG_M2_INIT (l_session c) msg)],
      l_metrics := counted_tx msg (l_metrics c)\<rparr>)"
  unfolding sendM2_def using sent [OF assms(1,3,4)] assms(2) by (simp add: m2BytesForMode_def)

lemma initiator_offers:
  assumes able: "initiates W e n x" and link: "initiator_linked e ip port result x" and x: "consistent W x"
    and c: "opened n ip port key x c"
  shows "\<exists>c'. runStages [reserveQA e, timedRuntimeSeed W e, fillM2, signM2 W e, attachPathA, timedHashM2 W e, sendM2 e] c =
      (Some True, c') \<and> offered n ip port key x c'"
proof -
  note arrays = x [unfolded consistent_def, THEN conjunct1]
  note l = field_lengths [OF arrays]
  obtain seed where seed: "runtimeSeed W (puf e) (config n) = Some seed"
    "sign W (m_lms n) (x_qA x) (signedA_of x) seed (e_C e) = Inr (x_signatureA x)"
    using able by (auto simp: initiates_def)
  then obtain r where r: "puf e (config n) = Some r" by (auto simp: runtimeSeed_def split: option.splits)
  let ?filled = "head2_of x @ x_publicKey x @ zeros 2500"
  let ?signed = "head2_of x @ x_publicKey x @ x_signatureA x @ zeros 320"
  have buf: "write_at 842 (x_signatureA x) ?filled = ?signed"
    using l by (simp add: write_at_def drop_zeros)
  have carry: "write_at 3022 (x_pathA x) ?signed = head2_of x @ x_publicKey x @ x_signatureA x @ x_pathA x"
    using l by (simp add: write_at_def drop_zeros zeros_0)
  have full: "take (m2BytesForMode (x_mode x)) (if x_mode x = SignerCarried then head2_of x @ x_publicKey x @ x_signatureA x @ x_pathA x else ?signed) = M2_of x"
    using l by (simp add: M2_of_def carried_def m2BytesForMode_def)
  note fill = fillM2_fills [OF arrays able, where rest = "zeros 2500"]
  note tx = sendM2_succeeds [where len = "m2BytesForMode (x_mode x)" and msg = "M2_of x"]
  have stored: "storedQ c = x_qA x" "\<not> qOutOfRange (x_qA x) c" "e_putOk e" "pathMode (config n) = x_mode x"
    using able c storedQ_cong [of c n] by (simp_all add: opened_def initiates_def qOutOfRange_def)
  have path: "x_mode x = SignerCarried \<Longrightarrow> extractPath (m_lms n) (x_qA x) = Some (x_pathA x)"
    using able by (simp add: initiates_def)
  have net: "accepting_net (e_sends e 1) (m2BytesForMode (x_mode x))" using link by (simp add: initiator_linked_def)
  have hash: "sha256 W (M2_of x) = Inr (x_hashM2 x)" using x by (simp add: consistent_def)
  show ?thesis
    using c path net full message_of_lengths(3) [OF arrays] unfolding opened_def
    by (cases "x_mode x")
      (simp_all add: andThen_def reserveQA_def reserveQ_succeeds [OF stored(1,2)] stored timedRuntimeSeed_def r seed fill signM2_def LmotsLms_sign_def
        buf carry attachPathA_def tx timedHashM2_def hash addPufFe_def addHmac_def addSign_def addSha_def offered_def)
qed


text \<open>The end of the initiator's session.\<close>

definition concluded :: "node \<Rightarrow> u32 \<Rightarrow> u16 \<Rightarrow> exchange \<Rightarrow> session \<Rightarrow> bool" where
  "concluded n ip port x c \<longleftrightarrow>
    l_sessionKey c = x_key x \<and> config c = config n \<and> holds_messages x c \<and>
    wire c = wire n @ [(responderIp (config n), protocolPort (config n), datagrams_of MSG_M0_REQ (x_session x) (M0_of x)),
      (ip, port, datagrams_of MSG_M2_INIT (x_session x) (M2_of x)),
      (ip, port, datagrams_of MSG_M4_INIT_FIN (x_session x) (M4_of x))]"

lemma receiveM3_succeeds:
  assumes "initiator_linked e ip port result x" and "exchange_arrays x" and "offered n ip port key x c" and "initiates W e n x"
  obtains t where "receiveM3 e c = (Some True, c\<lparr>l_packet := packet_of MSG_M3_RESP_FIN (x_session x) (M3_of x) ip port,
      l_metrics := counted_rx (M3_of x) (l_metrics c), m_m3 := M3_of x @ t\<rparr>)"
proof -
  let ?n = "m3BytesForMode (x_mode x)"
  have n: "length (M3_of x) = ?n" "?n \<le> 3378" "0 < ?n"
    using message_of_lengths [OF assms(2)] by (simp_all add: m3BytesForMode_def)
  have c: "l_session c = x_session x" "m_m3 c = zeros 3378" "pathMode (config c) = x_mode x"
    using assms(3,4) by (simp_all add: offered_def initiates_def)
  have h: "hears (e_recvs e 1) MSG_M3_RESP_FIN (x_session x) (x_session x) (M3_of x) ip port"
    using assms(1) by (simp add: initiator_linked_def)
  obtain t where "receiveProtocolMessage (e_recvs e 1) MSG_M3_RESP_FIN (x_session x) (zeros 3378) 3378 (of_nat ?n) True c =
      (Some True, M3_of x @ t,
       c\<lparr>l_packet := packet_of MSG_M3_RESP_FIN (x_session x) (M3_of x) ip port, l_metrics := counted_rx (M3_of x) (l_metrics c)\<rparr>)"
    by (rule heard_prefix [OF h, of 3378 "zeros 3378" "of_nat ?n" True c]) (use n in simp_all)
  then show ?thesis using that c by (simp add: receiveM3_def)
qed

lemma obtainPathB_succeeds:
  assumes "exchange_arrays x" and "initiates W e n x"
  obtains G M where "\<And>c. m_m3 c = M3_of x @ t \<Longrightarrow> config c = config n \<Longrightarrow> m_gcs c = m_gcs n \<Longrightarrow> l_qB c = x_qB x \<Longrightarrow>
    obtainPathB W e c = (Some True, c\<lparr>m_gcs := G c, l_peerPath := x_pathB x, l_metrics := M c\<rparr>)"
proof -
  have *: "fst (obtainPathB W e c) = Some True \<and> l_peerPath (snd (obtainPathB W e c)) = x_pathB x"
    if "m_m3 c = M3_of x @ t" "config c = config n" "m_gcs c = m_gcs n" "l_qB c = x_qB x" for c
    using that assms(2)
    by (cases "x_mode x")
      (auto simp: obtainPathB_def obtainPeerPath_def M3_parts [OF assms(1)] inner_parts [OF assms(1)] initiates_def Let_def
        simp del: drop_append take_append drop_drop split: option.split)
  then have "obtainPathB W e c = (Some True, c\<lparr>m_gcs := m_gcs (snd (obtainPathB W e c)), l_peerPath := x_pathB x,
      l_metrics := l_metrics (snd (obtainPathB W e c))\<rparr>)"
    if "m_m3 c = M3_of x @ t" "config c = config n" "m_gcs c = m_gcs n" "l_qB c = x_qB x" for c
    using that obtainPathB_effect [of W e] unfolding touches_def by (metis prod.collapse)
  then show ?thesis by (rule that)
qed

lemma initiator_verifies:
  assumes able: "initiates W e n x" and link: "initiator_linked e ip port result x" and x: "consistent W x"
    and key: "wc_MlKemKey_Decapsulate W key (x_ciphertext x) = (0, x_secret x)"
    and c: "offered n ip port key x c"
  shows "\<exists>c' t. runStages [receiveM3 e, parseM3, checkPeerB e, obtainPathB W e, verifyM3 W e, decapsulate W e] c = (Some True, c') \<and>
    m_m3 c' = M3_of x @ t \<and> l_sharedSecret c' = x_secret x \<and> r_sourceIp (l_packet c') = ip \<and> r_sourcePort (l_packet c') = port \<and>
    m_m0 c' = M0_of x \<and> m_m1 c' = M1_of x \<and> take (m2BytesForMode (x_mode x)) (m_m2 c') = M2_of x \<and> m_m4 c' = zeros M4_BYTES \<and>
    l_session c' = x_session x \<and> l_sid c' = x_sid x \<and> config c' = config n \<and> m_result c' = m_result n \<and> wire c' = wire c"
proof -
  note arrays = x [unfolded consistent_def, THEN conjunct1]
  note l = field_lengths [OF arrays]
  note parts = M3_parts [OF arrays] inner_parts [OF arrays]
  obtain t where rx: "receiveM3 e c = (Some True, c\<lparr>l_packet := packet_of MSG_M3_RESP_FIN (x_session x) (M3_of x) ip port,
      l_metrics := counted_rx (M3_of x) (l_metrics c), m_m3 := M3_of x @ t\<rparr>)"
    by (rule receiveM3_succeeds [OF link arrays c able])
  have n: "pathMode (config n) = x_mode x" "x_qB x < 1024" "\<not> 1024 \<le> x_qB x"
    "verify W (x_qB x) (signedB_of x) (x_signatureB x) (p_identifier (m_peerRecord n)) (x_pathB x) (p_root (m_peerRecord n))"
    using able by (simp_all add: initiates_def not_le)
  have valid: "config d = config n \<Longrightarrow> m_peerRecord d = m_peerRecord n \<Longrightarrow> validatePeerRecord (e_now e) (x_versionB x) d" for d :: session
    using able validatePeerRecord_frame [of d n "e_now e"] by (simp add: initiates_def)
  have signedB: "snd (buildM3SignedInput (config n) (x_sid x) (x_hashM2 x) (x_versionB x) (x_qB x) (x_ciphertext x)) = signedB_of x"
    using able l by (subst buildM3SignedInput_layout) (simp_all add: initiates_def node_arrays_def signedB_of_def idA_def idB_def)
  obtain G M where path: "\<And>c. m_m3 c = M3_of x @ t \<Longrightarrow> config c = config n \<Longrightarrow> m_gcs c = m_gcs n \<Longrightarrow> l_qB c = x_qB x \<Longrightarrow>
    obtainPathB W e c = (Some True, c\<lparr>m_gcs := G c, l_peerPath := x_pathB x, l_metrics := M c\<rparr>)"
    using obtainPathB_succeeds [OF arrays able] by metis
  show ?thesis
    using c [unfolded offered_def]
    by (simp add: andThen_def rx parseM3_def parts n checkPeerB_def guard_def valid path verifyM3_def
        signedB verify_prefix [OF l(4)] decapsulate_def key addVerify_def addKem_def split_beta
        del: drop_append take_append drop_drop)
qed

lemma M4_buffer:
  assumes "exchange_arrays x"
  shows "write_at 34 (x_tauA x) (write_at 2 (x_sid x) ((zeros 66)[0 := PROTOCOL_VERSION, Suc 0 := MSG_M4_INIT_FIN])) = M4_of x"
  using field_lengths [OF assms] by (simp add: two_bytes layout M4_of_def del: append_assoc append_Cons)

lemma sendM4_succeeds:
  assumes "accepting_net (e_sends e 2) M4_BYTES" and "exchange_arrays x" and "m_m4 c = zeros M4_BYTES"
    and "l_sid c = x_sid x" and "l_tauA c = x_tauA x"
  shows "sendM4 e c = (Some True, c\<lparr>m_m4 := M4_of x,
      wire := wire c @ [(r_sourceIp (l_packet c), r_sourcePort (l_packet c), datagrams_of MSG_M4_INIT_FIN (l_session c) (M4_of x))],
      l_metrics := counted_tx (M4_of x) (l_metrics c)\<rparr>)"
  unfolding sendM4_def using sent [OF assms(1), of "M4_of x" "M4_of x"] message_of_lengths(6) [OF assms(2)] assms(3-5)
  by (simp add: M4_buffer [OF assms(2)] Let_def)

lemma receiveResult_succeeds:
  assumes "initiator_linked e ip port result x" and "l_session c = x_session x" and "length (m_result c) = 128"
  obtains c' where "receiveResult e c = (Some True, c')" and "l_sessionKey c' = l_sessionKey c" and "config c' = config c"
    and "m_m4 c' = m_m4 c" and "wire c' = wire c"
proof -
  have h: "hears (e_recvs e 2) MSG_RESULT (x_session x) (x_session x) result ip port" and r: "length result = 116" "result ! 0 = 0"
    using assms(1) by (simp_all add: initiator_linked_def)
  let ?c = "c\<lparr>l_metrics := (l_metrics c)\<lparr>protocolUs := e_us e 12\<rparr>\<rparr>"
  obtain t where "receiveProtocolMessage (e_recvs e 2) MSG_RESULT (x_session x) (m_result c) 128 116 False ?c =
      (Some True, result @ t, ?c\<lparr>l_packet := packet_of MSG_RESULT (x_session x) result ip port, l_metrics := l_metrics ?c\<rparr>)"
    by (rule heard_prefix [OF h, of 128 "m_result c" 116 False ?c]) (use r assms(3) in simp_all)
  then have "fst (receiveResult e c) = Some True"
    using r assms(2) by (simp add: receiveResult_def Let_def nth_append)
  then obtain c' where "receiveResult e c = (Some True, c')" by (metis prod.collapse)
  moreover have "spares (\<lambda>c. (l_sessionKey c, config c, m_m4 c, wire c)) (receiveResult e)"
    by (rule spares_touches, rule effects) simp
  ultimately show ?thesis using that by (auto dest: spares_result)
qed

lemma initiator_concludes:
  assumes able: "initiates W e n x" and link: "initiator_linked e ip port result x" and x: "consistent W x"
    and c: "m_m3 c = M3_of x @ t" "l_sharedSecret c = x_secret x" "r_sourceIp (l_packet c) = ip" "r_sourcePort (l_packet c) = port"
      "m_m0 c = M0_of x" "m_m1 c = M1_of x" "take (m2BytesForMode (x_mode x)) (m_m2 c) = M2_of x" "m_m4 c = zeros M4_BYTES"
      "l_session c = x_session x" "l_sid c = x_sid x" "config c = config n" "m_result c = m_result n"
  obtains c' where "runStages [\<lambda>c. timedTranscriptHash W e (m3Inner c) c, timedSessionKeys W e, timedTagB W e, checkTauB,
      timedTagA W e, sendM4 e, receiveResult e] c = (Some True, c')"
    and "l_sessionKey c' = x_key x" and "config c' = config n" and "m_m4 c' = M4_of x"
    and "wire c' = wire c @ [(ip, port, datagrams_of MSG_M4_INIT_FIN (x_session x) (M4_of x))]"
proof -
  note arrays = x [unfolded consistent_def, THEN conjunct1]
  note parts = M3_parts [OF arrays]
  have mode: "pathMode (config n) = x_mode x" and res: "length (m_result n) = 128"
    using able by (simp_all add: initiates_def node_arrays_def)
  have net: "accepting_net (e_sends e 2) M4_BYTES" using link by (simp add: initiator_linked_def)
  have "\<exists>d. runStages [\<lambda>c. timedTranscriptHash W e (m3Inner c) c, timedSessionKeys W e, timedTagB W e, checkTauB,
      timedTagA W e, sendM4 e] c = (Some True, d) \<and> l_sessionKey d = x_key x \<and> config d = config n \<and> m_m4 d = M4_of x \<and>
      l_session d = x_session x \<and> m_result d = m_result n \<and>
      wire d = wire c @ [(ip, port, datagrams_of MSG_M4_INIT_FIN (x_session x) (M4_of x))]"
    using c x [unfolded consistent_def] mode net
    by (simp add: andThen_def timedTranscriptHash_def m3Inner_def parts timedSessionKeys_def timedTagB_def timedTagA_def checkTauB_def
        guard_def addSha_def addHmac_def sendM4_succeeds [where x = x] del: drop_append take_append drop_drop)
  then obtain d where d: "runStages [\<lambda>c. timedTranscriptHash W e (m3Inner c) c, timedSessionKeys W e, timedTagB W e, checkTauB,
      timedTagA W e, sendM4 e] c = (Some True, d)" "l_sessionKey d = x_key x" "config d = config n" "m_m4 d = M4_of x"
      "l_session d = x_session x" "m_result d = m_result n"
      "wire d = wire c @ [(ip, port, datagrams_of MSG_M4_INIT_FIN (x_session x) (M4_of x))]" by blast
  obtain c' where c': "receiveResult e d = (Some True, c')" "l_sessionKey c' = l_sessionKey d" "config c' = config d"
      "m_m4 c' = m_m4 d" "wire c' = wire d"
    by (rule receiveResult_succeeds [OF link d(5)]) (use d(6) res in simp_all)
  have "runStages ([\<lambda>c. timedTranscriptHash W e (m3Inner c) c, timedSessionKeys W e, timedTagB W e, checkTauB,
      timedTagA W e, sendM4 e] @ [receiveResult e]) c = (Some True, c')"
    unfolding runStages_append andThen_True using d(1) c'(1) by (auto simp: andThen_def)
  then show ?thesis using that c'(2-5) d(2-7) by simp
qed

section \<open>The whole session\<close>

lemma initiator_completes:
  assumes able: "initiates W e n x" and link: "initiator_linked e ip port result x" and x: "consistent W x"
  obtains c where "runStages (initiatorStages W e) (enterSession n) = (Some True, c)" and "concluded n ip port x c"
proof -
  obtain key where key: "wc_MlKemKey_MakeKey W (e_kemRandom e) = (0, key)" "wc_MlKemKey_EncodePublicKey W key = (0, x_publicKey x)"
      "wc_MlKemKey_Decapsulate W key (x_ciphertext x) = (0, x_secret x)"
    using able by (auto simp: initiates_def)
  let ?P1 = "[initiatorStart e, sendM0 e, receiveM1 e, timedSid0 W e, kemInit W, makeKemKey W e]"
  let ?P2 = "[reserveQA e, timedRuntimeSeed W e, fillM2, signM2 W e, attachPathA, timedHashM2 W e, sendM2 e]"
  let ?P3 = "[receiveM3 e, parseM3, checkPeerB e, obtainPathB W e, verifyM3 W e, decapsulate W e]"
  let ?P4 = "[\<lambda>c. timedTranscriptHash W e (m3Inner c) c, timedSessionKeys W e, timedTagB W e, checkTauB,
      timedTagA W e, sendM4 e, receiveResult e]"
  obtain c1 where c1: "runStages ?P1 (enterSession n) = (Some True, c1)" "opened n ip port key x c1"
    using initiator_opens [OF able link x key(1,2)] by blast
  obtain c2 where c2: "runStages ?P2 c1 = (Some True, c2)" "offered n ip port key x c2"
    using initiator_offers [OF able link x c1(2)] by blast
  from initiator_verifies [OF able link x key(3) c2(2)]
  obtain c3 t where run3: "runStages ?P3 c2 = (Some True, c3)" and wire3: "wire c3 = wire c2"
    and c3: "m_m3 c3 = M3_of x @ t" "l_sharedSecret c3 = x_secret x" "r_sourceIp (l_packet c3) = ip" "r_sourcePort (l_packet c3) = port"
      "m_m0 c3 = M0_of x" "m_m1 c3 = M1_of x" "take (m2BytesForMode (x_mode x)) (m_m2 c3) = M2_of x" "m_m4 c3 = zeros M4_BYTES"
      "l_session c3 = x_session x" "l_sid c3 = x_sid x" "config c3 = config n" "m_result c3 = m_result n"
    by blast
  obtain c4 where c4: "runStages ?P4 c3 = (Some True, c4)" "l_sessionKey c4 = x_key x" "config c4 = config n" "m_m4 c4 = M4_of x"
      "wire c4 = wire c3 @ [(ip, port, datagrams_of MSG_M4_INIT_FIN (x_session x) (M4_of x))]"
    by (rule initiator_concludes [OF able link x c3])
  have "list_all (spares (\<lambda>c. (m_m0 c, m_m1 c, m_m2 c, m_m3 c))) ?P4"
    by simp (intro conjI, (rule spares_touches, rule effects, simp)+)
  from spares_result [OF spares_run [OF this] c4(1)] have "holds_messages x c4"
    using c3 c4(4) message_of_lengths(5) [OF x [unfolded consistent_def, THEN conjunct1]] by (simp add: holds_messages_def)
  note held = this
  have "initiatorStages W e = ?P1 @ ?P2 @ ?P3 @ ?P4" by (simp add: initiatorStages_def)
  then have "runStages (initiatorStages W e) (enterSession n) = (Some True, c4)"
    unfolding runStages_append andThen_True using c1(1) c2(1) run3 c4(1) by (simp only: runStages_append andThen_True) blast
  moreover have "concluded n ip port x c4" using c4 wire3 c2(2) held by (simp add: concluded_def offered_def)
  ultimately show ?thesis by (rule that)
qed

end
