(* ===== verification/HonestResponder.thy ===== *)
theory HonestResponder
  imports Exchange CounterSafety
begin

text \<open>
  The responder's side of an undisturbed exchange, as \<open>HonestInitiator\<close> has the
  initiator's.
\<close>

section \<open>What the responder needs\<close>

definition responds :: "wolf \<Rightarrow> env \<Rightarrow> node \<Rightarrow> exchange \<Rightarrow> bool" where
  "responds W e n x \<longleftrightarrow>
    node_arrays n \<and> role (config n) = Responder \<and> pathMode (config n) = x_mode x \<and>
    deviceId (config n) = x_idB x \<and> peerId (config n) = x_idA x \<and> credentialVersion (config n) = x_versionB x \<and>
    e_nonce e = x_nonceB x \<and> wc_MlKemKey_Init W = 0 \<and>
    x_qA x < 1024 \<and> validatePeerRecord (e_now e) (x_versionA x) n \<and>
    (x_mode x = RepositoryAssisted \<longrightarrow>
      (\<exists>op g. fetchPeerPath W (x_versionA x) (x_qA x) (e_gcsUs e) (e_gcs e) (m_gcs n) = Some (Some (x_pathA x), op, g))) \<and>
    verify W (x_qA x) (signedA_of x) (x_signatureA x) (p_identifier (m_peerRecord n)) (x_pathA x) (p_root (m_peerRecord n)) \<and>
    (\<exists>key. wc_MlKemKey_DecodePublicKey W (x_publicKey x) = (0, key) \<and>
      wc_MlKemKey_Encapsulate W key (e_kemRandom e) = (0, x_ciphertext x, x_secret x)) \<and>
    storedQ n = x_qB x \<and> \<not> qOutOfRange (x_qB x) n \<and> e_putOk e \<and>
    (\<exists>seed. runtimeSeed W (puf e) (config n) = Some seed \<and>
      sign W (m_lms n) (x_qB x) (signedB_of x) seed (e_C e) = Inr (x_signatureB x)) \<and>
    (x_mode x = SignerCarried \<longrightarrow> extractPath (m_lms n) (x_qB x) = Some (x_pathB x))"

definition responder_linked :: "env \<Rightarrow> u32 \<Rightarrow> u16 \<Rightarrow> exchange \<Rightarrow> bool" where
  "responder_linked e ip port x \<longleftrightarrow>
    accepting_net (e_sends e 0) M1_BYTES \<and> accepting_net (e_sends e 1) (m3BytesForMode (x_mode x)) \<and>
    accepting_net (e_sends e 2) RESULT_BYTES \<and>
    hears (e_recvs e 0) MSG_M0_REQ 0 (x_session x) (M0_of x) ip port \<and>
    hears (e_recvs e 1) MSG_M2_INIT (x_session x) (x_session x) (M2_of x) ip port \<and>
    hears (e_recvs e 2) MSG_M4_INIT_FIN (x_session x) (x_session x) (M4_of x) ip port"

section \<open>M0 to M2\<close>

text \<open>The state after M1 was sent.\<close>

definition challenged :: "node \<Rightarrow> u32 \<Rightarrow> u16 \<Rightarrow> exchange \<Rightarrow> session \<Rightarrow> bool" where
  "challenged n ip port x c \<longleftrightarrow>
    m_m0 c = M0_of x \<and> m_m1 c = M1_of x \<and> m_m2 c = zeros M2_MAX_BYTES \<and> m_m3 c = zeros M3_MAX_BYTES \<and> m_m4 c = zeros M4_BYTES \<and>
    m_result c = zeros 128 \<and> l_session c = x_session x \<and> l_sid c = x_sid x \<and>
    config c = config n \<and> m_lms c = m_lms n \<and> m_peerRecord c = m_peerRecord n \<and> m_gcs c = m_gcs n \<and> nextq c = nextq n \<and>
    wire c = wire n @ [(ip, port, datagrams_of MSG_M1_CHAL (x_session x) (M1_of x))]"

lemma receiveM0_succeeds:
  assumes "hears (e_recvs e 0) MSG_M0_REQ 0 session msg ip port" and "length msg = M0_BYTES"
  shows "receiveM0 e c = (Some True, (clearMessages c)\<lparr>m_result := zeros 128, l_packet := packet_of MSG_M0_REQ session msg ip port,
      l_metrics := counted_rx msg (l_metrics c), m_m0 := msg\<rparr>)"
proof -
  let ?c = "(clearMessages c)\<lparr>m_result := zeros 128\<rparr>"
  obtain t where "receiveProtocolMessage (e_recvs e 0) MSG_M0_REQ 0 (zeros 86) 86 86 True ?c = (Some True, msg @ t,
      ?c\<lparr>l_packet := packet_of MSG_M0_REQ session msg ip port, l_metrics := counted_rx msg (l_metrics ?c)\<rparr>)"
    "length (msg @ t) = length (zeros 86)"
    by (rule heard_prefix [OF assms(1), of 86 "zeros 86" 86 True ?c]) (use assms(2) in simp_all)
  then show ?thesis using assms(2) by (simp add: receiveM0_def clearMessages_def)
qed

lemma sendM1_succeeds:
  assumes "accepting_net (e_sends e 0) M1_BYTES" and "length (m_m1 c) = M1_BYTES"
  shows "sendM1 e ip port c = (Some True, c\<lparr>
      wire := wire c @ [(ip, port, datagrams_of MSG_M1_CHAL (l_session c) (m_m1 c))], l_metrics := counted_tx (m_m1 c) (l_metrics c)\<rparr>)"
  unfolding sendM1_def using sent [OF assms(1) _ assms(2)] assms(2) by simp

lemma responder_challenges:
  assumes able: "responds W e n x" and link: "responder_linked e ip port x" and x: "consistent W x"
  shows "\<exists>c. runStages [receiveM0 e, answerM0 e, timedSid0 W e, sendM1 e ip port] (enterSession n) = (Some True, c) \<and>
    challenged n ip port x c"
proof -
  note arrays = x [unfolded consistent_def, THEN conjunct1]
  have cfg: "config_arrays (config n)" using able by (simp add: responds_def node_arrays_def)
  have nonce: "read_at 66 16 (M0_of x) = x_nonceA x"
    using arrays by (simp add: M0_of_def exchange_arrays_def read_at_def)
  have m0: "validateM0 (config n) (M0_of x) (x_nonceA x)"
    using able arrays cfg message_of_lengths(1) [OF arrays] validateM0_layout [of "config n" "M0_of x"] unfolding nonce
    by (simp add: M0_of_def spec_suite_def responds_def exchange_arrays_def)
  have m1: "buildM1 (config n) (x_nonceA x) (x_nonceB x) = M1_of x"
    using able arrays cfg by (simp add: buildM1_layout M1_of_def spec_suite_def responds_def exchange_arrays_def)
  note rx = receiveM0_succeeds [where msg = "M0_of x" and ip = ip and port = port and session = "x_session x"]
  show ?thesis
    using able link x message_of_lengths(1,2) [OF arrays]
    by (simp add: andThen_def rx answerM0_def clearMessages_def nonce m0 m1 sendM1_succeeds timedSid0_def addSha_def
        consistent_def responds_def responder_linked_def challenged_def)
qed

text \<open>The state after M2 was verified.\<close>

definition convinced :: "node \<Rightarrow> u32 \<Rightarrow> u16 \<Rightarrow> exchange \<Rightarrow> session \<Rightarrow> bool" where
  "convinced n ip port x c \<longleftrightarrow>
    m_m0 c = M0_of x \<and> m_m1 c = M1_of x \<and> take (m2BytesForMode (x_mode x)) (m_m2 c) = M2_of x \<and>
    m_m3 c = zeros M3_MAX_BYTES \<and> m_m4 c = zeros M4_BYTES \<and>
    m_result c = zeros 128 \<and> l_session c = x_session x \<and> l_sid c = x_sid x \<and> l_hashM2 c = x_hashM2 x \<and>
    config c = config n \<and> m_lms c = m_lms n \<and> nextq c = nextq n \<and>
    wire c = wire n @ [(ip, port, datagrams_of MSG_M1_CHAL (x_session x) (M1_of x))]"

lemma receiveM2_succeeds:
  assumes "responder_linked e ip port x" and "exchange_arrays x" and "challenged n ip port x c" and "responds W e n x"
  obtains t where "receiveM2 e c = (Some True, c\<lparr>l_packet := packet_of MSG_M2_INIT (x_session x) (M2_of x) ip port,
      l_metrics := counted_rx (M2_of x) (l_metrics c), m_m2 := M2_of x @ t\<rparr>)"
proof -
  let ?n = "m2BytesForMode (x_mode x)"
  have n: "length (M2_of x) = ?n" "?n \<le> 3342" "0 < ?n"
    using message_of_lengths [OF assms(2)] by (simp_all add: m2BytesForMode_def)
  have c: "l_session c = x_session x" "m_m2 c = zeros 3342" "pathMode (config c) = x_mode x"
    using assms(3,4) by (simp_all add: challenged_def responds_def)
  have h: "hears (e_recvs e 1) MSG_M2_INIT (x_session x) (x_session x) (M2_of x) ip port"
    using assms(1) by (simp add: responder_linked_def)
  obtain t where "receiveProtocolMessage (e_recvs e 1) MSG_M2_INIT (x_session x) (zeros 3342) 3342 (of_nat ?n) True c =
      (Some True, M2_of x @ t,
       c\<lparr>l_packet := packet_of MSG_M2_INIT (x_session x) (M2_of x) ip port, l_metrics := counted_rx (M2_of x) (l_metrics c)\<rparr>)"
    by (rule heard_prefix [OF h, of 3342 "zeros 3342" "of_nat ?n" True c]) (use n in simp_all)
  then show ?thesis using that c by (simp add: receiveM2_def)
qed

lemma obtainPathA_succeeds:
  assumes "exchange_arrays x" and "responds W e n x"
  obtains G M where "\<And>c. m_m2 c = M2_of x @ t \<Longrightarrow> config c = config n \<Longrightarrow> m_gcs c = m_gcs n \<Longrightarrow> l_qA c = x_qA x \<Longrightarrow>
    obtainPathA W e c = (Some True, c\<lparr>m_gcs := G c, l_peerPath := x_pathA x, l_metrics := M c\<rparr>)"
proof -
  have *: "fst (obtainPathA W e c) = Some True \<and> l_peerPath (snd (obtainPathA W e c)) = x_pathA x"
    if "m_m2 c = M2_of x @ t" "config c = config n" "m_gcs c = m_gcs n" "l_qA c = x_qA x" for c
    using that assms(2)
    by (cases "x_mode x")
      (auto simp: obtainPathA_def obtainPeerPath_def M2_parts [OF assms(1)] responds_def Let_def
        simp del: drop_append take_append drop_drop split: option.split)
  then have "obtainPathA W e c = (Some True, c\<lparr>m_gcs := m_gcs (snd (obtainPathA W e c)), l_peerPath := x_pathA x,
      l_metrics := l_metrics (snd (obtainPathA W e c))\<rparr>)"
    if "m_m2 c = M2_of x @ t" "config c = config n" "m_gcs c = m_gcs n" "l_qA c = x_qA x" for c
    using that obtainPathA_effect [of W e] unfolding touches_def by (metis prod.collapse)
  then show ?thesis by (rule that)
qed

lemma responder_verifies:
  assumes able: "responds W e n x" and link: "responder_linked e ip port x" and x: "consistent W x"
    and c: "challenged n ip port x c"
  shows "\<exists>c'. runStages [receiveM2 e, parseM2, checkPeerA e, timedHashM2 W e, obtainPathA W e, verifyM2 W e] c = (Some True, c') \<and>
    convinced n ip port x c'"
proof -
  note arrays = x [unfolded consistent_def, THEN conjunct1]
  note l = field_lengths [OF arrays]
  obtain t where rx: "receiveM2 e c = (Some True, c\<lparr>l_packet := packet_of MSG_M2_INIT (x_session x) (M2_of x) ip port,
      l_metrics := counted_rx (M2_of x) (l_metrics c), m_m2 := M2_of x @ t\<rparr>)"
    by (rule receiveM2_succeeds [OF link arrays c able])
  have n: "pathMode (config n) = x_mode x" "x_qA x < 1024" "\<not> 1024 \<le> x_qA x"
    "verify W (x_qA x) (signedA_of x) (x_signatureA x) (p_identifier (m_peerRecord n)) (x_pathA x) (p_root (m_peerRecord n))"
    using able by (simp_all add: responds_def not_le)
  have valid: "config d = config n \<Longrightarrow> m_peerRecord d = m_peerRecord n \<Longrightarrow> validatePeerRecord (e_now e) (x_versionA x) d" for d :: session
    using able validatePeerRecord_frame [of d n "e_now e"] by (simp add: responds_def)
  have signedA: "snd (buildM2SignedInput (config n) (x_sid x) (x_versionA x) (x_qA x) (x_publicKey x)) = signedA_of x"
    using able l by (subst buildM2SignedInput_layout) (simp_all add: responds_def node_arrays_def signedA_of_def idA_def idB_def)
  obtain G M where path: "\<And>c. m_m2 c = M2_of x @ t \<Longrightarrow> config c = config n \<Longrightarrow> m_gcs c = m_gcs n \<Longrightarrow> l_qA c = x_qA x \<Longrightarrow>
    obtainPathA W e c = (Some True, c\<lparr>m_gcs := G c, l_peerPath := x_pathA x, l_metrics := M c\<rparr>)"
    using obtainPathA_succeeds [OF arrays able] by metis
  have whole: "take (m2BytesForMode (x_mode x)) (M2_of x @ t) = M2_of x" using message_of_lengths(3) [OF arrays] by simp
  have hash: "sha256 W (M2_of x) = Inr (x_hashM2 x)" using x by (simp add: consistent_def)
  show ?thesis
    using c [unfolded challenged_def]
    by (simp add: andThen_def rx parseM2_def M2_parts [OF arrays] n checkPeerA_def guard_def valid path verifyM2_def timedHashM2_def whole hash
        signedA verify_prefix [OF l(3)] addVerify_def addSha_def split_beta convinced_def Let_def
        del: drop_append take_append drop_drop)
qed

section \<open>M3\<close>

text \<open>The state after the signed part of M3 was filled in.\<close>

definition answered :: "node \<Rightarrow> u32 \<Rightarrow> u16 \<Rightarrow> exchange \<Rightarrow> session \<Rightarrow> bool" where
  "answered n ip port x c \<longleftrightarrow>
    m_m0 c = M0_of x \<and> m_m1 c = M1_of x \<and> take (m2BytesForMode (x_mode x)) (m_m2 c) = M2_of x \<and>
    m_m3 c = zeros 36 @ inner_of x @ zeros (3342 - m3InnerBytesForMode (x_mode x)) \<and> m_m4 c = zeros M4_BYTES \<and>
    m_result c = zeros 128 \<and> l_session c = x_session x \<and> l_sid c = x_sid x \<and> l_sharedSecret c = x_secret x \<and>
    config c = config n \<and>
    wire c = wire n @ [(ip, port, datagrams_of MSG_M1_CHAL (x_session x) (M1_of x))]"

lemma fillM3Inner_fills:
  assumes "exchange_arrays x" and "responds W e n x" and "config c = config n" and "l_sid c = x_sid x" and "l_qB c = x_qB x"
    and "l_hashM2 c = x_hashM2 x" and "m_m3 c = zeros 78 @ x_ciphertext x @ rest"
  shows "fillM3Inner c = (Some True, c\<lparr>m_m3 := zeros 36 @ head3_of x @ x_ciphertext x @ rest,
    m_mu := fst (buildM3SignedInput (config n) (x_sid x) (x_hashM2 x) (x_versionB x) (x_qB x) (x_ciphertext x)),
    m_signInput := signedB_of x\<rparr>)"
proof -
  have cfg: "config_arrays (config n)" using assms(2) by (simp add: responds_def node_arrays_def)
  note l = field_lengths [OF assms(1)]
  let ?b = "zeros 42 @ x_ciphertext x @ rest"
  have m3: "m_m3 c = zeros 36 @ ?b" using assms(7) zeros_add [of 36 42] by simp
  have "write_at 38 (putU32 (x_qB x)) (write_at 34 (putU32 (x_versionB x)) (write_at 2 (x_sid x) (?b[0 := 1, Suc 0 := MSG_M3_INNER]))) =
      head3_of x @ x_ciphertext x @ rest"
    using l by (subst header_filled [OF refl]) (simp_all add: head3_of_def)
  then have "write_at 74 (putU32 (x_qB x)) (write_at 70 (putU32 (x_versionB x)) (write_at 38 (x_sid x) ((m_m3 c)[36 := 1, 37 := MSG_M3_INNER]))) =
      zeros 36 @ head3_of x @ x_ciphertext x @ rest"
    unfolding m3 by (simp add: list_update_append write_at_behind)
  moreover have "read_at 78 768 (zeros 36 @ head3_of x @ x_ciphertext x @ rest) = x_ciphertext x"
    using l by (simp add: read_at_def)
  moreover have "snd (buildM3SignedInput (config n) (x_sid x) (x_hashM2 x) (x_versionB x) (x_qB x) (x_ciphertext x)) = signedB_of x"
    using l assms(2) by (subst buildM3SignedInput_layout [OF cfg])
      (simp_all add: signedB_of_def idA_def idB_def responds_def)
  ultimately show ?thesis
    using assms(2-6) by (simp add: fillM3Inner_def Let_def split_beta responds_def)
qed

lemma responder_answers:
  assumes able: "responds W e n x" and x: "consistent W x" and c: "convinced n ip port x c"
  shows "\<exists>c'. runStages [kemInit W, encapsulate W e, reserveQB e, timedRuntimeSeed W e, fillM3Inner, signM3 W e, attachPathB] c =
      (Some True, c') \<and> answered n ip port x c'"
proof -
  note arrays = x [unfolded consistent_def, THEN conjunct1]
  note l = field_lengths [OF arrays]
  obtain seed where seed: "runtimeSeed W (puf e) (config n) = Some seed"
    "sign W (m_lms n) (x_qB x) (signedB_of x) seed (e_C e) = Inr (x_signatureB x)"
    using able by (auto simp: responds_def)
  then obtain r where r: "puf e (config n) = Some r" by (auto simp: runtimeSeed_def split: option.splits)
  obtain key where kem: "wc_MlKemKey_DecodePublicKey W (x_publicKey x) = (0, key)"
    "wc_MlKemKey_Encapsulate W key (e_kemRandom e) = (0, x_ciphertext x, x_secret x)" "wc_MlKemKey_Init W = 0"
    using able by (auto simp: responds_def)
  have "read_at 42 800 (take (m2BytesForMode (x_mode x)) (m_m2 c)) = x_publicKey x"
    using M2_parts(6) [OF arrays, of "[]"] c by (simp add: convinced_def)
  then have pk: "read_at 42 800 (m_m2 c) = x_publicKey x"
    by (simp add: read_at_def m2BytesForMode_def take_drop split: if_splits)
  have ct: "write_at 78 (x_ciphertext x) (zeros 3378) = zeros 78 @ x_ciphertext x @ zeros 2532"
    using l write_at_gap [of "[]" 78 "x_ciphertext x" 3378] by simp
  let ?filled = "zeros 36 @ head3_of x @ x_ciphertext x @ zeros 2532"
  let ?signed = "zeros 36 @ head3_of x @ x_ciphertext x @ x_signatureB x @ zeros 352"
  have buf: "write_at 846 (x_signatureB x) ?filled = ?signed"
    using l by (simp add: write_at_def drop_zeros zeros_0)
  have carry: "write_at 3026 (x_pathB x) ?signed = zeros 36 @ head3_of x @ x_ciphertext x @ x_signatureB x @ x_pathB x @ zeros 32"
    using l by (simp add: write_at_def drop_zeros zeros_0)
  have stored: "storedQ d = x_qB x" "\<not> qOutOfRange (x_qB x) d"
    if "config d = config n" "nextq d = nextq n" for d :: session
    using able that storedQ_cong [of d n] by (simp_all add: responds_def qOutOfRange_def)
  have n: "e_putOk e" "pathMode (config n) = x_mode x" using able by (simp_all add: responds_def)
  have path: "x_mode x = SignerCarried \<Longrightarrow> extractPath (m_lms n) (x_qB x) = Some (x_pathB x)"
    using able by (simp add: responds_def)
  note fill = fillM3Inner_fills [OF arrays able, where rest = "zeros 2532"]
  show ?thesis
    using c [unfolded convinced_def] path
    by (cases "x_mode x")
      (simp_all add: andThen_def kemInit_succeeds kem encapsulate_def pk ct addKem_def reserveQB_def reserveQ_succeeds stored n
        timedRuntimeSeed_def r seed addPufFe_def addHmac_def fill signM3_def LmotsLms_sign_def addSign_def buf attachPathB_def carry
        answered_def inner_of_def carried_def m3InnerBytesForMode_def)
qed

text \<open>The state after M3 was sent.\<close>

definition committed :: "node \<Rightarrow> u32 \<Rightarrow> u16 \<Rightarrow> exchange \<Rightarrow> session \<Rightarrow> bool" where
  "committed n ip port x c \<longleftrightarrow>
    m_m0 c = M0_of x \<and> m_m1 c = M1_of x \<and> take (m2BytesForMode (x_mode x)) (m_m2 c) = M2_of x \<and>
    take (m3BytesForMode (x_mode x)) (m_m3 c) = M3_of x \<and>
    m_m4 c = zeros M4_BYTES \<and> m_result c = zeros 128 \<and> l_session c = x_session x \<and> l_sid c = x_sid x \<and>
    l_transcriptHash c = x_transcript x \<and> l_confirmA c = x_confirmA x \<and> l_sessionKey c = x_key x \<and> config c = config n \<and>
    wire c = wire n @ [(ip, port, datagrams_of MSG_M1_CHAL (x_session x) (M1_of x)),
      (ip, port, datagrams_of MSG_M3_RESP_FIN (x_session x) (M3_of x))]"

lemma fillM3Outer_fills:
  assumes "exchange_arrays x" and "config c = config n" and "pathMode (config n) = x_mode x" and "l_sid c = x_sid x" and "l_tauB c = x_tauB x"
    and "m_m3 c = zeros 36 @ inner_of x @ zeros (3342 - m3InnerBytesForMode (x_mode x))"
  shows "fillM3Outer c = (Some True, c\<lparr>m_m3 := M3_of x @ zeros (3310 - m3InnerBytesForMode (x_mode x))\<rparr>)"
proof -
  let ?L = "m3InnerBytesForMode (x_mode x)"
  let ?tail = "inner_of x @ zeros (3342 - ?L)"
  let ?head = "[PROTOCOL_VERSION, MSG_M3_RESP_FIN] @ x_sid x @ putU16 (of_nat ?L)"
  note l = field_lengths [OF assms(1)] message_of_lengths(4) [OF assms(1)]
  have L: "?L = 2990 \<or> ?L = 3310" by (rule inner_bytes_cases)
  have "(m_m3 c)[0 := 1, Suc 0 := MSG_M3_RESP_FIN] = [PROTOCOL_VERSION, MSG_M3_RESP_FIN] @ zeros 34 @ ?tail"
    unfolding assms(6) using two_bytes [of 36] by (simp add: list_update_append)
  then have "write_at 34 (putU16 (of_nat ?L)) (write_at 2 (x_sid x) ((m_m3 c)[0 := 1, Suc 0 := MSG_M3_RESP_FIN])) = ?head @ ?tail"
    using l by (simp add: write_at_def drop_zeros zeros_0)
  moreover have "write_at (36 + ?L) (x_tauB x) (?head @ ?tail) = ?head @ inner_of x @ x_tauB x @ zeros (3310 - ?L)"
    using l L by (auto simp: write_at_def drop_zeros)
  ultimately show ?thesis using assms(2-5) by (simp add: fillM3Outer_def Let_def M3_of_def)
qed

lemma sendM3_succeeds:
  assumes "accepting_net (e_sends e 1) len" and "len = m3BytesForMode (pathMode (config c))" and "take len (m_m3 c) = msg" and "length msg = len"
  shows "sendM3 e ip port c = (Some True, c\<lparr>
      wire := wire c @ [(ip, port, datagrams_of MSG_M3_RESP_FIN (l_session c) msg)], l_metrics := counted_tx msg (l_metrics c)\<rparr>)"
  unfolding sendM3_def using sent [OF assms(1,3,4)] assms(2) by (simp add: m3BytesForMode_def)

lemma responder_commits:
  assumes able: "responds W e n x" and link: "responder_linked e ip port x" and x: "consistent W x"
    and c: "answered n ip port x c"
  shows "\<exists>c'. runStages [\<lambda>c. timedTranscriptHash W e (m3Inner c) c, timedSessionKeys W e, timedTagB W e, fillM3Outer, sendM3 e ip port] c =
      (Some True, c') \<and> committed n ip port x c'"
proof -
  note arrays = x [unfolded consistent_def, THEN conjunct1]
  note l = message_of_lengths [OF arrays]
  have mode: "pathMode (config n) = x_mode x" using able by (simp add: responds_def)
  have inner: "read_at 36 (m3InnerBytesForMode (x_mode x)) (zeros 36 @ inner_of x @ t) = inner_of x" for t
    using l by (simp add: read_at_def)
  note tx = sendM3_succeeds [where len = "m3BytesForMode (x_mode x)" and msg = "M3_of x"]
  show ?thesis
    using c [unfolded answered_def] x [unfolded consistent_def] mode link l(5)
    by (simp add: andThen_def timedTranscriptHash_def m3Inner_def inner timedSessionKeys_def timedTagB_def addSha_def addHmac_def
        fillM3Outer_fills [where n = n and x = x] tx committed_def responder_linked_def)
qed

section \<open>M4 and the result\<close>

lemma M4_parts:
  assumes "exchange_arrays x"
  shows "M4_of x ! 0 = PROTOCOL_VERSION" "M4_of x ! Suc 0 = MSG_M4_INIT_FIN"
    "constantTimeEqual (drop 2 (M4_of x)) (x_sid x) HASH_BYTES" "constantTimeEqual (x_tauA x) (drop 34 (M4_of x)) HMAC_BYTES"
  using field_lengths [OF assms] by (simp_all add: M4_of_def constantTimeEqual_take)

lemma receiveM4_succeeds:
  assumes "responder_linked e ip port x" and "exchange_arrays x" and "l_session c = x_session x" and "m_m4 c = zeros M4_BYTES"
  shows "receiveM4 e c = (Some True, c\<lparr>l_packet := packet_of MSG_M4_INIT_FIN (x_session x) (M4_of x) ip port,
      l_metrics := counted_rx (M4_of x) (l_metrics c), m_m4 := M4_of x\<rparr>)"
proof -
  have h: "hears (e_recvs e 2) MSG_M4_INIT_FIN (x_session x) (x_session x) (M4_of x) ip port"
    using assms(1) by (simp add: responder_linked_def)
  note l = message_of_lengths(6) [OF assms(2)]
  obtain t where "receiveProtocolMessage (e_recvs e 2) MSG_M4_INIT_FIN (x_session x) (zeros 66) 66 66 True c = (Some True, M4_of x @ t,
      c\<lparr>l_packet := packet_of MSG_M4_INIT_FIN (x_session x) (M4_of x) ip port, l_metrics := counted_rx (M4_of x) (l_metrics c)\<rparr>)"
    "length (M4_of x @ t) = length (zeros 66)"
    by (rule heard_prefix [OF h, of 66 "zeros 66" 66 True c]) (use l in simp_all)
  then show ?thesis using assms(3,4) l by (simp add: receiveM4_def)
qed

text \<open>The end of the responder's session.\<close>

definition accepted :: "node \<Rightarrow> u32 \<Rightarrow> u16 \<Rightarrow> exchange \<Rightarrow> session \<Rightarrow> bool" where
  "accepted n ip port x c \<longleftrightarrow>
    l_accepted c \<and> l_sessionKey c = x_key x \<and> config c = config n \<and> holds_messages x c \<and> length (m_result c) = 128 \<and> m_result c ! 0 = RESULT_OK \<and>
    wire c = wire n @ [(ip, port, datagrams_of MSG_M1_CHAL (x_session x) (M1_of x)),
      (ip, port, datagrams_of MSG_M3_RESP_FIN (x_session x) (M3_of x)),
      (ip, port, datagrams_of MSG_RESULT (x_session x) (take RESULT_BYTES (m_result c)))]"

lemma status_kept:
  "length buf = 128 \<and> buf ! 0 = v \<Longrightarrow> 0 < off \<Longrightarrow> off + length src \<le> 128 \<Longrightarrow>
   length (write_at off src buf) = 128 \<and> write_at off src buf ! 0 = v"
  by (simp add: nth_write_at)

lemma encodeResult_status:
  assumes "length result = 128"
  shows "length (encodeResult e qa qb m result) = 128 \<and> encodeResult e qa qb m result ! 0 = RESULT_OK"
  unfolding encodeResult_def Let_def by (intro status_kept) (simp_all add: assms)

lemma acceptSession_accepts:
  assumes "accepting_net (e_sends e 2) RESULT_BYTES" and "length (m_result c) = 128"
  obtains c' where "acceptSession e ip port c = (Some True, c')" and "l_accepted c'" and "l_sessionKey c' = l_sessionKey c"
    and "config c' = config c" and "m_m4 c' = m_m4 c" and "length (m_result c') = 128" and "m_result c' ! 0 = RESULT_OK"
    and "wire c' = wire c @ [(ip, port, datagrams_of MSG_RESULT (l_session c) (take RESULT_BYTES (m_result c')))]"
proof -
  let ?m = "finalizeMetrics ((l_metrics c)\<lparr>protocolUs := e_us e 12\<rparr>)"
  let ?r = "encodeResult e (l_qA c) (l_qB c) ?m (m_result c)"
  have "length ?r = 128" using assms(2) by (rule encodeResult_length)
  then have tx: "sendProtocolMessage (e_sends e 2) ip port MSG_RESULT session ?r 116 False d = (Some True, d\<lparr>
      wire := wire d @ [(ip, port, datagrams_of MSG_RESULT session (take 116 ?r))], l_metrics := l_metrics d\<rparr>)" for session d
    using sent [OF assms(1) refl, of ?r ip port MSG_RESULT session False d] by simp
  have "\<exists>c'. acceptSession e ip port c = (Some True, c') \<and> l_accepted c' \<and> l_sessionKey c' = l_sessionKey c \<and>
      config c' = config c \<and> m_m4 c' = m_m4 c \<and> length (m_result c') = 128 \<and> m_result c' ! 0 = RESULT_OK \<and>
      wire c' = wire c @ [(ip, port, datagrams_of MSG_RESULT (l_session c) (take RESULT_BYTES (m_result c')))]"
    using encodeResult_status [OF assms(2)] by (simp add: acceptSession_def Let_def tx)
  then show ?thesis using that by blast
qed

lemma responder_accepts_M4:
  assumes link: "responder_linked e ip port x" and x: "consistent W x" and c: "committed n ip port x c"
  obtains c' where "runStages [receiveM4 e, parseM4, timedTagA W e, checkTauA, acceptSession e ip port] c = (Some True, c')"
    and "accepted n ip port x c'"
proof -
  note arrays = x [unfolded consistent_def, THEN conjunct1]
  have tag: "computeConfirmationTag W DOMAIN_A_CONFIRM (x_confirmA x) (x_transcript x) = Inr (x_tauA x)"
    using x by (simp add: consistent_def)
  note rx = receiveM4_succeeds [OF link arrays]
  have "\<exists>d. runStages [receiveM4 e, parseM4, timedTagA W e, checkTauA] c = (Some True, d) \<and> l_sessionKey d = x_key x \<and>
      config d = config n \<and> m_m4 d = M4_of x \<and> l_session d = x_session x \<and> m_result d = zeros 128 \<and> wire d = wire c"
    using c [unfolded committed_def]
    by (simp add: andThen_def rx parseM4_def M4_parts [OF arrays] guard_def timedTagA_def addHmac_def tag checkTauA_def)
  then obtain d where d: "runStages [receiveM4 e, parseM4, timedTagA W e, checkTauA] c = (Some True, d)" "l_sessionKey d = x_key x"
      "config d = config n" "m_m4 d = M4_of x" "l_session d = x_session x" "m_result d = zeros 128" "wire d = wire c" by blast
  have net: "accepting_net (e_sends e 2) RESULT_BYTES" using link by (simp add: responder_linked_def)
  obtain c' where c': "acceptSession e ip port d = (Some True, c')" "l_accepted c'" "l_sessionKey c' = l_sessionKey d"
    "config c' = config d" "m_m4 c' = m_m4 d" "length (m_result c') = 128" "m_result c' ! 0 = RESULT_OK"
    "wire c' = wire d @ [(ip, port, datagrams_of MSG_RESULT (l_session d) (take RESULT_BYTES (m_result c')))]"
    by (rule acceptSession_accepts [OF net, of d ip port]) (use d(6) in simp_all)
  have all: "runStages ([receiveM4 e, parseM4, timedTagA W e, checkTauA] @ [acceptSession e ip port]) c = (Some True, c')"
    unfolding runStages_append andThen_True using d(1) c'(1) by (auto simp: andThen_def)
  have "list_all (spares (\<lambda>c. (m_m0 c, m_m1 c, m_m2 c, m_m3 c))) ([receiveM4 e, parseM4, timedTagA W e, checkTauA] @ [acceptSession e ip port])"
    by simp (intro conjI, (rule spares_touches, rule effects, simp)+)
  from spares_result [OF spares_run [OF this] all] have "holds_messages x c'"
    using c c'(5) d(4) by (simp add: holds_messages_def committed_def)
  then have "accepted n ip port x c'" using c' d c by (simp add: accepted_def committed_def)
  then show ?thesis using that all by simp
qed

section \<open>The whole session\<close>

lemma responder_completes:
  assumes able: "responds W e n x" and link: "responder_linked e ip port x" and x: "consistent W x"
  obtains c where "runStages (receiveM0 e # responderStages W e ip port) (enterSession n) = (Some True, c)"
    and "accepted n ip port x c"
proof -
  let ?P1 = "[receiveM0 e, answerM0 e, timedSid0 W e, sendM1 e ip port]"
  let ?P2 = "[receiveM2 e, parseM2, checkPeerA e, timedHashM2 W e, obtainPathA W e, verifyM2 W e]"
  let ?P3 = "[kemInit W, encapsulate W e, reserveQB e, timedRuntimeSeed W e, fillM3Inner, signM3 W e, attachPathB]"
  let ?P4 = "[\<lambda>c. timedTranscriptHash W e (m3Inner c) c, timedSessionKeys W e, timedTagB W e, fillM3Outer, sendM3 e ip port]"
  let ?P5 = "[receiveM4 e, parseM4, timedTagA W e, checkTauA, acceptSession e ip port]"
  obtain c1 where c1: "runStages ?P1 (enterSession n) = (Some True, c1)" "challenged n ip port x c1"
    using responder_challenges [OF able link x] by blast
  obtain c2 where c2: "runStages ?P2 c1 = (Some True, c2)" "convinced n ip port x c2"
    using responder_verifies [OF able link x c1(2)] by blast
  obtain c3 where c3: "runStages ?P3 c2 = (Some True, c3)" "answered n ip port x c3"
    using responder_answers [OF able x c2(2)] by blast
  obtain c4 where c4: "runStages ?P4 c3 = (Some True, c4)" "committed n ip port x c4"
    using responder_commits [OF able link x c3(2)] by blast
  obtain c5 where c5: "runStages ?P5 c4 = (Some True, c5)" "accepted n ip port x c5"
    by (rule responder_accepts_M4 [OF link x c4(2)])
  have "receiveM0 e # responderStages W e ip port = ?P1 @ ?P2 @ ?P3 @ ?P4 @ ?P5" by (simp add: responderStages_def)
  then have "runStages (receiveM0 e # responderStages W e ip port) (enterSession n) = (Some True, c5)"
    unfolding runStages_append andThen_True using c1(1) c2(1) c3(1) c4(1) c5(1) by (simp only: runStages_append andThen_True) blast
  then show ?thesis using c5(2) by (rule that)
qed

end
