(* ===== verification/RepositoryProperties.thy ===== *)
theory RepositoryProperties
  imports RepositoryExchange LmsTotal
begin

text \<open>
  The properties of the repository client: what it returns is authentic and answers the
  question that was asked, what a node enrolled is what its peer fetches, every exchange
  ends and accounts its bytes, and what an acknowledgement does and does not prove.
\<close>

section \<open>Acknowledgements\<close>

lemma ack_layout:
  assumes "wolf_sizes W" "same_hmac W H" and "length device = ID_BYTES"
  shows "build_ack H device version q status =
    (let body = gcs_header OP_ACK @ device @ putU32 version @ putU32 q @ [status] @ zeros 3
     in body @ compute_tag H body)"
proof -
  have "build_ack H device version q status =
      seal_packet H ((gcs_header OP_ACK @ device @ putU32 version @ putU32 q @ [status] @ zeros 3) @ zeros TAG_BYTES)"
    unfolding build_ack_def Let_def write_at_start drop_zeros using assms(3)
    by (simp add: layout del: append_assoc) (simp add: zeros_def numeral_eq_Suc)
  then show ?thesis using assms by (simp add: seal_packet_eq Let_def del: append_assoc append.simps)
qed

lemma ack_answers:
  assumes W: "wolf_sizes W" "same_hmac W H" and len: "length device = ID_BYTES"
    and p: "replies s (build_ack H device version q status) p" and q': "q' = ANY_Q \<or> q' = q"
  shows "answers W OP_ACK version q' s p" and "readLength p = int ACK_BYTES" and "readBuffer p ! 48 = status"
proof -
  let ?body = "gcs_header OP_ACK @ device @ putU32 version @ putU32 q @ [status] @ zeros 3"
  have bl: "length ?body = 52" using len by simp
  then have body: "length ?body \<le> MAX_GCS_PACKET_BYTES" by simp
  have resp: "build_ack H device version q status = ?body @ compute_tag H ?body"
    using ack_layout [OF W len] by (simp add: Let_def)
  obtain rest where buf: "readBuffer p = (?body @ compute_tag H ?body) @ rest"
    using replies_buffer [OF p] unfolding resp by blast
  have tl: "length (compute_tag H ?body) = HMAC_BYTES" using W body by (rule same_hmac_length)
  show rl: "readLength p = int ACK_BYTES"
    using p len tl unfolding replies_def resp by simp
  have ps: "parsePacket p = int ACK_BYTES"
    using p len tl unfolding replies_def resp by simp
  have "authenticResponse W (readBuffer p) (nat (readLength p))"
    using sealed_authentic [OF W body, of rest] unfolding buf rl bl by simp
  moreover have "take 4 (readBuffer p) = GCS2" "readBuffer p ! 4 = OP_ACK"
    "getU32 (drop 40 (readBuffer p)) = version" "getU32 (drop 44 (readBuffer p)) = q"
    unfolding buf append_assoc using len by (simp_all add: field_simps)
  ultimately show "answers W OP_ACK version q' s p"
    using p rl ps q' by (auto simp: answers_def replies_def classifyResponse_def)
  show "readBuffer p ! 48 = status"
    unfolding buf append_assoc using len by (simp add: field_simps)
qed

section \<open>Fetching\<close>

lemma fetchRootRounds_sound:
  "fetchRootRounds W request version k rounds s = Some (Some rec, s') \<Longrightarrow>
   \<exists>attempts \<in> set rounds. \<exists>p. observed attempts p \<and> answers W OP_ROOT_RECORD version ANY_Q s p \<and>
     nat (readLength p) = ROOT_RECORD_BYTES \<and> constantTimeEqual (drop 8 (readBuffer p)) (m_peerId s) ID_BYTES \<and>
     rec = parseRootRecord (readBuffer p)"
proof (induction rounds arbitrary: k s)
  case Nil
  then show ?case by (cases k) simp_all
next
  case (Cons attempts rounds)
  then obtain k' where k: "k = Suc k'" by (cases k) simp_all
  with Cons.prems obtain r s1
    where ex: "sendAndReceive W request OP_ROOT_RECORD version ANY_Q attempts s = Some (r, s1)"
    by (auto split: option.splits)
  note same = sendAndReceive_sound(1) [OF ex]
  show ?case
  proof (cases r)
    case None
    then have "fetchRootRounds W request version k' rounds s1 = Some (Some rec, s')"
      using Cons.prems k ex by simp
    from Cons.IH [OF this] show ?thesis
      using answers_same [OF same] same by (auto simp: same_peers_def)
  next
    case (Some n)
    from sendAndReceive_sound(2) [OF ex this] obtain p where p: "observed attempts p"
      "answers W OP_ROOT_RECORD version ANY_Q s p" "m_buffer s1 = readBuffer p" "n = nat (readLength p)" by blast
    then show ?thesis
      using Cons.prems k ex Some same by (auto simp: same_peers_def split: if_splits)
  qed
qed

text \<open>A poll that delivers a datagram of \<open>n\<close> bytes tagged under the shared key.\<close>

definition tagged_datagram :: "wolf \<Rightarrow> GcsState \<Rightarrow> nat \<Rightarrow> poll \<Rightarrow> bool" where
  "tagged_datagram W s n p \<longleftrightarrow>
    readLength p = int n \<and> remoteIP p = m_gcsIp s \<and> remotePort p = m_gcsPort s \<and> take 4 (readBuffer p) = GCS2 \<and>
    computeTag W (take (n - HMAC_BYTES) (readBuffer p)) = Inr (read_at (n - HMAC_BYTES) HMAC_BYTES (readBuffer p))"

lemma answers_tagged:
  assumes "wolf_sizes W" and "answers W op v q s p" and "nat (readLength p) = n" and "n \<le> length (readBuffer p)"
  shows "tagged_datagram W s n p"
proof -
  have rl: "readLength p = int n" using assms(2,3) by (auto simp: answers_def)
  from answers_tag [OF assms(1,2) this assms(4)] rl assms(2) show ?thesis
    by (simp add: tagged_datagram_def answers_def)
qed

section \<open>Concrete polls\<close>

definition reply_poll :: "u32 \<Rightarrow> bytes \<Rightarrow> poll" where
  "reply_poll t dg =
    \<lparr>pollMillis = t, parsePacket = int (length dg), readLength = int (length dg),
     readBuffer = take MAX_GCS_PACKET_BYTES (dg @ zeros MAX_GCS_PACKET_BYTES), remoteIP = 0, remotePort = 0\<rparr>"

definition sample_attempt :: "bytes \<Rightarrow> bytes \<Rightarrow> gcs_attempt" where
  "sample_attempt request reply =
    \<lparr>sendOutcome = \<lparr>beginPacketOk = True, written = length request, endPacketOk = True\<rparr>,
     attemptStart = 100, attemptPolls = [reply_poll 130 reply]\<rparr>"

lemma reply_poll_replies:
  "length dg \<le> MAX_GCS_PACKET_BYTES \<Longrightarrow> replies GcsLedgerClient_ctor dg (reply_poll t dg)"
  by (simp add: replies_def reply_poll_def GcsLedgerClient_ctor_def)

lemma sample_attempt_ok [simp]: "sent_ok request (sample_attempt request reply)"
  by (simp add: sent_ok_def sample_attempt_def)

lemma sample_attempt_polls: "attemptPolls (sample_attempt request reply) = [] @ reply_poll 130 reply # []"
  by (simp add: sample_attempt_def)

lemma reply_in_time: "pollMillis (reply_poll 130 reply) - attemptStart (sample_attempt request reply) < GCS_TIMEOUT_MS"
  by (simp add: sample_attempt_def reply_poll_def)

lemma sealed_exists:
  "wolf_sizes W \<Longrightarrow> same_hmac W H \<Longrightarrow> length body \<le> MAX_GCS_PACKET_BYTES \<Longrightarrow>
   \<exists>request. sealRequest W (body @ zeros HMAC_BYTES) = Inr request"
  using sealRequest_eq by blast

lemma fetchPeerRoot_answer:
  assumes "sealRequest W (getRootRequest (m_deviceId s) (m_peerId s) version) = Inr request"
    and "sent_ok request a" and "attemptPolls a = pre @ p # post"
    and "\<forall>p' \<in> set pre. pollMillis p' - attemptStart a < GCS_TIMEOUT_MS \<and>
      fst (pollResponse W OP_ROOT_RECORD version ANY_Q p' s) = Ignore"
    and "pollMillis p - attemptStart a < GCS_TIMEOUT_MS" and "answers W OP_ROOT_RECORD version ANY_Q s p"
    and "readLength p = int ROOT_RECORD_BYTES" and "read_at 8 ID_BYTES (readBuffer p) = m_peerId s"
    and "length (m_peerId s) = ID_BYTES" and "length (readBuffer p) = MAX_GCS_PACKET_BYTES"
  shows "\<exists>s'. fetchPeerRoot W version ((a # as) # rounds) s = Some (Some (parseRootRecord (readBuffer p)), s')"
proof -
  from sendAndReceive_answer [OF assms(2-6)] obtain s'
    where ex: "sendAndReceive W request OP_ROOT_RECORD version ANY_Q (a # as) s = Some (Some ROOT_RECORD_BYTES, s')"
      and s': "m_buffer s' = readBuffer p" "same_peers s s'"
    using assms(7) by fastforce
  have "constantTimeEqual (drop 8 (m_buffer s')) (m_peerId s') ID_BYTES"
    using s' assms(8-10) by (simp add: same_peers_def peer_in_response)
  moreover have "(120 :: nat) = Suc 119" by simp
  ultimately show ?thesis
    using assms(1) ex s'(1) unfolding fetchPeerRoot_def \<open>120 = Suc 119\<close> fetchRootRounds.simps by simp
qed

section \<open>A concrete exchange\<close>

text \<open>A node that enrolls the root of \<open>sample_lms\<close> and is its own peer.\<close>

abbreviation (input) sample_client :: GcsState where
  "sample_client \<equiv> GcsLedgerClient_ctor"

lemma sample_client_fields [simp]:
  "m_deviceId GcsLedgerClient_ctor = zeros 32" "m_peerId GcsLedgerClient_ctor = zeros 32"
  "m_gcsIp GcsLedgerClient_ctor = 0" "m_gcsPort GcsLedgerClient_ctor = 0"
  by (simp_all add: GcsLedgerClient_ctor_def)

lemma sample_lms_root: "root sample_lms = Some (zeros 32)"
  by (simp add: root_def sample_lms_fields)

lemma sample_requests:
  obtains requestA requestB requestC requestD
  where "sealRequest sample_wolf (enrollRootRequest (zeros 32) (zeros 16) (zeros 32) 1 0x10001 1 0) = Inr requestA"
    and "sealRequest sample_wolf (getRootRequest (zeros 32) (zeros 32) 1) = Inr requestB"
    and "sealRequest sample_wolf (enrollPathRequest (zeros 32) 1 5 (zeros 320)) = Inr requestC"
    and "sealRequest sample_wolf (getPathRequest (zeros 32) (zeros 32) 1 5) = Inr requestD"
proof -
  have "\<exists>r. sealRequest sample_wolf (enrollRootRequest (zeros 32) (zeros 16) (zeros 32) 1 0x10001 1 0) = Inr r"
    unfolding enrollRoot_layout [OF length_zeros length_zeros length_zeros]
    by (rule sealed_exists [OF sample_wolf_sizes sample_same_hmac]) simp
  moreover have "\<exists>r. sealRequest sample_wolf (getRootRequest (zeros 32) (zeros 32) 1) = Inr r"
    unfolding getRoot_layout [OF length_zeros length_zeros]
    by (rule sealed_exists [OF sample_wolf_sizes sample_same_hmac]) simp
  moreover have "\<exists>r. sealRequest sample_wolf (enrollPathRequest (zeros 32) 1 5 (zeros 320)) = Inr r"
    unfolding enrollPath_layout [OF length_zeros length_zeros]
    by (rule sealed_exists [OF sample_wolf_sizes sample_same_hmac]) simp
  moreover have "\<exists>r. sealRequest sample_wolf (getPathRequest (zeros 32) (zeros 32) 1 5) = Inr r"
    unfolding getPath_layout [OF length_zeros length_zeros]
    by (rule sealed_exists [OF sample_wolf_sizes sample_same_hmac]) simp
  ultimately show ?thesis using that by blast
qed

definition sample_root_reply :: bytes where
  "sample_root_reply = build_root_response sample_hmac (zeros 32) 1 (zeros 16, zeros 32, 0x10001, 1, 0)"

lemma sample_root_reply_length: "length sample_root_reply = ROOT_RECORD_BYTES"
  by (simp add: sample_root_reply_def Let_def sample_hmac_def compute_tag_def
      root_response_layout [OF sample_wolf_sizes sample_same_hmac])

lemma sample_root_delivered: "replies sample_client sample_root_reply (reply_poll 130 sample_root_reply)"
  by (rule reply_poll_replies) (simp add: sample_root_reply_length)

lemma sample_root_run:
  assumes "sealRequest sample_wolf (getRootRequest (zeros 32) (zeros 32) 1) = Inr request"
  shows "\<exists>s'. fetchPeerRoot sample_wolf 1 ((sample_attempt request sample_root_reply # []) # []) sample_client =
    Some (Some (parseRootRecord (readBuffer (reply_poll 130 sample_root_reply))), s')"
proof -
  note R = root_response_answers [OF sample_wolf_sizes sample_same_hmac _ _ _ sample_root_delivered [unfolded sample_root_reply_def],
      folded sample_root_reply_def]
  show ?thesis
    by (rule fetchPeerRoot_answer [OF _ sample_attempt_ok sample_attempt_polls _ reply_in_time R(1,2)])
      (use assms R(3) sample_root_delivered in \<open>simp_all add: replies_def\<close>)
qed

lemma sample_root_buffers: "gcs_buffers (sample_attempt request reply # [])"
  by (simp add: gcs_buffers_def observed_def sample_attempt_def reply_poll_def)

lemma fetchPeerPath_answer:
  assumes "q < 1024" and "sealRequest W (getPathRequest (m_deviceId s) (m_peerId s) version q) = Inr request"
    and "sent_ok request a" and "attemptPolls a = pre @ p # post"
    and "\<forall>p' \<in> set pre. pollMillis p' - attemptStart a < GCS_TIMEOUT_MS \<and>
      fst (pollResponse W OP_PATH_RECORD version q p' s) = Ignore"
    and "pollMillis p - attemptStart a < GCS_TIMEOUT_MS" and "answers W OP_PATH_RECORD version q s p"
    and "readLength p = int PATH_RECORD_BYTES" and "read_at 8 ID_BYTES (readBuffer p) = m_peerId s"
    and "length (m_peerId s) = ID_BYTES" and "length (readBuffer p) = MAX_GCS_PACKET_BYTES"
  shows "\<exists>metrics s'. fetchPeerPath W version q elapsed (a # as) s =
    Some (Some (read_at 48 LMS_PATH_BYTES (readBuffer p)), Some metrics, s')"
proof -
  from sendAndReceive_answer [OF assms(3-7)] obtain s'
    where ex: "sendAndReceive W request OP_PATH_RECORD version q (a # as) s = Some (Some PATH_RECORD_BYTES, s')"
      and s': "m_buffer s' = readBuffer p" "same_peers s s'"
    using assms(8) by fastforce
  have "constantTimeEqual (drop 8 (m_buffer s')) (m_peerId s') ID_BYTES"
    using s' assms(9-11) by (simp add: same_peers_def peer_in_response)
  then show ?thesis
    using assms(1,2) ex s'(1) by (simp add: fetchPeerPath_def Let_def not_le)
qed

definition sample_path_reply :: bytes where
  "sample_path_reply = build_path_response sample_hmac (zeros 32) 1 5 (zeros 320)"

lemma sample_path_reply_length: "length sample_path_reply = PATH_RECORD_BYTES"
  by (simp add: sample_path_reply_def Let_def sample_hmac_def compute_tag_def
      path_response_layout [OF sample_wolf_sizes sample_same_hmac])

lemma sample_path_delivered: "replies sample_client sample_path_reply (reply_poll 130 sample_path_reply)"
  by (rule reply_poll_replies) (simp add: sample_path_reply_length)

lemma sample_path_run:
  assumes "sealRequest sample_wolf (getPathRequest (zeros 32) (zeros 32) 1 5) = Inr request"
  shows "\<exists>metrics s'. fetchPeerPath sample_wolf 1 5 elapsed (sample_attempt request sample_path_reply # []) sample_client =
    Some (Some (read_at 48 LMS_PATH_BYTES (readBuffer (reply_poll 130 sample_path_reply))), Some metrics, s')"
proof -
  note R = path_response_answers [OF sample_wolf_sizes sample_same_hmac _ _ sample_path_delivered [unfolded sample_path_reply_def],
      folded sample_path_reply_def]
  show ?thesis
    by (rule fetchPeerPath_answer [OF _ _ sample_attempt_ok sample_attempt_polls _ reply_in_time R(1,2)])
      (use assms R(3) sample_path_delivered in \<open>simp_all add: replies_def\<close>)
qed

text \<open>An attempt without any answer, across a wrap of the clock.\<close>

definition silent_attempt :: "bytes \<Rightarrow> gcs_attempt" where
  "silent_attempt request =
    \<lparr>sendOutcome = \<lparr>beginPacketOk = True, written = length request, endPacketOk = True\<rparr>,
     attemptStart = 0xfffffff0, attemptPolls = [reply_poll 0xfffffff4 [], reply_poll 3000 []]\<rparr>"

lemma silent_attempt_expires: "expires (silent_attempt request)"
  by (simp add: expires_def silent_attempt_def reply_poll_def)

lemma enrollPathsFrom_sound:
  "enrollPathsFrom W lms version first net is s = Some (True, s') \<Longrightarrow>
   same_peers s s' \<and> (\<forall>i \<in> set is. extractPath lms (first + of_nat i) \<noteq> None \<and>
     (\<exists>p. observed (net i) p \<and> answers W OP_ACK version (first + of_nat i) s p \<and>
       nat (readLength p) = ACK_BYTES \<and> readBuffer p ! 48 = 0))"
proof (induction "is" arbitrary: s)
  case (Cons i "is")
  let ?q = "first + of_nat i"
  from Cons.prems obtain path request n s1
    where path: "extractPath lms ?q = Some path"
      and ex: "sendAndReceive W request OP_ACK version ?q (net i) s = Some (Some n, s1)"
      and ok: "n = ACK_BYTES" "m_buffer s1 ! 48 = 0"
      and rest: "enrollPathsFrom W lms version first net is s1 = Some (True, s')"
    by (auto simp: Let_def split: option.splits sum.splits if_splits)
  note same = sendAndReceive_sound(1) [OF ex]
  from sendAndReceive_sound(2) [OF ex refl] obtain p
    where p: "observed (net i) p" "answers W OP_ACK version ?q s p" "m_buffer s1 = readBuffer p" "n = nat (readLength p)"
    by blast
  then have "\<exists>p. observed (net i) p \<and> answers W OP_ACK version ?q s p \<and> nat (readLength p) = ACK_BYTES \<and> readBuffer p ! 48 = 0"
    using ok by auto
  then show ?case
    using Cons.IH [OF rest] path answers_same [OF same] same_peers_trans [OF same] by auto
qed simp

lemma enrollOwnPaths_sound:
  assumes "enrollOwnPaths W lms version first count net s = Some (True, s')"
  shows "0 < count \<and> unat first + unat count \<le> 1024 \<and>
    (\<forall>i < unat count. \<exists>p. observed (net i) p \<and> answers W OP_ACK version (first + of_nat i) s p \<and>
      nat (readLength p) = ACK_BYTES \<and> readBuffer p ! 48 = 0)"
proof -
  from assms have c: "count \<noteq> 0" "first + count \<le> 1024"
    and run: "enrollPathsFrom W lms version first net [0..<unat count] s = Some (True, s')"
    by (auto simp: enrollOwnPaths_def not_less split: if_splits)
  note sound = enrollPathsFrom_sound [OF run]
  have inside: "first + of_nat i < 1024" if "i < unat count" for i
    using sound that by (auto simp: extractPath_def not_le split: option.splits if_splits)
  have pos: "0 < unat count" using c(1) by (simp add: unat_gt_0)
  have f: "unat first < 1024" using inside [OF pos] by (simp add: word_less_nat_alt)
  have "unat first + unat count \<le> 1024"
  proof (rule ccontr)
    assume "\<not> ?thesis"
    then have i: "1024 - unat first < unat count" using f by linarith
    have "first + of_nat (1024 - unat first) = (of_nat (unat first + (1024 - unat first)) :: u32)" by simp
    also have "\<dots> = 1024" using f by simp
    finally show False using inside [OF i] by simp
  qed
  then show ?thesis using c(1) sound by (auto simp: word_gt_0)
qed

lemma fetchPeerRoot_sound:
  assumes "wolf_sizes W" and "length (m_peerId s) = ID_BYTES" and "\<forall>attempts \<in> set rounds. gcs_buffers attempts"
    and "fetchPeerRoot W version rounds s = Some (Some rec, s')"
  shows "\<exists>attempts \<in> set rounds. \<exists>p. observed attempts p \<and> tagged_datagram W s ROOT_RECORD_BYTES p \<and>
    readBuffer p ! 4 = OP_ROOT_RECORD \<and> read_at 8 ID_BYTES (readBuffer p) = m_peerId s \<and>
    rec = parseRootRecord (readBuffer p) \<and> p_version rec = version \<and> p_ready rec"
proof -
  from assms(4) obtain request where "fetchRootRounds W request version 120 rounds s = Some (Some rec, s')"
    by (auto simp: fetchPeerRoot_def split: sum.splits)
  from fetchRootRounds_sound [OF this] obtain attempts p where p: "attempts \<in> set rounds" "observed attempts p"
    "answers W OP_ROOT_RECORD version ANY_Q s p" "nat (readLength p) = ROOT_RECORD_BYTES"
    "constantTimeEqual (drop 8 (readBuffer p)) (m_peerId s) ID_BYTES" "rec = parseRootRecord (readBuffer p)"
    by blast
  have len: "length (readBuffer p) = MAX_GCS_PACKET_BYTES" using assms(3) p(1,2) by (auto simp: gcs_buffers_def)
  then have "tagged_datagram W s ROOT_RECORD_BYTES p"
    using answers_tagged [OF assms(1) p(3,4)] by simp
  moreover have "read_at 8 ID_BYTES (readBuffer p) = m_peerId s"
    using p(5) assms(2) len by (simp add: peer_in_response)
  ultimately show ?thesis
    using p(1,2,6) answers_op [OF p(3)] answers_version [OF p(3)] by (auto simp: parseRootRecord_def)
qed

lemma sample_hmac_total: "length body \<le> MAX_GCS_PACKET_BYTES \<Longrightarrow> \<exists>request. sealRequest sample_wolf body = Inr request"
  by (auto simp: sealRequest_def computeTag_def hmacSha256_def sample_wolf_def GCS_LEDGER_HMAC_KEY_def Let_def not_less)

section \<open>Properties\<close>

text \<open>A peer record that \<open>fetchPeerRoot\<close> returns was carried by a 140-byte datagram from
  the repository's address, tagged under the shared key over its first 108 bytes, naming the
  configured peer and the requested version; the record is exactly its fields.\<close>

theorem fetched_root_authentic:
  assumes "wolf_sizes W" and "length (m_peerId s) = ID_BYTES" and "\<forall>attempts \<in> set rounds. gcs_buffers attempts"
    and "fetchPeerRoot W version rounds s = Some (Some rec, s')"
  shows "\<exists>attempts \<in> set rounds. \<exists>p. observed attempts p \<and> tagged_datagram W s ROOT_RECORD_BYTES p \<and>
    readBuffer p ! 4 = OP_ROOT_RECORD \<and> read_at 8 ID_BYTES (readBuffer p) = m_peerId s \<and>
    rec = parseRootRecord (readBuffer p) \<and> p_version rec = version \<and> p_ready rec"
  using assms by (rule fetchPeerRoot_sound)

theorem fetched_root_authentic_witness:
  "\<exists>request rec s' p. fetchPeerRoot sample_wolf 1 ((sample_attempt request sample_root_reply # []) # []) sample_client =
      Some (Some rec, s') \<and> tagged_datagram sample_wolf sample_client ROOT_RECORD_BYTES p \<and>
      rec = parseRootRecord (readBuffer p) \<and> p_ready rec"
proof (rule sample_requests)
  fix request assume "sealRequest sample_wolf (getRootRequest (zeros 32) (zeros 32) 1) = Inr request"
  from sample_root_run [OF this] obtain rec s'
    where run: "fetchPeerRoot sample_wolf 1 ((sample_attempt request sample_root_reply # []) # []) sample_client =
      Some (Some rec, s')" by blast
  from fetched_root_authentic [OF sample_wolf_sizes _ _ run] sample_root_buffers run show ?thesis by auto
qed

text \<open>A path that \<open>fetchPeerPath\<close> returns is the 320 bytes at offset 48 of a 400-byte
  datagram from the repository, tagged under the shared key, naming the configured peer,
  the requested version and the requested index, which is below 1024.\<close>

theorem fetched_path_authentic:
  assumes "wolf_sizes W" and "length (m_peerId s) = ID_BYTES" and "gcs_buffers attempts"
    and "fetchPeerPath W version q elapsed attempts s = Some (Some path, metrics, s')"
  shows "q < 1024 \<and> (\<exists>p. observed attempts p \<and> tagged_datagram W s PATH_RECORD_BYTES p \<and>
    readBuffer p ! 4 = OP_PATH_RECORD \<and> read_at 8 ID_BYTES (readBuffer p) = m_peerId s \<and>
    getU32 (drop 40 (readBuffer p)) = version \<and> getU32 (drop 44 (readBuffer p)) = q \<and>
    path = read_at 48 LMS_PATH_BYTES (readBuffer p))"
proof -
  from assms(4) have q: "q < 1024" by (auto simp: fetchPeerPath_def not_le split: if_splits)
  from assms(4) obtain request
    where ex: "sendAndReceive W request OP_PATH_RECORD version q attempts s = Some (Some PATH_RECORD_BYTES, s')"
      and peer: "constantTimeEqual (drop 8 (m_buffer s')) (m_peerId s') ID_BYTES"
      and path: "path = read_at 48 LMS_PATH_BYTES (m_buffer s')"
    by (auto simp: fetchPeerPath_def Let_def split: if_splits sum.splits option.splits)
  note same = sendAndReceive_sound(1) [OF ex]
  from sendAndReceive_sound(2) [OF ex refl] obtain p where p: "observed attempts p"
    "answers W OP_PATH_RECORD version q s p" "m_buffer s' = readBuffer p" "nat (readLength p) = PATH_RECORD_BYTES"
    by auto
  have len: "length (readBuffer p) = MAX_GCS_PACKET_BYTES" using assms(3) p(1) by (auto simp: gcs_buffers_def)
  then have "tagged_datagram W s PATH_RECORD_BYTES p"
    using answers_tagged [OF assms(1) p(2,4)] by simp
  moreover have "read_at 8 ID_BYTES (readBuffer p) = m_peerId s"
    using peer same assms(2) len p(3) by (simp add: same_peers_def peer_in_response)
  moreover have "q \<noteq> ANY_Q" using q by auto
  ultimately show ?thesis
    using q p path answers_op [OF p(2)] answers_version [OF p(2)] answers_index [OF p(2)] by auto
qed

theorem fetched_path_authentic_witness:
  "\<exists>request path metrics s' p.
    fetchPeerPath sample_wolf 1 5 900 (sample_attempt request sample_path_reply # []) sample_client =
      Some (Some path, Some metrics, s') \<and>
    tagged_datagram sample_wolf sample_client PATH_RECORD_BYTES p \<and> getU32 (drop 44 (readBuffer p)) = 5"
proof (rule sample_requests)
  fix request assume "sealRequest sample_wolf (getPathRequest (zeros 32) (zeros 32) 1 5) = Inr request"
  from sample_path_run [OF this] obtain path metrics s'
    where run: "fetchPeerPath sample_wolf 1 5 900 (sample_attempt request sample_path_reply # []) sample_client =
      Some (Some path, Some metrics, s')" by blast
  from fetched_path_authentic [OF sample_wolf_sizes _ sample_root_buffers run] run show ?thesis by auto
qed

text \<open>The path enrolled for index \<open>q\<close> is what the peer's \<open>fetchPeerPath\<close> returns for that index.\<close>

theorem enrolled_path_is_fetched:
  assumes "wolf_sizes W" and "same_hmac W H"
    and "length (m_deviceId sA) = ID_BYTES" and "length path = LMS_PATH_BYTES" and "q < 1024"
    and "length (m_deviceId sB) = ID_BYTES" and "m_peerId sB = m_deviceId sA"
    and "sealRequest W (enrollPathRequest (m_deviceId sA) version q path) = Inr requestA"
    and "handle_request H requestA ledger0 = (replyA, ledger1)"
    and "get_path (m_deviceId sA, version, q) ledger2 = get_path (m_deviceId sA, version, q) ledger1"
    and "sealRequest W (getPathRequest (m_deviceId sB) (m_peerId sB) version q) = Inr requestB"
    and "handle_request H requestB ledger2 = (Some reply, ledger3)"
    and "sent_ok requestB a" and "attemptPolls a = pre @ p # post"
    and "\<forall>p' \<in> set pre. pollMillis p' - attemptStart a < GCS_TIMEOUT_MS \<and>
      fst (pollResponse W OP_PATH_RECORD version q p' sB) = Ignore"
    and "pollMillis p - attemptStart a < GCS_TIMEOUT_MS" and "replies sB reply p"
  shows "\<exists>metrics s'. fetchPeerPath W version q elapsed (a # as) sB = Some (Some path, Some metrics, s')"
proof -
  note A = parse_enroll_path [OF assms(1-4,8,5)]
  have "ledger1 = upsert_path (m_deviceId sA, version, q) path ledger0"
    using assms(9) A by (simp add: handle_request_def)
  then have stored: "get_path (m_deviceId sA, version, q) ledger2 = Some path"
    using assms(10) by (simp add: paths.get_put)
  have peer: "length (m_peerId sB) = ID_BYTES" using assms(3,7) by simp
  note B = parse_get_path_request [OF assms(1,2,6) peer assms(11,5)]
  have "reply = build_path_response H (m_deviceId sA) version q path"
    using assms(12,7) B stored by (simp add: handle_request_def)
  then have rep: "replies sB (build_path_response H (m_deviceId sA) version q path) p"
    using assms(17) by simp
  note R = path_response_answers [OF assms(1-4) rep]
  have "length (readBuffer p) = MAX_GCS_PACKET_BYTES" using assms(17) by (simp add: replies_def)
  from fetchPeerPath_answer [OF assms(5,11,13-16) R(1,2) _ peer this] R(3,4) assms(7)
  show ?thesis by simp
qed

theorem enrolled_path_is_fetched_witness:
  "\<exists>request metrics s'. fetchPeerPath sample_wolf 1 5 900 (sample_attempt request sample_path_reply # []) sample_client =
    Some (Some (zeros 320), Some metrics, s')"
proof (rule sample_requests)
  fix rC rD
  assume C: "sealRequest sample_wolf (enrollPathRequest (zeros 32) 1 5 (zeros 320)) = Inr rC"
    and D: "sealRequest sample_wolf (getPathRequest (zeros 32) (zeros 32) 1 5) = Inr rD"
  note pC = parse_enroll_path [OF sample_wolf_sizes sample_same_hmac _ _ C, simplified]
  note pD = parse_get_path_request [OF sample_wolf_sizes sample_same_hmac _ _ D, simplified]
  obtain replyC l1 where hC: "handle_request sample_hmac rC empty_ledger = (replyC, l1)" by fastforce
  have l1: "l1 = upsert_path (zeros 32, 1, 5) (zeros 320) empty_ledger"
    using hC pC by (simp add: handle_request_def)
  have hD: "handle_request sample_hmac rD l1 = (Some sample_path_reply, l1)"
    using pD by (simp add: handle_request_def l1 paths.get_put sample_path_reply_def)
  have "\<exists>metrics s'. fetchPeerPath sample_wolf 1 5 900 (sample_attempt rD sample_path_reply # []) sample_client =
    Some (Some (zeros 320), Some metrics, s')"
    by (rule enrolled_path_is_fetched [OF sample_wolf_sizes sample_same_hmac _ _ _ _ _ _ hC refl _ hD
          sample_attempt_ok sample_attempt_polls _ reply_in_time sample_path_delivered, where sA = sample_client])
      (simp_all add: C D)
  then show ?thesis by blast
qed

text \<open>A path request ends and its cost is bounded: with four attempts whose clocks pass
  their deadlines \<open>fetchPeerPath\<close> returns for every index below 1024, and the byte count it
  reports is 112 times the number of requests sent, at most four.\<close>

theorem path_request_bounded:
  assumes "wolf_sizes W" and "same_hmac W H"
    and "length (m_deviceId s) = ID_BYTES" and "length (m_peerId s) = ID_BYTES" and "q < 1024"
    and "GCS_RETRIES \<le> length attempts" and "\<forall>a \<in> set attempts. expires a"
  shows "\<exists>path metrics s'. fetchPeerPath W version q elapsed attempts s = Some (path, Some metrics, s') \<and>
    elapsedUs metrics = elapsed \<and> (\<exists>n \<le> GCS_RETRIES. op_txBytes metrics = of_nat (n * GET_PATH_BYTES))"
proof -
  let ?body = "gcs_header OP_GET_PATH @ m_deviceId s @ m_peerId s @ putU32 version @ putU32 q"
  have "length ?body \<le> MAX_GCS_PACKET_BYTES" using assms(3,4) by simp
  from sealed_exists [OF assms(1,2) this] getPath_layout [OF assms(3,4)] obtain request
    where req: "sealRequest W (getPathRequest (m_deviceId s) (m_peerId s) version q) = Inr request" by metis
  note len = parse_get_path_request(2) [OF assms(1-4) req assms(5)]
  obtain r s' where ex: "sendAttempts W request OP_PATH_RECORD version q GCS_RETRIES attempts s = Some (r, s')"
    using sendAttempts_returns [OF assms(6,7)] by (metis surj_pair)
  obtain n where "n \<le> GCS_RETRIES" "m_txBytes s' = m_txBytes s + of_nat (n * GET_PATH_BYTES)"
    using sendAttempts_tx [OF ex] len by metis
  then show ?thesis
    using assms(5) req ex by (auto simp: fetchPeerPath_def sendAndReceive_def Let_def not_le)
qed

theorem path_request_bounded_witness:
  "\<exists>request path metrics s'. fetchPeerPath sample_wolf 1 5 900 (replicate 4 (silent_attempt request)) sample_client =
      Some (path, Some metrics, s') \<and> elapsedUs metrics = 900 \<and>
    (\<exists>n \<le> GCS_RETRIES. op_txBytes metrics = of_nat (n * GET_PATH_BYTES))"
proof -
  have "\<exists>path metrics s'. fetchPeerPath sample_wolf 1 5 900 (replicate 4 (silent_attempt (zeros 112))) sample_client =
      Some (path, Some metrics, s') \<and> elapsedUs metrics = 900 \<and>
    (\<exists>n \<le> GCS_RETRIES. op_txBytes metrics = of_nat (n * GET_PATH_BYTES))"
    by (rule path_request_bounded [OF sample_wolf_sizes sample_same_hmac]) (simp_all add: silent_attempt_expires)
  then show ?thesis by blast
qed

text \<open>When \<open>enrollOwnPaths\<close> reports success, \<open>count\<close> is positive, all indices
  \<open>first .. first + count - 1\<close> lie in the tree (no 32-bit wrap slips through the range
  check), and for each of them an acknowledgement of exactly this version and index with
  status 0 was received.\<close>

theorem enrolled_paths_acknowledged:
  assumes "enrollOwnPaths W lms version first count net s = Some (True, s')"
  shows "0 < count \<and> unat first + unat count \<le> 1024 \<and>
    (\<forall>i < unat count. \<exists>p. observed (net i) p \<and> answers W OP_ACK version (first + of_nat i) s p \<and>
      nat (readLength p) = ACK_BYTES \<and> readBuffer p ! 48 = 0)"
  using assms by (rule enrollOwnPaths_sound)

theorem enrolled_paths_acknowledged_witness:
  "\<exists>net s'. enrollOwnPaths sample_wolf sample_lms 1 5 1 net sample_client = Some (True, s') \<and>
    (\<exists>p. observed (net 0) p \<and> answers sample_wolf OP_ACK 1 5 sample_client p)"
proof -
  obtain path where path: "extractPath sample_lms 5 = Some path" and pl: "length path = LMS_PATH_BYTES"
  proof -
    have ten: "(10 :: nat) = Suc (Suc (Suc (Suc (Suc (Suc (Suc (Suc (Suc (Suc 0)))))))))" by simp
    have "pathNodes (replicate LMS_TREE_NODES (zeros 32)) LMS_HEIGHT (1024 + 5) = replicate 10 (zeros 32)"
      unfolding ten pathNodes.simps by simp
    then show ?thesis using that by (simp add: extractPath_def sample_lms_fields length_concat_blocks [where w = 32])
  qed
  let ?ack = "build_ack sample_hmac (zeros 32) 1 5 0"
  obtain request where seal: "sealRequest sample_wolf (enrollPathRequest (zeros 32) 1 5 path) = Inr request"
    using sample_hmac_total [of "enrollPathRequest (zeros 32) 1 5 path"] pl by (auto simp: enrollPath_layout)
  have "length ?ack = ACK_BYTES"
    by (simp add: Let_def sample_hmac_def compute_tag_def ack_layout [OF sample_wolf_sizes sample_same_hmac])
  then have d: "replies sample_client ?ack (reply_poll 130 ?ack)" by (intro reply_poll_replies) simp
  note ack = ack_answers [OF sample_wolf_sizes sample_same_hmac length_zeros d, of 5, simplified]
  let ?net = "\<lambda>_ :: nat. sample_attempt request ?ack # []"
  from sendAndReceive_answer [OF sample_attempt_ok sample_attempt_polls _ reply_in_time ack(1), of request "[]"] ack(2)
  obtain s' where "sendAndReceive sample_wolf request OP_ACK 1 5 (?net 0) sample_client = Some (Some ACK_BYTES, s')"
    and "m_buffer s' = readBuffer (reply_poll 130 ?ack)" by auto
  then have run: "enrollOwnPaths sample_wolf sample_lms 1 5 1 ?net sample_client = Some (True, s')"
    using path seal ack(3) by (simp add: enrollOwnPaths_def)
  from enrolled_paths_acknowledged [OF run] run show ?thesis by auto
qed

text \<open>C27: An acknowledgement does not name its receiver: \<open>enrollOwnRoot\<close> reports success on an
  authentic acknowledgement that the repository sent for another device (and for any path
  index), as long as the credential version is the same.\<close>

theorem foreign_ack_accepted:
  assumes "wolf_sizes W" and "same_hmac W H"
    and "length (m_deviceId s) = ID_BYTES" and "length (m_identifier lms) = 16"
    and "root lms = Some r" and "length r = HASH_BYTES" and "length other = ID_BYTES"
    and "sealRequest W (enrollRootRequest (m_deviceId s) (m_identifier lms) r version suiteId status expiry) = Inr request"
    and "sent_ok request a" and "attemptPolls a = p # post" and "pollMillis p - attemptStart a < GCS_TIMEOUT_MS"
    and "replies s (build_ack H other version q 0) p"
  shows "\<exists>s'. enrollOwnRoot W lms version suiteId status expiry (a # as) s = Some (True, s')"
proof -
  note ack = ack_answers [OF assms(1,2,7,12), of ANY_Q, simplified]
  from sendAndReceive_answer [OF assms(9), of "[]" p post W OP_ACK version ANY_Q s as] assms(10,11) ack(1)
  obtain s' where "sendAndReceive W request OP_ACK version ANY_Q (a # as) s = Some (Some ACK_BYTES, s')"
    and "m_buffer s' = readBuffer p" by (auto simp: ack(2))
  then show ?thesis using assms(5,8) ack(3) by (simp add: enrollOwnRoot_def)
qed

theorem foreign_ack_accepted_witness:
  "\<exists>request reply s'. replicate 32 1 \<noteq> m_deviceId sample_client \<and>
    reply = build_ack sample_hmac (replicate 32 1) 1 77 0 \<and>
    enrollOwnRoot sample_wolf sample_lms 1 0x10001 1 0 (sample_attempt request reply # []) sample_client = Some (True, s')"
proof (rule sample_requests)
  fix rA assume A: "sealRequest sample_wolf (enrollRootRequest (zeros 32) (zeros 16) (zeros 32) 1 0x10001 1 0) = Inr rA"
  let ?reply = "build_ack sample_hmac (replicate 32 1) 1 77 0"
  have "length ?reply = ACK_BYTES"
    by (simp add: Let_def sample_hmac_def compute_tag_def ack_layout [OF sample_wolf_sizes sample_same_hmac])
  then have d: "replies sample_client ?reply (reply_poll 130 ?reply)" by (intro reply_poll_replies) simp
  have "\<exists>s'. enrollOwnRoot sample_wolf sample_lms 1 0x10001 1 0 (sample_attempt rA ?reply # []) sample_client = Some (True, s')"
    by (rule foreign_ack_accepted [OF sample_wolf_sizes sample_same_hmac _ _ sample_lms_root _ _ _
          sample_attempt_ok _ reply_in_time d, where post = "[]"])
      (simp_all add: A sample_lms_fields sample_attempt_polls)
  moreover have "replicate 32 1 \<noteq> m_deviceId sample_client" by (simp add: zeros_def)
  ultimately show ?thesis by blast
qed

end
