(* ===== verification/SessionProperties.thy ===== *)
theory SessionProperties
  imports ResponderTheorems CounterSafety FragmentationProperties RepositoryProperties
begin

text \<open>
  Properties of the object and of its two handlers: the arrays keep their sizes, and the greeting
  is accepted exactly when the peer built it.
\<close>

section \<open>Array bounds\<close>

text \<open>An environment in which nothing is heard.\<close>

definition silent_env :: env where
  "silent_env =
    \<lparr>puf = (\<lambda>cfg. Some (hardcodedPufRoot cfg)), e_nonce = replicate 16 5, e_session = 8, e_kemRandom = replicate 32 9,
     e_putOk = True, e_C = replicate 32 4, e_now = 0, e_gcs = [], e_gcsUs = 0, e_sends = (\<lambda>i. perfect_net),
     e_recvs = (\<lambda>i. \<lparr>rx_start = 0, rx_polls = []\<rparr>), e_us = (\<lambda>i. 1), e_freeHeap = 0, e_minFreeHeap = 0\<rparr>"

definition silent_boot :: boot where
  "silent_boot =
    \<lparr>b_puf = (\<lambda>cfg. Some (hardcodedPufRoot cfg)), b_mallocOk = True, b_wifiStart = 0, b_wifiPolls = [(True, 1)],
     b_wifiConnected = True, b_udpBegin = 1, b_gcsUdpBegin = 1, b_rootNet = [], b_pathNet = (\<lambda>i. []), b_fetchRounds = [],
     b_now = 0, b_nvsOk = True, b_putOk = True\<rparr>"

lemma silent_sized: "sized sample_wolf silent_env"
  by (simp add: sized_def sample_wolf_sizes sample_kem_sizes env_arrays_def silent_env_def gcs_buffers_def observed_def)

lemma silent_boot_arrays: "boot_arrays silent_boot"
  by (simp add: boot_arrays_def silent_boot_def gcs_buffers_def observed_def)

lemma sample_config_arrays: "config_arrays (sample_config r mode)"
  by (simp add: config_arrays_def sample_config_def)

lemma fresh_arrays: "config_arrays cfg \<Longrightarrow> node_arrays (node_ctor cfg nvs)"
  by (simp add: node_arrays_def node_ctor_def lms_arrays_def LmotsLms_ctor_def record_arrays_def PeerPublicRecord_init_def
      gcs_arrays_def GcsLedgerClient_ctor_def)

text \<open>C13: Every array keeps its declared size, whatever arrives: a session of either role, stopped
  after any number of its stages, and a boot that ends in any way leave each member and local
  array as long as the code declares it, so that no copy ran past the end of its destination.\<close>

theorem arrays_in_bounds:
  assumes "node_arrays n" and "sized W e" and "boot_arrays b"
  shows "session_arrays (snd (runStages (take k (initiatorStages W e)) (enterSession n))) \<and>
    session_arrays (snd (runStages (take k (receiveM0 e # responderStages W e ip port)) (enterSession n))) \<and>
    node_arrays (snd (protocolBegin W b n))"
  using keeps_arrays_run [OF initiator_keeps_arrays] keeps_arrays_run [OF responder_keeps_arrays]
    protocolBegin_keeps_arrays sizedD(1) assms enterSession_arrays by blast

theorem arrays_in_bounds_witness:
  "length (m_m2 (snd (runStages (take 9 (initiatorStages sample_wolf silent_env))
     (enterSession (node_ctor (sample_config Initiator SignerCarried) None))))) = M2_MAX_BYTES"
  using arrays_in_bounds [OF fresh_arrays [OF sample_config_arrays] silent_sized silent_boot_arrays] unfolding arrays_defs by blast

section \<open>The greeting\<close>

lemma sample_paired: "paired (sample_config Initiator mode) (sample_config Responder mode)"
  by (simp add: paired_def config_arrays_def sample_config_def)

text \<open>C14: The greeting is accepted exactly when the peer built it: for the configurations of the two
  ends of one link, B accepts 86 bytes as M0 if and only if they are an M0 that A builds for
  some nonce, and A accepts 102 bytes as the answer to its nonce, reading \<open>nonceB\<close> from them,
  if and only if they are the M1 that B builds for these two nonces.\<close>

theorem greeting_accepted_iff_built:
  assumes "paired a b" and "length m0 = M0_BYTES" and "length m1 = M1_BYTES" and "length nonceA = NONCE_BYTES"
  shows "(validateM0 b m0 (read_at 66 NONCE_BYTES m0) \<longleftrightarrow>
      (\<exists>nonce. length nonce = NONCE_BYTES \<and> m0 = buildM0 a nonce)) \<and>
    (validateM1 a m1 nonceA = Some nonceB \<longleftrightarrow>
      length nonceB = NONCE_BYTES \<and> m1 = buildM1 b nonceA nonceB)"
proof
  note p = assms(1) [unfolded paired_def]
  have nonce: "read_at 66 NONCE_BYTES (buildM0 a nonce) = nonce" if "length nonce = NONCE_BYTES" for nonce
    using that p unfolding buildM0_layout [OF conjunct1 [OF p] that] by (simp add: read_at_def config_arrays_def)
  have "validateM0 b m0 (read_at 66 NONCE_BYTES m0) \<longleftrightarrow> m0 = buildM0 a (read_at 66 NONCE_BYTES m0)"
    using p assms(2) by (simp add: validateM0_layout buildM0_layout)
  then show "validateM0 b m0 (read_at 66 NONCE_BYTES m0) \<longleftrightarrow> (\<exists>nonce. length nonce = NONCE_BYTES \<and> m0 = buildM0 a nonce)"
    using nonce assms(2) by (auto intro: exI [of _ "read_at 66 NONCE_BYTES m0"])
  show "validateM1 a m1 nonceA = Some nonceB \<longleftrightarrow> length nonceB = NONCE_BYTES \<and> m1 = buildM1 b nonceA nonceB"
    using p assms(3,4) by (auto simp: validateM1_layout buildM1_layout)
qed

theorem greeting_accepted_iff_built_witness:
  "validateM1 (sample_config Initiator RepositoryAssisted)
     (buildM1 (sample_config Responder RepositoryAssisted) (replicate 16 1) (replicate 16 2)) (replicate 16 1) = Some (replicate 16 2)"
proof -
  let ?b = "sample_config Responder RepositoryAssisted"
  have "length (buildM1 ?b (replicate 16 1) (replicate 16 2)) = M1_BYTES"
    by (rule message_lengths(2) [OF sample_config_arrays]) simp_all
  from greeting_accepted_iff_built [OF sample_paired, where ?m0.0 = "zeros 86" and nonceA = "replicate 16 1" and nonceB = "replicate 16 2", OF _ this]
  show ?thesis by simp
qed

end
