(* ===== verification/SecretErasure.thy ===== *)
theory SecretErasure
  imports SessionProperties
begin

text \<open>
  What the end of a session erases: the KEM object is released whenever a key was put into
  it, and the arrays that the cleanup wipes are zero. What it does not erase is in
  \<open>SecretResidue\<close>.
\<close>

section \<open>The KEM key is under the flag that releases it\<close>

definition kem_guarded :: "'a node_scheme \<Rightarrow> bool" where
  "kem_guarded n \<longleftrightarrow> m_kemInitialized n \<or> set (m_kemKey n) \<subseteq> {0}"

definition kem_view :: "'a node_scheme \<Rightarrow> bool \<times> bytes" where
  "kem_view n = (m_kemInitialized n, m_kemKey n)"

lemma kem_guarded_view: "kem_view c' = kem_view c \<Longrightarrow> kem_guarded c \<Longrightarrow> kem_guarded c'"
  by (simp add: kem_view_def kem_guarded_def)

lemma kem_initialized_view: "kem_view c' = kem_view c \<Longrightarrow> m_kemInitialized c \<Longrightarrow> m_kemInitialized c'"
  by (simp add: kem_view_def)

lemma freeKem_zero: "kem_guarded n \<Longrightarrow> set (m_kemKey (freeKem n)) \<subseteq> {0} \<and> \<not> m_kemInitialized (freeKem n)"
  by (auto simp: kem_guarded_def freeKem_def zeros_def)

lemma kemInit_guarded:
  "kem_guarded c \<Longrightarrow> kem_guarded (snd (kemInit W c)) \<and> (fst (kemInit W c) = Some True \<longrightarrow> m_kemInitialized (snd (kemInit W c)))"
  using freeKem_zero [of c] by (auto simp: kemInit_def initializeKem_def kem_guarded_def Let_def)

lemma key_guarded:
  "m_kemInitialized c \<Longrightarrow> m_kemInitialized (snd (makeKemKey W e c))"
  "m_kemInitialized c \<Longrightarrow> m_kemInitialized (snd (encapsulate W e c))"
  by (simp_all add: makeKemKey_def encapsulate_def addKem_def Let_def split_beta)

lemma guarded_outline:
  assumes pre: "list_all (spares kem_view) pre" and post: "list_all (spares kem_view) post"
    and key: "\<And>c. m_kemInitialized c \<Longrightarrow> m_kemInitialized (snd (key c))"
  shows "outline kem_guarded kem_guarded (pre @ kemInit W # key # post)"
proof -
  have "outline kem_guarded (\<lambda>c. m_kemInitialized c) (post @ [])"
    by (rule outline_spares [OF _ post]) (auto intro: outline_end kem_initialized_view simp: kem_guarded_def)
  then have "outline kem_guarded (\<lambda>c. m_kemInitialized c) (key # post)"
    by (intro outline_stage [where Q = "\<lambda>c. m_kemInitialized c"]) (auto simp: kem_guarded_def key)
  then have "outline kem_guarded kem_guarded (kemInit W # key # post)"
    by (rule outline_stage [rotated 2]) (simp_all add: kemInit_guarded)
  then show ?thesis by (rule outline_spares [OF _ pre]) (rule kem_guarded_view)
qed

lemma initiator_guarded: "outline kem_guarded kem_guarded (initiatorStages W e)"
  unfolding initiatorStages_def
  by (rule guarded_outline [of "[_, _, _, _]", simplified])
    (simp_all, (intro conjI, (rule spares_touches, rule effects, simp add: kem_view_def)+)+, rule key_guarded)

lemma responder_guarded: "outline kem_guarded kem_guarded (receiveM0 e # responderStages W e ip port)"
  unfolding responderStages_def
  by (rule guarded_outline [of "[_, _, _, _, _, _, _, _, _, _]", simplified])
    (simp_all, (intro conjI, (rule spares_touches, rule effects, simp add: kem_view_def)+)+, rule key_guarded)

section \<open>After a session\<close>

text \<open>The members that a session fills and the cleanup wipes, outside sessions.\<close>

definition members_erased :: "'a node_scheme \<Rightarrow> bool" where
  "members_erased n \<longleftrightarrow> m_mu n = zeros MU_A_BYTES \<and> m_signInput n = zeros LMOTS_SIGNED_OBJECT_BYTES \<and>
    \<not> m_kemInitialized n \<and> set (m_kemKey n) \<subseteq> {0}"

text \<open>The locals of a handler that hold secrets, after \<open>cleanup\<close>.\<close>

definition locals_erased :: "session \<Rightarrow> bool" where
  "locals_erased c \<longleftrightarrow> l_runtimeSeed c = zeros HASH_BYTES \<and> l_sharedSecret c = zeros MLKEM_SHARED_SECRET_BYTES \<and>
    l_sessionKey c = zeros HASH_BYTES \<and> l_confirmA c = zeros HASH_BYTES \<and> l_confirmB c = zeros HASH_BYTES \<and>
    l_tauA c = zeros HMAC_BYTES \<and> l_tauB c = zeros HMAC_BYTES \<and> l_peerPath c = zeros LMS_PATH_BYTES"

lemma cleanup_erases:
  assumes "session_arrays c" and "kem_guarded c"
  shows "members_erased (sessionCleanup c)" and "locals_erased (sessionCleanup c)"
proof -
  have f: "m_kemInitialized (sessionCleanup c) = m_kemInitialized (freeKem c)"
    "m_kemKey (sessionCleanup c) = m_kemKey (freeKem c)"
    by (simp_all add: sessionCleanup_def wipeSessionSecrets_def Let_def)
  show "members_erased (sessionCleanup c)"
    unfolding members_erased_def f using freeKem_zero [OF assms(2)] assms(1)
    by (simp add: sessionCleanup_def wipeSessionSecrets_def Let_def freeKem_def secureZero_eq arrays_defs)
  show "locals_erased (sessionCleanup c)"
    using assms(1) by (simp add: locals_erased_def sessionCleanup_def wipeSessionSecrets_def Let_def freeKem_def
        secureZero_eq arrays_defs)
qed

lemma members_erased_truncate: "members_erased (node.truncate c) = members_erased c"
  by (simp add: members_erased_def node.defs)

lemma members_erased_enter: "members_erased (enterSession n) = members_erased n" "kem_guarded (enterSession n) = kem_guarded n"
  by (simp_all add: members_erased_def kem_guarded_def enterSession_def node.defs)

lemma members_erased_guarded: "members_erased n \<Longrightarrow> kem_guarded n"
  by (simp add: members_erased_def kem_guarded_def)

text \<open>How a session ends: either before M0 was received, which fills none of these, or with the cleanup.\<close>

lemma receiveM0_spares: "spares (\<lambda>c. (kem_view c, m_mu c, m_signInput c)) (receiveM0 e)"
  by (rule spares_touches, rule effects) (simp add: kem_view_def)

lemma initiator_cuts:
  assumes "sized W e" and "node_arrays n" and "kem_guarded n"
  shows "session_arrays (snd (runStages (take k (initiatorStages W e)) (enterSession n)))"
    and "kem_guarded (snd (runStages (take k (initiatorStages W e)) (enterSession n)))"
  using keeps_arrays_run [OF initiator_keeps_arrays [OF assms(1)]] outline_cut [OF initiator_guarded] assms(2,3)
  by (simp_all add: enterSession_arrays members_erased_enter)

lemma responder_cuts:
  assumes "sized W e" and "node_arrays n" and "kem_guarded n"
  shows "session_arrays (snd (runStages (take k (receiveM0 e # responderStages W e ip port)) (enterSession n)))"
    and "kem_guarded (snd (runStages (take k (receiveM0 e # responderStages W e ip port)) (enterSession n)))"
  using keeps_arrays_run [OF responder_keeps_arrays [OF assms(1)]] outline_cut [OF responder_guarded] assms(2,3)
  by (simp_all only: enterSession_arrays members_erased_enter)

lemma initiator_ends:
  assumes "runInitiatorSession W e n = Some (ok, n')" and "sized W e" and "node_arrays n" and "kem_guarded n"
  obtains c where "session_arrays c" and "kem_guarded c" and "n' = node.truncate (sessionCleanup c)"
proof -
  from assms(1) obtain r c where run: "runStages (initiatorStages W e) (enterSession n) = (r, c)"
    and n': "n' = node.truncate (sessionCleanup c)"
    by (auto simp: runInitiatorSession_def split: prod.splits option.splits)
  from initiator_cuts [OF assms(2-4), of "length (initiatorStages W e)"] show ?thesis using run that n' by simp
qed

lemma responder_ends:
  assumes "runResponderOnce W e n = Some (ok, n')" and "sized W e" and "node_arrays n" and "kem_guarded n"
  obtains c where "receiveM0 e (enterSession n) = (Some False, c)" and "n' = node.truncate c" and "\<not> ok"
  | c where "session_arrays c" and "kem_guarded c" and "n' = node.truncate (sessionCleanup c)"
proof -
  obtain r0 c0 where m0: "receiveM0 e (enterSession n) = (r0, c0)" by fastforce
  let ?ip = "r_sourceIp (l_packet c0)" and ?port = "r_sourcePort (l_packet c0)"
  let ?all = "receiveM0 e # responderStages W e ?ip ?port"
  consider "r0 = Some False" "n' = node.truncate c0" "\<not> ok"
    | r c where "r0 = Some True" "runStages (responderStages W e ?ip ?port) c0 = (r, c)" "n' = node.truncate (sessionCleanup c)"
    using assms(1) m0 by (auto simp: runResponderOnce_def split: prod.splits option.splits bool.splits)
  then show ?thesis
  proof cases
    case 1
    then show ?thesis using that(1) m0 by blast
  next
    case (2 r c)
    then have run: "runStages ?all (enterSession n) = (r, c)" using m0 by (simp add: andThen_def)
    from responder_cuts [OF assms(2-4), of "length ?all" ?ip ?port] show ?thesis using run that(2) 2(3) by simp
  qed
qed

lemma responder_members:
  assumes "runResponderOnce W e n = Some (ok, n')" and "members_erased n" and "node_arrays n" and "sized W e"
  shows "members_erased n'"
  using responder_ends [OF assms(1,4,3) members_erased_guarded [OF assms(2)]]
proof cases
  case (1 c)
  from spares_result [OF receiveM0_spares 1(1)] show ?thesis
    using assms(2) 1(2) by (simp add: members_erased_def kem_view_def enterSession_def node.defs)
next
  case (2 c)
  then show ?thesis using cleanup_erases(1) members_erased_truncate by metis
qed

end
