(* ===== verification/HonestSession.thy ===== *)
theory HonestSession
  imports HonestInitiator HonestResponder LmsTotal SecretErasure
begin

text \<open>
  Two devices that were set up for each other and whose messages arrive complete a session
  with the same key. \<open>exchange_of\<close> computes the exchange from the two states and from what
  the two environments supply locally (randomness, PUF, clocks), not from what they hear.
\<close>

section \<open>Calls that succeed\<close>

lemma hkdf_expand_succeeds:
  "wolf_works W \<Longrightarrow> wolf_sizes W \<Longrightarrow> length prk \<le> UINT32_MAX \<Longrightarrow> length info \<le> 128 \<Longrightarrow> length previous \<le> 32 \<Longrightarrow>
   succeeds (hkdf_expand W prk info L previous counter off out)"
proof (induction W prk info L previous counter off out rule: hkdf_expand.induct)
  case (1 W prk info L previous counter off out)
  have block: "hmacSha256 W prk (previous @ info @ [counter]) = Inr (snd (wc_HmacFinal W prk (previous @ info @ [counter])))"
    (is "_ = Inr ?b") using "1.prems" by (intro hmacSha256_works) simp_all
  have "length ?b \<le> 32" using "1.prems"(2) by (simp add: wolf_sizes_def)
  then show ?case
    using "1.IH" [of ?b] "1.prems" block by (subst hkdf_expand.simps) (simp add: Let_def)
qed

lemma hkdfSha256_succeeds:
  assumes "wolf_works W" and "wolf_sizes W" and "length ikm \<le> UINT32_MAX" and "length salt \<le> UINT32_MAX"
    and "length info \<le> 128" and "0 < L" and "L \<le> 255 * HASH_BYTES"
  shows "succeeds (hkdfSha256 W ikm salt info L)"
proof -
  have "length (snd (wc_HmacFinal W k x)) \<le> UINT32_MAX" for k x using assms(2) by (simp add: wolf_sizes_def)
  then show ?thesis
    using assms hmacSha256_works [OF assms(1) _ assms(3)] hkdf_expand_succeeds [OF assms(1,2) _ assms(5)]
    by (simp add: hkdfSha256_def Let_def)
qed

lemma transcriptHash_succeeds:
  assumes "wolf_works W" and "length m0 \<le> 65535" and "length m1 \<le> 65535" and "length m2 \<le> 65535" and "length inner \<le> 65535"
  shows "\<exists>th. transcriptHash W sid m0 m1 m2 inner = Some th"
  using assms by (simp add: transcriptHash_def wolf_works_def Let_def split_beta)

lemma deriveSessionKeys_succeeds:
  assumes "wolf_works W" and "wolf_sizes W" and "length secret = MLKEM_SHARED_SECRET_BYTES" and "length th = HASH_BYTES"
  shows "\<exists>key a b. deriveSessionKeys W secret th = Inr (key, a, b)"
proof -
  have "succeeds (hkdfSha256 W secret th ([PROTOCOL_VERSION, DOMAIN_UAV_AKE] @ putU16 (of_nat HASH_BYTES) @ th) 96)"
    using assms by (intro hkdfSha256_succeeds) simp_all
  then show ?thesis by (auto simp: deriveSessionKeys_def succeeds_iff)
qed

lemma computeConfirmationTag_succeeds:
  assumes "wolf_works W" and "length k = HASH_BYTES" and "length th = HASH_BYTES"
  shows "\<exists>tag. computeConfirmationTag W d k th = Inr tag"
  using assms by (simp add: computeConfirmationTag_def hmacSha256_works)

lemma computeSid0_succeeds:
  assumes "wolf_works W" and "length m0 = M0_BYTES" and "length m1 = M1_BYTES"
  shows "\<exists>sid. computeSid0 W m0 m1 = Inr sid"
  using assms by (simp add: computeSid0_def sha256_works)

section \<open>Parties\<close>

text \<open>The documented behaviour of ML-KEM: decapsulation inverts encapsulation.\<close>

definition kem_works :: "wolf \<Rightarrow> bool" where
  "kem_works W \<longleftrightarrow> wc_MlKemKey_Init W = 0 \<and>
    (\<forall>r. \<exists>key publicKey encKey. wc_MlKemKey_MakeKey W r = (0, key) \<and> wc_MlKemKey_EncodePublicKey W key = (0, publicKey) \<and>
      wc_MlKemKey_DecodePublicKey W publicKey = (0, encKey) \<and>
      (\<forall>r'. \<exists>ct secret. wc_MlKemKey_Encapsulate W encKey r' = (0, ct, secret) \<and> wc_MlKemKey_Decapsulate W key ct = (0, secret)))"

text \<open>A device ready for a session: its tree is built from the seed its PUF yields, and an index is left.\<close>

definition ready_party :: "wolf \<Rightarrow> env \<Rightarrow> node \<Rightarrow> bool" where
  "ready_party W e n \<longleftrightarrow>
    node_arrays n \<and> length (e_nonce e) = NONCE_BYTES \<and> length (e_C e) = HASH_BYTES \<and> e_putOk e \<and>
    \<not> qOutOfRange (storedQ n) n \<and>
    (\<exists>seed. runtimeSeed W (puf e) (config n) = Some seed \<and> built_from W seed (m_lms n))"

text \<open>A device that holds the valid public record of its peer and, in repository mode, gets the peer's path.\<close>

definition trusts :: "wolf \<Rightarrow> env \<Rightarrow> node \<Rightarrow> node \<Rightarrow> bool" where
  "trusts W e n peer \<longleftrightarrow>
    validatePeerRecord (e_now e) (credentialVersion (config peer)) n \<and>
    p_identifier (m_peerRecord n) = m_identifier (m_lms peer) \<and> Some (p_root (m_peerRecord n)) = root (m_lms peer) \<and>
    (pathMode (config n) = RepositoryAssisted \<longrightarrow>
      (\<exists>op g. fetchPeerPath W (credentialVersion (config peer)) (storedQ peer) (e_gcsUs e) (e_gcs e) (m_gcs n) =
        Some (extractPath (m_lms peer) (storedQ peer), op, g)))"

section \<open>The exchange of two parties\<close>

text \<open>The fields in the order in which the parties compute them.\<close>

definition greeting_of :: "env \<Rightarrow> env \<Rightarrow> node \<Rightarrow> node \<Rightarrow> exchange" where
  "greeting_of eA eB a b =
    \<lparr>x_mode = pathMode (config a), x_idA = deviceId (config a), x_idB = peerId (config a),
     x_versionA = credentialVersion (config a), x_versionB = credentialVersion (config b),
     x_session = e_session eA OR 1, x_nonceA = e_nonce eA, x_nonceB = e_nonce eB,
     x_sid = [], x_qA = storedQ a, x_publicKey = [], x_signatureA = [], x_pathA = [], x_hashM2 = [],
     x_qB = storedQ b, x_ciphertext = [], x_signatureB = [], x_pathB = [], x_secret = [], x_transcript = [],
     x_key = [], x_confirmA = [], x_confirmB = [], x_tauA = [], x_tauB = []\<rparr>"

definition with_m2 :: "wolf \<Rightarrow> env \<Rightarrow> node \<Rightarrow> exchange \<Rightarrow> exchange" where
  "with_m2 W e n x =
    (let x = x\<lparr>x_sid := projr (computeSid0 W (M0_of x) (M1_of x)),
               x_publicKey := snd (wc_MlKemKey_EncodePublicKey W (snd (wc_MlKemKey_MakeKey W (e_kemRandom e)))),
               x_pathA := the (extractPath (m_lms n) (x_qA x))\<rparr>;
         x = x\<lparr>x_signatureA := projr (sign W (m_lms n) (x_qA x) (signedA_of x) (the (runtimeSeed W (puf e) (config n))) (e_C e))\<rparr>
     in x\<lparr>x_hashM2 := projr (sha256 W (M2_of x))\<rparr>)"

definition with_m3 :: "wolf \<Rightarrow> env \<Rightarrow> node \<Rightarrow> exchange \<Rightarrow> exchange" where
  "with_m3 W e n x =
    (case wc_MlKemKey_Encapsulate W (snd (wc_MlKemKey_DecodePublicKey W (x_publicKey x))) (e_kemRandom e) of
       (_, ct, secret) \<Rightarrow>
         let x = x\<lparr>x_ciphertext := ct, x_secret := secret, x_pathB := the (extractPath (m_lms n) (x_qB x))\<rparr>
         in x\<lparr>x_signatureB := projr (sign W (m_lms n) (x_qB x) (signedB_of x) (the (runtimeSeed W (puf e) (config n))) (e_C e))\<rparr>)"

definition with_keys :: "wolf \<Rightarrow> exchange \<Rightarrow> exchange" where
  "with_keys W x =
    (let th = the (transcriptHash W (x_sid x) (M0_of x) (M1_of x) (M2_of x) (inner_of x))
     in case projr (deriveSessionKeys W (x_secret x) th) of
          (key, confirmA, confirmB) \<Rightarrow>
            x\<lparr>x_transcript := th, x_key := key, x_confirmA := confirmA, x_confirmB := confirmB,
              x_tauB := projr (computeConfirmationTag W DOMAIN_B_CONFIRM confirmB th),
              x_tauA := projr (computeConfirmationTag W DOMAIN_A_CONFIRM confirmA th)\<rparr>)"

definition exchange_of :: "wolf \<Rightarrow> env \<Rightarrow> env \<Rightarrow> node \<Rightarrow> node \<Rightarrow> exchange" where
  "exchange_of W eA eB a b = with_keys W (with_m3 W eB b (with_m2 W eA a (greeting_of eA eB a b)))"

section \<open>It is consistent\<close>

definition wolf_ready :: "wolf \<Rightarrow> bool" where
  "wolf_ready W \<longleftrightarrow> wolf_sizes W \<and> wolf_works W \<and> kem_sizes W \<and> kem_works W"

lemma party_signs:
  assumes "wolf_ready W" and "ready_party W e n" and "length msg \<le> 970"
  obtains seed sig path where "runtimeSeed W (puf e) (config n) = Some seed" and "sign W (m_lms n) (storedQ n) msg seed (e_C e) = Inr sig"
    and "length sig = LMOTS_SIGNATURE_BYTES" and "extractPath (m_lms n) (storedQ n) = Some path" and "length path = LMS_PATH_BYTES"
    and "\<And>r. root (m_lms n) = Some r \<Longrightarrow> verify W (storedQ n) msg sig (m_identifier (m_lms n)) path r"
proof -
  have W: "wolf_sizes W" "wolf_works W" using assms(1) by (simp_all add: wolf_ready_def)
  obtain seed where seed: "runtimeSeed W (puf e) (config n) = Some seed" "built_from W seed (m_lms n)"
    and n: "node_arrays n" "length (e_C e) = 32" "\<not> qOutOfRange (storedQ n) n"
    using assms(2) by (auto simp: ready_party_def)
  have q: "storedQ n < 1024" using n(3) by (simp add: qOutOfRange_def Let_def not_le)
  have lms: "lms_arrays (m_lms n)" using n(1) by (simp add: node_arrays_def)
  have "succeeds (sign W (m_lms n) (storedQ n) msg seed (e_C e))"
    using W lms n(2) q assms(3) runtimeSeed_length [OF W(1) seed(1)]
    by (intro sign_succeeds wolf_works_sha) (simp_all add: lms_arrays_def)
  then obtain sig where sig: "sign W (m_lms n) (storedQ n) msg seed (e_C e) = Inr sig" by (auto simp: succeeds_iff)
  obtain path where path: "extractPath (m_lms n) (storedQ n) = Some path" using extractPath_root_built [OF seed(2) q] by blast
  show ?thesis
    by (rule that [OF seed(1) sig sign_length [OF W(1) n(2) sig] path extractPath_length [OF lms path]])
      (rule honest_verify [OF W(1) seed(2) n(2) sig path])
qed

lemma signed_of_lengths:
  "length (x_sid x) = 32 \<Longrightarrow> length (x_idA x) = 32 \<Longrightarrow> length (x_idB x) = 32 \<Longrightarrow> length (x_publicKey x) = 800 \<Longrightarrow>
   length (signedA_of x) = LMOTS_SIGNED_OBJECT_BYTES"
  "length (x_sid x) = 32 \<Longrightarrow> length (x_hashM2 x) = 32 \<Longrightarrow> length (x_idA x) = 32 \<Longrightarrow> length (x_idB x) = 32 \<Longrightarrow>
   length (x_ciphertext x) = 768 \<Longrightarrow> length (signedB_of x) = LMOTS_SIGNED_OBJECT_BYTES"
  by (simp_all add: signedA_of_def signedB_of_def)

text \<open>The exchange after A's part.\<close>

definition offer_ok :: "wolf \<Rightarrow> env \<Rightarrow> node \<Rightarrow> exchange \<Rightarrow> bool" where
  "offer_ok W e n x \<longleftrightarrow>
    length (x_idA x) = ID_BYTES \<and> length (x_idB x) = ID_BYTES \<and> length (x_nonceA x) = NONCE_BYTES \<and> length (x_nonceB x) = NONCE_BYTES \<and>
    computeSid0 W (M0_of x) (M1_of x) = Inr (x_sid x) \<and> length (x_sid x) = HASH_BYTES \<and>
    (\<exists>key encKey. wc_MlKemKey_MakeKey W (e_kemRandom e) = (0, key) \<and> wc_MlKemKey_EncodePublicKey W key = (0, x_publicKey x) \<and>
      wc_MlKemKey_DecodePublicKey W (x_publicKey x) = (0, encKey) \<and>
      (\<forall>r'. \<exists>ct secret. wc_MlKemKey_Encapsulate W encKey r' = (0, ct, secret) \<and> wc_MlKemKey_Decapsulate W key ct = (0, secret))) \<and>
    length (x_publicKey x) = MLKEM_PUBLIC_KEY_BYTES \<and>
    (\<exists>seed. runtimeSeed W (puf e) (config n) = Some seed \<and>
      sign W (m_lms n) (x_qA x) (signedA_of x) seed (e_C e) = Inr (x_signatureA x)) \<and>
    length (x_signatureA x) = LMOTS_SIGNATURE_BYTES \<and>
    extractPath (m_lms n) (x_qA x) = Some (x_pathA x) \<and> length (x_pathA x) = LMS_PATH_BYTES \<and>
    sha256 W (M2_of x) = Inr (x_hashM2 x) \<and> length (x_hashM2 x) = HASH_BYTES"

lemma with_m2_ok:
  assumes W: "wolf_ready W" and A: "ready_party W e n" and q: "x_qA x = storedQ n"
    and len: "length (x_idA x) = ID_BYTES" "length (x_idB x) = ID_BYTES" "length (x_nonceA x) = NONCE_BYTES" "length (x_nonceB x) = NONCE_BYTES"
  shows "offer_ok W e n (with_m2 W e n x)"
proof -
  have w: "wolf_sizes W" "wolf_works W" "kem_sizes W" "kem_works W" using W by (simp_all add: wolf_ready_def)
  have greet: "length (M0_of x) = M0_BYTES" "length (M1_of x) = M1_BYTES"
    using len by (simp_all add: M0_of_def M1_of_def spec_suite_def)
  obtain sid where sid: "computeSid0 W (M0_of x) (M1_of x) = Inr sid" using computeSid0_succeeds [OF w(2) greet] by blast
  note sid_len = computeSid0_length [OF w(1) sid]
  from w(4) [unfolded kem_works_def, THEN conjunct2, rule_format, of "e_kemRandom e"]
  obtain key pk ek where kem: "wc_MlKemKey_MakeKey W (e_kemRandom e) = (0, key)" "wc_MlKemKey_EncodePublicKey W key = (0, pk)"
      "wc_MlKemKey_DecodePublicKey W pk = (0, ek)"
      "\<forall>r'. \<exists>ct secret. wc_MlKemKey_Encapsulate W ek r' = (0, ct, secret) \<and> wc_MlKemKey_Decapsulate W key ct = (0, secret)" by blast
  have pk_len: "length pk = 800" using w(3) kem(2) by (metis kem_sizes_def snd_conv)
  let ?x1 = "x\<lparr>x_sid := sid, x_publicKey := pk, x_pathA := the (extractPath (m_lms n) (x_qA x))\<rparr>"
  have "length (signedA_of ?x1) \<le> 970" using sid_len len pk_len by (simp add: signed_of_lengths)
  then obtain seed sig path where sig: "runtimeSeed W (puf e) (config n) = Some seed"
      "sign W (m_lms n) (storedQ n) (signedA_of ?x1) seed (e_C e) = Inr sig" "length sig = LMOTS_SIGNATURE_BYTES"
      "extractPath (m_lms n) (storedQ n) = Some path" "length path = LMS_PATH_BYTES"
    by (rule party_signs [OF W A]) (rule that)
  let ?x2 = "x\<lparr>x_sid := sid, x_publicKey := pk, x_pathA := path, x_signatureA := sig\<rparr>"
  have "length (M2_of ?x2) \<le> UINT32_MAX"
    using sid_len pk_len sig len by (simp add: M2_of_def head2_of_def carried_def)
  from sha256_works [OF w(2) this] obtain h where h: "sha256 W (M2_of ?x2) = Inr h" by blast
  note h_len = sha256_Inr_length [OF w(1) h]
  have "with_m2 W e n x = ?x2\<lparr>x_hashM2 := h\<rparr>"
    using sid kem sig h q by (simp add: with_m2_def Let_def)
  moreover have "M0_of (?x2\<lparr>x_hashM2 := h\<rparr>) = M0_of x" "M1_of (?x2\<lparr>x_hashM2 := h\<rparr>) = M1_of x"
      "M2_of (?x2\<lparr>x_hashM2 := h\<rparr>) = M2_of ?x2" "signedA_of (?x2\<lparr>x_hashM2 := h\<rparr>) = signedA_of ?x1"
    by (simp_all add: M0_of_def M1_of_def M2_of_def head2_of_def carried_def spec_suite_def signedA_of_def)
  moreover have "\<exists>key encKey. wc_MlKemKey_MakeKey W (e_kemRandom e) = (0, key) \<and> wc_MlKemKey_EncodePublicKey W key = (0, pk) \<and>
      wc_MlKemKey_DecodePublicKey W pk = (0, encKey) \<and>
      (\<forall>r'. \<exists>ct secret. wc_MlKemKey_Encapsulate W encKey r' = (0, ct, secret) \<and> wc_MlKemKey_Decapsulate W key ct = (0, secret))"
    using kem by blast
  ultimately show ?thesis
    using sid sid_len pk_len sig q h h_len len by (simp add: offer_ok_def)
qed

text \<open>B's part.\<close>

definition answer_ok :: "wolf \<Rightarrow> env \<Rightarrow> node \<Rightarrow> exchange \<Rightarrow> bool" where
  "answer_ok W e n x \<longleftrightarrow>
    (\<exists>encKey. wc_MlKemKey_DecodePublicKey W (x_publicKey x) = (0, encKey) \<and>
      wc_MlKemKey_Encapsulate W encKey (e_kemRandom e) = (0, x_ciphertext x, x_secret x)) \<and>
    length (x_ciphertext x) = MLKEM_CIPHERTEXT_BYTES \<and> length (x_secret x) = MLKEM_SHARED_SECRET_BYTES \<and>
    (\<exists>seed. runtimeSeed W (puf e) (config n) = Some seed \<and>
      sign W (m_lms n) (x_qB x) (signedB_of x) seed (e_C e) = Inr (x_signatureB x)) \<and>
    length (x_signatureB x) = LMOTS_SIGNATURE_BYTES \<and>
    extractPath (m_lms n) (x_qB x) = Some (x_pathB x) \<and> length (x_pathB x) = LMS_PATH_BYTES"

lemma with_m3_ok:
  assumes W: "wolf_ready W" and B: "ready_party W e n" and q: "x_qB x = storedQ n" and A: "offer_ok W eA a x"
  shows "answer_ok W e n (with_m3 W e n x) \<and> offer_ok W eA a (with_m3 W e n x)"
proof -
  obtain encKey ct secret where kem: "wc_MlKemKey_DecodePublicKey W (x_publicKey x) = (0, encKey)"
      "wc_MlKemKey_Encapsulate W encKey (e_kemRandom e) = (0, ct, secret)"
    using A unfolding offer_ok_def by metis
  have lens: "length ct = 768" "length secret = 32"
    using W kem(2) by (auto simp: wolf_ready_def kem_sizes_def) (metis fst_conv snd_conv)+
  let ?x1 = "x\<lparr>x_ciphertext := ct, x_secret := secret, x_pathB := the (extractPath (m_lms n) (x_qB x))\<rparr>"
  have "length (signedB_of ?x1) \<le> 970" using A lens by (simp add: signed_of_lengths offer_ok_def)
  then obtain seed sig path where sig: "runtimeSeed W (puf e) (config n) = Some seed"
      "sign W (m_lms n) (storedQ n) (signedB_of ?x1) seed (e_C e) = Inr sig" "length sig = LMOTS_SIGNATURE_BYTES"
      "extractPath (m_lms n) (storedQ n) = Some path" "length path = LMS_PATH_BYTES"
    by (rule party_signs [OF W B]) (rule that)
  let ?x2 = "x\<lparr>x_ciphertext := ct, x_secret := secret, x_pathB := path, x_signatureB := sig\<rparr>"
  have eq: "with_m3 W e n x = ?x2" using kem sig q by (simp add: with_m3_def Let_def)
  have "signedB_of ?x2 = signedB_of ?x1" by (simp add: signedB_of_def)
  then have "answer_ok W e n ?x2" using kem lens sig q by (simp add: answer_ok_def)
  moreover have "M0_of ?x2 = M0_of x" "M1_of ?x2 = M1_of x" "M2_of ?x2 = M2_of x" "signedA_of ?x2 = signedA_of x"
    by (simp_all add: M0_of_def M1_of_def M2_of_def head2_of_def carried_def spec_suite_def signedA_of_def)
  then have "offer_ok W eA a ?x2" using A by (simp add: offer_ok_def)
  ultimately show ?thesis by (simp add: eq)
qed

lemma with_keys_ok:
  assumes W: "wolf_ready W" and A: "offer_ok W eA a x" and B: "answer_ok W eB b x"
  shows "consistent W (with_keys W x) \<and> offer_ok W eA a (with_keys W x) \<and> answer_ok W eB b (with_keys W x)"
proof -
  have w: "wolf_sizes W" "wolf_works W" using W by (simp_all add: wolf_ready_def)
  have "length (M0_of x) \<le> 65535" "length (M1_of x) \<le> 65535" "length (M2_of x) \<le> 65535" "length (inner_of x) \<le> 65535"
    using A B by (simp_all add: offer_ok_def answer_ok_def M0_of_def M1_of_def M2_of_def head2_of_def inner_of_def head3_of_def carried_def spec_suite_def)
  from transcriptHash_succeeds [OF w(2) this] obtain th
    where th: "transcriptHash W (x_sid x) (M0_of x) (M1_of x) (M2_of x) (inner_of x) = Some th" by blast
  note th_len = transcriptHash_length [OF w(1) th]
  have "length (x_secret x) = MLKEM_SHARED_SECRET_BYTES" using B by (simp add: answer_ok_def)
  from deriveSessionKeys_succeeds [OF w(2,1) this th_len] obtain key ca cb
    where keys: "deriveSessionKeys W (x_secret x) th = Inr (key, ca, cb)" by blast
  note key_len = deriveSessionKeys_lengths [OF w(1) keys]
  obtain tauB tauA where tags: "computeConfirmationTag W DOMAIN_B_CONFIRM cb th = Inr tauB" "computeConfirmationTag W DOMAIN_A_CONFIRM ca th = Inr tauA"
    using computeConfirmationTag_succeeds [OF w(2)] key_len th_len by metis
  note tag_len = computeConfirmationTag_length [OF w(1) tags(1)] computeConfirmationTag_length [OF w(1) tags(2)]
  let ?x = "x\<lparr>x_transcript := th, x_key := key, x_confirmA := ca, x_confirmB := cb, x_tauB := tauB, x_tauA := tauA\<rparr>"
  have eq: "with_keys W x = ?x" using th keys tags by (simp add: with_keys_def)
  have same: "M0_of ?x = M0_of x" "M1_of ?x = M1_of x" "M2_of ?x = M2_of x" "inner_of ?x = inner_of x"
      "signedA_of ?x = signedA_of x" "signedB_of ?x = signedB_of x"
    by (simp_all add: M0_of_def M1_of_def M2_of_def head2_of_def inner_of_def head3_of_def carried_def spec_suite_def signedA_of_def signedB_of_def)
  have "offer_ok W eA a ?x" "answer_ok W eB b ?x" using A B by (simp_all add: offer_ok_def answer_ok_def same)
  moreover have "consistent W ?x"
    using A B th keys tags tag_len by (simp add: consistent_def same exchange_arrays_def offer_ok_def answer_ok_def)
  ultimately show ?thesis by (simp add: eq)
qed

lemma exchange_greeting [simp]:
  "x_mode (exchange_of W eA eB a b) = pathMode (config a)" "x_idA (exchange_of W eA eB a b) = deviceId (config a)"
  "x_idB (exchange_of W eA eB a b) = peerId (config a)" "x_versionA (exchange_of W eA eB a b) = credentialVersion (config a)"
  "x_versionB (exchange_of W eA eB a b) = credentialVersion (config b)" "x_session (exchange_of W eA eB a b) = e_session eA OR 1"
  "x_nonceA (exchange_of W eA eB a b) = e_nonce eA" "x_nonceB (exchange_of W eA eB a b) = e_nonce eB"
  "x_qA (exchange_of W eA eB a b) = storedQ a" "x_qB (exchange_of W eA eB a b) = storedQ b"
  by (simp_all add: exchange_of_def with_keys_def with_m3_def with_m2_def greeting_of_def Let_def split_beta)

lemma exchange_ok:
  assumes W: "wolf_ready W" and P: "paired (config a) (config b)" and A: "ready_party W eA a" and B: "ready_party W eB b"
  shows "consistent W (exchange_of W eA eB a b)" and "offer_ok W eA a (exchange_of W eA eB a b)"
    and "answer_ok W eB b (exchange_of W eA eB a b)"
proof -
  let ?g = "greeting_of eA eB a b"
  have "offer_ok W eA a (with_m2 W eA a ?g)"
    by (rule with_m2_ok [OF W A]) (use P A B in \<open>simp_all add: greeting_of_def paired_def config_arrays_def ready_party_def\<close>)
  moreover have "x_qB (with_m2 W eA a ?g) = storedQ b"
    by (simp add: with_m2_def greeting_of_def Let_def)
  ultimately have "answer_ok W eB b (with_m3 W eB b (with_m2 W eA a ?g)) \<and> offer_ok W eA a (with_m3 W eB b (with_m2 W eA a ?g))"
    using with_m3_ok [OF W B] by blast
  then show "consistent W (exchange_of W eA eB a b)" and "offer_ok W eA a (exchange_of W eA eB a b)"
    and "answer_ok W eB b (exchange_of W eA eB a b)"
    using with_keys_ok [OF W] unfolding exchange_of_def by blast+
qed

lemma signature_trusted:
  assumes W: "wolf_ready W" and A: "ready_party W e peer" and T: "trusts W e' n peer"
    and sig: "runtimeSeed W (puf e) (config peer) = Some seed" "sign W (m_lms peer) (storedQ peer) msg seed (e_C e) = Inr sig"
    and path: "extractPath (m_lms peer) (storedQ peer) = Some path"
  shows "verify W (storedQ peer) msg sig (p_identifier (m_peerRecord n)) path (p_root (m_peerRecord n))"
proof -
  from A sig(1) have "built_from W seed (m_lms peer)" "length (e_C e) = HASH_BYTES" by (auto simp: ready_party_def)
  with W T path sig(2) show ?thesis
    using honest_verify [of W seed "m_lms peer" "e_C e" "storedQ peer" msg sig path "p_root (m_peerRecord n)"]
    by (simp add: wolf_ready_def trusts_def)
qed

lemma index_left: "ready_party W e n \<Longrightarrow> storedQ n < 1024"
  by (simp add: ready_party_def qOutOfRange_def Let_def not_le)

lemma exchange_parties:
  assumes W: "wolf_ready W" and P: "paired (config a) (config b)"
    and A: "ready_party W eA a" "trusts W eA a b" and B: "ready_party W eB b" "trusts W eB b a"
  shows "initiates W eA a (exchange_of W eA eB a b)" and "responds W eB b (exchange_of W eA eB a b)"
proof -
  let ?x = "exchange_of W eA eB a b"
  note ok = exchange_ok [OF W P A(1) B(1)]
  have kem: "wc_MlKemKey_Init W = 0" using W by (simp add: wolf_ready_def kem_works_def)
  have p: "role (config a) = Initiator" "role (config b) = Responder" "pathMode (config b) = pathMode (config a)"
      "deviceId (config b) = peerId (config a)" "peerId (config b) = deviceId (config a)"
    using P by (simp_all add: paired_def)
  obtain seedA where sA: "runtimeSeed W (puf eA) (config a) = Some seedA"
      "sign W (m_lms a) (storedQ a) (signedA_of ?x) seedA (e_C eA) = Inr (x_signatureA ?x)"
      "extractPath (m_lms a) (storedQ a) = Some (x_pathA ?x)"
    using ok(2) by (auto simp: offer_ok_def)
  obtain seedB where sB: "runtimeSeed W (puf eB) (config b) = Some seedB"
      "sign W (m_lms b) (storedQ b) (signedB_of ?x) seedB (e_C eB) = Inr (x_signatureB ?x)"
      "extractPath (m_lms b) (storedQ b) = Some (x_pathB ?x)"
    using ok(3) by (auto simp: answer_ok_def)
  obtain key encKey where k: "wc_MlKemKey_MakeKey W (e_kemRandom eA) = (0, key)" "wc_MlKemKey_EncodePublicKey W key = (0, x_publicKey ?x)"
      "wc_MlKemKey_DecodePublicKey W (x_publicKey ?x) = (0, encKey)"
      "\<forall>r'. \<exists>ct secret. wc_MlKemKey_Encapsulate W encKey r' = (0, ct, secret) \<and> wc_MlKemKey_Decapsulate W key ct = (0, secret)"
    using ok(2) unfolding offer_ok_def by blast
  have enc: "wc_MlKemKey_Encapsulate W encKey (e_kemRandom eB) = (0, x_ciphertext ?x, x_secret ?x)"
    using ok(3) k(3) by (auto simp: answer_ok_def)
  have dec: "wc_MlKemKey_Decapsulate W key (x_ciphertext ?x) = (0, x_secret ?x)"
    using k(4) enc by (metis prod.inject)
  have "\<exists>key. wc_MlKemKey_MakeKey W (e_kemRandom eA) = (0, key) \<and> wc_MlKemKey_EncodePublicKey W key = (0, x_publicKey ?x) \<and>
      wc_MlKemKey_Decapsulate W key (x_ciphertext ?x) = (0, x_secret ?x)" using k dec by blast
  moreover have "verify W (storedQ b) (signedB_of ?x) (x_signatureB ?x) (p_identifier (m_peerRecord a)) (x_pathB ?x) (p_root (m_peerRecord a))"
    by (rule signature_trusted [OF W B(1) A(2) sB])
  ultimately show "initiates W eA a ?x"
    using A p kem sA sB(3) index_left [OF B(1)] unfolding initiates_def ready_party_def trusts_def by simp
  have "verify W (storedQ a) (signedA_of ?x) (x_signatureA ?x) (p_identifier (m_peerRecord b)) (x_pathA ?x) (p_root (m_peerRecord b))"
    by (rule signature_trusted [OF W A(1) B(2) sA])
  then show "responds W eB b ?x"
    using B p kem sB sA(3) k(3) enc index_left [OF A(1)] unfolding responds_def ready_party_def trusts_def by simp
qed

section \<open>The handlers\<close>

lemma initiator_handler:
  assumes "runStages (initiatorStages W e) (enterSession n) = (Some True, c)"
  shows "runInitiatorSession W e n = Some (True, node.truncate (sessionCleanup c))"
  using assms by (simp add: runInitiatorSession_def)

lemma responder_handler:
  assumes "runStages (receiveM0 e # responderStages W e ip port) (enterSession n) = (r, c)" and "r \<noteq> None"
    and "receiveM0 e (enterSession n) = (Some True, c0)" and "r_sourceIp (l_packet c0) = ip" and "r_sourcePort (l_packet c0) = port"
  shows "runResponderOnce W e n = Some (l_accepted c, node.truncate (sessionCleanup c))"
  using assms by (auto simp: runResponderOnce_def andThen_def)

end
