(* ===== verification/AcceptanceProperties.thy ===== *)
theory AcceptanceProperties
  imports HonestSession
begin

text \<open>
  What completed sessions mean: an undisturbed session completes on both sides with the same
  key, and a side that accepts has checked everything it should have. A pair of sample
  devices, wired to each other, shows that the hypotheses can hold.
\<close>

lemma session_completes:
  fixes a b
  assumes "wolf_ready W" and "paired (config a) (config b)"
    and "ready_party W eA a" and "trusts W eA a b" and "ready_party W eB b" and "trusts W eB b a"
    and "initiator_linked eA ipB portB result (exchange_of W eA eB a b)"
    and "responder_linked eB ipA portA (exchange_of W eA eB a b)"
  obtains cA cB where "runStages (initiatorStages W eA) (enterSession a) = (Some True, cA)"
    and "runStages (receiveM0 eB # responderStages W eB ipA portA) (enterSession b) = (Some True, cB)"
    and "runInitiatorSession W eA a = Some (True, node.truncate (sessionCleanup cA))"
    and "runResponderOnce W eB b = Some (True, node.truncate (sessionCleanup cB))"
    and "concluded a ipB portB (exchange_of W eA eB a b) cA" and "accepted b ipA portA (exchange_of W eA eB a b) cB"
proof -
  let ?x = "exchange_of W eA eB a b"
  note x = exchange_ok(1) [OF assms(1-3,5)]
  note arrays = x [unfolded consistent_def, THEN conjunct1]
  note parties = exchange_parties [OF assms(1-6)]
  obtain cA where A: "runStages (initiatorStages W eA) (enterSession a) = (Some True, cA)" "concluded a ipB portB ?x cA"
    by (rule initiator_completes [OF parties(1) assms(7) x])
  obtain cB where B: "runStages (receiveM0 eB # responderStages W eB ipA portA) (enterSession b) = (Some True, cB)"
      "accepted b ipA portA ?x cB"
    by (rule responder_completes [OF parties(2) assms(8) x])
  have "hears (e_recvs eB 0) MSG_M0_REQ 0 (x_session ?x) (M0_of ?x) ipA portA" using assms(8) by (simp add: responder_linked_def)
  note rx = receiveM0_succeeds [OF this message_of_lengths(1) [OF arrays], of "enterSession b"]
  have "runResponderOnce W eB b = Some (l_accepted cB, node.truncate (sessionCleanup cB))"
    by (rule responder_handler [OF B(1) _ rx]) simp_all
  then show ?thesis using that A B initiator_handler [OF A(1)] by (simp add: accepted_def)
qed

section \<open>Two sample devices\<close>

definition radio_of :: "u8 \<Rightarrow> u32 \<Rightarrow> bytes \<Rightarrow> radio" where
  "radio_of type session msg =
    \<lparr>rx_start = 0, rx_polls = map (\<lambda>i. poll_of 1 (fragment type session msg i)) [0..<fragment_count (length msg)]\<rparr>"

definition wired :: "env \<Rightarrow> (nat \<Rightarrow> nat) \<Rightarrow> (nat \<Rightarrow> radio) \<Rightarrow> env" where
  "wired e lens radios =
    e\<lparr>e_sends := (\<lambda>i j. \<lparr>beginPacketOk = True, written = 14 + payload_length (lens i) j, endPacketOk = True\<rparr>), e_recvs := radios\<rparr>"

definition sample_party :: "Role \<Rightarrow> PathDeliveryMode \<Rightarrow> LmsState \<Rightarrow> bytes \<Rightarrow> node" where
  "sample_party r mode lms peerRoot =
    (node_ctor (sample_config r mode) (Some 11))\<lparr>m_lms := lms,
      m_peerRecord := PeerPublicRecord_init\<lparr>p_ready := True, p_version := 1, p_suiteId := suiteIdForMode mode,
        p_status := CREDENTIAL_STATUS_ACTIVE, p_expiryUnix := 0, p_identifier := zeros 16, p_root := peerRoot\<rparr>\<rparr>"

lemma fragment_fits: "i < fragment_count (length msg) \<Longrightarrow> length (fragment type session msg i) \<le> 1014"
  using payload_length_le [of "length msg" i] by (simp add: fragment_length)

lemma radio_hears:
  "hears (radio_of type session msg) type wanted session msg 0x0a000001 5000"
proof -
  let ?ps = "map (\<lambda>i. poll_of 1 (fragment type session msg i)) [0..<fragment_count (length msg)]"
  have d: "delivers 0x0a000001 5000 (fragment type session msg i) (poll_of 1 (fragment type session msg i))"
    if "i < fragment_count (length msg)" for i
    using fragment_fits [OF that] by (rule poll_of_delivers)
  have "buffers_ok (set ?ps)" using d by (auto simp: delivers_def)
  moreover have "traffic type wanted type session msg 0x0a000001 5000 ?ps" using d by (auto simp: traffic_def)
  moreover have "\<exists>p \<in> set ?ps. delivers 0x0a000001 5000 (fragment type session msg i) p" if "i < fragment_count (length msg)" for i
    using d [OF that] that by auto
  ultimately show ?thesis
    unfolding hears_def radio_of_def by (intro exI [of _ ?ps] exI [of _ "[]"]) auto
qed

lemma radio_buffers: "buffers_ok (set (rx_polls (radio_of type session msg)))"
  using fragment_fits by (auto simp: radio_of_def poll_of_def)

lemma wired_accepts: "accepting_net (e_sends (wired e lens radios) i) (lens i)"
  by (simp add: accepting_net_def wired_def)

lemma wired_exchange: "exchange_of W (wired eA la ra) (wired eB lb rb) a b = exchange_of W eA eB a b"
  by (simp add: exchange_of_def with_m2_def with_m3_def greeting_of_def wired_def)

lemma sample_kem_works: "kem_works sample_wolf"
  unfolding kem_works_def
proof (intro conjI allI)
  fix r :: bytes
  have "take 32 (take 800 (k @ zeros 800)) = k" if "length k = 32" for k using that by simp
  then have "take 32 (take 800 (take 32 (r @ zeros 32) @ zeros 800)) = take 32 (r @ zeros 32)"
    using length_take_pad [of 32 r] by blast
  moreover have "xor32 k (take 32 (take 768 (r' @ zeros 768))) = xor32 k r'" for k r' :: bytes
  proof -
    have "(take 32 (take 768 (r' @ zeros 768)) @ zeros 32) ! i = (r' @ zeros 32) ! i" if "i < 32" for i
      using that by (cases "i < length r'") (simp_all add: nth_append zeros_def)
    then show ?thesis by (simp add: xor32_def del: upt_rec_numeral)
  qed
  ultimately show "\<exists>key publicKey encKey. wc_MlKemKey_MakeKey sample_wolf r = (0, key) \<and>
      wc_MlKemKey_EncodePublicKey sample_wolf key = (0, publicKey) \<and> wc_MlKemKey_DecodePublicKey sample_wolf publicKey = (0, encKey) \<and>
      (\<forall>r'. \<exists>ct secret. wc_MlKemKey_Encapsulate sample_wolf encKey r' = (0, ct, secret) \<and>
        wc_MlKemKey_Decapsulate sample_wolf key ct = (0, secret))"
    by (simp add: sample_wolf_def del: take_append)
qed (simp add: sample_wolf_def)

lemma sample_wolf_ready: "wolf_ready sample_wolf"
  by (simp add: wolf_ready_def sample_wolf_sizes sample_wolf_works sample_kem_sizes sample_kem_works)

lemma built_lms:
  assumes "length ident = 16" and "length seed = HASH_BYTES"
  obtains s r where "built_from sample_wolf seed s" and "m_identifier s = ident" and "lms_arrays s" and "root s = Some r"
    and "length r = HASH_BYTES"
proof -
  obtain s1 where init: "initialize True ident seed LmotsLms_ctor = (True, s1)" by (simp add: initialize_def)
  have s1: "m_identifier s1 = ident" "m_seed s1 = seed" "m_tree s1 = Some (replicate LMS_TREE_NODES (zeros 32))"
      "length (m_smallHashInput s1) = smallHashInput" "length (m_publicHashInput s1) = publicHashInput"
    using initialize_True [OF init] by (simp_all add: LmotsLms_ctor_def)
  obtain s2 where s2: "buildTree sample_wolf s1 = (Inr (), s2)"
    using buildTree_succeeds [OF sample_wolf_sizes sample_works(2), of s1] s1 assms by auto
  note b = built_fields [OF init assms s2]
  have "lms_arrays s1" using s1 assms by (simp add: lms_arrays_def)
  from buildTree_arrays [OF sample_wolf_sizes this s2] have "lms_arrays s2" .
  moreover obtain r where r: "root s2 = Some r" using extractPath_root_built [OF b(1), of 0] by auto
  ultimately show ?thesis using that b(1,2) root_length [OF sample_wolf_sizes b(1) r] by blast
qed

lemma sample_seed: obtains seed where "runtimeSeed sample_wolf (puf silent_env) (sample_config r mode) = Some seed" "length seed = 32"
proof -
  have "succeeds (deriveLmsSeed sample_wolf (zeros 32) (deviceId (sample_config r mode)) 1 (zeros 16))"
    unfolding deriveLmsSeed_def
    by (rule hkdfSha256_succeeds [OF sample_wolf_works sample_wolf_sizes]) (simp_all add: lms_seed_label_def sample_config_def)
  then obtain seed where "runtimeSeed sample_wolf (puf silent_env) (sample_config r mode) = Some seed"
    by (auto simp: runtimeSeed_def silent_env_def sample_config_def succeeds_iff split: sum.splits)
  then show ?thesis using that runtimeSeed_length [OF sample_wolf_sizes] by blast
qed

text \<open>A pair of devices and environments that satisfies everything the properties ask for.\<close>

definition sample_pair :: "node \<Rightarrow> node \<Rightarrow> env \<Rightarrow> env \<Rightarrow> bytes \<Rightarrow> bool" where
  "sample_pair a b eA eB result \<longleftrightarrow>
    paired (config a) (config b) \<and> ready_party sample_wolf eA a \<and> trusts sample_wolf eA a b \<and>
    ready_party sample_wolf eB b \<and> trusts sample_wolf eB b a \<and>
    initiator_linked eA 0x0a000001 5000 result (exchange_of sample_wolf eA eB a b) \<and>
    responder_linked eB 0x0a000001 5000 (exchange_of sample_wolf eA eB a b) \<and>
    node_arrays a \<and> node_arrays b \<and> sized sample_wolf eA \<and> sized sample_wolf eB \<and>
    members_erased a \<and> members_erased b"

lemma sample_party_ready:
  assumes "lms_arrays s" and "length r = HASH_BYTES" and "runtimeSeed sample_wolf (puf silent_env) (sample_config rl mode) = Some seed"
    and "built_from sample_wolf seed s"
  shows "ready_party sample_wolf (wired silent_env lens radios) (sample_party rl mode s r)"
proof -
  have "node_arrays (sample_party rl mode s r)"
    using assms(1,2) fresh_arrays [OF sample_config_arrays, of rl mode "Some 11"]
    by (simp add: sample_party_def node_arrays_def record_arrays_def)
  moreover have "storedQ (sample_party rl mode s r) = 11"
    by (simp add: storedQ_def sample_party_def node_ctor_def)
  moreover have "\<not> qOutOfRange 11 (sample_party rl mode s r)"
    by (simp add: qOutOfRange_def sample_party_def node_ctor_def sample_config_def)
  moreover have "config (sample_party rl mode s r) = sample_config rl mode" "m_lms (sample_party rl mode s r) = s"
    by (simp_all add: sample_party_def node_ctor_def)
  ultimately show ?thesis
    using assms(3,4) by (auto simp: ready_party_def wired_def silent_env_def)
qed

lemma sample_party_trusts:
  assumes "m_identifier sB = zeros 16" and "root sB = Some rB"
  shows "trusts sample_wolf (wired silent_env lens radios) (sample_party r SignerCarried sA rB) (sample_party r' SignerCarried sB rA)"
  using assms
  by (simp add: trusts_def sample_party_def node_ctor_def sample_config_def validatePeerRecord_def PeerPublicRecord_init_def)

lemma wired_sized:
  "(\<And>i. \<exists>type session msg. radios i = radio_of type session msg) \<Longrightarrow> sized sample_wolf (wired silent_env lens radios)"
  using radio_buffers silent_sized unfolding sized_def env_arrays_def wired_def by (simp add: silent_env_def) metis

text \<open>Two environments that carry the messages of an exchange in signer-carried mode to each other.\<close>

definition env_A :: "exchange \<Rightarrow> env" where
  "env_A x = wired silent_env (\<lambda>i. if i = 0 then 86 else if i = 1 then 3342 else 66)
    (\<lambda>i. if i = 0 then radio_of MSG_M1_CHAL (x_session x) (M1_of x) else if i = 1 then radio_of MSG_M3_RESP_FIN (x_session x) (M3_of x)
      else radio_of MSG_RESULT (x_session x) (zeros 116))"

definition env_B :: "exchange \<Rightarrow> env" where
  "env_B x = wired silent_env (\<lambda>i. if i = 0 then 102 else if i = 1 then 3378 else 116)
    (\<lambda>i. if i = 0 then radio_of MSG_M0_REQ (x_session x) (M0_of x) else if i = 1 then radio_of MSG_M2_INIT (x_session x) (M2_of x)
      else radio_of MSG_M4_INIT_FIN (x_session x) (M4_of x))"

lemma wired_links:
  assumes "x_mode x = SignerCarried"
  shows "initiator_linked (env_A x) 0x0a000001 5000 (zeros 116) x" and "responder_linked (env_B x) 0x0a000001 5000 x"
proof -
  let ?lensA = "\<lambda>i. if i = 0 then 86 else if i = 1 then 3342 else 66 :: nat"
    and ?lensB = "\<lambda>i. if i = 0 then 102 else if i = 1 then 3378 else 116 :: nat"
  have acceptA: "accepting_net (e_sends (env_A x) i) (?lensA i)" and acceptB: "accepting_net (e_sends (env_B x) i) (?lensB i)" for i
    unfolding env_A_def env_B_def by (rule wired_accepts)+
  have recvs: "e_recvs (env_A x) 0 = radio_of MSG_M1_CHAL (x_session x) (M1_of x)"
    "e_recvs (env_A x) 1 = radio_of MSG_M3_RESP_FIN (x_session x) (M3_of x)"
    "e_recvs (env_A x) 2 = radio_of MSG_RESULT (x_session x) (zeros 116)"
    "e_recvs (env_B x) 0 = radio_of MSG_M0_REQ (x_session x) (M0_of x)"
    "e_recvs (env_B x) 1 = radio_of MSG_M2_INIT (x_session x) (M2_of x)"
    "e_recvs (env_B x) 2 = radio_of MSG_M4_INIT_FIN (x_session x) (M4_of x)"
    by (simp_all add: env_A_def env_B_def wired_def)
  have z: "(zeros 116) ! 0 = 0" by (simp add: zeros_def)
  show "initiator_linked (env_A x) 0x0a000001 5000 (zeros 116) x"
    using radio_hears acceptA [of 0] acceptA [of 1] acceptA [of 2] z
    by (simp add: initiator_linked_def recvs recvs(2) [simplified] assms m2BytesForMode_def)
  show "responder_linked (env_B x) 0x0a000001 5000 x"
    using radio_hears acceptB [of 0] acceptB [of 1] acceptB [of 2]
    by (simp add: responder_linked_def recvs recvs(5) [simplified] assms m3BytesForMode_def)
qed

lemma env_exchange: "exchange_of W (env_A x) (env_B x) a b = exchange_of W silent_env silent_env a b"
  by (simp add: env_A_def env_B_def wired_exchange)

lemma env_sized: "sized sample_wolf (env_A x)" "sized sample_wolf (env_B x)"
  unfolding env_A_def env_B_def by (rule wired_sized, metis)+

lemma sample_pair_exists: obtains a b eA eB result where "sample_pair a b eA eB result"
proof -
  obtain seedA seedB where seeds: "runtimeSeed sample_wolf (puf silent_env) (sample_config Initiator SignerCarried) = Some seedA" "length seedA = 32"
      "runtimeSeed sample_wolf (puf silent_env) (sample_config Responder SignerCarried) = Some seedB" "length seedB = 32"
    using sample_seed by metis
  obtain sA rA where A: "built_from sample_wolf seedA sA" "m_identifier sA = zeros 16" "lms_arrays sA" "root sA = Some rA" "length rA = 32"
    using built_lms [of "zeros 16" seedA] seeds(2) by auto
  obtain sB rB where B: "built_from sample_wolf seedB sB" "m_identifier sB = zeros 16" "lms_arrays sB" "root sB = Some rB" "length rB = 32"
    using built_lms [of "zeros 16" seedB] seeds(4) by auto
  let ?a = "sample_party Initiator SignerCarried sA rB" and ?b = "sample_party Responder SignerCarried sB rA"
  define x where "x = exchange_of sample_wolf silent_env silent_env ?a ?b"
  have mode: "x_mode x = SignerCarried" by (simp add: x_def sample_party_def node_ctor_def sample_config_def)
  note wired_links [OF mode]
  moreover have "ready_party sample_wolf (env_A x) ?a"
    unfolding env_A_def by (rule sample_party_ready [OF A(3) B(5) seeds(1) A(1)])
  moreover have "ready_party sample_wolf (env_B x) ?b"
    unfolding env_B_def by (rule sample_party_ready [OF B(3) A(5) seeds(3) B(1)])
  moreover have "trusts sample_wolf (env_A x) ?a ?b" unfolding env_A_def by (rule sample_party_trusts [OF B(2,4)])
  moreover have "trusts sample_wolf (env_B x) ?b ?a" unfolding env_B_def by (rule sample_party_trusts [OF A(2,4)])
  moreover have "paired (config ?a) (config ?b)" using sample_paired by (simp add: sample_party_def node_ctor_def)
  moreover have "members_erased ?a" "members_erased ?b"
    by (simp_all add: members_erased_def sample_party_def node_ctor_def)
  ultimately have "sample_pair ?a ?b (env_A x) (env_B x) (zeros 116)"
    using env_sized unfolding sample_pair_def env_exchange x_def [symmetric] ready_party_def by blast
  then show ?thesis by (rule that)
qed

lemma sample_runs:
  obtains a b eA eB cA cB where "node_arrays a" and "node_arrays b" and "sized sample_wolf eA" and "sized sample_wolf eB"
    and "paired (config a) (config b)"
    and "runStages (initiatorStages sample_wolf eA) (enterSession a) = (Some True, cA)"
    and "runStages (receiveM0 eB # responderStages sample_wolf eB 0x0a000001 5000) (enterSession b) = (Some True, cB)"
    and "runInitiatorSession sample_wolf eA a = Some (True, node.truncate (sessionCleanup cA))"
    and "runResponderOnce sample_wolf eB b = Some (True, node.truncate (sessionCleanup cB))"
    and "concluded a 0x0a000001 5000 (exchange_of sample_wolf eA eB a b) cA"
    and "accepted b 0x0a000001 5000 (exchange_of sample_wolf eA eB a b) cB"
proof -
  obtain a b eA eB result where p: "sample_pair a b eA eB result" by (rule sample_pair_exists)
  note p' = p [unfolded sample_pair_def]
  from p' obtain cA cB where "runStages (initiatorStages sample_wolf eA) (enterSession a) = (Some True, cA)"
    "runStages (receiveM0 eB # responderStages sample_wolf eB 0x0a000001 5000) (enterSession b) = (Some True, cB)"
    "runInitiatorSession sample_wolf eA a = Some (True, node.truncate (sessionCleanup cA))"
    "runResponderOnce sample_wolf eB b = Some (True, node.truncate (sessionCleanup cB))"
    "concluded a 0x0a000001 5000 (exchange_of sample_wolf eA eB a b) cA"
    "accepted b 0x0a000001 5000 (exchange_of sample_wolf eA eB a b) cB"
    using session_completes [OF sample_wolf_ready, where a = a and b = b and eA = eA and eB = eB] by metis
  then show ?thesis using p' that by blast
qed

section \<open>Properties\<close>

text \<open>C1: An undisturbed session completes. Take two devices configured for the two ends of one link,
  each with a tree built from the seed its PUF yields, an index left in its range and a valid record of
  the other's root, and in repository mode the other's path on request. If what each sends is
  delivered, in any order and with any repetition, amid foreign traffic, then both
  handlers return true with the same session key, and the messages on the wire are those of the
  abstract exchange: M0, M2 and M4 from A, and M1, M3 and the result from B.\<close>

theorem undisturbed_session_completes:
  fixes a b :: node
  assumes "wolf_ready W" and "paired (config a) (config b)"
    and "ready_party W eA a" and "trusts W eA a b" and "ready_party W eB b" and "trusts W eB b a"
    and "initiator_linked eA ipB portB result (exchange_of W eA eB a b)"
    and "responder_linked eB ipA portA (exchange_of W eA eB a b)"
  shows "\<exists>cA cB. runStages (initiatorStages W eA) (enterSession a) = (Some True, cA) \<and>
    runStages (receiveM0 eB # responderStages W eB ipA portA) (enterSession b) = (Some True, cB) \<and>
    runInitiatorSession W eA a = Some (True, node.truncate (sessionCleanup cA)) \<and>
    runResponderOnce W eB b = Some (True, node.truncate (sessionCleanup cB)) \<and>
    l_sessionKey cA = l_sessionKey cB \<and>
    concluded a ipB portB (exchange_of W eA eB a b) cA \<and> accepted b ipA portA (exchange_of W eA eB a b) cB"
proof -
  obtain cA cB where "runStages (initiatorStages W eA) (enterSession a) = (Some True, cA)"
    "runStages (receiveM0 eB # responderStages W eB ipA portA) (enterSession b) = (Some True, cB)"
    "runInitiatorSession W eA a = Some (True, node.truncate (sessionCleanup cA))"
    "runResponderOnce W eB b = Some (True, node.truncate (sessionCleanup cB))"
    "concluded a ipB portB (exchange_of W eA eB a b) cA" "accepted b ipA portA (exchange_of W eA eB a b) cB"
    by (rule session_completes [OF assms])
  then show ?thesis by (auto simp: concluded_def accepted_def)
qed

theorem undisturbed_session_completes_witness:
  "\<exists>a b eA eB cA cB. runStages (initiatorStages sample_wolf eA) (enterSession a) = (Some True, cA) \<and>
    runStages (receiveM0 eB # responderStages sample_wolf eB 0x0a000001 5000) (enterSession b) = (Some True, cB) \<and>
    l_sessionKey cA = l_sessionKey cB"
proof -
  obtain a b eA eB result where "sample_pair a b eA eB result" by (rule sample_pair_exists)
  note p = this [unfolded sample_pair_def]
  from undisturbed_session_completes [OF sample_wolf_ready, where a = a and b = b and eA = eA and eB = eB] p
  show ?thesis by metis
qed

text \<open>C5: The initiator accepts only what it checked. When \<open>runInitiatorSession\<close> returns true, the
  messages in the object satisfy every check of the protocol: M0 is the greeting of this run's nonce,
  M1 carries the version, the type, the two devices, that nonce and the suite, M3 carries the session identifier in both headers, an index below 1024 and the version of a valid, active,
  unexpired record of B, a signature of B over M3's fields and the digest of M2 that verifies
  under B's root, and B's confirmation tag under the keys derived from the transcript; and
  M4 is A's own tag for the same transcript.\<close>

theorem initiator_accepts:
  assumes "node_arrays n" and "sized W e" and "runInitiatorSession W e n = Some (True, n')"
  shows "\<exists>sid hashM2 path secret th key keyA keyB tauA.
    initiator_checked W (e_now e) (e_nonce e) (config n) (m_peerRecord n) (m_m0 n') (m_m1 n') (m_m2 n') (m_m3 n')
      sid hashM2 path secret th key keyA keyB \<and>
    computeConfirmationTag W DOMAIN_A_CONFIRM keyA th = Inr tauA \<and>
    m_m4 n' = [PROTOCOL_VERSION, MSG_M4_INIT_FIN] @ sid @ tauA"
proof -
  from assms(3) obtain c where run: "runStages (initiatorStages W e) (enterSession n) = (Some True, c)"
    and n': "n' = node.truncate (sessionCleanup c)" by (rule initiator_success)
  obtain c1 where run1: "runStages (checkedStages W e) (enterSession n) = (Some True, c1)"
    and tail: "runStages [timedTagA W e, sendM4 e, receiveResult e] c1 = (Some True, c)"
    by (rule initiator_run_checked [OF run])
  note facts = checked_facts [OF run1 assms(2,1)]
  have view: "config c = config c1 \<and> m_peerRecord c = m_peerRecord c1 \<and> m_m0 c = m_m0 c1 \<and> m_m1 c = m_m1 c1 \<and>
      m_m2 c = m_m2 c1 \<and> m_m3 c = m_m3 c1"
    using spares_result [OF spares_run [OF tail_spares] tail] by simp
  obtain c2 c3 where c2: "timedTagA W e c1 = (Some True, c2)" and c3: "sendM4 e c2 = (Some True, c3)"
    and last: "receiveResult e c3 = (Some True, c)"
    using tail by (auto simp: andThen_True)
  have "session_arrays c2"
    using facts(4) c2 hashed_kept(6) [OF assms(2)] unfolding keeps_arrays_def by (metis snd_conv)
  from sendM4_writes [OF this c3] have m4: "m_m4 c3 = [PROTOCOL_VERSION, MSG_M4_INIT_FIN] @ l_sid c2 @ l_tauA c2" .
  have "spares (\<lambda>c. (l_sid c, l_confirmA c, l_transcriptHash c)) (timedTagA W e)" "spares m_m4 (receiveResult e)"
    by (rule spares_touches, rule effects, simp)+
  from spares_result [OF this(1) c2] spares_result [OF this(2) last] timedTag_checks(2) [OF c2]
  have "computeConfirmationTag W DOMAIN_A_CONFIRM (l_confirmA c1) (l_transcriptHash c1) = Inr (l_tauA c2)"
    "m_m4 c = [PROTOCOL_VERSION, MSG_M4_INIT_FIN] @ l_sid c1 @ l_tauA c2"
    using m4 by simp_all
  moreover have "m_m0 n' = m_m0 c \<and> m_m1 n' = m_m1 c \<and> m_m2 n' = m_m2 c \<and> m_m3 n' = m_m3 c \<and> m_m4 n' = m_m4 c"
    using cleanup_fields(1-5) [of c] by (simp add: n' node.defs)
  ultimately show ?thesis using facts(1-3) view by metis
qed

theorem initiator_accepts_witness:
  "\<exists>e n n' sid hashM2 path secret th key keyA keyB. runInitiatorSession sample_wolf e n = Some (True, n') \<and>
    initiator_checked sample_wolf (e_now e) (e_nonce e) (config n) (m_peerRecord n) (m_m0 n') (m_m1 n') (m_m2 n') (m_m3 n')
      sid hashM2 path secret th key keyA keyB"
proof -
  obtain a e c where "node_arrays a" "sized sample_wolf e"
    and run: "runInitiatorSession sample_wolf e a = Some (True, node.truncate (sessionCleanup c))"
    by (rule sample_runs)
  from initiator_accepts [OF this] run show ?thesis by blast
qed

end
