(* ===== verification/AgreementProperties.thy ===== *)
theory AgreementProperties
  imports AcceptanceProperties
begin

text \<open>
  The responder's acceptance, what either side sends only after its checks, and the agreement
  of the two session keys when the two sides saw the same messages.
\<close>

section \<open>Acceptance by the responder\<close>

lemma responder_success:
  assumes "runResponderOnce W e n = Some (True, n')"
  obtains ip port c where "runStages (receiveM0 e # responderStages W e ip port) (enterSession n) = (Some True, c)"
    and "n' = node.truncate (sessionCleanup c)"
proof -
  from assms obtain c0 r c where m0: "receiveM0 e (enterSession n) = (Some True, c0)"
    and run: "runStages (responderStages W e (r_sourceIp (l_packet c0)) (r_sourcePort (l_packet c0))) c0 = (Some r, c)"
    and acc: "l_accepted c" "n' = node.truncate (sessionCleanup c)"
    by (auto simp: runResponderOnce_def split: prod.splits option.splits bool.splits)
  have all: "runStages (receiveM0 e # responderStages W e (r_sourceIp (l_packet c0)) (r_sourcePort (l_packet c0))) (enterSession n) = (Some r, c)"
    using m0 run by (simp add: andThen_def)
  from accepted_only_at_end [OF this acc(1)] all acc(2) that show ?thesis by simp
qed

lemma responder_phases:
  assumes "runStages (receiveM0 e # responderStages W e ip port) (enterSession n) = (Some True, c)"
  obtains c1 c2 c3 c4 where "runStages (verifiedStages W e ip port) (enterSession n) = (Some True, c1)"
    and "runStages (keyStages W e) c1 = (Some True, c2)" and "fillM3Outer c2 = (Some True, c3)"
    and "runStages (finishStages W e ip port) c3 = (Some True, c4)" and "acceptSession e ip port c4 = (Some True, c)"
  using assms unfolding responderStages_split answerStages_split runStages_append andThen_True
  by (auto simp: runStages_append andThen_True)

lemma outer_spares: "spares (\<lambda>c. (config c, m_peerRecord c, m_m0 c, m_m1 c, m_m2 c, l_nonceA c, l_nonceB c, l_sid c, l_hashM2 c,
    l_peerPath c, l_sharedSecret c, l_transcriptHash c, l_sessionKey c, l_confirmA c, l_confirmB c, l_tauB c)) fillM3Outer"
  by (rule spares_touches, rule effects) simp

lemma responder_facts:
  assumes run: "runStages (receiveM0 e # responderStages W e ip port) (enterSession n) = (Some True, c)"
    and S: "sized W e" and A: "node_arrays n"
  shows "m2_verified W (e_now e) (config n) (m_peerRecord n) (m_m0 c) (m_m1 c) (m_m2 c) (l_nonceA c) (l_nonceB c)
      (l_sid c) (l_hashM2 c) (l_peerPath c)"
    and "keys_bound W (config n) (m_m0 c) (m_m1 c) (m_m2 c) (m_m3 c) (l_sid c) (l_sharedSecret c) (l_transcriptHash c)
      (l_sessionKey c) (l_confirmA c) (l_confirmB c)"
    and "m4_confirmed W (l_sid c) (l_transcriptHash c) (l_confirmA c) (m_m4 c)"
proof -
  obtain c1 c2 c3 c4 where run1: "runStages (verifiedStages W e ip port) (enterSession n) = (Some True, c1)"
    and run2: "runStages (keyStages W e) c1 = (Some True, c2)" and run3: "fillM3Outer c2 = (Some True, c3)"
    and run4: "runStages (finishStages W e ip port) c3 = (Some True, c4)" and run5: "acceptSession e ip port c4 = (Some True, c)"
    by (rule responder_phases [OF run])
  note F1 = verified_facts [OF run1 S A]
  note F2 = key_facts [OF run2 S F1(4)]
  note F3 = fillM3Outer_facts [OF run3 F2(4)]
  have "session_arrays c3" using F2(4) run3 key_arrays(3) [OF S] unfolding keeps_arrays_def by (metis snd_conv)
  note F4 = finish_facts [OF run4 S this]
  have end4: "runStages (finishStages W e ip port @ [acceptSession e ip port]) c3 = (Some True, c)"
    unfolding runStages_append using run4 run5 by (simp add: andThen_def)
  note V2 = spares_result [OF spares_run [OF key_spares(1)] run2]
  note V3 = spares_result [OF outer_spares run3]
  note V4 = spares_result [OF spares_run [OF finish_spares(1)] end4]
  have V5: "m_m4 c = m_m4 c4 \<and> l_sid c = l_sid c4 \<and> l_confirmA c = l_confirmA c4 \<and> l_transcriptHash c = l_transcriptHash c4"
    using spares_result [OF spares_run [OF finish_spares(5)], of e ip port c4 "Some True" c] run5 by (simp add: andThen_def)
  show "m2_verified W (e_now e) (config n) (m_peerRecord n) (m_m0 c) (m_m1 c) (m_m2 c) (l_nonceA c) (l_nonceB c)
      (l_sid c) (l_hashM2 c) (l_peerPath c)"
    using F1(1-3) V2 V3 V4 by simp
  show "keys_bound W (config n) (m_m0 c) (m_m1 c) (m_m2 c) (m_m3 c) (l_sid c) (l_sharedSecret c) (l_transcriptHash c)
      (l_sessionKey c) (l_confirmA c) (l_confirmB c)"
    using F1(2) F2(1-3) F3(1,2) V2 V3 V4 by (simp add: keys_bound_def)
  show "m4_confirmed W (l_sid c) (l_transcriptHash c) (l_confirmA c) (m_m4 c)"
    using F4 V5 by simp
qed

text \<open>C6: The responder accepts only what it checked. When \<open>runResponderOnce\<close> returns true, M0 names
  the two devices and the suite, M1 answers M0's nonce, M2 carries the session identifier of
  both, an index below 1024 and the version of a valid, active, unexpired record of A, and a signature that
  verifies under A's root over its fields; M3's tag is B's under the keys derived from
  the transcript; and M4 carries the session identifier and exactly A's tag under the same keys.\<close>

theorem responder_accepts:
  assumes "node_arrays n" and "sized W e" and "runResponderOnce W e n = Some (True, n')"
  shows "\<exists>nonceA nonceB sid hashM2 path secret th key keyA keyB.
    m2_verified W (e_now e) (config n) (m_peerRecord n) (m_m0 n') (m_m1 n') (m_m2 n') nonceA nonceB sid hashM2 path \<and>
    keys_bound W (config n) (m_m0 n') (m_m1 n') (m_m2 n') (m_m3 n') sid secret th key keyA keyB \<and>
    m4_confirmed W sid th keyA (m_m4 n')"
proof -
  from assms(3) obtain ip port c where run: "runStages (receiveM0 e # responderStages W e ip port) (enterSession n) = (Some True, c)"
    and n': "n' = node.truncate (sessionCleanup c)" by (rule responder_success)
  have "m_m0 n' = m_m0 c \<and> m_m1 n' = m_m1 c \<and> m_m2 n' = m_m2 c \<and> m_m3 n' = m_m3 c \<and> m_m4 n' = m_m4 c"
    using cleanup_fields(1-5) [of c] by (simp add: n' node.defs)
  then show ?thesis using responder_facts [OF run assms(2,1)] by metis
qed

theorem responder_accepts_witness:
  "\<exists>e n n' sid th keyA. runResponderOnce sample_wolf e n = Some (True, n') \<and> m4_confirmed sample_wolf sid th keyA (m_m4 n')"
proof -
  obtain b e c where "node_arrays b" "sized sample_wolf e"
    and run: "runResponderOnce sample_wolf e b = Some (True, node.truncate (sessionCleanup c))"
    by (rule sample_runs)
  from responder_accepts [OF this] run show ?thesis by blast
qed

section \<open>What is sent only after the checks\<close>

definition sends_at_most :: "nat \<Rightarrow> session stage \<Rightarrow> bool" where
  "sends_at_most m f \<longleftrightarrow> (\<forall>c. length (wire (snd (f c))) \<le> length (wire c) + m)"

lemma sends_none: "spares wire f \<Longrightarrow> sends_at_most 0 f"
  by (simp add: spares_def sends_at_most_def)

lemma sends_one:
  "sends_at_most (Suc 0) (sendM0 e)" "sends_at_most (Suc 0) (sendM1 e ip port)" "sends_at_most (Suc 0) (sendM2 e)"
  by (simp_all add: sends_at_most_def sendM0_def sendM1_def sendM2_def sendProtocolMessage_def Let_def split_beta)

lemma sends_run:
  "list_all2 sends_at_most ms fs \<Longrightarrow> length (wire (snd (runStages (take k fs) c))) \<le> length (wire c) + sum_list ms"
proof (induction ms fs arbitrary: c k rule: list_all2_induct)
  case (Cons m ms f fs)
  show ?case
  proof (cases k)
    case (Suc k')
    then show ?thesis
      using Cons.hyps(1) [unfolded sends_at_most_def, rule_format, of c] Cons.IH [of k' "snd (f c)"]
      by (cases "fst (f c) = Some True") (simp_all add: andThen_def split_beta)
  qed simp
qed simp

lemma initiator_sends: "list_all2 sends_at_most (replicate 1 0 @ [1] @ replicate 10 0 @ [1] @ replicate 10 0) (checkedStages W e)"
  by (simp add: checkedStages_def sends_one numeral_eq_Suc)
    (intro conjI, (rule sends_none, rule spares_touches, rule effects, simp)+)

lemma responder_sends: "list_all2 sends_at_most (replicate 3 0 @ [1] @ replicate 6 0) (verifiedStages W e ip port)"
  by (simp add: verifiedStages_def sends_one numeral_eq_Suc)
    (intro conjI, (rule sends_none, rule spares_touches, rule effects, simp)+)

text \<open>A cut either lies in the first part of the stages or comes after all of it.\<close>

lemma cut_cases:
  assumes "runStages (take k (fs @ gs)) c0 = (r, c)"
  obtains "runStages (take k fs) c0 = (r, c)"
  | c1 where "runStages fs c0 = (Some True, c1)" and "runStages (take (k - length fs) gs) c1 = (r, c)"
proof (cases "k \<le> length fs")
  case True
  then show ?thesis using assms that(1) by simp
next
  case False
  then have "andThen (runStages fs) (runStages (take (k - length fs) gs)) c0 = (r, c)"
    using assms by (simp add: runStages_append)
  moreover obtain r1 c1 where "runStages fs c0 = (r1, c1)" by fastforce
  ultimately show ?thesis using that False by (auto simp: andThen_def split: if_splits)
qed

lemma take_spares: "list_all (spares view) fs \<Longrightarrow> list_all (spares view) (take k fs)"
  by (auto simp: list_all_iff dest: in_set_takeD)

text \<open>C10: Nothing depends on unchecked messages. At whatever point a session is stopped, if the
  initiator has sent a third message (M4, after M0 and M2), then M1 is the answer to its own nonce in
  every field and all its checks of M3 hold; and if the responder has sent a second message (M3, after M1), then M0 and M2 have been verified.\<close>

theorem sends_only_after_checks:
  assumes "node_arrays n" and "sized W e"
    and "c = snd (runStages (take k (initiatorStages W e)) (enterSession n))"
    and "d = snd (runStages (take k (receiveM0 e # responderStages W e ip port)) (enterSession n))"
  shows "(length (wire n) + 2 < length (wire c) \<longrightarrow>
      (\<exists>sid hashM2 path secret th key keyA keyB. initiator_checked W (e_now e) (e_nonce e) (config n) (m_peerRecord n)
        (m_m0 c) (m_m1 c) (m_m2 c) (m_m3 c) sid hashM2 path secret th key keyA keyB)) \<and>
    (length (wire n) + 1 < length (wire d) \<longrightarrow>
      (\<exists>nonceA nonceB sid hashM2 path. m2_verified W (e_now e) (config n) (m_peerRecord n)
        (m_m0 d) (m_m1 d) (m_m2 d) nonceA nonceB sid hashM2 path))"
proof (intro conjI impI)
  have w: "length (wire (enterSession n)) = length (wire n)" by simp
  assume more: "length (wire n) + 2 < length (wire c)"
  obtain r where run: "runStages (take k (checkedStages W e @ [timedTagA W e, sendM4 e, receiveResult e])) (enterSession n) = (r, c)"
    using assms(3) by (metis initiatorStages_split prod.collapse)
  from run show "\<exists>sid hashM2 path secret th key keyA keyB. initiator_checked W (e_now e) (e_nonce e) (config n) (m_peerRecord n)
        (m_m0 c) (m_m1 c) (m_m2 c) (m_m3 c) sid hashM2 path secret th key keyA keyB"
  proof (cases rule: cut_cases)
    case 1
    then show ?thesis using sends_run [OF initiator_sends, of k W e "enterSession n"] more w by (simp add: sum_list_replicate)
  next
    case (2 c1)
    note F = checked_facts [OF 2(1) assms(2,1)]
    from spares_result [OF spares_run [OF take_spares [OF tail_spares]] 2(2)] F(1-3)
    have "initiator_checked W (e_now e) (e_nonce e) (config n) (m_peerRecord n) (m_m0 c) (m_m1 c) (m_m2 c) (m_m3 c) (l_sid c1)
      (l_hashM2 c1) (l_peerPath c1) (l_sharedSecret c1) (l_transcriptHash c1) (l_sessionKey c1) (l_confirmA c1) (l_confirmB c1)"
      by simp
    then show ?thesis by blast
  qed
next
  have w: "length (wire (enterSession n)) = length (wire n)" by simp
  assume more: "length (wire n) + 1 < length (wire d)"
  obtain r where run: "runStages (take k (verifiedStages W e ip port @ answerStages W e ip port)) (enterSession n) = (r, d)"
    using assms(4) by (metis responderStages_split prod.collapse)
  from run show "\<exists>nonceA nonceB sid hashM2 path. m2_verified W (e_now e) (config n) (m_peerRecord n)
        (m_m0 d) (m_m1 d) (m_m2 d) nonceA nonceB sid hashM2 path"
  proof (cases rule: cut_cases)
    case 1
    then show ?thesis using sends_run [OF responder_sends, of k W e ip port "enterSession n"] more w by (simp add: sum_list_replicate)
  next
    case (2 c1)
    note F = verified_facts [OF 2(1) assms(2,1)]
    have "list_all (spares (\<lambda>c. (config c, m_peerRecord c, m_m0 c, m_m1 c, m_m2 c, l_nonceA c, l_nonceB c, l_sid c, l_hashM2 c,
        l_peerPath c))) (answerStages W e ip port)"
      by (simp add: answerStages_def) (intro conjI, (rule spares_touches, rule effects, simp)+)
    from spares_result [OF spares_run [OF take_spares [OF this]] 2(2)] F(1-3)
    have "m2_verified W (e_now e) (config n) (m_peerRecord n) (m_m0 d) (m_m1 d) (m_m2 d) (l_nonceA c1) (l_nonceB c1)
      (l_sid c1) (l_hashM2 c1) (l_peerPath c1)" by simp
    then show ?thesis by blast
  qed
qed

theorem sends_only_after_checks_witness:
  "\<exists>e n c sid hashM2 path secret th key keyA keyB. c = snd (runStages (take 26 (initiatorStages sample_wolf e)) (enterSession n)) \<and>
    length (wire n) + 2 < length (wire c) \<and>
    initiator_checked sample_wolf (e_now e) (e_nonce e) (config n) (m_peerRecord n)
        (m_m0 c) (m_m1 c) (m_m2 c) (m_m3 c) sid hashM2 path secret th key keyA keyB"
proof -
  obtain a b e c eB where A: "node_arrays a" "sized sample_wolf e"
    and run: "runStages (initiatorStages sample_wolf e) (enterSession a) = (Some True, c)"
    and fin: "concluded a 0x0a000001 5000 (exchange_of sample_wolf e eB a b) c"
    by (rule sample_runs)
  have c: "c = snd (runStages (take 26 (initiatorStages sample_wolf e)) (enterSession a))"
    using run by (simp add: initiatorStages_def)
  have more: "length (wire a) + 2 < length (wire c)" using fin by (simp add: concluded_def)
  from sends_only_after_checks [OF A c refl] more c show ?thesis by blast
qed

section \<open>Agreement\<close>

text \<open>Views that a stage keeps when the arrays have their sizes.\<close>

definition spares_arrays :: "(session \<Rightarrow> 'v) \<Rightarrow> session stage \<Rightarrow> bool" where
  "spares_arrays view f \<longleftrightarrow> (\<forall>c. session_arrays c \<longrightarrow> view (snd (f c)) = view c)"

lemma spares_spares_arrays: "spares view f \<Longrightarrow> spares_arrays view f"
  by (simp add: spares_def spares_arrays_def)

lemma spares_arrays_run:
  "list_all keeps_arrays fs \<Longrightarrow> list_all (spares_arrays view) fs \<Longrightarrow> session_arrays c \<Longrightarrow> view (snd (runStages fs c)) = view c"
proof (induction fs arbitrary: c)
  case (Cons f fs)
  then show ?case
    by (cases "fst (f c) = Some True") (simp_all add: andThen_def split_beta keeps_arrays_def spares_arrays_def)
qed simp

text \<open>The KEM fields of M2 and M3 stay in place while the other fields are filled in.\<close>

definition key_field :: "session \<Rightarrow> bytes" where
  "key_field c = read_at 42 MLKEM_PUBLIC_KEY_BYTES (m_m2 c)"

definition ct_field :: "session \<Rightarrow> bytes" where
  "ct_field c = read_at 78 MLKEM_CIPHERTEXT_BYTES (m_m3 c)"

lemma read_update_before: "i < off \<Longrightarrow> read_at off n (xs[i := v]) = read_at off n xs"
  by (simp add: read_at_def drop_update_cancel)

lemma key_field_kept:
  assumes "sized W e"
  shows "spares_arrays (\<lambda>c. (m_kemKey c, key_field c)) fillM2" "spares_arrays (\<lambda>c. (m_kemKey c, key_field c)) (signM2 W e)"
    "spares_arrays (\<lambda>c. (m_kemKey c, key_field c)) attachPathA"
proof -
  note s = sizedD [OF assms]
  show "spares_arrays (\<lambda>c. (m_kemKey c, key_field c)) fillM2"
    by (auto simp: spares_arrays_def key_field_def fillM2_def arrays_defs Let_def split_beta layout read_update_before)
  show "spares_arrays (\<lambda>c. (m_kemKey c, key_field c)) (signM2 W e)"
    using s(1,3) by (auto simp: spares_arrays_def key_field_def signM2_def LmotsLms_sign_def addSign_def arrays_defs Let_def layout env_arrays_def
        split: sum.split dest!: sign_length)
  show "spares_arrays (\<lambda>c. (m_kemKey c, key_field c)) attachPathA"
    by (auto simp: spares_arrays_def key_field_def attachPathA_def arrays_defs layout dest!: extractPath_length split: option.split)
qed

lemma ct_field_kept:
  assumes "sized W e"
  shows "spares_arrays (\<lambda>c. (l_sharedSecret c, ct_field c, m_m2 c)) fillM3Inner" "spares_arrays (\<lambda>c. (l_sharedSecret c, ct_field c, m_m2 c)) (signM3 W e)"
    "spares_arrays (\<lambda>c. (l_sharedSecret c, ct_field c, m_m2 c)) attachPathB" "spares_arrays (\<lambda>c. (l_sharedSecret c, ct_field c, m_m2 c)) fillM3Outer"
proof -
  note s = sizedD [OF assms]
  show "spares_arrays (\<lambda>c. (l_sharedSecret c, ct_field c, m_m2 c)) fillM3Inner"
    by (auto simp: spares_arrays_def ct_field_def fillM3Inner_def arrays_defs Let_def split_beta layout read_update_before)
  show "spares_arrays (\<lambda>c. (l_sharedSecret c, ct_field c, m_m2 c)) (signM3 W e)"
    using s(1,3) by (auto simp: spares_arrays_def ct_field_def signM3_def LmotsLms_sign_def addSign_def arrays_defs Let_def layout env_arrays_def
        split: sum.split dest!: sign_length)
  show "spares_arrays (\<lambda>c. (l_sharedSecret c, ct_field c, m_m2 c)) attachPathB"
    by (auto simp: spares_arrays_def ct_field_def attachPathB_def arrays_defs layout dest!: extractPath_length split: option.split)
  show "spares_arrays (\<lambda>c. (l_sharedSecret c, ct_field c, m_m2 c)) fillM3Outer"
    by (auto simp: spares_arrays_def ct_field_def fillM3Outer_def arrays_defs Let_def layout read_update_before m3InnerBytesForMode_def)
qed

lemma secret_nth:
  "initiatorStages W e ! 5 = makeKemKey W e" "initiatorStages W e ! 18 = decapsulate W e" "length (initiatorStages W e) = 26"
  "(receiveM0 e # responderStages W e ip port) ! 11 = encapsulate W e" "length (responderStages W e ip port) = 26"
  by (simp_all add: initiatorStages_def responderStages_def)

lemma makeKemKey_facts:
  assumes "makeKemKey W e c = (Some True, c')" and "session_arrays c" and "kem_sizes W"
  shows "wc_MlKemKey_MakeKey W (e_kemRandom e) = (0, m_kemKey c') \<and> wc_MlKemKey_EncodePublicKey W (m_kemKey c') = (0, key_field c')"
proof -
  obtain r k where mk: "wc_MlKemKey_MakeKey W (e_kemRandom e) = (r, k)" by fastforce
  obtain r2 pk where ek: "wc_MlKemKey_EncodePublicKey W k = (r2, pk)" by fastforce
  have "length pk = 800" using assms(3) ek by (metis kem_sizes_def snd_conv)
  then show ?thesis
    using assms(1,2) by (auto simp: makeKemKey_def mk ek addKem_def key_field_def arrays_defs read_at_write_at_same Let_def split: if_splits)
qed

lemma encapsulate_facts:
  assumes "encapsulate W e c = (Some True, c')" and "session_arrays c" and "kem_sizes W"
  shows "\<exists>k. wc_MlKemKey_DecodePublicKey W (key_field c') = (0, k) \<and>
    wc_MlKemKey_Encapsulate W k (e_kemRandom e) = (0, ct_field c', l_sharedSecret c')"
proof -
  obtain r k where dk: "wc_MlKemKey_DecodePublicKey W (read_at 42 800 (m_m2 c)) = (r, k)" by fastforce
  obtain r2 ct ss where en: "wc_MlKemKey_Encapsulate W k (e_kemRandom e) = (r2, ct, ss)" by (metis prod_cases3)
  have "length ct = 768" using assms(3) en by (metis kem_sizes_def fst_conv snd_conv)
  then show ?thesis
    using assms(1,2) by (auto simp: encapsulate_def dk en addKem_def key_field_def ct_field_def arrays_defs read_at_write_at_same Let_def split: if_splits)
qed

lemma initiator_secret:
  assumes run: "runStages (initiatorStages W e) (enterSession n) = (Some True, c)" and S: "sized W e" and A: "node_arrays n"
  obtains key where "wc_MlKemKey_MakeKey W (e_kemRandom e) = (0, key)" and "wc_MlKemKey_EncodePublicKey W key = (0, key_field c)"
    and "wc_MlKemKey_Decapsulate W key (ct_field c) = (0, l_sharedSecret c)"
proof -
  note keeps = initiator_keeps_arrays [OF S]
  obtain c1 c2 where pre: "runStages (take 5 (initiatorStages W e)) (enterSession n) = (Some True, c1)"
    and key: "makeKemKey W e c1 = (Some True, c2)" and rest: "runStages (drop 6 (initiatorStages W e)) c2 = (Some True, c)"
    using run_at [OF run, of 5] by (auto simp: secret_nth)
  have "session_arrays c1" using keeps_arrays_run [OF keeps, of "enterSession n" 5] pre A by (simp add: enterSession_arrays)
  then have c2: "session_arrays c2" using kem_kept(1) [OF S] key unfolding keeps_arrays_def by (metis snd_conv)
  obtain k where k: "wc_MlKemKey_MakeKey W (e_kemRandom e) = (0, k)" "wc_MlKemKey_EncodePublicKey W k = (0, key_field c2)" "m_kemKey c2 = k"
    using makeKemKey_facts [OF key \<open>session_arrays c1\<close> sizedD(2) [OF S]] by blast
  have kept: "list_all (spares_arrays (\<lambda>c. (m_kemKey c, key_field c))) (drop 6 (initiatorStages W e))"
    by (simp add: initiatorStages_def key_field_kept [OF S])
      (intro conjI, (rule spares_spares_arrays, rule spares_touches, rule effects, simp add: key_field_def)+)
  have "list_all keeps_arrays (drop 6 (initiatorStages W e))" using keeps by (auto simp: list_all_iff dest: in_set_dropD)
  from spares_arrays_run [OF this kept c2] have view: "m_kemKey c = k \<and> key_field c = key_field c2"
    using rest k(3) by simp
  obtain c3 c4 where dec: "decapsulate W e c3 = (Some True, c4)" and rest4: "runStages (drop 19 (initiatorStages W e)) c4 = (Some True, c)"
    using run_at [OF run, of 18] by (auto simp: secret_nth)
  have "list_all (spares (\<lambda>c. (l_sharedSecret c, m_kemKey c, m_m3 c))) (drop 19 (initiatorStages W e))"
    by (simp add: initiatorStages_def) (intro conjI, (rule spares_touches, rule effects, simp)+)
  from spares_result [OF spares_run [OF this] rest4]
  have "wc_MlKemKey_Decapsulate W (m_kemKey c) (ct_field c) = (0, l_sharedSecret c)"
    using dec by (auto simp: decapsulate_def addKem_def ct_field_def read_at_def split: prod.splits)
  then show ?thesis using that k view by metis
qed

lemma responder_secret:
  assumes run: "runStages (receiveM0 e # responderStages W e ip port) (enterSession n) = (Some True, c)" and S: "sized W e" and A: "node_arrays n"
  obtains key where "wc_MlKemKey_DecodePublicKey W (key_field c) = (0, key)"
    and "wc_MlKemKey_Encapsulate W key (e_kemRandom e) = (0, ct_field c, l_sharedSecret c)"
proof -
  let ?all = "receiveM0 e # responderStages W e ip port"
  note keeps = responder_keeps_arrays [OF S, of ip port]
  obtain c1 c2 where pre: "runStages (take 11 ?all) (enterSession n) = (Some True, c1)"
    and enc: "encapsulate W e c1 = (Some True, c2)" and rest: "runStages (drop 12 ?all) c2 = (Some True, c)"
    using run_at [OF run, of 11] unfolding secret_nth by (auto simp: secret_nth)
  have c1: "session_arrays c1" using keeps_arrays_run [OF keeps, of "enterSession n" 11] pre A by (simp add: enterSession_arrays)
  then have c2: "session_arrays c2" using kem_kept(2) [OF S] enc unfolding keeps_arrays_def by (metis snd_conv)
  obtain k where k: "wc_MlKemKey_DecodePublicKey W (key_field c2) = (0, k)"
      "wc_MlKemKey_Encapsulate W k (e_kemRandom e) = (0, ct_field c2, l_sharedSecret c2)"
    using encapsulate_facts [OF enc c1 sizedD(2) [OF S]] by blast
  have kept: "list_all (spares_arrays (\<lambda>c. (l_sharedSecret c, ct_field c, m_m2 c))) (drop 12 ?all)"
    by (simp add: responderStages_def ct_field_kept [OF S])
      (intro conjI, (rule spares_spares_arrays, rule spares_touches, rule effects, simp add: ct_field_def)+)
  have "list_all keeps_arrays (drop 12 ?all)" using keeps by (auto simp: list_all_iff dest: in_set_dropD)
  from spares_arrays_run [OF this kept c2]
  have "l_sharedSecret c = l_sharedSecret c2 \<and> ct_field c = ct_field c2 \<and> key_field c = key_field c2"
    using rest by (simp add: key_field_def del: drop_Suc_Cons drop_Cons_numeral)
  then show ?thesis using that k by metis
qed

lemma initiator_facts:
  assumes run: "runStages (initiatorStages W e) (enterSession n) = (Some True, c)" and S: "sized W e" and A: "node_arrays n"
  shows "initiator_checked W (e_now e) (e_nonce e) (config n) (m_peerRecord n) (m_m0 c) (m_m1 c) (m_m2 c) (m_m3 c) (l_sid c)
    (l_hashM2 c) (l_peerPath c) (l_sharedSecret c) (l_transcriptHash c) (l_sessionKey c) (l_confirmA c) (l_confirmB c)"
proof -
  obtain c1 where run1: "runStages (checkedStages W e) (enterSession n) = (Some True, c1)"
    and tail: "runStages [timedTagA W e, sendM4 e, receiveResult e] c1 = (Some True, c)"
    by (rule initiator_run_checked [OF run])
  from spares_result [OF spares_run [OF tail_spares] tail] checked_facts(1-3) [OF run1 S A] show ?thesis by simp
qed

lemma inner_prefix: "read_at 36 (m3InnerBytesForMode mode) (take (m3BytesForMode mode) m) = read_at 36 (m3InnerBytesForMode mode) m"
  by (simp add: m3InnerBytesForMode_def m3BytesForMode_def read_at_def drop_take)

lemma ct_prefix: "read_at 78 768 (take (m3BytesForMode mode) m) = read_at 78 768 m"
  by (simp add: m3BytesForMode_def read_at_def drop_take)

lemma key_prefix: "read_at 42 800 (take (m2BytesForMode mode) m) = read_at 42 800 m"
  by (simp add: m2BytesForMode_def read_at_def drop_take)

text \<open>C4: Agreement. When both sides of a link accept and saw the same messages M0 to M3, they hold
  the same session key and the same two confirmation keys, whatever else happened on the network and whichever
  indices, paths and records were used.\<close>

theorem keys_agree:
  assumes "kem_works W" and "sized W eA" and "sized W eB" and "node_arrays a" and "node_arrays b"
    and "pathMode (config b) = pathMode (config a)"
    and "runStages (initiatorStages W eA) (enterSession a) = (Some True, cA)"
    and "runStages (receiveM0 eB # responderStages W eB ip port) (enterSession b) = (Some True, cB)"
    and "m_m0 cA = m_m0 cB" and "m_m1 cA = m_m1 cB"
    and "take (m2BytesForMode (pathMode (config a))) (m_m2 cA) = take (m2BytesForMode (pathMode (config a))) (m_m2 cB)"
    and "take (m3BytesForMode (pathMode (config a))) (m_m3 cA) = take (m3BytesForMode (pathMode (config a))) (m_m3 cB)"
  shows "l_sessionKey cA = l_sessionKey cB \<and> l_confirmA cA = l_confirmA cB \<and> l_confirmB cA = l_confirmB cB"
proof -
  note A = initiator_checked_keys [OF initiator_facts [OF assms(7,2,4)]]
  note B = responder_facts(1,2) [OF assms(8,3,5)]
  have sid: "l_sid cA = l_sid cB"
    using A B(1) assms(9,10) by (simp add: m2_verified_def Let_def)
  have inner: "read_at 36 (m3InnerBytesForMode (pathMode (config a))) (m_m3 cA) = read_at 36 (m3InnerBytesForMode (pathMode (config a))) (m_m3 cB)"
    using inner_prefix assms(12) by metis
  have th: "l_transcriptHash cA = l_transcriptHash cB"
    using A B(2) assms(6,9-11) sid inner by (simp add: keys_bound_def Let_def)
  have fields: "key_field cA = key_field cB" "ct_field cA = ct_field cB"
    using key_prefix ct_prefix assms(11,12) unfolding key_field_def ct_field_def by metis+
  obtain key where kA: "wc_MlKemKey_MakeKey W (e_kemRandom eA) = (0, key)" "wc_MlKemKey_EncodePublicKey W key = (0, key_field cA)"
      "wc_MlKemKey_Decapsulate W key (ct_field cA) = (0, l_sharedSecret cA)"
    by (rule initiator_secret [OF assms(7,2,4)])
  obtain encKey where kB: "wc_MlKemKey_DecodePublicKey W (key_field cB) = (0, encKey)"
      "wc_MlKemKey_Encapsulate W encKey (e_kemRandom eB) = (0, ct_field cB, l_sharedSecret cB)"
    by (rule responder_secret [OF assms(8,3,5)])
  from assms(1) [unfolded kem_works_def, THEN conjunct2, rule_format, of "e_kemRandom eA"]
  have "\<exists>ct secret. wc_MlKemKey_Encapsulate W encKey (e_kemRandom eB) = (0, ct, secret) \<and> wc_MlKemKey_Decapsulate W key ct = (0, secret)"
    using kA(1,2) kB(1) fields by (auto simp del: split_paired_Ex)
  then have "l_sharedSecret cA = l_sharedSecret cB" using kA(3) kB(2) fields by auto
  then show ?thesis
    using A B(2) th by (simp add: keys_bound_def Let_def)
qed

theorem keys_agree_witness:
  "\<exists>a b eA eB cA cB. runStages (initiatorStages sample_wolf eA) (enterSession a) = (Some True, cA) \<and>
    runStages (receiveM0 eB # responderStages sample_wolf eB 0x0a000001 5000) (enterSession b) = (Some True, cB) \<and>
    l_confirmA cA = l_confirmA cB"
proof -
  obtain a b eA eB cA cB where A: "node_arrays a" "node_arrays b" "sized sample_wolf eA" "sized sample_wolf eB"
    and P: "paired (config a) (config b)"
    and run: "runStages (initiatorStages sample_wolf eA) (enterSession a) = (Some True, cA)"
      "runStages (receiveM0 eB # responderStages sample_wolf eB 0x0a000001 5000) (enterSession b) = (Some True, cB)"
    and fin: "concluded a 0x0a000001 5000 (exchange_of sample_wolf eA eB a b) cA"
      "accepted b 0x0a000001 5000 (exchange_of sample_wolf eA eB a b) cB"
    by (rule sample_runs)
  have "holds_messages (exchange_of sample_wolf eA eB a b) cA" "holds_messages (exchange_of sample_wolf eA eB a b) cB"
    using fin by (simp_all add: concluded_def accepted_def)
  then have "l_sessionKey cA = l_sessionKey cB \<and> l_confirmA cA = l_confirmA cB \<and> l_confirmB cA = l_confirmB cB"
    using P by (intro keys_agree [OF sample_kem_works A(3,4,1,2) _ run]) (simp_all add: holds_messages_def paired_def)
  then show ?thesis using run by blast
qed

end
