(* ===== verification/SessionReport.thy ===== *)
theory SessionReport
  imports AgreementProperties
begin

text \<open>
  The measurements that the initiator prints after a session: \<open>printInitiatorResult\<close> of
  \<open>ProposedUavProtocol.cpp\<close>, as the numbers it hands to \<open>Serial.printf\<close> (times in microseconds,
  which the text shows in milliseconds), without the radio and heap readings at the end of the CSV
  line. What is proved: the figures of the responder are those it encoded into RESULT, and the
  application bytes that a successful session reports are exactly the expected ones.
\<close>

text \<open>The values of the enumeration \<open>PathDeliveryMode\<close>.\<close>

definition pathModeCode :: "PathDeliveryMode \<Rightarrow> u8" where
  "pathModeCode mode = (case mode of RepositoryAssisted \<Rightarrow> 1 | SignerCarried \<Rightarrow> 2)"

text \<open>
  \<open>sr_session\<close>: the heading; \<open>sr_warning\<close>: whether the warning is printed; \<open>sr_total\<close>: the three
  times of the session; \<open>sr_initiator\<close>, \<open>sr_responder\<close>: the two tables (SHA-256, HMAC/HKDF, sign, verify, KEM,
  PUF/FE, total); \<open>sr_wait\<close>: the waits for the repository; \<open>sr_bytes\<close>: the lines of byte counts
  (direct and expected, framed, repository, A direct, B direct, A repository, B repository).
\<close>

record session_report =
  sr_session :: "u32 list"
  sr_warning :: bool
  sr_total :: "u64 list"
  sr_initiator :: "u64 list"
  sr_responder :: "u64 list"
  sr_wait :: "u64 list"
  sr_bytes :: "u32 list list"
  sr_csv :: "nat list"

definition printInitiatorResult ::
  "NodeConfig \<Rightarrow> u32 \<Rightarrow> u32 \<Rightarrow> u32 \<Rightarrow> u64 \<Rightarrow> LocalMetrics \<Rightarrow> bytes \<Rightarrow> nat \<Rightarrow> session_report option" where
  "printInitiatorResult cfg runNumber qA qB confirmedE2eUs initiator responderResult responderResultLength =
    (if responderResultLength < RESULT_BYTES then None
     else
       let resultQa = getU32 (drop 4 responderResult);
           resultQb = getU32 (drop 8 responderResult);
           responderProtocolUs = getU64 (drop 12 responderResult);
           responderCryptoUs = getU64 (drop 20 responderResult);
           responderShaUs = getU64 (drop 28 responderResult);
           responderHmacUs = getU64 (drop 36 responderResult);
           responderSignUs = getU64 (drop 44 responderResult);
           responderVerifyUs = getU64 (drop 52 responderResult);
           responderKemUs = getU64 (drop 60 responderResult);
           responderPufFeUs = getU64 (drop 68 responderResult);
           responderRepositoryUs = getU64 (drop 76 responderResult);
           responderAppTx = getU32 (drop 84 responderResult);
           responderAppRx = getU32 (drop 88 responderResult);
           responderFramedTx = getU32 (drop 92 responderResult);
           responderFramedRx = getU32 (drop 96 responderResult);
           responderRepoTx = getU32 (drop 100 responderResult);
           responderRepoRx = getU32 (drop 104 responderResult);
           applicationTotal = appTxBytes initiator + appRxBytes initiator;
           framedTotal = framedTxBytes initiator + framedRxBytes initiator;
           repositoryTotal = repositoryTxBytes initiator + repositoryRxBytes initiator + responderRepoTx + responderRepoRx
       in Some
         \<lparr>sr_session = [runNumber, qA, qB],
          sr_warning = (qA \<noteq> resultQa \<or> qB \<noteq> resultQb),
          sr_total = [protocolUs initiator, confirmedE2eUs, responderProtocolUs],
          sr_initiator = [shaUs initiator, hmacUs initiator, lmotsSignUs initiator, lmotsVerifyUs initiator,
            kemUs initiator, pufFeUs initiator, totalCryptoUs initiator],
          sr_responder = [responderShaUs, responderHmacUs, responderSignUs, responderVerifyUs, responderKemUs,
            responderPufFeUs, responderCryptoUs],
          sr_wait = [repositoryUs initiator, responderRepositoryUs],
          sr_bytes = [[applicationTotal, of_nat (expectedDirectApplicationBytes (pathMode cfg))], [framedTotal], [repositoryTotal],
            [appTxBytes initiator, appRxBytes initiator], [responderAppTx, responderAppRx],
            [repositoryTxBytes initiator, repositoryRxBytes initiator], [responderRepoTx, responderRepoRx]],
          sr_csv = [unat runNumber, unat qA, unat qB, unat (pathModeCode (pathMode cfg)), unat (protocolUs initiator),
            unat confirmedE2eUs, unat responderProtocolUs, unat (totalCryptoUs initiator), unat responderCryptoUs,
            unat (pufFeUs initiator), unat responderPufFeUs, unat (repositoryUs initiator), unat responderRepositoryUs,
            unat applicationTotal, unat framedTotal, unat repositoryTotal]\<rparr>)"

section \<open>RESULT\<close>

lemma write_at_next:
  "off = length xs \<Longrightarrow> length src \<le> n \<Longrightarrow> write_at off src (xs @ zeros n @ t) = (xs @ src) @ zeros (n - length src) @ t"
  by (simp add: write_at_append drop_zeros)

lemma result_layout:
  assumes "length r = 128"
  shows "encodeResult e qa qb m r =
    zeros 4 @ putU32 qa @ putU32 qb @ putU64 (protocolUs m) @ putU64 (totalCryptoUs m) @ putU64 (shaUs m) @ putU64 (hmacUs m) @
    putU64 (lmotsSignUs m) @ putU64 (lmotsVerifyUs m) @ putU64 (kemUs m) @ putU64 (pufFeUs m) @ putU64 (repositoryUs m) @
    putU32 (appTxBytes m) @ putU32 (appRxBytes m) @ putU32 (framedTxBytes m) @ putU32 (framedRxBytes m) @
    putU32 (repositoryTxBytes m) @ putU32 (repositoryRxBytes m) @ putU32 (e_freeHeap e) @ putU32 (e_minFreeHeap e) @ drop 116 r"
proof -
  have z: "(write_at 0 (zeros 116) r)[0 := RESULT_OK] = zeros 4 @ zeros 112 @ drop 116 r"
    using assms by (simp add: write_at_def zeros_def numeral_eq_Suc)
  show ?thesis
    unfolding encodeResult_def Let_def z
    by (simp add: write_at_next del: append_assoc append_Cons) (simp add: zeros_0)
qed

lemma result_fields:
  assumes "length r = 128" and "take RESULT_BYTES buf = take RESULT_BYTES (encodeResult e qa qb m r)"
  shows "getU32 (drop 4 buf) = qa" "getU32 (drop 8 buf) = qb"
    "getU64 (drop 12 buf) = protocolUs m" "getU64 (drop 20 buf) = totalCryptoUs m" "getU64 (drop 28 buf) = shaUs m"
    "getU64 (drop 36 buf) = hmacUs m" "getU64 (drop 44 buf) = lmotsSignUs m" "getU64 (drop 52 buf) = lmotsVerifyUs m"
    "getU64 (drop 60 buf) = kemUs m" "getU64 (drop 68 buf) = pufFeUs m" "getU64 (drop 76 buf) = repositoryUs m"
    "getU32 (drop 84 buf) = appTxBytes m" "getU32 (drop 88 buf) = appRxBytes m" "getU32 (drop 92 buf) = framedTxBytes m"
    "getU32 (drop 96 buf) = framedRxBytes m" "getU32 (drop 100 buf) = repositoryTxBytes m" "getU32 (drop 104 buf) = repositoryRxBytes m"
proof -
  have skip: "8 \<le> n \<Longrightarrow> drop n (putU64 v @ ys) = drop (n - 8) ys" "4 \<le> n \<Longrightarrow> drop n (putU32 w @ ys) = drop (n - 4) ys"
    "4 \<le> n \<Longrightarrow> drop n (zeros 4 @ ys) = drop (n - 4) ys" for n v w ys by simp_all
  obtain t where buf: "buf = zeros 4 @ putU32 qa @ putU32 qb @ putU64 (protocolUs m) @ putU64 (totalCryptoUs m) @
    putU64 (shaUs m) @ putU64 (hmacUs m) @ putU64 (lmotsSignUs m) @ putU64 (lmotsVerifyUs m) @ putU64 (kemUs m) @
    putU64 (pufFeUs m) @ putU64 (repositoryUs m) @ putU32 (appTxBytes m) @ putU32 (appRxBytes m) @ putU32 (framedTxBytes m) @
    putU32 (framedRxBytes m) @ putU32 (repositoryTxBytes m) @ putU32 (repositoryRxBytes m) @ t"
  proof -
    have "buf = take RESULT_BYTES (encodeResult e qa qb m r) @ drop RESULT_BYTES buf"
      unfolding assms(2) [symmetric] by simp
    then show ?thesis using that unfolding result_layout [OF assms(1)] by simp
  qed
  note f = buf skip
  show "getU32 (drop 4 buf) = qa" "getU32 (drop 8 buf) = qb" by (simp_all add: f del: drop_append)
  show "getU64 (drop 12 buf) = protocolUs m" "getU64 (drop 20 buf) = totalCryptoUs m" "getU64 (drop 28 buf) = shaUs m"
    "getU64 (drop 36 buf) = hmacUs m" "getU64 (drop 44 buf) = lmotsSignUs m" "getU64 (drop 52 buf) = lmotsVerifyUs m"
    by (simp_all add: f del: drop_append)
  show "getU64 (drop 60 buf) = kemUs m" "getU64 (drop 68 buf) = pufFeUs m" "getU64 (drop 76 buf) = repositoryUs m"
    by (simp_all add: f del: drop_append)
  show "getU32 (drop 84 buf) = appTxBytes m" "getU32 (drop 88 buf) = appRxBytes m" "getU32 (drop 92 buf) = framedTxBytes m"
    "getU32 (drop 96 buf) = framedRxBytes m" "getU32 (drop 100 buf) = repositoryTxBytes m" "getU32 (drop 104 buf) = repositoryRxBytes m"
    by (simp_all add: f del: drop_append)
qed

section \<open>Counting the application bytes\<close>

text \<open>A stage that returns true has counted \<open>tx\<close> bytes sent and \<open>rx\<close> bytes received.\<close>

definition counts :: "NodeConfig \<Rightarrow> nat \<Rightarrow> nat \<Rightarrow> session stage \<Rightarrow> bool" where
  "counts cfg tx rx f \<longleftrightarrow> (\<forall>c c'. config c = cfg \<longrightarrow> f c = (Some True, c') \<longrightarrow> config c' = cfg \<and>
    appTxBytes (l_metrics c') = appTxBytes (l_metrics c) + of_nat tx \<and> appRxBytes (l_metrics c') = appRxBytes (l_metrics c) + of_nat rx)"

lemma counts_andThen:
  assumes "counts cfg t r f" and "counts cfg t' r' g"
  shows "counts cfg (t + t') (r + r') (andThen f g)"
  unfolding counts_def
proof (intro allI impI)
  fix c c' :: session
  assume "config c = cfg" and "andThen f g c = (Some True, c')"
  then obtain d where f: "f c = (Some True, d)" and g: "g d = (Some True, c')" by (auto simp: andThen_True)
  have d: "config d = cfg \<and> appTxBytes (l_metrics d) = appTxBytes (l_metrics c) + of_nat t \<and>
      appRxBytes (l_metrics d) = appRxBytes (l_metrics c) + of_nat r"
    using assms(1) f \<open>config c = cfg\<close> unfolding counts_def by blast
  then have "config c' = cfg \<and> appTxBytes (l_metrics c') = appTxBytes (l_metrics d) + of_nat t' \<and>
      appRxBytes (l_metrics c') = appRxBytes (l_metrics d) + of_nat r'"
    using assms(2) g unfolding counts_def by blast
  with d show "config c' = cfg \<and> appTxBytes (l_metrics c') = appTxBytes (l_metrics c) + of_nat (t + t') \<and>
      appRxBytes (l_metrics c') = appRxBytes (l_metrics c) + of_nat (r + r')"
    by simp
qed

lemma counts_stages:
  "list_all2 (\<lambda>f n. counts cfg (fst n) (snd n) f) fs ns \<Longrightarrow>
   counts cfg (sum_list (map fst ns)) (sum_list (map snd ns)) (runStages fs)"
  by (induction fs ns rule: list_all2_induct) (simp_all add: counts_andThen, simp add: counts_def)

lemma counts_send:
  "counts cfg len 0 (\<lambda>c. sendProtocolMessage net (ip c) (port c) type (s c) (d c) len True c)"
  by (auto simp: counts_def sendProtocolMessage_def Let_def split: prod.splits if_splits)

lemma receive_counts:
  assumes "receiveProtocolMessage rx type wanted data capacity expected True c = (Some True, data', c')" and "expected \<noteq> 0"
  shows "config c' = config c \<and> appTxBytes (l_metrics c') = appTxBytes (l_metrics c) \<and>
    appRxBytes (l_metrics c') = appRxBytes (l_metrics c) + ucast expected"
  using assms by (auto simp: receiveProtocolMessage_def Let_def split: option.splits if_splits)

lemmas quiet_defs = timedSid0_def kemInit_def initializeKem_def freeKem_def makeKemKey_def reserveQA_def reserveQ_def
  timedRuntimeSeed_def fillM2_def signM2_def LmotsLms_sign_def attachPathA_def timedHashM2_def parseM3_def checkPeerB_def guard_def
  verifyM3_def decapsulate_def timedTranscriptHash_def timedSessionKeys_def timedTagB_def timedTagA_def checkTauB_def
  addSha_def addHmac_def addKem_def addSign_def addVerify_def addPufFe_def

lemma quiet_counts:
  "counts cfg 0 0 (initiatorStart e)" "counts cfg 0 0 (timedSid0 W e)" "counts cfg 0 0 (kemInit W)" "counts cfg 0 0 (makeKemKey W e)"
  "counts cfg 0 0 (reserveQA e)" "counts cfg 0 0 (timedRuntimeSeed W e)" "counts cfg 0 0 fillM2" "counts cfg 0 0 (signM2 W e)"
  "counts cfg 0 0 attachPathA" "counts cfg 0 0 (timedHashM2 W e)" "counts cfg 0 0 parseM3" "counts cfg 0 0 (checkPeerB e)"
  "counts cfg 0 0 (verifyM3 W e)" "counts cfg 0 0 (decapsulate W e)" "counts cfg 0 0 (\<lambda>c. timedTranscriptHash W e (m3Inner c) c)"
  "counts cfg 0 0 (timedSessionKeys W e)" "counts cfg 0 0 (timedTagB W e)" "counts cfg 0 0 checkTauB" "counts cfg 0 0 (timedTagA W e)"
  by (auto simp: counts_def quiet_defs initiatorStart_def clearMessages_def Let_def
      split: prod.splits sum.splits option.splits if_splits)

lemma path_counts: "counts cfg 0 0 (obtainPathB W e)"
  by (auto simp: counts_def obtainPathB_def obtainPeerPath_def Let_def split: prod.splits option.splits if_splits)

lemma io_counts:
  "counts cfg M0_BYTES 0 (sendM0 e)" "counts cfg 0 M1_BYTES (receiveM1 e)"
  "counts cfg (m2BytesForMode (pathMode cfg)) 0 (sendM2 e)" "counts cfg 0 (m3BytesForMode (pathMode cfg)) (receiveM3 e)"
  "counts cfg M4_BYTES 0 (sendM4 e)" "counts cfg 0 0 (receiveResult e)"
proof -
  show "counts cfg M0_BYTES 0 (sendM0 e)"
    unfolding sendM0_def by (rule counts_send)
  show "counts cfg (m2BytesForMode (pathMode cfg)) 0 (sendM2 e)"
    unfolding counts_def sendM2_def
    by (auto simp: sendProtocolMessage_def Let_def split: prod.splits if_splits)
  show "counts cfg M4_BYTES 0 (sendM4 e)"
    unfolding counts_def sendM4_def Let_def
    by (auto simp: sendProtocolMessage_def Let_def split: prod.splits if_splits)
  show "counts cfg 0 M1_BYTES (receiveM1 e)"
    unfolding counts_def receiveM1_def
    by (auto simp: Let_def dest!: receive_counts split: prod.splits option.splits if_splits)
  show "counts cfg 0 (m3BytesForMode (pathMode cfg)) (receiveM3 e)"
    unfolding counts_def receiveM3_def
    by (auto simp: m3BytesForMode_def dest!: receive_counts split: prod.splits if_splits)
  show "counts cfg 0 0 (receiveResult e)"
    unfolding counts_def receiveResult_def
    by (auto simp: receiveProtocolMessage_def finalizeMetrics_def Let_def split: prod.splits option.splits if_splits)
qed

lemma session_counts:
  assumes "runStages (initiatorStages W e) (enterSession n) = (Some True, c)"
  shows "config c = config n \<and>
    appTxBytes (l_metrics c) = of_nat (M0_BYTES + m2BytesForMode (pathMode (config n)) + M4_BYTES) \<and>
    appRxBytes (l_metrics c) = of_nat (M1_BYTES + m3BytesForMode (pathMode (config n)))"
proof -
  let ?mode = "pathMode (config n)" and ?q = "(0 :: nat, 0 :: nat)"
  let ?ns = "[?q, (M0_BYTES, 0), (0, M1_BYTES), ?q, ?q, ?q, ?q, ?q, ?q, ?q, ?q, ?q, (m2BytesForMode ?mode, 0),
    (0, m3BytesForMode ?mode), ?q, ?q, ?q, ?q, ?q, ?q, ?q, ?q, ?q, ?q, (M4_BYTES, 0), ?q]"
  have "list_all2 (\<lambda>f n'. counts (config n) (fst n') (snd n') f) (initiatorStages W e) ?ns"
    by (simp add: initiatorStages_def quiet_counts path_counts io_counts)
  note run = counts_stages [OF this, unfolded counts_def, rule_format, OF _ assms]
  have start: "config (enterSession n) = config n" "appTxBytes (l_metrics (enterSession n)) = 0" "appRxBytes (l_metrics (enterSession n)) = 0"
    by (simp_all add: enterSession_def node.defs session.defs LocalMetrics_init_def)
  have sums: "sum_list (map fst ?ns) = M0_BYTES + m2BytesForMode ?mode + M4_BYTES"
    "sum_list (map snd ?ns) = M1_BYTES + m3BytesForMode ?mode" by simp_all
  show ?thesis using run [OF start(1)] unfolding sums start(2,3) by (simp only: add_0_left)
qed

section \<open>The report\<close>

lemma report_bytes_shown:
  assumes "printInitiatorResult cfg run qA qB t m buf len = Some rep"
  shows "sr_bytes rep ! 0 = [appTxBytes m + appRxBytes m, of_nat (expectedDirectApplicationBytes (pathMode cfg))]"
    and "sr_bytes rep ! 3 = [appTxBytes m, appRxBytes m]" and "sr_csv rep ! 13 = unat (appTxBytes m + appRxBytes m)"
  using assms by (auto simp: printInitiatorResult_def Let_def split: if_splits)

text \<open>The figures of the responder are those it encoded.\<close>

lemma report_shows_result:
  assumes "length r = 128" and "take RESULT_BYTES buf = take RESULT_BYTES (encodeResult e qa qb mB r)"
    and "printInitiatorResult cfg run qA qB t m buf RESULT_BYTES = Some rep"
  shows "sr_warning rep = (qA \<noteq> qa \<or> qB \<noteq> qb)"
    and "sr_responder rep = [shaUs mB, hmacUs mB, lmotsSignUs mB, lmotsVerifyUs mB, kemUs mB, pufFeUs mB, totalCryptoUs mB]"
    and "sr_bytes rep ! 4 = [appTxBytes mB, appRxBytes mB]" and "sr_bytes rep ! 6 = [repositoryTxBytes mB, repositoryRxBytes mB]"
    and "sr_total rep ! 2 = protocolUs mB" and "sr_wait rep ! 1 = repositoryUs mB"
  using assms(3) by (simp_all add: printInitiatorResult_def Let_def result_fields [OF assms(1,2)]) auto

text \<open>C26: The report of a session is exact about the messages: whenever the initiator's session
  succeeds, whatever the network delivered, it prints as direct application bytes the expected number of its deployment
  mode (6974 or 6334, as \<open>README.md\<close> states), made of M0, M2 and M4 sent and M1 and M3 received; fragment headers, repeated
  datagrams, repository traffic and RESULT are not in it, and the 32-bit sum does not wrap.\<close>

theorem report_counts_messages:
  assumes "runStages (initiatorStages W e) (enterSession n) = (Some True, c)"
    and "printInitiatorResult (config c) run (l_qA c) (l_qB c) t (l_metrics c) (m_result c) RESULT_BYTES = Some rep"
  shows "sr_bytes rep ! 0 = [of_nat (expectedDirectApplicationBytes (pathMode (config n))),
      of_nat (expectedDirectApplicationBytes (pathMode (config n)))] \<and>
    sr_bytes rep ! 3 = [of_nat (M0_BYTES + m2BytesForMode (pathMode (config n)) + M4_BYTES),
      of_nat (M1_BYTES + m3BytesForMode (pathMode (config n)))] \<and>
    sr_csv rep ! 13 = (if pathMode (config n) = SignerCarried then 6974 else 6334)"
proof -
  note c = session_counts [OF assms(1)] and rep = report_bytes_shown [OF assms(2)]
  show ?thesis using c unfolding rep
    by (simp add: expectedDirectApplicationBytes_def m2BytesForMode_def m3BytesForMode_def)
qed

theorem report_counts_messages_witness:
  "\<exists>n e c rep. runStages (initiatorStages sample_wolf e) (enterSession n) = (Some True, c) \<and>
    printInitiatorResult (config c) 1 (l_qA c) (l_qB c) 0 (l_metrics c) (m_result c) RESULT_BYTES = Some rep \<and>
    sr_csv rep ! 13 = (if pathMode (config n) = SignerCarried then 6974 else 6334)"
proof -
  obtain a b eA eB cA cB where run: "runStages (initiatorStages sample_wolf eA) (enterSession a) = (Some True, cA)"
    by (rule sample_runs)
  obtain rep where rep: "printInitiatorResult (config cA) 1 (l_qA cA) (l_qB cA) 0 (l_metrics cA) (m_result cA) RESULT_BYTES = Some rep"
    by (simp add: printInitiatorResult_def Let_def)
  from report_counts_messages [OF run rep] run rep show ?thesis by blast
qed

end
