(* ===== verification/ApqeConstants.thy ===== *)
theory ApqeConstants
  imports FragmentedUdp
begin

text \<open>
  \<open>ApqeConstants.h\<close> of the APQE-CDA package (namespace \<open>apqe\<close>), the baseline protocol the
  proposed one is compared with: sizes, wire codes, the credential record, the node
  configuration and the session metrics. Names that both packages use are prefixed with
  \<open>apqe\<close> here; \<open>ID_BYTES\<close>, \<open>HASH_BYTES\<close> and \<open>PROTOCOL_VERSION\<close> have the same values in
  both. The package repeats the integer codecs of the other one; they are written out
  again, and again satisfy the interface \<open>byte_codec\<close>.
\<close>

section \<open>Sizes and wire codes\<close>

abbreviation (input) APQE_PROTOCOL_PORT :: u16 where "APQE_PROTOCOL_PORT \<equiv> 4310"
abbreviation (input) GATEWAY_ORG1_PORT :: u16 where "GATEWAY_ORG1_PORT \<equiv> 5002"
abbreviation (input) GATEWAY_ORG2_PORT :: u16 where "GATEWAY_ORG2_PORT \<equiv> 5003"

abbreviation (input) TID_BYTES :: nat where "TID_BYTES \<equiv> 32"
abbreviation (input) CHALLENGE_BYTES :: nat where "CHALLENGE_BYTES \<equiv> 32"
abbreviation (input) APQE_NONCE_BYTES :: nat where "APQE_NONCE_BYTES \<equiv> 32"
abbreviation (input) PUF_BYTES :: nat where "PUF_BYTES \<equiv> 32"

abbreviation (input) KYBER_PUBLIC_KEY_BYTES :: nat where "KYBER_PUBLIC_KEY_BYTES \<equiv> 800"
abbreviation (input) KYBER_SECRET_KEY_BYTES :: nat where "KYBER_SECRET_KEY_BYTES \<equiv> 768"
abbreviation (input) KYBER_CIPHERTEXT_BYTES :: nat where "KYBER_CIPHERTEXT_BYTES \<equiv> 768"
abbreviation (input) KYBER_MESSAGE_BYTES :: nat where "KYBER_MESSAGE_BYTES \<equiv> 32"
abbreviation (input) KYBER_COINS_BYTES :: nat where "KYBER_COINS_BYTES \<equiv> 32"

abbreviation (input) EI_BLOCKS :: nat where "EI_BLOCKS \<equiv> 4"
abbreviation (input) EI_BYTES :: nat where "EI_BYTES \<equiv> 128"
abbreviation (input) APQE_M1_BYTES :: nat where "APQE_M1_BYTES \<equiv> 3104"
abbreviation (input) PJ_BYTES :: nat where "PJ_BYTES \<equiv> 64"
abbreviation (input) APQE_M2_BYTES :: nat where "APQE_M2_BYTES \<equiv> 128"
abbreviation (input) APQE_M3_BYTES :: nat where "APQE_M3_BYTES \<equiv> 64"
abbreviation (input) DIRECT_APPLICATION_BYTES :: nat where "DIRECT_APPLICATION_BYTES \<equiv> 3296"

abbreviation (input) APQE_FRAGMENT_MAGIC :: u16 where "APQE_FRAGMENT_MAGIC \<equiv> 0xA951"
abbreviation (input) APQE_FRAGMENT_HEADER_BYTES :: nat where "APQE_FRAGMENT_HEADER_BYTES \<equiv> 14"
abbreviation (input) APQE_FRAGMENT_PAYLOAD_BYTES :: nat where "APQE_FRAGMENT_PAYLOAD_BYTES \<equiv> 1000"
abbreviation (input) APQE_MAX_FRAGMENTS :: nat where "APQE_MAX_FRAGMENTS \<equiv> 5"
abbreviation (input) APQE_MAX_MESSAGE_BYTES :: nat where "APQE_MAX_MESSAGE_BYTES \<equiv> APQE_M1_BYTES"
abbreviation (input) DIRECT_RECEIVE_TIMEOUT_MS :: u32 where "DIRECT_RECEIVE_TIMEOUT_MS \<equiv> 10000"

abbreviation (input) GATEWAY_MAGIC :: u16 where "GATEWAY_MAGIC \<equiv> 0xA952"
abbreviation (input) GATEWAY_VERSION :: u8 where "GATEWAY_VERSION \<equiv> 1"
abbreviation (input) GATEWAY_REQUEST_HEADER_BYTES :: nat where "GATEWAY_REQUEST_HEADER_BYTES \<equiv> 12"
abbreviation (input) GATEWAY_RESPONSE_HEADER_BYTES :: nat where "GATEWAY_RESPONSE_HEADER_BYTES \<equiv> 19"
abbreviation (input) GATEWAY_TAG_BYTES :: nat where "GATEWAY_TAG_BYTES \<equiv> 32"
abbreviation (input) FABRIC_RECORD_BYTES :: nat where "FABRIC_RECORD_BYTES \<equiv> 928"
abbreviation (input) GATEWAY_MAX_REQUEST_BYTES :: nat where "GATEWAY_MAX_REQUEST_BYTES \<equiv> 972"
abbreviation (input) GATEWAY_MAX_RESPONSE_BYTES :: nat where "GATEWAY_MAX_RESPONSE_BYTES \<equiv> 979"
abbreviation (input) GATEWAY_TIMEOUT_MS :: u32 where "GATEWAY_TIMEOUT_MS \<equiv> 5000"
abbreviation (input) GATEWAY_RETRIES :: nat where "GATEWAY_RETRIES \<equiv> 6"

abbreviation (input) DEFAULT_SESSION_COUNT :: u32 where "DEFAULT_SESSION_COUNT \<equiv> 20"
abbreviation (input) APQE_RESULT_BYTES :: nat where "APQE_RESULT_BYTES \<equiv> 153"

abbreviation (input) GATEWAY_QUERY_REQUEST_BYTES :: nat where "GATEWAY_QUERY_REQUEST_BYTES \<equiv> 76"
abbreviation (input) GATEWAY_QUERY_RESPONSE_BYTES :: nat where "GATEWAY_QUERY_RESPONSE_BYTES \<equiv> 979"
abbreviation (input) GATEWAY_QUERY_EXCHANGE_BYTES :: nat where "GATEWAY_QUERY_EXCHANGE_BYTES \<equiv> 1055"

text \<open>The sizes are the sums the header writes them as.\<close>

lemma apqe_sizes:
  "EI_BYTES = EI_BLOCKS * KYBER_MESSAGE_BYTES"
  "APQE_M1_BYTES = EI_BLOCKS * KYBER_CIPHERTEXT_BYTES + HASH_BYTES"
  "PJ_BYTES = CHALLENGE_BYTES + APQE_NONCE_BYTES"
  "APQE_M2_BYTES = PUF_BYTES + PJ_BYTES + HASH_BYTES"
  "APQE_M3_BYTES = PUF_BYTES + HASH_BYTES"
  "DIRECT_APPLICATION_BYTES = APQE_M1_BYTES + APQE_M2_BYTES + APQE_M3_BYTES"
  "FABRIC_RECORD_BYTES = ID_BYTES + TID_BYTES + KYBER_PUBLIC_KEY_BYTES + PUF_BYTES + HASH_BYTES"
  "GATEWAY_MAX_REQUEST_BYTES = GATEWAY_REQUEST_HEADER_BYTES + FABRIC_RECORD_BYTES + GATEWAY_TAG_BYTES"
  "GATEWAY_MAX_RESPONSE_BYTES = GATEWAY_RESPONSE_HEADER_BYTES + FABRIC_RECORD_BYTES + GATEWAY_TAG_BYTES"
  "GATEWAY_QUERY_REQUEST_BYTES = GATEWAY_REQUEST_HEADER_BYTES + ID_BYTES + GATEWAY_TAG_BYTES"
  "GATEWAY_QUERY_RESPONSE_BYTES = GATEWAY_RESPONSE_HEADER_BYTES + FABRIC_RECORD_BYTES + GATEWAY_TAG_BYTES"
  "GATEWAY_QUERY_EXCHANGE_BYTES = GATEWAY_QUERY_REQUEST_BYTES + GATEWAY_QUERY_RESPONSE_BYTES"
  by simp_all

definition GATEWAY_HMAC_KEY :: bytes where
  "GATEWAY_HMAC_KEY =
    [0x7a, 0x0c, 0x9e, 0x51, 0x2b, 0xd8, 0x44, 0xf0,
     0xa1, 0x63, 0x37, 0x8d, 0xe4, 0x05, 0xc9, 0x72,
     0x19, 0xb6, 0x2f, 0xaa, 0x84, 0x33, 0xd1, 0x5c,
     0x68, 0xef, 0x90, 0x47, 0x12, 0xbc, 0x5a, 0x26]"

datatype apqe_Role = ApqeInitiator | ApqeResponder

abbreviation (input) MSG_M1 :: u8 where "MSG_M1 \<equiv> 0x21"
abbreviation (input) MSG_M2 :: u8 where "MSG_M2 \<equiv> 0x22"
abbreviation (input) MSG_M3 :: u8 where "MSG_M3 \<equiv> 0x23"
abbreviation (input) APQE_MSG_RESULT :: u8 where "APQE_MSG_RESULT \<equiv> 0x7f"

abbreviation (input) GW_PUT_CREDENTIAL :: u8 where "GW_PUT_CREDENTIAL \<equiv> 1"
abbreviation (input) GW_QUERY_ID_SLOT :: u8 where "GW_QUERY_ID_SLOT \<equiv> 2"
abbreviation (input) GW_QUERY_TID :: u8 where "GW_QUERY_TID \<equiv> 3"
abbreviation (input) GW_PING :: u8 where "GW_PING \<equiv> 4"

abbreviation (input) GW_OK :: u8 where "GW_OK \<equiv> 0"
abbreviation (input) GW_BAD_REQUEST :: u8 where "GW_BAD_REQUEST \<equiv> 1"
abbreviation (input) GW_NOT_FOUND :: u8 where "GW_NOT_FOUND \<equiv> 2"
abbreviation (input) GW_FABRIC_ERROR :: u8 where "GW_FABRIC_ERROR \<equiv> 3"
abbreviation (input) GW_AUTH_ERROR :: u8 where "GW_AUTH_ERROR \<equiv> 4"

section \<open>Records\<close>

record FabricCredential =
  fc_identityHash :: bytes
  fc_tid :: bytes
  fc_publicKey :: bytes
  fc_w :: bytes
  fc_verifyHash :: bytes

text \<open>The array members have their declared sizes.\<close>

definition credential_arrays :: "FabricCredential \<Rightarrow> bool" where
  "credential_arrays c \<longleftrightarrow>
    length (fc_identityHash c) = ID_BYTES \<and> length (fc_tid c) = TID_BYTES \<and>
    length (fc_publicKey c) = KYBER_PUBLIC_KEY_BYTES \<and> length (fc_w c) = PUF_BYTES \<and>
    length (fc_verifyHash c) = HASH_BYTES"

text \<open>A credential cleared by \<open>memset\<close>.\<close>

definition FabricCredential_zero :: FabricCredential where
  "FabricCredential_zero =
    \<lparr>fc_identityHash = zeros ID_BYTES, fc_tid = zeros TID_BYTES, fc_publicKey = zeros KYBER_PUBLIC_KEY_BYTES,
     fc_w = zeros PUF_BYTES, fc_verifyHash = zeros HASH_BYTES\<rparr>"

record apqe_NodeConfig =
  n_role :: apqe_Role
  n_wifiSsid :: string
  n_wifiPassword :: string
  n_gatewayIp :: u32
  n_gatewayPort :: u16
  n_gatewayLocalPort :: u16
  n_responderIp :: u32
  n_protocolPort :: u16
  n_deviceId :: bytes
  n_peerId :: bytes
  n_emulatedSramRaw :: bytes
  n_emulatedSramHelper :: bytes
  n_emulatedBsPufSecret :: bytes
  n_numberOfSessions :: u32

record SessionMetrics =
  sm_protocolUs :: u64
  sm_confirmedUs :: u64
  sm_shaUs :: u64
  sm_pufUs :: u64
  sm_fuzzyReconstructionUs :: u64
  sm_kyberKeygenUs :: u64
  sm_kyberEncryptUs :: u64
  sm_kyberDecryptUs :: u64
  sm_fabricWallUs :: u64
  sm_fabricPeerUs :: u64
  sm_directAppTx :: u32
  sm_directAppRx :: u32
  sm_directFramedTx :: u32
  sm_directFramedRx :: u32
  sm_gatewayAppTx :: u32
  sm_gatewayAppRx :: u32

definition SessionMetrics_init :: SessionMetrics where
  "SessionMetrics_init =
    \<lparr>sm_protocolUs = 0, sm_confirmedUs = 0, sm_shaUs = 0, sm_pufUs = 0, sm_fuzzyReconstructionUs = 0,
     sm_kyberKeygenUs = 0, sm_kyberEncryptUs = 0, sm_kyberDecryptUs = 0, sm_fabricWallUs = 0, sm_fabricPeerUs = 0,
     sm_directAppTx = 0, sm_directAppRx = 0, sm_directFramedTx = 0, sm_directFramedRx = 0,
     sm_gatewayAppTx = 0, sm_gatewayAppRx = 0\<rparr>"

section \<open>Integer codecs\<close>

definition apqe_putU16 :: "u16 \<Rightarrow> bytes" where
  "apqe_putU16 value = [ucast (drop_bit 8 value), ucast value]"

definition apqe_putU32 :: "u32 \<Rightarrow> bytes" where
  "apqe_putU32 value =
    [ucast (drop_bit 24 value), ucast (drop_bit 16 value), ucast (drop_bit 8 value), ucast value]"

definition apqe_putU64 :: "u64 \<Rightarrow> bytes" where
  "apqe_putU64 value = map (\<lambda>i. ucast (drop_bit (i * 8) value)) (rev [0..<8])"

definition apqe_getU16 :: "bytes \<Rightarrow> u16" where
  "apqe_getU16 inp = (push_bit 8 (ucast (inp ! 0)) OR ucast (inp ! 1))"

definition apqe_getU32 :: "bytes \<Rightarrow> u32" where
  "apqe_getU32 inp =
    (push_bit 24 (ucast (inp ! 0)) OR push_bit 16 (ucast (inp ! 1)) OR
     push_bit 8 (ucast (inp ! 2)) OR ucast (inp ! 3))"

definition apqe_getU64 :: "bytes \<Rightarrow> u64" where
  "apqe_getU64 inp = foldl (\<lambda>value i. push_bit 8 value OR ucast (inp ! i)) 0 [0..<8]"

definition apqe_constantTimeEqual :: "bytes \<Rightarrow> bytes \<Rightarrow> nat \<Rightarrow> bool" where
  "apqe_constantTimeEqual a b n =
    (foldl (\<lambda>difference i. difference OR (a ! i XOR b ! i)) (0 :: u8) [0..<n] = 0)"

text \<open>They are the functions of the other package.\<close>

lemma apqe_codecs [simp]:
  "apqe_putU16 = putU16" "apqe_putU32 = putU32" "apqe_putU64 = putU64"
  "apqe_getU16 = getU16" "apqe_getU32 = getU32" "apqe_getU64 = getU64"
  "apqe_constantTimeEqual = constantTimeEqual"
  by (intro ext; simp add: apqe_putU16_def putU16_def apqe_putU32_def putU32_def apqe_putU64_def putU64_def
      apqe_getU16_def getU16_def apqe_getU32_def getU32_def apqe_getU64_def getU64_def
      apqe_constantTimeEqual_def constantTimeEqual_def del: upt_rec_numeral)+

interpretation a16: byte_codec apqe_putU16 apqe_getU16 2
  by (simp add: u16.byte_codec_axioms)

interpretation a32: byte_codec apqe_putU32 apqe_getU32 4
  by (simp add: u32.byte_codec_axioms)

interpretation a64: byte_codec apqe_putU64 apqe_getU64 8
  by (simp add: u64.byte_codec_axioms)

end
