(* ===== verification/ApqeCrypto.thy ===== *)
theory ApqeCrypto
  imports ApqeConstants CryptoHelpers
begin

text \<open>
  \<open>CryptoHelpers\<close>, \<open>KyberCpaWrapper\<close> and \<open>SoftwarePuf\<close> of the APQE-CDA package. wolfSSL is the
  record \<open>wolf\<close> of \<open>CryptoHelpers\<close>. The Kyber reference code is not part of the repository
  (\<open>README_VENDOR_REQUIRED\<close>): its three entry points are the record \<open>kyber\<close>. Proved: the
  reversible map of the PUF emulation is its own inverse and the commutative maps of two
  devices commute, which is what the protocol is built on.
\<close>

section \<open>CryptoHelpers\<close>

text \<open>The update loop; \<open>ctx\<close> is what the context has absorbed.\<close>

fun shaUpdates :: "wolf \<Rightarrow> bytes list \<Rightarrow> bytes \<Rightarrow> bytes res" where
  "shaUpdates W [] ctx = Inr ctx"
| "shaUpdates W (part # parts) ctx =
    (if length part > UINT32_MAX then Inl (LastError (-2))
     else
       let ret = wc_Sha256Update W ctx part
       in if ret \<noteq> 0 then Inl (LastError ret) else shaUpdates W parts (ctx @ part))"

definition sha256Parts :: "wolf \<Rightarrow> bytes list \<Rightarrow> bytes res" where
  "sha256Parts W parts =
    (let ret = wc_InitSha256 W
     in if ret \<noteq> 0 then Inl (LastError ret)
        else bindE (shaUpdates W parts [])
          (\<lambda>ctx. case wc_Sha256Final W ctx of
             (ret, out) \<Rightarrow> if ret \<noteq> 0 then Inl (LastError ret) else Inr out))"

definition apqe_sha256 :: "wolf \<Rightarrow> bytes \<Rightarrow> bytes res" where
  "apqe_sha256 W data = sha256Parts W [data]"

definition apqe_hmacSha256 :: "wolf \<Rightarrow> bytes \<Rightarrow> bytes \<Rightarrow> bytes res" where
  "apqe_hmacSha256 W key data =
    (if length key > UINT32_MAX \<or> length data > UINT32_MAX then Inl (LastError (-3))
     else
       let ret = wc_HmacSetKey W key
       in if ret \<noteq> 0 then Inl (LastError ret)
          else
            let ret = wc_HmacUpdate W key [] data
            in if ret \<noteq> 0 then Inl (LastError ret)
               else case wc_HmacFinal W key data of
                 (ret, out) \<Rightarrow> if ret \<noteq> 0 then Inl (LastError ret) else Inr out)"

section \<open>KyberCpaWrapper\<close>

text \<open>
  The vendored functions: the key pair as a function of the seed given to
  \<open>apqe_randombytes_set_seed\<close>, encryption of a message under a public key with given coins,
  and decryption of a ciphertext with a secret key.
\<close>

record kyber =
  indcpa_keypair :: "bytes \<Rightarrow> bytes \<times> bytes"
  indcpa_enc :: "bytes \<Rightarrow> bytes \<Rightarrow> bytes \<Rightarrow> bytes"
  indcpa_dec :: "bytes \<Rightarrow> bytes \<Rightarrow> bytes"

text \<open>
  What the code relies on: the sizes it asserts, and that decryption undoes encryption
  for the keys of one seed.
\<close>

definition kyber_sizes :: "kyber \<Rightarrow> bool" where
  "kyber_sizes K \<longleftrightarrow>
    (\<forall>s. length (fst (indcpa_keypair K s)) = KYBER_PUBLIC_KEY_BYTES \<and>
         length (snd (indcpa_keypair K s)) = KYBER_SECRET_KEY_BYTES) \<and>
    (\<forall>m pk c. length (indcpa_enc K m pk c) = KYBER_CIPHERTEXT_BYTES) \<and>
    (\<forall>ct sk. length (indcpa_dec K ct sk) = KYBER_MESSAGE_BYTES)"

definition kyber_correct :: "kyber \<Rightarrow> bool" where
  "kyber_correct K \<longleftrightarrow>
    (\<forall>s m c. length m = KYBER_MESSAGE_BYTES \<longrightarrow>
      indcpa_dec K (indcpa_enc K m (fst (indcpa_keypair K s)) c) (snd (indcpa_keypair K s)) = m)"

text \<open>The pointers are never null, so the wrappers always return true.\<close>

definition keypairDeterministic :: "kyber \<Rightarrow> bytes \<Rightarrow> bool \<times> bytes \<times> bytes" where
  "keypairDeterministic K seed = (True, indcpa_keypair K seed)"

definition kyber_encrypt :: "kyber \<Rightarrow> bytes \<Rightarrow> bytes \<Rightarrow> bytes \<Rightarrow> bool \<times> bytes" where
  "kyber_encrypt K message publicKey coins = (True, indcpa_enc K message publicKey coins)"

definition kyber_decrypt :: "kyber \<Rightarrow> bytes \<Rightarrow> bytes \<Rightarrow> bool \<times> bytes" where
  "kyber_decrypt K ciphertext secretKey = (True, indcpa_dec K ciphertext secretKey)"

section \<open>SoftwarePuf\<close>

record SoftwarePuf =
  m_rawSram :: bytes
  m_helper :: bytes
  m_commutativeMask :: bytes
  m_reversibleSecret :: bytes

definition SoftwarePuf_ctor :: SoftwarePuf where
  "SoftwarePuf_ctor =
    \<lparr>m_rawSram = zeros HASH_BYTES, m_helper = zeros HASH_BYTES,
     m_commutativeMask = zeros HASH_BYTES, m_reversibleSecret = zeros HASH_BYTES\<rparr>"

text \<open>The characters of \<open>APQE-COMM\<close>, \<open>APQE-REV\<close>, \<open>SRAM-FE-EMU\<close> and \<open>REV-MASK\<close>.\<close>

definition comm_label :: bytes where
  "comm_label = [0x41, 0x50, 0x51, 0x45, 0x2d, 0x43, 0x4f, 0x4d, 0x4d]"

definition rev_label :: bytes where
  "rev_label = [0x41, 0x50, 0x51, 0x45, 0x2d, 0x52, 0x45, 0x56]"

definition fe_label :: bytes where
  "fe_label = [0x53, 0x52, 0x41, 0x4d, 0x2d, 0x46, 0x45, 0x2d, 0x45, 0x4d, 0x55]"

definition rev_mask_label :: bytes where
  "rev_mask_label = [0x52, 0x45, 0x56, 0x2d, 0x4d, 0x41, 0x53, 0x4b]"

definition SoftwarePuf_begin :: "wolf \<Rightarrow> bytes \<Rightarrow> bytes \<Rightarrow> bytes \<Rightarrow> SoftwarePuf \<Rightarrow> bool \<times> SoftwarePuf" where
  "SoftwarePuf_begin W rawSram helper bsPufSecret p =
    (let p = p\<lparr>m_rawSram := rawSram, m_helper := helper\<rparr>
     in case sha256Parts W [comm_label, bsPufSecret] of
          Inl _ \<Rightarrow> (False, p)
        | Inr comm \<Rightarrow>
            let p = p\<lparr>m_commutativeMask := comm\<rparr>
            in case sha256Parts W [rev_label, bsPufSecret] of
                 Inl _ \<Rightarrow> (False, p)
               | Inr secret \<Rightarrow> (True, p\<lparr>m_reversibleSecret := secret\<rparr>))"

definition reconstructKyberSeed :: "wolf \<Rightarrow> SoftwarePuf \<Rightarrow> bytes res" where
  "reconstructKyberSeed W p = sha256Parts W [fe_label, m_rawSram p, m_helper p]"

text \<open>\<open>xorBytes\<close> of \<open>ApqeProtocol.cpp\<close>; the loops of the PUF maps are the same loop.\<close>

definition xorBytes :: "bytes \<Rightarrow> bytes \<Rightarrow> nat \<Rightarrow> bytes" where
  "xorBytes a b n = map (\<lambda>i. a ! i XOR b ! i) [0..<n]"

definition commutativeMap :: "SoftwarePuf \<Rightarrow> bytes \<Rightarrow> bytes" where
  "commutativeMap p inp = xorBytes inp (m_commutativeMask p) PUF_BYTES"

definition reversibleMask :: "wolf \<Rightarrow> SoftwarePuf \<Rightarrow> bytes \<Rightarrow> bytes res" where
  "reversibleMask W p secretKey =
    bindE (apqe_sha256 W secretKey) (\<lambda>skHash. sha256Parts W [rev_mask_label, skHash, m_reversibleSecret p])"

definition reversibleMap :: "wolf \<Rightarrow> SoftwarePuf \<Rightarrow> bytes \<Rightarrow> bytes \<Rightarrow> bytes res" where
  "reversibleMap W p secretKey challenge =
    bindE (reversibleMask W p secretKey) (\<lambda>mask. Inr (xorBytes challenge mask TID_BYTES))"

definition reversibleInverse :: "wolf \<Rightarrow> SoftwarePuf \<Rightarrow> bytes \<Rightarrow> bytes \<Rightarrow> bytes res" where
  "reversibleInverse W p secretKey tid = reversibleMap W p secretKey tid"

section \<open>Facts\<close>

lemma shaUpdates_works:
  "wolf_works W \<Longrightarrow> list_all (\<lambda>p. length p \<le> UINT32_MAX) parts \<Longrightarrow> shaUpdates W parts ctx = Inr (ctx @ concat parts)"
  by (induction parts arbitrary: ctx) (auto simp: wolf_works_def Let_def)

lemma sha256Parts_works:
  "wolf_works W \<Longrightarrow> list_all (\<lambda>p. length p \<le> UINT32_MAX) parts \<Longrightarrow>
   sha256Parts W parts = Inr (snd (wc_Sha256Final W (concat parts)))"
  by (simp add: sha256Parts_def shaUpdates_works Let_def split_beta) (simp add: wolf_works_def)

lemma shaUpdates_Inr: "shaUpdates W parts ctx = Inr ctx' \<Longrightarrow> ctx' = ctx @ concat parts"
  by (induction parts arbitrary: ctx) (fastforce simp: Let_def split: if_splits)+

text \<open>A digest is the digest of the concatenated parts.\<close>

lemma sha256Parts_Inr: "sha256Parts W parts = Inr d \<Longrightarrow> d = snd (wc_Sha256Final W (concat parts))"
  by (auto simp: sha256Parts_def Let_def bindE_eq_Inr split_beta split: if_splits dest!: shaUpdates_Inr)

lemma sha256Parts_Inr_length [result_simps]:
  "wolf_sizes W \<Longrightarrow> sha256Parts W parts = Inr d \<Longrightarrow> length d = HASH_BYTES"
  by (auto dest!: sha256Parts_Inr simp: wolf_sizes_def)

lemma apqe_hmac_works:
  "wolf_works W \<Longrightarrow> length k \<le> UINT32_MAX \<Longrightarrow> length x \<le> UINT32_MAX \<Longrightarrow>
   apqe_hmacSha256 W k x = Inr (snd (wc_HmacFinal W k x))"
  by (auto simp: apqe_hmacSha256_def wolf_works_def Let_def split_beta)

lemma apqe_hmac_Inr_length [result_simps]:
  "wolf_sizes W \<Longrightarrow> apqe_hmacSha256 W k x = Inr d \<Longrightarrow> length d = HASH_BYTES"
  by (auto simp: apqe_hmacSha256_def wolf_sizes_def Let_def split_beta split: if_splits)

subsection \<open>The algebra of the masks\<close>

lemma length_xorBytes [simp]: "length (xorBytes a b n) = n"
  by (simp add: xorBytes_def)

lemma nth_xorBytes [simp]: "i < n \<Longrightarrow> xorBytes a b n ! i = a ! i XOR b ! i"
  by (simp add: xorBytes_def)

lemma xorBytes_commute: "xorBytes a b n = xorBytes b a n"
  by (simp add: xorBytes_def xor.commute)

lemma xorBytes_assoc: "xorBytes (xorBytes a b n) c n = xorBytes a (xorBytes b c n) n"
  by (rule nth_equalityI) (simp_all add: xor.assoc)

lemma xorBytes_self: "xorBytes a a n = zeros n"
  by (rule nth_equalityI) (simp_all add: zeros_def)

lemma xorBytes_cancel: "length a = n \<Longrightarrow> xorBytes (xorBytes a b n) b n = a"
  by (rule nth_equalityI) (simp_all add: xor.assoc)

lemma xorBytes_cancel_left: "length a = n \<Longrightarrow> xorBytes b (xorBytes a b n) n = a"
  by (simp add: xorBytes_commute [of b] xorBytes_cancel)

text \<open>The bytes of a longer buffer behind the first \<open>n\<close> do not matter.\<close>

lemma xorBytes_take: "n \<le> length a \<Longrightarrow> xorBytes (take n a) b n = xorBytes a b n"
  by (rule nth_equalityI) simp_all

lemma length_commutativeMap [simp]: "length (commutativeMap p x) = PUF_BYTES"
  by (simp add: commutativeMap_def)

text \<open>The commutative maps of two devices commute, and each is an involution.\<close>

lemma commutativeMap_commute: "commutativeMap p (commutativeMap p' x) = commutativeMap p' (commutativeMap p x)"
  by (simp add: commutativeMap_def xorBytes_assoc) (simp add: xorBytes_commute)

lemma commutativeMap_twice: "length x = PUF_BYTES \<Longrightarrow> commutativeMap p (commutativeMap p x) = x"
  by (simp add: commutativeMap_def xorBytes_cancel)

lemma reversible_length: "reversibleMap W p sk c = Inr t \<Longrightarrow> length t = TID_BYTES"
  by (auto simp: reversibleMap_def bindE_eq_Inr)

lemma reversible_inverse:
  "reversibleMap W p sk c = Inr t \<Longrightarrow> length c = CHALLENGE_BYTES \<Longrightarrow> reversibleInverse W p sk t = Inr c"
  by (auto simp: reversibleInverse_def reversibleMap_def bindE_eq_Inr xorBytes_cancel)

section \<open>A sample Kyber\<close>

text \<open>
  An instance of the parameter for the examples, not a cryptosystem: the public key holds the
  seed, the secret key too, and a ciphertext is the message padded.
\<close>

definition sample_kyber :: kyber where
  "sample_kyber =
    \<lparr>indcpa_keypair = (\<lambda>s. (take 800 (s @ zeros 800), take 768 (s @ zeros 768))),
     indcpa_enc = (\<lambda>m pk c. take 768 (m @ zeros 768)),
     indcpa_dec = (\<lambda>ct sk. take 32 (ct @ zeros 32))\<rparr>"

lemma sample_kyber_sizes: "kyber_sizes sample_kyber"
  by (auto simp: kyber_sizes_def sample_kyber_def)

lemma sample_kyber_correct: "kyber_correct sample_kyber"
  by (simp add: kyber_correct_def sample_kyber_def)

end
