(* ===== verification/ApqeFabric.thy ===== *)
theory ApqeFabric
  imports ApqeCrypto
begin

text \<open>
  \<open>FabricUdpClient.h/.cpp\<close>: the client of the Fabric gateway. A request is one datagram under
  an HMAC key shared with the gateway and is repeated up to six times; the first response
  that is authentic and carries the operation and the number of the request decides the
  call, whatever its status. The network is an argument, as in \<open>GcsLedgerClient\<close>: a call
  whose polls or attempts end before it has returned is still running, \<open>None\<close>.
\<close>

section \<open>State\<close>

record FabricState =
  f_gatewayIp :: u32
  f_gatewayPort :: u16
  f_nextRequestId :: u32
  f_lastStatus :: u8
  f_tx :: bytes
  f_rx :: bytes
  f_recordScratch :: bytes

definition FabricUdpClient_ctor :: FabricState where
  "FabricUdpClient_ctor =
    \<lparr>f_gatewayIp = 0, f_gatewayPort = 0, f_nextRequestId = 1, f_lastStatus = GW_BAD_REQUEST,
     f_tx = zeros GATEWAY_MAX_REQUEST_BYTES, f_rx = zeros GATEWAY_MAX_RESPONSE_BYTES,
     f_recordScratch = zeros FABRIC_RECORD_BYTES\<rparr>"

definition FabricUdpClient_begin :: "int \<Rightarrow> u32 \<Rightarrow> u16 \<Rightarrow> FabricState \<Rightarrow> bool \<times> FabricState" where
  "FabricUdpClient_begin udpBegin ip port s = (udpBegin = 1, s\<lparr>f_gatewayIp := ip, f_gatewayPort := port\<rparr>)"

text \<open>The four output parameters a call adds to.\<close>

record fabric_meter =
  fm_fabricUs :: u64
  fm_wallUs :: u64
  fm_appTx :: u32
  fm_appRx :: u32

section \<open>Credential records\<close>

definition serializeCredential :: "FabricCredential \<Rightarrow> bytes \<Rightarrow> bytes" where
  "serializeCredential c out =
    (let offset = 0;
         out = write_at offset (fc_identityHash c) out; offset = offset + ID_BYTES;
         out = write_at offset (fc_tid c) out; offset = offset + TID_BYTES;
         out = write_at offset (fc_publicKey c) out; offset = offset + KYBER_PUBLIC_KEY_BYTES;
         out = write_at offset (fc_w c) out; offset = offset + PUF_BYTES
     in write_at offset (fc_verifyHash c) out)"

definition parseCredential :: "bytes \<Rightarrow> FabricCredential" where
  "parseCredential inp =
    (let offset = 0;
         identityHash = read_at offset ID_BYTES inp; offset = offset + ID_BYTES;
         tid = read_at offset TID_BYTES inp; offset = offset + TID_BYTES;
         publicKey = read_at offset KYBER_PUBLIC_KEY_BYTES inp; offset = offset + KYBER_PUBLIC_KEY_BYTES;
         w = read_at offset PUF_BYTES inp; offset = offset + PUF_BYTES
     in \<lparr>fc_identityHash = identityHash, fc_tid = tid, fc_publicKey = publicKey, fc_w = w,
         fc_verifyHash = read_at offset HASH_BYTES inp\<rparr>)"

section \<open>One exchange\<close>

text \<open>How one poll ends: \<open>continue\<close>, \<open>return false\<close>, or an authentic response of that payload length.\<close>

datatype fabric_step = FabricIgnore | FabricFail | FabricAccept nat

definition fabricPoll :: "wolf \<Rightarrow> u8 \<Rightarrow> u32 \<Rightarrow> poll \<Rightarrow> FabricState \<Rightarrow> fabric_step \<times> FabricState" where
  "fabricPoll W op requestId p s =
    (if parsePacket p \<le> 0 then (FabricIgnore, s)
     else if parsePacket p > int GATEWAY_MAX_RESPONSE_BYTES then (FabricIgnore, s)
     else
       let s = s\<lparr>f_rx := readBuffer p\<rparr>;
           rx = readBuffer p
       in if readLength p < int (GATEWAY_RESPONSE_HEADER_BYTES + GATEWAY_TAG_BYTES) then (FabricIgnore, s)
          else if remoteIP p \<noteq> f_gatewayIp s \<or> remotePort p \<noteq> f_gatewayPort s then (FabricIgnore, s)
          else if apqe_getU16 rx \<noteq> GATEWAY_MAGIC \<or> rx ! 2 \<noteq> GATEWAY_VERSION then (FabricIgnore, s)
          else if rx ! 3 \<noteq> op OR 0x80 then (FabricIgnore, s)
          else if apqe_getU32 (drop 4 rx) \<noteq> requestId then (FabricIgnore, s)
          else
            let receivedPayloadLength = unat (apqe_getU16 (drop 17 rx));
                authenticated = GATEWAY_RESPONSE_HEADER_BYTES + receivedPayloadLength
            in if int (authenticated + GATEWAY_TAG_BYTES) \<noteq> readLength p then (FabricIgnore, s)
               else case apqe_hmacSha256 W GATEWAY_HMAC_KEY (take authenticated rx) of
                      Inl _ \<Rightarrow> (FabricFail, s)
                    | Inr expectedTag \<Rightarrow>
                        if \<not> apqe_constantTimeEqual expectedTag (drop authenticated rx) GATEWAY_TAG_BYTES
                        then (FabricIgnore, s)
                        else (FabricAccept receivedPayloadLength, s))"

text \<open>The wait of one attempt; \<open>FabricIgnore\<close> as its result means that the time ran out.\<close>

fun fabricAwait :: "wolf \<Rightarrow> u8 \<Rightarrow> u32 \<Rightarrow> u32 \<Rightarrow> poll list \<Rightarrow> FabricState \<Rightarrow> (fabric_step \<times> FabricState) option" where
  "fabricAwait W op requestId startMs [] s = None"
| "fabricAwait W op requestId startMs (p # ps) s =
    (if pollMillis p - startMs < GATEWAY_TIMEOUT_MS then
       (case fabricPoll W op requestId p s of
          (FabricIgnore, s) \<Rightarrow> fabricAwait W op requestId startMs ps s
        | (r, s) \<Rightarrow> Some (r, s))
     else Some (FabricIgnore, s))"

text \<open>\<open>fa_us\<close>: the microseconds from the sending to the accepted response.\<close>

record fabric_attempt =
  fa_send :: send_outcome
  fa_start :: u32
  fa_polls :: "poll list"
  fa_us :: u64

text \<open>
  The code after an authentic response: the counters, the status, the capacity check and
  the copied payload (\<open>Some\<close> when the call returns true).
\<close>

definition fabricFinish ::
  "nat \<Rightarrow> u64 \<Rightarrow> nat \<Rightarrow> fabric_meter \<Rightarrow> FabricState \<Rightarrow> bytes option \<times> fabric_meter \<times> FabricState" where
  "fabricFinish responseCapacity us n m s =
    (let got = GATEWAY_RESPONSE_HEADER_BYTES + n + GATEWAY_TAG_BYTES;
         rx = f_rx s;
         s = s\<lparr>f_lastStatus := rx ! 8\<rparr>;
         m = m\<lparr>fm_wallUs := fm_wallUs m + us, fm_appRx := fm_appRx m + of_nat got,
               fm_fabricUs := fm_fabricUs m + apqe_getU64 (drop 9 rx)\<rparr>
     in if f_lastStatus s \<noteq> GW_OK then (None, m, s)
        else if n > responseCapacity then (None, m, s)
        else (Some (read_at GATEWAY_RESPONSE_HEADER_BYTES n rx), m, s))"

fun fabricAttempts ::
  "wolf \<Rightarrow> u8 \<Rightarrow> u32 \<Rightarrow> nat \<Rightarrow> nat \<Rightarrow> nat \<Rightarrow> fabric_attempt list \<Rightarrow> fabric_meter \<Rightarrow> FabricState \<Rightarrow>
   (bytes option \<times> fabric_meter \<times> FabricState) option"
where
  "fabricAttempts W op requestId requestLength capacity 0 attempts m s = Some (None, m, s)"
| "fabricAttempts W op requestId requestLength capacity (Suc left) [] m s = None"
| "fabricAttempts W op requestId requestLength capacity (Suc left) (a # attempts) m s =
    (if \<not> beginPacketOk (fa_send a) then Some (None, m, s)
     else if written (fa_send a) \<noteq> requestLength then Some (None, m, s)
     else if \<not> endPacketOk (fa_send a) then Some (None, m, s)
     else
       let m = m\<lparr>fm_appTx := fm_appTx m + of_nat requestLength\<rparr>
       in case fabricAwait W op requestId (fa_start a) (fa_polls a) s of
            None \<Rightarrow> None
          | Some (FabricFail, s) \<Rightarrow> Some (None, m, s)
          | Some (FabricAccept n, s) \<Rightarrow> Some (fabricFinish capacity (fa_us a) n m s)
          | Some (FabricIgnore, s) \<Rightarrow> fabricAttempts W op requestId requestLength capacity left attempts m s)"

text \<open>The header and payload written into \<open>m_tx\<close>.\<close>

definition fabricRequest :: "u8 \<Rightarrow> u32 \<Rightarrow> u16 \<Rightarrow> bytes \<Rightarrow> bytes \<Rightarrow> bytes" where
  "fabricRequest op requestId slot payload tx =
    (let tx = write_at 0 (apqe_putU16 GATEWAY_MAGIC) tx;
         tx = tx[2 := GATEWAY_VERSION];
         tx = tx[3 := op];
         tx = write_at 4 (apqe_putU32 requestId) tx;
         tx = write_at 8 (apqe_putU16 slot) tx;
         tx = write_at 10 (apqe_putU16 (of_nat (length payload))) tx
     in if length payload \<noteq> 0 then write_at GATEWAY_REQUEST_HEADER_BYTES payload tx else tx)"

definition transact ::
  "wolf \<Rightarrow> u8 \<Rightarrow> u16 \<Rightarrow> bytes \<Rightarrow> nat \<Rightarrow> fabric_attempt list \<Rightarrow> fabric_meter \<Rightarrow> FabricState \<Rightarrow>
   (bytes option \<times> fabric_meter \<times> FabricState) option" where
  "transact W op slot payload responseCapacity attempts m s =
    (if GATEWAY_REQUEST_HEADER_BYTES + length payload + GATEWAY_TAG_BYTES > length (f_tx s) then Some (None, m, s)
     else
       let requestId = f_nextRequestId s;
           s = s\<lparr>f_nextRequestId := requestId + 1, f_tx := fabricRequest op requestId slot payload (f_tx s)\<rparr>;
           authenticatedLength = GATEWAY_REQUEST_HEADER_BYTES + length payload
       in case apqe_hmacSha256 W GATEWAY_HMAC_KEY (take authenticatedLength (f_tx s)) of
            Inl _ \<Rightarrow> Some (None, m, s)
          | Inr tag \<Rightarrow>
              fabricAttempts W op requestId (authenticatedLength + GATEWAY_TAG_BYTES) responseCapacity
                GATEWAY_RETRIES attempts m (s\<lparr>f_tx := write_at authenticatedLength tag (f_tx s)\<rparr>))"

section \<open>Operations\<close>

definition fabric_meter_init :: "u64 \<Rightarrow> fabric_meter" where
  "fabric_meter_init us = \<lparr>fm_fabricUs = us, fm_wallUs = 0, fm_appTx = 0, fm_appRx = 0\<rparr>"

text \<open>The returned flag, the microseconds and the object.\<close>

definition fabric_ping :: "wolf \<Rightarrow> u64 \<Rightarrow> fabric_attempt list \<Rightarrow> FabricState \<Rightarrow> (bool \<times> u64 \<times> FabricState) option" where
  "fabric_ping W gatewayUs attempts s =
    map_option (\<lambda>(r, m, s). (r \<noteq> None, fm_fabricUs m, s))
      (transact W GW_PING 0 [] 0 attempts (fabric_meter_init gatewayUs) s)"

definition putCredential ::
  "wolf \<Rightarrow> u16 \<Rightarrow> FabricCredential \<Rightarrow> u64 \<Rightarrow> fabric_attempt list \<Rightarrow> FabricState \<Rightarrow> (bool \<times> u64 \<times> FabricState) option" where
  "putCredential W slot credential fabricUs attempts s =
    (let s = s\<lparr>f_recordScratch := serializeCredential credential (f_recordScratch s)\<rparr>
     in map_option (\<lambda>(r, m, s). (r \<noteq> None, fm_fabricUs m, s))
          (transact W GW_PUT_CREDENTIAL slot (f_recordScratch s) 0 attempts (fabric_meter_init fabricUs) s))"

text \<open>What both queries do with the response.\<close>

definition receiveRecord ::
  "bytes option \<times> fabric_meter \<times> FabricState \<Rightarrow> FabricCredential option \<times> fabric_meter \<times> FabricState" where
  "receiveRecord res =
    (case res of
       (None, m, s) \<Rightarrow> (None, m, s)
     | (Some response, m, s) \<Rightarrow>
         let s = s\<lparr>f_recordScratch := write_at 0 response (f_recordScratch s)\<rparr>
         in if length response = FABRIC_RECORD_BYTES then (Some (parseCredential (f_recordScratch s)), m, s)
            else (None, m, s))"

definition queryByIdentitySlot ::
  "wolf \<Rightarrow> bytes \<Rightarrow> u16 \<Rightarrow> fabric_attempt list \<Rightarrow> fabric_meter \<Rightarrow> FabricState \<Rightarrow>
   (FabricCredential option \<times> fabric_meter \<times> FabricState) option" where
  "queryByIdentitySlot W identityHash slot attempts m s =
    map_option receiveRecord
      (transact W GW_QUERY_ID_SLOT slot identityHash (length (f_recordScratch s)) attempts m s)"

definition queryByTid ::
  "wolf \<Rightarrow> bytes \<Rightarrow> fabric_attempt list \<Rightarrow> fabric_meter \<Rightarrow> FabricState \<Rightarrow>
   (FabricCredential option \<times> fabric_meter \<times> FabricState) option" where
  "queryByTid W tid attempts m s =
    map_option receiveRecord (transact W GW_QUERY_TID 0 tid (length (f_recordScratch s)) attempts m s)"

end
