(* ===== verification/ApqeUdp.thy ===== *)
theory ApqeUdp
  imports ApqeConstants FragmentationProperties
begin

text \<open>
  \<open>FragmentedUdp\<close> of the APQE-CDA package, on the same observations of socket and clock as
  the transport of the proposed protocol (\<open>send_outcome\<close>, \<open>poll\<close>). It differs in the magic
  number, the limits, and in checking the capacity on every datagram. Its receiver is
  shown to refine the one of the proposed protocol: on a poll list it does what the other
  does on the translated list (\<open>as_proposed\<close>), so memory safety, termination and exact
  reassembly carry over.
\<close>

section \<open>Sending\<close>

definition apqe_fragmentHeader :: "u8 \<Rightarrow> u32 \<Rightarrow> u16 \<Rightarrow> u8 \<Rightarrow> u8 \<Rightarrow> u16 \<Rightarrow> bytes" where
  "apqe_fragmentHeader type session len index fragmentCount payloadLength =
    apqe_putU16 APQE_FRAGMENT_MAGIC @ [PROTOCOL_VERSION, type] @ apqe_putU32 session @ apqe_putU16 len @
    [index, fragmentCount] @ apqe_putU16 payloadLength"

text \<open>As \<open>sendFragments\<close>: the returned flag, \<open>framedBytes\<close> and the datagrams given to the socket.\<close>

fun apqe_sendFragments ::
  "(nat \<Rightarrow> send_outcome) \<Rightarrow> u8 \<Rightarrow> u32 \<Rightarrow> bytes \<Rightarrow> u16 \<Rightarrow> u8 \<Rightarrow> nat list \<Rightarrow> u32 \<Rightarrow>
   bool \<times> u32 \<times> bytes list" where
  "apqe_sendFragments net type session data len fragmentCount [] framedTotal = (True, framedTotal, [])"
| "apqe_sendFragments net type session data len fragmentCount (index # rest) framedTotal =
    (let offset = index * APQE_FRAGMENT_PAYLOAD_BYTES;
         payloadLength = of_nat (min APQE_FRAGMENT_PAYLOAD_BYTES (unat len - offset)) :: u16;
         datagram = apqe_fragmentHeader type session len (of_nat index) fragmentCount payloadLength @
           read_at offset (unat payloadLength) data;
         datagramLength = APQE_FRAGMENT_HEADER_BYTES + unat payloadLength;
         o' = net index
     in if \<not> beginPacketOk o' then (False, framedTotal, [])
        else if written o' \<noteq> datagramLength then (False, framedTotal, [take (written o') datagram])
        else if \<not> endPacketOk o' then (False, framedTotal, [datagram])
        else case apqe_sendFragments net type session data len fragmentCount rest
                    (framedTotal + of_nat datagramLength) of
               (ok, framed, datagrams) \<Rightarrow> (ok, framed, datagram # datagrams))"

definition apqe_sendMessage ::
  "(nat \<Rightarrow> send_outcome) \<Rightarrow> u8 \<Rightarrow> u32 \<Rightarrow> bytes \<Rightarrow> u16 \<Rightarrow> u32 \<Rightarrow> bool \<times> u32 \<times> bytes list" where
  "apqe_sendMessage net type session data len framedTotal =
    (if len = 0 \<or> unat len > APQE_MAX_MESSAGE_BYTES then (False, framedTotal, [])
     else
       let fragmentCount =
         of_nat ((unat len + APQE_FRAGMENT_PAYLOAD_BYTES - 1) div APQE_FRAGMENT_PAYLOAD_BYTES) :: u8
       in if fragmentCount = 0 \<or> unat fragmentCount > APQE_MAX_FRAGMENTS then (False, framedTotal, [])
          else apqe_sendFragments net type session data len fragmentCount [0..<unat fragmentCount] 0)"

section \<open>Receiving\<close>

text \<open>The checks of one iteration up to the adoption of the header; \<open>None\<close> is \<open>continue\<close>.\<close>

definition apqe_readDatagram :: "u8 \<Rightarrow> u32 \<Rightarrow> u16 \<Rightarrow> poll \<Rightarrow> datagram option" where
  "apqe_readDatagram expectedType expectedSession outputCapacity p =
    (let buf = readBuffer p;
         type = buf ! 3;
         session = apqe_getU32 (drop 4 buf);
         totalLength = apqe_getU16 (drop 8 buf);
         index = buf ! 10;
         count = buf ! 11;
         payloadLength = apqe_getU16 (drop 12 buf)
     in if parsePacket p \<le> 0 then None
        else if parsePacket p > int (APQE_FRAGMENT_HEADER_BYTES + APQE_FRAGMENT_PAYLOAD_BYTES) then None
        else if readLength p < int APQE_FRAGMENT_HEADER_BYTES then None
        else if apqe_getU16 buf \<noteq> APQE_FRAGMENT_MAGIC \<or> buf ! 2 \<noteq> PROTOCOL_VERSION then None
        else if expectedType \<noteq> 0xff \<and> type \<noteq> expectedType then None
        else if expectedSession \<noteq> 0 \<and> session \<noteq> expectedSession then None
        else if count = 0 \<or> unat count > APQE_MAX_FRAGMENTS \<or> index \<ge> count \<or>
                unat payloadLength > APQE_FRAGMENT_PAYLOAD_BYTES \<or>
                int (APQE_FRAGMENT_HEADER_BYTES + unat payloadLength) \<noteq> readLength p \<or>
                totalLength > outputCapacity
        then None
        else Some \<lparr>d_type = type, d_session = session, d_totalLength = totalLength,
               d_fragmentIndex = index, d_fragmentCount = count,
               d_payloadLength = payloadLength, d_sourceIp = remoteIP p,
               d_sourcePort = remotePort p, d_datagramBytes = of_int (readLength p)\<rparr>)"

definition apqe_rx_init :: "bytes \<Rightarrow> rx_state" where
  "apqe_rx_init output =
    \<lparr>receivedFragments = replicate APQE_MAX_FRAGMENTS False, activeType = 0, activeSession = 0,
     activeLength = 0, activeCount = 0, completed = 0, active = False, framedBytes = 0,
     activeIp = 0, activePort = 0, outputBuffer = output\<rparr>"

definition apqe_activate :: "datagram \<Rightarrow> rx_state \<Rightarrow> rx_state" where
  "apqe_activate d s =
    s\<lparr>active := True, activeType := d_type d, activeSession := d_session d,
      activeLength := d_totalLength d, activeCount := d_fragmentCount d,
      activeIp := d_sourceIp d, activePort := d_sourcePort d\<rparr>"

definition apqe_storeFragment :: "bytes \<Rightarrow> datagram \<Rightarrow> rx_state \<Rightarrow> rx_state" where
  "apqe_storeFragment payload d s =
    s\<lparr>outputBuffer := write_at (unat (d_fragmentIndex d) * APQE_FRAGMENT_PAYLOAD_BYTES) payload (outputBuffer s),
      receivedFragments := (receivedFragments s)[unat (d_fragmentIndex d) := True],
      completed := completed s + 1,
      framedBytes := framedBytes s + d_datagramBytes d\<rparr>"

definition apqe_acceptFragment :: "poll \<Rightarrow> datagram \<Rightarrow> rx_state \<Rightarrow> rx_step" where
  "apqe_acceptFragment p d s =
    (if d_type d \<noteq> activeType s \<or> d_session d \<noteq> activeSession s \<or>
        d_totalLength d \<noteq> activeLength s \<or> d_fragmentCount d \<noteq> activeCount s \<or>
        d_sourceIp d \<noteq> activeIp s \<or> d_sourcePort d \<noteq> activePort s
     then Continue s
     else if unat (d_fragmentIndex d) * APQE_FRAGMENT_PAYLOAD_BYTES + unat (d_payloadLength d) > unat (activeLength s)
     then Continue s
     else
       let s = (if receivedFragments s ! unat (d_fragmentIndex d) then s
                else apqe_storeFragment
                  (read_at APQE_FRAGMENT_HEADER_BYTES (unat (d_payloadLength d)) (readBuffer p)) d s)
       in if completed s = activeCount s
          then Return \<lparr>r_type = activeType s, r_session = activeSession s, r_length = activeLength s,
                 r_sourceIp = activeIp s, r_sourcePort = activePort s, r_framedBytes = framedBytes s\<rparr> s
          else Continue s)"

definition apqe_receiveIteration :: "u8 \<Rightarrow> u32 \<Rightarrow> u16 \<Rightarrow> poll \<Rightarrow> rx_state \<Rightarrow> rx_step" where
  "apqe_receiveIteration expectedType expectedSession outputCapacity p s =
    (case apqe_readDatagram expectedType expectedSession outputCapacity p of
       None \<Rightarrow> Continue s
     | Some d \<Rightarrow> apqe_acceptFragment p d (if active s then s else apqe_activate d s))"

fun apqe_receiveLoop ::
  "u8 \<Rightarrow> u32 \<Rightarrow> u16 \<Rightarrow> u32 \<Rightarrow> u32 \<Rightarrow> poll list \<Rightarrow> rx_state \<Rightarrow> (ReceivedPacket option \<times> bytes) option" where
  "apqe_receiveLoop expectedType expectedSession outputCapacity timeoutMs start [] s = None"
| "apqe_receiveLoop expectedType expectedSession outputCapacity timeoutMs start (p # ps) s =
    (if pollMillis p - start < timeoutMs then
       (case apqe_receiveIteration expectedType expectedSession outputCapacity p s of
          Continue s' \<Rightarrow> apqe_receiveLoop expectedType expectedSession outputCapacity timeoutMs start ps s'
        | Return r s' \<Rightarrow> Some (Some r, outputBuffer s'))
     else Some (None, outputBuffer s))"

definition apqe_receiveMessage ::
  "u8 \<Rightarrow> u32 \<Rightarrow> bytes \<Rightarrow> u16 \<Rightarrow> u32 \<Rightarrow> u32 \<Rightarrow> poll list \<Rightarrow> (ReceivedPacket option \<times> bytes) option" where
  "apqe_receiveMessage expectedType expectedSession output outputCapacity timeoutMs start polls =
    apqe_receiveLoop expectedType expectedSession outputCapacity timeoutMs start polls (apqe_rx_init output)"

fun apqe_discardPending :: "int list \<Rightarrow> int list" where
  "apqe_discardPending [] = []"
| "apqe_discardPending (packetSize # queue) =
    (if packetSize > 0 then apqe_discardPending queue else packetSize # queue)"

section \<open>Refinement\<close>

text \<open>The same datagram as the other transport would have framed it, and the translated poll.\<close>

definition retag :: "u16 \<Rightarrow> bytes \<Rightarrow> bytes" where
  "retag magic dg = putU16 magic @ drop 2 dg"

definition as_proposed :: "u8 \<Rightarrow> u32 \<Rightarrow> u16 \<Rightarrow> poll \<Rightarrow> poll" where
  "as_proposed et es cap p =
    (if apqe_readDatagram et es cap p = None then p\<lparr>parsePacket := 0\<rparr>
     else p\<lparr>readBuffer := retag FRAGMENT_MAGIC (readBuffer p)\<rparr>)"

text \<open>The locals with eight instead of five flags.\<close>

definition widen :: "rx_state \<Rightarrow> rx_state" where
  "widen s = s\<lparr>receivedFragments := receivedFragments s @ replicate 3 False\<rparr>"

definition apqe_rx_ok :: "rx_state \<Rightarrow> bool" where
  "apqe_rx_ok s \<longleftrightarrow> length (receivedFragments s) = APQE_MAX_FRAGMENTS \<and> (\<not> active s \<longrightarrow> framedBytes s = 0)"

definition widen_step :: "rx_step \<Rightarrow> rx_step" where
  "widen_step r = (case r of Continue s \<Rightarrow> Continue (widen s) | Return packet s \<Rightarrow> Return packet (widen s))"

definition step_ok :: "rx_step \<Rightarrow> bool" where
  "step_ok r = (case r of Continue s \<Rightarrow> apqe_rx_ok s | Return packet s \<Rightarrow> True)"

lemma retag_fields:
  "length buf \<ge> 14 \<Longrightarrow> getU16 (retag m buf) = m"
  "length buf \<ge> 14 \<Longrightarrow> 2 \<le> i \<Longrightarrow> retag m buf ! i = buf ! i"
  "2 \<le> k \<Longrightarrow> drop k (retag m buf) = drop k buf"
  "2 \<le> k \<Longrightarrow> read_at k n (retag m buf) = read_at k n buf"
  by (auto simp: retag_def nth_append read_at_def simp flip: Suc_diff_le simp: numeral_eq_Suc)

lemma as_proposed_None:
  "apqe_readDatagram et es cap p = None \<Longrightarrow> readOneDatagram (as_proposed et es cap p) = None"
  by (simp add: as_proposed_def readOneDatagram_def)

lemma as_proposed_Some:
  assumes "apqe_readDatagram et es cap p = Some d" and "length (readBuffer p) = FRAGMENT_HEADER_BYTES + FRAGMENT_PAYLOAD_BYTES"
    and "unat cap \<le> MAX_PROTOCOL_MESSAGE_BYTES"
  shows "readOneDatagram (as_proposed et es cap p) = Some d"
    and "(et = 0xff \<or> d_type d = et) \<and> (es = 0 \<or> d_session d = es) \<and> d_totalLength d \<le> cap"
    and "unat (d_fragmentIndex d) < APQE_MAX_FRAGMENTS"
proof -
  have small: "unat (getU16 (drop 8 (readBuffer p))) \<le> MAX_PROTOCOL_MESSAGE_BYTES" if "getU16 (drop 8 (readBuffer p)) \<le> cap"
    using that assms(3) by (simp add: word_le_nat_alt)
  show "readOneDatagram (as_proposed et es cap p) = Some d"
    using assms small by (auto simp: as_proposed_def readOneDatagram_def retag_fields
      apqe_readDatagram_def Let_def not_le not_less split: if_splits)
  show "(et = 0xff \<or> d_type d = et) \<and> (es = 0 \<or> d_session d = es) \<and> d_totalLength d \<le> cap"
    using assms(1) by (auto simp: apqe_readDatagram_def Let_def not_le not_less split: if_splits)
  show "unat (d_fragmentIndex d) < APQE_MAX_FRAGMENTS"
    using assms(1) by (auto simp: apqe_readDatagram_def Let_def not_le not_less word_less_nat_alt word_le_nat_alt split: if_splits)
qed

lemma widen_fields [simp]:
  "activeType (widen s) = activeType s" "activeSession (widen s) = activeSession s" "activeLength (widen s) = activeLength s"
  "activeCount (widen s) = activeCount s" "completed (widen s) = completed s" "active (widen s) = active s"
  "framedBytes (widen s) = framedBytes s" "activeIp (widen s) = activeIp s" "activePort (widen s) = activePort s"
  "outputBuffer (widen s) = outputBuffer s"
  by (simp_all add: widen_def)

lemma accept_refines:
  assumes "apqe_rx_ok s" and "unat (d_fragmentIndex d) < APQE_MAX_FRAGMENTS"
    and "read_at FRAGMENT_HEADER_BYTES (unat (d_payloadLength d)) (readBuffer q) =
      read_at FRAGMENT_HEADER_BYTES (unat (d_payloadLength d)) (readBuffer p)" and "active s"
  shows "acceptFragment q d (widen s) = widen_step (apqe_acceptFragment p d s)"
    and "step_ok (apqe_acceptFragment p d s)"
proof -
  have flag: "receivedFragments (widen s) ! unat (d_fragmentIndex d) = receivedFragments s ! unat (d_fragmentIndex d)"
    using assms(1,2) by (simp add: apqe_rx_ok_def widen_def nth_append)
  have store: "storeFragment payload d (widen s) = widen (apqe_storeFragment payload d s)" for payload
    using assms(1,2) by (simp add: apqe_rx_ok_def storeFragment_def apqe_storeFragment_def widen_def list_update_append)
  show "acceptFragment q d (widen s) = widen_step (apqe_acceptFragment p d s)"
    unfolding acceptFragment_def apqe_acceptFragment_def widen_fields flag assms(3) store
    by (auto simp: widen_step_def finishOrContinue_def Let_def)
  show "step_ok (apqe_acceptFragment p d s)"
    using assms(1,2,4) by (auto simp: step_ok_def apqe_acceptFragment_def apqe_rx_ok_def apqe_storeFragment_def Let_def)
qed

lemma activate_refines:
  "apqe_rx_ok s \<Longrightarrow> \<not> active s \<Longrightarrow> activate d (widen s) = widen (apqe_activate d s)"
  "apqe_rx_ok s \<Longrightarrow> apqe_rx_ok (apqe_activate d s)" "apqe_rx_ok s \<Longrightarrow> active (apqe_activate d s)"
  by (simp_all add: apqe_rx_ok_def activate_def apqe_activate_def widen_def)

lemma iteration_refines:
  assumes "apqe_rx_ok s" and "length (readBuffer p) = FRAGMENT_HEADER_BYTES + FRAGMENT_PAYLOAD_BYTES"
    and "unat cap \<le> MAX_PROTOCOL_MESSAGE_BYTES"
  shows "receiveIteration et es cap (as_proposed et es cap p) (widen s) = widen_step (apqe_receiveIteration et es cap p s)"
    and "step_ok (apqe_receiveIteration et es cap p s)"
proof -
  consider (none) "apqe_readDatagram et es cap p = None" | (some) d where "apqe_readDatagram et es cap p = Some d" by blast
  then have "receiveIteration et es cap (as_proposed et es cap p) (widen s) = widen_step (apqe_receiveIteration et es cap p s) \<and>
    step_ok (apqe_receiveIteration et es cap p s)"
  proof cases
    case none
    then show ?thesis using assms(1)
      by (simp add: receiveIteration_def apqe_receiveIteration_def as_proposed_None widen_step_def step_ok_def)
  next
    case (some d)
    note read = as_proposed_Some [OF some assms(2,3)]
    let ?s = "if active s then s else apqe_activate d s"
    have "read_at FRAGMENT_HEADER_BYTES n (readBuffer (as_proposed et es cap p)) = read_at FRAGMENT_HEADER_BYTES n (readBuffer p)" for n
      by (simp add: as_proposed_def retag_fields)
    note accept = accept_refines [OF _ read(3) this, of ?s]
    have "receiveIteration et es cap (as_proposed et es cap p) (widen s) = acceptFragment (as_proposed et es cap p) d (widen ?s)"
      using read(1,2) activate_refines(1) [OF assms(1)] by (auto simp: receiveIteration_def not_less)
    then show ?thesis
      using accept activate_refines [OF assms(1)] assms(1) some by (simp add: apqe_receiveIteration_def)
  qed
  then show "receiveIteration et es cap (as_proposed et es cap p) (widen s) = widen_step (apqe_receiveIteration et es cap p s)"
    and "step_ok (apqe_receiveIteration et es cap p s)" by blast+
qed

lemma loop_refines:
  assumes "unat cap \<le> MAX_PROTOCOL_MESSAGE_BYTES" and "buffers_ok (set polls)" and "apqe_rx_ok s"
  shows "apqe_receiveLoop et es cap timeoutMs start polls s =
    receiveLoop et es cap timeoutMs start (map (as_proposed et es cap) polls) (widen s)"
  using assms(2,3)
proof (induction polls arbitrary: s)
  case (Cons p ps)
  have time: "pollMillis (as_proposed et es cap p) = pollMillis p" by (simp add: as_proposed_def)
  have buf: "length (readBuffer p) = FRAGMENT_HEADER_BYTES + FRAGMENT_PAYLOAD_BYTES" using Cons.prems(1) by simp
  from iteration_refines [OF Cons.prems(2) buf assms(1), of et es] Cons.prems(1) Cons.IH show ?case
    by (cases "apqe_receiveIteration et es cap p s") (auto simp: time widen_step_def step_ok_def)
qed simp

lemma receive_refines:
  assumes "unat cap \<le> MAX_PROTOCOL_MESSAGE_BYTES" and "buffers_ok (set polls)"
  shows "apqe_receiveMessage et es out cap timeoutMs start polls =
    receiveMessage et es out cap timeoutMs start (map (as_proposed et es cap) polls)"
proof -
  have "apqe_rx_ok (apqe_rx_init out)" "widen (apqe_rx_init out) = rx_init out"
    by (simp_all add: apqe_rx_ok_def apqe_rx_init_def rx_init_def widen_def numeral_eq_Suc)
  then show ?thesis
    using loop_refines [OF assms] by (simp add: apqe_receiveMessage_def receiveMessage_def)
qed

section \<open>Delivery\<close>

text \<open>Fragment \<open>i\<close> of a message: the one of the other transport with the magic number replaced.\<close>

definition apqe_fragment :: "u8 \<Rightarrow> u32 \<Rightarrow> bytes \<Rightarrow> nat \<Rightarrow> bytes" where
  "apqe_fragment type session data i =
    apqe_fragmentHeader type session (of_nat (length data)) (of_nat i) (of_nat (fragment_count (length data)))
      (of_nat (payload_length (length data) i)) @
    read_at (i * APQE_FRAGMENT_PAYLOAD_BYTES) (payload_length (length data) i) data"

lemma apqe_fragment_retag: "apqe_fragment type session data i = retag APQE_FRAGMENT_MAGIC (fragment type session data i)"
  by (simp add: apqe_fragment_def fragment_def retag_def apqe_fragmentHeader_def fragmentHeader_def)

lemma retag_retag: "retag m (retag m' dg) = retag m dg"
  by (simp add: retag_def)

lemma retag_fragment: "retag FRAGMENT_MAGIC (fragment type session data i) = fragment type session data i"
  by (simp add: fragment_def retag_def fragmentHeader_def)

lemma retag_append: "2 \<le> length xs \<Longrightarrow> retag m (xs @ ys) = retag m xs @ ys"
  by (simp add: retag_def)

lemma length_retag: "2 \<le> length dg \<Longrightarrow> length (retag m dg) = length dg"
  by (simp add: retag_def)

lemma apqe_readDatagram_of:
  assumes "readOneDatagram (p\<lparr>readBuffer := retag FRAGMENT_MAGIC (readBuffer p)\<rparr>) = Some d"
    and "getU16 (readBuffer p) = APQE_FRAGMENT_MAGIC" and "14 \<le> length (readBuffer p)"
    and "passes et es (d_type d) (d_session d)" and "d_totalLength d \<le> cap" and "unat (d_fragmentCount d) \<le> APQE_MAX_FRAGMENTS"
  shows "apqe_readDatagram et es cap p = Some d"
proof -
  have d: "readOneDatagram (p\<lparr>readBuffer := retag FRAGMENT_MAGIC (readBuffer p)\<rparr>) = Some d" by (rule assms(1))
  show ?thesis
    using d assms(2,4-6)
    unfolding readOneDatagram_def apqe_readDatagram_def Let_def passes_def
    by (simp add: retag_fields assms(3) split: if_split_asm) (auto simp: not_le not_less)
qed

lemma apqe_delivered:
  assumes "delivers src port (apqe_fragment type session data i) p" and "i < fragment_count (length data)"
    and "length data \<le> APQE_MAX_MESSAGE_BYTES" and "length data \<le> unat cap" and "passes et es type session"
  shows "delivers src port (fragment type session data i) (as_proposed et es cap p)"
proof -
  have len: "length (fragment type session data i) = FRAGMENT_HEADER_BYTES + payload_length (length data) i"
    using assms(2) by (rule fragment_length)
  let ?dg = "apqe_fragment type session data i" and ?p = "p\<lparr>readBuffer := retag FRAGMENT_MAGIC (readBuffer p)\<rparr>"
  have lens: "length ?dg = length (fragment type session data i)" "14 \<le> length ?dg"
    using len by (simp_all add: apqe_fragment_retag length_retag)
  obtain rest where buf: "readBuffer p = ?dg @ rest"
    using assms(1) by (metis append_take_drop_id delivers_def)
  have magic: "getU16 (readBuffer p) = APQE_FRAGMENT_MAGIC"
    unfolding buf by (simp add: apqe_fragment_retag retag_def)
  have "retag FRAGMENT_MAGIC (readBuffer p) = fragment type session data i @ rest"
    using lens(2) unfolding buf by (simp only: retag_append retag_retag retag_fragment apqe_fragment_retag)
  then have dl: "delivers src port (fragment type session data i) ?p"
    using assms(1) lens buf by (simp add: delivers_def)
  have small: "length data \<le> MAX_PROTOCOL_MESSAGE_BYTES" using assms(3) by simp
  note read = read_fragment(1) [OF small assms(2) dl]
  have "unat (of_nat (fragment_count (length data)) :: u8) \<le> APQE_MAX_FRAGMENTS"
    using assms(3) by (subst unat_u8_small) auto
  moreover have "(of_nat (length data) :: u16) \<le> cap" using assms(3,4) by (simp add: word_le_nat_alt unat_u16_small)
  ultimately have "apqe_readDatagram et es cap p = Some (fragment_datagram type session (length data) src port i)"
    using assms(5) lens buf by (intro apqe_readDatagram_of [OF read magic]) (auto simp: fragment_datagram_def)
  then show ?thesis using dl by (simp add: as_proposed_def)
qed

text \<open>
  \<open>apqe_hears\<close>: before the timeout every fragment of the message is observed, and nothing
  else that the receiver does not drop at once.
\<close>

definition apqe_hears ::
  "u32 \<Rightarrow> poll list \<Rightarrow> u32 \<Rightarrow> u8 \<Rightarrow> u32 \<Rightarrow> u16 \<Rightarrow> u32 \<Rightarrow> bytes \<Rightarrow> u32 \<Rightarrow> u16 \<Rightarrow> bool" where
  "apqe_hears start polls timeoutMs type wanted cap session msg ip port \<longleftrightarrow>
    (\<exists>ps rest. polls = ps @ rest \<and> buffers_ok (set ps) \<and>
      (\<forall>p \<in> set ps. pollMillis p - start < timeoutMs \<and>
        (apqe_readDatagram type wanted cap p = None \<or>
         (\<exists>i < fragment_count (length msg). delivers ip port (apqe_fragment type session msg i) p))) \<and>
      (\<forall>i < fragment_count (length msg). \<exists>p \<in> set ps. delivers ip port (apqe_fragment type session msg i) p))"

definition apqe_framed :: "bytes \<Rightarrow> u32" where
  "apqe_framed msg = of_nat (length msg + APQE_FRAGMENT_HEADER_BYTES * fragment_count (length msg))"

text \<open>One iteration as a step of \<open>waiting\<close>.\<close>

definition apqe_rx_iteration ::
  "u8 \<Rightarrow> u32 \<Rightarrow> u16 \<Rightarrow> poll \<Rightarrow> rx_state \<Rightarrow> rx_state + ReceivedPacket option \<times> bytes" where
  "apqe_rx_iteration et es cap p s =
    (case apqe_receiveIteration et es cap p s of Continue s' \<Rightarrow> Inl s' | Return r s' \<Rightarrow> Inr (Some r, outputBuffer s'))"

interpretation apqe_rx_wait: waiting "\<lambda>p. \<not> pollMillis p - start < timeoutMs" "apqe_rx_iteration et es cap"
  "\<lambda>s. (None, outputBuffer s)" "apqe_receiveLoop et es cap timeoutMs start"
  for et es cap timeoutMs start
  by unfold_locales (simp_all add: apqe_rx_iteration_def split: rx_step.split)

lemma apqe_heard:
  assumes "apqe_hears start polls timeoutMs type wanted cap session msg ip port" and "wanted = 0 \<or> wanted = session"
    and "0 < length msg" and "length msg \<le> unat cap" and "unat cap \<le> length data" and "unat cap \<le> APQE_MAX_MESSAGE_BYTES"
  obtains data' where
    "apqe_receiveMessage type wanted data cap timeoutMs start polls =
      Some (Some \<lparr>r_type = type, r_session = session, r_length = of_nat (length msg), r_sourceIp = ip, r_sourcePort = port,
        r_framedBytes = apqe_framed msg\<rparr>, data')"
    and "take (length msg) data' = msg" and "length data' = length data"
proof -
  let ?t = "as_proposed type wanted cap"
  from assms(1) obtain ps rest where ps: "polls = ps @ rest" "buffers_ok (set ps)"
    and time: "\<And>p. p \<in> set ps \<Longrightarrow> pollMillis p - start < timeoutMs"
    and only: "\<And>p. p \<in> set ps \<Longrightarrow> apqe_readDatagram type wanted cap p = None \<or>
        (\<exists>i < fragment_count (length msg). delivers ip port (apqe_fragment type session msg i) p)"
    and all: "\<And>i. i < fragment_count (length msg) \<Longrightarrow> \<exists>p \<in> set ps. delivers ip port (apqe_fragment type session msg i) p"
    by (auto simp: apqe_hears_def)
  have pass: "passes type wanted type session" using assms(2) by (auto simp: passes_def)
  have small: "length msg \<le> APQE_MAX_MESSAGE_BYTES" using assms(4,6) by simp
  note del = apqe_delivered [OF _ _ small assms(4) pass]
  have bufs: "buffers_ok (set (map ?t ps))" using ps(2) by (auto simp: as_proposed_def length_retag)
  have "quiet type wanted (?t p) \<or> (\<exists>i < fragment_count (length msg). delivers ip port (fragment type session msg i) (?t p))"
    if "p \<in> set ps" for p
    using only [OF that] del by (auto simp: quiet_def dest: as_proposed_None)
  then have tr: "traffic type wanted type session msg ip port (map ?t ps)" by (simp add: traffic_def)
  have t: "\<forall>q \<in> set (map ?t ps). pollMillis q - start < timeoutMs" using time by (auto simp: as_proposed_def)
  have a: "\<forall>i < fragment_count (length msg). \<exists>q \<in> set (map ?t ps). delivers ip port (fragment type session msg i) q"
    using all del by fastforce
  have "length msg \<le> MAX_PROTOCOL_MESSAGE_BYTES" using small by simp
  from reassembled [OF this assms(3-5) pass bufs tr t a, of "[]"] obtain data' where
    run: "receiveMessage type wanted data cap timeoutMs start (map ?t ps) =
      Some (Some \<lparr>r_type = type, r_session = session, r_length = of_nat (length msg), r_sourceIp = ip, r_sourcePort = port,
        r_framedBytes = apqe_framed msg\<rparr>, data')"
    and data': "take (length msg) data' = msg" "drop (length msg) data' = drop (length msg) data"
    by (auto simp: apqe_framed_def)
  have "unat cap \<le> MAX_PROTOCOL_MESSAGE_BYTES" using assms(6) by simp
  from receive_refines [OF this ps(2)] run have
    "apqe_receiveMessage type wanted data cap timeoutMs start ps =
      Some (Some \<lparr>r_type = type, r_session = session, r_length = of_nat (length msg), r_sourceIp = ip, r_sourcePort = port,
        r_framedBytes = apqe_framed msg\<rparr>, data')" by simp
  then have "apqe_receiveMessage type wanted data cap timeoutMs start polls =
      Some (Some \<lparr>r_type = type, r_session = session, r_length = of_nat (length msg), r_sourceIp = ip, r_sourcePort = port,
        r_framedBytes = apqe_framed msg\<rparr>, data')"
    unfolding ps(1) by (simp add: apqe_receiveMessage_def apqe_rx_wait.extends)
  moreover have "length data' = length data"
    using data' assms(4,5) by (metis append_take_drop_id length_append length_drop le_add_diff_inverse le_trans)
  ultimately show ?thesis using that data'(1) by blast
qed

text \<open>The sender, on a socket that accepts every datagram.\<close>

lemma apqe_sendFragments_accepted:
  assumes "accepting_net net (length data)" and "len = of_nat (length data)" and "length data \<le> APQE_MAX_MESSAGE_BYTES"
  shows "apqe_sendFragments net type session data len (of_nat (fragment_count (length data))) idxs framed =
    (True, framed + of_nat (\<Sum>i\<leftarrow>idxs. APQE_FRAGMENT_HEADER_BYTES + payload_length (length data) i),
     map (apqe_fragment type session data) idxs)"
proof (induction idxs arbitrary: framed)
  case (Cons i idxs)
  have l: "unat len = length data" using assms(2,3) by (simp add: unat_u16_small)
  have "unat (of_nat (payload_length (length data) i) :: u16) = payload_length (length data) i"
    using payload_length_le [of "length data" i] by (simp add: unat_u16_small)
  then show ?case
    using assms(1) Cons.IH by (simp add: Let_def payload_length_def [symmetric] accepting_net_def l [unfolded assms(2)] apqe_fragment_def assms(2) ac_simps)
qed simp

lemma apqe_sent:
  assumes "accepting_net net (length data)" and "0 < length data" and "length data \<le> APQE_MAX_MESSAGE_BYTES"
  shows "apqe_sendMessage net type session data (of_nat (length data)) framed0 =
    (True, apqe_framed data, map (apqe_fragment type session data) [0..<fragment_count (length data)])"
proof -
  let ?c = "fragment_count (length data)"
  have l: "unat (of_nat (length data) :: u16) = length data" using assms(3) by (simp add: unat_u16_small)
  have "0 < ?c" "?c \<le> APQE_MAX_FRAGMENTS" using assms(2,3) fragment_count_covers [of "length data"] by linarith+
  then have c: "unat (of_nat ?c :: u8) = ?c" "0 < ?c" "?c \<le> APQE_MAX_FRAGMENTS" by (auto simp: unat_u8_small)
  have nz: "(of_nat (length data) :: u16) \<noteq> 0" "(of_nat ?c :: u8) \<noteq> 0"
    using l c assms(2) by (metis less_irrefl unat_0)+
  have sum: "(\<Sum>i\<leftarrow>[0..<?c]. APQE_FRAGMENT_HEADER_BYTES + payload_length (length data) i) =
      length data + APQE_FRAGMENT_HEADER_BYTES * ?c"
    unfolding sum_list_header payload_sum using fragment_count_covers [of "length data"] by simp
  note run = apqe_sendFragments_accepted [OF assms(1) refl assms(3), of type session "[0..<?c]" 0]
  show ?thesis
    unfolding apqe_sendMessage_def Let_def l c(1)
    using nz c assms(3) run [unfolded sum] by (simp add: apqe_framed_def)
qed

end
