(* ===== verification/ApqeProtocol.thy ===== *)
theory ApqeProtocol
  imports ApqeFabric ApqeUdp
begin

text \<open>
  \<open>ApqeProtocol.h/.cpp\<close>, first part: the object (\<open>apqe_node\<close>), the credentials, enrolment and
  boot, the masking of pairs and the measurement record RESULT. The session handlers are
  in \<open>ApqeSessions\<close>. Serial output, delays and memory statistics are left out.
\<close>

section \<open>The object\<close>

text \<open>\<open>q_wire\<close> is not a member: it records the destination and the datagrams of every message sent.\<close>

record apqe_node =
  q_config :: apqe_NodeConfig
  q_puf :: SoftwarePuf
  q_fabric :: FabricState
  q_identityHash :: bytes
  q_peerIdentityHash :: bytes
  q_publicKey :: bytes
  q_secretKey :: bytes
  q_m1 :: bytes
  q_m2 :: bytes
  q_m3 :: bytes
  q_result :: bytes
  q_own :: FabricCredential
  q_peer :: FabricCredential
  q_initialized :: bool
  q_completed :: bool
  q_wire :: "(u32 \<times> u16 \<times> bytes list) list"

definition ApqeProtocol_ctor :: "apqe_NodeConfig \<Rightarrow> apqe_node" where
  "ApqeProtocol_ctor cfg =
    \<lparr>q_config = cfg, q_puf = SoftwarePuf_ctor, q_fabric = FabricUdpClient_ctor,
     q_identityHash = zeros ID_BYTES, q_peerIdentityHash = zeros ID_BYTES,
     q_publicKey = zeros KYBER_PUBLIC_KEY_BYTES, q_secretKey = zeros KYBER_SECRET_KEY_BYTES,
     q_m1 = zeros APQE_M1_BYTES, q_m2 = zeros APQE_M2_BYTES, q_m3 = zeros APQE_M3_BYTES,
     q_result = zeros APQE_RESULT_BYTES, q_own = FabricCredential_zero, q_peer = FabricCredential_zero,
     q_initialized = False, q_completed = False, q_wire = []\<rparr>"

section \<open>Credentials\<close>

text \<open>The characters of \<open>APQE-CHAL\<close>.\<close>

definition chal_label :: bytes where
  "chal_label = [0x41, 0x50, 0x51, 0x45, 0x2d, 0x43, 0x48, 0x41, 0x4c]"

definition deriveChallenge :: "wolf \<Rightarrow> u16 \<Rightarrow> 'a apqe_node_scheme \<Rightarrow> bytes res" where
  "deriveChallenge W slot n = sha256Parts W [chal_label, n_deviceId (q_config n), apqe_putU16 slot]"

definition buildCredential :: "wolf \<Rightarrow> u16 \<Rightarrow> 'a apqe_node_scheme \<Rightarrow> FabricCredential res" where
  "buildCredential W slot n =
    bindE (deriveChallenge W slot n)
      (\<lambda>challenge. bindE (reversibleMap W (q_puf n) (q_secretKey n) challenge)
        (\<lambda>tid.
          let response = commutativeMap (q_puf n) challenge
          in bindE (apqe_sha256 W challenge)
            (\<lambda>challengeHash.
              let w = xorBytes response challengeHash PUF_BYTES
              in bindE (sha256Parts W [q_identityHash n, w, q_publicKey n])
                (\<lambda>verifyHash. Inr \<lparr>fc_identityHash = q_identityHash n, fc_tid = tid, fc_publicKey = q_publicKey n,
                   fc_w = w, fc_verifyHash = verifyHash\<rparr>))))"

definition verifyCredential :: "wolf \<Rightarrow> FabricCredential \<Rightarrow> bool" where
  "verifyCredential W c =
    (case sha256Parts W [fc_identityHash c, fc_w c, fc_publicKey c] of
       Inl _ \<Rightarrow> False
     | Inr expected \<Rightarrow> apqe_constantTimeEqual expected (fc_verifyHash c) HASH_BYTES)"

section \<open>Boot\<close>

record apqe_boot =
  ab_wifiStart :: u32
  ab_wifiPolls :: "(bool \<times> u32) list"
  ab_wifiConnected :: bool
  ab_fabricUdp :: int
  ab_directUdp :: int
  ab_ping :: "fabric_attempt list"
  ab_puts :: "fabric_attempt list list"

text \<open>The wait for the access point, over polls of its status and the clock: true when the loop has ended.\<close>

fun apqe_waitWifi :: "u32 \<Rightarrow> (bool \<times> u32) list \<Rightarrow> bool" where
  "apqe_waitWifi start [] = False"
| "apqe_waitWifi start ((connected, now) # polls) =
    (if \<not> connected \<and> now - start < 30000 then apqe_waitWifi start polls else True)"

definition apqe_connectWifi :: "apqe_boot \<Rightarrow> apqe_node stage" where
  "apqe_connectWifi b n =
    (if \<not> apqe_waitWifi (ab_wifiStart b) (ab_wifiPolls b) then (None, n) else (Some (ab_wifiConnected b), n))"

definition startPuf :: "wolf \<Rightarrow> apqe_node stage" where
  "startPuf W n =
    (let cfg = q_config n
     in case SoftwarePuf_begin W (n_emulatedSramRaw cfg) (n_emulatedSramHelper cfg) (n_emulatedBsPufSecret cfg) (q_puf n) of
          (ok, p) \<Rightarrow> (Some ok, n\<lparr>q_puf := p\<rparr>))"

definition hashIdentities :: "wolf \<Rightarrow> apqe_node stage" where
  "hashIdentities W n =
    (case apqe_sha256 W (n_deviceId (q_config n)) of
       Inl _ \<Rightarrow> (Some False, n)
     | Inr own \<Rightarrow>
         let n = n\<lparr>q_identityHash := own\<rparr>
         in case apqe_sha256 W (n_peerId (q_config n)) of
              Inl _ \<Rightarrow> (Some False, n)
            | Inr peer \<Rightarrow> (Some True, n\<lparr>q_peerIdentityHash := peer\<rparr>))"

definition startFabric :: "apqe_boot \<Rightarrow> apqe_node stage" where
  "startFabric b n =
    (case FabricUdpClient_begin (ab_fabricUdp b) (n_gatewayIp (q_config n)) (n_gatewayPort (q_config n)) (q_fabric n) of
       (ok, f) \<Rightarrow> (Some ok, n\<lparr>q_fabric := f\<rparr>))"

definition startDirect :: "apqe_boot \<Rightarrow> apqe_node stage" where
  "startDirect b n = guard (ab_directUdp b = 1) n"

definition pingFabric :: "wolf \<Rightarrow> apqe_boot \<Rightarrow> apqe_node stage" where
  "pingFabric W b n =
    (case fabric_ping W 0 (ab_ping b) (q_fabric n) of
       None \<Rightarrow> (None, n)
     | Some (ok, us, f) \<Rightarrow> (Some ok, n\<lparr>q_fabric := f\<rparr>))"

definition deriveKeys :: "wolf \<Rightarrow> kyber \<Rightarrow> apqe_node stage" where
  "deriveKeys W K n =
    (case reconstructKyberSeed W (q_puf n) of
       Inl _ \<Rightarrow> (Some False, n)
     | Inr seed \<Rightarrow>
         (case keypairDeterministic K seed of
            (ok, publicKey, secretKey) \<Rightarrow> (Some ok, n\<lparr>q_publicKey := publicKey, q_secretKey := secretKey\<rparr>)))"

text \<open>
  The loop over the slots. The 16-bit counter is compared with the 32-bit number of
  sessions; every round consumes the observations of one exchange.
\<close>

fun enrollSlots :: "wolf \<Rightarrow> u16 \<Rightarrow> fabric_attempt list list \<Rightarrow> apqe_node stage" where
  "enrollSlots W slot [] n =
    (if ucast slot < n_numberOfSessions (q_config n) then
       (case buildCredential W slot n of Inl _ \<Rightarrow> (Some False, n) | Inr _ \<Rightarrow> (None, n))
     else (Some True, n))"
| "enrollSlots W slot (net # nets) n =
    (if ucast slot < n_numberOfSessions (q_config n) then
       (case buildCredential W slot n of
          Inl _ \<Rightarrow> (Some False, n)
        | Inr credential \<Rightarrow>
            (case putCredential W slot credential 0 net (q_fabric n) of
               None \<Rightarrow> (None, n)
             | Some (ok, us, f) \<Rightarrow>
                 let n = n\<lparr>q_fabric := f\<rparr>
                 in if \<not> ok then (Some False, n) else enrollSlots W (slot + 1) nets n))
     else (Some True, n))"

definition enrollCredentials :: "wolf \<Rightarrow> kyber \<Rightarrow> apqe_boot \<Rightarrow> apqe_node stage" where
  "enrollCredentials W K b = andThen (deriveKeys W K) (enrollSlots W 0 (ab_puts b))"

definition apqe_begin :: "wolf \<Rightarrow> kyber \<Rightarrow> apqe_boot \<Rightarrow> apqe_node stage" where
  "apqe_begin W K b =
    runStages [startPuf W, hashIdentities W, apqe_connectWifi b, startFabric b, startDirect b, pingFabric W b,
      enrollCredentials W K b, \<lambda>n. (Some True, n\<lparr>q_initialized := True\<rparr>)]"

section \<open>Masked pairs\<close>

definition maskPair :: "bytes \<Rightarrow> bytes \<Rightarrow> bytes \<Rightarrow> bytes" where
  "maskPair key first second = xorBytes first key HASH_BYTES @ xorBytes second key HASH_BYTES"

definition unmaskPair :: "bytes \<Rightarrow> bytes \<Rightarrow> bytes \<times> bytes" where
  "unmaskPair key inp = (xorBytes inp key HASH_BYTES, xorBytes (drop HASH_BYTES inp) key HASH_BYTES)"

lemma length_maskPair [simp]: "length (maskPair key a b) = PJ_BYTES"
  by (simp add: maskPair_def)

lemma unmask_mask: "length a = HASH_BYTES \<Longrightarrow> length b = HASH_BYTES \<Longrightarrow> unmaskPair key (maskPair key a b @ xs) = (a, b)"
  by (simp add: unmaskPair_def maskPair_def list_eq_iff_nth_eq nth_append xor.assoc)

section \<open>RESULT\<close>

definition apqe_encodeResult :: "u32 \<Rightarrow> u64 \<Rightarrow> SessionMetrics \<Rightarrow> bytes \<Rightarrow> bytes" where
  "apqe_encodeResult session protocolTime metrics sessionKeyHash =
    (let out = zeros APQE_RESULT_BYTES;
         out = out[0 := 0];
         out = write_at 1 (apqe_putU32 session) out;
         out = write_at 5 (apqe_putU64 protocolTime) out;
         out = write_at 13 (apqe_putU64 (sm_shaUs metrics)) out;
         out = write_at 21 (apqe_putU64 (sm_pufUs metrics)) out;
         out = write_at 29 (apqe_putU64 (sm_fuzzyReconstructionUs metrics)) out;
         out = write_at 37 (apqe_putU64 (sm_kyberKeygenUs metrics)) out;
         out = write_at 45 (apqe_putU64 (sm_kyberEncryptUs metrics)) out;
         out = write_at 53 (apqe_putU64 (sm_kyberDecryptUs metrics)) out;
         out = write_at 61 (apqe_putU64 (sm_fabricWallUs metrics)) out;
         out = write_at 69 (apqe_putU64 (sm_fabricPeerUs metrics)) out;
         out = write_at 77 (apqe_putU32 (sm_directAppTx metrics)) out;
         out = write_at 81 (apqe_putU32 (sm_directAppRx metrics)) out;
         out = write_at 85 (apqe_putU32 (sm_directFramedTx metrics)) out;
         out = write_at 89 (apqe_putU32 (sm_directFramedRx metrics)) out;
         out = write_at 93 (apqe_putU32 (sm_gatewayAppTx metrics)) out;
         out = write_at 97 (apqe_putU32 (sm_gatewayAppRx metrics)) out
     in write_at 101 sessionKeyHash out)"

text \<open>\<open>metrics\<close> is a fresh \<open>SessionMetrics\<close> whose \<open>confirmedUs\<close> stays as it is.\<close>

definition apqe_decodeResult :: "bytes \<Rightarrow> u32 \<Rightarrow> SessionMetrics \<Rightarrow> (u64 \<times> SessionMetrics \<times> bytes) option" where
  "apqe_decodeResult inp expectedSession metrics =
    (if inp ! 0 \<noteq> 0 \<or> apqe_getU32 (drop 1 inp) \<noteq> expectedSession then None
     else
       let protocolTime = apqe_getU64 (drop 5 inp)
       in Some (protocolTime,
            metrics\<lparr>sm_protocolUs := protocolTime, sm_shaUs := apqe_getU64 (drop 13 inp),
              sm_pufUs := apqe_getU64 (drop 21 inp), sm_fuzzyReconstructionUs := apqe_getU64 (drop 29 inp),
              sm_kyberKeygenUs := apqe_getU64 (drop 37 inp), sm_kyberEncryptUs := apqe_getU64 (drop 45 inp),
              sm_kyberDecryptUs := apqe_getU64 (drop 53 inp), sm_fabricWallUs := apqe_getU64 (drop 61 inp),
              sm_fabricPeerUs := apqe_getU64 (drop 69 inp), sm_directAppTx := apqe_getU32 (drop 77 inp),
              sm_directAppRx := apqe_getU32 (drop 81 inp), sm_directFramedTx := apqe_getU32 (drop 85 inp),
              sm_directFramedRx := apqe_getU32 (drop 89 inp), sm_gatewayAppTx := apqe_getU32 (drop 93 inp),
              sm_gatewayAppRx := apqe_getU32 (drop 97 inp)\<rparr>,
            read_at 101 HASH_BYTES inp))"

text \<open>The numbers of the CSV line that \<open>printSessionResult\<close> ends with, up to the radio and heap readings.\<close>

definition printSessionResult :: "u32 \<Rightarrow> u16 \<Rightarrow> SessionMetrics \<Rightarrow> SessionMetrics \<Rightarrow> u64 \<Rightarrow> nat list" where
  "printSessionResult session slot a b bProtocolTime =
    (let aCrypto = sm_shaUs a + sm_pufUs a + sm_fuzzyReconstructionUs a + sm_kyberKeygenUs a +
           sm_kyberEncryptUs a + sm_kyberDecryptUs a;
         bCrypto = sm_shaUs b + sm_pufUs b + sm_fuzzyReconstructionUs b + sm_kyberKeygenUs b +
           sm_kyberEncryptUs b + sm_kyberDecryptUs b;
         totalFramed = sm_directFramedTx a + sm_directFramedRx a
     in [unat session, unat slot, unat (sm_protocolUs a), unat (sm_confirmedUs a), unat bProtocolTime,
         unat aCrypto, unat bCrypto, DIRECT_APPLICATION_BYTES, unat totalFramed,
         unat (sm_gatewayAppTx a + sm_gatewayAppRx a), unat (sm_gatewayAppTx b + sm_gatewayAppRx b)])"

end
