(* ===== verification/ApqeSessions.thy ===== *)
theory ApqeSessions
  imports ApqeProtocol
begin

text \<open>
  \<open>ApqeProtocol.cpp\<close>, second part: the two session handlers and the main loop. A handler is
  a list of stages over the object extended by the handler's locals; a stage that ends with
  \<open>False\<close> is a \<open>return false\<close>, there is no cleanup. Sends are numbered 0 (M1 or M2), 1 (M3
  or RESULT), receives 0 (M2 or M3), 1 (RESULT), queries 0 and 1, and the timed sections as
  in \<open>apqe_env\<close>.
\<close>

section \<open>Locals and observations\<close>

text \<open>
  \<open>s_m\<close> is \<open>a\<close> or \<open>b\<close>. The names are the initiator's; the responder uses \<open>s_rj\<close> for \<open>ri\<close>.
\<close>

record apqe_session = apqe_node +
  s_m :: SessionMetrics
  s_received :: ReceivedPacket
  s_seed :: bytes
  s_ci :: bytes
  s_ni :: bytes
  s_ei :: bytes
  s_cj :: bytes
  s_nj :: bytes
  s_tkJ :: bytes
  s_tkJi :: bytes
  s_rj :: bytes
  s_tkI :: bytes
  s_tkIj :: bytes
  s_sessionKey :: bytes
  s_peerMetrics :: SessionMetrics
  s_peerProtocolTime :: u64

text \<open>
  \<open>ae_us\<close>: 0 reconstruction, 1 key generation, 2 and 3 checks of the credentials, 4 PUF
  inverse, 5 H1, 6 first PUF map, 7 H2, 8 challenge hash, 9 and 10 PUF maps, 11 session key, 12
  H3, 13 the whole protocol, 14 with RESULT, 20 to 23 the Kyber blocks.
\<close>

record apqe_env =
  ae_nonce :: bytes
  ae_coins :: "nat \<Rightarrow> bytes"
  ae_fabric :: "nat \<Rightarrow> fabric_attempt list"
  ae_sends :: "nat \<Rightarrow> nat \<Rightarrow> send_outcome"
  ae_recvs :: "nat \<Rightarrow> radio"
  ae_us :: "nat \<Rightarrow> u64"

definition no_packet :: ReceivedPacket where
  "no_packet = \<lparr>r_type = 0, r_session = 0, r_length = 0, r_sourceIp = 0, r_sourcePort = 0, r_framedBytes = 0\<rparr>"

definition apqe_enter :: "apqe_node \<Rightarrow> apqe_session" where
  "apqe_enter n = apqe_node.extend n
    (apqe_session.fields SessionMetrics_init no_packet (zeros HASH_BYTES) (zeros CHALLENGE_BYTES) (zeros APQE_NONCE_BYTES)
      (zeros EI_BYTES) (zeros CHALLENGE_BYTES) (zeros APQE_NONCE_BYTES) (zeros HASH_BYTES) (zeros HASH_BYTES)
      (zeros HASH_BYTES) (zeros HASH_BYTES) (zeros HASH_BYTES) (zeros HASH_BYTES) SessionMetrics_init 0)"

section \<open>Timed operations\<close>

definition addShaUs :: "u64 \<Rightarrow> apqe_session \<Rightarrow> apqe_session" where
  "addShaUs us c = c\<lparr>s_m := (s_m c)\<lparr>sm_shaUs := sm_shaUs (s_m c) + us\<rparr>\<rparr>"

definition addPufUs :: "u64 \<Rightarrow> apqe_session \<Rightarrow> apqe_session" where
  "addPufUs us c = c\<lparr>s_m := (s_m c)\<lparr>sm_pufUs := sm_pufUs (s_m c) + us\<rparr>\<rparr>"

definition timedReconstruct :: "wolf \<Rightarrow> apqe_env \<Rightarrow> apqe_session stage" where
  "timedReconstruct W e c =
    (let c = c\<lparr>s_m := (s_m c)\<lparr>sm_fuzzyReconstructionUs := sm_fuzzyReconstructionUs (s_m c) + ae_us e 0\<rparr>\<rparr>
     in case reconstructKyberSeed W (q_puf c) of
          Inl _ \<Rightarrow> (Some False, c)
        | Inr seed \<Rightarrow> (Some True, c\<lparr>s_seed := seed\<rparr>))"

definition timedKeygen :: "kyber \<Rightarrow> apqe_env \<Rightarrow> apqe_session stage" where
  "timedKeygen K e c =
    (case keypairDeterministic K (s_seed c) of
       (ok, publicKey, secretKey) \<Rightarrow>
         (Some ok, c\<lparr>q_publicKey := publicKey, q_secretKey := secretKey,
            s_m := (s_m c)\<lparr>sm_kyberKeygenUs := sm_kyberKeygenUs (s_m c) + ae_us e 1\<rparr>\<rparr>))"

text \<open>A timed hash of \<open>parts\<close>; the continuation gets the digest when the call succeeds.\<close>

definition timedShaParts ::
  "wolf \<Rightarrow> u64 \<Rightarrow> bytes list \<Rightarrow> (bytes \<Rightarrow> apqe_session \<Rightarrow> bool option \<times> apqe_session) \<Rightarrow> apqe_session stage" where
  "timedShaParts W us parts k c =
    (let c = addShaUs us c
     in case sha256Parts W parts of Inl _ \<Rightarrow> (Some False, c) | Inr out \<Rightarrow> k out c)"

definition timedVerify :: "wolf \<Rightarrow> u64 \<Rightarrow> FabricCredential \<Rightarrow> apqe_session stage" where
  "timedVerify W us credential c = (Some (verifyCredential W credential), addShaUs us c)"

definition timedPufInverse :: "wolf \<Rightarrow> u64 \<Rightarrow> bytes \<Rightarrow> (bytes \<Rightarrow> apqe_session \<Rightarrow> apqe_session) \<Rightarrow> apqe_session stage" where
  "timedPufInverse W us tid k c =
    (let c = addPufUs us c
     in case reversibleInverse W (q_puf c) (q_secretKey c) tid of
          Inl _ \<Rightarrow> (Some False, c)
        | Inr challenge \<Rightarrow> (Some True, k challenge c))"

section \<open>Queries, sending and receiving\<close>

text \<open>The four metrics a query adds to, as the client's output parameters.\<close>

definition meter_of :: "SessionMetrics \<Rightarrow> fabric_meter" where
  "meter_of m = \<lparr>fm_fabricUs = sm_fabricPeerUs m, fm_wallUs = sm_fabricWallUs m, fm_appTx = sm_gatewayAppTx m, fm_appRx = sm_gatewayAppRx m\<rparr>"

definition meter_to :: "fabric_meter \<Rightarrow> SessionMetrics \<Rightarrow> SessionMetrics" where
  "meter_to f m = m\<lparr>sm_fabricPeerUs := fm_fabricUs f, sm_fabricWallUs := fm_wallUs f, sm_gatewayAppTx := fm_appTx f, sm_gatewayAppRx := fm_appRx f\<rparr>"

text \<open>Storing the outcome of a query: the credential goes where \<open>put\<close> says.\<close>

definition storeQuery ::
  "(FabricCredential \<Rightarrow> apqe_session \<Rightarrow> apqe_session) \<Rightarrow>
   (FabricCredential option \<times> fabric_meter \<times> FabricState) option \<Rightarrow> apqe_session stage" where
  "storeQuery put res c =
    (case res of
       None \<Rightarrow> (None, c)
     | Some (credential, f, s) \<Rightarrow>
         let c = c\<lparr>q_fabric := s, s_m := meter_to f (s_m c)\<rparr>
         in case credential of None \<Rightarrow> (Some False, c) | Some record \<Rightarrow> (Some True, put record c))"

definition queryOwn :: "wolf \<Rightarrow> apqe_env \<Rightarrow> u16 \<Rightarrow> apqe_session stage" where
  "queryOwn W e slot c =
    storeQuery (\<lambda>r. q_own_update (\<lambda>_. r))
      (queryByIdentitySlot W (q_identityHash c) slot (ae_fabric e 0) (meter_of (s_m c)) (q_fabric c)) c"

definition queryPeer :: "wolf \<Rightarrow> apqe_env \<Rightarrow> u16 \<Rightarrow> apqe_session stage" where
  "queryPeer W e slot c =
    storeQuery (\<lambda>r. q_peer_update (\<lambda>_. r))
      (queryByIdentitySlot W (q_peerIdentityHash c) slot (ae_fabric e 1) (meter_of (s_m c)) (q_fabric c)) c"

definition queryTid :: "wolf \<Rightarrow> apqe_env \<Rightarrow> apqe_session stage" where
  "queryTid W e c =
    storeQuery (\<lambda>r. q_peer_update (\<lambda>_. r))
      (queryByTid W (read_at 0 TID_BYTES (s_ei c)) (ae_fabric e 0) (meter_of (s_m c)) (q_fabric c)) c"

text \<open>\<open>counted\<close>: the message counts as protocol traffic (RESULT does not).\<close>

definition apqe_send ::
  "(nat \<Rightarrow> send_outcome) \<Rightarrow> u32 \<Rightarrow> u16 \<Rightarrow> u8 \<Rightarrow> u32 \<Rightarrow> bytes \<Rightarrow> nat \<Rightarrow> bool \<Rightarrow> apqe_session stage" where
  "apqe_send net ip port type session data len counted c =
    (case apqe_sendMessage net type session (take len data) (of_nat len) 0 of
       (ok, framed, datagrams) \<Rightarrow>
         let c = c\<lparr>q_wire := q_wire c @ [(ip, port, datagrams)]\<rparr>;
             m = s_m c
         in if \<not> ok then (Some False, c)
            else if counted
            then (Some True, c\<lparr>s_m := m\<lparr>sm_directAppTx := sm_directAppTx m + of_nat len,
                    sm_directFramedTx := sm_directFramedTx m + framed\<rparr>\<rparr>)
            else (Some True, c))"

text \<open>The result carries the receive buffer after the call.\<close>

definition apqe_receive ::
  "radio \<Rightarrow> u8 \<Rightarrow> u32 \<Rightarrow> bytes \<Rightarrow> nat \<Rightarrow> bool \<Rightarrow> apqe_session \<Rightarrow> bool option \<times> bytes \<times> apqe_session" where
  "apqe_receive rx type session data len counted c =
    (case apqe_receiveMessage type session data (of_nat len) DIRECT_RECEIVE_TIMEOUT_MS (rx_start rx) (rx_polls rx) of
       None \<Rightarrow> (None, data, c)
     | Some (None, data) \<Rightarrow> (Some False, data, c)
     | Some (Some packet, data) \<Rightarrow>
         let c = c\<lparr>s_received := packet\<rparr>;
             m = s_m c
         in if unat (r_length packet) \<noteq> len then (Some False, data, c)
            else if counted
            then (Some True, data, c\<lparr>s_m := m\<lparr>sm_directAppRx := sm_directAppRx m + of_nat len,
                    sm_directFramedRx := sm_directFramedRx m + r_framedBytes packet\<rparr>\<rparr>)
            else (Some True, data, c))"

section \<open>The initiator\<close>

definition checkIdentities :: "apqe_session stage" where
  "checkIdentities c =
    guard (apqe_constantTimeEqual (fc_identityHash (q_own c)) (q_identityHash c) ID_BYTES \<and>
      apqe_constantTimeEqual (fc_identityHash (q_peer c)) (q_peerIdentityHash c) ID_BYTES) c"

definition checkOwnKey :: "apqe_session stage" where
  "checkOwnKey c = guard (apqe_constantTimeEqual (fc_publicKey (q_own c)) (q_publicKey c) KYBER_PUBLIC_KEY_BYTES) c"

definition invertOwnTid :: "wolf \<Rightarrow> apqe_env \<Rightarrow> apqe_session stage" where
  "invertOwnTid W e c = timedPufInverse W (ae_us e 4) (fc_tid (q_own c)) (\<lambda>ci c. c\<lparr>s_ci := ci\<rparr>) c"

definition composeEi :: "apqe_env \<Rightarrow> apqe_session stage" where
  "composeEi e c =
    (let ni = ae_nonce e;
         ei = s_ei c;
         ei = write_at 0 (fc_tid (q_own c)) ei;
         ei = write_at 32 (s_ci c) ei;
         ei = write_at 64 ni ei;
         ei = write_at 96 (fc_tid (q_peer c)) ei
     in (Some True, c\<lparr>s_ni := ni, s_ei := ei\<rparr>))"

fun encryptBlocks :: "kyber \<Rightarrow> apqe_env \<Rightarrow> nat list \<Rightarrow> apqe_session stage" where
  "encryptBlocks K e [] c = (Some True, c)"
| "encryptBlocks K e (block # blocks) c =
    (case kyber_encrypt K (read_at (block * KYBER_MESSAGE_BYTES) KYBER_MESSAGE_BYTES (s_ei c))
            (fc_publicKey (q_peer c)) (ae_coins e block) of
       (ok, ciphertext) \<Rightarrow>
         let c = c\<lparr>q_m1 := write_at (block * KYBER_CIPHERTEXT_BYTES) ciphertext (q_m1 c),
               s_m := (s_m c)\<lparr>sm_kyberEncryptUs := sm_kyberEncryptUs (s_m c) + ae_us e (20 + block)\<rparr>\<rparr>
         in if \<not> ok then (Some False, c) else encryptBlocks K e blocks c)"

definition sealM1 :: "wolf \<Rightarrow> apqe_env \<Rightarrow> apqe_session stage" where
  "sealM1 W e c =
    timedShaParts W (ae_us e 5) [s_ei c]
      (\<lambda>h1 c. (Some True, c\<lparr>q_m1 := write_at (EI_BLOCKS * KYBER_CIPHERTEXT_BYTES) h1 (q_m1 c)\<rparr>)) c"

definition apqe_sendM1 :: "apqe_env \<Rightarrow> u32 \<Rightarrow> apqe_session stage" where
  "apqe_sendM1 e session c =
    apqe_send (ae_sends e 0) (n_responderIp (q_config c)) (n_protocolPort (q_config c)) MSG_M1 session
      (q_m1 c) APQE_M1_BYTES True c"

definition apqe_receiveM2 :: "apqe_env \<Rightarrow> u32 \<Rightarrow> apqe_session stage" where
  "apqe_receiveM2 e session c =
    (case apqe_receive (ae_recvs e 0) MSG_M2 session (q_m2 c) APQE_M2_BYTES True c of
       (r, m2, c) \<Rightarrow> (r, c\<lparr>q_m2 := m2\<rparr>))"

definition openM2 :: "apqe_env \<Rightarrow> apqe_session stage" where
  "openM2 e c =
    (let tkJ = xorBytes (q_m2 c) (s_ni c) HASH_BYTES;
         tkJi = commutativeMap (q_puf c) tkJ;
         (cj, nj) = unmaskPair tkJi (drop HASH_BYTES (q_m2 c))
     in (Some True, addPufUs (ae_us e 6) (c\<lparr>s_tkJ := tkJ, s_tkJi := tkJi, s_cj := cj, s_nj := nj\<rparr>)))"

definition checkH2 :: "wolf \<Rightarrow> apqe_env \<Rightarrow> apqe_session stage" where
  "checkH2 W e c =
    timedShaParts W (ae_us e 7) [s_tkJi c, s_tkJ c, s_cj c, s_nj c]
      (\<lambda>expectedH2. guard (apqe_constantTimeEqual expectedH2 (drop (HASH_BYTES + PJ_BYTES) (q_m2 c)) HASH_BYTES)) c"

definition recoverRj :: "wolf \<Rightarrow> apqe_env \<Rightarrow> apqe_session stage" where
  "recoverRj W e c =
    timedShaParts W (ae_us e 8) [s_cj c]
      (\<lambda>cjHash c. (Some True, c\<lparr>s_rj := xorBytes (fc_w (q_peer c)) cjHash HASH_BYTES\<rparr>)) c"

definition composeM3 :: "apqe_env \<Rightarrow> apqe_session stage" where
  "composeM3 e c =
    (let tkI = commutativeMap (q_puf c) (s_cj c);
         tkIj = commutativeMap (q_puf c) (s_rj c)
     in (Some True, addPufUs (ae_us e 9 + ae_us e 10) (c\<lparr>s_tkI := tkI, s_tkIj := tkIj,
           q_m3 := write_at 0 (xorBytes tkI (s_nj c) HASH_BYTES) (q_m3 c)\<rparr>)))"

definition deriveSessionKey :: "wolf \<Rightarrow> apqe_env \<Rightarrow> apqe_session stage" where
  "deriveSessionKey W e c =
    timedShaParts W (ae_us e 11) [s_tkJi c, s_tkIj c, s_ni c, s_nj c] (\<lambda>key c. (Some True, c\<lparr>s_sessionKey := key\<rparr>)) c"

definition sealM3 :: "wolf \<Rightarrow> apqe_env \<Rightarrow> apqe_session stage" where
  "sealM3 W e c =
    timedShaParts W (ae_us e 12) [s_tkIj c, s_tkI c, s_sessionKey c]
      (\<lambda>h3 c. (Some True, c\<lparr>q_m3 := write_at HASH_BYTES h3 (q_m3 c)\<rparr>)) c"

definition apqe_sendM3 :: "apqe_env \<Rightarrow> u32 \<Rightarrow> apqe_session stage" where
  "apqe_sendM3 e session c =
    apqe_send (ae_sends e 1) (n_responderIp (q_config c)) (n_protocolPort (q_config c)) MSG_M3 session
      (q_m3 c) APQE_M3_BYTES True c"

definition apqe_receiveResult :: "apqe_env \<Rightarrow> u32 \<Rightarrow> apqe_session stage" where
  "apqe_receiveResult e session c =
    (let c = c\<lparr>s_m := (s_m c)\<lparr>sm_protocolUs := ae_us e 13\<rparr>\<rparr>
     in case apqe_receive (ae_recvs e 1) APQE_MSG_RESULT session (q_result c) APQE_RESULT_BYTES False c of
          (r, result, c) \<Rightarrow>
            let c = c\<lparr>q_result := result\<rparr>
            in if r \<noteq> Some True then (r, c)
               else (Some True, c\<lparr>s_m := (s_m c)\<lparr>sm_confirmedUs := ae_us e 14\<rparr>\<rparr>))"

definition confirmKey :: "wolf \<Rightarrow> u32 \<Rightarrow> apqe_session stage" where
  "confirmKey W session c =
    (case apqe_decodeResult (q_result c) session SessionMetrics_init of
       None \<Rightarrow> (Some False, c)
     | Some (bProtocolTime, b, bKeyHash) \<Rightarrow>
         let c = c\<lparr>s_peerProtocolTime := bProtocolTime, s_peerMetrics := b\<rparr>
         in case apqe_sha256 W (s_sessionKey c) of
              Inl _ \<Rightarrow> (Some False, c)
            | Inr aKeyHash \<Rightarrow> guard (apqe_constantTimeEqual aKeyHash bKeyHash HASH_BYTES) c)"

definition apqe_initiatorStages :: "wolf \<Rightarrow> kyber \<Rightarrow> apqe_env \<Rightarrow> u32 \<Rightarrow> u16 \<Rightarrow> apqe_session stage list" where
  "apqe_initiatorStages W K e session slot =
    [timedReconstruct W e, timedKeygen K e, queryOwn W e slot, queryPeer W e slot, checkIdentities,
     \<lambda>c. timedVerify W (ae_us e 2) (q_own c) c, \<lambda>c. timedVerify W (ae_us e 3) (q_peer c) c, checkOwnKey,
     invertOwnTid W e, composeEi e, encryptBlocks K e [0..<EI_BLOCKS], sealM1 W e, apqe_sendM1 e session,
     apqe_receiveM2 e session, openM2 e, checkH2 W e, recoverRj W e, composeM3 e,
     deriveSessionKey W e, sealM3 W e, apqe_sendM3 e session,
     apqe_receiveResult e session, confirmKey W session]"

text \<open>
  \<open>None\<close> while the session waits for the network, otherwise the flag, what is printed on
  success, and the object.
\<close>

definition apqe_runInitiatorSession ::
  "wolf \<Rightarrow> kyber \<Rightarrow> apqe_env \<Rightarrow> u32 \<Rightarrow> u16 \<Rightarrow> apqe_node \<Rightarrow> (nat list option \<times> apqe_node) option" where
  "apqe_runInitiatorSession W K e session slot n =
    (case runStages (apqe_initiatorStages W K e session slot) (apqe_enter n) of
       (None, _) \<Rightarrow> None
     | (Some ok, c) \<Rightarrow>
         Some (if ok then Some (printSessionResult session slot (s_m c) (s_peerMetrics c) (s_peerProtocolTime c)) else None,
           apqe_node.truncate c))"

section \<open>The responder\<close>

text \<open>M1 is in \<open>m_m1\<close>, its packet is \<open>incoming\<close>.\<close>

definition countM1 :: "ReceivedPacket \<Rightarrow> apqe_session stage" where
  "countM1 incoming c =
    (Some True, c\<lparr>s_m := (s_m c)\<lparr>sm_directAppRx := of_nat APQE_M1_BYTES,
       sm_directFramedRx := r_framedBytes incoming\<rparr>\<rparr>)"

fun decryptBlocks :: "kyber \<Rightarrow> apqe_env \<Rightarrow> nat list \<Rightarrow> apqe_session stage" where
  "decryptBlocks K e [] c = (Some True, c)"
| "decryptBlocks K e (block # blocks) c =
    (case kyber_decrypt K (read_at (block * KYBER_CIPHERTEXT_BYTES) KYBER_CIPHERTEXT_BYTES (q_m1 c)) (q_secretKey c) of
       (ok, message) \<Rightarrow>
         let c = c\<lparr>s_ei := write_at (block * KYBER_MESSAGE_BYTES) message (s_ei c),
               s_m := (s_m c)\<lparr>sm_kyberDecryptUs := sm_kyberDecryptUs (s_m c) + ae_us e (20 + block)\<rparr>\<rparr>
         in if \<not> ok then (Some False, c) else decryptBlocks K e blocks c)"

text \<open>After the check of H1 the parts of \<open>ei\<close> are used in place; \<open>tidI\<close> is at 0, \<open>tidJ\<close> at 96.\<close>

definition checkH1 :: "wolf \<Rightarrow> apqe_env \<Rightarrow> apqe_session stage" where
  "checkH1 W e c =
    timedShaParts W (ae_us e 5) [s_ei c]
      (\<lambda>expectedH1 c. guard (apqe_constantTimeEqual expectedH1 (drop (EI_BLOCKS * KYBER_CIPHERTEXT_BYTES) (q_m1 c)) HASH_BYTES)
        (c\<lparr>s_ci := read_at 32 CHALLENGE_BYTES (s_ei c), s_ni := read_at 64 APQE_NONCE_BYTES (s_ei c)\<rparr>)) c"

definition checkPeerIdentity :: "apqe_session stage" where
  "checkPeerIdentity c = guard (apqe_constantTimeEqual (fc_identityHash (q_peer c)) (q_peerIdentityHash c) ID_BYTES) c"

definition invertTidJ :: "wolf \<Rightarrow> apqe_env \<Rightarrow> apqe_session stage" where
  "invertTidJ W e c = timedPufInverse W (ae_us e 4) (read_at 96 TID_BYTES (s_ei c)) (\<lambda>cj c. c\<lparr>s_cj := cj\<rparr>) c"

definition recoverRi :: "wolf \<Rightarrow> apqe_env \<Rightarrow> apqe_session stage" where
  "recoverRi W e c =
    timedShaParts W (ae_us e 8) [s_ci c]
      (\<lambda>ciHash c. (Some True, c\<lparr>s_rj := xorBytes (fc_w (q_peer c)) ciHash HASH_BYTES\<rparr>)) c"

definition composeM2 :: "apqe_env \<Rightarrow> apqe_session stage" where
  "composeM2 e c =
    (let tkJi = commutativeMap (q_puf c) (s_rj c);
         tkJ = commutativeMap (q_puf c) (s_ci c);
         nj = ae_nonce e;
         m2 = write_at 0 (xorBytes tkJ (s_ni c) HASH_BYTES) (q_m2 c);
         m2 = write_at HASH_BYTES (maskPair tkJi (s_cj c) nj) m2
     in (Some True, addPufUs (ae_us e 6 + ae_us e 9) (c\<lparr>s_tkJi := tkJi, s_tkJ := tkJ, s_nj := nj, q_m2 := m2\<rparr>)))"

definition sealM2 :: "wolf \<Rightarrow> apqe_env \<Rightarrow> apqe_session stage" where
  "sealM2 W e c =
    timedShaParts W (ae_us e 7) [s_tkJi c, s_tkJ c, s_cj c, s_nj c]
      (\<lambda>h2 c. (Some True, c\<lparr>q_m2 := write_at (HASH_BYTES + PJ_BYTES) h2 (q_m2 c)\<rparr>)) c"

definition apqe_sendM2 :: "apqe_env \<Rightarrow> ReceivedPacket \<Rightarrow> u32 \<Rightarrow> apqe_session stage" where
  "apqe_sendM2 e incoming session c =
    apqe_send (ae_sends e 0) (r_sourceIp incoming) (r_sourcePort incoming) MSG_M2 session (q_m2 c) APQE_M2_BYTES True c"

definition apqe_receiveM3 :: "apqe_env \<Rightarrow> u32 \<Rightarrow> apqe_session stage" where
  "apqe_receiveM3 e session c =
    (case apqe_receive (ae_recvs e 0) MSG_M3 session (q_m3 c) APQE_M3_BYTES True c of
       (r, m3, c) \<Rightarrow> (r, c\<lparr>q_m3 := m3\<rparr>))"

definition openM3 :: "apqe_env \<Rightarrow> apqe_session stage" where
  "openM3 e c =
    (let tkI = xorBytes (q_m3 c) (s_nj c) HASH_BYTES
     in (Some True, addPufUs (ae_us e 10) (c\<lparr>s_tkI := tkI, s_tkIj := commutativeMap (q_puf c) tkI\<rparr>)))"

definition checkH3 :: "wolf \<Rightarrow> apqe_env \<Rightarrow> apqe_session stage" where
  "checkH3 W e c =
    timedShaParts W (ae_us e 12) [s_tkIj c, s_tkI c, s_sessionKey c]
      (\<lambda>expectedH3. guard (apqe_constantTimeEqual expectedH3 (drop HASH_BYTES (q_m3 c)) HASH_BYTES)) c"

definition apqe_sendResult :: "wolf \<Rightarrow> apqe_env \<Rightarrow> ReceivedPacket \<Rightarrow> u32 \<Rightarrow> apqe_session stage" where
  "apqe_sendResult W e incoming session c =
    (let c = c\<lparr>s_m := (s_m c)\<lparr>sm_protocolUs := ae_us e 13\<rparr>\<rparr>
     in case apqe_sha256 W (s_sessionKey c) of
          Inl _ \<Rightarrow> (Some False, c)
        | Inr keyHash \<Rightarrow>
            let result = apqe_encodeResult session (sm_protocolUs (s_m c)) (s_m c) keyHash
            in apqe_send (ae_sends e 1) (r_sourceIp incoming) (r_sourcePort incoming) APQE_MSG_RESULT session
                 result APQE_RESULT_BYTES False (c\<lparr>q_result := result\<rparr>))"

definition apqe_responderStages :: "wolf \<Rightarrow> kyber \<Rightarrow> apqe_env \<Rightarrow> ReceivedPacket \<Rightarrow> u32 \<Rightarrow> apqe_session stage list" where
  "apqe_responderStages W K e incoming session =
    [countM1 incoming, timedReconstruct W e, timedKeygen K e, decryptBlocks K e [0..<EI_BLOCKS], checkH1 W e,
     queryTid W e, checkPeerIdentity, \<lambda>c. timedVerify W (ae_us e 2) (q_peer c) c,
     invertTidJ W e, recoverRi W e, composeM2 e, sealM2 W e, apqe_sendM2 e incoming session,
     apqe_receiveM3 e session, openM3 e, deriveSessionKey W e, checkH3 W e, apqe_sendResult W e incoming session]"

definition apqe_runResponderSession ::
  "wolf \<Rightarrow> kyber \<Rightarrow> apqe_env \<Rightarrow> u32 \<Rightarrow> ReceivedPacket \<Rightarrow> apqe_node \<Rightarrow> (bool \<times> apqe_node) option" where
  "apqe_runResponderSession W K e session incoming n =
    (case runStages (apqe_responderStages W K e incoming session) (apqe_enter n) of
       (None, _) \<Rightarrow> None
     | (Some ok, c) \<Rightarrow> Some (ok, apqe_node.truncate c))"

section \<open>The main loop\<close>

text \<open>One round of \<open>responderLoop\<close>; \<open>rx\<close> is what its wait for M1 observes.\<close>

definition apqe_responderLoop :: "wolf \<Rightarrow> kyber \<Rightarrow> radio \<Rightarrow> apqe_env \<Rightarrow> apqe_node \<Rightarrow> (bool \<times> apqe_node) option" where
  "apqe_responderLoop W K rx e n =
    (case apqe_receiveMessage MSG_M1 0 (q_m1 n) (of_nat APQE_M1_BYTES) 1000 (rx_start rx) (rx_polls rx) of
       None \<Rightarrow> None
     | Some (None, m1) \<Rightarrow> Some (False, n\<lparr>q_m1 := m1\<rparr>)
     | Some (Some received, m1) \<Rightarrow>
         let n = n\<lparr>q_m1 := m1\<rparr>
         in if unat (r_length received) \<noteq> APQE_M1_BYTES then Some (False, n)
            else apqe_runResponderSession W K e (r_session received) received n)"

text \<open>The sessions of the initiator, stopping at the first failure; \<open>es\<close> has one entry per session.\<close>

fun apqe_runSessions ::
  "wolf \<Rightarrow> kyber \<Rightarrow> u32 \<Rightarrow> apqe_env list \<Rightarrow> u32 \<Rightarrow> apqe_node \<Rightarrow> (u32 \<times> apqe_node) option" where
  "apqe_runSessions W K index [] successes n =
    (if index < n_numberOfSessions (q_config n) then None else Some (successes, n))"
| "apqe_runSessions W K index (e # es) successes n =
    (if index < n_numberOfSessions (q_config n) then
       (case apqe_runInitiatorSession W K e (index + 1) (ucast index) n of
          None \<Rightarrow> None
        | Some (Some _, n) \<Rightarrow> apqe_runSessions W K (index + 1) es (successes + 1) n
        | Some (None, n) \<Rightarrow> Some (successes, n))
     else Some (successes, n))"

text \<open>One call of \<open>loop\<close>: \<open>rx\<close> and \<open>e\<close> are what a responder observes, \<open>es\<close> what an initiator does.\<close>

definition apqe_loop ::
  "wolf \<Rightarrow> kyber \<Rightarrow> radio \<Rightarrow> apqe_env \<Rightarrow> apqe_env list \<Rightarrow> apqe_node \<Rightarrow> apqe_node option" where
  "apqe_loop W K rx e es n =
    (if \<not> q_initialized n \<or> q_completed n then Some n
     else if n_role (q_config n) = ApqeResponder then map_option snd (apqe_responderLoop W K rx e n)
     else map_option (\<lambda>(successes, n). n\<lparr>q_completed := True\<rparr>) (apqe_runSessions W K 0 es 0 n))"

end
