(* ===== verification/Sketches.thy ===== *)
theory Sketches
  imports MessageLayout CounterSafety ApqeSessions
begin

text \<open>
  The six sketches that are flashed on the boards: their configurations, \<open>setup\<close> and what the
  endless repetition of \<open>loop\<close> does. Four sketches run the proposed protocol, one per UAV and
  deployment mode; two run the baseline. The network names are the placeholders of the source.
  The constructor \<open>IPAddress\<close> belongs to the Arduino core; addresses are big-endian words here.
\<close>

definition IPAddress :: "u8 \<Rightarrow> u8 \<Rightarrow> u8 \<Rightarrow> u8 \<Rightarrow> u32" where
  "IPAddress a b c d = getU32 [a, b, c, d]"

section \<open>Configurations of the proposed protocol\<close>

definition uavA_carry :: NodeConfig where
  "uavA_carry =
    \<lparr>role = Initiator, pathMode = SignerCarried,
     wifiSsid = ''YOUR_WIFI_NAME'', wifiPassword = ''YOUR_WIFI_PASSWORD'',
     gcsIp = IPAddress 192 168 29 2, responderIp = IPAddress 192 168 29 99,
     protocolPort = DEFAULT_PROTOCOL_PORT, gcsPort = DEFAULT_GCS_PORT, gcsLocalPort = 5211,
     deviceId = replicate 32 0x41, peerId = replicate 32 0x42,
     hardcodedPufRoot =
       [0x10, 0x23, 0x45, 0x67, 0x89, 0xab, 0xcd, 0xef, 0x31, 0x42, 0x53, 0x64, 0x75, 0x86, 0x97, 0xa8,
        0xb9, 0xca, 0xdb, 0xec, 0xfd, 0x0e, 0x1f, 0x20, 0x32, 0x54, 0x76, 0x98, 0xba, 0xdc, 0xfe, 0x11],
     hardcodedHelperData =
       [0x5a, 0x21, 0x7c, 0x93, 0xe4, 0x18, 0xb6, 0x0d, 0x34, 0x8f, 0xc1, 0x72, 0x09, 0xad, 0x65, 0xf0,
        0x1b, 0x47, 0x99, 0x2e, 0xd8, 0x53, 0x06, 0xbc, 0x7f, 0x12, 0xea, 0x40, 0x88, 0x3d, 0x56, 0xa7],
     lmsIdentifier =
       [0xc1, 0xc2, 0xc3, 0xc4, 0xc5, 0xc6, 0xc7, 0xc8, 0xc9, 0xca, 0xcb, 0xcc, 0xcd, 0xce, 0xcf, 0xd0],
     credentialVersion = 2, peerCredentialVersion = 2, credentialExpiryUnix = 0,
     nvsNamespace = ''uavA_carry_v2'', firstQ = 0, numberOfSessions = 500, resetQCounter = False\<rparr>"

definition uavA_repo :: NodeConfig where
  "uavA_repo =
    \<lparr>role = Initiator, pathMode = RepositoryAssisted,
     wifiSsid = ''YOUR_WIFI_NAME'', wifiPassword = ''YOUR_WIFI_PASSWORD'',
     gcsIp = IPAddress 192 168 29 2, responderIp = IPAddress 192 168 29 99,
     protocolPort = DEFAULT_PROTOCOL_PORT, gcsPort = DEFAULT_GCS_PORT, gcsLocalPort = 5211,
     deviceId = replicate 32 0x41, peerId = replicate 32 0x42,
     hardcodedPufRoot =
       [0x10, 0x23, 0x45, 0x67, 0x89, 0xab, 0xcd, 0xef, 0x31, 0x42, 0x53, 0x64, 0x75, 0x86, 0x97, 0xa8,
        0xb9, 0xca, 0xdb, 0xec, 0xfd, 0x0e, 0x1f, 0x20, 0x32, 0x54, 0x76, 0x98, 0xba, 0xdc, 0xfe, 0x11],
     hardcodedHelperData =
       [0x5a, 0x21, 0x7c, 0x93, 0xe4, 0x18, 0xb6, 0x0d, 0x34, 0x8f, 0xc1, 0x72, 0x09, 0xad, 0x65, 0xf0,
        0x1b, 0x47, 0x99, 0x2e, 0xd8, 0x53, 0x06, 0xbc, 0x7f, 0x12, 0xea, 0x40, 0x88, 0x3d, 0x56, 0xa7],
     lmsIdentifier =
       [0xa1, 0xa2, 0xa3, 0xa4, 0xa5, 0xa6, 0xa7, 0xa8, 0xa9, 0xaa, 0xab, 0xac, 0xad, 0xae, 0xaf, 0xb0],
     credentialVersion = 1, peerCredentialVersion = 1, credentialExpiryUnix = 0,
     nvsNamespace = ''uavA_repo_v1'', firstQ = 0, numberOfSessions = 500, resetQCounter = False\<rparr>"

definition uavB_carry :: NodeConfig where
  "uavB_carry =
    \<lparr>role = Responder, pathMode = SignerCarried,
     wifiSsid = ''YOUR_WIFI_NAME'', wifiPassword = ''YOUR_WIFI_PASSWORD'',
     gcsIp = IPAddress 192 168 29 2, responderIp = IPAddress 0 0 0 0,
     protocolPort = DEFAULT_PROTOCOL_PORT, gcsPort = DEFAULT_GCS_PORT, gcsLocalPort = 5212,
     deviceId = replicate 32 0x42, peerId = replicate 32 0x41,
     hardcodedPufRoot =
       [0x92, 0x81, 0x70, 0x6f, 0x5e, 0x4d, 0x3c, 0x2b, 0x1a, 0x09, 0xf8, 0xe7, 0xd6, 0xc5, 0xb4, 0xa3,
        0x12, 0x34, 0x56, 0x78, 0x9a, 0xbc, 0xde, 0xf0, 0x0f, 0xed, 0xcb, 0xa9, 0x87, 0x65, 0x43, 0x21],
     hardcodedHelperData =
       [0xc3, 0x0e, 0x59, 0xa4, 0x17, 0x6b, 0xd2, 0x8d, 0x45, 0xf1, 0x2a, 0x73, 0xbe, 0x08, 0x94, 0x61,
        0xdf, 0x35, 0x80, 0x1c, 0x67, 0xaa, 0x49, 0xf6, 0x20, 0x9b, 0x54, 0xe7, 0x0a, 0x32, 0xcd, 0x78],
     lmsIdentifier =
       [0xd1, 0xd2, 0xd3, 0xd4, 0xd5, 0xd6, 0xd7, 0xd8, 0xd9, 0xda, 0xdb, 0xdc, 0xdd, 0xde, 0xdf, 0xe0],
     credentialVersion = 2, peerCredentialVersion = 2, credentialExpiryUnix = 0,
     nvsNamespace = ''uavB_carry_v2'', firstQ = 0, numberOfSessions = 500, resetQCounter = False\<rparr>"

definition uavB_repo :: NodeConfig where
  "uavB_repo =
    \<lparr>role = Responder, pathMode = RepositoryAssisted,
     wifiSsid = ''YOUR_WIFI_NAME'', wifiPassword = ''YOUR_WIFI_PASSWORD'',
     gcsIp = IPAddress 192 168 29 2, responderIp = IPAddress 0 0 0 0,
     protocolPort = DEFAULT_PROTOCOL_PORT, gcsPort = DEFAULT_GCS_PORT, gcsLocalPort = 5212,
     deviceId = replicate 32 0x42, peerId = replicate 32 0x41,
     hardcodedPufRoot =
       [0x92, 0x81, 0x70, 0x6f, 0x5e, 0x4d, 0x3c, 0x2b, 0x1a, 0x09, 0xf8, 0xe7, 0xd6, 0xc5, 0xb4, 0xa3,
        0x12, 0x34, 0x56, 0x78, 0x9a, 0xbc, 0xde, 0xf0, 0x0f, 0xed, 0xcb, 0xa9, 0x87, 0x65, 0x43, 0x21],
     hardcodedHelperData =
       [0xc3, 0x0e, 0x59, 0xa4, 0x17, 0x6b, 0xd2, 0x8d, 0x45, 0xf1, 0x2a, 0x73, 0xbe, 0x08, 0x94, 0x61,
        0xdf, 0x35, 0x80, 0x1c, 0x67, 0xaa, 0x49, 0xf6, 0x20, 0x9b, 0x54, 0xe7, 0x0a, 0x32, 0xcd, 0x78],
     lmsIdentifier =
       [0xb1, 0xb2, 0xb3, 0xb4, 0xb5, 0xb6, 0xb7, 0xb8, 0xb9, 0xba, 0xbb, 0xbc, 0xbd, 0xbe, 0xbf, 0xc0],
     credentialVersion = 1, peerCredentialVersion = 1, credentialExpiryUnix = 0,
     nvsNamespace = ''uavB_repo_v1'', firstQ = 0, numberOfSessions = 500, resetQCounter = False\<rparr>"

text \<open>\<open>setup\<close>: \<open>None\<close> when it does not return, because \<open>begin\<close> is still waiting or, after a
  failure, in the endless loop. The Arduino core then calls \<open>loop\<close> again and again; \<open>sketch_run\<close>
  is a run from power-up through a number of calls.\<close>

definition sketch_setup :: "wolf \<Rightarrow> boot \<Rightarrow> node \<Rightarrow> node option" where
  "sketch_setup W b n = (case protocolBegin W b n of (Some True, n') \<Rightarrow> Some n' | _ \<Rightarrow> None)"

fun sketch_loops :: "wolf \<Rightarrow> (nat \<Rightarrow> env) list \<Rightarrow> node \<Rightarrow> node option" where
  "sketch_loops W [] n = Some n"
| "sketch_loops W (es # rest) n = Option.bind (protocolLoop W es n) (sketch_loops W rest)"

definition sketch_run :: "wolf \<Rightarrow> NodeConfig \<Rightarrow> u32 option \<Rightarrow> boot \<Rightarrow> (nat \<Rightarrow> env) list \<Rightarrow> node option" where
  "sketch_run W cfg nvs b ess = Option.bind (sketch_setup W b (node_ctor cfg nvs)) (sketch_loops W ess)"

section \<open>Configurations of the baseline\<close>

definition apqe_uavA :: apqe_NodeConfig where
  "apqe_uavA =
    \<lparr>n_role = ApqeInitiator, n_wifiSsid = ''YOUR_WIFI_SSID'', n_wifiPassword = ''YOUR_WIFI_PASSWORD'',
     n_gatewayIp = IPAddress 192 168 29 100, n_gatewayPort = GATEWAY_ORG1_PORT, n_gatewayLocalPort = 5231,
     n_responderIp = IPAddress 192 168 29 98, n_protocolPort = APQE_PROTOCOL_PORT,
     n_deviceId = replicate 32 0x41, n_peerId = replicate 32 0x42,
     n_emulatedSramRaw =
       [0x11, 0x72, 0xa4, 0x0d, 0x9b, 0xc3, 0x56, 0xe8, 0x39, 0x65, 0x1f, 0xb0, 0x7d, 0x2a, 0x94, 0xce,
        0x48, 0x83, 0xd1, 0x2f, 0xfa, 0x60, 0x35, 0x8c, 0xb7, 0x04, 0xe2, 0x99, 0x5a, 0x16, 0x6d, 0xc1],
     n_emulatedSramHelper =
       [0xa5, 0x3c, 0x80, 0x17, 0xd9, 0x4e, 0x62, 0xb1, 0x08, 0xf4, 0x2d, 0x96, 0x71, 0xcb, 0x55, 0x3a,
        0xe7, 0x20, 0x8a, 0x6f, 0x14, 0xbd, 0x43, 0x90, 0x2b, 0x78, 0xc6, 0x05, 0xf1, 0x59, 0xac, 0x34],
     n_emulatedBsPufSecret =
       [0x63, 0x18, 0xf0, 0x4b, 0x95, 0x2e, 0xc7, 0x51, 0xaa, 0x36, 0x0c, 0xd4, 0x7f, 0x89, 0x22, 0xbe,
        0x47, 0x9d, 0x31, 0xe5, 0x68, 0x13, 0xfb, 0x74, 0x0a, 0xc2, 0x5d, 0x87, 0xb9, 0x40, 0x26, 0xde],
     n_numberOfSessions = DEFAULT_SESSION_COUNT\<rparr>"

definition apqe_uavB :: apqe_NodeConfig where
  "apqe_uavB =
    \<lparr>n_role = ApqeResponder, n_wifiSsid = ''YOUR_WIFI_SSID'', n_wifiPassword = ''YOUR_WIFI_PASSWORD'',
     n_gatewayIp = IPAddress 192 168 29 100, n_gatewayPort = GATEWAY_ORG2_PORT, n_gatewayLocalPort = 5232,
     n_responderIp = IPAddress 0 0 0 0, n_protocolPort = APQE_PROTOCOL_PORT,
     n_deviceId = replicate 32 0x42, n_peerId = replicate 32 0x41,
     n_emulatedSramRaw =
       [0x8c, 0x25, 0xd7, 0x41, 0x0e, 0xb9, 0x63, 0xf2, 0x54, 0xaa, 0x17, 0xcd, 0x38, 0x70, 0x96, 0x2b,
        0xe1, 0x4f, 0x85, 0x09, 0xbc, 0x32, 0x6d, 0xf8, 0x13, 0x59, 0xa0, 0x77, 0xc4, 0x2e, 0x91, 0x5b],
     n_emulatedSramHelper =
       [0x29, 0x6f, 0xb2, 0x04, 0xdc, 0x83, 0x51, 0xae, 0x74, 0x18, 0xc9, 0x35, 0x90, 0xe6, 0x42, 0x0b,
        0xf5, 0x67, 0x1d, 0xba, 0x88, 0x23, 0xd0, 0x5c, 0x99, 0x46, 0xef, 0x12, 0x7a, 0x31, 0xa4, 0xc8],
     n_emulatedBsPufSecret =
       [0xd2, 0x47, 0x0f, 0x91, 0x5a, 0xe8, 0x36, 0xbc, 0x21, 0x6d, 0xf3, 0x08, 0x84, 0xca, 0x59, 0x17,
        0xee, 0x32, 0x75, 0xa9, 0x40, 0x1c, 0xd6, 0x8b, 0x53, 0xfa, 0x24, 0x69, 0xb0, 0x3e, 0x97, 0x0d],
     n_numberOfSessions = DEFAULT_SESSION_COUNT\<rparr>"

text \<open>This \<open>setup\<close> returns whether or not \<open>begin\<close> succeeded; \<open>None\<close> when \<open>begin\<close> is still waiting.\<close>

definition apqe_sketch_setup :: "wolf \<Rightarrow> kyber \<Rightarrow> apqe_boot \<Rightarrow> apqe_node \<Rightarrow> apqe_node option" where
  "apqe_sketch_setup W K b n = (case apqe_begin W K b n of (None, _) \<Rightarrow> None | (Some _, n') \<Rightarrow> Some n')"

section \<open>What the configurations promise\<close>

definition sketches :: "NodeConfig list" where
  "sketches = [uavA_carry, uavA_repo, uavB_carry, uavB_repo]"

lemmas sketch_defs = uavA_carry_def uavA_repo_def uavB_carry_def uavB_repo_def

text \<open>The two sketches of a deployment mode are the two ends of one link, and agree on versions.\<close>

lemma sketches_paired:
  "paired uavA_carry uavB_carry" "paired uavA_repo uavB_repo"
  by (simp_all add: paired_def config_arrays_def sketch_defs)

lemma sketches_versions:
  "peerCredentialVersion uavA_carry = credentialVersion uavB_carry" "peerCredentialVersion uavB_carry = credentialVersion uavA_carry"
  "peerCredentialVersion uavA_repo = credentialVersion uavB_repo" "peerCredentialVersion uavB_repo = credentialVersion uavA_repo"
  by (simp_all add: sketch_defs)

lemma sketch_fields:
  assumes "cfg \<in> set sketches"
  shows "config_arrays cfg" and "firstQ cfg = 0" and "numberOfSessions cfg = 500" and "\<not> resetQCounter cfg"
  using assms by (auto simp: sketches_def config_arrays_def sketch_defs)

text \<open>
  A board has one PUF but may run either mode: the four trees have different identifiers, so
  that a board's two trees grow from different inputs of the KDF, and their
  counters are kept under different names.
\<close>

definition seed_info :: "NodeConfig \<Rightarrow> bytes" where
  "seed_info cfg = lms_seed_label @ deviceId cfg @ putU32 (credentialVersion cfg) @ lmsIdentifier cfg"

lemma sketches_apart:
  "distinct (map seed_info sketches)" "distinct (map nvsNamespace sketches)" "distinct (map lmsIdentifier sketches)"
  by (simp_all add: sketches_def seed_info_def lms_seed_label_def putU32_def sketch_defs)

text \<open>The range check at boot never refuses a sketch.\<close>

lemma sketch_range:
  assumes "cfg \<in> set sketches" and "config n = cfg"
  shows "checkRange n = (Some True, n)"
  using assms(2) sketch_fields [OF assms(1)] by (simp add: checkRange_def guard_def)

section \<open>Runs of a sketch\<close>

text \<open>A run of a sketch is a life of the device, so what holds of every life holds of it.\<close>

lemma sketch_loops_steps: "sketch_loops W ess n = Some n' \<Longrightarrow> (device_step W)\<^sup>*\<^sup>* n n'"
proof (induction ess arbitrary: n)
  case (Cons es ess)
  then obtain m where "protocolLoop W es n = Some m" "sketch_loops W ess m = Some n'"
    by (auto simp: bind_eq_Some_conv)
  with Cons.IH show ?case by (blast intro: looped converse_rtranclp_into_rtranclp)
qed simp

lemma sketch_setup_begin: "sketch_setup W b n = Some n' \<longleftrightarrow> protocolBegin W b n = (Some True, n')"
  by (auto simp: sketch_setup_def split: prod.splits option.splits bool.splits)

lemma sketch_run_steps:
  assumes "sketch_run W cfg nvs b ess = Some n"
  shows "(device_step W)\<^sup>*\<^sup>* (node_ctor cfg nvs) n"
  using assms sketch_loops_steps
  by (auto simp: sketch_run_def bind_eq_Some_conv sketch_setup_begin intro: booted converse_rtranclp_into_rtranclp)

lemma sketch_signs_once:
  assumes "cfg \<in> set sketches" and "sketch_run W cfg nvs b ess = Some n"
  shows "distinct (map fst (signatures n)) \<and> length (signatures n) \<le> 500 \<and> (\<forall>q \<in> fst ` set (signatures n). unat q < 500)"
proof -
  note f = sketch_fields [OF assms(1)]
  have I: "counter_inv cfg n"
    using reachable_counter_inv [OF sketch_run_steps [OF assms(2)] fresh_counter_inv f(4)] .
  then show ?thesis
    using spent_length [OF I] f by (auto simp: counter_inv_def spent_def in_range_def strict_sorted_iff)
qed

section \<open>The baseline sketches\<close>

definition apqe_config_arrays :: "apqe_NodeConfig \<Rightarrow> bool" where
  "apqe_config_arrays c \<longleftrightarrow> length (n_deviceId c) = ID_BYTES \<and> length (n_peerId c) = ID_BYTES \<and>
    length (n_emulatedSramRaw c) = HASH_BYTES \<and> length (n_emulatedSramHelper c) = HASH_BYTES \<and>
    length (n_emulatedBsPufSecret c) = HASH_BYTES"

lemma apqe_sketches_crossed:
  "apqe_config_arrays apqe_uavA" "apqe_config_arrays apqe_uavB"
  "n_role apqe_uavA = ApqeInitiator" "n_role apqe_uavB = ApqeResponder"
  "n_peerId apqe_uavA = n_deviceId apqe_uavB" "n_peerId apqe_uavB = n_deviceId apqe_uavA"
  "n_protocolPort apqe_uavA = n_protocolPort apqe_uavB" "n_numberOfSessions apqe_uavA = n_numberOfSessions apqe_uavB"
  by (simp_all add: apqe_config_arrays_def apqe_uavA_def apqe_uavB_def)

end
