(* ===== verification/BootProperties.thy ===== *)
theory BootProperties
  imports Sketches AcceptanceProperties
begin

text \<open>
  What \<open>begin\<close> leaves behind when it returns true: the inversion of its stages, and with it
  that a booted device is a device as the exchange of \<open>HonestSession\<close> wants it. In the other
  direction, a run of \<open>begin\<close> against a repository that answers.
\<close>

section \<open>The stages of a successful boot\<close>

lemma deriveBootSeed_True:
  assumes "deriveBootSeed W b n = (Some True, n')"
  obtains seed where "runtimeSeed W (b_puf b) (config n) = Some seed" and "n' = n\<lparr>m_bootSeed := seed\<rparr>"
  using assms by (auto simp: deriveBootSeed_def runtimeSeed_def split: sum.splits option.splits)

lemma initializeLms_True:
  assumes "initializeLms b n = (Some True, n')"
  obtains lms where "initialize (b_mallocOk b) (lmsIdentifier (config n)) (m_bootSeed n) (m_lms n) = (True, lms)"
    and "n' = n\<lparr>m_lms := lms\<rparr>"
  using assms by (auto simp: initializeLms_def split: prod.splits)

lemma buildLmsTree_True:
  assumes "buildLmsTree W n = (Some True, n')"
  obtains lms where "buildTree W (m_lms n) = (Inr (), lms)"
    and "n' = n\<lparr>m_lms := lms, m_bootSeed := secureZero HASH_BYTES (m_bootSeed n)\<rparr>"
  using assms by (auto simp: buildLmsTree_def split: prod.splits sum.splits)

lemma connectWiFi_True: "connectWiFi b n = (Some True, n') \<Longrightarrow> n' = n"
  by (simp add: connectWiFi_def split: if_splits)

lemma startTransport_True:
  assumes "startTransport b n = (Some True, n')"
  obtains t where "n' = n\<lparr>m_transport := t\<rparr>"
  using assms by (auto simp: startTransport_def split: prod.splits)

text \<open>The client as \<open>begin\<close> of \<open>GcsLedgerClient\<close> configures it; what it sends and accepts depends on nothing else.\<close>

definition configured_gcs :: "NodeConfig \<Rightarrow> GcsState" where
  "configured_gcs cfg =
    snd (GcsLedgerClient_begin 1 (gcsIp cfg) (gcsPort cfg) (gcsLocalPort cfg) (deviceId cfg) (peerId cfg) GcsLedgerClient_ctor)"

lemma startGcs_True:
  assumes "startGcs b n = (Some True, n')"
  obtains g where "same_peers (configured_gcs (config n)) g" and "n' = n\<lparr>m_gcs := g\<rparr>" and "gcs_sent g = gcs_sent (m_gcs n)"
proof (rule that)
  let ?cfg = "config n"
  let ?g = "(m_gcs n)\<lparr>m_gcsIp := gcsIp ?cfg, m_gcsPort := gcsPort ?cfg, m_gcsLocalPort := gcsLocalPort ?cfg,
    m_deviceId := deviceId ?cfg, m_peerId := peerId ?cfg\<rparr>"
  show "same_peers (configured_gcs ?cfg) ?g" by (simp add: same_peers_def configured_gcs_def GcsLedgerClient_begin_def)
  show "gcs_sent ?g = gcs_sent (m_gcs n)" by simp
  show "n' = n\<lparr>m_gcs := ?g\<rparr>" using assms by (simp add: startGcs_def GcsLedgerClient_begin_def Let_def)
qed

text \<open>
  An acknowledgement of the repository for a version and, but for \<open>ANY_Q\<close>, an index, as
  the exchange with the observations \<open>attempts\<close> heard it. It names no device.
\<close>

definition acknowledged :: "wolf \<Rightarrow> u32 \<Rightarrow> u32 \<Rightarrow> gcs_attempt list \<Rightarrow> GcsState \<Rightarrow> bool" where
  "acknowledged W version q attempts g \<longleftrightarrow>
    (\<exists>p. observed attempts p \<and> answers W OP_ACK version q g p \<and> nat (readLength p) = ACK_BYTES \<and> readBuffer p ! 48 = 0)"

lemma acknowledged_same: "same_peers g g' \<Longrightarrow> acknowledged W version q attempts g' = acknowledged W version q attempts g"
  by (simp add: acknowledged_def answers_same)

lemma enrollOwnRoot_sound:
  assumes "enrollOwnRoot W lms version suiteId status expiry attempts g = Some (True, g')"
  shows "same_peers g g' \<and> acknowledged W version ANY_Q attempts g"
proof -
  from assms obtain request where ex: "sendAndReceive W request OP_ACK version ANY_Q attempts g = Some (Some ACK_BYTES, g')"
    and "m_buffer g' ! 48 = 0"
    by (auto simp: enrollOwnRoot_def split: option.splits sum.splits)
  then show ?thesis
    using sendAndReceive_sound(1) [OF ex] sendAndReceive_sound(2) [OF ex refl] by (auto simp: acknowledged_def)
qed

lemma publishRoot_True:
  assumes "publishRoot W b n = (Some True, n')"
  obtains g where "same_peers (m_gcs n) g" and "acknowledged W (credentialVersion (config n)) ANY_Q (b_rootNet b) (m_gcs n)"
    and "n' = n\<lparr>m_gcs := g\<rparr>"
  using assms enrollOwnRoot_sound by (fastforce simp: publishRoot_def split: option.splits prod.splits)

text \<open>In repository mode the index range lies in the tree and every path in it was acknowledged.\<close>

definition paths_published :: "wolf \<Rightarrow> boot \<Rightarrow> NodeConfig \<Rightarrow> GcsState \<Rightarrow> bool" where
  "paths_published W b cfg g \<longleftrightarrow>
    unat (firstQ cfg) + unat (numberOfSessions cfg) \<le> LMS_LEAVES \<and>
    (\<forall>i < unat (numberOfSessions cfg). acknowledged W (credentialVersion cfg) (firstQ cfg + of_nat i) (b_pathNet b i) g)"

lemma publishPaths_True:
  assumes "publishPaths W b n = (Some True, n')"
  obtains g where "same_peers (m_gcs n) g" and "n' = n\<lparr>m_gcs := g\<rparr>"
    and "pathMode (config n) = RepositoryAssisted \<longrightarrow> paths_published W b (config n) (m_gcs n)"
proof (cases "pathMode (config n) = RepositoryAssisted")
  case True
  then obtain g where g: "enrollOwnPaths W (m_lms n) (credentialVersion (config n)) (firstQ (config n))
      (numberOfSessions (config n)) (b_pathNet b) (m_gcs n) = Some (True, g)" and "n' = n\<lparr>m_gcs := g\<rparr>"
    using assms by (auto simp: publishPaths_def split: option.splits)
  moreover from g have "same_peers (m_gcs n) g"
    using enrollPathsFrom_sound by (auto simp: enrollOwnPaths_def split: if_splits)
  ultimately show ?thesis
    using enrollOwnPaths_sound [OF g] that by (simp add: paths_published_def acknowledged_def)
next
  case False
  then have "n' = n" using assms by (simp add: publishPaths_def)
  then show ?thesis using False by (intro that [of "m_gcs n"]) simp_all
qed

lemma fetchPeer_True:
  assumes "fetchPeer W b n = (Some True, n')"
  obtains g rec where "fetchPeerRoot W (peerCredentialVersion (config n)) (b_fetchRounds b) (m_gcs n) = Some (Some rec, g)"
    and "n' = n\<lparr>m_gcs := g, m_peerRecord := rec\<rparr>"
  using assms by (auto simp: fetchPeer_def split: option.splits)

text \<open>What the repository said of the peer: a tagged datagram with the peer's identity and its record.\<close>

definition peer_attested :: "wolf \<Rightarrow> boot \<Rightarrow> NodeConfig \<Rightarrow> PeerPublicRecord \<Rightarrow> bool" where
  "peer_attested W b cfg rec \<longleftrightarrow>
    (\<exists>attempts \<in> set (b_fetchRounds b). \<exists>p. observed attempts p \<and>
      tagged_datagram W (configured_gcs cfg) ROOT_RECORD_BYTES p \<and> readBuffer p ! 4 = OP_ROOT_RECORD \<and>
      read_at 8 ID_BYTES (readBuffer p) = peerId cfg \<and> rec = parseRootRecord (readBuffer p))"

lemma configured_gcs_fields [simp]:
  "m_gcsIp (configured_gcs cfg) = gcsIp cfg" "m_gcsPort (configured_gcs cfg) = gcsPort cfg"
  "m_deviceId (configured_gcs cfg) = deviceId cfg" "m_peerId (configured_gcs cfg) = peerId cfg"
  by (simp_all add: configured_gcs_def GcsLedgerClient_begin_def)

lemma fetched_attested:
  assumes "wolf_sizes W" and "boot_arrays b" and "length (peerId cfg) = ID_BYTES" and "same_peers (configured_gcs cfg) g"
    and "fetchPeerRoot W version (b_fetchRounds b) g = Some (Some rec, g')"
  shows "peer_attested W b cfg rec \<and> p_version rec = version \<and> p_ready rec"
proof -
  have peer: "m_peerId g = peerId cfg" and addr: "m_gcsIp g = gcsIp cfg" "m_gcsPort g = gcsPort cfg"
    using assms(4) by (simp_all add: same_peers_def)
  have "\<forall>attempts \<in> set (b_fetchRounds b). gcs_buffers attempts" using assms(2) by (simp add: boot_arrays_def)
  from fetchPeerRoot_sound [OF assms(1) _ this assms(5)] show ?thesis
    using assms(3) peer addr by (simp add: peer_attested_def tagged_datagram_def) blast
qed

section \<open>The requests of a boot\<close>

text \<open>The request with the bytes \<open>body\<close> and their tag, sent to the repository once or several times.\<close>

definition posted :: "wolf \<Rightarrow> NodeConfig \<Rightarrow> bytes \<Rightarrow> (u32 \<times> u16 \<times> bytes) list \<Rightarrow> bool" where
  "posted W cfg body log \<longleftrightarrow>
    (\<exists>tag n. computeTag W body = Inr tag \<and> log = replicate (Suc n) (gcsIp cfg, gcsPort cfg, body @ tag))"

definition root_request :: "NodeConfig \<Rightarrow> LmsState \<Rightarrow> bytes \<Rightarrow> bytes" where
  "root_request cfg lms r =
    GCS2 @ [OP_ENROLL_ROOT] @ zeros 3 @ deviceId cfg @ putU32 (credentialVersion cfg) @ m_identifier lms @ r @
    putU32 (suiteIdForMode (pathMode cfg)) @ [CREDENTIAL_STATUS_ACTIVE] @ zeros 3 @ putU64 (credentialExpiryUnix cfg)"

definition path_request :: "NodeConfig \<Rightarrow> u32 \<Rightarrow> bytes \<Rightarrow> bytes" where
  "path_request cfg q path =
    GCS2 @ [OP_ENROLL_PATH] @ zeros 3 @ deviceId cfg @ putU32 (credentialVersion cfg) @ putU32 q @ path"

definition peer_request :: "NodeConfig \<Rightarrow> bytes" where
  "peer_request cfg =
    GCS2 @ [OP_GET_ROOT] @ zeros 3 @ deviceId cfg @ peerId cfg @ putU32 (peerCredentialVersion cfg)"

text \<open>
  What a boot sends to the repository: the enrolment of the device's own root, in
  repository mode the enrolment of its own path for every index of its range, in order, and
  the query for the peer's root.
\<close>

definition paths_posted :: "wolf \<Rightarrow> NodeConfig \<Rightarrow> LmsState \<Rightarrow> (u32 \<times> u16 \<times> bytes) list list \<Rightarrow> bool" where
  "paths_posted W cfg lms logs \<longleftrightarrow>
    list_all2 (\<lambda>i log. \<exists>path. extractPath lms (firstQ cfg + of_nat i) = Some path \<and>
      posted W cfg (path_request cfg (firstQ cfg + of_nat i) path) log) [0..<unat (numberOfSessions cfg)] logs"

definition boot_requests :: "wolf \<Rightarrow> NodeConfig \<Rightarrow> LmsState \<Rightarrow> (u32 \<times> u16 \<times> bytes) list \<Rightarrow> bool" where
  "boot_requests W cfg lms log \<longleftrightarrow>
    (\<exists>r rootLog pathLogs peerLog. root lms = Some r \<and> posted W cfg (root_request cfg lms r) rootLog \<and>
      (if pathMode cfg = RepositoryAssisted then paths_posted W cfg lms pathLogs else pathLogs = []) \<and>
      posted W cfg (peer_request cfg) peerLog \<and> log = rootLog @ concat pathLogs @ peerLog)"

lemma sealed_posted:
  assumes "sealRequest W (body @ zeros HMAC_BYTES) = Inr packet" and "wolf_sizes W" and "same_peers (configured_gcs cfg) g"
  shows "posted W cfg body (copies_sent g (Suc n) packet)"
proof -
  from assms(1) obtain tag where tag: "computeTag W body = Inr tag" by (auto simp: sealRequest_def bindE_eq_Inr)
  then have "packet = body @ tag" using sealRequest_layout [OF assms(2) refl tag] assms(1) by simp
  then show ?thesis using tag assms(3) by (auto simp: posted_def copies_sent_def same_peers_def simp del: replicate.simps)
qed

lemma publishRoot_posts:
  assumes "publishRoot W b n = (Some True, n')" and W: "wolf_sizes W" and n: "node_arrays n"
    and g: "same_peers (configured_gcs (config n)) (m_gcs n)"
  obtains r log where "root (m_lms n) = Some r" and "posted W (config n) (root_request (config n) (m_lms n) r) log"
    and "gcs_sent (m_gcs n') = gcs_sent (m_gcs n) @ log"
proof -
  let ?cfg = "config n" and ?g = "m_gcs n"
  from assms(1) have run: "enrollOwnRoot W (m_lms n) (credentialVersion ?cfg) (suiteIdForMode (pathMode ?cfg))
      CREDENTIAL_STATUS_ACTIVE (credentialExpiryUnix ?cfg) (b_rootNet b) ?g = Some (True, m_gcs n')"
    by (auto simp: publishRoot_def split: option.splits)
  from enrollOwnRoot_log [OF run] obtain r packet k where r: "root (m_lms n) = Some r"
    and seal: "sealRequest W (enrollRootRequest (m_deviceId ?g) (m_identifier (m_lms n)) r (credentialVersion ?cfg)
      (suiteIdForMode (pathMode ?cfg)) CREDENTIAL_STATUS_ACTIVE (credentialExpiryUnix ?cfg)) = Inr packet"
    and log: "gcs_sent (m_gcs n') = gcs_sent ?g @ copies_sent ?g (Suc k) packet" by blast
  have len: "m_deviceId ?g = deviceId ?cfg" "length (deviceId ?cfg) = ID_BYTES" "length (m_identifier (m_lms n)) = 16"
    and r_len: "length r = HASH_BYTES"
    using g n r by (auto simp: same_peers_def node_arrays_def config_arrays_def lms_arrays_def root_def split: option.splits)
  have "posted W ?cfg (root_request ?cfg (m_lms n) r) (copies_sent ?g (Suc k) packet)"
    using seal unfolding len(1) enrollRoot_layout [OF len(2,3) r_len]
    by (intro sealed_posted [OF _ W g]) (simp add: root_request_def)
  then show ?thesis using that r log by blast
qed

lemma publishPaths_posts:
  assumes "publishPaths W b n = (Some True, n')" and W: "wolf_sizes W" and n: "node_arrays n"
    and g: "same_peers (configured_gcs (config n)) (m_gcs n)"
  obtains logs where "if pathMode (config n) = RepositoryAssisted then paths_posted W (config n) (m_lms n) logs else logs = []"
    and "gcs_sent (m_gcs n') = gcs_sent (m_gcs n) @ concat logs"
proof (cases "pathMode (config n) = RepositoryAssisted")
  case True
  let ?cfg = "config n" and ?g = "m_gcs n"
  from assms(1) True have "enrollPathsFrom W (m_lms n) (credentialVersion ?cfg) (firstQ ?cfg) (b_pathNet b)
      [0..<unat (numberOfSessions ?cfg)] ?g = Some (True, m_gcs n')"
    by (auto simp: publishPaths_def enrollOwnPaths_def split: option.splits if_splits)
  from enrollPathsFrom_log [OF this] obtain logs where logs: "gcs_sent (m_gcs n') = gcs_sent ?g @ concat logs"
    and all: "list_all2 (\<lambda>i log. \<exists>path packet k. extractPath (m_lms n) (firstQ ?cfg + of_nat i) = Some path \<and>
      sealRequest W (enrollPathRequest (m_deviceId ?g) (credentialVersion ?cfg) (firstQ ?cfg + of_nat i) path) = Inr packet \<and>
      log = copies_sent ?g (Suc k) packet) [0..<unat (numberOfSessions ?cfg)] logs" by blast
  have dev: "m_deviceId ?g = deviceId ?cfg" "length (deviceId ?cfg) = ID_BYTES" and lms: "lms_arrays (m_lms n)"
    using g n by (simp_all add: same_peers_def node_arrays_def config_arrays_def)
  have "paths_posted W ?cfg (m_lms n) logs"
    unfolding paths_posted_def
  proof (rule list_all2_mono [OF all])
    fix i log
    assume "\<exists>path packet k. extractPath (m_lms n) (firstQ ?cfg + of_nat i) = Some path \<and>
      sealRequest W (enrollPathRequest (m_deviceId ?g) (credentialVersion ?cfg) (firstQ ?cfg + of_nat i) path) = Inr packet \<and>
      log = copies_sent ?g (Suc k) packet"
    then obtain path packet k where path: "extractPath (m_lms n) (firstQ ?cfg + of_nat i) = Some path"
      and seal: "sealRequest W (enrollPathRequest (m_deviceId ?g) (credentialVersion ?cfg) (firstQ ?cfg + of_nat i) path) = Inr packet"
      and log: "log = copies_sent ?g (Suc k) packet" by blast
    have "posted W ?cfg (path_request ?cfg (firstQ ?cfg + of_nat i) path) log"
      unfolding log using seal unfolding dev(1) enrollPath_layout [OF dev(2) extractPath_length [OF lms path]]
      by (intro sealed_posted [OF _ W g]) (simp add: path_request_def)
    then show "\<exists>path. extractPath (m_lms n) (firstQ ?cfg + of_nat i) = Some path \<and>
      posted W ?cfg (path_request ?cfg (firstQ ?cfg + of_nat i) path) log" using path by blast
  qed
  then show ?thesis using that [of logs] True logs by simp
next
  case False
  then show ?thesis using that [of "[]"] assms(1) by (simp add: publishPaths_def)
qed

lemma fetchPeer_posts:
  assumes "fetchPeer W b n = (Some True, n')" and W: "wolf_sizes W" and n: "node_arrays n"
    and g: "same_peers (configured_gcs (config n)) (m_gcs n)"
  obtains log where "posted W (config n) (peer_request (config n)) log" and "gcs_sent (m_gcs n') = gcs_sent (m_gcs n) @ log"
proof -
  let ?cfg = "config n" and ?g = "m_gcs n"
  from assms(1) obtain rec packet where
    seal: "sealRequest W (getRootRequest (m_deviceId ?g) (m_peerId ?g) (peerCredentialVersion ?cfg)) = Inr packet"
    and run: "fetchRootRounds W packet (peerCredentialVersion ?cfg) 120 (b_fetchRounds b) ?g = Some (Some rec, m_gcs n')"
    by (auto simp: fetchPeer_def fetchPeerRoot_def split: option.splits sum.splits)
  obtain k where log: "gcs_sent (m_gcs n') = gcs_sent ?g @ copies_sent ?g (Suc k) packet"
    using fetchRootRounds_log [OF run] by blast
  have ids: "m_deviceId ?g = deviceId ?cfg" "m_peerId ?g = peerId ?cfg" "length (deviceId ?cfg) = ID_BYTES" "length (peerId ?cfg) = ID_BYTES"
    using g n by (simp_all add: same_peers_def node_arrays_def config_arrays_def)
  have "posted W ?cfg (peer_request ?cfg) (copies_sent ?g (Suc k) packet)"
    using seal unfolding ids(1,2) getRoot_layout [OF ids(3,4)]
    by (intro sealed_posted [OF _ W g]) (simp add: peer_request_def)
  then show ?thesis using that log by blast
qed

section \<open>A successful boot\<close>

definition provisioned :: "wolf \<Rightarrow> boot \<Rightarrow> node \<Rightarrow> bool" where
  "provisioned W b n \<longleftrightarrow>
    m_bootSeed n = zeros HASH_BYTES \<and> m_identifier (m_lms n) = lmsIdentifier (config n) \<and>
    (\<exists>seed. runtimeSeed W (b_puf b) (config n) = Some seed \<and> built_from W seed (m_lms n)) \<and>
    acknowledged W (credentialVersion (config n)) ANY_Q (b_rootNet b) (configured_gcs (config n)) \<and>
    (pathMode (config n) = RepositoryAssisted \<longrightarrow> paths_published W b (config n) (configured_gcs (config n))) \<and>
    peer_attested W b (config n) (m_peerRecord n) \<and>
    validatePeerRecord (b_now b) (peerCredentialVersion (config n)) n"

lemma prepare_True:
  assumes "wolf_sizes W" and "boot_arrays b" and "config_arrays (config n)"
    and "prepareLmsAndLedger W b n = (Some True, n')"
  shows "provisioned W b n' \<and> config n' = config n \<and> nextq n' = nextq n"
proof -
  let ?cfg = "config n"
  note cfg = assms(3) [unfolded config_arrays_def]
  from assms(4) obtain n1 n2 n3 n4 n5 n6 n7 n8 n9
    where s1: "deriveBootSeed W b n = (Some True, n1)" and s2: "initializeLms b n1 = (Some True, n2)"
      and s3: "buildLmsTree W n2 = (Some True, n3)" and s4: "connectWiFi b n3 = (Some True, n4)"
      and s5: "startTransport b n4 = (Some True, n5)" and s6: "startGcs b n5 = (Some True, n6)"
      and s7: "publishRoot W b n6 = (Some True, n7)" and s8: "publishPaths W b n7 = (Some True, n8)"
      and s9: "fetchPeer W b n8 = (Some True, n9)" and s10: "checkPeer b n9 = (Some True, n')"
    by (auto simp: prepareLmsAndLedger_def provisioningStages_def result_simps)
  obtain seed where seed: "runtimeSeed W (b_puf b) ?cfg = Some seed" and n1: "n1 = n\<lparr>m_bootSeed := seed\<rparr>"
    by (rule deriveBootSeed_True [OF s1])
  have seed_len: "length seed = HASH_BYTES" using runtimeSeed_length [OF assms(1) seed] .
  obtain lms0 where init: "initialize (b_mallocOk b) (lmsIdentifier ?cfg) seed (m_lms n) = (True, lms0)"
    and n2: "n2 = n1\<lparr>m_lms := lms0\<rparr>" by (rule initializeLms_True [OF s2]) (simp add: n1)
  obtain lms where build: "buildTree W lms0 = (Inr (), lms)"
    and n3: "n3 = n2\<lparr>m_lms := lms, m_bootSeed := secureZero HASH_BYTES (m_bootSeed n2)\<rparr>"
    by (rule buildLmsTree_True [OF s3]) (simp add: n2)
  have built: "built_from W seed lms" "m_identifier lms = lmsIdentifier ?cfg"
    using built_fields [OF init _ seed_len build] cfg by simp_all
  obtain t where n5: "n5 = n3\<lparr>m_transport := t\<rparr>"
    using startTransport_True [OF s5] connectWiFi_True [OF s4] by metis
  have cfg5: "config n5 = ?cfg" by (simp add: n5 n3 n2 n1)
  obtain g6 where g6: "same_peers (configured_gcs ?cfg) g6" and n6: "n6 = n5\<lparr>m_gcs := g6\<rparr>"
    by (rule startGcs_True [OF s6]) (simp add: cfg5)
  obtain g7 where g7: "same_peers g6 g7" and root_ack: "acknowledged W (credentialVersion ?cfg) ANY_Q (b_rootNet b) g6"
    and n7: "n7 = n6\<lparr>m_gcs := g7\<rparr>" by (rule publishRoot_True [OF s7]) (simp add: n6 cfg5)
  note to7 = same_peers_trans [OF g6 g7]
  obtain g8 where g8: "same_peers g7 g8" and n8: "n8 = n7\<lparr>m_gcs := g8\<rparr>"
    and paths: "pathMode ?cfg = RepositoryAssisted \<longrightarrow> paths_published W b ?cfg g7"
    by (rule publishPaths_True [OF s8]) (simp add: n7 n6 cfg5)
  obtain g9 rec where fetch: "fetchPeerRoot W (peerCredentialVersion ?cfg) (b_fetchRounds b) g8 = Some (Some rec, g9)"
    and n9: "n9 = n8\<lparr>m_gcs := g9, m_peerRecord := rec\<rparr>"
    by (rule fetchPeer_True [OF s9]) (simp add: n8 n7 n6 cfg5)
  have peer: "peer_attested W b ?cfg rec \<and> p_version rec = peerCredentialVersion ?cfg"
    using fetched_attested [OF assms(1,2) _ same_peers_trans [OF to7 g8] fetch] cfg by simp
  have n': "n' = n9" and valid: "validatePeerRecord (b_now b) (p_version rec) n9"
    using s10 by (auto simp: checkPeer_def guard_def n9 split: if_splits)
  have fields: "config n9 = ?cfg" "nextq n9 = nextq n" "m_lms n9 = lms" "m_peerRecord n9 = rec"
    "m_bootSeed n9 = secureZero HASH_BYTES seed"
    by (simp_all add: n9 n8 n7 n6 n5 n3 n2 n1)
  show ?thesis
    using built seed peer valid paths root_ack fields seed_len
    by (auto simp: n' provisioned_def secureZero_eq paths_published_def acknowledged_same [OF g6] acknowledged_same [OF to7])
qed

lemma build_spares:
  "list_all (spares (\<lambda>n. (config n, m_gcs n))) [deriveBootSeed W b, initializeLms b, buildLmsTree W, connectWiFi b, startTransport b]"
  by (simp add: spares_def deriveBootSeed_def initializeLms_def buildLmsTree_def connectWiFi_def startTransport_def
      split: sum.split option.split prod.split)

lemma prepare_posts:
  assumes W: "wolf_sizes W" and b: "boot_arrays b" and n: "node_arrays n"
    and "prepareLmsAndLedger W b n = (Some True, n')"
  shows "\<exists>log. gcs_sent (m_gcs n') = gcs_sent (m_gcs n) @ log \<and> boot_requests W (config n) (m_lms n') log"
proof -
  let ?cfg = "config n"
  let ?pre = "[deriveBootSeed W b, initializeLms b, buildLmsTree W, connectWiFi b, startTransport b, startGcs b]"
  from assms(4) obtain n5 n6 n7 n8 n9
    where "runStages [deriveBootSeed W b, initializeLms b, buildLmsTree W, connectWiFi b, startTransport b] n = (Some True, n5)"
      and s6: "startGcs b n5 = (Some True, n6)"
      and s7: "publishRoot W b n6 = (Some True, n7)" and s8: "publishPaths W b n7 = (Some True, n8)"
      and s9: "fetchPeer W b n8 = (Some True, n9)" and s10: "checkPeer b n9 = (Some True, n')"
    by (auto simp: prepareLmsAndLedger_def provisioningStages_def result_simps)
  note pre = this(1)
  have n5: "config n5 = ?cfg" "gcs_sent (m_gcs n5) = gcs_sent (m_gcs n)"
    using spares_result [OF spares_run [OF build_spares] pre] by simp_all
  obtain g6 where g6: "same_peers (configured_gcs ?cfg) g6" and n6: "n6 = n5\<lparr>m_gcs := g6\<rparr>" and log6: "gcs_sent g6 = gcs_sent (m_gcs n)"
    by (rule startGcs_True [OF s6]) (simp add: n5)
  obtain g7 where g7: "same_peers g6 g7" and n7: "n7 = n6\<lparr>m_gcs := g7\<rparr>" by (rule publishRoot_True [OF s7]) (simp add: n6)
  obtain g8 where g8: "same_peers g7 g8" and n8: "n8 = n7\<lparr>m_gcs := g8\<rparr>" by (rule publishPaths_True [OF s8]) (simp add: n7)
  obtain g9 rec where n9: "n9 = n8\<lparr>m_gcs := g9, m_peerRecord := rec\<rparr>" by (rule fetchPeer_True [OF s9])
  have n': "n' = n9" using s10 by (simp add: checkPeer_def guard_def split: if_splits)
  note keeps = provisioning_keeps_arrays [OF W b, unfolded provisioningStages_def, simplified]
  have "list_all boot_keeps [deriveBootSeed W b, initializeLms b, buildLmsTree W, connectWiFi b, startTransport b]" using keeps by simp
  from boot_keeps_run [OF this n] have a5: "node_arrays n5" using pre by simp
  have step: "node_arrays m'" if "boot_keeps f" "f m = (r, m')" "node_arrays m" for f m r m'
    using that unfolding boot_keeps_def by (metis snd_conv)
  have a6: "node_arrays n6" and a7: "node_arrays n7" and a8: "node_arrays n8"
    using keeps step [where f = "startGcs b", OF _ s6 a5] step [where f = "publishRoot W b", OF _ s7]
      step [where f = "publishPaths W b", OF _ s8] by simp_all
  have cfg: "config n6 = ?cfg" "config n7 = ?cfg" "config n8 = ?cfg" by (simp_all add: n8 n7 n6 n5)
  have lms: "m_lms n7 = m_lms n6" "m_lms n' = m_lms n6" by (simp_all add: n' n9 n8 n7)
  obtain r rootLog where r: "root (m_lms n6) = Some r" "posted W ?cfg (root_request ?cfg (m_lms n6) r) rootLog"
      "gcs_sent (m_gcs n7) = gcs_sent (m_gcs n6) @ rootLog"
    by (rule publishRoot_posts [OF s7 W a6, unfolded cfg]) (simp add: n6 g6)
  obtain logs where p: "if pathMode ?cfg = RepositoryAssisted then paths_posted W ?cfg (m_lms n6) logs else logs = []"
      "gcs_sent (m_gcs n8) = gcs_sent (m_gcs n7) @ concat logs"
    by (rule publishPaths_posts [OF s8 W a7, unfolded cfg lms]) (simp add: n7 same_peers_trans [OF g6 g7])
  obtain peerLog where q: "posted W ?cfg (peer_request ?cfg) peerLog" "gcs_sent (m_gcs n9) = gcs_sent (m_gcs n8) @ peerLog"
    by (rule fetchPeer_posts [OF s9 W a8, unfolded cfg]) (simp add: n8 same_peers_trans [OF same_peers_trans [OF g6 g7] g8])
  have "boot_requests W ?cfg (m_lms n6) (rootLog @ concat logs @ peerLog)"
    unfolding boot_requests_def using r(1,2) p(1) q(1) by blast
  moreover have "gcs_sent (m_gcs n') = gcs_sent (m_gcs n) @ (rootLog @ concat logs @ peerLog)"
    using r(3) p(2) q(2) by (simp add: n' n6 log6)
  ultimately show ?thesis using lms(2) by metis
qed

lemma begin_posts:
  assumes "wolf_sizes W" and "boot_arrays b" and "node_arrays n" and "protocolBegin W b n = (Some True, n')"
  shows "\<exists>log. gcs_sent (m_gcs n') = gcs_sent (m_gcs n) @ log \<and> boot_requests W (config n) (m_lms n') log"
proof -
  from assms(4) obtain m n1 n2 n3 where range: "checkRange n = (Some True, m)"
      and prepare: "prepareLmsAndLedger W b m = (Some True, n1)" and rng: "startRng W n1 = (Some True, n2)"
      and counter: "openCounter b n2 = (Some True, n3)" and n': "n' = n3\<lparr>m_ready := True\<rparr>"
    by (auto simp: protocolBegin_def result_simps)
  have "m = n" using range by (simp add: checkRange_def guard_def split: if_splits)
  moreover have "m_gcs n' = m_gcs n1 \<and> m_lms n' = m_lms n1"
    using rng counter by (auto simp: n' startRng_def openCounter_def initializePersistentCounter_def Let_def split: if_splits)
  ultimately show ?thesis using prepare_posts [OF assms(1-3)] prepare by simp
qed

lemma begin_True:
  assumes "wolf_sizes W" and "boot_arrays b" and "config_arrays (config n)" and "protocolBegin W b n = (Some True, n')"
  shows "provisioned W b n' \<and> config n' = config n \<and> m_ready n' \<and> m_rngInitialized n' \<and>
    \<not> qOutOfRange (storedQ n') n' \<and>
    (nextq n' = nextq n \<or> resetQCounter (config n) \<and> nextq n' = Some (firstQ (config n)))"
proof -
  from assms(4) obtain m n1 n2 n3 where range: "checkRange n = (Some True, m)"
      and prepare: "prepareLmsAndLedger W b m = (Some True, n1)" and rng: "startRng W n1 = (Some True, n2)"
      and counter: "openCounter b n2 = (Some True, n3)" and n': "n' = n3\<lparr>m_ready := True\<rparr>"
    by (auto simp: protocolBegin_def result_simps)
  have m: "m = n" using range by (simp add: checkRange_def guard_def split: if_splits)
  note p = prepare_True [OF assms(1-3) prepare [unfolded m]]
  have n2: "n2 = n1\<lparr>m_rngInitialized := True\<rparr>" using rng by (simp add: startRng_def split: if_splits)
  have n3: "\<not> qOutOfRange (storedQ n3) n3" "n3 = n2 \<or> resetQCounter (config n) \<and> n3 = n2\<lparr>nextq := Some (firstQ (config n))\<rparr>"
    using counter p by (auto simp: openCounter_def initializePersistentCounter_def n2 Let_def split: if_splits)
  have "provisioned W b n' \<longleftrightarrow> provisioned W b n1" "config n' = config n1" "nextq n' = nextq n3" "m_rngInitialized n'" "m_ready n'"
    using n3(2) by (auto simp: n' n2 provisioned_def validatePeerRecord_def)
  moreover have "qOutOfRange (storedQ n') n' = qOutOfRange (storedQ n3) n3"
    using storedQ_cong [of n' n3] by (simp add: n' qOutOfRange_def)
  moreover have "nextq n3 = nextq n1 \<or> resetQCounter (config n) \<and> nextq n3 = Some (firstQ (config n))"
    using n3(2) by (auto simp: n2)
  ultimately show ?thesis using p n3(1) by simp
qed

section \<open>Boots that succeed\<close>

text \<open>
  The device's own part of a boot goes well, and the repository acknowledges the enrolment
  and serves a valid record of the peer to the first request.
\<close>

definition boot_ok :: "wolf \<Rightarrow> boot \<Rightarrow> NodeConfig \<Rightarrow> bool" where
  "boot_ok W b cfg \<longleftrightarrow>
    (\<exists>pufRoot. b_puf b cfg = Some pufRoot \<and> length pufRoot = HASH_BYTES) \<and> b_mallocOk b \<and>
    waitWiFi (b_wifiStart b) (b_wifiPolls b) \<and> b_wifiConnected b \<and> b_udpBegin b = 1 \<and> b_gcsUdpBegin b = 1 \<and>
    wc_InitRng W = 0 \<and> b_nvsOk b"

definition exchange_with :: "NodeConfig \<Rightarrow> nat \<Rightarrow> bytes \<Rightarrow> gcs_attempt \<Rightarrow> bool" where
  "exchange_with cfg len reply a \<longleftrightarrow>
    beginPacketOk (sendOutcome a) \<and> written (sendOutcome a) = len \<and> endPacketOk (sendOutcome a) \<and>
    (\<exists>p post. attemptPolls a = p # post \<and> pollMillis p - attemptStart a < GCS_TIMEOUT_MS \<and> replies (configured_gcs cfg) reply p)"

definition repository_serves :: "hmac \<Rightarrow> NodeConfig \<Rightarrow> boot \<Rightarrow> bool" where
  "repository_serves H cfg b \<longleftrightarrow>
    (\<exists>a as q. b_rootNet b = a # as \<and>
      exchange_with cfg ROOT_RECORD_BYTES (build_ack H (deviceId cfg) (credentialVersion cfg) q 0) a) \<and>
    (\<exists>a as rounds ident r. b_fetchRounds b = (a # as) # rounds \<and> length ident = 16 \<and> length r = HASH_BYTES \<and>
      exchange_with cfg GET_ROOT_BYTES (build_root_response H (peerId cfg) (peerCredentialVersion cfg)
        (ident, r, suiteIdForMode (pathMode cfg), CREDENTIAL_STATUS_ACTIVE, 0)) a)"

lemma replies_same: "same_peers g g' \<Longrightarrow> replies g' reply p = replies g reply p"
  by (simp add: replies_def same_peers_def)

lemma enrollOwnRoot_succeeds:
  assumes W: "wolf_sizes W" "same_hmac W H" and cfg: "config_arrays cfg" and g: "same_peers (configured_gcs cfg) g"
    and lms: "root lms = Some r" "length r = HASH_BYTES" "length (m_identifier lms) = 16" and status: "status \<le> 3"
    and a: "exchange_with cfg ROOT_RECORD_BYTES (build_ack H (deviceId cfg) version q 0) a"
  shows "\<exists>g'. enrollOwnRoot W lms version suiteId status expiry (a # as) g = Some (True, g') \<and> same_peers g g'"
proof -
  have dev: "m_deviceId g = deviceId cfg" "length (deviceId cfg) = ID_BYTES"
    using g cfg by (simp_all add: same_peers_def config_arrays_def)
  obtain request where seal: "sealRequest W (enrollRootRequest (deviceId cfg) (m_identifier lms) r version suiteId status expiry) = Inr request"
  proof -
    have "\<exists>r'. sealRequest W (enrollRootRequest (deviceId cfg) (m_identifier lms) r version suiteId status expiry) = Inr r'"
      unfolding enrollRoot_layout [OF dev(2) lms(3,2)] by (rule sealed_exists [OF W]) (use dev(2) lms(2,3) in simp)
    then show ?thesis using that by blast
  qed
  have sent: "sent_ok request a"
    using a parse_enroll_root(2) [OF W dev(2) lms(3,2) seal status] by (simp add: exchange_with_def sent_ok_def)
  obtain p post where p: "attemptPolls a = [] @ p # post" "pollMillis p - attemptStart a < GCS_TIMEOUT_MS"
    "replies g (build_ack H (deviceId cfg) version q 0) p"
    using a replies_same [OF g] by (auto simp: exchange_with_def)
  note ack = ack_answers [OF W dev(2) p(3), of ANY_Q, simplified]
  from sendAndReceive_answer [OF sent p(1) _ p(2) ack(1)] obtain g'
    where "sendAndReceive W request OP_ACK version ANY_Q (a # as) g = Some (Some ACK_BYTES, g')"
      and "m_buffer g' = readBuffer p" and "same_peers g g'" by (auto simp: ack(2))
  then show ?thesis using lms(1) seal ack(3) by (simp add: enrollOwnRoot_def dev(1))
qed

lemma fetchPeerRoot_succeeds:
  assumes W: "wolf_sizes W" "same_hmac W H" and cfg: "config_arrays cfg" and g: "same_peers (configured_gcs cfg) g"
    and len: "length ident = 16" "length r = HASH_BYTES"
    and a: "exchange_with cfg GET_ROOT_BYTES (build_root_response H (peerId cfg) version (ident, r, suiteId, status, expiry)) a"
  shows "\<exists>g'. fetchPeerRoot W version ((a # as) # rounds) g = Some (Some \<lparr>p_ready = True, p_version = version,
    p_identifier = ident, p_root = r, p_suiteId = suiteId, p_status = status, p_expiryUnix = expiry\<rparr>, g')"
proof -
  have ids: "m_deviceId g = deviceId cfg" "length (deviceId cfg) = ID_BYTES" "m_peerId g = peerId cfg" "length (peerId cfg) = ID_BYTES"
    using g cfg by (simp_all add: same_peers_def config_arrays_def)
  obtain request where seal: "sealRequest W (getRootRequest (deviceId cfg) (peerId cfg) version) = Inr request"
  proof -
    have "\<exists>r'. sealRequest W (getRootRequest (deviceId cfg) (peerId cfg) version) = Inr r'"
      unfolding getRoot_layout [OF ids(2,4)] by (rule sealed_exists [OF W]) (use ids(2,4) in simp)
    then show ?thesis using that by blast
  qed
  have sent: "sent_ok request a"
    using a parse_get_root_request(2) [OF W ids(2,4) seal] by (simp add: exchange_with_def sent_ok_def)
  obtain p post where p: "attemptPolls a = [] @ p # post" "pollMillis p - attemptStart a < GCS_TIMEOUT_MS"
    "replies g (build_root_response H (peerId cfg) version (ident, r, suiteId, status, expiry)) p"
    using a replies_same [OF g] by (auto simp: exchange_with_def)
  note reply = root_response_answers [OF W ids(4) len p(3)]
  have buf: "length (readBuffer p) = MAX_GCS_PACKET_BYTES" using p(3) by (simp add: replies_def)
  have seal': "sealRequest W (getRootRequest (m_deviceId g) (m_peerId g) version) = Inr request"
    and peer: "read_at 8 ID_BYTES (readBuffer p) = m_peerId g" "length (m_peerId g) = ID_BYTES"
    using seal reply(3) ids by simp_all
  show ?thesis
    using fetchPeerRoot_answer [OF seal' sent p(1) _ p(2) reply(1,2) peer buf] by (simp add: reply(4))
qed

lemma boot_builds:
  assumes W: "wolf_works W" "wolf_sizes W" and cfg: "config_arrays (config n)" and ok: "boot_ok W b (config n)"
  obtains seed lms t g r where
    "runStages [deriveBootSeed W b, initializeLms b, buildLmsTree W, connectWiFi b, startTransport b, startGcs b] n =
      (Some True, n\<lparr>m_lms := lms, m_bootSeed := secureZero HASH_BYTES seed, m_transport := t, m_gcs := g\<rparr>)"
    and "same_peers (configured_gcs (config n)) g" and "root lms = Some r" and "length r = HASH_BYTES"
    and "m_identifier lms = lmsIdentifier (config n)"
proof -
  let ?cfg = "config n"
  note len = cfg [unfolded config_arrays_def]
  note b = ok [unfolded boot_ok_def]
  then obtain pufRoot where puf: "b_puf b ?cfg = Some pufRoot" "length pufRoot = HASH_BYTES" by blast
  have "succeeds (deriveLmsSeed W pufRoot (deviceId ?cfg) (credentialVersion ?cfg) (lmsIdentifier ?cfg))"
    unfolding deriveLmsSeed_def by (rule hkdfSha256_succeeds [OF W]) (use puf(2) len in \<open>simp_all add: lms_seed_label_def\<close>)
  then obtain seed where seed: "deriveLmsSeed W pufRoot (deviceId ?cfg) (credentialVersion ?cfg) (lmsIdentifier ?cfg) = Inr seed"
    by (auto simp: succeeds_iff)
  then have seed_len: "length seed = HASH_BYTES" using hkdfSha256_Inr_length [OF W(2)] by (auto simp: deriveLmsSeed_def)
  obtain lms0 where init: "initialize True (lmsIdentifier ?cfg) seed (m_lms n) = (True, lms0)" by (simp add: initialize_def)
  note lms0 = initialize_True [OF init]
  obtain lms where build: "buildTree W lms0 = (Inr (), lms)"
    using buildTree_succeeds [OF W(2) wolf_works_buffers [OF W(1)], of lms0] lms0 len seed_len by auto
  note built = built_fields [OF init _ seed_len build]
  obtain r where r: "root lms = Some r" using extractPath_root_built [OF built(1), of 0] len by auto
  let ?g = "(m_gcs n)\<lparr>m_gcsIp := gcsIp ?cfg, m_gcsPort := gcsPort ?cfg, m_gcsLocalPort := gcsLocalPort ?cfg,
    m_deviceId := deviceId ?cfg, m_peerId := peerId ?cfg\<rparr>"
  have "runStages [deriveBootSeed W b, initializeLms b, buildLmsTree W, connectWiFi b, startTransport b, startGcs b] n =
      (Some True, n\<lparr>m_lms := lms, m_bootSeed := secureZero HASH_BYTES seed,
        m_transport := (m_transport n)\<lparr>m_localPort := protocolPort ?cfg\<rparr>, m_gcs := ?g\<rparr>)"
    using b puf seed init build len W(1)
    by (simp add: andThen_def deriveBootSeed_def helperDataDigest_def sha256_works initializeLms_def buildLmsTree_def connectWiFi_def
        startTransport_def FragmentedUdp_begin_def startGcs_def GcsLedgerClient_begin_def Let_def)
  moreover have "same_peers (configured_gcs ?cfg) ?g"
    by (simp add: same_peers_def configured_gcs_def GcsLedgerClient_begin_def)
  ultimately show ?thesis using that r built len root_length [OF W(2) built(1) r] by simp
qed

lemma boot_completes:
  assumes W: "wolf_works W" "wolf_sizes W" "same_hmac W H" and cfg: "config_arrays (config n)" and ok: "boot_ok W b (config n)"
    and serves: "repository_serves H (config n) b" and mode: "pathMode (config n) = SignerCarried"
    and range: "checkRange n = (Some True, n)" and left: "\<not> qOutOfRange (storedQ n) n" and keep: "\<not> resetQCounter (config n)"
  shows "\<exists>n'. protocolBegin W b n = (Some True, n')"
proof -
  let ?cfg = "config n"
  note len = cfg [unfolded config_arrays_def]
  obtain seed lms t g r where run:
    "runStages [deriveBootSeed W b, initializeLms b, buildLmsTree W, connectWiFi b, startTransport b, startGcs b] n =
      (Some True, n\<lparr>m_lms := lms, m_bootSeed := secureZero HASH_BYTES seed, m_transport := t, m_gcs := g\<rparr>)"
    and g: "same_peers (configured_gcs ?cfg) g" and lms: "root lms = Some r" "length r = HASH_BYTES"
    "m_identifier lms = lmsIdentifier ?cfg"
    by (rule boot_builds [OF W(1,2) cfg ok])
  let ?n = "n\<lparr>m_lms := lms, m_bootSeed := secureZero HASH_BYTES seed, m_transport := t, m_gcs := g\<rparr>"
  from serves obtain a as q a' as' rounds ident r'
    where net: "b_rootNet b = a # as" "exchange_with ?cfg ROOT_RECORD_BYTES (build_ack H (deviceId ?cfg) (credentialVersion ?cfg) q 0) a"
      and net': "b_fetchRounds b = (a' # as') # rounds" "length ident = 16" "length r' = HASH_BYTES"
        "exchange_with ?cfg GET_ROOT_BYTES (build_root_response H (peerId ?cfg) (peerCredentialVersion ?cfg)
          (ident, r', suiteIdForMode (pathMode ?cfg), CREDENTIAL_STATUS_ACTIVE, 0)) a'"
    unfolding repository_serves_def by blast
  obtain g1 where g1: "enrollOwnRoot W lms (credentialVersion ?cfg) (suiteIdForMode (pathMode ?cfg)) CREDENTIAL_STATUS_ACTIVE
      (credentialExpiryUnix ?cfg) (b_rootNet b) g = Some (True, g1)" "same_peers g g1"
  proof -
    have "\<exists>g1. enrollOwnRoot W lms (credentialVersion ?cfg) (suiteIdForMode (pathMode ?cfg)) CREDENTIAL_STATUS_ACTIVE
        (credentialExpiryUnix ?cfg) (b_rootNet b) g = Some (True, g1) \<and> same_peers g g1"
      unfolding net(1) by (rule enrollOwnRoot_succeeds [OF W(2,3) cfg g lms(1,2) _ _ net(2)]) (use lms(3) len in simp_all)
    then show ?thesis using that by blast
  qed
  obtain g2 rec where g2: "fetchPeerRoot W (peerCredentialVersion ?cfg) (b_fetchRounds b) g1 = Some (Some rec, g2)"
    and rec: "p_ready rec" "p_version rec = peerCredentialVersion ?cfg" "p_suiteId rec = suiteIdForMode (pathMode ?cfg)"
      "p_status rec = CREDENTIAL_STATUS_ACTIVE" "p_expiryUnix rec = 0"
    using fetchPeerRoot_succeeds [OF W(2,3) cfg same_peers_trans [OF g g1(2)] net'(2-4)] net'(1) by fastforce
  let ?m = "?n\<lparr>m_gcs := g2, m_peerRecord := rec\<rparr>"
  have rest: "runStages [publishRoot W b, publishPaths W b, fetchPeer W b, checkPeer b] ?n = (Some True, ?m)"
    using g1(1) g2 rec mode
    by (simp add: andThen_def publishRoot_def publishPaths_def fetchPeer_def checkPeer_def guard_def validatePeerRecord_def)
  have "prepareLmsAndLedger W b n = (Some True, ?m)"
    using runStages_append [of "[deriveBootSeed W b, initializeLms b, buildLmsTree W, connectWiFi b, startTransport b, startGcs b]"
        "[publishRoot W b, publishPaths W b, fetchPeer W b, checkPeer b]" n]
    by (simp add: prepareLmsAndLedger_def provisioningStages_def run rest andThen_def del: runStages.simps)
  then show ?thesis
    using range left keep ok
    by (cases "nextq n") (simp_all add: protocolBegin_def andThen_def startRng_def boot_ok_def openCounter_def
        initializePersistentCounter_def qOutOfRange_def storedQ_def Let_def)
qed

section \<open>The first sketch boots\<close>

text \<open>The repository on the laboratory network, as the sketch \<open>uavA_carry\<close> sees it.\<close>

definition lab_attempt :: "NodeConfig \<Rightarrow> nat \<Rightarrow> bytes \<Rightarrow> gcs_attempt" where
  "lab_attempt cfg len reply =
    \<lparr>sendOutcome = \<lparr>beginPacketOk = True, written = len, endPacketOk = True\<rparr>, attemptStart = 100,
     attemptPolls = [(reply_poll 130 reply)\<lparr>remoteIP := gcsIp cfg, remotePort := gcsPort cfg\<rparr>]\<rparr>"

definition lab_boot :: "NodeConfig \<Rightarrow> bytes \<Rightarrow> bytes \<Rightarrow> boot" where
  "lab_boot cfg peerIdentifier peerRoot =
    silent_boot\<lparr>b_rootNet := [lab_attempt cfg ROOT_RECORD_BYTES (build_ack sample_hmac (deviceId cfg) (credentialVersion cfg) 0 0)],
      b_fetchRounds := [[lab_attempt cfg GET_ROOT_BYTES (build_root_response sample_hmac (peerId cfg) (peerCredentialVersion cfg)
        (peerIdentifier, peerRoot, suiteIdForMode (pathMode cfg), CREDENTIAL_STATUS_ACTIVE, 0))]]\<rparr>"

lemma lab_exchange: "length reply \<le> MAX_GCS_PACKET_BYTES \<Longrightarrow> exchange_with cfg len reply (lab_attempt cfg len reply)"
  by (simp add: exchange_with_def lab_attempt_def replies_def reply_poll_def)

lemma lab_lengths:
  assumes "config_arrays cfg" and "length ident = 16" and "length r = HASH_BYTES"
  shows "length (build_ack sample_hmac (deviceId cfg) version 0 0) \<le> MAX_GCS_PACKET_BYTES"
    and "length (build_root_response sample_hmac (peerId cfg) version (ident, r, suiteId, status, expiry)) \<le> MAX_GCS_PACKET_BYTES"
  using assms ack_layout [OF sample_wolf_sizes sample_same_hmac] root_response_layout [OF sample_wolf_sizes sample_same_hmac]
  by (simp_all add: config_arrays_def Let_def sample_hmac_def compute_tag_def)

lemma lab_serves:
  assumes "config_arrays cfg" and "length ident = 16" and "length r = HASH_BYTES"
  shows "repository_serves sample_hmac cfg (lab_boot cfg ident r)"
  unfolding repository_serves_def
proof (intro conjI exI)
  show "b_rootNet (lab_boot cfg ident r) =
    lab_attempt cfg ROOT_RECORD_BYTES (build_ack sample_hmac (deviceId cfg) (credentialVersion cfg) 0 0) # []"
    by (simp add: lab_boot_def)
  show "b_fetchRounds (lab_boot cfg ident r) = (lab_attempt cfg GET_ROOT_BYTES (build_root_response sample_hmac (peerId cfg)
    (peerCredentialVersion cfg) (ident, r, suiteIdForMode (pathMode cfg), CREDENTIAL_STATUS_ACTIVE, 0)) # []) # []"
    by (simp add: lab_boot_def)
qed (rule assms lab_exchange lab_lengths)+

lemma lab_boot_arrays: "boot_arrays (lab_boot cfg ident r)"
  using silent_boot_arrays by (auto simp: boot_arrays_def lab_boot_def gcs_buffers_def observed_def lab_attempt_def reply_poll_def)

lemma lab_boot_runs:
  assumes "cfg \<in> {uavA_carry, uavB_carry}" and "length ident = 16" and "length r = HASH_BYTES"
  obtains n where "protocolBegin sample_wolf (lab_boot cfg ident r) (node_ctor cfg None) = (Some True, n)"
proof -
  have cfg: "cfg \<in> set sketches" using assms(1) by (auto simp: sketches_def)
  have "boot_ok sample_wolf (lab_boot cfg ident r) cfg"
    using assms(1) by (auto simp: boot_ok_def lab_boot_def silent_boot_def sketch_defs sample_wolf_def)
  moreover have "pathMode cfg = SignerCarried" using assms(1) by (auto simp: sketch_defs)
  ultimately show ?thesis
    using boot_completes [OF sample_wolf_works sample_wolf_sizes sample_same_hmac, of "node_ctor cfg None" "lab_boot cfg ident r"]
      lab_serves [OF sketch_fields(1) [OF cfg] assms(2,3)] sketch_range [OF cfg] sketch_fields [OF cfg] that
    by (simp add: node_ctor_def storedQ_def qOutOfRange_def) blast
qed

section \<open>Properties\<close>

text \<open>A booted device is one the exchange of \<open>HonestSession\<close> asks for, as long as its PUF yields
  what it did at boot.\<close>

lemma booted_ready_party:
  assumes "wolf_sizes W" and "boot_arrays b" and "node_arrays n" and "protocolBegin W b n = (Some True, n')"
    and "puf e (config n) = b_puf b (config n)" and "length (e_nonce e) = NONCE_BYTES" and "length (e_C e) = HASH_BYTES" and "e_putOk e"
  shows "ready_party W e n'"
proof -
  have cfg: "config_arrays (config n)" using assms(3) by (simp add: node_arrays_def)
  have "node_arrays n'" using protocolBegin_keeps_arrays [OF assms(1-3)] assms(4) by simp
  moreover have "runtimeSeed W (puf e) (config n) = runtimeSeed W (b_puf b) (config n)"
    using assms(5) by (simp add: runtimeSeed_def)
  ultimately show ?thesis
    using begin_True [OF assms(1,2) cfg assms(4)] assms(6-8) by (auto simp: ready_party_def provisioned_def)
qed

text \<open>C12: When \<open>begin\<close> returns true the device is provisioned: its tree is built from the seed
  that its PUF yields, and the boot copy of the seed is erased. It sent the repository the tagged enrolment of
  its own root with its identity, version, suite, status and expiry, in repository mode the tagged enrolment of its own
  path for each index of its range, which lies in the tree, and a query for the peer's root, and nothing
  else; each exchange heard an authentic acknowledgement of status 0 for the version (and, for a path,
  the index), which however names no device. It holds a valid record that the repository attested for the configured
  peer and version, its arrays have their sizes, an index of the range is left, and the counter moved
  only if the configuration resets it.\<close>

theorem begin_provisions:
  assumes "wolf_sizes W" and "boot_arrays b" and "node_arrays n" and "protocolBegin W b n = (Some True, n')"
  shows "provisioned W b n' \<and> config n' = config n \<and> m_ready n' \<and> m_rngInitialized n' \<and> node_arrays n' \<and>
    (\<exists>log. gcs_sent (m_gcs n') = gcs_sent (m_gcs n) @ log \<and> boot_requests W (config n) (m_lms n') log) \<and>
    \<not> qOutOfRange (storedQ n') n' \<and>
    (nextq n' = nextq n \<or> resetQCounter (config n) \<and> nextq n' = Some (firstQ (config n)))"
proof -
  have "config_arrays (config n)" using assms(3) by (simp add: node_arrays_def)
  then show ?thesis
    using begin_posts [OF assms] begin_True [OF assms(1,2) _ assms(4)] protocolBegin_keeps_arrays [OF assms(1-3)] assms(4) by simp
qed

theorem begin_provisions_witness:
  "\<exists>n. protocolBegin sample_wolf (lab_boot uavA_carry (zeros 16) (zeros 32)) (node_ctor uavA_carry None) = (Some True, n) \<and>
    provisioned sample_wolf (lab_boot uavA_carry (zeros 16) (zeros 32)) n \<and>
    (\<exists>log. gcs_sent (m_gcs n) = log \<and> boot_requests sample_wolf uavA_carry (m_lms n) log) \<and> storedQ n = 0"
proof -
  obtain n where n: "protocolBegin sample_wolf (lab_boot uavA_carry (zeros 16) (zeros 32)) (node_ctor uavA_carry None) = (Some True, n)"
    by (rule lab_boot_runs [of uavA_carry "zeros 16" "zeros 32"]) simp_all
  have "node_arrays (node_ctor uavA_carry None)" by (rule fresh_arrays) (rule sketch_fields, simp add: sketches_def)
  moreover have "gcs_sent (m_gcs (node_ctor uavA_carry None)) = []" "config (node_ctor uavA_carry None) = uavA_carry"
    "firstQ uavA_carry = 0" "nextq (node_ctor uavA_carry None) = None"
    by (simp_all add: node_ctor_def GcsLedgerClient_ctor_def uavA_carry_def)
  ultimately show ?thesis
    using begin_provisions [OF sample_wolf_sizes lab_boot_arrays _ n] n by (auto simp: storedQ_def)
qed

end
