(* ===== verification/Deployment.thy ===== *)
theory Deployment
  imports BootProperties
begin

text \<open>
  The whole life of a link: two devices boot, each publishes its root and fetches the other's
  from the repository, and then they run a session. What the boots leave behind is what the
  exchange of \<open>HonestSession\<close> asks for, so the session completes on both sides with one key.
  The two signer-carried sketches are an example.
\<close>

text \<open>
  The repository vouches for the peer: its root records of the peer's configured version
  carry the identifier and the root of the peer's tree. Which records it sent is seen in
  the observations of the boot; that they carry its tag makes them its own.
\<close>

definition vouches :: "wolf \<Rightarrow> boot \<Rightarrow> NodeConfig \<Rightarrow> LmsState \<Rightarrow> bool" where
  "vouches W b cfg peer \<longleftrightarrow>
    (\<forall>attempts \<in> set (b_fetchRounds b). \<forall>p. observed attempts p \<and>
      tagged_datagram W (configured_gcs cfg) ROOT_RECORD_BYTES p \<and> readBuffer p ! 4 = OP_ROOT_RECORD \<and>
      read_at 8 ID_BYTES (readBuffer p) = peerId cfg \<and>
      p_version (parseRootRecord (readBuffer p)) = peerCredentialVersion cfg \<longrightarrow>
        p_identifier (parseRootRecord (readBuffer p)) = m_identifier peer \<and>
        Some (p_root (parseRootRecord (readBuffer p))) = root peer)"

text \<open>A session after the boot \<open>b\<close>: the PUF yields what it did, the counter can be written and the peer's
  record has not expired.\<close>

definition session_after :: "boot \<Rightarrow> env \<Rightarrow> node \<Rightarrow> bool" where
  "session_after b e n \<longleftrightarrow>
    puf e (config n) = b_puf b (config n) \<and> length (e_nonce e) = NONCE_BYTES \<and> length (e_C e) = HASH_BYTES \<and> e_putOk e \<and>
    (p_expiryUnix (m_peerRecord n) = 0 \<or> 1700000000 \<le> e_now e \<and> of_int (e_now e) \<le> p_expiryUnix (m_peerRecord n))"

text \<open>In repository mode the repository serves the peer's path for the index it signs with.\<close>

definition path_served :: "wolf \<Rightarrow> env \<Rightarrow> node \<Rightarrow> node \<Rightarrow> bool" where
  "path_served W e n peer \<longleftrightarrow>
    (pathMode (config n) = RepositoryAssisted \<longrightarrow>
      (\<exists>op g. fetchPeerPath W (credentialVersion (config peer)) (storedQ peer) (e_gcsUs e) (e_gcs e) (m_gcs n) =
        Some (extractPath (m_lms peer) (storedQ peer), op, g)))"

lemma validate_later:
  assumes "validatePeerRecord now version n"
    and "p_expiryUnix (m_peerRecord n) = 0 \<or> 1700000000 \<le> now' \<and> of_int now' \<le> p_expiryUnix (m_peerRecord n)"
  shows "validatePeerRecord now' version n"
  using assms by (auto simp: validatePeerRecord_def Let_def not_less split: if_splits)

lemma booted_trusts:
  assumes "provisioned W b n" and "vouches W b (config n) (m_lms peer)" and "session_after b e n" and "path_served W e n peer"
    and "peerCredentialVersion (config n) = credentialVersion (config peer)"
  shows "trusts W e n peer"
proof -
  have valid: "validatePeerRecord (b_now b) (peerCredentialVersion (config n)) n"
    and "peer_attested W b (config n) (m_peerRecord n)" using assms(1) by (simp_all add: provisioned_def)
  from this(2) obtain attempts p where "attempts \<in> set (b_fetchRounds b)" "observed attempts p"
    "tagged_datagram W (configured_gcs (config n)) ROOT_RECORD_BYTES p" "readBuffer p ! 4 = OP_ROOT_RECORD"
    "read_at 8 ID_BYTES (readBuffer p) = peerId (config n)" and rec: "m_peerRecord n = parseRootRecord (readBuffer p)"
    by (auto simp: peer_attested_def)
  moreover have "p_version (m_peerRecord n) = peerCredentialVersion (config n)"
    using valid by (simp add: validatePeerRecord_def Let_def split: if_splits)
  ultimately have "p_identifier (m_peerRecord n) = m_identifier (m_lms peer)" "Some (p_root (m_peerRecord n)) = root (m_lms peer)"
    using assms(2) unfolding vouches_def by metis+
  moreover have "validatePeerRecord (e_now e) (credentialVersion (config peer)) n"
    using validate_later [OF valid] assms(3,5) by (simp add: session_after_def)
  ultimately show ?thesis using assms(4) by (simp add: trusts_def path_served_def)
qed

section \<open>The two sketches\<close>

text \<open>The tree of a device is a function of the seed and the identifier.\<close>

lemma tree_of_unique:
  assumes "tree_of W ident seed t" and "tree_of W ident seed t'" and "1 \<le> n" and "n < LMS_TREE_NODES"
  shows "t ! n = t' ! n"
  using assms(3,4)
proof (induction "LMS_TREE_NODES - n" arbitrary: n rule: less_induct)
  case less
  show ?case
  proof (cases "n < LMS_LEAVES")
    case True
    then have "t ! (2 * n) = t' ! (2 * n)" "t ! (2 * n + 1) = t' ! (2 * n + 1)"
      using less by (intro less.hyps; simp)+
    then show ?thesis using assms(1,2) True less.prems unfolding tree_of_def by (metis sum.inject(2))
  next
    case False
    then have n: "LMS_LEAVES + (n - LMS_LEAVES) = n" "n - LMS_LEAVES < LMS_LEAVES" using less.prems by simp_all
    have "lms_leaf W ident seed (n - LMS_LEAVES) = Inr (t ! n)" "lms_leaf W ident seed (n - LMS_LEAVES) = Inr (t' ! n)"
      using assms(1,2) n unfolding tree_of_def by metis+
    then show ?thesis by simp
  qed
qed

lemma built_root_unique:
  assumes "built_from W seed s" and "built_from W seed s'" and "m_identifier s = m_identifier s'"
  shows "root s = root s'"
proof -
  obtain t t' where "m_tree s = Some t" "tree_of W (m_identifier s) seed t" "m_tree s' = Some t'" "tree_of W (m_identifier s) seed t'"
    using assms unfolding built_from_def by auto
  then show ?thesis using tree_of_unique [of W "m_identifier s" seed t t' 1] by (simp add: root_def)
qed

lemma sketch_seed:
  assumes "cfg \<in> set sketches"
  obtains seed where "runtimeSeed sample_wolf (b_puf silent_boot) cfg = Some seed" and "length seed = HASH_BYTES"
proof -
  have "succeeds (deriveLmsSeed sample_wolf (hardcodedPufRoot cfg) (deviceId cfg) (credentialVersion cfg) (lmsIdentifier cfg))"
    unfolding deriveLmsSeed_def
    by (rule hkdfSha256_succeeds [OF sample_wolf_works sample_wolf_sizes])
      (use sketch_fields(1) [OF assms] in \<open>simp_all add: lms_seed_label_def config_arrays_def\<close>)
  then obtain seed where seed: "deriveLmsSeed sample_wolf (hardcodedPufRoot cfg) (deviceId cfg) (credentialVersion cfg) (lmsIdentifier cfg) = Inr seed"
    unfolding succeeds_iff by blast
  then have "runtimeSeed sample_wolf (b_puf silent_boot) cfg = Some seed"
    by (simp add: runtimeSeed_def silent_boot_def)
  then show ?thesis using that runtimeSeed_length [OF sample_wolf_sizes] by blast
qed

text \<open>The laboratory's repository vouches for what it was told to serve.\<close>

lemma lab_record:
  assumes "config_arrays cfg" and "length ident = 16" and "length r = HASH_BYTES"
    and "attempts \<in> set (b_fetchRounds (lab_boot cfg ident r))" and "observed attempts p"
  shows "parseRootRecord (readBuffer p) =
    \<lparr>p_ready = True, p_version = peerCredentialVersion cfg, p_identifier = ident, p_root = r,
     p_suiteId = suiteIdForMode (pathMode cfg), p_status = CREDENTIAL_STATUS_ACTIVE, p_expiryUnix = 0\<rparr>"
proof -
  let ?reply = "build_root_response sample_hmac (peerId cfg) (peerCredentialVersion cfg)
    (ident, r, suiteIdForMode (pathMode cfg), CREDENTIAL_STATUS_ACTIVE, 0)"
  have "replies (configured_gcs cfg) ?reply ((reply_poll 130 ?reply)\<lparr>remoteIP := gcsIp cfg, remotePort := gcsPort cfg\<rparr>)"
    using lab_exchange [OF lab_lengths(2) [OF assms(1-3)], of cfg 0] by (simp add: exchange_with_def lab_attempt_def)
  moreover have "p = (reply_poll 130 ?reply)\<lparr>remoteIP := gcsIp cfg, remotePort := gcsPort cfg\<rparr>"
    using assms(4,5) by (simp add: lab_boot_def observed_def lab_attempt_def)
  moreover have "length (peerId cfg) = ID_BYTES" using assms(1) by (simp add: config_arrays_def)
  ultimately show ?thesis using root_response_answers(4) [OF sample_wolf_sizes sample_same_hmac _ assms(2,3)] by blast
qed

lemma lab_vouches:
  assumes "config_arrays cfg" and "length (m_identifier peer) = 16" and "length r = HASH_BYTES" and "root peer = Some r"
  shows "vouches sample_wolf (lab_boot cfg (m_identifier peer) r) cfg peer"
  using lab_record [OF assms(1-3)] assms(4) by (simp add: vouches_def)

lemma lab_expiry:
  assumes "config_arrays (config n)" and "length ident = 16" and "length r = HASH_BYTES"
    and "provisioned sample_wolf (lab_boot (config n) ident r) n"
  shows "p_expiryUnix (m_peerRecord n) = 0"
proof -
  from assms(4) obtain attempts p where "attempts \<in> set (b_fetchRounds (lab_boot (config n) ident r))" "observed attempts p"
    and "m_peerRecord n = parseRootRecord (readBuffer p)" by (auto simp: provisioned_def peer_attested_def)
  then show ?thesis using lab_record [OF assms(1-3)] by simp
qed

section \<open>The property\<close>

text \<open>C2: Two devices configured for the two ends of one link boot successfully against a repository
  that vouches for each to the other. In the session that follows, when what each sends is delivered, in any order and
  with any repetition amid foreign traffic, both handlers return true with the same session key,
  and the messages on the wire are those of the abstract exchange of the two booted devices.\<close>

theorem booted_devices_complete_session:
  assumes "wolf_ready W" and "paired (config a0) (config b0)"
    and "peerCredentialVersion (config a0) = credentialVersion (config b0)"
    and "peerCredentialVersion (config b0) = credentialVersion (config a0)"
    and "boot_arrays bootA" and "node_arrays a0" and "protocolBegin W bootA a0 = (Some True, a)"
    and "boot_arrays bootB" and "node_arrays b0" and "protocolBegin W bootB b0 = (Some True, b)"
    and "vouches W bootA (config a0) (m_lms b)" and "session_after bootA eA a" and "path_served W eA a b"
    and "vouches W bootB (config b0) (m_lms a)" and "session_after bootB eB b" and "path_served W eB b a"
    and "initiator_linked eA ipB portB result (exchange_of W eA eB a b)"
    and "responder_linked eB ipA portA (exchange_of W eA eB a b)"
  shows "\<exists>cA cB. runInitiatorSession W eA a = Some (True, node.truncate (sessionCleanup cA)) \<and>
    runResponderOnce W eB b = Some (True, node.truncate (sessionCleanup cB)) \<and>
    l_sessionKey cA = l_sessionKey cB \<and>
    concluded a ipB portB (exchange_of W eA eB a b) cA \<and> accepted b ipA portA (exchange_of W eA eB a b) cB"
proof -
  have W: "wolf_sizes W" using assms(1) by (simp add: wolf_ready_def)
  have A: "provisioned W bootA a" "config a = config a0" and B: "provisioned W bootB b" "config b = config b0"
    using begin_True [OF W assms(5) _ assms(7)] begin_True [OF W assms(8) _ assms(10)] assms(6,9)
    by (simp_all add: node_arrays_def)
  have "ready_party W eA a" "ready_party W eB b"
    using booted_ready_party [OF W assms(5-7)] booted_ready_party [OF W assms(8-10)] assms(12,15) A(2) B(2)
    by (simp_all add: session_after_def)
  moreover have "trusts W eA a b" "trusts W eB b a"
    using booted_trusts [OF A(1) _ assms(12,13)] booted_trusts [OF B(1) _ assms(15,16)] assms(3,4,11,14) A(2) B(2) by simp_all
  moreover have "paired (config a) (config b)" using assms(2) A(2) B(2) by simp
  ultimately obtain cA cB where
    runs: "runInitiatorSession W eA a = Some (True, node.truncate (sessionCleanup cA))"
      "runResponderOnce W eB b = Some (True, node.truncate (sessionCleanup cB))"
    and ends: "concluded a ipB portB (exchange_of W eA eB a b) cA" "accepted b ipA portA (exchange_of W eA eB a b) cB"
    using session_completes [OF assms(1) _ _ _ _ _ assms(17,18)] by metis
  then have "l_sessionKey cA = l_sessionKey cB" by (simp add: concluded_def accepted_def)
  then show ?thesis using runs ends by blast
qed

theorem booted_devices_complete_session_witness:
  "\<exists>bootA bootB a b eA eB cA cB.
    protocolBegin sample_wolf bootA (node_ctor uavA_carry None) = (Some True, a) \<and>
    protocolBegin sample_wolf bootB (node_ctor uavB_carry None) = (Some True, b) \<and>
    runInitiatorSession sample_wolf eA a = Some (True, node.truncate (sessionCleanup cA)) \<and>
    runResponderOnce sample_wolf eB b = Some (True, node.truncate (sessionCleanup cB)) \<and>
    l_sessionKey cA = l_sessionKey cB"
proof -
  have in_sketches: "uavA_carry \<in> set sketches" "uavB_carry \<in> set sketches" by (simp_all add: sketches_def)
  note fieldsA = sketch_fields [OF in_sketches(1)] and fieldsB = sketch_fields [OF in_sketches(2)]
  obtain seedA seedB
    where seeds: "runtimeSeed sample_wolf (b_puf silent_boot) uavA_carry = Some seedA" "length seedA = HASH_BYTES"
      "runtimeSeed sample_wolf (b_puf silent_boot) uavB_carry = Some seedB" "length seedB = HASH_BYTES"
    using sketch_seed in_sketches by metis
  have lenA: "length (lmsIdentifier uavA_carry) = 16" and lenB: "length (lmsIdentifier uavB_carry) = 16"
    using fieldsA(1) fieldsB(1) by (simp_all add: config_arrays_def)
  obtain sA rA where A: "built_from sample_wolf seedA sA" "m_identifier sA = lmsIdentifier uavA_carry" "root sA = Some rA" "length rA = HASH_BYTES"
    using built_lms [OF lenA seeds(2)] by metis
  obtain sB rB where B: "built_from sample_wolf seedB sB" "m_identifier sB = lmsIdentifier uavB_carry" "root sB = Some rB" "length rB = HASH_BYTES"
    using built_lms [OF lenB seeds(4)] by metis
  let ?bootA = "lab_boot uavA_carry (lmsIdentifier uavB_carry) rB" and ?bootB = "lab_boot uavB_carry (lmsIdentifier uavA_carry) rA"
  obtain a where a: "protocolBegin sample_wolf ?bootA (node_ctor uavA_carry None) = (Some True, a)"
    using lab_boot_runs [of uavA_carry, OF _ lenB B(4)] by auto
  obtain b where b: "protocolBegin sample_wolf ?bootB (node_ctor uavB_carry None) = (Some True, b)"
    using lab_boot_runs [of uavB_carry, OF _ lenA A(4)] by auto
  have arrays: "node_arrays (node_ctor uavA_carry None)" "node_arrays (node_ctor uavB_carry None)"
    using fresh_arrays fieldsA(1) fieldsB(1) by simp_all
  have cfg: "config (node_ctor uavA_carry None) = uavA_carry" "config (node_ctor uavB_carry None) = uavB_carry"
    by (simp_all add: node_ctor_def)
  note bootedA = begin_True [OF sample_wolf_sizes lab_boot_arrays _ a] and bootedB = begin_True [OF sample_wolf_sizes lab_boot_arrays _ b]
  have pA: "provisioned sample_wolf ?bootA a" "config a = uavA_carry" and pB: "provisioned sample_wolf ?bootB b" "config b = uavB_carry"
    using bootedA bootedB fieldsA(1) fieldsB(1) cfg by simp_all
  have puf: "b_puf (lab_boot c i r) = b_puf silent_boot" for c i r by (simp add: lab_boot_def)
  have lms: "m_identifier (m_lms a) = lmsIdentifier uavA_carry" "built_from sample_wolf seedA (m_lms a)"
    "m_identifier (m_lms b) = lmsIdentifier uavB_carry" "built_from sample_wolf seedB (m_lms b)"
    using pA pB seeds by (simp_all add: provisioned_def puf)
  have roots: "root (m_lms a) = Some rA" "root (m_lms b) = Some rB"
    using built_root_unique [OF lms(2) A(1)] built_root_unique [OF lms(4) B(1)] lms A B by simp_all
  define x where "x = exchange_of sample_wolf silent_env silent_env a b"
  have mode: "x_mode x = SignerCarried"
    by (simp add: x_def pA(2) uavA_carry_def)
  have after: "session_after ?bootA (env_A x) a" "session_after ?bootB (env_B x) b"
    using lab_expiry [of a, OF _ lenB B(4)] lab_expiry [of b, OF _ lenA A(4)] pA pB fieldsA(1) fieldsB(1)
    by (simp_all add: session_after_def env_A_def env_B_def wired_def silent_env_def puf silent_boot_def)
  have vouched: "vouches sample_wolf ?bootA uavA_carry (m_lms b)" "vouches sample_wolf ?bootB uavB_carry (m_lms a)"
    using lab_vouches [OF fieldsA(1) _ B(4) roots(2)] lab_vouches [OF fieldsB(1) _ A(4) roots(1)] lms lenA lenB by simp_all
  have served: "path_served sample_wolf (env_A x) a b" "path_served sample_wolf (env_B x) b a"
    by (simp_all add: path_served_def pA(2) pB(2) uavA_carry_def uavB_carry_def)
  have links: "initiator_linked (env_A x) 0x0a000001 5000 (zeros 116) (exchange_of sample_wolf (env_A x) (env_B x) a b)"
    "responder_linked (env_B x) 0x0a000001 5000 (exchange_of sample_wolf (env_A x) (env_B x) a b)"
    using wired_links [OF mode] by (simp_all add: env_exchange x_def [symmetric])
  show ?thesis
    using booted_devices_complete_session [OF sample_wolf_ready _ _ _ lab_boot_arrays arrays(1) a lab_boot_arrays arrays(2) b
        _ after(1) served(1) _ after(2) served(2) links] sketches_paired(1) sketches_versions(1,2) vouched cfg a b by metis
qed

end
