(* ===== verification/SecretResidue.thy ===== *)
theory SecretResidue
  imports AgreementProperties
begin

text \<open>
  What a session leaves in memory. The cleanup erases the members and locals it wipes
  (\<open>SecretErasure\<close>), but not the scratch buffer of \<open>LmotsLms\<close>, which still holds the input of
  the last hash call of \<open>sign\<close>: nothing between the signature and the end of the session
  writes to it.
\<close>

section \<open>The scratch buffer after a signature\<close>

text \<open>
  A session whose environment is \<open>e\<close> made one signature, and bytes 23 to 54 of the small buffer
  are the value from which its last chain was computed.
\<close>

definition signing_residue :: "wolf \<Rightarrow> env \<Rightarrow> 'a node_scheme \<Rightarrow> 'b node_scheme \<Rightarrow> bool" where
  "signing_residue W e n n' \<longleftrightarrow>
    (\<exists>q message seed digestAndChecksum. signatures n' = signatures n @ [(q, message)] \<and>
      runtimeSeed W (puf e) (config n) = Some seed \<and>
      hashMessageWithChecksum W (m_identifier (m_lms n)) q (e_C e) message 1024 = Inr digestAndChecksum \<and>
      last_chain_secret W (m_identifier (m_lms n)) seed q digestAndChecksum =
        Inr (read_at 23 HASH_BYTES (m_smallHashInput (m_lms n'))))"

definition unsigned :: "node \<Rightarrow> session \<Rightarrow> bool" where
  "unsigned n c \<longleftrightarrow> signatures c = signatures n \<and> config c = config n \<and> m_lms c = m_lms n"

definition seeded :: "wolf \<Rightarrow> env \<Rightarrow> node \<Rightarrow> session \<Rightarrow> bool" where
  "seeded W e n c \<longleftrightarrow> unsigned n c \<and> runtimeSeed W (puf e) (config n) = Some (l_runtimeSeed c)"

text \<open>The signature log says whether there is a residue.\<close>

definition residue_inv :: "wolf \<Rightarrow> env \<Rightarrow> node \<Rightarrow> 'a node_scheme \<Rightarrow> bool" where
  "residue_inv W e n c \<longleftrightarrow> signatures c = signatures n \<or> signing_residue W e n c"

lemma residue_view: "signatures c' = signatures c \<and> m_lms c' = m_lms c \<Longrightarrow> residue_inv W e n c \<Longrightarrow> residue_inv W e n c'"
  by (simp add: residue_inv_def signing_residue_def)

lemma unsigned_inv: "unsigned n c \<Longrightarrow> residue_inv W e n c"
  by (simp add: unsigned_def residue_inv_def)

lemma seed_stage:
  assumes "unsigned n c"
  shows "unsigned n (snd (timedRuntimeSeed W e c))"
    and "fst (timedRuntimeSeed W e c) = Some True \<Longrightarrow> seeded W e n (snd (timedRuntimeSeed W e c))"
  using assms by (auto simp: unsigned_def seeded_def timedRuntimeSeed_def addPufFe_def addHmac_def Let_def split: option.splits)

text \<open>What a signing stage does to the log and to the tree object.\<close>

definition signs :: "wolf \<Rightarrow> env \<Rightarrow> session stage \<Rightarrow> bool" where
  "signs W e f \<longleftrightarrow> (\<forall>c. \<exists>q message. let c' = snd (f c); sig = sign W (m_lms c) q message (l_runtimeSeed c) (e_C e) in
    m_lms c' = (m_lms c)\<lparr>m_smallHashInput := sign_scratch W (m_lms c) q message (l_runtimeSeed c) (e_C e)\<rparr> \<and>
    (fst (f c) = Some True \<longleftrightarrow> succeeds sig) \<and> signatures c' = (if succeeds sig then signatures c @ [(q, message)] else signatures c))"

lemma signsI:
  "(\<And>c. let c' = snd (f c); sig = sign W (m_lms c) (q c) (m_signInput c) (l_runtimeSeed c) (e_C e) in
    m_lms c' = (m_lms c)\<lparr>m_smallHashInput := sign_scratch W (m_lms c) (q c) (m_signInput c) (l_runtimeSeed c) (e_C e)\<rparr> \<and>
    (fst (f c) = Some True \<longleftrightarrow> succeeds sig) \<and>
    signatures c' = (if succeeds sig then signatures c @ [(q c, m_signInput c)] else signatures c)) \<Longrightarrow> signs W e f"
  unfolding signs_def by blast

lemma signing_stages: "signs W e (signM2 W e)" "signs W e (signM3 W e)"
  by (rule signsI [where q = l_qA], simp add: signM2_def LmotsLms_sign_def addSign_def Let_def split: sum.split)
    (rule signsI [where q = l_qB], simp add: signM3_def LmotsLms_sign_def addSign_def Let_def split: sum.split)

lemma signature_residue:
  assumes S: "sized W e" and n: "lms_arrays (m_lms n)" and c: "seeded W e n c" and f: "signs W e f"
  shows "residue_inv W e n (snd (f c))"
proof -
  have seed: "runtimeSeed W (puf e) (config n) = Some (l_runtimeSeed c)" "m_lms c = m_lms n" "signatures c = signatures n"
    using c by (simp_all add: seeded_def unsigned_def)
  obtain q message where l: "m_lms (snd (f c)) = (m_lms n)\<lparr>m_smallHashInput := sign_scratch W (m_lms n) q message (l_runtimeSeed c) (e_C e)\<rparr>"
    and s: "signatures (snd (f c)) = (if succeeds (sign W (m_lms n) q message (l_runtimeSeed c) (e_C e))
      then signatures n @ [(q, message)] else signatures n)"
    using f seed(2,3) unfolding signs_def Let_def by metis
  show ?thesis
  proof (cases "sign W (m_lms n) q message (l_runtimeSeed c) (e_C e)")
    case (Inr sig)
    have W: "wolf_sizes W" "length (e_C e) = HASH_BYTES" using S by (simp_all add: sized_def env_arrays_def)
    have "\<exists>dc. hashMessageWithChecksum W (m_identifier (m_lms n)) q (e_C e) message 1024 = Inr dc \<and>
        last_chain_secret W (m_identifier (m_lms n)) (l_runtimeSeed c) q dc =
          Inr (read_at 23 HASH_BYTES (sign_scratch W (m_lms n) q message (l_runtimeSeed c) (e_C e)))"
      using n by (intro sign_residue [OF W(1) _ runtimeSeed_length [OF W(1) seed(1)] W(2) _ Inr]) (simp_all add: lms_arrays_def)
    then show ?thesis
      unfolding residue_inv_def signing_residue_def using l s seed Inr by auto
  qed (use s in \<open>simp add: residue_inv_def\<close>)
qed

section \<open>Both handlers\<close>

lemma signing_outline:
  assumes "sized W e" and "lms_arrays (m_lms n)" and pre: "list_all (spares (\<lambda>c. (signatures c, config c, m_lms c))) pre"
    and mid: "list_all (spares (\<lambda>c. (signatures c, config c, m_lms c, l_runtimeSeed c))) mid" and "signs W e f"
    and post: "list_all (spares (\<lambda>c. (signatures c, m_lms c))) post"
  shows "outline (residue_inv W e n) (unsigned n) (pre @ timedRuntimeSeed W e # mid @ f # post)"
proof -
  have "outline (residue_inv W e n) (residue_inv W e n) (post @ [])"
    by (rule outline_spares [OF outline_end post]) (auto intro: residue_view)
  then have "outline (residue_inv W e n) (seeded W e n) (f # post)"
    using signature_residue [OF assms(1,2) _ assms(5)] unsigned_inv
    by (intro outline_stage [where Q = "residue_inv W e n"]) (auto simp: seeded_def)
  then have "outline (residue_inv W e n) (seeded W e n) (mid @ f # post)"
    by (rule outline_spares [OF _ mid]) (simp add: seeded_def unsigned_def)
  then have "outline (residue_inv W e n) (unsigned n) (timedRuntimeSeed W e # mid @ f # post)"
    using seed_stage unsigned_inv by (intro outline_stage [where Q = "seeded W e n"]) auto
  then show ?thesis by (rule outline_spares [OF _ pre]) (simp add: unsigned_def)
qed

lemma initiator_residue:
  assumes "sized W e" and "lms_arrays (m_lms n)"
  shows "outline (residue_inv W e n) (unsigned n) (initiatorStages W e)"
proof -
  have "outline (residue_inv W e n) (unsigned n)
    ([initiatorStart e, sendM0 e, receiveM1 e, timedSid0 W e, kemInit W, makeKemKey W e, reserveQA e] @ timedRuntimeSeed W e #
      [fillM2] @ signM2 W e # [attachPathA, timedHashM2 W e, sendM2 e,
     receiveM3 e, parseM3, checkPeerB e, obtainPathB W e, verifyM3 W e, decapsulate W e,
     \<lambda>c. timedTranscriptHash W e (m3Inner c) c, timedSessionKeys W e, timedTagB W e, checkTauB,
     timedTagA W e, sendM4 e, receiveResult e])"
    by (rule signing_outline [OF assms _ _ signing_stages(1)]; simp; (intro conjI)?; rule spares_touches, rule effects, simp)
  then show ?thesis by (simp add: initiatorStages_def)
qed

lemma responder_residue:
  assumes "sized W e" and "lms_arrays (m_lms n)"
  shows "outline (residue_inv W e n) (unsigned n) (receiveM0 e # responderStages W e ip port)"
proof -
  have "outline (residue_inv W e n) (unsigned n)
    ([receiveM0 e, answerM0 e, timedSid0 W e, sendM1 e ip port, receiveM2 e, parseM2, checkPeerA e, timedHashM2 W e,
      obtainPathA W e, verifyM2 W e, kemInit W, encapsulate W e, reserveQB e] @ timedRuntimeSeed W e #
      [fillM3Inner] @ signM3 W e # [attachPathB,
     \<lambda>c. timedTranscriptHash W e (m3Inner c) c, timedSessionKeys W e, timedTagB W e, fillM3Outer, sendM3 e ip port,
     receiveM4 e, parseM4, timedTagA W e, checkTauA, acceptSession e ip port])"
    by (rule signing_outline [OF assms _ _ signing_stages(2)]; simp; (intro conjI)?; rule spares_touches, rule effects, simp)
  then show ?thesis by (simp add: responderStages_def)
qed

section \<open>The end of a session\<close>

text \<open>A run through all stages signed.\<close>

lemma run_signs:
  assumes run: "runStages fs c0 = (Some True, c)" and i: "i < length fs" and f: "signs W e (fs ! i)"
    and "list_all (spares signatures) (take i fs)" and "list_all (spares signatures) (drop (Suc i) fs)"
  shows "signatures c \<noteq> signatures c0"
proof -
  from run_at [OF run i] obtain c1 c2 where "runStages (take i fs) c0 = (Some True, c1)"
    and c2: "(fs ! i) c1 = (Some True, c2)" and "runStages (drop (Suc i) fs) c2 = (Some True, c)" by blast
  with spares_result [OF spares_run [OF assms(4)]] spares_result [OF spares_run [OF assms(5)]]
  have "signatures c1 = signatures c0" "signatures c = signatures c2" by blast+
  then show ?thesis using f [unfolded signs_def Let_def, rule_format, of c1] c2 by auto
qed

lemma initiator_signs:
  assumes "runStages (initiatorStages W e) c0 = (Some True, c)"
  shows "signatures c \<noteq> signatures c0"
  by (rule run_signs [OF assms, of 9 W e])
    (simp_all add: initiatorStages_def signing_stages, (intro conjI, (rule spares_touches, rule effects, simp)+)+)

lemma responder_signs:
  assumes "runStages (receiveM0 e # responderStages W e ip port) c0 = (Some True, c)"
  shows "signatures c \<noteq> signatures c0"
  by (rule run_signs [OF assms, of 15 W e])
    (simp_all add: responderStages_def signing_stages, (intro conjI, (rule spares_touches, rule effects, simp)+)+)

lemma enter_unsigned: "unsigned n (enterSession n)"
  by (simp add: unsigned_def enterSession_def node.defs)

lemma entered_log: "signatures (enterSession n) = signatures n"
  by (simp add: enterSession_def node.defs)

lemma left_fields: "signatures (node.truncate (sessionCleanup c)) = signatures c" "m_lms (node.truncate (sessionCleanup c)) = m_lms c"
  by (simp_all add: node.defs sessionCleanup_def wipeSessionSecrets_def freeKem_def Let_def)

lemma initiator_leaves:
  assumes "runInitiatorSession W e n = Some (ok, n')" and "sized W e" and "lms_arrays (m_lms n)"
  shows "residue_inv W e n n'" and "ok \<Longrightarrow> signatures n' \<noteq> signatures n"
proof -
  from assms(1) obtain c where run: "runStages (initiatorStages W e) (enterSession n) = (Some ok, c)"
    and n': "n' = node.truncate (sessionCleanup c)"
    by (auto simp: runInitiatorSession_def split: prod.splits option.splits)
  from outline_run [OF initiator_residue [OF assms(2,3)] enter_unsigned] run
  have "residue_inv W e n c" by simp
  then show "residue_inv W e n n'" by (rule residue_view [rotated]) (simp add: n' left_fields)
  show "signatures n' \<noteq> signatures n" if ok
    using initiator_signs [of W e "enterSession n" c] run that by (simp add: n' left_fields entered_log)
qed

lemma responder_leaves:
  assumes "runResponderOnce W e n = Some (ok, n')" and "sized W e" and "lms_arrays (m_lms n)"
  shows "residue_inv W e n n'" and "ok \<Longrightarrow> signatures n' \<noteq> signatures n"
proof -
  obtain r0 c0 where m0: "receiveM0 e (enterSession n) = (r0, c0)" by fastforce
  let ?ip = "r_sourceIp (l_packet c0)" and ?port = "r_sourcePort (l_packet c0)"
  let ?all = "receiveM0 e # responderStages W e ?ip ?port"
  note outline = responder_residue [OF assms(2,3), of ?ip ?port]
  consider "r0 = Some False" "n' = node.truncate c0" "\<not> ok"
    | r c where "r0 = Some True" "runStages (responderStages W e ?ip ?port) c0 = (Some r, c)" "n' = node.truncate (sessionCleanup c)"
    using assms(1) m0 by (auto simp: runResponderOnce_def split: prod.splits option.splits bool.splits)
  then have "residue_inv W e n n'"
  proof cases
    case 1
    from outline_cut [OF outline enter_unsigned, of 1] m0 1(1) have "residue_inv W e n c0" by (simp add: andThen_def)
    then show ?thesis by (rule residue_view [rotated]) (simp add: 1 node.defs)
  next
    case (2 r c)
    have "runStages ?all (enterSession n) = (Some r, c)" using 2(1,2) m0 by (simp add: andThen_def)
    with outline_run [OF outline enter_unsigned] have "residue_inv W e n c" by simp
    then show ?thesis by (rule residue_view [rotated]) (simp add: 2 left_fields)
  qed
  then show "residue_inv W e n n'" .
  show "signatures n' \<noteq> signatures n" if ok
  proof -
    note success = assms(1) [unfolded eqTrueI [OF that]]
    obtain ip port c where "runStages (receiveM0 e # responderStages W e ip port) (enterSession n) = (Some True, c)"
      "n' = node.truncate (sessionCleanup c)"
      by (rule responder_success [OF success])
    then show ?thesis using responder_signs [of e W ip port "enterSession n" c] by (simp only: left_fields entered_log not_False_eq_True)
  qed
qed

section \<open>Properties\<close>

text \<open>C11: What a session erases, and what it does not. However a session of either role ends, the signed
  objects and the KEM key are zero and the KEM object is released, if this held before; and wherever a
  handler jumps to its cleanup, the cleanup zeroes the seed, the shared secret, the session and confirmation
  keys, the tags and the peer's path in the handler's frame. But a session that succeeds or has
  signed leaves a secret in \<open>m_smallHashInput\<close>: the device's seed when the last coefficient of the signed
  digest is 0, and otherwise the unreleased value from which the last chain value of the signature was computed.\<close>

theorem session_erasure:
  assumes "members_erased n" and "node_arrays n" and "sized W e"
  shows "(runInitiatorSession W e n = Some (ok, n') \<longrightarrow>
      members_erased n' \<and> (ok \<or> signatures n' \<noteq> signatures n \<longrightarrow> signing_residue W e n n')) \<and>
    (runResponderOnce W e n = Some (ok, n') \<longrightarrow>
      members_erased n' \<and> (ok \<or> signatures n' \<noteq> signatures n \<longrightarrow> signing_residue W e n n')) \<and>
    locals_erased (sessionCleanup (snd (runStages (take k (initiatorStages W e)) (enterSession n)))) \<and>
    locals_erased (sessionCleanup (snd (runStages (take k (receiveM0 e # responderStages W e ip port)) (enterSession n))))"
proof (intro conjI impI)
  note guarded = members_erased_guarded [OF assms(1)]
  have lms: "lms_arrays (m_lms n)" using assms(2) by (simp add: node_arrays_def)
  show "members_erased n'" if "runInitiatorSession W e n = Some (ok, n')"
    using initiator_ends [OF that assms(3,2) guarded] cleanup_erases(1) members_erased_truncate by metis
  show "members_erased n'" if "runResponderOnce W e n = Some (ok, n')"
    using that assms by (rule responder_members)
  show "signing_residue W e n n'" if "runInitiatorSession W e n = Some (ok, n')" "ok \<or> signatures n' \<noteq> signatures n"
    using initiator_leaves [OF that(1) assms(3) lms] that(2) by (auto simp: residue_inv_def)
  show "signing_residue W e n n'" if "runResponderOnce W e n = Some (ok, n')" "ok \<or> signatures n' \<noteq> signatures n"
    using responder_leaves [OF that(1) assms(3) lms] that(2) by (auto simp: residue_inv_def)
  show "locals_erased (sessionCleanup (snd (runStages (take k (initiatorStages W e)) (enterSession n))))"
    by (rule cleanup_erases(2) [OF initiator_cuts [OF assms(3,2) guarded]])
  show "locals_erased (sessionCleanup (snd (runStages (take k (receiveM0 e # responderStages W e ip port)) (enterSession n))))"
    by (rule cleanup_erases(2) [OF responder_cuts [OF assms(3,2) guarded]])
qed

theorem session_erasure_witness:
  "\<exists>e n n'. runInitiatorSession sample_wolf e n = Some (True, n') \<and> members_erased n' \<and> signing_residue sample_wolf e n n'"
proof -
  obtain a b eA eB result where p: "sample_pair a b eA eB result" by (rule sample_pair_exists)
  note p' = p [unfolded sample_pair_def]
  from p' obtain c where run: "runInitiatorSession sample_wolf eA a = Some (True, node.truncate (sessionCleanup c))"
    using session_completes [OF sample_wolf_ready, where a = a and b = b and eA = eA and eB = eB] by metis
  have "members_erased a" "node_arrays a" "sized sample_wolf eA" using p' by simp_all
  from session_erasure [OF this] run show ?thesis by blast
qed

end
