(* ===== verification/ApqeExchange.thy ===== *)
theory ApqeExchange
  imports ApqeSessions
begin

text \<open>
  What the two handlers of \<open>ApqeSessions\<close> do phase by phase when the messages they wait for
  arrive and the gateway answers: the abstract messages M1 to M3 and the session key as
  functions of the values they carry, and one lemma per phase that names the fields it
  writes. Used for the honest exchange and for the impostor in \<open>ApqeProperties\<close>.
\<close>

section \<open>Messages\<close>

definition apqe_digest :: "wolf \<Rightarrow> bytes list \<Rightarrow> bytes" where
  "apqe_digest W parts = snd (wc_Sha256Final W (concat parts))"

definition apqe_ei :: "bytes \<Rightarrow> bytes \<Rightarrow> bytes \<Rightarrow> bytes \<Rightarrow> bytes" where
  "apqe_ei tidI ci ni tidJ = tidI @ ci @ ni @ tidJ"

definition apqe_M1 :: "wolf \<Rightarrow> kyber \<Rightarrow> bytes \<Rightarrow> (nat \<Rightarrow> bytes) \<Rightarrow> bytes \<Rightarrow> bytes" where
  "apqe_M1 W K publicKey coins ei =
    concat (map (\<lambda>i. indcpa_enc K (read_at (i * KYBER_MESSAGE_BYTES) KYBER_MESSAGE_BYTES ei) publicKey (coins i)) [0..<EI_BLOCKS]) @
    apqe_digest W [ei]"

definition apqe_M2 :: "wolf \<Rightarrow> bytes \<Rightarrow> bytes \<Rightarrow> bytes \<Rightarrow> bytes \<Rightarrow> bytes \<Rightarrow> bytes" where
  "apqe_M2 W tkJi tkJ ni cj nj =
    xorBytes tkJ ni HASH_BYTES @ maskPair tkJi cj nj @ apqe_digest W [tkJi, tkJ, cj, nj]"

definition apqe_key :: "wolf \<Rightarrow> bytes \<Rightarrow> bytes \<Rightarrow> bytes \<Rightarrow> bytes \<Rightarrow> bytes" where
  "apqe_key W tkJi tkIj ni nj = apqe_digest W [tkJi, tkIj, ni, nj]"

definition apqe_M3 :: "wolf \<Rightarrow> bytes \<Rightarrow> bytes \<Rightarrow> bytes \<Rightarrow> bytes \<Rightarrow> bytes" where
  "apqe_M3 W tkI tkIj key nj = xorBytes tkI nj HASH_BYTES @ apqe_digest W [tkIj, tkI, key]"

lemma sha256Parts_digest:
  "wolf_works W \<Longrightarrow> list_all (\<lambda>p. length p \<le> UINT32_MAX) parts \<Longrightarrow> sha256Parts W parts = Inr (apqe_digest W parts)"
  by (simp add: sha256Parts_works apqe_digest_def)

lemma length_apqe_digest [simp]: "wolf_sizes W \<Longrightarrow> length (apqe_digest W parts) = HASH_BYTES"
  by (simp add: apqe_digest_def wolf_sizes_def)

lemma length_apqe_messages:
  "wolf_sizes W \<Longrightarrow> length (apqe_M2 W tkJi tkJ ni cj nj) = APQE_M2_BYTES"
  "wolf_sizes W \<Longrightarrow> length (apqe_M3 W tkI tkIj key nj) = APQE_M3_BYTES"
  "wolf_sizes W \<Longrightarrow> kyber_sizes K \<Longrightarrow> length (apqe_M1 W K pk coins ei) = APQE_M1_BYTES"
  by (simp_all add: apqe_M1_def apqe_M2_def apqe_M3_def kyber_sizes_def length_concat comp_def sum_list_triv)

section \<open>Sending and receiving\<close>

definition direct :: "SessionMetrics \<Rightarrow> u32 \<times> u32 \<times> u32 \<times> u32" where
  "direct m = (sm_directAppTx m, sm_directAppRx m, sm_directFramedTx m, sm_directFramedRx m)"

definition no_meter :: fabric_meter where
  "no_meter = \<lparr>fm_fabricUs = 0, fm_wallUs = 0, fm_appTx = 0, fm_appRx = 0\<rparr>"

definition apqe_datagrams :: "u8 \<Rightarrow> u32 \<Rightarrow> bytes \<Rightarrow> bytes list" where
  "apqe_datagrams type session msg = map (apqe_fragment type session msg) [0..<fragment_count (length msg)]"

definition apqe_packet :: "u8 \<Rightarrow> u32 \<Rightarrow> bytes \<Rightarrow> u32 \<Rightarrow> u16 \<Rightarrow> ReceivedPacket" where
  "apqe_packet type session msg ip port =
    \<lparr>r_type = type, r_session = session, r_length = of_nat (length msg), r_sourceIp = ip, r_sourcePort = port,
     r_framedBytes = apqe_framed msg\<rparr>"

lemma apqe_send_ok:
  assumes "accepting_net net len" and "data = msg" and "length msg = len" and "0 < len" and "len \<le> APQE_MAX_MESSAGE_BYTES"
  shows "apqe_send net ip port type session data len cnt c = (Some True,
    c\<lparr>q_wire := q_wire c @ [(ip, port, apqe_datagrams type session msg)],
      s_m := (if cnt then (s_m c)\<lparr>sm_directAppTx := sm_directAppTx (s_m c) + of_nat len,
        sm_directFramedTx := sm_directFramedTx (s_m c) + apqe_framed msg\<rparr> else s_m c)\<rparr>)"
proof -
  have "apqe_sendMessage net type session msg (of_nat len) 0 = (True, apqe_framed msg, apqe_datagrams type session msg)"
    using apqe_sent [of net msg type session 0] assms by (simp add: apqe_datagrams_def)
  then show ?thesis using assms(2,3) by (simp add: apqe_send_def Let_def)
qed

abbreviation (input) apqe_hears_direct :: "radio \<Rightarrow> u8 \<Rightarrow> u32 \<Rightarrow> bytes \<Rightarrow> u32 \<Rightarrow> u16 \<Rightarrow> bool" where
  "apqe_hears_direct rx type session msg ip port \<equiv>
    apqe_hears (rx_start rx) (rx_polls rx) DIRECT_RECEIVE_TIMEOUT_MS type session (of_nat (length msg)) session msg ip port"

lemma apqe_receive_ok:
  assumes "apqe_hears_direct rx type session msg ip port" and "length msg = len" and "length data = len"
    and "0 < len" and "len \<le> APQE_MAX_MESSAGE_BYTES"
  shows "apqe_receive rx type session data len cnt c = (Some True, msg,
    c\<lparr>s_received := apqe_packet type session msg ip port,
      s_m := (if cnt then (s_m c)\<lparr>sm_directAppRx := sm_directAppRx (s_m c) + of_nat len,
        sm_directFramedRx := sm_directFramedRx (s_m c) + apqe_framed msg\<rparr> else s_m c)\<rparr>)"
proof -
  have u: "unat (of_nat len :: u16) = len" using assms(5) by (simp add: unat_u16_small)
  obtain data' where
    "apqe_receiveMessage type session data (of_nat len) DIRECT_RECEIVE_TIMEOUT_MS (rx_start rx) (rx_polls rx) =
      Some (Some (apqe_packet type session msg ip port), data')"
    and d: "take (length msg) data' = msg" "length data' = length data"
    by (rule apqe_heard [OF assms(1), of data]) (use assms u in \<open>simp_all add: apqe_packet_def\<close>)
  moreover have "data' = msg" using d assms(2,3) by simp
  ultimately show ?thesis using u assms(2) by (auto simp: apqe_receive_def apqe_packet_def Let_def)
qed

text \<open>A buffer that is filled front to back.\<close>

lemma write_at_end: "off + length src = length buf \<Longrightarrow> write_at off src buf = take off buf @ src"
  by (simp add: write_at_def)

lemma take_write_at: "n = off + length src \<Longrightarrow> off \<le> length buf \<Longrightarrow> take n (write_at off src buf) = take off buf @ src"
  by (simp add: write_at_def)

lemmas fill = write_at_end take_write_at

lemma runStages_after: "runStages fs c = (Some True, c') \<Longrightarrow> runStages (fs @ gs) c = runStages gs c'"
  by (simp add: runStages_append andThen_def)

section \<open>The initiator\<close>

lemmas run_simps = andThen_def guard_def timedShaParts_def addShaUs_def addPufUs_def Let_def

lemma initiator_credentials:
  assumes "reconstructKyberSeed W (q_puf c) = Inr seed" and "indcpa_keypair K seed = (pk, sk)"
    and "meter_of (s_m c) = no_meter"
    and "queryByIdentitySlot W (q_identityHash c) slot (ae_fabric e 0) no_meter (q_fabric c) = Some (Some own, m1, f1)"
    and "queryByIdentitySlot W (q_peerIdentityHash c) slot (ae_fabric e 1) m1 f1 = Some (Some peer, m2, f2)"
    and "fc_identityHash own = q_identityHash c" and "fc_identityHash peer = q_peerIdentityHash c"
    and "verifyCredential W own" and "verifyCredential W peer" and "fc_publicKey own = pk"
  shows "\<exists>m. runStages [timedReconstruct W e, timedKeygen K e, queryOwn W e slot, queryPeer W e slot, checkIdentities,
      \<lambda>c. timedVerify W (ae_us e 2) (q_own c) c, \<lambda>c. timedVerify W (ae_us e 3) (q_peer c) c, checkOwnKey] c =
    (Some True, c\<lparr>s_seed := seed, q_publicKey := pk, q_secretKey := sk, q_own := own, q_peer := peer,
      q_fabric := f2, s_m := m\<rparr>) \<and>
    direct m = direct (s_m c) \<and> meter_of m = m2"
proof -
  have cte: "constantTimeEqual x x n" for x n by (simp add: constantTimeEqual_nth)
  have mm: "meter_of (meter_to f m) = f" for f m by (simp add: meter_of_def meter_to_def)
  have ms: "meter_of (m\<lparr>sm_fuzzyReconstructionUs := a, sm_kyberKeygenUs := b\<rparr>) = meter_of m" for m a b by (simp add: meter_of_def)
  define m where "m = (meter_to m2 (meter_to m1 ((s_m c)\<lparr>sm_fuzzyReconstructionUs := sm_fuzzyReconstructionUs (s_m c) + ae_us e 0,
    sm_kyberKeygenUs := sm_kyberKeygenUs (s_m c) + ae_us e 1\<rparr>)))\<lparr>sm_shaUs := sm_shaUs (s_m c) + ae_us e 2 + ae_us e 3\<rparr>"
  have "runStages [timedReconstruct W e, timedKeygen K e, queryOwn W e slot, queryPeer W e slot, checkIdentities,
      \<lambda>c. timedVerify W (ae_us e 2) (q_own c) c, \<lambda>c. timedVerify W (ae_us e 3) (q_peer c) c, checkOwnKey] c =
    (Some True, c\<lparr>s_seed := seed, q_publicKey := pk, q_secretKey := sk, q_own := own, q_peer := peer,
      q_fabric := f2, s_m := m\<rparr>)"
    using assms
    by (simp add: run_simps timedReconstruct_def timedKeygen_def keypairDeterministic_def queryOwn_def queryPeer_def storeQuery_def
      checkIdentities_def timedVerify_def checkOwnKey_def cte mm ms m_def) (simp add: meter_to_def)
  moreover have "direct m = direct (s_m c)" by (simp add: m_def direct_def meter_to_def)
  moreover have "meter_of m = m2" by (simp add: m_def meter_of_def meter_to_def)
  ultimately show ?thesis by blast
qed

lemma upt4: "[0..<4] = [0, 1, 2, 3 :: nat]"
  by (simp add: upt_rec)

lemma initiator_M1:
  assumes "wolf_works W" and "wolf_sizes W" and "kyber_sizes K"
    and "reversibleInverse W (q_puf c) (q_secretKey c) (fc_tid (q_own c)) = Inr ci" and "length ci = CHALLENGE_BYTES"
    and "length (ae_nonce e) = APQE_NONCE_BYTES" and "length (fc_tid (q_own c)) = TID_BYTES"
    and "length (fc_tid (q_peer c)) = TID_BYTES" and "length (s_ei c) = EI_BYTES" and "length (q_m1 c) = APQE_M1_BYTES"
    and "accepting_net (ae_sends e 0) APQE_M1_BYTES"
    and ei: "ei = apqe_ei (fc_tid (q_own c)) ci (ae_nonce e) (fc_tid (q_peer c))"
    and M1: "M1 = apqe_M1 W K (fc_publicKey (q_peer c)) (ae_coins e) ei"
  shows "\<exists>m. runStages [invertOwnTid W e, composeEi e, encryptBlocks K e [0..<EI_BLOCKS], sealM1 W e, apqe_sendM1 e session] c =
    (Some True, c\<lparr>s_ci := ci, s_ni := ae_nonce e, s_ei := ei, q_m1 := M1,
      q_wire := q_wire c @ [(n_responderIp (q_config c), n_protocolPort (q_config c), apqe_datagrams MSG_M1 session M1)], s_m := m\<rparr>) \<and>
    direct m = (sm_directAppTx (s_m c) + 3104, sm_directAppRx (s_m c), sm_directFramedTx (s_m c) + apqe_framed M1, sm_directFramedRx (s_m c)) \<and>
    meter_of m = meter_of (s_m c)"
proof -
  let ?enc = "\<lambda>i. indcpa_enc K (read_at (i * 32) 32 ei) (fc_publicKey (q_peer c)) (ae_coins e i)"
  have enc: "length (indcpa_enc K m pk r) = 768" for m pk r using assms(3) by (simp add: kyber_sizes_def)
  have ei': "write_at 96 (fc_tid (q_peer c)) (write_at 64 (ae_nonce e) (write_at 32 ci (write_at 0 (fc_tid (q_own c)) (s_ei c)))) = ei"
    using assms(5-9) by (simp add: fill ei apqe_ei_def del: drop_append)
  have elen: "length ei = 128" using assms(5-8) by (simp add: ei apqe_ei_def)
  have m1: "write_at 3072 (apqe_digest W [ei]) (write_at 2304 (?enc 3) (write_at 1536 (?enc 2) (write_at 768 (?enc 1) (write_at 0 (?enc 0) (q_m1 c))))) = M1"
    using assms(10) enc assms(2) by (simp add: fill M1 apqe_M1_def upt4 del: drop_append)
  have sha: "sha256Parts W [ei] = Inr (apqe_digest W [ei])" using assms(1) elen by (simp add: sha256Parts_digest)
  have len1: "length M1 = 3104" unfolding M1 by (rule length_apqe_messages(3) [OF assms(2,3)])
  note snd = apqe_send_ok [OF assms(11) refl len1]
  define sm where "sm = (s_m c)\<lparr>sm_pufUs := sm_pufUs (s_m c) + ae_us e 4,
    sm_kyberEncryptUs := sm_kyberEncryptUs (s_m c) + ae_us e 20 + ae_us e 21 + ae_us e 22 + ae_us e 23,
    sm_shaUs := sm_shaUs (s_m c) + ae_us e 5,
    sm_directAppTx := sm_directAppTx (s_m c) + 3104, sm_directFramedTx := sm_directFramedTx (s_m c) + apqe_framed M1\<rparr>"
  have "runStages [invertOwnTid W e, composeEi e, encryptBlocks K e [0..<EI_BLOCKS], sealM1 W e, apqe_sendM1 e session] c =
    (Some True, c\<lparr>s_ci := ci, s_ni := ae_nonce e, s_ei := ei, q_m1 := M1,
      q_wire := q_wire c @ [(n_responderIp (q_config c), n_protocolPort (q_config c), apqe_datagrams MSG_M1 session M1)], s_m := sm\<rparr>)"
    using assms(4) ei' m1 sha snd unfolding upt4
    by (simp add: run_simps invertOwnTid_def timedPufInverse_def composeEi_def kyber_encrypt_def sealM1_def apqe_sendM1_def sm_def)
  moreover have "direct sm = (sm_directAppTx (s_m c) + 3104, sm_directAppRx (s_m c), sm_directFramedTx (s_m c) + apqe_framed M1, sm_directFramedRx (s_m c))"
    by (simp add: sm_def direct_def)
  moreover have "meter_of sm = meter_of (s_m c)" by (simp add: sm_def meter_of_def)
  ultimately show ?thesis by blast
qed

lemma initiator_M3:
  assumes "wolf_works W" and "wolf_sizes W"
    and "apqe_hears_direct (ae_recvs e 0) MSG_M2 session M2 ip port"
    and M2: "M2 = apqe_M2 W tkJi tkJ (s_ni c) cj nj"
    and "length (q_m2 c) = APQE_M2_BYTES" and "length (q_m3 c) = APQE_M3_BYTES"
    and "length tkJ = HASH_BYTES" and "length cj = HASH_BYTES" and "length nj = HASH_BYTES" and "length (s_ni c) = HASH_BYTES"
    and tkJi: "commutativeMap (q_puf c) tkJ = tkJi"
    and rj: "rj = xorBytes (fc_w (q_peer c)) (apqe_digest W [cj]) HASH_BYTES"
    and "tkI = commutativeMap (q_puf c) cj" and "tkIj = commutativeMap (q_puf c) rj"
    and key: "key = apqe_key W tkJi tkIj (s_ni c) nj" and M3: "M3 = apqe_M3 W tkI tkIj key nj"
    and "accepting_net (ae_sends e 1) APQE_M3_BYTES"
  shows "\<exists>m. runStages [apqe_receiveM2 e session, openM2 e, checkH2 W e, recoverRj W e, composeM3 e,
      deriveSessionKey W e, sealM3 W e, apqe_sendM3 e session] c =
    (Some True, c\<lparr>s_received := apqe_packet MSG_M2 session M2 ip port, q_m2 := M2, s_tkJ := tkJ, s_tkJi := tkJi,
      s_cj := cj, s_nj := nj, s_rj := rj, s_tkI := tkI, s_tkIj := tkIj, s_sessionKey := key, q_m3 := M3,
      q_wire := q_wire c @ [(n_responderIp (q_config c), n_protocolPort (q_config c), apqe_datagrams MSG_M3 session M3)], s_m := m\<rparr>) \<and>
    direct m = (sm_directAppTx (s_m c) + 64, sm_directAppRx (s_m c) + 128,
      sm_directFramedTx (s_m c) + apqe_framed M3, sm_directFramedRx (s_m c) + apqe_framed M2) \<and>
    meter_of m = meter_of (s_m c)"
proof -
  have len2: "length M2 = 128" unfolding M2 by (rule length_apqe_messages(1) [OF assms(2)])
  note rcv = apqe_receive_ok [OF assms(3) len2 assms(5)]
  have tn: "xorBytes M2 (s_ni c) HASH_BYTES = tkJ"
    using assms(7,10) by (intro nth_equalityI) (simp_all add: M2 apqe_M2_def nth_append xor.assoc)
  have "drop 32 M2 = maskPair tkJi cj nj @ apqe_digest W [tkJi, tkJ, cj, nj]" by (simp add: M2 apqe_M2_def)
  then have pair: "unmaskPair tkJi (drop 32 M2) = (cj, nj)" using assms(8,9) by (simp add: unmask_mask)
  have h2: "drop 96 M2 = apqe_digest W [tkJi, tkJ, cj, nj]" by (simp add: M2 apqe_M2_def)
  have lens: "length tkJi = 32" "length tkI = 32" "length tkIj = 32" "length key = 32" "length rj = 32"
    using assms(2,11,13,14) by (auto simp: key apqe_key_def rj)
  have sha: "sha256Parts W ps = Inr (apqe_digest W ps)" if "list_all (\<lambda>p. length p = 32) ps" for ps
    using that assms(1) by (intro sha256Parts_digest) (auto simp: list_all_iff)
  have shas: "sha256Parts W [tkJi, tkJ, cj, nj] = Inr (apqe_digest W [tkJi, tkJ, cj, nj])"
    "sha256Parts W [cj] = Inr (apqe_digest W [cj])" "sha256Parts W [tkJi, tkIj, s_ni c, nj] = Inr key"
    "sha256Parts W [tkIj, tkI, key] = Inr (apqe_digest W [tkIj, tkI, key])"
    using lens assms(7-10) by (simp_all add: sha key apqe_key_def)
  have m3: "write_at 32 (apqe_digest W [tkIj, tkI, key]) (write_at 0 (xorBytes tkI nj 32) (q_m3 c)) = M3"
    using assms(2,6) by (simp add: fill M3 apqe_M3_def del: drop_append)
  have len3: "length M3 = 64" unfolding M3 by (rule length_apqe_messages(2) [OF assms(2)])
  note snd = apqe_send_ok [OF assms(17) refl len3]
  have cte: "constantTimeEqual x x n" for x n by (simp add: constantTimeEqual_nth)
  define sm where "sm = (s_m c)\<lparr>sm_pufUs := sm_pufUs (s_m c) + ae_us e 6 + (ae_us e 9 + ae_us e 10),
    sm_shaUs := sm_shaUs (s_m c) + ae_us e 7 + ae_us e 8 + ae_us e 11 + ae_us e 12,
    sm_directAppTx := sm_directAppTx (s_m c) + 64, sm_directFramedTx := sm_directFramedTx (s_m c) + apqe_framed M3,
    sm_directAppRx := sm_directAppRx (s_m c) + 128, sm_directFramedRx := sm_directFramedRx (s_m c) + apqe_framed M2\<rparr>"
  have "runStages [apqe_receiveM2 e session, openM2 e, checkH2 W e, recoverRj W e, composeM3 e,
      deriveSessionKey W e, sealM3 W e, apqe_sendM3 e session] c =
    (Some True, c\<lparr>s_received := apqe_packet MSG_M2 session M2 ip port, q_m2 := M2, s_tkJ := tkJ, s_tkJi := tkJi,
      s_cj := cj, s_nj := nj, s_rj := rj, s_tkI := tkI, s_tkIj := tkIj, s_sessionKey := key, q_m3 := M3,
      q_wire := q_wire c @ [(n_responderIp (q_config c), n_protocolPort (q_config c), apqe_datagrams MSG_M3 session M3)], s_m := sm\<rparr>)"
    using rcv snd tn pair h2 shas m3 assms(11,13,14)
    by (simp add: run_simps apqe_receiveM2_def openM2_def checkH2_def cte recoverRj_def rj [symmetric] composeM3_def
      deriveSessionKey_def sealM3_def apqe_sendM3_def sm_def)
  moreover have "direct sm = (sm_directAppTx (s_m c) + 64, sm_directAppRx (s_m c) + 128,
      sm_directFramedTx (s_m c) + apqe_framed M3, sm_directFramedRx (s_m c) + apqe_framed M2)"
    by (simp add: sm_def direct_def)
  moreover have "meter_of sm = meter_of (s_m c)" by (simp add: sm_def meter_of_def)
  ultimately show ?thesis by blast
qed

section \<open>RESULT\<close>

text \<open>RESULT as the concatenation of its fields.\<close>

lemma apqe_result_layout:
  assumes "length kh = HASH_BYTES"
  shows "apqe_encodeResult session t m kh =
    [0] @ putU32 session @ putU64 t @ putU64 (sm_shaUs m) @ putU64 (sm_pufUs m) @ putU64 (sm_fuzzyReconstructionUs m) @
    putU64 (sm_kyberKeygenUs m) @ putU64 (sm_kyberEncryptUs m) @ putU64 (sm_kyberDecryptUs m) @ putU64 (sm_fabricWallUs m) @
    putU64 (sm_fabricPeerUs m) @ putU32 (sm_directAppTx m) @ putU32 (sm_directAppRx m) @ putU32 (sm_directFramedTx m) @
    putU32 (sm_directFramedRx m) @ putU32 (sm_gatewayAppTx m) @ putU32 (sm_gatewayAppRx m) @ kh @ zeros 20"
proof -
  have z: "(zeros 153)[0 := 0] = [0] @ zeros 152" by (simp add: zeros_def numeral_eq_Suc)
  have l: "write_at off src (xs @ zeros n) = (xs @ src) @ zeros (n - length src)" if "off = length xs" "length src \<le> n" for off src xs n
    using that by (simp add: write_at_append drop_zeros)
  show ?thesis
    unfolding apqe_encodeResult_def Let_def z apqe_codecs
    by (simp add: l assms del: append_assoc append_Cons)
qed

lemma length_apqe_encodeResult: "length kh = HASH_BYTES \<Longrightarrow> length (apqe_encodeResult session t m kh) = APQE_RESULT_BYTES"
  by (simp add: apqe_result_layout)

lemma skip_field:
  "8 \<le> n \<Longrightarrow> drop n (putU64 v @ ys) = drop (n - 8) ys" "4 \<le> n \<Longrightarrow> drop n (putU32 w @ ys) = drop (n - 4) ys"
  by simp_all

lemma apqe_decode_encode:
  assumes "length kh = HASH_BYTES"
  shows "apqe_decodeResult (apqe_encodeResult session t m kh) session m0 =
    Some (t, m\<lparr>sm_protocolUs := t, sm_confirmedUs := sm_confirmedUs m0\<rparr>, kh)"
proof -
  let ?r = "apqe_encodeResult session t m kh"
  note flds = apqe_result_layout [OF assms] skip_field
  have head: "?r ! 0 = 0"
    "getU32 (drop 1 ?r) = session" "getU64 (drop 5 ?r) = t" "read_at 101 HASH_BYTES ?r = kh"
    using assms by (simp_all add: flds read_at_def del: drop_append)
  have times: "getU64 (drop 13 ?r) = sm_shaUs m" "getU64 (drop 21 ?r) = sm_pufUs m" "getU64 (drop 29 ?r) = sm_fuzzyReconstructionUs m"
    "getU64 (drop 37 ?r) = sm_kyberKeygenUs m" "getU64 (drop 45 ?r) = sm_kyberEncryptUs m" "getU64 (drop 53 ?r) = sm_kyberDecryptUs m"
    "getU64 (drop 61 ?r) = sm_fabricWallUs m" "getU64 (drop 69 ?r) = sm_fabricPeerUs m"
    by (simp_all add: flds del: drop_append)
  have counts: "getU32 (drop 77 ?r) = sm_directAppTx m" "getU32 (drop 81 ?r) = sm_directAppRx m" "getU32 (drop 85 ?r) = sm_directFramedTx m"
    "getU32 (drop 89 ?r) = sm_directFramedRx m" "getU32 (drop 93 ?r) = sm_gatewayAppTx m" "getU32 (drop 97 ?r) = sm_gatewayAppRx m"
    by (simp_all add: flds del: drop_append)
  show ?thesis
    unfolding apqe_decodeResult_def Let_def apqe_codecs head times counts by simp
qed

lemma apqe_decode_other:
  "length kh = HASH_BYTES \<Longrightarrow> session' \<noteq> session \<Longrightarrow> apqe_decodeResult (apqe_encodeResult session t m kh) session' m0 = None"
  by (simp add: apqe_result_layout apqe_decodeResult_def Let_def)

lemma initiator_result:
  assumes "wolf_works W" and "wolf_sizes W" and "length (s_sessionKey c) = HASH_BYTES" and "length (q_result c) = APQE_RESULT_BYTES"
    and "apqe_hears_direct (ae_recvs e 1) APQE_MSG_RESULT session (apqe_encodeResult session t mB (apqe_digest W [s_sessionKey c])) ip port"
  shows "runStages [apqe_receiveResult e session, confirmKey W session] c =
    (Some True, c\<lparr>s_received := apqe_packet APQE_MSG_RESULT session (apqe_encodeResult session t mB (apqe_digest W [s_sessionKey c])) ip port,
      q_result := apqe_encodeResult session t mB (apqe_digest W [s_sessionKey c]),
      s_m := (s_m c)\<lparr>sm_protocolUs := ae_us e 13, sm_confirmedUs := ae_us e 14\<rparr>,
      s_peerProtocolTime := t, s_peerMetrics := mB\<lparr>sm_protocolUs := t, sm_confirmedUs := 0\<rparr>\<rparr>)"
proof -
  have kh: "length (apqe_digest W [s_sessionKey c]) = HASH_BYTES" using assms(2) by simp
  note rcv = apqe_receive_ok [OF assms(5) length_apqe_encodeResult [OF kh] assms(4)]
  have "apqe_sha256 W (s_sessionKey c) = Inr (apqe_digest W [s_sessionKey c])"
    using assms(1,3) by (simp add: apqe_sha256_def sha256Parts_digest)
  then show ?thesis
    using rcv apqe_decode_encode [OF kh, of session t mB SessionMetrics_init]
    by (simp add: run_simps apqe_receiveResult_def confirmKey_def constantTimeEqual_nth SessionMetrics_init_def)
qed

section \<open>The responder\<close>

lemma responder_opens:
  assumes "wolf_works W" and "wolf_sizes W" and "kyber_sizes K" and "kyber_correct K"
    and "reconstructKyberSeed W (q_puf c) = Inr seed" and "indcpa_keypair K seed = (pk, sk)"
    and parts: "length tidI = 32" "length ci = 32" "length ni = 32" "length tidJ = 32"
    and "q_m1 c = apqe_M1 W K pk coins (apqe_ei tidI ci ni tidJ)" and "length (s_ei c) = EI_BYTES"
  shows "\<exists>m. runStages [countM1 incoming, timedReconstruct W e, timedKeygen K e, decryptBlocks K e [0..<EI_BLOCKS], checkH1 W e] c =
    (Some True, c\<lparr>s_seed := seed, q_publicKey := pk, q_secretKey := sk, s_ei := apqe_ei tidI ci ni tidJ,
      s_ci := ci, s_ni := ni, s_m := m\<rparr>) \<and>
    meter_of m = meter_of (s_m c)"
proof -
  let ?ei = "apqe_ei tidI ci ni tidJ"
  let ?ct = "\<lambda>i. indcpa_enc K (read_at (i * 32) 32 ?ei) pk (coins i)"
  have enc: "length (indcpa_enc K m pk r) = 768" for m pk r using assms(3) by (simp add: kyber_sizes_def)
  have elen: "length ?ei = 128" using parts by (simp add: apqe_ei_def)
  have fields: "read_at 0 32 ?ei = tidI" "read_at 32 32 ?ei = ci" "read_at 64 32 ?ei = ni" "read_at 96 32 ?ei = tidJ"
    using parts by (simp_all add: apqe_ei_def read_at_def)
  have m1: "q_m1 c = ?ct 0 @ ?ct 1 @ ?ct 2 @ ?ct 3 @ apqe_digest W [?ei]" by (simp add: assms(11) apqe_M1_def upt4)
  have ct: "read_at 0 768 (q_m1 c) = ?ct 0" "read_at 768 768 (q_m1 c) = ?ct 1" "read_at 1536 768 (q_m1 c) = ?ct 2"
    "read_at 2304 768 (q_m1 c) = ?ct 3" "drop 3072 (q_m1 c) = apqe_digest W [?ei]"
    unfolding m1 by (simp_all add: read_at_def enc)
  have dec: "indcpa_dec K (indcpa_enc K x pk r) sk = x" if "length x = 32" for x r
    using assms(4,6) that unfolding kyber_correct_def by (metis fst_conv snd_conv)
  have pt: "indcpa_dec K (?ct 0) sk = tidI" "indcpa_dec K (?ct 1) sk = ci" "indcpa_dec K (?ct 2) sk = ni" "indcpa_dec K (?ct 3) sk = tidJ"
    using parts by (simp_all add: fields dec)
  have ei: "write_at 96 tidJ (write_at 64 ni (write_at 32 ci (write_at 0 tidI (s_ei c)))) = ?ei"
    using parts assms(12) by (simp add: fill apqe_ei_def del: drop_append)
  have sha: "sha256Parts W [?ei] = Inr (apqe_digest W [?ei])" using assms(1) elen by (simp add: sha256Parts_digest)
  have cte: "constantTimeEqual x x n" for x n by (simp add: constantTimeEqual_nth)
  define sm where "sm = (s_m c)\<lparr>sm_directAppRx := 3104, sm_directFramedRx := r_framedBytes incoming,
    sm_fuzzyReconstructionUs := sm_fuzzyReconstructionUs (s_m c) + ae_us e 0, sm_kyberKeygenUs := sm_kyberKeygenUs (s_m c) + ae_us e 1,
    sm_kyberDecryptUs := sm_kyberDecryptUs (s_m c) + ae_us e 20 + ae_us e 21 + ae_us e 22 + ae_us e 23,
    sm_shaUs := sm_shaUs (s_m c) + ae_us e 5\<rparr>"
  have "runStages [countM1 incoming, timedReconstruct W e, timedKeygen K e, decryptBlocks K e [0..<EI_BLOCKS], checkH1 W e] c =
    (Some True, c\<lparr>s_seed := seed, q_publicKey := pk, q_secretKey := sk, s_ei := ?ei, s_ci := ci, s_ni := ni, s_m := sm\<rparr>)"
    using ct pt ei sha fields(2,3) assms(5,6) unfolding upt4
    by (simp add: run_simps countM1_def timedReconstruct_def timedKeygen_def keypairDeterministic_def kyber_decrypt_def checkH1_def cte sm_def)
  moreover have "meter_of sm = meter_of (s_m c)" by (simp add: sm_def meter_of_def)
  ultimately show ?thesis by blast
qed

lemma responder_M2:
  assumes "wolf_works W" and "wolf_sizes W" and "meter_of (s_m c) = no_meter"
    and "queryByTid W (read_at 0 TID_BYTES (s_ei c)) (ae_fabric e 0) no_meter (q_fabric c) = Some (Some peer, m1, f1)"
    and "fc_identityHash peer = q_peerIdentityHash c" and "verifyCredential W peer"
    and "reversibleInverse W (q_puf c) (q_secretKey c) (read_at 96 TID_BYTES (s_ei c)) = Inr cj"
    and "length cj = HASH_BYTES" and "length (s_ci c) = HASH_BYTES" and "length (ae_nonce e) = HASH_BYTES"
    and rj: "rj = xorBytes (fc_w peer) (apqe_digest W [s_ci c]) HASH_BYTES"
    and tk: "tkJi = commutativeMap (q_puf c) rj" "tkJ = commutativeMap (q_puf c) (s_ci c)"
    and M2: "M2 = apqe_M2 W tkJi tkJ (s_ni c) cj (ae_nonce e)"
    and "length (q_m2 c) = APQE_M2_BYTES" and "accepting_net (ae_sends e 0) APQE_M2_BYTES"
  shows "\<exists>m. runStages [queryTid W e, checkPeerIdentity, \<lambda>c. timedVerify W (ae_us e 2) (q_peer c) c,
     invertTidJ W e, recoverRi W e, composeM2 e, sealM2 W e, apqe_sendM2 e incoming session] c =
    (Some True, c\<lparr>q_peer := peer, q_fabric := f1, s_cj := cj, s_rj := rj, s_tkJi := tkJi, s_tkJ := tkJ, s_nj := ae_nonce e,
      q_m2 := M2, q_wire := q_wire c @ [(r_sourceIp incoming, r_sourcePort incoming, apqe_datagrams MSG_M2 session M2)], s_m := m\<rparr>)"
proof -
  have lens: "length tkJi = 32" "length tkJ = 32" by (simp_all add: tk)
  have sha: "sha256Parts W [s_ci c] = Inr (apqe_digest W [s_ci c])"
    "sha256Parts W [tkJi, tkJ, cj, ae_nonce e] = Inr (apqe_digest W [tkJi, tkJ, cj, ae_nonce e])"
    using lens assms(1,8-10) by (simp_all add: sha256Parts_digest)
  have m2: "write_at 96 (apqe_digest W [tkJi, tkJ, cj, ae_nonce e]) (write_at 32 (maskPair tkJi cj (ae_nonce e))
      (write_at 0 (xorBytes tkJ (s_ni c) 32) (q_m2 c))) = M2"
    using assms(2,15) by (simp add: fill M2 apqe_M2_def del: drop_append)
  have len2: "length M2 = 128" unfolding M2 by (rule length_apqe_messages(1) [OF assms(2)])
  note snd = apqe_send_ok [OF assms(16) refl len2]
  have cte: "constantTimeEqual x x n" for x n by (simp add: constantTimeEqual_nth)
  define sm where "sm = (meter_to m1 (s_m c))\<lparr>sm_pufUs := sm_pufUs (s_m c) + ae_us e 4 + (ae_us e 6 + ae_us e 9),
    sm_shaUs := sm_shaUs (s_m c) + ae_us e 2 + ae_us e 8 + ae_us e 7,
    sm_directAppTx := sm_directAppTx (s_m c) + 128, sm_directFramedTx := sm_directFramedTx (s_m c) + apqe_framed M2\<rparr>"
  have "runStages [queryTid W e, checkPeerIdentity, \<lambda>c. timedVerify W (ae_us e 2) (q_peer c) c,
     invertTidJ W e, recoverRi W e, composeM2 e, sealM2 W e, apqe_sendM2 e incoming session] c =
    (Some True, c\<lparr>q_peer := peer, q_fabric := f1, s_cj := cj, s_rj := rj, s_tkJi := tkJi, s_tkJ := tkJ, s_nj := ae_nonce e,
      q_m2 := M2, q_wire := q_wire c @ [(r_sourceIp incoming, r_sourcePort incoming, apqe_datagrams MSG_M2 session M2)], s_m := sm\<rparr>)"
    using assms(3-7) sha m2 snd
    by (simp add: run_simps queryTid_def storeQuery_def checkPeerIdentity_def cte timedVerify_def invertTidJ_def timedPufInverse_def
      recoverRi_def rj [symmetric] composeM2_def tk [symmetric] sealM2_def apqe_sendM2_def sm_def) (simp add: meter_to_def)
  then show ?thesis by blast
qed

lemma responder_finishes:
  assumes "wolf_works W" and "wolf_sizes W"
    and M3: "M3 = apqe_M3 W tkI tkIj key (s_nj c)"
    and "apqe_hears_direct (ae_recvs e 0) MSG_M3 session M3 ip port"
    and lens: "length tkI = HASH_BYTES" "length (s_nj c) = HASH_BYTES" "length (s_ni c) = HASH_BYTES" "length (s_tkJi c) = HASH_BYTES"
    and tkIj: "tkIj = commutativeMap (q_puf c) tkI" and key: "key = apqe_key W (s_tkJi c) tkIj (s_ni c) (s_nj c)"
    and "length (q_m3 c) = APQE_M3_BYTES" and "accepting_net (ae_sends e 1) APQE_RESULT_BYTES"
  shows "\<exists>m result. runStages [apqe_receiveM3 e session, openM3 e, deriveSessionKey W e, checkH3 W e, apqe_sendResult W e incoming session] c =
    (Some True, c\<lparr>s_received := apqe_packet MSG_M3 session M3 ip port, q_m3 := M3, s_tkI := tkI, s_tkIj := tkIj, s_sessionKey := key,
      q_result := result,
      q_wire := q_wire c @ [(r_sourceIp incoming, r_sourcePort incoming, apqe_datagrams APQE_MSG_RESULT session result)], s_m := m\<rparr>) \<and>
    result = apqe_encodeResult session (ae_us e 13) m (apqe_digest W [key])"
proof -
  have len3: "length M3 = 64" unfolding M3 by (rule length_apqe_messages(2) [OF assms(2)])
  note rcv = apqe_receive_ok [OF assms(4) len3 assms(11)]
  have tn: "xorBytes M3 (s_nj c) HASH_BYTES = tkI"
    using lens by (intro nth_equalityI) (simp_all add: M3 apqe_M3_def nth_append xor.assoc)
  have h3: "drop 32 M3 = apqe_digest W [tkIj, tkI, key]" by (simp add: M3 apqe_M3_def)
  have lens': "length tkIj = 32" "length key = 32" using assms(2) by (simp_all add: tkIj key apqe_key_def)
  have sha: "sha256Parts W [s_tkJi c, tkIj, s_ni c, s_nj c] = Inr key" "sha256Parts W [tkIj, tkI, key] = Inr (apqe_digest W [tkIj, tkI, key])"
    "apqe_sha256 W key = Inr (apqe_digest W [key])"
    using lens lens' assms(1) by (simp_all add: apqe_sha256_def sha256Parts_digest key apqe_key_def)
  have kh: "length (apqe_digest W [key]) = HASH_BYTES" using assms(2) by simp
  note snd = apqe_send_ok [OF assms(12) refl length_apqe_encodeResult [OF kh]]
  have cte: "constantTimeEqual x x n" for x n by (simp add: constantTimeEqual_nth)
  define sm where "sm = (s_m c)\<lparr>sm_directAppRx := sm_directAppRx (s_m c) + 64, sm_directFramedRx := sm_directFramedRx (s_m c) + apqe_framed M3,
    sm_pufUs := sm_pufUs (s_m c) + ae_us e 10, sm_shaUs := sm_shaUs (s_m c) + ae_us e 11 + ae_us e 12, sm_protocolUs := ae_us e 13\<rparr>"
  have "runStages [apqe_receiveM3 e session, openM3 e, deriveSessionKey W e, checkH3 W e, apqe_sendResult W e incoming session] c =
    (Some True, c\<lparr>s_received := apqe_packet MSG_M3 session M3 ip port, q_m3 := M3, s_tkI := tkI, s_tkIj := tkIj, s_sessionKey := key,
      q_result := apqe_encodeResult session (ae_us e 13) sm (apqe_digest W [key]),
      q_wire := q_wire c @ [(r_sourceIp incoming, r_sourcePort incoming,
        apqe_datagrams APQE_MSG_RESULT session (apqe_encodeResult session (ae_us e 13) sm (apqe_digest W [key])))], s_m := sm\<rparr>)"
    using rcv tn h3 sha snd tkIj
    by (simp add: run_simps apqe_receiveM3_def openM3_def deriveSessionKey_def checkH3_def cte apqe_sendResult_def sm_def)
  then show ?thesis by blast
qed

end
