(* ===== verification/ApqeHonest.thy ===== *)
theory ApqeHonest
  imports ApqeExchange
begin

text \<open>
  Two enrolled devices of the baseline protocol, the messages they exchange and the runs of
  both handlers when those are delivered. The credential of a device is \<open>buildCredential\<close> on
  its own state, and its algebra is what makes both sides compute the same secrets: the
  responder recovers from it the image of the challenge under the initiator's PUF, and the
  two commutative maps commute.
\<close>

section \<open>Enrolled devices\<close>

definition apqe_sized :: "'a apqe_node_scheme \<Rightarrow> bool" where
  "apqe_sized n \<longleftrightarrow> length (q_m1 n) = APQE_M1_BYTES \<and> length (q_m2 n) = APQE_M2_BYTES \<and>
    length (q_m3 n) = APQE_M3_BYTES \<and> length (q_result n) = APQE_RESULT_BYTES"

text \<open>
  A device that has enrolled \<open>cred\<close> for \<open>slot\<close>: its keys are those of the seed its PUF
  reconstructs, and the credential is the one it builds.
\<close>

definition apqe_party :: "wolf \<Rightarrow> kyber \<Rightarrow> u16 \<Rightarrow> FabricCredential \<Rightarrow> apqe_node \<Rightarrow> bool" where
  "apqe_party W K slot cred n \<longleftrightarrow>
    apqe_sized n \<and> buildCredential W slot n = Inr cred \<and> length (n_deviceId (q_config n)) = ID_BYTES \<and>
    (\<exists>seed. reconstructKyberSeed W (q_puf n) = Inr seed \<and> indcpa_keypair K seed = (q_publicKey n, q_secretKey n))"

definition apqe_challenge :: "wolf \<Rightarrow> u16 \<Rightarrow> 'a apqe_node_scheme \<Rightarrow> bytes" where
  "apqe_challenge W slot n = apqe_digest W [chal_label, n_deviceId (q_config n), putU16 slot]"

text \<open>What a device can rely on about a credential it built.\<close>

lemma built_credential:
  assumes "wolf_works W" and "wolf_sizes W" and "buildCredential W slot n = Inr cred"
    and "length (n_deviceId (q_config n)) = ID_BYTES"
  shows "fc_identityHash cred = q_identityHash n" and "fc_publicKey cred = q_publicKey n"
    and "length (fc_tid cred) = TID_BYTES" and "verifyCredential W cred"
    and "reversibleInverse W (q_puf n) (q_secretKey n) (fc_tid cred) = Inr (apqe_challenge W slot n)"
    and "xorBytes (fc_w cred) (apqe_digest W [apqe_challenge W slot n]) HASH_BYTES =
      commutativeMap (q_puf n) (apqe_challenge W slot n)"
proof -
  let ?ch = "apqe_challenge W slot n"
  have ch: "deriveChallenge W slot n = Inr ?ch" "length ?ch = 32"
    using assms(1,2,4) by (simp_all add: deriveChallenge_def apqe_challenge_def sha256Parts_digest chal_label_def)
  have h: "apqe_sha256 W ?ch = Inr (apqe_digest W [?ch])"
    using assms(1) ch(2) by (simp add: apqe_sha256_def sha256Parts_digest)
  from assms(3) ch(1) h obtain tid vh where tid: "reversibleMap W (q_puf n) (q_secretKey n) ?ch = Inr tid"
    and cred: "cred = \<lparr>fc_identityHash = q_identityHash n, fc_tid = tid, fc_publicKey = q_publicKey n,
      fc_w = xorBytes (commutativeMap (q_puf n) ?ch) (apqe_digest W [?ch]) PUF_BYTES, fc_verifyHash = vh\<rparr>"
    and vh: "sha256Parts W [q_identityHash n, xorBytes (commutativeMap (q_puf n) ?ch) (apqe_digest W [?ch]) PUF_BYTES, q_publicKey n] = Inr vh"
    by (auto simp: buildCredential_def Let_def bindE_eq_Inr)
  show "fc_identityHash cred = q_identityHash n" "fc_publicKey cred = q_publicKey n" by (simp_all add: cred)
  show "length (fc_tid cred) = TID_BYTES" using reversible_length [OF tid] by (simp add: cred)
  show "verifyCredential W cred" using vh by (simp add: cred verifyCredential_def constantTimeEqual_nth)
  show "reversibleInverse W (q_puf n) (q_secretKey n) (fc_tid cred) = Inr ?ch"
    using reversible_inverse [OF tid ch(2)] by (simp add: cred)
  show "xorBytes (fc_w cred) (apqe_digest W [?ch]) HASH_BYTES = commutativeMap (q_puf n) ?ch"
    by (simp add: cred xorBytes_cancel)
qed

lemma length_apqe_challenge [simp]: "wolf_sizes W \<Longrightarrow> length (apqe_challenge W slot n) = CHALLENGE_BYTES"
  by (simp add: apqe_challenge_def)

section \<open>The exchange of two devices\<close>

record apqe_duo =
  du_A :: apqe_node
  du_B :: apqe_node
  du_eA :: apqe_env
  du_eB :: apqe_env
  du_slot :: u16
  du_credA :: FabricCredential
  du_credB :: FabricCredential

definition duo_ci :: "wolf \<Rightarrow> apqe_duo \<Rightarrow> bytes" where
  "duo_ci W d = apqe_challenge W (du_slot d) (du_A d)"

definition duo_cj :: "wolf \<Rightarrow> apqe_duo \<Rightarrow> bytes" where
  "duo_cj W d = apqe_challenge W (du_slot d) (du_B d)"

text \<open>The image of a challenge under both PUFs.\<close>

definition duo_both :: "apqe_duo \<Rightarrow> bytes \<Rightarrow> bytes" where
  "duo_both d c = commutativeMap (q_puf (du_A d)) (commutativeMap (q_puf (du_B d)) c)"

definition duo_ei :: "wolf \<Rightarrow> apqe_duo \<Rightarrow> bytes" where
  "duo_ei W d = apqe_ei (fc_tid (du_credA d)) (duo_ci W d) (ae_nonce (du_eA d)) (fc_tid (du_credB d))"

definition duo_M1 :: "wolf \<Rightarrow> kyber \<Rightarrow> apqe_duo \<Rightarrow> bytes" where
  "duo_M1 W K d = apqe_M1 W K (q_publicKey (du_B d)) (ae_coins (du_eA d)) (duo_ei W d)"

definition duo_M2 :: "wolf \<Rightarrow> apqe_duo \<Rightarrow> bytes" where
  "duo_M2 W d = apqe_M2 W (duo_both d (duo_ci W d)) (commutativeMap (q_puf (du_B d)) (duo_ci W d)) (ae_nonce (du_eA d))
    (duo_cj W d) (ae_nonce (du_eB d))"

text \<open>The session key: the hash of both shared images and both nonces.\<close>

definition duo_key :: "wolf \<Rightarrow> apqe_duo \<Rightarrow> bytes" where
  "duo_key W d = apqe_key W (duo_both d (duo_ci W d)) (duo_both d (duo_cj W d)) (ae_nonce (du_eA d)) (ae_nonce (du_eB d))"

definition duo_M3 :: "wolf \<Rightarrow> apqe_duo \<Rightarrow> bytes" where
  "duo_M3 W d = apqe_M3 W (commutativeMap (q_puf (du_A d)) (duo_cj W d)) (duo_both d (duo_cj W d)) (duo_key W d) (ae_nonce (du_eB d))"

text \<open>Enrolled with each other, nonces of the right size, and sockets that accept what is sent.\<close>

definition duo_ready :: "wolf \<Rightarrow> kyber \<Rightarrow> apqe_duo \<Rightarrow> bool" where
  "duo_ready W K d \<longleftrightarrow>
    wolf_works W \<and> wolf_sizes W \<and> kyber_sizes K \<and> kyber_correct K \<and>
    apqe_party W K (du_slot d) (du_credA d) (du_A d) \<and> apqe_party W K (du_slot d) (du_credB d) (du_B d) \<and>
    q_peerIdentityHash (du_A d) = q_identityHash (du_B d) \<and> q_peerIdentityHash (du_B d) = q_identityHash (du_A d) \<and>
    length (ae_nonce (du_eA d)) = APQE_NONCE_BYTES \<and> length (ae_nonce (du_eB d)) = APQE_NONCE_BYTES \<and>
    accepting_net (ae_sends (du_eA d) 0) APQE_M1_BYTES \<and> accepting_net (ae_sends (du_eA d) 1) APQE_M3_BYTES \<and>
    accepting_net (ae_sends (du_eB d) 0) APQE_M2_BYTES \<and> accepting_net (ae_sends (du_eB d) 1) APQE_RESULT_BYTES"

text \<open>The gateway answers the three queries with the enrolled credentials.\<close>

definition duo_served :: "wolf \<Rightarrow> apqe_duo \<Rightarrow> bool" where
  "duo_served W d \<longleftrightarrow>
    (\<exists>m1 f1 m2 f2. queryByIdentitySlot W (q_identityHash (du_A d)) (du_slot d) (ae_fabric (du_eA d) 0) no_meter (q_fabric (du_A d)) =
        Some (Some (du_credA d), m1, f1) \<and>
      queryByIdentitySlot W (q_peerIdentityHash (du_A d)) (du_slot d) (ae_fabric (du_eA d) 1) m1 f1 =
        Some (Some (du_credB d), m2, f2)) \<and>
    (\<exists>m f. queryByTid W (fc_tid (du_credA d)) (ae_fabric (du_eB d) 0) no_meter (q_fabric (du_B d)) = Some (Some (du_credA d), m, f))"

section \<open>Entering\<close>

lemma apqe_enter_fields [simp]:
  "q_config (apqe_enter n) = q_config n" "q_puf (apqe_enter n) = q_puf n" "q_fabric (apqe_enter n) = q_fabric n"
  "q_identityHash (apqe_enter n) = q_identityHash n" "q_peerIdentityHash (apqe_enter n) = q_peerIdentityHash n"
  "q_m1 (apqe_enter n) = q_m1 n" "q_m2 (apqe_enter n) = q_m2 n" "q_m3 (apqe_enter n) = q_m3 n" "q_result (apqe_enter n) = q_result n"
  "q_wire (apqe_enter n) = q_wire n" "s_m (apqe_enter n) = SessionMetrics_init" "s_ei (apqe_enter n) = zeros EI_BYTES"
  "meter_of SessionMetrics_init = no_meter"
  by (simp_all add: apqe_enter_def apqe_node.extend_def apqe_session.fields_def meter_of_def no_meter_def SessionMetrics_init_def)

section \<open>The responder's run\<close>

text \<open>
  The responder \<open>B\<close> on an M1 whose plaintext names the credential \<open>cred\<close> of its peer, \<open>ci\<close> and
  \<open>ni\<close>, answered by an M3 for some \<open>tkI\<close>: nothing else about the sender matters.
\<close>

lemma responder_general:
  assumes base: "wolf_works W" "wolf_sizes W" "kyber_sizes K" "kyber_correct K"
    and B: "apqe_sized B" "reconstructKyberSeed W (q_puf B) = Inr seed" "indcpa_keypair K seed = (q_publicKey B, q_secretKey B)"
      "reversibleInverse W (q_puf B) (q_secretKey B) tidJ = Inr cj"
    and cred: "fc_identityHash cred = q_peerIdentityHash B" "verifyCredential W cred"
    and query: "queryByTid W (fc_tid cred) (ae_fabric e 0) no_meter (q_fabric B) = Some (Some cred, m, f)"
    and lens: "length (fc_tid cred) = 32" "length tidJ = 32" "length ci = 32" "length cj = 32" "length ni = 32" "length (ae_nonce e) = 32"
      "length tkI = 32"
    and nets: "accepting_net (ae_sends e 0) APQE_M2_BYTES" "accepting_net (ae_sends e 1) APQE_RESULT_BYTES"
    and M1: "q_m1 B = apqe_M1 W K (q_publicKey B) coins (apqe_ei (fc_tid cred) ci ni tidJ)"
    and tkJi: "tkJi = commutativeMap (q_puf B) (xorBytes (fc_w cred) (apqe_digest W [ci]) HASH_BYTES)"
    and M2: "M2 = apqe_M2 W tkJi (commutativeMap (q_puf B) ci) ni cj (ae_nonce e)"
    and key: "key = apqe_key W tkJi (commutativeMap (q_puf B) tkI) ni (ae_nonce e)"
    and M3: "M3 = apqe_M3 W tkI (commutativeMap (q_puf B) tkI) key (ae_nonce e)"
    and hears: "apqe_hears_direct (ae_recvs e 0) MSG_M3 session M3 ip port"
  shows "\<exists>c m result. runStages (apqe_responderStages W K e incoming session) (apqe_enter B) = (Some True, c) \<and>
    s_sessionKey c = key \<and> q_result c = result \<and>
    result = apqe_encodeResult session (ae_us e 13) m (apqe_digest W [key]) \<and>
    q_wire c = q_wire B @ [(r_sourceIp incoming, r_sourcePort incoming, apqe_datagrams MSG_M2 session M2),
      (r_sourceIp incoming, r_sourcePort incoming, apqe_datagrams APQE_MSG_RESULT session result)]"
proof -
  let ?ei = "apqe_ei (fc_tid cred) ci ni tidJ" and ?c0 = "apqe_enter B"
  let ?rj = "xorBytes (fc_w cred) (apqe_digest W [ci]) HASH_BYTES"
  let ?p1 = "[countM1 incoming, timedReconstruct W e, timedKeygen K e, decryptBlocks K e [0..<EI_BLOCKS], checkH1 W e]"
  let ?u1 = "\<lambda>m. ?c0\<lparr>s_seed := seed, q_publicKey := q_publicKey B, q_secretKey := q_secretKey B, s_ei := ?ei,
      s_ci := ci, s_ni := ni, s_m := m\<rparr>"
  have "\<exists>m. runStages ?p1 ?c0 = (Some True, ?u1 m) \<and> meter_of m = meter_of (s_m ?c0)"
    by (rule responder_opens [OF base, where coins = coins]) (use B lens M1 in simp_all)
  then obtain m1 where s1: "runStages ?p1 ?c0 = (Some True, ?u1 m1)" and "meter_of m1 = meter_of (s_m ?c0)" by blast
  then have m1: "meter_of m1 = no_meter" by simp
  let ?c1 = "?u1 m1"
  have rd: "read_at 0 32 ?ei = fc_tid cred" "read_at 96 32 ?ei = tidJ" using lens by (simp_all add: apqe_ei_def read_at_def)
  let ?p2 = "[queryTid W e, checkPeerIdentity, \<lambda>c. timedVerify W (ae_us e 2) (q_peer c) c,
     invertTidJ W e, recoverRi W e, composeM2 e, sealM2 W e, apqe_sendM2 e incoming session]"
  let ?u2 = "\<lambda>m. ?c1\<lparr>q_peer := cred, q_fabric := f, s_cj := cj, s_rj := ?rj,
      s_tkJi := tkJi, s_tkJ := commutativeMap (q_puf B) ci, s_nj := ae_nonce e, q_m2 := M2,
      q_wire := q_wire ?c1 @ [(r_sourceIp incoming, r_sourcePort incoming, apqe_datagrams MSG_M2 session M2)], s_m := m\<rparr>"
  have "\<exists>m. runStages ?p2 ?c1 = (Some True, ?u2 m)"
    by (rule responder_M2 [OF base(1,2), where ?m1.0 = m])
      (use m1 query rd lens nets cred B tkJi M2 in \<open>simp_all add: apqe_sized_def\<close>)
  then obtain m2 where s2: "runStages ?p2 ?c1 = (Some True, ?u2 m2)" by blast
  let ?c2 = "?u2 m2"
  let ?p3 = "[apqe_receiveM3 e session, openM3 e, deriveSessionKey W e, checkH3 W e, apqe_sendResult W e incoming session]"
  let ?u3 = "\<lambda>m result. ?c2\<lparr>s_received := apqe_packet MSG_M3 session M3 ip port, q_m3 := M3,
      s_tkI := tkI, s_tkIj := commutativeMap (q_puf B) tkI, s_sessionKey := key, q_result := result,
      q_wire := q_wire ?c2 @ [(r_sourceIp incoming, r_sourcePort incoming, apqe_datagrams APQE_MSG_RESULT session result)], s_m := m\<rparr>"
  have "\<exists>m result. runStages ?p3 ?c2 = (Some True, ?u3 m result) \<and>
      result = apqe_encodeResult session (ae_us e 13) m (apqe_digest W [key])"
    by (rule responder_finishes [OF base(1,2)])
      (use hears lens nets tkJi key M3 B(1) in \<open>simp_all add: apqe_sized_def\<close>)
  then obtain m3 result where s3: "runStages ?p3 ?c2 = (Some True, ?u3 m3 result)"
    and result: "result = apqe_encodeResult session (ae_us e 13) m3 (apqe_digest W [key])" by blast
  have stages: "apqe_responderStages W K e incoming session = ?p1 @ (?p2 @ ?p3)"
    by (simp add: apqe_responderStages_def)
  have run: "runStages (apqe_responderStages W K e incoming session) ?c0 = runStages ?p3 ?c2"
    unfolding stages runStages_after [OF s1] runStages_after [OF s2] ..
  show ?thesis by (intro exI conjI, rule run [unfolded s3]) (simp_all add: result)
qed

text \<open>The honest exchange is the case of the initiator's values.\<close>

lemma responder_run:
  assumes ready: "duo_ready W K d" and served: "duo_served W d"
    and hears: "apqe_hears_direct (ae_recvs (du_eB d) 0) MSG_M3 session (duo_M3 W d) ip port"
  shows "\<exists>c m result. runStages (apqe_responderStages W K (du_eB d) incoming session) (apqe_enter ((du_B d)\<lparr>q_m1 := duo_M1 W K d\<rparr>)) = (Some True, c) \<and>
    s_sessionKey c = duo_key W d \<and> q_result c = result \<and>
    result = apqe_encodeResult session (ae_us (du_eB d) 13) m (apqe_digest W [duo_key W d]) \<and>
    q_wire c = q_wire ((du_B d)\<lparr>q_m1 := duo_M1 W K d\<rparr>) @
      [(r_sourceIp incoming, r_sourcePort incoming, apqe_datagrams MSG_M2 session (duo_M2 W d)),
       (r_sourceIp incoming, r_sourcePort incoming, apqe_datagrams APQE_MSG_RESULT session result)]"
proof -
  let ?A = "du_A d" and ?B = "du_B d" and ?e = "du_eB d"
  have base: "wolf_works W" "wolf_sizes W" "kyber_sizes K" "kyber_correct K"
    and pA: "apqe_party W K (du_slot d) (du_credA d) ?A" and pB: "apqe_party W K (du_slot d) (du_credB d) ?B"
    using ready by (simp_all add: duo_ready_def)
  have A: "buildCredential W (du_slot d) ?A = Inr (du_credA d)" "length (n_deviceId (q_config ?A)) = 32"
    and B: "buildCredential W (du_slot d) ?B = Inr (du_credB d)" "length (n_deviceId (q_config ?B)) = 32"
    using pA pB by (simp_all add: apqe_party_def)
  note cA = built_credential [OF base(1,2) A, folded duo_ci_def] and cB = built_credential [OF base(1,2) B, folded duo_cj_def]
  obtain seed where seed: "reconstructKyberSeed W (q_puf ?B) = Inr seed" "indcpa_keypair K seed = (q_publicKey ?B, q_secretKey ?B)"
    using pB by (auto simp: apqe_party_def)
  obtain m f where q: "queryByTid W (fc_tid (du_credA d)) (ae_fabric ?e 0) no_meter (q_fabric ?B) = Some (Some (du_credA d), m, f)"
    using served by (auto simp: duo_served_def)
  have both: "commutativeMap (q_puf ?B) (commutativeMap (q_puf ?A) x) = duo_both d x" for x
    by (simp add: duo_both_def commutativeMap_commute)
  have "length (duo_ci W d) = 32" "length (duo_cj W d) = 32" using base by (simp_all add: duo_ci_def duo_cj_def)
  then show ?thesis
    using ready pB
    by (intro responder_general [OF base, where tidJ = "fc_tid (du_credB d)" and cj = "duo_cj W d" and cred = "du_credA d" and
          m = m and f = f and tkI = "commutativeMap (q_puf ?A) (duo_cj W d)" and tkJi = "duo_both d (duo_ci W d)" and
          coins = "ae_coins (du_eA d)" and ni = "ae_nonce (du_eA d)" and ci = "duo_ci W d" and seed = seed and ip = ip and port = port and
          ?M3.0 = "duo_M3 W d"])
      (use seed q cA cB hears in \<open>simp_all add: both length_apqe_messages base duo_ready_def apqe_party_def apqe_sized_def duo_M1_def duo_ei_def duo_M2_def duo_key_def duo_M3_def\<close>)
qed

section \<open>An impostor\<close>

text \<open>
  The M3 that a device without any secret of the initiator computes: it chose \<open>ci\<close> and \<open>ni\<close>
  itself, knows the public field \<open>w\<close> of the initiator's credential and has seen M2. XOR of the
  first part of M2 with its own two values is the responder's PUF mask.
\<close>

definition impostor :: "wolf \<Rightarrow> bytes \<Rightarrow> bytes \<Rightarrow> bytes \<Rightarrow> bytes \<Rightarrow> bytes \<times> bytes" where
  "impostor W w ci ni m2 =
    (let mask = xorBytes (xorBytes m2 ni HASH_BYTES) ci HASH_BYTES;
         tkJi = xorBytes (xorBytes w (apqe_digest W [ci]) HASH_BYTES) mask HASH_BYTES;
         (cj, nj) = unmaskPair tkJi (drop HASH_BYTES m2);
         tkI = zeros HASH_BYTES;
         tkIj = xorBytes tkI mask HASH_BYTES;
         key = apqe_key W tkJi tkIj ni nj
     in (key, apqe_M3 W tkI tkIj key nj))"

lemma impostor_computes:
  assumes "wolf_sizes W" and "length ci = 32" and "length ni = 32" and "length cj = 32" and "length nj = 32"
    and tkJi: "tkJi = commutativeMap p (xorBytes w (apqe_digest W [ci]) HASH_BYTES)"
    and m2: "m2 = apqe_M2 W tkJi (commutativeMap p ci) ni cj nj"
    and key: "key = apqe_key W tkJi (commutativeMap p (zeros HASH_BYTES)) ni nj"
  shows "impostor W w ci ni m2 = (key, apqe_M3 W (zeros HASH_BYTES) (commutativeMap p (zeros HASH_BYTES)) key nj)"
proof -
  let ?mask = "xorBytes (xorBytes m2 ni HASH_BYTES) ci HASH_BYTES"
  have tkJ: "xorBytes m2 ni HASH_BYTES = commutativeMap p ci"
    using assms(3) by (intro nth_equalityI) (simp_all add: m2 apqe_M2_def nth_append xor.assoc)
  have mask: "xorBytes x ?mask HASH_BYTES = commutativeMap p x" for x
    unfolding tkJ by (intro nth_equalityI) (simp_all add: commutativeMap_def xor.left_commute [of "ci ! _"] xor.commute [of _ "ci ! _"])
  have "unmaskPair tkJi (drop HASH_BYTES m2) = (cj, nj)"
    using assms(4,5) by (simp add: m2 apqe_M2_def unmask_mask)
  then show ?thesis unfolding impostor_def Let_def mask tkJi [symmetric] prod.case by (simp add: key)
qed

section \<open>The initiator's run\<close>

lemma initiator_run:
  assumes ready: "duo_ready W K d" and served: "duo_served W d"
    and M2: "apqe_hears_direct (ae_recvs (du_eA d) 0) MSG_M2 session (duo_M2 W d) ip port"
    and result: "apqe_hears_direct (ae_recvs (du_eA d) 1) APQE_MSG_RESULT session
      (apqe_encodeResult session t mB (apqe_digest W [duo_key W d])) ip' port'"
  obtains c where "runStages (apqe_initiatorStages W K (du_eA d) session (du_slot d)) (apqe_enter (du_A d)) = (Some True, c)"
    and "s_sessionKey c = duo_key W d" and "direct (s_m c) = (3168, 128, 3238, 142)"
    and "s_peerMetrics c = mB\<lparr>sm_protocolUs := t, sm_confirmedUs := 0\<rparr>" and "s_peerProtocolTime c = t"
    and "q_wire c = q_wire (du_A d) @
      [(n_responderIp (q_config (du_A d)), n_protocolPort (q_config (du_A d)), apqe_datagrams MSG_M1 session (duo_M1 W K d)),
       (n_responderIp (q_config (du_A d)), n_protocolPort (q_config (du_A d)), apqe_datagrams MSG_M3 session (duo_M3 W d))]"
proof -
  let ?A = "du_A d" and ?B = "du_B d" and ?e = "du_eA d"
  let ?ci = "duo_ci W d" and ?cj = "duo_cj W d" and ?ni = "ae_nonce (du_eA d)" and ?nj = "ae_nonce (du_eB d)"
  let ?dest = "\<lambda>type msg. (n_responderIp (q_config ?A), n_protocolPort (q_config ?A), apqe_datagrams type session msg)"
  have base: "wolf_works W" "wolf_sizes W" "kyber_sizes K" "kyber_correct K"
    and pA: "apqe_party W K (du_slot d) (du_credA d) ?A" and pB: "apqe_party W K (du_slot d) (du_credB d) ?B"
    and ids: "q_peerIdentityHash ?A = q_identityHash ?B"
    and ns: "length ?ni = 32" "length ?nj = 32"
    and nets: "accepting_net (ae_sends ?e 0) APQE_M1_BYTES" "accepting_net (ae_sends ?e 1) APQE_M3_BYTES"
    using ready by (simp_all add: duo_ready_def)
  note cA = built_credential [OF base(1,2), of "du_slot d" ?A "du_credA d", folded duo_ci_def]
  note cB = built_credential [OF base(1,2), of "du_slot d" ?B "du_credB d", folded duo_cj_def]
  have A: "buildCredential W (du_slot d) ?A = Inr (du_credA d)" "length (n_deviceId (q_config ?A)) = 32" "apqe_sized ?A"
    and B: "buildCredential W (du_slot d) ?B = Inr (du_credB d)" "length (n_deviceId (q_config ?B)) = 32"
    using pA pB by (simp_all add: apqe_party_def)
  obtain seed where seed: "reconstructKyberSeed W (q_puf ?A) = Inr seed" "indcpa_keypair K seed = (q_publicKey ?A, q_secretKey ?A)"
    using pA by (auto simp: apqe_party_def)
  obtain m1 f1 m2 f2 where q: "queryByIdentitySlot W (q_identityHash ?A) (du_slot d) (ae_fabric ?e 0) no_meter (q_fabric ?A) =
        Some (Some (du_credA d), m1, f1)"
      "queryByIdentitySlot W (q_peerIdentityHash ?A) (du_slot d) (ae_fabric ?e 1) m1 f1 = Some (Some (du_credB d), m2, f2)"
    using served by (auto simp: duo_served_def)
  let ?c0 = "apqe_enter ?A"
  have lens: "length (fc_tid (du_credA d)) = 32" "length (fc_tid (du_credB d)) = 32" "length ?ci = 32" "length ?cj = 32"
    using cA(3) [OF A(1,2)] cB(3) [OF B(1,2)] base by (simp_all add: duo_ci_def duo_cj_def)
  let ?p1 = "[timedReconstruct W ?e, timedKeygen K ?e, queryOwn W ?e (du_slot d), queryPeer W ?e (du_slot d), checkIdentities,
      \<lambda>c. timedVerify W (ae_us ?e 2) (q_own c) c, \<lambda>c. timedVerify W (ae_us ?e 3) (q_peer c) c, checkOwnKey]"
  let ?u1 = "\<lambda>m. ?c0\<lparr>s_seed := seed, q_publicKey := q_publicKey ?A, q_secretKey := q_secretKey ?A, q_own := du_credA d,
      q_peer := du_credB d, q_fabric := f2, s_m := m\<rparr>"
  have "\<exists>m. runStages ?p1 ?c0 = (Some True, ?u1 m) \<and> direct m = direct (s_m ?c0) \<and> meter_of m = m2"
    by (rule initiator_credentials [where ?m1.0 = m1 and ?f1.0 = f1])
      (use seed q cA [OF A(1,2)] cB [OF B(1,2)] ids in simp_all)
  then obtain ma where s1: "runStages ?p1 ?c0 = (Some True, ?u1 ma)" and da: "direct ma = direct (s_m ?c0)" by blast
  let ?c1 = "?u1 ma"
  let ?p2 = "[invertOwnTid W ?e, composeEi ?e, encryptBlocks K ?e [0..<EI_BLOCKS], sealM1 W ?e, apqe_sendM1 ?e session]"
  let ?u2 = "\<lambda>m. ?c1\<lparr>s_ci := ?ci, s_ni := ?ni, s_ei := duo_ei W d, q_m1 := duo_M1 W K d,
      q_wire := q_wire ?c1 @ [(n_responderIp (q_config ?c1), n_protocolPort (q_config ?c1), apqe_datagrams MSG_M1 session (duo_M1 W K d))], s_m := m\<rparr>"
  have "\<exists>m. runStages ?p2 ?c1 = (Some True, ?u2 m) \<and>
      direct m = (sm_directAppTx (s_m ?c1) + 3104, sm_directAppRx (s_m ?c1), sm_directFramedTx (s_m ?c1) + apqe_framed (duo_M1 W K d),
        sm_directFramedRx (s_m ?c1)) \<and> meter_of m = meter_of (s_m ?c1)"
    by (rule initiator_M1 [OF base(1-3)])
      (use cA [OF A(1,2)] cB [OF B(1,2)] lens ns nets A(3) in \<open>simp_all add: duo_ei_def duo_M1_def apqe_sized_def\<close>)
  then obtain mb where s2: "runStages ?p2 ?c1 = (Some True, ?u2 mb)"
    and db: "direct mb = (sm_directAppTx (s_m ?c1) + 3104, sm_directAppRx (s_m ?c1), sm_directFramedTx (s_m ?c1) + apqe_framed (duo_M1 W K d),
        sm_directFramedRx (s_m ?c1))" by blast
  let ?c2 = "?u2 mb"
  let ?p3 = "[apqe_receiveM2 ?e session, openM2 ?e, checkH2 W ?e, recoverRj W ?e, composeM3 ?e,
      deriveSessionKey W ?e, sealM3 W ?e, apqe_sendM3 ?e session]"
  let ?u3 = "\<lambda>m. ?c2\<lparr>s_received := apqe_packet MSG_M2 session (duo_M2 W d) ip port, q_m2 := duo_M2 W d,
      s_tkJ := commutativeMap (q_puf ?B) ?ci, s_tkJi := duo_both d ?ci, s_cj := ?cj, s_nj := ?nj, s_rj := commutativeMap (q_puf ?B) ?cj,
      s_tkI := commutativeMap (q_puf ?A) ?cj, s_tkIj := duo_both d ?cj, s_sessionKey := duo_key W d, q_m3 := duo_M3 W d,
      q_wire := q_wire ?c2 @ [(n_responderIp (q_config ?c2), n_protocolPort (q_config ?c2), apqe_datagrams MSG_M3 session (duo_M3 W d))], s_m := m\<rparr>"
  have "\<exists>m. runStages ?p3 ?c2 = (Some True, ?u3 m) \<and>
      direct m = (sm_directAppTx (s_m ?c2) + 64, sm_directAppRx (s_m ?c2) + 128,
      sm_directFramedTx (s_m ?c2) + apqe_framed (duo_M3 W d), sm_directFramedRx (s_m ?c2) + apqe_framed (duo_M2 W d)) \<and> meter_of m = meter_of (s_m ?c2)"
    by (rule initiator_M3 [OF base(1,2)])
      (use M2 cB [OF B(1,2)] lens ns nets A(3) in \<open>simp_all add: duo_M2_def duo_M3_def duo_key_def duo_both_def apqe_sized_def\<close>)
  then obtain mc where s3: "runStages ?p3 ?c2 = (Some True, ?u3 mc)"
    and dc: "direct mc = (sm_directAppTx (s_m ?c2) + 64, sm_directAppRx (s_m ?c2) + 128,
      sm_directFramedTx (s_m ?c2) + apqe_framed (duo_M3 W d), sm_directFramedRx (s_m ?c2) + apqe_framed (duo_M2 W d))" by blast
  let ?c3 = "?u3 mc"
  have key: "length (duo_key W d) = 32" using base by (simp add: duo_key_def apqe_key_def)
  have s4: "runStages [apqe_receiveResult ?e session, confirmKey W session] ?c3 =
    (Some True, ?c3\<lparr>s_received := apqe_packet APQE_MSG_RESULT session (apqe_encodeResult session t mB (apqe_digest W [s_sessionKey ?c3])) ip' port',
      q_result := apqe_encodeResult session t mB (apqe_digest W [s_sessionKey ?c3]),
      s_m := (s_m ?c3)\<lparr>sm_protocolUs := ae_us ?e 13, sm_confirmedUs := ae_us ?e 14\<rparr>,
      s_peerProtocolTime := t, s_peerMetrics := mB\<lparr>sm_protocolUs := t, sm_confirmedUs := 0\<rparr>\<rparr>)"
    by (rule initiator_result [OF base(1,2)]) (use result key A(3) in \<open>simp_all add: apqe_sized_def\<close>)
  have stages: "apqe_initiatorStages W K ?e session (du_slot d) =
      ?p1 @ (?p2 @ (?p3 @ [apqe_receiveResult ?e session, confirmKey W session]))"
    by (simp add: apqe_initiatorStages_def)
  have run: "runStages (apqe_initiatorStages W K ?e session (du_slot d)) ?c0 =
      runStages [apqe_receiveResult ?e session, confirmKey W session] ?c3"
    unfolding stages runStages_after [OF s1] runStages_after [OF s2] runStages_after [OF s3] ..
  have framed: "apqe_framed (duo_M1 W K d) = 3160" "apqe_framed (duo_M2 W d) = 142" "apqe_framed (duo_M3 W d) = 78"
    using length_apqe_messages base by (simp_all add: apqe_framed_def duo_M1_def duo_M2_def duo_M3_def)
  have "direct mc = (3168, 128, 3238, 142)"
    using da db dc framed by (simp add: direct_def SessionMetrics_init_def)
  then show ?thesis by (intro that [OF run [unfolded s4]]) (simp_all add: direct_def)
qed

end
