(* ===== verification/ApqeFabricTheorems.thy ===== *)
theory ApqeFabricTheorems
  imports ApqeFabric ApqeUdp PollLoop
begin

text \<open>
  Facts about the client of the Fabric gateway: what an accepted response is
  (\<open>fabric_authentic\<close>), that a call returns and what it counts, that a credential survives
  serialisation, and the run of a call whose first poll is the response.
\<close>

section \<open>Accepted responses\<close>

text \<open>A datagram of the gateway that answers request \<open>requestId\<close> with \<open>n\<close> bytes, under a valid tag.\<close>

definition fabric_authentic :: "wolf \<Rightarrow> u8 \<Rightarrow> u32 \<Rightarrow> FabricState \<Rightarrow> poll \<Rightarrow> nat \<Rightarrow> bool" where
  "fabric_authentic W op requestId s p n \<longleftrightarrow>
    0 < parsePacket p \<and> parsePacket p \<le> int GATEWAY_MAX_RESPONSE_BYTES \<and>
    readLength p = int (GATEWAY_RESPONSE_HEADER_BYTES + n + GATEWAY_TAG_BYTES) \<and>
    remoteIP p = f_gatewayIp s \<and> remotePort p = f_gatewayPort s \<and>
    getU16 (readBuffer p) = GATEWAY_MAGIC \<and> readBuffer p ! 2 = GATEWAY_VERSION \<and> readBuffer p ! 3 = op OR 0x80 \<and>
    getU32 (drop 4 (readBuffer p)) = requestId \<and> unat (getU16 (drop 17 (readBuffer p))) = n \<and>
    apqe_hmacSha256 W GATEWAY_HMAC_KEY (take (GATEWAY_RESPONSE_HEADER_BYTES + n) (readBuffer p)) =
      Inr (read_at (GATEWAY_RESPONSE_HEADER_BYTES + n) GATEWAY_TAG_BYTES (readBuffer p))"

lemma fabric_authentic_rx [simp]:
  "fabric_authentic W op requestId (s\<lparr>f_rx := b\<rparr>) = fabric_authentic W op requestId s"
  "fabric_authentic W op requestId (s\<lparr>f_tx := b\<rparr>) = fabric_authentic W op requestId s"
  "fabric_authentic W op requestId (s\<lparr>f_nextRequestId := i\<rparr>) = fabric_authentic W op requestId s"
  "fabric_authentic W op requestId (s\<lparr>f_recordScratch := b\<rparr>) = fabric_authentic W op requestId s"
  by (simp_all add: fabric_authentic_def fun_eq_iff)

text \<open>The datagrams that fit the receive buffer; \<open>read\<close> never returns more.\<close>

definition fabric_buffer :: "poll \<Rightarrow> bool" where
  "fabric_buffer p \<longleftrightarrow> length (readBuffer p) = GATEWAY_MAX_RESPONSE_BYTES \<and> readLength p \<le> int GATEWAY_MAX_RESPONSE_BYTES"

lemma tag_matches:
  assumes "wolf_sizes W" and "a + 32 \<le> length rx" and "apqe_hmacSha256 W k x = Inr tag"
  shows "constantTimeEqual tag (drop a rx) 32 \<longleftrightarrow> tag = read_at a 32 rx"
proof -
  have "length tag = 32" using assms(1,3) by (rule apqe_hmac_Inr_length)
  then show ?thesis using assms(2) by (simp add: constantTimeEqual_take read_at_def)
qed

lemma ignore_else [simp]:
  "(if b then (FabricIgnore, s) else x) = (FabricAccept n, s') \<longleftrightarrow> \<not> b \<and> x = (FabricAccept n, s')"
  by simp

lemma fabricPoll_conj:
  "fabricPoll W op requestId p s = (FabricAccept n, s') \<longleftrightarrow>
    0 < parsePacket p \<and> parsePacket p \<le> int GATEWAY_MAX_RESPONSE_BYTES \<and>
    readLength p = int (GATEWAY_RESPONSE_HEADER_BYTES + n + GATEWAY_TAG_BYTES) \<and>
    remoteIP p = f_gatewayIp s \<and> remotePort p = f_gatewayPort s \<and>
    getU16 (readBuffer p) = GATEWAY_MAGIC \<and> readBuffer p ! 2 = GATEWAY_VERSION \<and> readBuffer p ! 3 = op OR 0x80 \<and>
    getU32 (drop 4 (readBuffer p)) = requestId \<and> unat (getU16 (drop 17 (readBuffer p))) = n \<and>
    (\<exists>tag. apqe_hmacSha256 W GATEWAY_HMAC_KEY (take (GATEWAY_RESPONSE_HEADER_BYTES + n) (readBuffer p)) = Inr tag \<and>
      constantTimeEqual tag (drop (GATEWAY_RESPONSE_HEADER_BYTES + n) (readBuffer p)) GATEWAY_TAG_BYTES) \<and>
    s' = s\<lparr>f_rx := readBuffer p\<rparr>" (is "?l = ?r")
proof -
  let ?n = "unat (getU16 (drop 17 (readBuffer p)))"
  have "?l \<longleftrightarrow> 0 < parsePacket p \<and> parsePacket p \<le> int GATEWAY_MAX_RESPONSE_BYTES \<and> 51 \<le> readLength p \<and>
    remoteIP p = f_gatewayIp s \<and> remotePort p = f_gatewayPort s \<and>
    getU16 (readBuffer p) = GATEWAY_MAGIC \<and> readBuffer p ! 2 = GATEWAY_VERSION \<and> readBuffer p ! 3 = op OR 0x80 \<and>
    getU32 (drop 4 (readBuffer p)) = requestId \<and> int (19 + ?n + 32) = readLength p \<and>
    (case apqe_hmacSha256 W GATEWAY_HMAC_KEY (take (19 + ?n) (readBuffer p)) of
      Inl _ \<Rightarrow> (FabricFail, s\<lparr>f_rx := readBuffer p\<rparr>)
    | Inr expectedTag \<Rightarrow>
        if \<not> constantTimeEqual expectedTag (drop (19 + ?n) (readBuffer p)) 32
        then (FabricIgnore, s\<lparr>f_rx := readBuffer p\<rparr>) else (FabricAccept ?n, s\<lparr>f_rx := readBuffer p\<rparr>)) = (FabricAccept n, s')"
    unfolding fabricPoll_def Let_def apqe_codecs ignore_else by (simp add: not_le not_less)
  also have "\<dots> \<longleftrightarrow> ?r"
    by (cases "apqe_hmacSha256 W GATEWAY_HMAC_KEY (take (19 + ?n) (readBuffer p))") auto
  finally show ?thesis .
qed

lemma fabricPoll_accept:
  assumes "wolf_sizes W" and "fabric_buffer p"
  shows "fabricPoll W op requestId p s = (FabricAccept n, s') \<longleftrightarrow>
    fabric_authentic W op requestId s p n \<and> s' = s\<lparr>f_rx := readBuffer p\<rparr>"
proof (cases "readLength p = int (GATEWAY_RESPONSE_HEADER_BYTES + n + GATEWAY_TAG_BYTES)")
  case True
  then have "int (19 + n + 32) \<le> int (length (readBuffer p))" using assms(2) unfolding fabric_buffer_def by metis
  then have fits: "19 + n + 32 \<le> length (readBuffer p)" unfolding of_nat_le_iff .
  show ?thesis
    unfolding fabricPoll_conj fabric_authentic_def using tag_matches [OF assms(1) fits] by blast
qed (simp add: fabricPoll_conj fabric_authentic_def)

text \<open>A poll changes the receive buffer only.\<close>

lemma fabricPoll_rx: "fabricPoll W op requestId p s = (r, s') \<Longrightarrow> \<exists>b. s' = s\<lparr>f_rx := b\<rparr>"
  by (auto simp: fabricPoll_def Let_def split: sum.splits if_splits intro: exI [of _ "f_rx s"])

text \<open>One iteration as a step of \<open>client_waiting\<close>.\<close>

definition fabric_iteration :: "wolf \<Rightarrow> u8 \<Rightarrow> u32 \<Rightarrow> poll \<Rightarrow> FabricState \<Rightarrow> FabricState + fabric_step \<times> FabricState" where
  "fabric_iteration W op requestId p s =
    (case fabricPoll W op requestId p s of (FabricIgnore, s') \<Rightarrow> Inl s' | (r, s') \<Rightarrow> Inr (r, s'))"

lemma fabric_iteration_Inl: "fabric_iteration W op requestId p s = Inl s' \<longleftrightarrow> fabricPoll W op requestId p s = (FabricIgnore, s')"
  by (auto simp: fabric_iteration_def split: prod.splits fabric_step.splits)

lemma fabric_iteration_Inr:
  "fabric_iteration W op requestId p s = Inr (r, s') \<longleftrightarrow> r \<noteq> FabricIgnore \<and> fabricPoll W op requestId p s = (r, s')"
  by (auto simp: fabric_iteration_def split: prod.splits fabric_step.splits)

interpretation fabric_wait: client_waiting "\<lambda>p. \<not> pollMillis p - t < GATEWAY_TIMEOUT_MS" "fabric_iteration W op requestId"
  "Pair FabricIgnore" "fabricAwait W op requestId t" "f_rx_update (\<lambda>_. [])"
  for W op requestId t
proof unfold_locales
  show "fabricAwait W op requestId t [] s = None" for s by simp
  show "fabricAwait W op requestId t (p # ps) s =
    (if \<not> pollMillis p - t < GATEWAY_TIMEOUT_MS then Some (FabricIgnore, s)
     else case fabric_iteration W op requestId p s of Inl s' \<Rightarrow> fabricAwait W op requestId t ps s' | Inr r \<Rightarrow> Some r)" for p ps s
    by (simp add: fabric_iteration_def split: prod.split fabric_step.split)
  show "s'\<lparr>f_rx := []\<rparr> = s\<lparr>f_rx := []\<rparr>" if "fabric_iteration W op requestId p s = Inl s'" for p s s'
    using that fabricPoll_rx [of W op requestId p s] by (auto simp: fabric_iteration_Inl)
  show "s'\<lparr>f_rx := []\<rparr> = s\<lparr>f_rx := []\<rparr>" if "fabric_iteration W op requestId p s = Inr (a, s')" for p s a s'
    using that fabricPoll_rx [of W op requestId p s] by (auto simp: fabric_iteration_Inr)
  show "(snd (FabricIgnore, s))\<lparr>f_rx := []\<rparr> = s\<lparr>f_rx := []\<rparr>" for s :: FabricState by simp
qed

lemma rx_view: "s'\<lparr>f_rx := []\<rparr> = s\<lparr>f_rx := []\<rparr> \<Longrightarrow> \<exists>b. s' = s\<lparr>f_rx := b\<rparr>" for s s' :: FabricState
  by (rule exI [of _ "f_rx s'"]) (cases s, cases s', simp)

lemma fabricAwait_sound:
  assumes "wolf_sizes W" and "\<forall>p \<in> set ps. fabric_buffer p" and "fabricAwait W op requestId t ps s = Some (r, s')"
  shows "\<exists>b. s' = s\<lparr>f_rx := b\<rparr>"
    and "r = FabricAccept n \<Longrightarrow> \<exists>p \<in> set ps. fabric_authentic W op requestId s p n \<and> f_rx s' = readBuffer p"
proof -
  show "\<exists>b. s' = s\<lparr>f_rx := b\<rparr>" using fabric_wait.loop_view [OF assms(3)] by (rule rx_view)
  assume "r = FabricAccept n"
  with fabric_wait.loop_answer [OF assms(3)] obtain p u where p: "p \<in> set ps" and u: "u\<lparr>f_rx := []\<rparr> = s\<lparr>f_rx := []\<rparr>"
    and "fabric_iteration W op requestId p u = Inr (FabricAccept n, s')" by auto
  then have "fabric_authentic W op requestId u p n \<and> s' = u\<lparr>f_rx := readBuffer p\<rparr>"
    using fabricPoll_accept [OF assms(1)] assms(2) by (simp add: fabric_iteration_Inr)
  with rx_view [OF u] p show "\<exists>p \<in> set ps. fabric_authentic W op requestId s p n \<and> f_rx s' = readBuffer p" by auto
qed

definition fabric_observed :: "fabric_attempt list \<Rightarrow> poll set" where
  "fabric_observed attempts = (\<Union>a \<in> set attempts. set (fa_polls a))"

lemma fabric_observed_Cons [simp]: "fabric_observed (a # attempts) = set (fa_polls a) \<union> fabric_observed attempts"
  by (simp add: fabric_observed_def)

text \<open>What a completed call leaves of the object: addresses, request number and scratch buffer.\<close>

definition same_gateway :: "FabricState \<Rightarrow> FabricState \<Rightarrow> bool" where
  "same_gateway s s' \<longleftrightarrow>
    f_gatewayIp s' = f_gatewayIp s \<and> f_gatewayPort s' = f_gatewayPort s \<and> f_nextRequestId s' = f_nextRequestId s \<and>
    f_recordScratch s' = f_recordScratch s \<and> f_tx s' = f_tx s"

lemma fabricFinish_fields:
  "fabricFinish capacity us n m s = (r, m', s') \<Longrightarrow>
   same_gateway s s' \<and> fm_appTx m' = fm_appTx m \<and>
   (r = Some payload \<longrightarrow> f_rx s ! 8 = GW_OK \<and> n \<le> capacity \<and> payload = read_at GATEWAY_RESPONSE_HEADER_BYTES n (f_rx s))"
  by (auto simp: fabricFinish_def same_gateway_def Let_def split: if_splits)

lemma fabricAttempts_sound:
  assumes "wolf_sizes W" and "\<forall>p \<in> fabric_observed attempts. fabric_buffer p"
    and "fabricAttempts W op requestId len capacity k attempts m s = Some (r, m', s')"
  shows "same_gateway s s'"
    and "r = Some payload \<Longrightarrow> \<exists>p \<in> fabric_observed attempts. \<exists>n \<le> capacity. fabric_authentic W op requestId s p n \<and>
      readBuffer p ! 8 = GW_OK \<and> payload = read_at GATEWAY_RESPONSE_HEADER_BYTES n (readBuffer p)"
proof -
  have "same_gateway s s' \<and> (r = Some payload \<longrightarrow> (\<exists>p \<in> fabric_observed attempts. \<exists>n \<le> capacity. fabric_authentic W op requestId s p n \<and>
      readBuffer p ! 8 = GW_OK \<and> payload = read_at GATEWAY_RESPONSE_HEADER_BYTES n (readBuffer p)))"
    using assms(2,3)
  proof (induction attempts arbitrary: k m s)
    case Nil
    then show ?case by (cases k) (auto simp: same_gateway_def)
  next
    case (Cons a attempts)
    show ?case
    proof (cases "k = 0 \<or> \<not> beginPacketOk (fa_send a) \<or> written (fa_send a) \<noteq> len \<or> \<not> endPacketOk (fa_send a)")
      case True
      then show ?thesis using Cons.prems(2) by (cases k) (auto simp: same_gateway_def split: if_splits)
    next
      case False
      then obtain k' where k: "k = Suc k'" by (cases k) auto
      with False Cons.prems(2) obtain r1 s1 where aw: "fabricAwait W op requestId (fa_start a) (fa_polls a) s = Some (r1, s1)"
        by (auto simp: Let_def split: option.splits)
      have bufs: "\<forall>p \<in> set (fa_polls a). fabric_buffer p" using Cons.prems(1) by simp
      note sound = fabricAwait_sound [OF assms(1) bufs aw]
      from sound(1) obtain b where s1: "s1 = s\<lparr>f_rx := b\<rparr>" by blast
      show ?thesis
      proof (cases r1)
        case FabricIgnore
        then obtain m1 where "fabricAttempts W op requestId len capacity k' attempts m1 s1 = Some (r, m', s')"
          using False Cons.prems(2) k aw by (auto simp: Let_def)
        from Cons.IH [OF _ this] Cons.prems(1) show ?thesis by (auto simp: s1 same_gateway_def)
      next
        case FabricFail
        then show ?thesis using False Cons.prems(2) k aw s1 by (auto simp: Let_def same_gateway_def)
      next
        case (FabricAccept n)
        from sound(2) [OF this] obtain p where p: "p \<in> set (fa_polls a)" "fabric_authentic W op requestId s p n" "f_rx s1 = readBuffer p"
          by blast
        obtain m1 where "fabricFinish capacity (fa_us a) n m1 s1 = (r, m', s')"
          using False Cons.prems(2) k aw FabricAccept by (auto simp: Let_def)
        from fabricFinish_fields [OF this] p show ?thesis by (auto simp: s1 same_gateway_def)
      qed
    qed
  qed
  then show "same_gateway s s'"
    and "r = Some payload \<Longrightarrow> \<exists>p \<in> fabric_observed attempts. \<exists>n \<le> capacity. fabric_authentic W op requestId s p n \<and>
      readBuffer p ! 8 = GW_OK \<and> payload = read_at GATEWAY_RESPONSE_HEADER_BYTES n (readBuffer p)" by blast+
qed

text \<open>A call that returned a payload took it from an authentic response to its own request number.\<close>

lemma transact_sound:
  assumes "wolf_sizes W" and "\<forall>p \<in> fabric_observed attempts. fabric_buffer p"
    and "transact W op slot payload capacity attempts m s = Some (Some response, m', s')"
  shows "\<exists>p \<in> fabric_observed attempts. \<exists>n \<le> capacity. fabric_authentic W op (f_nextRequestId s) s p n \<and>
      readBuffer p ! 8 = GW_OK \<and> response = read_at GATEWAY_RESPONSE_HEADER_BYTES n (readBuffer p)"
    and "f_nextRequestId s' = f_nextRequestId s + 1" and "f_recordScratch s' = f_recordScratch s"
    and "f_gatewayIp s' = f_gatewayIp s" and "f_gatewayPort s' = f_gatewayPort s"
proof -
  let ?a = "GATEWAY_REQUEST_HEADER_BYTES + length payload"
  let ?s = "s\<lparr>f_nextRequestId := f_nextRequestId s + 1, f_tx := fabricRequest op (f_nextRequestId s) slot payload (f_tx s)\<rparr>"
  obtain tag where run: "fabricAttempts W op (f_nextRequestId s) (?a + GATEWAY_TAG_BYTES) capacity GATEWAY_RETRIES attempts m
      (?s\<lparr>f_tx := write_at ?a tag (f_tx ?s)\<rparr>) = Some (Some response, m', s')"
    using assms(3) by (auto simp: transact_def Let_def split: if_splits sum.splits)
  note sound = fabricAttempts_sound [OF assms(1,2) run]
  from sound(1) show "f_nextRequestId s' = f_nextRequestId s + 1" "f_recordScratch s' = f_recordScratch s"
    "f_gatewayIp s' = f_gatewayIp s" "f_gatewayPort s' = f_gatewayPort s"
    by (simp_all add: same_gateway_def)
  from sound(2) [OF refl] show "\<exists>p \<in> fabric_observed attempts. \<exists>n \<le> capacity. fabric_authentic W op (f_nextRequestId s) s p n \<and>
      readBuffer p ! 8 = GW_OK \<and> response = read_at GATEWAY_RESPONSE_HEADER_BYTES n (readBuffer p)" by simp
qed

lemma length_fabric_response:
  "fabric_authentic W op requestId s p n \<Longrightarrow> fabric_buffer p \<Longrightarrow> length (read_at 19 n (readBuffer p)) = n"
  by (auto simp: fabric_authentic_def fabric_buffer_def)

section \<open>Termination and accounting\<close>

lemmas fabricAwait_returns = fabric_wait.returns_late

text \<open>An attempt whose clock passes its deadline.\<close>

definition fabric_expires :: "fabric_attempt \<Rightarrow> bool" where
  "fabric_expires a \<longleftrightarrow> (\<exists>p \<in> set (fa_polls a). \<not> pollMillis p - fa_start a < GATEWAY_TIMEOUT_MS)"

lemma fabricFinish_tx: "fm_appTx (fst (snd (fabricFinish capacity us n m s))) = fm_appTx m"
  by (simp add: fabricFinish_def Let_def)

lemma fabricAttempts_returns:
  assumes "k \<le> length attempts" and "\<forall>a \<in> set attempts. fabric_expires a"
  shows "\<exists>r m' s' n. fabricAttempts W op requestId len capacity k attempts m s = Some (r, m', s') \<and>
    n \<le> k \<and> fm_appTx m' = fm_appTx m + of_nat (n * len)"
  using assms
proof (induction attempts arbitrary: k m s)
  case Nil
  then show ?case by auto
next
  case (Cons a attempts)
  show ?case
  proof (cases "k = 0 \<or> \<not> beginPacketOk (fa_send a) \<or> written (fa_send a) \<noteq> len \<or> \<not> endPacketOk (fa_send a)")
    case True
    then show ?thesis by (cases k) (auto intro!: exI [of _ 0])
  next
    case False
    then obtain k' where k: "k = Suc k'" by (cases k) auto
    let ?m = "m\<lparr>fm_appTx := fm_appTx m + of_nat len\<rparr>"
    from Cons.prems(2) obtain p where "p \<in> set (fa_polls a)" "\<not> pollMillis p - fa_start a < GATEWAY_TIMEOUT_MS"
      by (auto simp: fabric_expires_def)
    then obtain r1 s1 where aw: "fabricAwait W op requestId (fa_start a) (fa_polls a) s = Some (r1, s1)"
      using fabricAwait_returns by (metis surj_pair)
    from Cons.IH [of k' ?m s1] Cons.prems k obtain r m' s' n
      where later: "fabricAttempts W op requestId len capacity k' attempts ?m s1 = Some (r, m', s')" "n \<le> k'"
        "fm_appTx m' = fm_appTx ?m + of_nat (n * len)" by auto
    show ?thesis
    proof (cases r1)
      case FabricIgnore
      then show ?thesis using False aw later k by (intro exI [of _ r] exI [of _ m'] exI [of _ s'] exI [of _ "Suc n"])
          (simp add: Let_def algebra_simps)
    next
      case FabricFail
      then show ?thesis using False aw k by (auto simp: Let_def intro!: exI [of _ 1])
    next
      case (FabricAccept i)
      then show ?thesis
        using False aw k fabricFinish_tx [of capacity "fa_us a" i ?m s1]
        by (cases "fabricFinish capacity (fa_us a) i ?m s1") (auto simp: Let_def intro!: exI [of _ 1])
    qed
  qed
qed

lemma transact_returns:
  assumes "6 \<le> length attempts" and "\<forall>a \<in> set attempts. fabric_expires a"
  shows "\<exists>r m' s' n. transact W op slot payload capacity attempts m s = Some (r, m', s') \<and>
    n \<le> GATEWAY_RETRIES \<and> fm_appTx m' = fm_appTx m + of_nat (n * (GATEWAY_REQUEST_HEADER_BYTES + length payload + GATEWAY_TAG_BYTES))"
proof -
  let ?a = "GATEWAY_REQUEST_HEADER_BYTES + length payload"
  have run: "\<exists>r m' s' n. fabricAttempts W op id len capacity GATEWAY_RETRIES attempts m s0 = Some (r, m', s') \<and>
    n \<le> GATEWAY_RETRIES \<and> fm_appTx m' = fm_appTx m + of_nat (n * len)" for id len s0
    using fabricAttempts_returns [OF assms] by blast
  have none: ?thesis if "transact W op slot payload capacity attempts m s = Some (None, m, s0)" for s0
    using that by (intro exI [of _ None] exI [of _ m] exI [of _ s0] exI [of _ 0]) simp
  let ?tx = "fabricRequest op (f_nextRequestId s) slot payload (f_tx s)"
  show ?thesis
  proof (cases "?a + GATEWAY_TAG_BYTES > length (f_tx s)")
    case True
    then show ?thesis by (intro none [of s]) (simp add: transact_def)
  next
    case small: False
    show ?thesis
    proof (cases "apqe_hmacSha256 W GATEWAY_HMAC_KEY (take ?a ?tx)")
      case (Inl e)
      then show ?thesis using small by (intro none) (simp add: transact_def Let_def)
    next
      case (Inr tag)
      then have eq: "transact W op slot payload capacity attempts m s =
        fabricAttempts W op (f_nextRequestId s) (?a + GATEWAY_TAG_BYTES) capacity GATEWAY_RETRIES attempts m
          (s\<lparr>f_nextRequestId := f_nextRequestId s + 1, f_tx := write_at ?a tag ?tx\<rparr>)"
        using small by (simp add: transact_def Let_def)
      from run show ?thesis unfolding eq by blast
    qed
  qed
qed

section \<open>The question does not matter\<close>

text \<open>The waiting and accepting part of a call never looks at the request it sent.\<close>

lemma fabricPoll_tx:
  "fabricPoll W op requestId p (s\<lparr>f_tx := t\<rparr>) = (case fabricPoll W op requestId p s of (r, s') \<Rightarrow> (r, s'\<lparr>f_tx := t\<rparr>))"
  by (simp add: fabricPoll_def Let_def split: sum.split)

lemma fabricAwait_tx:
  "fabricAwait W op requestId start ps (s\<lparr>f_tx := t\<rparr>) =
    map_option (\<lambda>(r, s'). (r, s'\<lparr>f_tx := t\<rparr>)) (fabricAwait W op requestId start ps s)"
  by (induction ps arbitrary: s) (auto simp: fabricPoll_tx split: prod.splits fabric_step.splits)

lemma fabricFinish_keep_tx:
  "fabricFinish capacity us n m (s\<lparr>f_tx := t\<rparr>) = (case fabricFinish capacity us n m s of (r, m', s') \<Rightarrow> (r, m', s'\<lparr>f_tx := t\<rparr>))"
  by (simp add: fabricFinish_def Let_def)

lemma fabricAttempts_tx:
  "fabricAttempts W op requestId len capacity k attempts m (s\<lparr>f_tx := t\<rparr>) =
    map_option (\<lambda>(r, m', s'). (r, m', s'\<lparr>f_tx := t\<rparr>)) (fabricAttempts W op requestId len capacity k attempts m s)"
proof (induction attempts arbitrary: k m s)
  case Nil
  then show ?case by (cases k) simp_all
next
  case (Cons a attempts)
  then show ?case
    by (cases k) (auto simp: Let_def fabricAwait_tx fabricFinish_keep_tx split: option.splits fabric_step.splits prod.splits)
qed

lemma transact_works:
  assumes "wolf_works W" and "GATEWAY_REQUEST_HEADER_BYTES + length payload + GATEWAY_TAG_BYTES \<le> length (f_tx s)"
    and "length payload \<le> FABRIC_RECORD_BYTES"
  shows "\<exists>t. transact W op slot payload capacity attempts m s =
    map_option (\<lambda>(r, m', s'). (r, m', s'\<lparr>f_tx := t\<rparr>))
      (fabricAttempts W op (f_nextRequestId s) (GATEWAY_REQUEST_HEADER_BYTES + length payload + GATEWAY_TAG_BYTES) capacity
        GATEWAY_RETRIES attempts m (s\<lparr>f_nextRequestId := f_nextRequestId s + 1\<rparr>))"
proof -
  let ?tx = "fabricRequest op (f_nextRequestId s) slot payload (f_tx s)"
  have "length (take (GATEWAY_REQUEST_HEADER_BYTES + length payload) ?tx) \<le> UINT32_MAX" using assms(3) by simp
  then obtain tag where "apqe_hmacSha256 W GATEWAY_HMAC_KEY (take (GATEWAY_REQUEST_HEADER_BYTES + length payload) ?tx) = Inr tag"
    using apqe_hmac_works [OF assms(1), of GATEWAY_HMAC_KEY] by (auto simp: GATEWAY_HMAC_KEY_def)
  then show ?thesis
    using assms(2) fabricAttempts_tx [where s = "s\<lparr>f_nextRequestId := f_nextRequestId s + 1\<rparr>"]
    by (auto simp: transact_def Let_def)
qed

section \<open>Credential records\<close>

lemma parse_serialize:
  "credential_arrays c \<Longrightarrow> length buf = FABRIC_RECORD_BYTES \<Longrightarrow> parseCredential (serializeCredential c buf) = c"
  by (simp add: parseCredential_def serializeCredential_def credential_arrays_def Let_def layout)

lemma length_serializeCredential:
  "credential_arrays c \<Longrightarrow> length buf = FABRIC_RECORD_BYTES \<Longrightarrow> length (serializeCredential c buf) = FABRIC_RECORD_BYTES"
  by (simp add: serializeCredential_def credential_arrays_def Let_def)

section \<open>The response arrives\<close>

lemma length_fabricRequest:
  "GATEWAY_REQUEST_HEADER_BYTES + length payload \<le> length tx \<Longrightarrow> length (fabricRequest op i slot payload tx) = length tx"
  by (simp add: fabricRequest_def Let_def)

definition fabric_sent :: "nat \<Rightarrow> fabric_attempt \<Rightarrow> bool" where
  "fabric_sent len a \<longleftrightarrow> beginPacketOk (fa_send a) \<and> written (fa_send a) = len \<and> endPacketOk (fa_send a)"

text \<open>What a request puts on the wire: the fields in order, under the tag.\<close>

definition request_body :: "u8 \<Rightarrow> u32 \<Rightarrow> u16 \<Rightarrow> bytes \<Rightarrow> bytes" where
  "request_body op requestId slot payload =
    putU16 GATEWAY_MAGIC @ [GATEWAY_VERSION, op] @ putU32 requestId @ putU16 slot @ putU16 (of_nat (length payload)) @ payload"

definition fabric_datagram :: "wolf \<Rightarrow> u8 \<Rightarrow> u32 \<Rightarrow> u16 \<Rightarrow> bytes \<Rightarrow> bytes" where
  "fabric_datagram W op requestId slot payload =
    (let body = request_body op requestId slot payload in body @ snd (wc_HmacFinal W GATEWAY_HMAC_KEY body))"

lemma length_request_body [simp]: "length (request_body op requestId slot payload) = GATEWAY_REQUEST_HEADER_BYTES + length payload"
  by (simp add: request_body_def)

lemma fabricRequest_body:
  assumes "GATEWAY_REQUEST_HEADER_BYTES + length payload \<le> length tx"
  shows "take (GATEWAY_REQUEST_HEADER_BYTES + length payload) (fabricRequest op requestId slot payload tx) = request_body op requestId slot payload"
proof (rule nth_equalityI)
  fix i assume "i < length (take (GATEWAY_REQUEST_HEADER_BYTES + length payload) (fabricRequest op requestId slot payload tx))"
  then have i: "i < 12 + length payload" by simp
  show "take (GATEWAY_REQUEST_HEADER_BYTES + length payload) (fabricRequest op requestId slot payload tx) ! i =
    request_body op requestId slot payload ! i"
  proof (cases "i < 12")
    case True
    then have "i \<in> {0, 1, 2, 3, 4, 5, 6, 7, 8, 9, 10, 11}" unfolding insert_iff empty_iff by presburger
    then show ?thesis using assms
      by (auto simp: fabricRequest_def request_body_def nth_write_at nth_list_update nth_append Let_def)
  next
    case False
    then show ?thesis using assms i by (auto simp: fabricRequest_def request_body_def nth_write_at nth_append Let_def)
  qed
qed (use assms in \<open>simp add: length_fabricRequest\<close>)

text \<open>The datagrams that a call skips do not depend on what else its object holds.\<close>

lemma fabricPoll_elsewhere:
  "fst (fabricPoll W op requestId p (s\<lparr>f_nextRequestId := i, f_tx := t, f_rx := b\<rparr>)) = fst (fabricPoll W op requestId p s)"
  by (auto simp: fabricPoll_def Let_def split: sum.split)

text \<open>The first datagram that is not skipped decides the call.\<close>

lemma transact_decides:
  assumes W: "wolf_works W" "wolf_sizes W"
    and len: "GATEWAY_REQUEST_HEADER_BYTES + length payload + GATEWAY_TAG_BYTES \<le> length (f_tx s)" "length payload \<le> FABRIC_RECORD_BYTES"
    and sent: "fabric_sent (GATEWAY_REQUEST_HEADER_BYTES + length payload + GATEWAY_TAG_BYTES) a"
    and polls: "fa_polls a = pre @ p # post"
    and pre: "\<forall>p' \<in> set pre. pollMillis p' - fa_start a < GATEWAY_TIMEOUT_MS \<and>
      fst (fabricPoll W op (f_nextRequestId s) p' s) = FabricIgnore"
    and p: "pollMillis p - fa_start a < GATEWAY_TIMEOUT_MS" "fabric_authentic W op (f_nextRequestId s) s p n" "fabric_buffer p"
  shows "\<exists>t. transact W op slot payload capacity (a # attempts) m s =
      Some (fabricFinish capacity (fa_us a) n
        (m\<lparr>fm_appTx := fm_appTx m + of_nat (GATEWAY_REQUEST_HEADER_BYTES + length payload + GATEWAY_TAG_BYTES)\<rparr>)
        (s\<lparr>f_nextRequestId := f_nextRequestId s + 1, f_tx := t, f_rx := readBuffer p\<rparr>)) \<and>
    length t = length (f_tx s) \<and>
    take (GATEWAY_REQUEST_HEADER_BYTES + length payload + GATEWAY_TAG_BYTES) t = fabric_datagram W op (f_nextRequestId s) slot payload"
proof -
  let ?a = "GATEWAY_REQUEST_HEADER_BYTES + length payload"
  let ?tx = "fabricRequest op (f_nextRequestId s) slot payload (f_tx s)"
  let ?tag = "snd (wc_HmacFinal W GATEWAY_HMAC_KEY (request_body op (f_nextRequestId s) slot payload))"
  let ?t = "write_at ?a ?tag ?tx"
  let ?s = "s\<lparr>f_nextRequestId := f_nextRequestId s + 1, f_tx := ?t\<rparr>"
  let ?I = "\<lambda>u. \<exists>b. u = ?s\<lparr>f_rx := b\<rparr>"
  have body: "take ?a ?tx = request_body op (f_nextRequestId s) slot payload" using len(1) by (intro fabricRequest_body) simp
  have tl: "length ?tag = 32" using W(2) by (simp add: wolf_sizes_def)
  have "apqe_hmacSha256 W GATEWAY_HMAC_KEY (take ?a ?tx) = Inr ?tag"
    unfolding body using len(2) by (intro apqe_hmac_works [OF W(1)]) (simp_all add: GATEWAY_HMAC_KEY_def)
  then have run: "transact W op slot payload capacity (a # attempts) m s =
      fabricAttempts W op (f_nextRequestId s) (?a + GATEWAY_TAG_BYTES) capacity GATEWAY_RETRIES (a # attempts) m ?s"
    using len(1) by (simp add: transact_def Let_def)
  have go: "\<exists>u'. fabric_iteration W op (f_nextRequestId s) p' u = Inl u' \<and> ?I u'" if "p' \<in> set pre" "?I u" for p' u
  proof -
    from that(2) obtain b where u: "u = s\<lparr>f_nextRequestId := f_nextRequestId s + 1, f_tx := ?t, f_rx := b\<rparr>" by auto
    have "fst (fabricPoll W op (f_nextRequestId s) p' u) = FabricIgnore"
      using pre that(1) by (simp add: u fabricPoll_elsewhere)
    then obtain u' where u': "fabricPoll W op (f_nextRequestId s) p' u = (FabricIgnore, u')"
      by (cases "fabricPoll W op (f_nextRequestId s) p' u") auto
    moreover have "?I u'" using fabricPoll_rx [OF u'] u by auto
    ultimately show ?thesis by (auto simp: fabric_iteration_Inl)
  qed
  have stop: "fabric_iteration W op (f_nextRequestId s) p u = Inr (FabricAccept n, ?s\<lparr>f_rx := readBuffer p\<rparr>)" if "?I u" for u
    using that p(2) fabricPoll_accept [OF W(2) p(3)] by (auto simp: fabric_iteration_Inr)
  have "\<exists>r. fabricAwait W op (f_nextRequestId s) (fa_start a) (pre @ p # post) ?s = Some r \<and>
      r = (FabricAccept n, ?s\<lparr>f_rx := readBuffer p\<rparr>)"
  proof (rule fabric_wait.answered [where I = ?I])
    show "\<forall>p' \<in> set pre. \<not> \<not> pollMillis p' - fa_start a < GATEWAY_TIMEOUT_MS \<and>
        (\<forall>u. ?I u \<longrightarrow> (\<exists>u'. fabric_iteration W op (f_nextRequestId s) p' u = Inl u' \<and> ?I u'))"
      using pre go by blast
    show "?I ?s" by (rule exI [of _ "f_rx s"]) simp
  qed (use p(1) stop in auto)
  then have aw: "fabricAwait W op (f_nextRequestId s) (fa_start a) (fa_polls a) ?s = Some (FabricAccept n, ?s\<lparr>f_rx := readBuffer p\<rparr>)"
    by (simp add: polls)
  have six: "(6 :: nat) = Suc 5" by simp
  have "transact W op slot payload capacity (a # attempts) m s =
      Some (fabricFinish capacity (fa_us a) n (m\<lparr>fm_appTx := fm_appTx m + of_nat (?a + GATEWAY_TAG_BYTES)\<rparr>) (?s\<lparr>f_rx := readBuffer p\<rparr>))"
    unfolding run six fabricAttempts.simps using sent aw by (simp add: fabric_sent_def Let_def)
  moreover have "take (?a + GATEWAY_TAG_BYTES) ?t = fabric_datagram W op (f_nextRequestId s) slot payload"
    using tl len(1) body by (simp add: fabric_datagram_def Let_def write_at_def length_fabricRequest)
  ultimately show ?thesis using tl len(1) by (intro exI [of _ ?t]) (simp add: length_fabricRequest)
qed

lemma transact_answer:
  assumes "wolf_works W" and "wolf_sizes W"
    and "GATEWAY_REQUEST_HEADER_BYTES + length payload + GATEWAY_TAG_BYTES \<le> length (f_tx s)" and "length payload \<le> FABRIC_RECORD_BYTES"
    and "fabric_sent (GATEWAY_REQUEST_HEADER_BYTES + length payload + GATEWAY_TAG_BYTES) a"
    and "fa_polls a = p # post" and "pollMillis p - fa_start a < GATEWAY_TIMEOUT_MS"
    and "fabric_authentic W op (f_nextRequestId s) s p n" and "fabric_buffer p"
    and "readBuffer p ! 8 = GW_OK" and "n \<le> capacity"
  shows "\<exists>m' s'. transact W op slot payload capacity (a # attempts) m s =
      Some (Some (read_at GATEWAY_RESPONSE_HEADER_BYTES n (readBuffer p)), m', s') \<and>
    f_gatewayIp s' = f_gatewayIp s \<and> f_gatewayPort s' = f_gatewayPort s \<and> f_nextRequestId s' = f_nextRequestId s + 1 \<and>
    f_recordScratch s' = f_recordScratch s \<and> length (f_tx s') = length (f_tx s)"
proof -
  have "fa_polls a = [] @ p # post" using assms(6) by simp
  from transact_decides [OF assms(1-5) this _ assms(7-9), of slot capacity attempts m] obtain t
    where "transact W op slot payload capacity (a # attempts) m s =
      Some (fabricFinish capacity (fa_us a) n
        (m\<lparr>fm_appTx := fm_appTx m + of_nat (GATEWAY_REQUEST_HEADER_BYTES + length payload + GATEWAY_TAG_BYTES)\<rparr>)
        (s\<lparr>f_nextRequestId := f_nextRequestId s + 1, f_tx := t, f_rx := readBuffer p\<rparr>))" and "length t = length (f_tx s)" by auto
  then show ?thesis using assms(10,11) by (simp add: fabricFinish_def Let_def)
qed

text \<open>The response of a gateway that holds the same key, and a poll that delivers it.\<close>

definition gateway_reply :: "wolf \<Rightarrow> u8 \<Rightarrow> u32 \<Rightarrow> u8 \<Rightarrow> bytes \<Rightarrow> bytes" where
  "gateway_reply W op requestId status payload =
    (let body = putU16 GATEWAY_MAGIC @ [GATEWAY_VERSION, op OR 0x80] @ putU32 requestId @ [status] @ putU64 0 @
           putU16 (of_nat (length payload)) @ payload
     in body @ snd (wc_HmacFinal W GATEWAY_HMAC_KEY body))"

definition gateway_poll :: "u32 \<Rightarrow> u16 \<Rightarrow> bytes \<Rightarrow> poll" where
  "gateway_poll ip port dg =
    \<lparr>pollMillis = 1, parsePacket = int (length dg), readLength = int (length dg),
     readBuffer = take GATEWAY_MAX_RESPONSE_BYTES (dg @ zeros GATEWAY_MAX_RESPONSE_BYTES), remoteIP = ip, remotePort = port\<rparr>"

lemma gateway_replies:
  assumes "wolf_works W" and "wolf_sizes W" and "length payload \<le> FABRIC_RECORD_BYTES"
    and "p = gateway_poll (f_gatewayIp s) (f_gatewayPort s) (gateway_reply W op requestId status payload)"
  shows "fabric_authentic W op requestId s p (length payload)" and "fabric_buffer p" and "readBuffer p ! 8 = status"
    and "read_at GATEWAY_RESPONSE_HEADER_BYTES (length payload) (readBuffer p) = payload"
proof -
  let ?body = "putU16 GATEWAY_MAGIC @ [GATEWAY_VERSION, op OR 0x80] @ putU32 requestId @ [status] @ putU64 0 @
           putU16 (of_nat (length payload)) @ payload"
  let ?tag = "snd (wc_HmacFinal W GATEWAY_HMAC_KEY ?body)"
  have slice: "take n (b @ t @ z) = b" "read_at n 32 (b @ t @ z) = t" if "length b = n" "length t = 32" for n and b t z :: bytes
    using that by (simp_all add: read_at_def)
  have tl: "length ?tag = 32" using assms(2) by (simp add: wolf_sizes_def)
  have bl: "length ?body = 19 + length payload" by simp
  have reply: "gateway_reply W op requestId status payload = ?body @ ?tag" by (simp add: gateway_reply_def)
  have rl: "length (gateway_reply W op requestId status payload) = 51 + length payload" unfolding reply using bl tl by simp
  then have buf: "readBuffer p = ?body @ ?tag @ zeros (928 - length payload)"
    using assms(3,4) bl tl unfolding gateway_poll_def reply by (simp add: zeros_def)
  have n: "unat (of_nat (length payload) :: u16) = length payload" using assms(3) by (simp add: unat_u16_small)
  have "apqe_hmacSha256 W GATEWAY_HMAC_KEY ?body = Inr ?tag"
    using assms(3) by (intro apqe_hmac_works [OF assms(1)]) (simp_all add: GATEWAY_HMAC_KEY_def)
  then have hm: "apqe_hmacSha256 W GATEWAY_HMAC_KEY (take (19 + length payload) (readBuffer p)) = Inr (read_at (19 + length payload) 32 (readBuffer p))"
    using slice [OF bl tl, of "zeros (928 - length payload)"] unfolding buf by simp
  have flds: "getU16 (readBuffer p) = GATEWAY_MAGIC" "readBuffer p ! 2 = GATEWAY_VERSION" "readBuffer p ! 3 = op OR 0x80"
    "getU32 (drop 4 (readBuffer p)) = requestId" "getU16 (drop 17 (readBuffer p)) = of_nat (length payload)"
    unfolding buf by (simp_all add: nth_append)
  show "fabric_authentic W op requestId s p (length payload)"
    using assms(3,4) hm flds rl n by (simp add: fabric_authentic_def gateway_poll_def)
  show "fabric_buffer p" using assms(3,4) rl by (simp add: fabric_buffer_def gateway_poll_def)
  show "readBuffer p ! 8 = status" unfolding buf by (simp add: nth_append)
  show "read_at GATEWAY_RESPONSE_HEADER_BYTES (length payload) (readBuffer p) = payload"
    unfolding buf by (simp add: read_at_def)
qed

end
