(* ===== verification/ApqeProperties.thy ===== *)
theory ApqeProperties
  imports ApqeHonest ApqeFabricTheorems
begin

text \<open>
  Sessions of the baseline protocol: one that is delivered completes on both sides, and the
  initiator can be impersonated from public data. The examples run two devices
  whose gateway and radio are built in the first sections.
\<close>

section \<open>Delivered messages\<close>

lemma responderLoop_heard:
  assumes "apqe_hears (rx_start rx) (rx_polls rx) 1000 MSG_M1 0 (of_nat APQE_M1_BYTES) session M1 ip port"
    and "length M1 = APQE_M1_BYTES" and "length (q_m1 n) = APQE_M1_BYTES"
  shows "apqe_responderLoop W K rx e n =
    apqe_runResponderSession W K e session (apqe_packet MSG_M1 session M1 ip port) (n\<lparr>q_m1 := M1\<rparr>)"
proof -
  obtain m1 where "apqe_receiveMessage MSG_M1 0 (q_m1 n) (of_nat APQE_M1_BYTES) 1000 (rx_start rx) (rx_polls rx) =
      Some (Some (apqe_packet MSG_M1 session M1 ip port), m1)" and "take (length M1) m1 = M1" "length m1 = length (q_m1 n)"
    by (rule apqe_heard [OF assms(1), of "q_m1 n"]) (use assms in \<open>simp_all add: apqe_packet_def\<close>)
  then show ?thesis using assms(2,3) by (simp add: apqe_responderLoop_def apqe_packet_def Let_def)
qed

lemma runResponder_stages:
  "runStages (apqe_responderStages W K e incoming session) (apqe_enter n) = (Some ok, c) \<Longrightarrow>
   apqe_runResponderSession W K e session incoming n = Some (ok, apqe_node.truncate c)"
  by (simp add: apqe_runResponderSession_def)

lemma runInitiator_stages:
  "runStages (apqe_initiatorStages W K e session slot) (apqe_enter n) = (Some True, c) \<Longrightarrow>
   apqe_runInitiatorSession W K e session slot n =
     Some (Some (printSessionResult session slot (s_m c) (s_peerMetrics c) (s_peerProtocolTime c)), apqe_node.truncate c)"
  by (simp add: apqe_runInitiatorSession_def)

lemma truncate_fields [simp]:
  "q_wire (apqe_node.truncate c) = q_wire c" "q_result (apqe_node.truncate c) = q_result c"
  "q_publicKey (apqe_node.truncate c) = q_publicKey c" "q_secretKey (apqe_node.truncate c) = q_secretKey c"
  "q_peer (apqe_node.truncate c) = q_peer c" "q_own (apqe_node.truncate c) = q_own c"
  "q_m1 (apqe_node.truncate c) = q_m1 c" "q_m2 (apqe_node.truncate c) = q_m2 c" "q_m3 (apqe_node.truncate c) = q_m3 c"
  by (simp_all add: apqe_node.truncate_def)

text \<open>The numbers of bytes in the report of a session that exchanged M1 to M3.\<close>

lemma report_bytes:
  "direct a = (3168, 128, 3238, 142) \<Longrightarrow> printSessionResult session slot a b t ! 7 = 3296 \<and> printSessionResult session slot a b t ! 8 = 3380"
  by (simp add: printSessionResult_def direct_def Let_def)

lemma apqe_session_runs:
  assumes ready: "duo_ready W K d" and served: "duo_served W d"
    and M1: "apqe_hears (rx_start rx) (rx_polls rx) 1000 MSG_M1 0 (of_nat APQE_M1_BYTES) session (duo_M1 W K d) ipA portA"
    and M3: "apqe_hears_direct (ae_recvs (du_eB d) 0) MSG_M3 session (duo_M3 W d) ipA3 portA3"
  obtains c :: apqe_session and t m where "apqe_responderLoop W K rx (du_eB d) (du_B d) = Some (True, apqe_node.truncate c)"
    and "s_sessionKey c = duo_key W d" and "q_result c = apqe_encodeResult session t m (apqe_digest W [duo_key W d])"
    and "q_wire c = q_wire (du_B d) @
      [(ipA, portA, apqe_datagrams MSG_M2 session (duo_M2 W d)), (ipA, portA, apqe_datagrams APQE_MSG_RESULT session (q_result c))]"
proof -
  have sizes: "wolf_sizes W" "kyber_sizes K" "length (q_m1 (du_B d)) = APQE_M1_BYTES"
    using ready by (simp_all add: duo_ready_def apqe_party_def apqe_sized_def)
  have len: "length (duo_M1 W K d) = APQE_M1_BYTES" unfolding duo_M1_def by (rule length_apqe_messages(3) [OF sizes(1,2)])
  note loop = responderLoop_heard [OF M1 len sizes(3), of W K "du_eB d"]
  from responder_run [OF ready served M3, of "apqe_packet MSG_M1 session (duo_M1 W K d) ipA portA"] obtain c m result
    where run: "runStages (apqe_responderStages W K (du_eB d) (apqe_packet MSG_M1 session (duo_M1 W K d) ipA portA) session)
        (apqe_enter ((du_B d)\<lparr>q_m1 := duo_M1 W K d\<rparr>)) = (Some True, c)"
      and c: "s_sessionKey c = duo_key W d" "q_result c = result"
        "result = apqe_encodeResult session (ae_us (du_eB d) 13) m (apqe_digest W [duo_key W d])"
        "q_wire c = q_wire (du_B d) @
          [(ipA, portA, apqe_datagrams MSG_M2 session (duo_M2 W d)), (ipA, portA, apqe_datagrams APQE_MSG_RESULT session result)]"
    by (auto simp: apqe_packet_def)
  show ?thesis
    by (rule that [of c "ae_us (du_eB d) 13" m]) (use loop runResponder_stages [OF run] c in simp_all)
qed

section \<open>A concrete gateway and radio\<close>

definition gateway_attempt :: "wolf \<Rightarrow> u8 \<Rightarrow> u32 \<Rightarrow> FabricState \<Rightarrow> bytes \<Rightarrow> fabric_attempt" where
  "gateway_attempt W op requestId s payload =
    \<lparr>fa_send = \<lparr>beginPacketOk = True, written = GATEWAY_QUERY_REQUEST_BYTES, endPacketOk = True\<rparr>, fa_start = 0,
     fa_polls = [gateway_poll (f_gatewayIp s) (f_gatewayPort s) (gateway_reply W op requestId GW_OK payload)], fa_us = 0\<rparr>"

definition fabric_sized :: "FabricState \<Rightarrow> bool" where
  "fabric_sized s \<longleftrightarrow> length (f_tx s) = GATEWAY_MAX_REQUEST_BYTES \<and> length (f_recordScratch s) = FABRIC_RECORD_BYTES"

text \<open>A query whose answer is the record of \<open>cred\<close> returns \<open>cred\<close>.\<close>

lemma query_answer:
  assumes "wolf_works W" and "wolf_sizes W" and "fabric_sized s" and "length question = ID_BYTES" and "credential_arrays cred"
    and "attempts = [gateway_attempt W op (f_nextRequestId s) s (serializeCredential cred (zeros FABRIC_RECORD_BYTES))]"
  shows "\<exists>m' s'. map_option receiveRecord (transact W op slot question (length (f_recordScratch s)) attempts m s) = Some (Some cred, m', s') \<and>
    fabric_sized s' \<and> f_gatewayIp s' = f_gatewayIp s \<and> f_gatewayPort s' = f_gatewayPort s \<and> f_nextRequestId s' = f_nextRequestId s + 1"
proof -
  let ?rec = "serializeCredential cred (zeros FABRIC_RECORD_BYTES)"
  let ?a = "gateway_attempt W op (f_nextRequestId s) s ?rec"
  let ?p = "gateway_poll (f_gatewayIp s) (f_gatewayPort s) (gateway_reply W op (f_nextRequestId s) GW_OK ?rec)"
  have len: "length ?rec = FABRIC_RECORD_BYTES" using assms(5) by (simp add: length_serializeCredential)
  then have "length ?rec \<le> FABRIC_RECORD_BYTES" by simp
  note reply = gateway_replies [OF assms(1,2) this refl, where s = s and op = op and requestId = "f_nextRequestId s" and status = GW_OK]
  have "\<exists>m' s'. transact W op slot question (length (f_recordScratch s)) [?a] m s =
      Some (Some (read_at GATEWAY_RESPONSE_HEADER_BYTES (length ?rec) (readBuffer ?p)), m', s') \<and>
    f_gatewayIp s' = f_gatewayIp s \<and> f_gatewayPort s' = f_gatewayPort s \<and> f_nextRequestId s' = f_nextRequestId s + 1 \<and>
    f_recordScratch s' = f_recordScratch s \<and> length (f_tx s') = length (f_tx s)"
    by (rule transact_answer [OF assms(1,2) _ _ _ _ _ reply(1-3)])
      (use assms(3,4) len in \<open>simp_all add: fabric_sized_def fabric_sent_def gateway_attempt_def gateway_poll_def\<close>)
  then obtain m' s' where run: "transact W op slot question (length (f_recordScratch s)) [?a] m s = Some (Some ?rec, m', s')"
    and s': "f_gatewayIp s' = f_gatewayIp s" "f_gatewayPort s' = f_gatewayPort s" "f_nextRequestId s' = f_nextRequestId s + 1"
      "f_recordScratch s' = f_recordScratch s" "length (f_tx s') = length (f_tx s)"
    unfolding reply(4) by blast
  have w: "write_at 0 ?rec (f_recordScratch s') = ?rec" using s'(4) assms(3) len by (intro write_at_full) (simp add: fabric_sized_def)
  have "parseCredential ?rec = cred" using assms(5) by (simp add: parse_serialize)
  then have "receiveRecord (Some ?rec, m', s') = (Some cred, m', s'\<lparr>f_recordScratch := ?rec\<rparr>)"
    using w len by (simp add: receiveRecord_def)
  then show ?thesis using assms(3,6) run s' len by (simp add: fabric_sized_def)
qed

definition accepting_socket :: "nat \<Rightarrow> nat \<Rightarrow> send_outcome" where
  "accepting_socket len i = \<lparr>beginPacketOk = True, written = FRAGMENT_HEADER_BYTES + payload_length len i, endPacketOk = True\<rparr>"

lemma accepting_socket_net: "accepting_net (accepting_socket len) len"
  by (simp add: accepting_net_def accepting_socket_def)

definition apqe_radio :: "u8 \<Rightarrow> u32 \<Rightarrow> bytes \<Rightarrow> radio" where
  "apqe_radio type session msg =
    \<lparr>rx_start = 0, rx_polls = map (\<lambda>i. poll_of 1 (apqe_fragment type session msg i)) [0..<fragment_count (length msg)]\<rparr>"

lemma apqe_radio_hears:
  assumes "1 < timeoutMs"
  shows "apqe_hears (rx_start (apqe_radio type session msg)) (rx_polls (apqe_radio type session msg)) timeoutMs type wanted cap session msg
    0x0a000001 5000"
proof -
  let ?ps = "map (\<lambda>i. poll_of 1 (apqe_fragment type session msg i)) [0..<fragment_count (length msg)]"
  have len: "length (apqe_fragment type session msg i) \<le> 1014" if "i < fragment_count (length msg)" for i
    using fragment_length [OF that, of type session] payload_length_le [of "length msg" i]
    by (simp add: apqe_fragment_retag length_retag)
  have d: "delivers 0x0a000001 5000 (apqe_fragment type session msg i) (poll_of 1 (apqe_fragment type session msg i))"
    if "i < fragment_count (length msg)" for i
    by (rule poll_of_delivers [OF len [OF that]])
  have "buffers_ok (set ?ps)" using d by (auto simp: delivers_def)
  moreover have "\<forall>p \<in> set ?ps. pollMillis p - 0 < timeoutMs \<and> (apqe_readDatagram type wanted cap p = None \<or>
      (\<exists>i < fragment_count (length msg). delivers 0x0a000001 5000 (apqe_fragment type session msg i) p))"
    using d assms by auto
  moreover have "\<exists>p \<in> set ?ps. delivers 0x0a000001 5000 (apqe_fragment type session msg i) p" if "i < fragment_count (length msg)" for i
    using d [OF that] that by auto
  ultimately show ?thesis
    unfolding apqe_hears_def apqe_radio_def by (intro exI [of _ ?ps] exI [of _ "[]"]) auto
qed

section \<open>A concrete pair of devices\<close>

lemma buildCredential_succeeds:
  assumes "wolf_works W" and "wolf_sizes W" and "length (n_deviceId (q_config n)) = ID_BYTES"
    and "length (q_identityHash n) = ID_BYTES" and "length (q_publicKey n) = KYBER_PUBLIC_KEY_BYTES"
    and "length (q_secretKey n) = KYBER_SECRET_KEY_BYTES" and "length (m_reversibleSecret (q_puf n)) = HASH_BYTES"
  shows "\<exists>cred. buildCredential W slot n = Inr cred \<and> credential_arrays cred"
  using assms
  by (simp add: buildCredential_def deriveChallenge_def reversibleMap_def reversibleMask_def apqe_sha256_def sha256Parts_digest
      chal_label_def rev_mask_label_def credential_arrays_def Let_def)

definition sample_apqe_config :: apqe_NodeConfig where
  "sample_apqe_config =
    \<lparr>n_role = ApqeResponder, n_wifiSsid = [], n_wifiPassword = [], n_gatewayIp = 0, n_gatewayPort = GATEWAY_ORG1_PORT,
     n_gatewayLocalPort = 4311, n_responderIp = 0, n_protocolPort = APQE_PROTOCOL_PORT, n_deviceId = zeros 32, n_peerId = zeros 32,
     n_emulatedSramRaw = zeros 32, n_emulatedSramHelper = zeros 32, n_emulatedBsPufSecret = zeros 32, n_numberOfSessions = 1\<rparr>"

definition sample_apqe :: apqe_node where
  "sample_apqe =
    (let keys = indcpa_keypair sample_kyber (apqe_digest sample_wolf [fe_label, zeros 32, zeros 32])
     in (ApqeProtocol_ctor sample_apqe_config)\<lparr>q_publicKey := fst keys, q_secretKey := snd keys\<rparr>)"

lemma sample_apqe_fields [simp]:
  "q_config sample_apqe = sample_apqe_config" "q_puf sample_apqe = SoftwarePuf_ctor" "q_fabric sample_apqe = FabricUdpClient_ctor"
  "q_identityHash sample_apqe = zeros 32" "q_peerIdentityHash sample_apqe = zeros 32" "apqe_sized sample_apqe"
  "length (q_publicKey sample_apqe) = KYBER_PUBLIC_KEY_BYTES" "length (q_secretKey sample_apqe) = KYBER_SECRET_KEY_BYTES"
  using sample_kyber_sizes by (simp_all add: sample_apqe_def ApqeProtocol_ctor_def apqe_sized_def kyber_sizes_def Let_def)

lemma sample_credential:
  obtains cred where "credential_arrays cred" and "apqe_party sample_wolf sample_kyber 0 cred sample_apqe"
proof -
  have "\<exists>cred. buildCredential sample_wolf 0 sample_apqe = Inr cred \<and> credential_arrays cred"
    by (rule buildCredential_succeeds [OF sample_wolf_works sample_wolf_sizes])
      (simp_all add: sample_apqe_config_def SoftwarePuf_ctor_def)
  moreover have "reconstructKyberSeed sample_wolf (q_puf sample_apqe) = Inr (apqe_digest sample_wolf [fe_label, zeros 32, zeros 32])"
    by (simp add: reconstructKyberSeed_def sha256Parts_digest sample_wolf_works SoftwarePuf_ctor_def fe_label_def)
  moreover have "indcpa_keypair sample_kyber (apqe_digest sample_wolf [fe_label, zeros 32, zeros 32]) =
      (q_publicKey sample_apqe, q_secretKey sample_apqe)"
    by (simp add: sample_apqe_def Let_def)
  ultimately show ?thesis using that by (auto simp: apqe_party_def sample_apqe_config_def)
qed

definition sample_answer :: "u8 \<Rightarrow> FabricCredential \<Rightarrow> u32 \<Rightarrow> fabric_attempt list" where
  "sample_answer op cred requestId =
    [gateway_attempt sample_wolf op requestId FabricUdpClient_ctor (serializeCredential cred (zeros FABRIC_RECORD_BYTES))]"

text \<open>An environment with the given receptions; \<open>lens\<close> are the lengths of the messages it sends.\<close>

definition sample_apqe_env :: "u8 \<Rightarrow> FabricCredential \<Rightarrow> (nat \<Rightarrow> nat) \<Rightarrow> (nat \<Rightarrow> radio) \<Rightarrow> apqe_env" where
  "sample_apqe_env op cred lens radios =
    \<lparr>ae_nonce = zeros 32, ae_coins = (\<lambda>_. zeros 32), ae_fabric = (\<lambda>i. sample_answer op cred (of_nat i + 1)),
     ae_sends = (\<lambda>i. accepting_socket (lens i)), ae_recvs = radios, ae_us = (\<lambda>_. 0)\<rparr>"

definition sample_duo :: "FabricCredential \<Rightarrow> (nat \<Rightarrow> radio) \<Rightarrow> (nat \<Rightarrow> radio) \<Rightarrow> apqe_duo" where
  "sample_duo cred rA rB =
    \<lparr>du_A = sample_apqe, du_B = sample_apqe,
     du_eA = sample_apqe_env GW_QUERY_ID_SLOT cred (\<lambda>i. if i = 0 then APQE_M1_BYTES else APQE_M3_BYTES) rA,
     du_eB = sample_apqe_env GW_QUERY_TID cred (\<lambda>i. if i = 0 then APQE_M2_BYTES else APQE_RESULT_BYTES) rB,
     du_slot = 0, du_credA = cred, du_credB = cred\<rparr>"

lemma sample_duo_ready:
  "apqe_party sample_wolf sample_kyber 0 cred sample_apqe \<Longrightarrow> duo_ready sample_wolf sample_kyber (sample_duo cred rA rB)"
  using sample_wolf_works sample_wolf_sizes sample_kyber_sizes sample_kyber_correct
  by (simp add: duo_ready_def sample_duo_def sample_apqe_env_def accepting_socket_net)

lemma sample_fabric_sized: "fabric_sized FabricUdpClient_ctor"
  by (simp add: fabric_sized_def FabricUdpClient_ctor_def)

lemma sample_query:
  assumes "credential_arrays cred" and "fabric_sized s" and "f_gatewayIp s = 0" and "f_gatewayPort s = 0"
    and "f_nextRequestId s = i" and "length question = ID_BYTES"
  shows "\<exists>m' s'. map_option receiveRecord (transact sample_wolf op slot question (length (f_recordScratch s)) (sample_answer op cred i) m s) =
      Some (Some cred, m', s') \<and> fabric_sized s' \<and> f_gatewayIp s' = 0 \<and> f_gatewayPort s' = 0 \<and> f_nextRequestId s' = i + 1"
proof -
  have "sample_answer op cred i = [gateway_attempt sample_wolf op (f_nextRequestId s) s (serializeCredential cred (zeros FABRIC_RECORD_BYTES))]"
    using assms(3-5) by (simp add: sample_answer_def gateway_attempt_def FabricUdpClient_ctor_def)
  from query_answer [OF sample_wolf_works sample_wolf_sizes assms(2,6,1) this] assms(3-5) show ?thesis by simp
qed

lemma sample_duo_served:
  assumes "credential_arrays cred"
  shows "duo_served sample_wolf (sample_duo cred rA rB)"
proof -
  have c: "f_gatewayIp FabricUdpClient_ctor = 0" "f_gatewayPort FabricUdpClient_ctor = 0" "f_nextRequestId FabricUdpClient_ctor = 1"
    by (simp_all add: FabricUdpClient_ctor_def)
  have tid: "length (fc_tid cred) = 32" using assms by (simp add: credential_arrays_def)
  note Q = sample_query [OF assms]
  obtain m1 f1 where q1: "queryByIdentitySlot sample_wolf (zeros 32) 0 (sample_answer GW_QUERY_ID_SLOT cred 1) no_meter FabricUdpClient_ctor =
      Some (Some cred, m1, f1)" and f1: "fabric_sized f1" "f_gatewayIp f1 = 0" "f_gatewayPort f1 = 0" "f_nextRequestId f1 = 2"
    using Q [OF sample_fabric_sized c, of "zeros 32" GW_QUERY_ID_SLOT 0 no_meter] unfolding queryByIdentitySlot_def by auto
  obtain m2 f2 where q2: "queryByIdentitySlot sample_wolf (zeros 32) 0 (sample_answer GW_QUERY_ID_SLOT cred 2) m1 f1 =
      Some (Some cred, m2, f2)"
    using Q [OF f1, of "zeros 32" GW_QUERY_ID_SLOT 0 m1] unfolding queryByIdentitySlot_def by auto
  obtain m f where q3: "queryByTid sample_wolf (fc_tid cred) (sample_answer GW_QUERY_TID cred 1) no_meter FabricUdpClient_ctor =
      Some (Some cred, m, f)"
    using Q [OF sample_fabric_sized c tid, of GW_QUERY_TID 0 no_meter] unfolding queryByTid_def by auto
  show ?thesis
    using q1 q2 q3 by (simp add: duo_served_def sample_duo_def sample_apqe_env_def)
qed

text \<open>Two devices whose radios deliver what the other sends.\<close>

definition silent_radio :: "nat \<Rightarrow> radio" where
  "silent_radio = (\<lambda>_. apqe_radio 0 0 [])"

lemma sample_duo_messages:
  "duo_M1 W K (sample_duo cred rA rB) = duo_M1 W K (sample_duo cred silent_radio silent_radio)"
  "duo_M2 W (sample_duo cred rA rB) = duo_M2 W (sample_duo cred silent_radio silent_radio)"
  "duo_M3 W (sample_duo cred rA rB) = duo_M3 W (sample_duo cred silent_radio silent_radio)"
  by (simp_all add: duo_M1_def duo_M2_def duo_M3_def duo_key_def duo_ei_def duo_ci_def duo_cj_def duo_both_def sample_duo_def
      sample_apqe_env_def)

lemma sample_duo_linked:
  obtains d :: apqe_duo and rx :: radio where "duo_ready sample_wolf sample_kyber d" and "duo_served sample_wolf d"
    and "apqe_hears (rx_start rx) (rx_polls rx) 1000 MSG_M1 0 (of_nat APQE_M1_BYTES) 1 (duo_M1 sample_wolf sample_kyber d) 0x0a000001 5000"
    and "apqe_hears_direct (ae_recvs (du_eA d) 0) MSG_M2 1 (duo_M2 sample_wolf d) 0x0a000001 5000"
    and "apqe_hears_direct (ae_recvs (du_eB d) 0) MSG_M3 1 (duo_M3 sample_wolf d) 0x0a000001 5000"
    and "\<forall>B'. apqe_responderLoop sample_wolf sample_kyber rx (du_eB d) (du_B d) = Some (True, B') \<longrightarrow>
      apqe_hears_direct (ae_recvs (du_eA d) 1) APQE_MSG_RESULT 1 (q_result B') 0x0a000001 5000"
proof -
  obtain cred where cred: "credential_arrays cred" "apqe_party sample_wolf sample_kyber 0 cred sample_apqe" by (rule sample_credential)
  let ?d0 = "sample_duo cred silent_radio silent_radio"
  let ?rx = "apqe_radio MSG_M1 1 (duo_M1 sample_wolf sample_kyber ?d0)"
  let ?rB = "\<lambda>i :: nat. apqe_radio MSG_M3 1 (duo_M3 sample_wolf ?d0)"
  let ?run = "apqe_responderLoop sample_wolf sample_kyber ?rx (du_eB (sample_duo cred silent_radio ?rB)) sample_apqe"
  let ?rA = "\<lambda>i :: nat. if i = 0 then apqe_radio MSG_M2 1 (duo_M2 sample_wolf ?d0)
    else apqe_radio APQE_MSG_RESULT 1 (q_result (snd (the ?run)))"
  have eB: "du_eB (sample_duo cred ?rA ?rB) = du_eB (sample_duo cred silent_radio ?rB)" by (simp add: sample_duo_def)
  have heard: "apqe_hears (rx_start (apqe_radio type session msg)) (rx_polls (apqe_radio type session msg)) t type wanted cap session msg
      0x0a000001 5000" if "t = 1000 \<or> t = 10000" for type session msg t wanted cap
    using that by (intro apqe_radio_hears) auto
  show ?thesis
  proof (rule that [of "sample_duo cred ?rA ?rB" ?rx])
    show "\<forall>B'. apqe_responderLoop sample_wolf sample_kyber ?rx (du_eB (sample_duo cred ?rA ?rB)) (du_B (sample_duo cred ?rA ?rB)) = Some (True, B') \<longrightarrow>
      apqe_hears_direct (ae_recvs (du_eA (sample_duo cred ?rA ?rB)) 1) APQE_MSG_RESULT 1 (q_result B') 0x0a000001 5000"
      unfolding eB by (simp add: sample_duo_def sample_apqe_env_def heard)
  qed (use sample_duo_ready [OF cred(2)] sample_duo_served [OF cred(1)] heard in
      \<open>simp_all add: sample_duo_messages [where rA = ?rA and rB = ?rB], simp_all add: sample_duo_def sample_apqe_env_def\<close>)
qed

section \<open>Properties\<close>

text \<open>C29: An undisturbed session of the baseline protocol completes. Two devices enrolled with each
  other, whose gateway answers the three queries with the enrolled credentials and whose
  messages are delivered, both return true with the same session key, send exactly M1, M3
  and M2, RESULT, and the initiator reports 3296 application and 3380 framed bytes.\<close>

theorem apqe_session_completes:
  assumes "duo_ready W K d" and "duo_served W d"
    and "apqe_hears (rx_start rx) (rx_polls rx) 1000 MSG_M1 0 (of_nat APQE_M1_BYTES) session (duo_M1 W K d) ipA portA"
    and "apqe_hears_direct (ae_recvs (du_eA d) 0) MSG_M2 session (duo_M2 W d) ipB portB"
    and "apqe_hears_direct (ae_recvs (du_eB d) 0) MSG_M3 session (duo_M3 W d) ipA portA"
    and "\<forall>B'. apqe_responderLoop W K rx (du_eB d) (du_B d) = Some (True, B') \<longrightarrow>
      apqe_hears_direct (ae_recvs (du_eA d) 1) APQE_MSG_RESULT session (q_result B') ipB portB"
  shows "\<exists>report cA B' t m.
    runStages (apqe_initiatorStages W K (du_eA d) session (du_slot d)) (apqe_enter (du_A d)) = (Some True, cA) \<and>
    apqe_runInitiatorSession W K (du_eA d) session (du_slot d) (du_A d) = Some (Some report, apqe_node.truncate cA) \<and>
    apqe_responderLoop W K rx (du_eB d) (du_B d) = Some (True, B') \<and>
    s_sessionKey cA = duo_key W d \<and> q_result B' = apqe_encodeResult session t m (apqe_digest W [duo_key W d]) \<and>
    report ! 7 = DIRECT_APPLICATION_BYTES \<and> report ! 8 = 3380 \<and>
    q_wire cA = q_wire (du_A d) @
      [(n_responderIp (q_config (du_A d)), n_protocolPort (q_config (du_A d)), apqe_datagrams MSG_M1 session (duo_M1 W K d)),
       (n_responderIp (q_config (du_A d)), n_protocolPort (q_config (du_A d)), apqe_datagrams MSG_M3 session (duo_M3 W d))] \<and>
    q_wire B' = q_wire (du_B d) @
      [(ipA, portA, apqe_datagrams MSG_M2 session (duo_M2 W d)), (ipA, portA, apqe_datagrams APQE_MSG_RESULT session (q_result B'))]"
proof -
  obtain cB :: apqe_session and t m where B: "apqe_responderLoop W K rx (du_eB d) (du_B d) = Some (True, apqe_node.truncate cB)"
    "q_result cB = apqe_encodeResult session t m (apqe_digest W [duo_key W d])"
    "q_wire cB = q_wire (du_B d) @
      [(ipA, portA, apqe_datagrams MSG_M2 session (duo_M2 W d)), (ipA, portA, apqe_datagrams APQE_MSG_RESULT session (q_result cB))]"
    by (rule apqe_session_runs [OF assms(1-3,5)])
  with assms(6) have res: "apqe_hears_direct (ae_recvs (du_eA d) 1) APQE_MSG_RESULT session
      (apqe_encodeResult session t m (apqe_digest W [duo_key W d])) ipB portB" by simp
  obtain cA :: apqe_session where A: "runStages (apqe_initiatorStages W K (du_eA d) session (du_slot d)) (apqe_enter (du_A d)) = (Some True, cA)"
    "s_sessionKey cA = duo_key W d" "direct (s_m cA) = (3168, 128, 3238, 142)"
    "q_wire cA = q_wire (du_A d) @
      [(n_responderIp (q_config (du_A d)), n_protocolPort (q_config (du_A d)), apqe_datagrams MSG_M1 session (duo_M1 W K d)),
       (n_responderIp (q_config (du_A d)), n_protocolPort (q_config (du_A d)), apqe_datagrams MSG_M3 session (duo_M3 W d))]"
    by (rule initiator_run [OF assms(1,2,4) res])
  have "printSessionResult session (du_slot d) (s_m cA) (s_peerMetrics cA) (s_peerProtocolTime cA) ! 7 = DIRECT_APPLICATION_BYTES"
    "printSessionResult session (du_slot d) (s_m cA) (s_peerMetrics cA) (s_peerProtocolTime cA) ! 8 = 3380"
    using report_bytes [OF A(3)] by simp_all
  with A runInitiator_stages [OF A(1)] B show ?thesis
    by (intro exI conjI) (assumption | simp)+
qed

theorem apqe_session_completes_witness:
  "\<exists>(d :: apqe_duo) (rx :: radio) report A' B'. apqe_runInitiatorSession sample_wolf sample_kyber (du_eA d) 1 (du_slot d) (du_A d) = Some (Some report, A') \<and>
    apqe_responderLoop sample_wolf sample_kyber rx (du_eB d) (du_B d) = Some (True, B') \<and> report ! 8 = 3380"
proof -
  obtain d :: apqe_duo and rx :: radio where "duo_ready sample_wolf sample_kyber d" and "duo_served sample_wolf d"
    and "apqe_hears (rx_start rx) (rx_polls rx) 1000 MSG_M1 0 (of_nat APQE_M1_BYTES) 1 (duo_M1 sample_wolf sample_kyber d) 0x0a000001 5000"
    and "apqe_hears_direct (ae_recvs (du_eA d) 0) MSG_M2 1 (duo_M2 sample_wolf d) 0x0a000001 5000"
    and "apqe_hears_direct (ae_recvs (du_eB d) 0) MSG_M3 1 (duo_M3 sample_wolf d) 0x0a000001 5000"
    and "\<forall>B'. apqe_responderLoop sample_wolf sample_kyber rx (du_eB d) (du_B d) = Some (True, B') \<longrightarrow>
      apqe_hears_direct (ae_recvs (du_eA d) 1) APQE_MSG_RESULT 1 (q_result B') 0x0a000001 5000"
    by (rule sample_duo_linked)
  from apqe_session_completes [OF this] show ?thesis by fast
qed

text \<open>C30: The responder accepts an initiator that has no secret. M1 is built from public records only,
  the pseudonyms of both devices and the public key of the responder, and from values the
  sender chose; M3 is computed by \<open>impostor\<close> from the initiator's public field \<open>w\<close>, those values
  and the M2 the responder sent. If the gateway returns the initiator's genuine credential,
  the responder returns true and confirms the key the impostor computed.\<close>

theorem apqe_impostor_accepted:
  assumes "wolf_works W" and "wolf_sizes W" and "kyber_sizes K" and "kyber_correct K"
    and "apqe_party W K slot credB B"
    and "fc_identityHash credA = q_peerIdentityHash B" and "verifyCredential W credA" and "length (fc_tid credA) = TID_BYTES"
    and "queryByTid W (fc_tid credA) (ae_fabric e 0) no_meter (q_fabric B) = Some (Some credA, m, f)"
    and "length ci = CHALLENGE_BYTES" and "length ni = APQE_NONCE_BYTES" and "length (ae_nonce e) = APQE_NONCE_BYTES"
    and "accepting_net (ae_sends e 0) APQE_M2_BYTES" and "accepting_net (ae_sends e 1) APQE_RESULT_BYTES"
    and M1: "apqe_hears (rx_start rx) (rx_polls rx) 1000 MSG_M1 0 (of_nat APQE_M1_BYTES) session
      (apqe_M1 W K (fc_publicKey credB) coins (apqe_ei (fc_tid credA) ci ni (fc_tid credB))) ip port"
    and M2: "M2 = apqe_M2 W (commutativeMap (q_puf B) (xorBytes (fc_w credA) (apqe_digest W [ci]) HASH_BYTES))
      (commutativeMap (q_puf B) ci) ni (apqe_challenge W slot B) (ae_nonce e)"
    and M3: "apqe_hears_direct (ae_recvs e 0) MSG_M3 session (snd (impostor W (fc_w credA) ci ni M2)) ip3 port3"
  shows "\<exists>B' t mB. apqe_responderLoop W K rx e B = Some (True, B') \<and>
    q_wire B' = q_wire B @
      [(ip, port, apqe_datagrams MSG_M2 session M2), (ip, port, apqe_datagrams APQE_MSG_RESULT session (q_result B'))] \<and>
    q_result B' = apqe_encodeResult session t mB (apqe_digest W [fst (impostor W (fc_w credA) ci ni M2)])"
proof -
  let ?ch = "apqe_challenge W slot B" and ?p = "q_puf B" and ?nj = "ae_nonce e"
  let ?M1 = "apqe_M1 W K (fc_publicKey credB) coins (apqe_ei (fc_tid credA) ci ni (fc_tid credB))"
  let ?tkJi = "commutativeMap ?p (xorBytes (fc_w credA) (apqe_digest W [ci]) HASH_BYTES)"
  let ?key = "apqe_key W ?tkJi (commutativeMap ?p (zeros HASH_BYTES)) ni ?nj"
  obtain seed where B: "apqe_sized B" "reconstructKyberSeed W ?p = Inr seed" "indcpa_keypair K seed = (q_publicKey B, q_secretKey B)"
    "buildCredential W slot B = Inr credB" "length (n_deviceId (q_config B)) = ID_BYTES"
    using assms(5) by (auto simp: apqe_party_def)
  note cB = built_credential [OF assms(1,2) B(4,5)]
  have ch: "length ?ch = 32" using assms(2) by simp
  have imp: "impostor W (fc_w credA) ci ni M2 =
      (?key, apqe_M3 W (zeros HASH_BYTES) (commutativeMap ?p (zeros HASH_BYTES)) ?key ?nj)"
    by (rule impostor_computes [OF assms(2,10,11) ch assms(12) refl M2 refl])
  have len: "length ?M1 = APQE_M1_BYTES" "length (q_m1 B) = APQE_M1_BYTES"
    using length_apqe_messages(3) [OF assms(2,3)] B(1) by (simp_all add: apqe_sized_def)
  note loop = responderLoop_heard [OF M1 len, of W K e]
  have "\<exists>c mB result. runStages (apqe_responderStages W K e (apqe_packet MSG_M1 session ?M1 ip port) session)
      (apqe_enter (B\<lparr>q_m1 := ?M1\<rparr>)) = (Some True, c) \<and> s_sessionKey c = ?key \<and> q_result c = result \<and>
    result = apqe_encodeResult session (ae_us e 13) mB (apqe_digest W [?key]) \<and>
    q_wire c = q_wire (B\<lparr>q_m1 := ?M1\<rparr>) @
      [(r_sourceIp (apqe_packet MSG_M1 session ?M1 ip port), r_sourcePort (apqe_packet MSG_M1 session ?M1 ip port), apqe_datagrams MSG_M2 session M2),
      (r_sourceIp (apqe_packet MSG_M1 session ?M1 ip port), r_sourcePort (apqe_packet MSG_M1 session ?M1 ip port),
       apqe_datagrams APQE_MSG_RESULT session result)]"
    by (rule responder_general [OF assms(1-4), where tidJ = "fc_tid credB" and cj = ?ch and cred = credA and m = m and f = f and
          tkI = "zeros HASH_BYTES" and tkJi = ?tkJi and coins = coins and ni = ni and ci = ci and seed = seed and
          ?M3.0 = "snd (impostor W (fc_w credA) ci ni M2)" and ip = ip3 and port = port3])
      (use assms(6-14) M2 M3 B cB ch len in \<open>simp_all add: imp [unfolded M2] apqe_sized_def\<close>)
  then obtain c mB where run: "runStages (apqe_responderStages W K e (apqe_packet MSG_M1 session ?M1 ip port) session)
      (apqe_enter (B\<lparr>q_m1 := ?M1\<rparr>)) = (Some True, c)"
    and c: "q_result c = apqe_encodeResult session (ae_us e 13) mB (apqe_digest W [?key])"
      "q_wire c = q_wire B @ [(ip, port, apqe_datagrams MSG_M2 session M2), (ip, port, apqe_datagrams APQE_MSG_RESULT session (q_result c))]"
    by (auto simp: apqe_packet_def)
  show ?thesis
    using loop runResponder_stages [OF run] c by (intro exI [of _ "apqe_node.truncate c"]) (auto simp: imp)
qed

theorem apqe_impostor_accepted_witness:
  "\<exists>(e :: apqe_env) (rx :: radio) B' w m2 t mB. apqe_responderLoop sample_wolf sample_kyber rx e sample_apqe = Some (True, B') \<and>
    q_result B' = apqe_encodeResult 1 t mB (apqe_digest sample_wolf [fst (impostor sample_wolf w (zeros 32) (zeros 32) m2)])"
proof -
  obtain cred where cred: "credential_arrays cred" "apqe_party sample_wolf sample_kyber 0 cred sample_apqe" by (rule sample_credential)
  have built: "buildCredential sample_wolf 0 sample_apqe = Inr cred" "length (n_deviceId (q_config sample_apqe)) = ID_BYTES"
    using cred(2) by (simp_all add: apqe_party_def)
  note c = built_credential [OF sample_wolf_works sample_wolf_sizes built]
  define M2 where "M2 = apqe_M2 sample_wolf (commutativeMap SoftwarePuf_ctor (xorBytes (fc_w cred) (apqe_digest sample_wolf [zeros 32]) HASH_BYTES))
      (commutativeMap SoftwarePuf_ctor (zeros 32)) (zeros 32) (apqe_challenge sample_wolf 0 sample_apqe) (zeros 32)"
  let ?e = "sample_apqe_env GW_QUERY_TID cred (\<lambda>i. if i = 0 then APQE_M2_BYTES else APQE_RESULT_BYTES)
    (\<lambda>_. apqe_radio MSG_M3 1 (snd (impostor sample_wolf (fc_w cred) (zeros 32) (zeros 32) M2)))"
  let ?M1 = "apqe_M1 sample_wolf sample_kyber (fc_publicKey cred) (\<lambda>_. zeros 32) (apqe_ei (fc_tid cred) (zeros 32) (zeros 32) (fc_tid cred))"
  obtain m f where q: "queryByTid sample_wolf (fc_tid cred) (ae_fabric ?e 0) no_meter (q_fabric sample_apqe) = Some (Some cred, m, f)"
    using sample_duo_served [OF cred(1)] by (auto simp: duo_served_def sample_duo_def sample_apqe_env_def)
  have e: "length (ae_nonce ?e) = 32" "accepting_net (ae_sends ?e 0) 128" "accepting_net (ae_sends ?e 1) 153"
    by (simp_all add: sample_apqe_env_def accepting_socket_net)
  have M2: "M2 = apqe_M2 sample_wolf (commutativeMap (q_puf sample_apqe) (xorBytes (fc_w cred) (apqe_digest sample_wolf [zeros 32]) HASH_BYTES))
      (commutativeMap (q_puf sample_apqe) (zeros 32)) (zeros 32) (apqe_challenge sample_wolf 0 sample_apqe) (ae_nonce ?e)"
    by (simp add: M2_def sample_apqe_env_def)
  have M1: "apqe_hears (rx_start (apqe_radio MSG_M1 1 ?M1)) (rx_polls (apqe_radio MSG_M1 1 ?M1)) 1000 MSG_M1 0 (of_nat APQE_M1_BYTES) 1
      ?M1 0x0a000001 5000"
    by (rule apqe_radio_hears) simp
  have M3: "apqe_hears_direct (ae_recvs ?e 0) MSG_M3 1 (snd (impostor sample_wolf (fc_w cred) (zeros 32) (zeros 32) M2)) 0x0a000001 5000"
    by (simp add: sample_apqe_env_def apqe_radio_hears)
  have id: "fc_identityHash cred = q_peerIdentityHash sample_apqe" using c(1) by simp
  from apqe_impostor_accepted [OF sample_wolf_works sample_wolf_sizes sample_kyber_sizes sample_kyber_correct cred(2) id c(4,3) q
    length_zeros length_zeros e M1 M2 M3] show ?thesis by fast
qed

end
