(* ===== verification/ApqeServiceProperties.thy ===== *)
theory ApqeServiceProperties
  imports ApqeProperties SessionEffects
begin

text \<open>
  Properties of what the baseline protocol stands on: the transport as a refinement of the
  other package's, the answers and the end of a Fabric query, enrolment at boot and the
  RESULT record.
\<close>

section \<open>Transport\<close>

text \<open>C35: The receiver of the baseline package refines the receiver of the proposed protocol. For
  every list of observations it returns what \<open>receiveMessage\<close> returns when each datagram it
  drops is dropped and every other one carries the other magic number; so memory
  safety, termination and exact reassembly hold for it too.\<close>

theorem apqe_receive_refines:
  assumes "unat capacity \<le> MAX_PROTOCOL_MESSAGE_BYTES"
    and "\<forall>p \<in> set polls. length (readBuffer p) = FRAGMENT_HEADER_BYTES + FRAGMENT_PAYLOAD_BYTES"
  shows "apqe_receiveMessage expectedType expectedSession out capacity timeoutMs startMs polls =
    receiveMessage expectedType expectedSession out capacity timeoutMs startMs (map (as_proposed expectedType expectedSession capacity) polls)"
  using assms by (rule receive_refines)

theorem apqe_receive_refines_witness:
  "apqe_receiveMessage 0x12 9 (zeros 3104) 3104 8000 0xfffffff0 sample_polls =
    receiveMessage 0x12 9 (zeros 3104) 3104 8000 0xfffffff0 (map (as_proposed 0x12 9 3104) sample_polls)"
  by (rule apqe_receive_refines [OF _ sample_buffers]) simp

section \<open>Fabric queries\<close>

lemma receiveRecord_Some:
  "receiveRecord res = (Some cred, m', s') \<longleftrightarrow>
    (\<exists>response s. res = (Some response, m', s) \<and> length response = FABRIC_RECORD_BYTES \<and>
      s' = s\<lparr>f_recordScratch := write_at 0 response (f_recordScratch s)\<rparr> \<and> cred = parseCredential (f_recordScratch s'))"
  by (auto simp: receiveRecord_def Let_def split: prod.splits option.splits)

lemma query_sound:
  assumes "wolf_sizes W" and "fabric_sized s" and "\<forall>p \<in> fabric_observed attempts. fabric_buffer p"
    and "map_option receiveRecord (transact W op slot question (length (f_recordScratch s)) attempts m s) = Some (Some cred, m', s')"
  shows "\<exists>p \<in> fabric_observed attempts. fabric_authentic W op (f_nextRequestId s) s p FABRIC_RECORD_BYTES \<and>
      readBuffer p ! 8 = GW_OK \<and> cred = parseCredential (read_at GATEWAY_RESPONSE_HEADER_BYTES FABRIC_RECORD_BYTES (readBuffer p))"
    and "f_nextRequestId s' = f_nextRequestId s + 1"
proof -
  from assms(4) obtain response s1
    where run: "transact W op slot question (length (f_recordScratch s)) attempts m s = Some (Some response, m', s1)"
      and len: "length response = FABRIC_RECORD_BYTES"
      and s': "s' = s1\<lparr>f_recordScratch := write_at 0 response (f_recordScratch s1)\<rparr>" "cred = parseCredential (f_recordScratch s')"
    by (auto simp: receiveRecord_Some)
  note sound = transact_sound [OF assms(1,3) run]
  have scratch: "f_recordScratch s' = response"
    using s'(1) len sound(3) assms(2) by (simp add: write_at_full fabric_sized_def)
  from sound(1) obtain p n where p: "p \<in> fabric_observed attempts" "fabric_authentic W op (f_nextRequestId s) s p n"
    "readBuffer p ! 8 = GW_OK" "response = read_at GATEWAY_RESPONSE_HEADER_BYTES n (readBuffer p)" by blast
  have "n = FABRIC_RECORD_BYTES" using length_fabric_response [OF p(2)] p(1,4) assms(3) len by simp
  with p s'(2) scratch show "\<exists>p \<in> fabric_observed attempts. fabric_authentic W op (f_nextRequestId s) s p FABRIC_RECORD_BYTES \<and>
      readBuffer p ! 8 = GW_OK \<and> cred = parseCredential (read_at GATEWAY_RESPONSE_HEADER_BYTES FABRIC_RECORD_BYTES (readBuffer p))"
    by auto
  show "f_nextRequestId s' = f_nextRequestId s + 1" using sound(2) s'(1) by simp
qed

text \<open>C34: A credential that either query returns (by identity and slot, or by pseudonym) was carried
  by a datagram of the gateway's address that answers an operation of this kind and this request
  number with status 0 and 928 bytes under a valid tag, and the request number is used up; the
  identity and pseudonym in it are not compared with the question.\<close>

theorem fabric_query_authentic:
  assumes "wolf_sizes W" and "fabric_sized s" and "\<forall>p \<in> fabric_observed attempts. fabric_buffer p"
    and "queryByIdentitySlot W identityHash slot attempts m s = Some (Some cred, m', s') \<and> op = GW_QUERY_ID_SLOT \<or>
      queryByTid W tid attempts m s = Some (Some cred, m', s') \<and> op = GW_QUERY_TID"
  shows "f_nextRequestId s' = f_nextRequestId s + 1 \<and>
    (\<exists>p \<in> fabric_observed attempts. fabric_authentic W op (f_nextRequestId s) s p FABRIC_RECORD_BYTES \<and>
      readBuffer p ! 8 = GW_OK \<and> cred = parseCredential (read_at GATEWAY_RESPONSE_HEADER_BYTES FABRIC_RECORD_BYTES (readBuffer p)))"
proof -
  from assms(4) obtain slot' question
    where "map_option receiveRecord (transact W op slot' question (length (f_recordScratch s)) attempts m s) =
      Some (Some cred, m', s')"
    unfolding queryByIdentitySlot_def queryByTid_def by blast
  from query_sound [OF assms(1-3) this] show ?thesis by blast
qed

lemma sample_answer_buffers: "credential_arrays cred \<Longrightarrow> \<forall>p \<in> fabric_observed (sample_answer op cred i). fabric_buffer p"
proof -
  assume "credential_arrays cred"
  then have "length (serializeCredential cred (zeros FABRIC_RECORD_BYTES)) \<le> FABRIC_RECORD_BYTES"
    by (simp add: length_serializeCredential)
  from gateway_replies(2) [OF sample_wolf_works sample_wolf_sizes this refl]
  show ?thesis by (simp add: sample_answer_def gateway_attempt_def fabric_observed_def)
qed

lemma sample_queries:
  obtains cred m f m' f' where "credential_arrays cred"
    and "queryByIdentitySlot sample_wolf (zeros 32) 0 (sample_answer GW_QUERY_ID_SLOT cred 1) no_meter FabricUdpClient_ctor = Some (Some cred, m, f)"
    and "queryByTid sample_wolf (fc_tid cred) (sample_answer GW_QUERY_TID cred 1) no_meter FabricUdpClient_ctor = Some (Some cred, m', f')"
proof -
  obtain cred where cred: "credential_arrays cred" by (rule sample_credential)
  then show ?thesis
    using sample_duo_served [OF cred] that by (auto simp: duo_served_def sample_duo_def sample_apqe_env_def)
qed

theorem fabric_query_authentic_witness:
  "\<exists>cred m f p m' f' p'.
    queryByIdentitySlot sample_wolf (zeros 32) 0 (sample_answer GW_QUERY_ID_SLOT cred 1) no_meter FabricUdpClient_ctor = Some (Some cred, m, f) \<and>
    fabric_authentic sample_wolf GW_QUERY_ID_SLOT 1 FabricUdpClient_ctor p FABRIC_RECORD_BYTES \<and>
    queryByTid sample_wolf (fc_tid cred) (sample_answer GW_QUERY_TID cred 1) no_meter FabricUdpClient_ctor = Some (Some cred, m', f') \<and>
    fabric_authentic sample_wolf GW_QUERY_TID 1 FabricUdpClient_ctor p' FABRIC_RECORD_BYTES"
proof -
  obtain cred m f m' f' where cred: "credential_arrays cred"
    and q: "queryByIdentitySlot sample_wolf (zeros 32) 0 (sample_answer GW_QUERY_ID_SLOT cred 1) no_meter FabricUdpClient_ctor = Some (Some cred, m, f)"
      "queryByTid sample_wolf (fc_tid cred) (sample_answer GW_QUERY_TID cred 1) no_meter FabricUdpClient_ctor = Some (Some cred, m', f')"
    by (rule sample_queries)
  note authentic = fabric_query_authentic [OF sample_wolf_sizes sample_fabric_sized sample_answer_buffers [OF cred]]
  have first: "f_nextRequestId FabricUdpClient_ctor = 1" by (simp add: FabricUdpClient_ctor_def)
  obtain p where p: "fabric_authentic sample_wolf GW_QUERY_ID_SLOT 1 FabricUdpClient_ctor p FABRIC_RECORD_BYTES"
    using authentic [OF disjI1, OF conjI [OF q(1) refl]] unfolding first by blast
  obtain p' where "fabric_authentic sample_wolf GW_QUERY_TID 1 FabricUdpClient_ctor p' FABRIC_RECORD_BYTES"
    using authentic [OF disjI2, OF conjI [OF q(2) refl]] unfolding first by blast
  with q p show ?thesis by blast
qed

text \<open>A query ends: when each of six attempts sees the clock pass its five-second deadline, even
  across a wrap of the clock, the call has returned, and it accounts 76 bytes for each of at
  most six requests.\<close>

theorem fabric_query_returns:
  assumes "6 \<le> length attempts" and "\<forall>a \<in> set attempts. fabric_expires a" and "length tid = TID_BYTES"
  shows "\<exists>r m' s' n. queryByTid W tid attempts m s = Some (r, m', s') \<and> n \<le> GATEWAY_RETRIES \<and>
    fm_appTx m' = fm_appTx m + of_nat (n * GATEWAY_QUERY_REQUEST_BYTES)"
proof -
  from transact_returns [OF assms(1,2), of W GW_QUERY_TID 0 tid "length (f_recordScratch s)" m s] obtain r m' s' n
    where run: "transact W GW_QUERY_TID 0 tid (length (f_recordScratch s)) attempts m s = Some (r, m', s')"
      and n: "n \<le> GATEWAY_RETRIES" "fm_appTx m' = fm_appTx m + of_nat (n * (12 + length tid + 32))" by blast
  have "\<exists>r' s''. receiveRecord (r, m', s') = (r', m', s'')" by (cases r) (simp_all add: receiveRecord_def Let_def)
  then show ?thesis using run n assms(3) by (fastforce simp: queryByTid_def)
qed

definition silent_fabric :: fabric_attempt where
  "silent_fabric =
    \<lparr>fa_send = \<lparr>beginPacketOk = True, written = 76, endPacketOk = True\<rparr>, fa_start = 0xfffffff0,
     fa_polls = [idle_poll 0xfffffff4, idle_poll 5000], fa_us = 0\<rparr>"

theorem fabric_query_returns_witness:
  "\<exists>r m' s' n. queryByTid sample_wolf (zeros 32) (replicate 6 silent_fabric) no_meter FabricUdpClient_ctor = Some (r, m', s') \<and>
    n \<le> GATEWAY_RETRIES \<and> fm_appTx m' = fm_appTx no_meter + of_nat (n * GATEWAY_QUERY_REQUEST_BYTES)"
  by (rule fabric_query_returns) (simp_all add: fabric_expires_def silent_fabric_def idle_poll_def)

text \<open>The answer to a query is not bound to its question. The observations that make \<open>queryByTid\<close>
  return a credential for one pseudonym make it return the same credential for every other
  pseudonym at the same request number; the numbers restart at 1 with every boot, so the
  answers of an earlier boot answer the queries of a later one.\<close>

theorem fabric_answer_unbound:
  assumes "wolf_works W" and "fabric_sized s" and "length tid = TID_BYTES" and "length tid' = TID_BYTES"
    and "queryByTid W tid attempts m s = Some (Some cred, m', s')"
  shows "\<exists>s''. queryByTid W tid' attempts m s = Some (Some cred, m', s'')"
proof -
  let ?run = "fabricAttempts W GW_QUERY_TID (f_nextRequestId s) GATEWAY_QUERY_REQUEST_BYTES (length (f_recordScratch s))
        GATEWAY_RETRIES attempts m (s\<lparr>f_nextRequestId := f_nextRequestId s + 1\<rparr>)"
  have any: "\<exists>t. transact W GW_QUERY_TID 0 q (length (f_recordScratch s)) attempts m s =
      map_option (\<lambda>(r, m', s'). (r, m', s'\<lparr>f_tx := t\<rparr>)) ?run" if "length q = TID_BYTES" for q
    using transact_works [OF assms(1), of q s GW_QUERY_TID 0 "length (f_recordScratch s)" attempts m] assms(2) that
    by (simp add: fabric_sized_def)
  obtain t where t: "transact W GW_QUERY_TID 0 tid (length (f_recordScratch s)) attempts m s =
      map_option (\<lambda>(r, m', s'). (r, m', s'\<lparr>f_tx := t\<rparr>)) ?run" using any [OF assms(3)] by blast
  obtain response s1 where r: "?run = Some (Some response, m', s1)" "length response = FABRIC_RECORD_BYTES"
    "cred = parseCredential (write_at 0 response (f_recordScratch s1))"
    using assms(5) unfolding queryByTid_def t by (cases ?run) (auto simp: receiveRecord_Some)
  obtain t' where t': "transact W GW_QUERY_TID 0 tid' (length (f_recordScratch s)) attempts m s =
      map_option (\<lambda>(r, m', s'). (r, m', s'\<lparr>f_tx := t'\<rparr>)) ?run" using any [OF assms(4)] by blast
  show ?thesis unfolding queryByTid_def t' using r by (simp add: receiveRecord_def)
qed

theorem fabric_answer_unbound_witness:
  "\<exists>cred m' s' s''. queryByTid sample_wolf (fc_tid cred) (sample_answer GW_QUERY_TID cred 1) no_meter FabricUdpClient_ctor = Some (Some cred, m', s') \<and>
    queryByTid sample_wolf (replicate 32 7) (sample_answer GW_QUERY_TID cred 1) no_meter FabricUdpClient_ctor = Some (Some cred, m', s'')"
proof -
  obtain cred m' s' where cred: "credential_arrays cred"
    and q: "queryByTid sample_wolf (fc_tid cred) (sample_answer GW_QUERY_TID cred 1) no_meter FabricUdpClient_ctor = Some (Some cred, m', s')"
    by (rule sample_queries)
  have "length (fc_tid cred) = TID_BYTES" "length (replicate 32 (7 :: u8)) = TID_BYTES" using cred by (simp_all add: credential_arrays_def)
  from fabric_answer_unbound [OF sample_wolf_works sample_fabric_sized this q] q show ?thesis by blast
qed

section \<open>RESULT\<close>

text \<open>\<open>decodeResult\<close> recovers from what \<open>encodeResult\<close> wrote the protocol time, every metric and
  the key hash, and refuses a record of another session; the record has 153 bytes.\<close>

theorem apqe_result_roundtrip:
  assumes "length keyHash = HASH_BYTES"
  shows "apqe_decodeResult (apqe_encodeResult session t m keyHash) session' m0 =
      (if session' = session then Some (t, m\<lparr>sm_protocolUs := t, sm_confirmedUs := sm_confirmedUs m0\<rparr>, keyHash) else None) \<and>
    length (apqe_encodeResult session t m keyHash) = APQE_RESULT_BYTES"
  using apqe_decode_encode [OF assms] apqe_decode_other [OF assms] length_apqe_encodeResult [OF assms] by simp

theorem apqe_result_roundtrip_witness:
  "apqe_decodeResult (apqe_encodeResult 4 99 SessionMetrics_init (zeros 32)) 4 SessionMetrics_init =
      (if (4 :: u32) = 4 then Some (99, SessionMetrics_init\<lparr>sm_protocolUs := 99, sm_confirmedUs := sm_confirmedUs SessionMetrics_init\<rparr>, zeros 32)
       else None) \<and>
    length (apqe_encodeResult 4 99 SessionMetrics_init (zeros 32)) = APQE_RESULT_BYTES"
  by (rule apqe_result_roundtrip) simp

section \<open>Enrolment\<close>

lemma putCredential_sound:
  assumes "wolf_sizes W" and "\<forall>p \<in> fabric_observed net. fabric_buffer p" and "putCredential W slot cred us0 net f = Some (True, us, f')"
  shows "\<exists>p \<in> fabric_observed net. fabric_authentic W GW_PUT_CREDENTIAL (f_nextRequestId f) f p 0 \<and> readBuffer p ! 8 = GW_OK"
    and "f_gatewayIp f' = f_gatewayIp f" and "f_gatewayPort f' = f_gatewayPort f"
proof -
  let ?f = "f\<lparr>f_recordScratch := serializeCredential cred (f_recordScratch f)\<rparr>"
  obtain r m' where run: "transact W GW_PUT_CREDENTIAL slot (f_recordScratch ?f) 0 net (fabric_meter_init us0) ?f = Some (Some r, m', f')"
    using assms(3) by (auto simp: putCredential_def Let_def)
  note sound = transact_sound [OF assms(1,2) run]
  from sound(1) show "\<exists>p \<in> fabric_observed net. fabric_authentic W GW_PUT_CREDENTIAL (f_nextRequestId f) f p 0 \<and> readBuffer p ! 8 = GW_OK"
    by auto
  from sound(4,5) show "f_gatewayIp f' = f_gatewayIp f" "f_gatewayPort f' = f_gatewayPort f" by simp_all
qed

lemma buildCredential_fabric [simp]: "buildCredential W slot (n\<lparr>q_fabric := f\<rparr>) = buildCredential W slot n"
  by (simp add: buildCredential_def deriveChallenge_def)

text \<open>The credential of \<open>slot\<close> was put and the gateway at the node's address acknowledged it.\<close>

definition enrolled :: "wolf \<Rightarrow> apqe_node \<Rightarrow> u16 \<Rightarrow> fabric_attempt list \<Rightarrow> bool" where
  "enrolled W n slot net \<longleftrightarrow>
    (\<exists>cred f us f'. buildCredential W slot n = Inr cred \<and> putCredential W slot cred 0 net f = Some (True, us, f') \<and>
      (\<exists>p \<in> fabric_observed net. fabric_authentic W GW_PUT_CREDENTIAL (f_nextRequestId f) (q_fabric n) p 0 \<and> readBuffer p ! 8 = GW_OK))"

definition same_address :: "FabricState \<Rightarrow> FabricState \<Rightarrow> bool" where
  "same_address f f' \<longleftrightarrow> f_gatewayIp f' = f_gatewayIp f \<and> f_gatewayPort f' = f_gatewayPort f"

lemma fabric_authentic_address: "same_address f f' \<Longrightarrow> fabric_authentic W op i f' p k = fabric_authentic W op i f p k"
  by (simp add: fabric_authentic_def same_address_def)

lemma enrolled_address:
  assumes "same_address (q_fabric n) f"
  shows "enrolled W (n\<lparr>q_fabric := f\<rparr>) slot net = enrolled W n slot net"
  by (simp add: enrolled_def fabric_authentic_address [OF assms])

lemma enrollSlots_sound:
  assumes "wolf_sizes W" and "\<forall>net \<in> set nets. \<forall>p \<in> fabric_observed net. fabric_buffer p"
    and "enrollSlots W slot nets n = (Some True, n')"
  shows "\<exists>k f. n' = n\<lparr>q_fabric := f\<rparr> \<and> same_address (q_fabric n) f \<and>
    \<not> ucast (slot + of_nat k) < n_numberOfSessions (q_config n) \<and> (\<forall>i<k. enrolled W n (slot + of_nat i) (nets ! i))"
  using assms(2,3)
proof (induction nets arbitrary: slot n)
  case Nil
  then show ?case
    by (intro exI [of _ 0] exI [of _ "q_fabric n"]) (auto simp: same_address_def split: if_splits sum.splits)
next
  case (Cons net nets)
  show ?case
  proof (cases "ucast slot < n_numberOfSessions (q_config n)")
    case False
    then show ?thesis using Cons.prems(2)
      by (intro exI [of _ 0] exI [of _ "q_fabric n"]) (auto simp: same_address_def)
  next
    case True
    obtain cred us f where cred: "buildCredential W slot n = Inr cred"
      and put: "putCredential W slot cred 0 net (q_fabric n) = Some (True, us, f)"
      and later: "enrollSlots W (slot + 1) nets (n\<lparr>q_fabric := f\<rparr>) = (Some True, n')"
      using True Cons.prems(2) by (auto simp: Let_def split: sum.splits option.splits if_splits)
    have "\<forall>p \<in> fabric_observed net. fabric_buffer p" using Cons.prems(1) by simp
    note sound = putCredential_sound [OF assms(1) this put]
    have addr: "same_address (q_fabric n) f" using sound(2,3) by (simp add: same_address_def)
    have first: "enrolled W n slot net" using cred put sound(1) by (auto simp: enrolled_def)
    from Cons.IH [OF _ later] Cons.prems(1) obtain k f' where k: "n' = n\<lparr>q_fabric := f'\<rparr>" "same_address f f'"
      "\<not> ucast (slot + 1 + of_nat k) < n_numberOfSessions (q_config n)"
      "\<forall>i<k. enrolled W (n\<lparr>q_fabric := f\<rparr>) (slot + 1 + of_nat i) (nets ! i)" by auto
    have "enrolled W n (slot + of_nat i) ((net # nets) ! i)" if "i < Suc k" for i
      using that first k(4) enrolled_address [OF addr] by (cases i) (simp_all add: add.assoc)
    moreover have "same_address (q_fabric n) f'" using addr k(2) by (simp add: same_address_def)
    ultimately show ?thesis using k(1,3) by (intro exI [of _ "Suc k"] exI [of _ f']) (simp add: add.assoc)
  qed
qed

lemma deriveKeys_facts:
  "deriveKeys W K n = (Some True, n') \<Longrightarrow>
   n' = n\<lparr>q_publicKey := q_publicKey n', q_secretKey := q_secretKey n'\<rparr> \<and>
   (\<exists>seed. reconstructKyberSeed W (q_puf n) = Inr seed \<and> indcpa_keypair K seed = (q_publicKey n', q_secretKey n'))"
  by (auto simp: deriveKeys_def keypairDeterministic_def split: sum.splits prod.splits)

text \<open>What the boot stages before the enrolment leave alone.\<close>

lemma boot_spares:
  "spares (\<lambda>n. (q_config n, q_m1 n, q_m2 n, q_m3 n, q_result n)) (startPuf W)"
  "spares (\<lambda>n. (q_config n, q_m1 n, q_m2 n, q_m3 n, q_result n)) (hashIdentities W)"
  "spares (\<lambda>n. (q_config n, q_m1 n, q_m2 n, q_m3 n, q_result n)) (apqe_connectWifi b)"
  "spares (\<lambda>n. (q_config n, q_m1 n, q_m2 n, q_m3 n, q_result n)) (startFabric b)"
  "spares (\<lambda>n. (q_config n, q_m1 n, q_m2 n, q_m3 n, q_result n)) (startDirect b)"
  "spares (\<lambda>n. (q_config n, q_m1 n, q_m2 n, q_m3 n, q_result n)) (pingFabric W b)"
  by (simp_all add: spares_def startPuf_def hashIdentities_def apqe_connectWifi_def startFabric_def startDirect_def guard_def
      pingFabric_def Let_def split: prod.split sum.split option.split)

lemma spares_ran: "spares view f \<Longrightarrow> f c = (r, c') \<Longrightarrow> view c' = view c"
  by (metis spares_def snd_conv)

text \<open>C33: When \<open>begin\<close> returns true the device is enrolled for every configured session: it has the
  keys of the seed its PUF reconstructs, for each slot it put the credential it can build
  and use later, and the gateway acknowledged each put. There are then fewer than 65536
  slots: with more the 16-bit loop counter never reaches the bound and \<open>begin\<close> never returns true.\<close>

theorem apqe_begin_enrolls:
  assumes "wolf_sizes W" and "\<forall>net \<in> set (ab_puts b). \<forall>p \<in> fabric_observed net. fabric_buffer p"
    and "apqe_sized n" and "length (n_deviceId (q_config n)) = ID_BYTES"
    and "apqe_begin W K b n = (Some True, n')"
  shows "q_initialized n' \<and> q_config n' = q_config n \<and> unat (n_numberOfSessions (q_config n)) < 2 ^ 16 \<and>
    (\<forall>i < unat (n_numberOfSessions (q_config n)). (\<exists>cred. apqe_party W K (of_nat i) cred n') \<and> enrolled W n' (of_nat i) (ab_puts b ! i))"
proof -
  from assms(5) obtain n1 n2 n3 where
    pre: "runStages [startPuf W, hashIdentities W, apqe_connectWifi b, startFabric b, startDirect b, pingFabric W b] n = (Some True, n1)"
    and keys: "deriveKeys W K n1 = (Some True, n2)" and slots: "enrollSlots W 0 (ab_puts b) n2 = (Some True, n3)"
    and n': "n' = n3\<lparr>q_initialized := True\<rparr>"
    by (auto simp: apqe_begin_def enrollCredentials_def andThen_True)
  let ?N = "n_numberOfSessions (q_config n)" and ?view = "\<lambda>n. (q_config n, q_m1 n, q_m2 n, q_m3 n, q_result n)"
  have view1: "?view n1 = ?view n"
    using pre boot_spares [THEN spares_ran] by (simp only: runStages.simps andThen_True) metis
  note keys' = deriveKeys_facts [OF keys]
  from enrollSlots_sound [OF assms(1,2) slots] obtain k f where k: "n3 = n2\<lparr>q_fabric := f\<rparr>" "same_address (q_fabric n2) f"
    "\<not> ucast (of_nat k :: u16) < n_numberOfSessions (q_config n2)" "\<forall>i<k. enrolled W n2 (of_nat i) (ab_puts b ! i)"
    by auto
  obtain pk sk where n2: "n2 = n1\<lparr>q_publicKey := pk, q_secretKey := sk\<rparr>" using keys' by blast
  have cfg: "q_config n2 = q_config n" "?view n2 = ?view n" using view1 by (simp_all add: n2)
  have up: "unat (ucast x :: u32) = unat x" for x :: u16 by transfer (simp add: take_bit_take_bit min_def)
  have N: "unat ?N \<le> unat (of_nat k :: u16)" using k(3) cfg(1) by (simp add: not_less word_le_nat_alt up)
  then have bound: "unat ?N < 2 ^ 16" using unsigned_less [of "of_nat k :: u16", where ?'a = nat] by simp
  have upto: "unat ?N \<le> k" using N by (simp add: unat_of_nat take_bit_eq_mod)
  have same: "enrolled W n' slot net = enrolled W n2 slot net" for slot net
  proof -
    have "buildCredential W slot n' = buildCredential W slot n2"
      by (simp add: n' k(1) buildCredential_def deriveChallenge_def)
    then show ?thesis using fabric_authentic_address [OF k(2)] by (simp add: enrolled_def n' k(1))
  qed
  have party: "\<exists>cred. apqe_party W K slot cred n'" if "enrolled W n2 slot net" for slot net
  proof -
    from that obtain cred where "buildCredential W slot n2 = Inr cred" by (auto simp: enrolled_def)
    then have "buildCredential W slot n' = Inr cred" by (simp add: n' k(1) buildCredential_def deriveChallenge_def)
    moreover have "apqe_sized n'" using assms(3) cfg(2) by (simp add: n' k(1) apqe_sized_def)
    ultimately show ?thesis using keys' cfg(1) assms(4) by (auto simp: apqe_party_def n' k(1) n2)
  qed
  have "(\<exists>cred. apqe_party W K (of_nat i) cred n') \<and> enrolled W n' (of_nat i) (ab_puts b ! i)" if "i < unat ?N" for i
  proof -
    have "enrolled W n2 (of_nat i) (ab_puts b ! i)" using that upto k(4) by simp
    then show ?thesis using party same by blast
  qed
  then show ?thesis using bound cfg(1) by (simp add: n' k(1))
qed

text \<open>A boot whose ping and single put are answered.\<close>

definition boot_attempt :: "u8 \<Rightarrow> u32 \<Rightarrow> nat \<Rightarrow> fabric_attempt" where
  "boot_attempt op requestId len =
    \<lparr>fa_send = \<lparr>beginPacketOk = True, written = len, endPacketOk = True\<rparr>, fa_start = 0,
     fa_polls = [gateway_poll 0 GATEWAY_ORG1_PORT (gateway_reply sample_wolf op requestId GW_OK [])], fa_us = 0\<rparr>"

definition sample_boot :: apqe_boot where
  "sample_boot =
    \<lparr>ab_wifiStart = 0, ab_wifiPolls = [(True, 0)], ab_wifiConnected = True, ab_fabricUdp = 1, ab_directUdp = 1,
     ab_ping = [boot_attempt GW_PING 1 44], ab_puts = [[boot_attempt GW_PUT_CREDENTIAL 2 GATEWAY_MAX_REQUEST_BYTES]]\<rparr>"

lemma boot_transact:
  assumes "fabric_sized s" and "f_gatewayIp s = 0" and "f_gatewayPort s = GATEWAY_ORG1_PORT" and "f_nextRequestId s = i"
    and "length payload \<le> FABRIC_RECORD_BYTES" and "len = GATEWAY_REQUEST_HEADER_BYTES + length payload + GATEWAY_TAG_BYTES"
  shows "\<exists>m' s'. transact sample_wolf op slot payload 0 [boot_attempt op i len] m s = Some (Some [], m', s') \<and>
    fabric_sized s' \<and> f_gatewayIp s' = 0 \<and> f_gatewayPort s' = GATEWAY_ORG1_PORT \<and> f_nextRequestId s' = i + 1"
proof -
  let ?p = "gateway_poll (f_gatewayIp s) (f_gatewayPort s) (gateway_reply sample_wolf op (f_nextRequestId s) GW_OK [])"
  have "length ([] :: bytes) \<le> FABRIC_RECORD_BYTES" by simp
  note reply = gateway_replies [OF sample_wolf_works sample_wolf_sizes this refl, where s = s and op = op and requestId = "f_nextRequestId s" and status = GW_OK]
  have "\<exists>m' s'. transact sample_wolf op slot payload 0 [boot_attempt op i len] m s =
      Some (Some (read_at GATEWAY_RESPONSE_HEADER_BYTES (length ([] :: bytes)) (readBuffer ?p)), m', s') \<and>
    f_gatewayIp s' = f_gatewayIp s \<and> f_gatewayPort s' = f_gatewayPort s \<and> f_nextRequestId s' = f_nextRequestId s + 1 \<and>
    f_recordScratch s' = f_recordScratch s \<and> length (f_tx s') = length (f_tx s)"
    by (rule transact_answer [OF sample_wolf_works sample_wolf_sizes _ _ _ _ _ reply(1-3)])
      (use assms in \<open>simp_all add: fabric_sized_def fabric_sent_def boot_attempt_def gateway_poll_def\<close>)
  then show ?thesis using assms(1-4) unfolding reply(4) by (auto simp: fabric_sized_def)
qed

lemma sample_boot_runs: "\<exists>n'. apqe_begin sample_wolf sample_kyber sample_boot (ApqeProtocol_ctor sample_apqe_config) = (Some True, n')"
proof -
  let ?n = "ApqeProtocol_ctor sample_apqe_config" and ?d = "\<lambda>label. apqe_digest sample_wolf [label, zeros 32]"
  let ?h = "apqe_digest sample_wolf [zeros 32]"
  let ?n1 = "?n\<lparr>q_puf := \<lparr>m_rawSram = zeros 32, m_helper = zeros 32, m_commutativeMask = ?d comm_label, m_reversibleSecret = ?d rev_label\<rparr>,
    q_identityHash := ?h, q_peerIdentityHash := ?h, q_fabric := FabricUdpClient_ctor\<lparr>f_gatewayIp := 0, f_gatewayPort := GATEWAY_ORG1_PORT\<rparr>\<rparr>"
  have pre: "runStages [startPuf sample_wolf, hashIdentities sample_wolf, apqe_connectWifi sample_boot, startFabric sample_boot,
      startDirect sample_boot] ?n = (Some True, ?n1)"
    by (simp add: andThen_def startPuf_def SoftwarePuf_begin_def ApqeProtocol_ctor_def sample_apqe_config_def SoftwarePuf_ctor_def
        sha256Parts_digest sample_wolf_works comm_label_def rev_label_def hashIdentities_def apqe_sha256_def apqe_connectWifi_def
        sample_boot_def startFabric_def FabricUdpClient_begin_def startDirect_def guard_def Let_def)
  have "fabric_sized (q_fabric ?n1)" using sample_fabric_sized by (simp add: fabric_sized_def)
  from boot_transact [OF this, of 1 "[]" 44 GW_PING 0 "fabric_meter_init 0"] obtain m f where
    ping: "transact sample_wolf GW_PING 0 [] 0 (ab_ping sample_boot) (fabric_meter_init 0) (q_fabric ?n1) = Some (Some [], m, f)"
    and f: "fabric_sized f" "f_gatewayIp f = 0" "f_gatewayPort f = GATEWAY_ORG1_PORT" "f_nextRequestId f = 2"
    by (auto simp: sample_boot_def FabricUdpClient_ctor_def)
  have seed: "reconstructKyberSeed sample_wolf (q_puf ?n1) = Inr (apqe_digest sample_wolf [fe_label, zeros 32, zeros 32])"
    by (simp add: reconstructKyberSeed_def sha256Parts_digest sample_wolf_works fe_label_def)
  obtain pk sk where keys: "indcpa_keypair sample_kyber (apqe_digest sample_wolf [fe_label, zeros 32, zeros 32]) = (pk, sk)"
    "length pk = 800" "length sk = 768"
    using sample_kyber_sizes unfolding kyber_sizes_def by (metis prod.collapse)
  let ?n2 = "?n1\<lparr>q_fabric := f, q_publicKey := pk, q_secretKey := sk\<rparr>"
  have "\<exists>cred. buildCredential sample_wolf 0 ?n2 = Inr cred \<and> credential_arrays cred"
    by (rule buildCredential_succeeds [OF sample_wolf_works sample_wolf_sizes])
      (simp_all add: ApqeProtocol_ctor_def sample_apqe_config_def keys sample_wolf_sizes)
  then obtain cred where cred: "buildCredential sample_wolf 0 ?n2 = Inr cred" "credential_arrays cred" by blast
  let ?f = "f\<lparr>f_recordScratch := serializeCredential cred (f_recordScratch f)\<rparr>"
  have rec: "length (f_recordScratch ?f) = FABRIC_RECORD_BYTES" using cred(2) f(1) by (simp add: fabric_sized_def length_serializeCredential)
  have "fabric_sized ?f" using f(1) rec by (simp add: fabric_sized_def)
  from boot_transact [OF this, of 2 "f_recordScratch ?f" GATEWAY_MAX_REQUEST_BYTES GW_PUT_CREDENTIAL 0 "fabric_meter_init 0"] obtain m' f'
    where "transact sample_wolf GW_PUT_CREDENTIAL 0 (f_recordScratch ?f) 0 [boot_attempt GW_PUT_CREDENTIAL 2 GATEWAY_MAX_REQUEST_BYTES]
      (fabric_meter_init 0) ?f = Some (Some [], m', f')" using f rec by auto
  then have put: "putCredential sample_wolf 0 cred 0 [boot_attempt GW_PUT_CREDENTIAL 2 GATEWAY_MAX_REQUEST_BYTES] f = Some (True, fm_fabricUs m', f')"
    by (simp add: putCredential_def Let_def)
  have N: "n_numberOfSessions (q_config ?n2) = 1" by (simp add: ApqeProtocol_ctor_def sample_apqe_config_def)
  have "enrollSlots sample_wolf 0 (ab_puts sample_boot) ?n2 = (Some True, ?n2\<lparr>q_fabric := f'\<rparr>)"
    using cred(1) put N by (simp add: sample_boot_def)
  moreover have "deriveKeys sample_wolf sample_kyber (?n1\<lparr>q_fabric := f\<rparr>) = (Some True, ?n2)"
    using seed keys(1) by (simp add: deriveKeys_def keypairDeterministic_def)
  moreover have "pingFabric sample_wolf sample_boot ?n1 = (Some True, ?n1\<lparr>q_fabric := f\<rparr>)"
    using ping by (simp add: pingFabric_def fabric_ping_def)
  ultimately have "enrollCredentials sample_wolf sample_kyber sample_boot (?n1\<lparr>q_fabric := f\<rparr>) = (Some True, ?n2\<lparr>q_fabric := f'\<rparr>)"
    "pingFabric sample_wolf sample_boot ?n1 = (Some True, ?n1\<lparr>q_fabric := f\<rparr>)"
    by (simp_all add: enrollCredentials_def andThen_def)
  moreover have "apqe_begin sample_wolf sample_kyber sample_boot ?n = runStages [pingFabric sample_wolf sample_boot,
      enrollCredentials sample_wolf sample_kyber sample_boot, \<lambda>n. (Some True, n\<lparr>q_initialized := True\<rparr>)] ?n1"
    unfolding apqe_begin_def runStages_after [OF pre, symmetric] by simp
  ultimately show ?thesis by (simp add: andThen_def)
qed

theorem apqe_begin_enrolls_witness:
  "\<exists>n' cred. apqe_begin sample_wolf sample_kyber sample_boot (ApqeProtocol_ctor sample_apqe_config) = (Some True, n') \<and>
    apqe_party sample_wolf sample_kyber 0 cred n' \<and> enrolled sample_wolf n' 0 (ab_puts sample_boot ! 0)"
proof -
  let ?n = "ApqeProtocol_ctor sample_apqe_config"
  obtain n' where run: "apqe_begin sample_wolf sample_kyber sample_boot ?n = (Some True, n')" using sample_boot_runs by blast
  have "length ([] :: bytes) \<le> FABRIC_RECORD_BYTES" by simp
  then have "fabric_buffer (gateway_poll ip port (gateway_reply sample_wolf op i GW_OK []))" for ip port op i
    using gateway_replies(2) [OF sample_wolf_works sample_wolf_sizes, where s = "FabricUdpClient_ctor\<lparr>f_gatewayIp := ip, f_gatewayPort := port\<rparr>"]
    by simp
  then have bufs: "\<forall>net \<in> set (ab_puts sample_boot). \<forall>p \<in> fabric_observed net. fabric_buffer p"
    by (simp add: sample_boot_def boot_attempt_def fabric_observed_def)
  have n: "apqe_sized ?n" "length (n_deviceId (q_config ?n)) = ID_BYTES" "unat (n_numberOfSessions (q_config ?n)) = 1"
    by (simp_all add: apqe_sized_def ApqeProtocol_ctor_def sample_apqe_config_def)
  from apqe_begin_enrolls [OF sample_wolf_sizes bufs n(1,2) run] n(3) run show ?thesis by auto
qed

end
