(* ===== verification/ApqeAcceptance.thy ===== *)
theory ApqeAcceptance
  imports ApqeServiceProperties
begin

text \<open>
  What a handler of the baseline protocol has checked when it returns true, whatever the
  network and the gateway delivered: the inversion of a successful run, phase by phase.
\<close>

section \<open>Successful stages\<close>

lemma timedShaParts_True [result_simps]:
  "timedShaParts W us parts k c = (Some True, c') \<longleftrightarrow>
    (\<exists>d. sha256Parts W parts = Inr d \<and> k d (addShaUs us c) = (Some True, c'))"
  by (simp add: timedShaParts_def Let_def split: sum.split)

lemma timedVerify_True [result_simps]:
  "timedVerify W us cred c = (Some True, c') \<longleftrightarrow> verifyCredential W cred \<and> c' = addShaUs us c"
  by (auto simp: timedVerify_def)

lemma timedPufInverse_True [result_simps]:
  "timedPufInverse W us tid k c = (Some True, c') \<longleftrightarrow>
    (\<exists>x. reversibleInverse W (q_puf c) (q_secretKey c) tid = Inr x \<and> c' = k x (addPufUs us c))"
  by (auto simp: timedPufInverse_def addPufUs_def Let_def split: sum.splits)

lemma storeQuery_True [result_simps]:
  "storeQuery put res c = (Some True, c') \<longleftrightarrow>
    (\<exists>cred f s. res = Some (Some cred, f, s) \<and> c' = put cred (c\<lparr>q_fabric := s, s_m := meter_to f (s_m c)\<rparr>))"
  by (auto simp: storeQuery_def Let_def split: option.splits)

lemma timedReconstruct_True:
  "timedReconstruct W e c = (Some True, c') \<Longrightarrow>
   \<exists>seed m. reconstructKyberSeed W (q_puf c) = Inr seed \<and> c' = c\<lparr>s_seed := seed, s_m := m\<rparr>"
  by (intro exI [of _ "s_seed c'"] exI [of _ "s_m c'"]) (auto simp: timedReconstruct_def Let_def split: sum.splits)

lemma timedKeygen_True:
  "timedKeygen K e c = (Some True, c') \<Longrightarrow>
   \<exists>pk sk m. indcpa_keypair K (s_seed c) = (pk, sk) \<and> c' = c\<lparr>q_publicKey := pk, q_secretKey := sk, s_m := m\<rparr>"
  by (intro exI [of _ "q_publicKey c'"] exI [of _ "q_secretKey c'"] exI [of _ "s_m c'"])
    (auto simp: timedKeygen_def keypairDeterministic_def split: prod.splits)

lemma apqe_send_True:
  "apqe_send net ip port type session data len cnt c = (Some True, c') \<Longrightarrow> \<exists>w m. c' = c\<lparr>q_wire := w, s_m := m\<rparr>"
  by (intro exI [of _ "q_wire c'"] exI [of _ "s_m c'"]) (auto simp: apqe_send_def Let_def split: prod.splits if_splits)

lemma apqe_receive_True:
  "apqe_receive rx type session data len cnt c = (Some True, data', c') \<Longrightarrow>
   \<exists>p m. c' = c\<lparr>s_received := p, s_m := m\<rparr>"
  by (intro exI [of _ "s_received c'"] exI [of _ "s_m c'"])
    (auto simp: apqe_receive_def Let_def split: prod.splits option.splits if_splits)

lemma sha: "sha256Parts W parts = Inr d \<Longrightarrow> d = apqe_digest W parts"
  by (drule sha256Parts_Inr) (simp add: apqe_digest_def)

section \<open>The responder\<close>

lemma opens_True:
  assumes "kyber_sizes K" and "length (s_ei c) = EI_BYTES"
    and "runStages [countM1 incoming, timedReconstruct W e, timedKeygen K e, decryptBlocks K e [0..<EI_BLOCKS], checkH1 W e] c = (Some True, c')"
  shows "\<exists>seed pk sk ei m. reconstructKyberSeed W (q_puf c) = Inr seed \<and> indcpa_keypair K seed = (pk, sk) \<and>
    ei = concat (map (\<lambda>i. indcpa_dec K (read_at (i * KYBER_CIPHERTEXT_BYTES) KYBER_CIPHERTEXT_BYTES (q_m1 c)) sk) [0..<EI_BLOCKS]) \<and>
    c' = c\<lparr>s_seed := seed, q_publicKey := pk, q_secretKey := sk, s_ei := ei,
      s_ci := read_at 32 CHALLENGE_BYTES ei, s_ni := read_at 64 APQE_NONCE_BYTES ei, s_m := m\<rparr> \<and>
    constantTimeEqual (apqe_digest W [ei]) (drop (EI_BLOCKS * KYBER_CIPHERTEXT_BYTES) (q_m1 c)) HASH_BYTES"
proof -
  let ?m = "\<lambda>i sk. indcpa_dec K (read_at (i * KYBER_CIPHERTEXT_BYTES) KYBER_CIPHERTEXT_BYTES (q_m1 c)) sk"
  have dl: "length (indcpa_dec K ct sk) = 32" for ct sk using assms(1) by (simp add: kyber_sizes_def)
  have fold: "write_at 96 (?m 3 sk) (write_at 64 (?m 2 sk) (write_at 32 (?m 1 sk) (write_at 0 (?m 0 sk) (s_ei c)))) =
      concat (map (\<lambda>i. ?m i sk) [0..<4])" for sk
    using dl assms(2) by (simp add: fill upt4 del: drop_append)
  from assms(3) obtain c1 c2 c3 where c1: "timedReconstruct W e (snd (countM1 incoming c)) = (Some True, c1)"
    and c2: "timedKeygen K e c1 = (Some True, c2)"
    and c3: "decryptBlocks K e [0..<4] c2 = (Some True, c3)" and c': "checkH1 W e c3 = (Some True, c')"
    by (auto simp: andThen_True countM1_def)
  obtain seed m1 where seed: "reconstructKyberSeed W (q_puf c) = Inr seed" "c1 = c\<lparr>s_seed := seed, s_m := m1\<rparr>"
    using timedReconstruct_True [OF c1] by (auto simp: countM1_def)
  obtain pk sk m2 where keys: "indcpa_keypair K seed = (pk, sk)" "c2 = c\<lparr>s_seed := seed, q_publicKey := pk, q_secretKey := sk, s_m := m2\<rparr>"
    using timedKeygen_True [OF c2] seed(2) by auto
  let ?ei = "concat (map (\<lambda>i. ?m i sk) [0..<4])"
  obtain m3 where c3': "c3 = c\<lparr>s_seed := seed, q_publicKey := pk, q_secretKey := sk, s_ei := ?ei, s_m := m3\<rparr>"
    using c3 fold [of sk] unfolding upt4 keys(2) by (simp add: kyber_decrypt_def Let_def) blast
  have "c' = c\<lparr>s_seed := seed, q_publicKey := pk, q_secretKey := sk, s_ei := ?ei,
      s_ci := read_at 32 CHALLENGE_BYTES ?ei, s_ni := read_at 64 APQE_NONCE_BYTES ?ei, s_m := s_m c'\<rparr> \<and>
    constantTimeEqual (apqe_digest W [?ei]) (drop (EI_BLOCKS * KYBER_CIPHERTEXT_BYTES) (q_m1 c)) HASH_BYTES"
    using c' unfolding c3' checkH1_def
    by (auto simp: timedShaParts_True guard_True addShaUs_def dest!: sha)
  then show ?thesis using seed(1) keys(1) by blast
qed

lemma M2_True:
  assumes "wolf_sizes W" and "length (q_m2 c) = APQE_M2_BYTES"
    and "runStages [queryTid W e, checkPeerIdentity, \<lambda>c. timedVerify W (ae_us e 2) (q_peer c) c,
     invertTidJ W e, recoverRi W e, composeM2 e, sealM2 W e, apqe_sendM2 e incoming session] c = (Some True, c')"
  shows "\<exists>peer m1 f1 f cj rj tkJi m w.
    queryByTid W (read_at 0 TID_BYTES (s_ei c)) (ae_fabric e 0) m1 (q_fabric c) = Some (Some peer, f1, f) \<and>
    constantTimeEqual (fc_identityHash peer) (q_peerIdentityHash c) ID_BYTES \<and> verifyCredential W peer \<and>
    reversibleInverse W (q_puf c) (q_secretKey c) (read_at 96 TID_BYTES (s_ei c)) = Inr cj \<and>
    rj = xorBytes (fc_w peer) (apqe_digest W [s_ci c]) HASH_BYTES \<and> tkJi = commutativeMap (q_puf c) rj \<and>
    c' = c\<lparr>q_peer := peer, q_fabric := f, s_cj := cj, s_rj := rj, s_tkJi := tkJi, s_tkJ := commutativeMap (q_puf c) (s_ci c),
      s_nj := ae_nonce e, q_m2 := apqe_M2 W tkJi (commutativeMap (q_puf c) (s_ci c)) (s_ni c) cj (ae_nonce e), q_wire := w, s_m := m\<rparr>"
proof -
  from assms(3) obtain c1 c2 c3 c4 c5 c6 where c1: "queryTid W e c = (Some True, c1)" and chk: "checkPeerIdentity c1 = (Some True, c1)"
    and c2: "timedVerify W (ae_us e 2) (q_peer c1) c1 = (Some True, c2)" and c3: "invertTidJ W e c2 = (Some True, c3)"
    and c4: "recoverRi W e c3 = (Some True, c4)" and c5: "composeM2 e c4 = (Some True, c5)" and c6: "sealM2 W e c5 = (Some True, c6)"
    and c': "apqe_sendM2 e incoming session c6 = (Some True, c')"
    by (auto simp: andThen_True checkPeerIdentity_def guard_True)
  obtain peer f1 f where q: "queryByTid W (read_at 0 TID_BYTES (s_ei c)) (ae_fabric e 0) (meter_of (s_m c)) (q_fabric c) = Some (Some peer, f1, f)"
    "c1 = c\<lparr>q_fabric := f, s_m := meter_to f1 (s_m c), q_peer := peer\<rparr>"
    using c1 by (auto simp: queryTid_def storeQuery_True)
  have ok: "constantTimeEqual (fc_identityHash peer) (q_peerIdentityHash c) ID_BYTES"
    using chk by (simp add: checkPeerIdentity_def guard_True q(2))
  have c2': "verifyCredential W peer" "c2 = addShaUs (ae_us e 2) c1" using c2 by (simp_all add: timedVerify_True q(2))
  obtain cj where c3': "reversibleInverse W (q_puf c) (q_secretKey c) (read_at 96 TID_BYTES (s_ei c)) = Inr cj"
    "c3 = (addPufUs (ae_us e 4) c2)\<lparr>s_cj := cj\<rparr>"
    using c3 by (auto simp: invertTidJ_def timedPufInverse_True c2'(2) q(2) addShaUs_def)
  let ?rj = "xorBytes (fc_w peer) (apqe_digest W [s_ci c]) HASH_BYTES"
  let ?tkJi = "commutativeMap (q_puf c) ?rj" and ?tkJ = "commutativeMap (q_puf c) (s_ci c)"
  have c4': "c4 = (addShaUs (ae_us e 8) c3)\<lparr>s_rj := ?rj\<rparr>"
    using c4 by (auto simp: recoverRi_def timedShaParts_True c3'(2) c2'(2) q(2) addShaUs_def addPufUs_def dest!: sha)
  have c5': "c5 = addPufUs (ae_us e 6 + ae_us e 9) (c4\<lparr>s_tkJi := ?tkJi, s_tkJ := ?tkJ, s_nj := ae_nonce e,
      q_m2 := write_at 32 (maskPair ?tkJi cj (ae_nonce e)) (write_at 0 (xorBytes ?tkJ (s_ni c) HASH_BYTES) (q_m2 c))\<rparr>)"
    using c5 by (simp add: composeM2_def c4' c3'(2) c2'(2) q(2) addPufUs_def addShaUs_def Let_def)
  have c6': "c6 = (addShaUs (ae_us e 7) c5)\<lparr>q_m2 := write_at 96 (apqe_digest W [?tkJi, ?tkJ, cj, ae_nonce e]) (q_m2 c5)\<rparr>"
    using c6 by (auto simp: sealM2_def timedShaParts_True c5' c4' c3'(2) c2'(2) q(2) addShaUs_def addPufUs_def dest!: sha)
  have M2: "write_at 96 (apqe_digest W [?tkJi, ?tkJ, cj, ae_nonce e]) (write_at 32 (maskPair ?tkJi cj (ae_nonce e))
      (write_at 0 (xorBytes ?tkJ (s_ni c) 32) (q_m2 c))) = apqe_M2 W ?tkJi ?tkJ (s_ni c) cj (ae_nonce e)"
    using assms(1,2) by (simp add: fill apqe_M2_def del: drop_append)
  obtain w m7 where "c' = c6\<lparr>q_wire := w, s_m := m7\<rparr>" using apqe_send_True c' unfolding apqe_sendM2_def by blast
  then have "c' = c\<lparr>q_peer := peer, q_fabric := f, s_cj := cj, s_rj := ?rj, s_tkJi := ?tkJi, s_tkJ := ?tkJ,
      s_nj := ae_nonce e, q_m2 := apqe_M2 W ?tkJi ?tkJ (s_ni c) cj (ae_nonce e), q_wire := w, s_m := m7\<rparr>"
    by (simp add: c6' c5' c4' c3'(2) c2'(2) q(2) addShaUs_def addPufUs_def M2)
  with q(1) ok c2'(1) c3'(1) show ?thesis by blast
qed

lemma finishes_True:
  assumes "runStages [apqe_receiveM3 e session, openM3 e, deriveSessionKey W e, checkH3 W e, apqe_sendResult W e incoming session] c = (Some True, c')"
  shows "\<exists>m3 tkI tkIj key r w m mR. tkI = xorBytes m3 (s_nj c) HASH_BYTES \<and> tkIj = commutativeMap (q_puf c) tkI \<and>
    key = apqe_key W (s_tkJi c) tkIj (s_ni c) (s_nj c) \<and> constantTimeEqual (apqe_digest W [tkIj, tkI, key]) (drop HASH_BYTES m3) HASH_BYTES \<and>
    c' = c\<lparr>s_received := r, q_m3 := m3, s_tkI := tkI, s_tkIj := tkIj, s_sessionKey := key,
      q_result := apqe_encodeResult session (ae_us e 13) mR (apqe_digest W [key]), q_wire := w, s_m := m\<rparr>"
proof -
  from assms obtain c1 c2 c3 c4 where c1: "apqe_receiveM3 e session c = (Some True, c1)" and c2: "openM3 e c1 = (Some True, c2)"
    and c3: "deriveSessionKey W e c2 = (Some True, c3)" and c4: "checkH3 W e c3 = (Some True, c4)"
    and c': "apqe_sendResult W e incoming session c4 = (Some True, c')"
    by (auto simp: andThen_True)
  obtain ok data c0 where rcv: "apqe_receive (ae_recvs e 0) MSG_M3 session (q_m3 c) APQE_M3_BYTES True c = (ok, data, c0)"
    by (metis prod_cases3)
  then have "ok = Some True" and c1': "c1 = c0\<lparr>q_m3 := data\<rparr>" using c1 by (simp_all add: apqe_receiveM3_def)
  then obtain r m1 where c0: "c0 = c\<lparr>s_received := r, s_m := m1\<rparr>" using apqe_receive_True rcv by blast
  let ?tkI = "xorBytes data (s_nj c) HASH_BYTES"
  let ?tkIj = "commutativeMap (q_puf c) ?tkI"
  have c2': "c2 = addPufUs (ae_us e 10) (c1\<lparr>s_tkI := ?tkI, s_tkIj := ?tkIj\<rparr>)"
    using c2 by (simp add: openM3_def c1' c0 Let_def)
  let ?key = "apqe_key W (s_tkJi c) ?tkIj (s_ni c) (s_nj c)"
  have c3': "c3 = (addShaUs (ae_us e 11) c2)\<lparr>s_sessionKey := ?key\<rparr>"
    using c3 by (auto simp: deriveSessionKey_def timedShaParts_True c2' c1' c0 addShaUs_def addPufUs_def apqe_key_def dest!: sha)
  have c4': "c4 = addShaUs (ae_us e 12) c3"
    and h3: "constantTimeEqual (apqe_digest W [?tkIj, ?tkI, ?key]) (drop HASH_BYTES data) HASH_BYTES"
    using c4 by (auto simp: checkH3_def timedShaParts_True guard_True c3' c2' c1' c0 addShaUs_def addPufUs_def dest!: sha)
  let ?c5 = "c4\<lparr>s_m := (s_m c4)\<lparr>sm_protocolUs := ae_us e 13\<rparr>\<rparr>"
  let ?r = "apqe_encodeResult session (ae_us e 13) (s_m ?c5) (apqe_digest W [?key])"
  have "\<exists>net ip port. apqe_send net ip port APQE_MSG_RESULT session ?r APQE_RESULT_BYTES False (?c5\<lparr>q_result := ?r\<rparr>) = (Some True, c')"
    using c' by (auto simp: apqe_sendResult_def apqe_sha256_def c4' c3' addShaUs_def Let_def split: sum.splits dest!: sha)
  then obtain w m5 where "c' = ?c5\<lparr>q_result := ?r, q_wire := w, s_m := m5\<rparr>" using apqe_send_True by blast
  then have "c' = c\<lparr>s_received := r, q_m3 := data, s_tkI := ?tkI, s_tkIj := ?tkIj, s_sessionKey := ?key, q_result := ?r, q_wire := w, s_m := m5\<rparr>"
    by (simp add: c4' c3' c2' c1' c0 addShaUs_def addPufUs_def)
  with h3 show ?thesis by blast
qed

section \<open>The initiator\<close>

lemma query_arrays:
  assumes "map_option receiveRecord res = Some (Some cred, m', s')"
  shows "credential_arrays cred"
proof -
  from assms obtain response buf where "length response = FABRIC_RECORD_BYTES" "cred = parseCredential (write_at 0 response buf)"
    by (auto simp: receiveRecord_Some)
  then show ?thesis by (simp add: credential_arrays_def parseCredential_def write_at_def Let_def)
qed

lemma credentials_True:
  assumes "runStages [timedReconstruct W e, timedKeygen K e, queryOwn W e slot, queryPeer W e slot, checkIdentities,
      \<lambda>c. timedVerify W (ae_us e 2) (q_own c) c, \<lambda>c. timedVerify W (ae_us e 3) (q_peer c) c, checkOwnKey] c = (Some True, c')"
  shows "\<exists>seed pk sk own peer m1 f1 s1 m2 f2 s2 m. reconstructKyberSeed W (q_puf c) = Inr seed \<and> indcpa_keypair K seed = (pk, sk) \<and>
    queryByIdentitySlot W (q_identityHash c) slot (ae_fabric e 0) m1 (q_fabric c) = Some (Some own, f1, s1) \<and>
    queryByIdentitySlot W (q_peerIdentityHash c) slot (ae_fabric e 1) m2 s1 = Some (Some peer, f2, s2) \<and>
    constantTimeEqual (fc_identityHash own) (q_identityHash c) ID_BYTES \<and>
    constantTimeEqual (fc_identityHash peer) (q_peerIdentityHash c) ID_BYTES \<and>
    verifyCredential W own \<and> verifyCredential W peer \<and> constantTimeEqual (fc_publicKey own) pk KYBER_PUBLIC_KEY_BYTES \<and>
    c' = c\<lparr>s_seed := seed, q_publicKey := pk, q_secretKey := sk, q_own := own, q_peer := peer, q_fabric := s2, s_m := m\<rparr>"
proof -
  from assms obtain c1 c2 c3 c4 where c1: "timedReconstruct W e c = (Some True, c1)" and c2: "timedKeygen K e c1 = (Some True, c2)"
    and c3: "queryOwn W e slot c2 = (Some True, c3)" and c4: "queryPeer W e slot c3 = (Some True, c4)"
    and rest: "runStages [checkIdentities, \<lambda>c. timedVerify W (ae_us e 2) (q_own c) c, \<lambda>c. timedVerify W (ae_us e 3) (q_peer c) c,
      checkOwnKey] c4 = (Some True, c')"
    by (auto simp: andThen_True)
  obtain seed m1 where s: "reconstructKyberSeed W (q_puf c) = Inr seed" "c1 = c\<lparr>s_seed := seed, s_m := m1\<rparr>"
    using timedReconstruct_True [OF c1] by blast
  obtain pk sk m2 where k: "indcpa_keypair K seed = (pk, sk)" "c2 = c1\<lparr>q_publicKey := pk, q_secretKey := sk, s_m := m2\<rparr>"
    using timedKeygen_True [OF c2] s(2) by auto
  obtain own f1 s1 where o1: "queryByIdentitySlot W (q_identityHash c) slot (ae_fabric e 0) (meter_of m2) (q_fabric c) = Some (Some own, f1, s1)"
    "c3 = c2\<lparr>q_fabric := s1, s_m := meter_to f1 m2, q_own := own\<rparr>"
    using c3 by (auto simp: queryOwn_def storeQuery_True k(2) s(2))
  obtain peer f2 s2 where o2: "queryByIdentitySlot W (q_peerIdentityHash c) slot (ae_fabric e 1) (meter_of (meter_to f1 m2)) s1 = Some (Some peer, f2, s2)"
    "c4 = c3\<lparr>q_fabric := s2, s_m := meter_to f2 (s_m c3), q_peer := peer\<rparr>"
    using c4 by (auto simp: queryPeer_def storeQuery_True o1(2) k(2) s(2))
  note c4' = o2(2) o1(2) k(2) s(2)
  have checks: "constantTimeEqual (fc_identityHash own) (q_identityHash c) ID_BYTES \<and>
    constantTimeEqual (fc_identityHash peer) (q_peerIdentityHash c) ID_BYTES \<and>
    verifyCredential W own \<and> verifyCredential W peer \<and> constantTimeEqual (fc_publicKey own) pk KYBER_PUBLIC_KEY_BYTES \<and>
    c' = addShaUs (ae_us e 3) (addShaUs (ae_us e 2) c4)"
    using rest by (auto simp: andThen_True checkIdentities_def checkOwnKey_def guard_True timedVerify_True addShaUs_def c4')
  then have "c' = c\<lparr>s_seed := seed, q_publicKey := pk, q_secretKey := sk, q_own := own, q_peer := peer, q_fabric := s2, s_m := s_m c'\<rparr>"
    by (simp add: addShaUs_def c4')
  with checks s(1) k(1) o1(1) o2(1) show ?thesis by blast
qed

lemma M1_True:
  assumes "wolf_sizes W" and "kyber_sizes K" and "length (ae_nonce e) = APQE_NONCE_BYTES" and "length (fc_tid (q_own c)) = TID_BYTES"
    and "length (fc_tid (q_peer c)) = TID_BYTES" and "length (s_ei c) = EI_BYTES" and "length (q_m1 c) = APQE_M1_BYTES"
    and "runStages [invertOwnTid W e, composeEi e, encryptBlocks K e [0..<EI_BLOCKS], sealM1 W e, apqe_sendM1 e session] c = (Some True, c')"
  shows "\<exists>ci ei w m. reversibleInverse W (q_puf c) (q_secretKey c) (fc_tid (q_own c)) = Inr ci \<and>
    ei = apqe_ei (fc_tid (q_own c)) ci (ae_nonce e) (fc_tid (q_peer c)) \<and>
    c' = c\<lparr>s_ci := ci, s_ni := ae_nonce e, s_ei := ei, q_m1 := apqe_M1 W K (fc_publicKey (q_peer c)) (ae_coins e) ei, q_wire := w, s_m := m\<rparr>"
proof -
  from assms(8) obtain c1 c2 c3 c4 where c1: "invertOwnTid W e c = (Some True, c1)" and c2: "composeEi e c1 = (Some True, c2)"
    and c3: "encryptBlocks K e [0..<4] c2 = (Some True, c3)" and c4: "sealM1 W e c3 = (Some True, c4)"
    and c': "apqe_sendM1 e session c4 = (Some True, c')"
    by (auto simp: andThen_True)
  obtain ci where ci: "reversibleInverse W (q_puf c) (q_secretKey c) (fc_tid (q_own c)) = Inr ci" "c1 = (addPufUs (ae_us e 4) c)\<lparr>s_ci := ci\<rparr>"
    using c1 by (auto simp: invertOwnTid_def timedPufInverse_True)
  have len: "length ci = 32" using reversible_length ci(1) unfolding reversibleInverse_def by blast
  let ?ei = "apqe_ei (fc_tid (q_own c)) ci (ae_nonce e) (fc_tid (q_peer c))"
  have ei: "write_at 96 (fc_tid (q_peer c)) (write_at 64 (ae_nonce e) (write_at 32 ci (write_at 0 (fc_tid (q_own c)) (s_ei c)))) = ?ei"
    using assms(3-6) len by (simp add: fill apqe_ei_def del: drop_append)
  have c2': "c2 = c1\<lparr>s_ni := ae_nonce e, s_ei := ?ei\<rparr>" using c2 ei by (simp add: composeEi_def ci(2) addPufUs_def Let_def)
  let ?ct = "\<lambda>i. indcpa_enc K (read_at (i * 32) 32 ?ei) (fc_publicKey (q_peer c)) (ae_coins e i)"
  let ?cts = "write_at 2304 (?ct 3) (write_at 1536 (?ct 2) (write_at 768 (?ct 1) (write_at 0 (?ct 0) (q_m1 c))))"
  obtain m where c3': "c3 = c2\<lparr>q_m1 := ?cts, s_m := m\<rparr>"
    using c3 unfolding upt4 by (simp add: kyber_encrypt_def Let_def c2' ci(2) addPufUs_def) blast
  have c4': "c4 = (addShaUs (ae_us e 5) c3)\<lparr>q_m1 := write_at 3072 (apqe_digest W [?ei]) ?cts\<rparr>"
    using c4 by (auto simp: sealM1_def timedShaParts_True c3' c2' addShaUs_def dest!: sha)
  have enc: "length (indcpa_enc K x pk r) = 768" for x pk r using assms(2) by (simp add: kyber_sizes_def)
  have M1: "write_at 3072 (apqe_digest W [?ei]) ?cts = apqe_M1 W K (fc_publicKey (q_peer c)) (ae_coins e) ?ei"
    using assms(1,7) enc by (simp add: fill apqe_M1_def upt4 del: drop_append)
  obtain w m' where "c' = c4\<lparr>q_wire := w, s_m := m'\<rparr>" using apqe_send_True c' unfolding apqe_sendM1_def by blast
  then have "c' = c\<lparr>s_ci := ci, s_ni := ae_nonce e, s_ei := ?ei, q_m1 := apqe_M1 W K (fc_publicKey (q_peer c)) (ae_coins e) ?ei,
      q_wire := w, s_m := m'\<rparr>"
    unfolding c4' M1 by (simp add: c3' c2' ci(2) addShaUs_def addPufUs_def)
  with ci(1) show ?thesis by blast
qed

lemma M3_True:
  assumes "wolf_sizes W" and "length (q_m3 c) = APQE_M3_BYTES"
    and "runStages [apqe_receiveM2 e session, openM2 e, checkH2 W e, recoverRj W e, composeM3 e,
      deriveSessionKey W e, sealM3 W e, apqe_sendM3 e session] c = (Some True, c')"
  shows "\<exists>r m2 tkJ tkJi cj nj rj tkI tkIj key w m. tkJ = xorBytes m2 (s_ni c) HASH_BYTES \<and> tkJi = commutativeMap (q_puf c) tkJ \<and>
    (cj, nj) = unmaskPair tkJi (drop HASH_BYTES m2) \<and>
    constantTimeEqual (apqe_digest W [tkJi, tkJ, cj, nj]) (drop (HASH_BYTES + PJ_BYTES) m2) HASH_BYTES \<and>
    rj = xorBytes (fc_w (q_peer c)) (apqe_digest W [cj]) HASH_BYTES \<and> tkI = commutativeMap (q_puf c) cj \<and> tkIj = commutativeMap (q_puf c) rj \<and>
    key = apqe_key W tkJi tkIj (s_ni c) nj \<and>
    c' = c\<lparr>s_received := r, q_m2 := m2, s_tkJ := tkJ, s_tkJi := tkJi, s_cj := cj, s_nj := nj, s_rj := rj, s_tkI := tkI, s_tkIj := tkIj,
      s_sessionKey := key, q_m3 := apqe_M3 W tkI tkIj key nj, q_wire := w, s_m := m\<rparr>"
proof -
  from assms(3) obtain c1 c2 c3 c4 c5 c6 c7 where c1: "apqe_receiveM2 e session c = (Some True, c1)" and c2: "openM2 e c1 = (Some True, c2)"
    and c3: "checkH2 W e c2 = (Some True, c3)" and c4: "recoverRj W e c3 = (Some True, c4)" and c5: "composeM3 e c4 = (Some True, c5)"
    and c6: "deriveSessionKey W e c5 = (Some True, c6)" and c7: "sealM3 W e c6 = (Some True, c7)"
    and c': "apqe_sendM3 e session c7 = (Some True, c')"
    by (auto simp: andThen_True)
  obtain ok m2 c0 where rcv: "apqe_receive (ae_recvs e 0) MSG_M2 session (q_m2 c) APQE_M2_BYTES True c = (ok, m2, c0)"
    by (metis prod_cases3)
  then have "ok = Some True" and c1': "c1 = c0\<lparr>q_m2 := m2\<rparr>" using c1 by (simp_all add: apqe_receiveM2_def)
  then obtain r mm where c0: "c0 = c\<lparr>s_received := r, s_m := mm\<rparr>" using apqe_receive_True rcv by blast
  let ?tkJ = "xorBytes m2 (s_ni c) HASH_BYTES"
  let ?tkJi = "commutativeMap (q_puf c) ?tkJ"
  obtain cj nj where pair: "unmaskPair ?tkJi (drop HASH_BYTES m2) = (cj, nj)" by fastforce
  let ?rj = "xorBytes (fc_w (q_peer c)) (apqe_digest W [cj]) HASH_BYTES"
  let ?tkI = "commutativeMap (q_puf c) cj" and ?tkIj = "commutativeMap (q_puf c) ?rj"
  let ?key = "apqe_key W ?tkJi ?tkIj (s_ni c) nj"
  have c2': "c2 = addPufUs (ae_us e 6) (c1\<lparr>s_tkJ := ?tkJ, s_tkJi := ?tkJi, s_cj := cj, s_nj := nj\<rparr>)"
    using c2 pair by (simp add: openM2_def c1' c0 Let_def)
  have c3': "c3 = addShaUs (ae_us e 7) c2"
    and h2: "constantTimeEqual (apqe_digest W [?tkJi, ?tkJ, cj, nj]) (drop (HASH_BYTES + PJ_BYTES) m2) HASH_BYTES"
    using c3 by (auto simp: checkH2_def timedShaParts_True guard_True c2' c1' c0 addShaUs_def addPufUs_def dest!: sha)
  have c4': "c4 = (addShaUs (ae_us e 8) c3)\<lparr>s_rj := ?rj\<rparr>"
    using c4 by (auto simp: recoverRj_def timedShaParts_True c3' c2' c1' c0 addShaUs_def addPufUs_def dest!: sha)
  have c5': "c5 = addPufUs (ae_us e 9 + ae_us e 10) (c4\<lparr>s_tkI := ?tkI, s_tkIj := ?tkIj,
      q_m3 := write_at 0 (xorBytes ?tkI nj HASH_BYTES) (q_m3 c)\<rparr>)"
    using c5 by (simp add: composeM3_def c4' c3' c2' c1' c0 addShaUs_def addPufUs_def Let_def)
  have c6': "c6 = (addShaUs (ae_us e 11) c5)\<lparr>s_sessionKey := ?key\<rparr>"
    using c6 by (auto simp: deriveSessionKey_def timedShaParts_True c5' c4' c3' c2' c1' c0 addShaUs_def addPufUs_def apqe_key_def dest!: sha)
  have m3: "write_at 32 (apqe_digest W [?tkIj, ?tkI, ?key]) (write_at 0 (xorBytes ?tkI nj HASH_BYTES) (q_m3 c)) = apqe_M3 W ?tkI ?tkIj ?key nj"
    using assms(1,2) by (simp add: fill apqe_M3_def del: drop_append)
  have c7': "c7 = (addShaUs (ae_us e 12) c6)\<lparr>q_m3 := apqe_M3 W ?tkI ?tkIj ?key nj\<rparr>"
    using c7 m3 by (auto simp: sealM3_def timedShaParts_True c6' c5' c4' c3' c2' c1' c0 addShaUs_def addPufUs_def dest!: sha)
  obtain w m' where "c' = c7\<lparr>q_wire := w, s_m := m'\<rparr>" using apqe_send_True c' unfolding apqe_sendM3_def by blast
  then have "c' = c\<lparr>s_received := r, q_m2 := m2, s_tkJ := ?tkJ, s_tkJi := ?tkJi, s_cj := cj, s_nj := nj, s_rj := ?rj, s_tkI := ?tkI,
      s_tkIj := ?tkIj, s_sessionKey := ?key, q_m3 := apqe_M3 W ?tkI ?tkIj ?key nj, q_wire := w, s_m := m'\<rparr>"
    by (simp add: c7' c6' c5' c4' c3' c2' c1' c0 addShaUs_def addPufUs_def)
  with h2 pair show ?thesis by metis
qed

lemma confirm_True:
  assumes "runStages [apqe_receiveResult e session, confirmKey W session] c = (Some True, c')"
  shows "\<exists>r result m t b kh. apqe_decodeResult result session SessionMetrics_init = Some (t, b, kh) \<and>
    constantTimeEqual (apqe_digest W [s_sessionKey c]) kh HASH_BYTES \<and>
    c' = c\<lparr>s_received := r, q_result := result, s_m := m, s_peerProtocolTime := t, s_peerMetrics := b\<rparr>"
proof -
  from assms obtain c1 where c1: "apqe_receiveResult e session c = (Some True, c1)" and c': "confirmKey W session c1 = (Some True, c')"
    by (auto simp: andThen_True)
  let ?c = "c\<lparr>s_m := (s_m c)\<lparr>sm_protocolUs := ae_us e 13\<rparr>\<rparr>"
  obtain ok result c0 where rcv: "apqe_receive (ae_recvs e 1) APQE_MSG_RESULT session (q_result ?c) APQE_RESULT_BYTES False ?c = (ok, result, c0)"
    by (metis prod_cases3)
  then have ok: "ok = Some True" using c1 by (auto simp: apqe_receiveResult_def Let_def split: if_splits)
  then obtain r m where c0: "c0 = ?c\<lparr>s_received := r, s_m := m\<rparr>" using apqe_receive_True rcv by blast
  then have c1': "c1 = c\<lparr>s_received := r, q_result := result, s_m := m\<lparr>sm_confirmedUs := ae_us e 14\<rparr>\<rparr>"
    using c1 rcv ok by (simp add: apqe_receiveResult_def Let_def)
  obtain t b kh where d: "apqe_decodeResult result session SessionMetrics_init = Some (t, b, kh)"
    using c' by (auto simp: confirmKey_def c1' split: option.splits)
  then have "constantTimeEqual (apqe_digest W [s_sessionKey c]) kh HASH_BYTES \<and>
    c' = c\<lparr>s_received := r, q_result := result, s_m := m\<lparr>sm_confirmedUs := ae_us e 14\<rparr>, s_peerProtocolTime := t, s_peerMetrics := b\<rparr>"
    using c' by (auto simp: confirmKey_def c1' apqe_sha256_def guard_True Let_def split: sum.splits dest!: sha)
  with d show ?thesis by blast
qed

section \<open>Properties\<close>

text \<open>The keys a node uses are those of the seed its PUF reconstructs.\<close>

definition own_keys :: "wolf \<Rightarrow> kyber \<Rightarrow> apqe_node \<Rightarrow> apqe_node \<Rightarrow> bool" where
  "own_keys W K n n' \<longleftrightarrow>
    (\<exists>seed. reconstructKyberSeed W (q_puf n) = Inr seed \<and> indcpa_keypair K seed = (q_publicKey n', q_secretKey n'))"

text \<open>
  What the responder has checked: \<open>ei\<close> is the plaintext of M1 and H1 its digest, the
  credential the gateway returned for its pseudonym names the configured peer and verifies,
  \<open>cj\<close> is the own challenge behind the pseudonym in \<open>ei\<close>, M2 is built from them, and
  H3 in M3 is the digest for the key both shared values give.
\<close>

definition responder_checked ::
  "wolf \<Rightarrow> kyber \<Rightarrow> apqe_env \<Rightarrow> u32 \<Rightarrow> apqe_node \<Rightarrow> apqe_node \<Rightarrow> bytes \<Rightarrow> bytes \<Rightarrow> bytes \<Rightarrow> bytes \<Rightarrow> bytes \<Rightarrow> bool" where
  "responder_checked W K e session n n' ei cj tkJi tkI key \<longleftrightarrow>
    own_keys W K n n' \<and>
    ei = concat (map (\<lambda>i. indcpa_dec K (read_at (i * KYBER_CIPHERTEXT_BYTES) KYBER_CIPHERTEXT_BYTES (q_m1 n')) (q_secretKey n')) [0..<EI_BLOCKS]) \<and>
    constantTimeEqual (apqe_digest W [ei]) (drop (EI_BLOCKS * KYBER_CIPHERTEXT_BYTES) (q_m1 n')) HASH_BYTES \<and>
    (\<exists>m m' f. queryByTid W (read_at 0 TID_BYTES ei) (ae_fabric e 0) m (q_fabric n) = Some (Some (q_peer n'), m', f)) \<and>
    constantTimeEqual (fc_identityHash (q_peer n')) (q_peerIdentityHash n) ID_BYTES \<and> verifyCredential W (q_peer n') \<and>
    reversibleInverse W (q_puf n) (q_secretKey n') (read_at 96 TID_BYTES ei) = Inr cj \<and>
    tkJi = commutativeMap (q_puf n) (xorBytes (fc_w (q_peer n')) (apqe_digest W [read_at 32 CHALLENGE_BYTES ei]) HASH_BYTES) \<and>
    q_m2 n' = apqe_M2 W tkJi (commutativeMap (q_puf n) (read_at 32 CHALLENGE_BYTES ei)) (read_at 64 APQE_NONCE_BYTES ei) cj (ae_nonce e) \<and>
    tkI = xorBytes (q_m3 n') (ae_nonce e) HASH_BYTES \<and>
    key = apqe_key W tkJi (commutativeMap (q_puf n) tkI) (read_at 64 APQE_NONCE_BYTES ei) (ae_nonce e) \<and>
    constantTimeEqual (apqe_digest W [commutativeMap (q_puf n) tkI, tkI, key]) (drop HASH_BYTES (q_m3 n')) HASH_BYTES \<and>
    (\<exists>m. q_result n' = apqe_encodeResult session (ae_us e 13) m (apqe_digest W [key]))"

lemma responder_run_checked:
  assumes "wolf_sizes W" and "kyber_sizes K" and "length (q_m2 n) = APQE_M2_BYTES"
    and "apqe_runResponderSession W K e session incoming n = Some (True, n')"
  shows "q_m1 n' = q_m1 n \<and> (\<exists>ei cj tkJi tkI key. responder_checked W K e session n n' ei cj tkJi tkI key)"
proof -
  let ?p1 = "[countM1 incoming, timedReconstruct W e, timedKeygen K e, decryptBlocks K e [0..<EI_BLOCKS], checkH1 W e]"
  let ?p2 = "[queryTid W e, checkPeerIdentity, \<lambda>c. timedVerify W (ae_us e 2) (q_peer c) c,
     invertTidJ W e, recoverRi W e, composeM2 e, sealM2 W e, apqe_sendM2 e incoming session]"
  let ?p3 = "[apqe_receiveM3 e session, openM3 e, deriveSessionKey W e, checkH3 W e, apqe_sendResult W e incoming session]"
  have stages: "apqe_responderStages W K e incoming session = ?p1 @ (?p2 @ ?p3)" by (simp add: apqe_responderStages_def)
  obtain c where run: "runStages (?p1 @ (?p2 @ ?p3)) (apqe_enter n) = (Some True, c)" and n': "n' = apqe_node.truncate c"
    using assms(4) unfolding apqe_runResponderSession_def stages by (auto split: prod.splits option.splits)
  from run obtain c1 c2 where r1: "runStages ?p1 (apqe_enter n) = (Some True, c1)" and r2: "runStages ?p2 c1 = (Some True, c2)"
    and r3: "runStages ?p3 c2 = (Some True, c)"
    unfolding runStages_append andThen_True by blast
  have "length (s_ei (apqe_enter n)) = EI_BYTES" by simp
  from opens_True [OF assms(2) this r1] obtain seed pk sk ei m1 where o:
    "reconstructKyberSeed W (q_puf n) = Inr seed" "indcpa_keypair K seed = (pk, sk)"
    "ei = concat (map (\<lambda>i. indcpa_dec K (read_at (i * KYBER_CIPHERTEXT_BYTES) KYBER_CIPHERTEXT_BYTES (q_m1 n)) sk) [0..<EI_BLOCKS])"
    "constantTimeEqual (apqe_digest W [ei]) (drop (EI_BLOCKS * KYBER_CIPHERTEXT_BYTES) (q_m1 n)) HASH_BYTES"
    and c1: "c1 = (apqe_enter n)\<lparr>s_seed := seed, q_publicKey := pk, q_secretKey := sk, s_ei := ei,
      s_ci := read_at 32 CHALLENGE_BYTES ei, s_ni := read_at 64 APQE_NONCE_BYTES ei, s_m := m1\<rparr>"
    by auto
  have "length (q_m2 c1) = APQE_M2_BYTES" using assms(3) by (simp add: c1)
  note s2 = M2_True [OF assms(1) this r2] and s3 = finishes_True [OF r3]
  show ?thesis
    using o s2 s3 unfolding responder_checked_def own_keys_def n' by (elim exE conjE) (simp add: c1, blast)
qed

text \<open>C31: The responder accepts only what it checked: when \<open>responderLoop\<close> returns true it received an
  M1 that decrypts, under the keys of its own PUF, to values with the digest in M1, the
  credential the gateway returned for the pseudonym in them names the configured peer and
  verifies, and M3 carries the digest for exactly the session key it confirms in RESULT.\<close>

theorem apqe_responder_accepts:
  assumes "wolf_sizes W" and "kyber_sizes K" and "apqe_sized n" and "apqe_responderLoop W K rx e n = Some (True, n')"
  shows "\<exists>packet ei cj tkJi tkI key.
    apqe_receiveMessage MSG_M1 0 (q_m1 n) (of_nat APQE_M1_BYTES) 1000 (rx_start rx) (rx_polls rx) = Some (Some packet, q_m1 n') \<and>
    unat (r_length packet) = APQE_M1_BYTES \<and> responder_checked W K e (r_session packet) n n' ei cj tkJi tkI key"
proof -
  from assms(4) obtain packet m1 where rcv: "apqe_receiveMessage MSG_M1 0 (q_m1 n) (of_nat APQE_M1_BYTES) 1000 (rx_start rx) (rx_polls rx) =
      Some (Some packet, m1)" "unat (r_length packet) = APQE_M1_BYTES"
    and run: "apqe_runResponderSession W K e (r_session packet) packet (n\<lparr>q_m1 := m1\<rparr>) = Some (True, n')"
    by (auto simp: apqe_responderLoop_def Let_def split: option.splits if_splits)
  have "length (q_m2 (n\<lparr>q_m1 := m1\<rparr>)) = APQE_M2_BYTES" using assms(3) by (simp add: apqe_sized_def)
  from responder_run_checked [OF assms(1,2) this run] rcv show ?thesis
    by (auto simp: responder_checked_def own_keys_def)
qed

lemma sample_responds:
  obtains d rx B' where "duo_ready sample_wolf sample_kyber d" and "apqe_sized (du_B d)"
    and "apqe_responderLoop sample_wolf sample_kyber rx (du_eB d) (du_B d) = Some (True, B')"
proof -
  obtain d :: apqe_duo and rx :: radio where d: "duo_ready sample_wolf sample_kyber d" "duo_served sample_wolf d"
    "apqe_hears (rx_start rx) (rx_polls rx) 1000 MSG_M1 0 (of_nat APQE_M1_BYTES) 1 (duo_M1 sample_wolf sample_kyber d) 0x0a000001 5000"
    "apqe_hears_direct (ae_recvs (du_eB d) 0) MSG_M3 1 (duo_M3 sample_wolf d) 0x0a000001 5000"
    by (rule sample_duo_linked)
  have "apqe_sized (du_B d)" using d(1) by (simp add: duo_ready_def apqe_party_def)
  moreover obtain c :: apqe_session where "apqe_responderLoop sample_wolf sample_kyber rx (du_eB d) (du_B d) = Some (True, apqe_node.truncate c)"
    by (rule apqe_session_runs [OF d])
  ultimately show ?thesis using that d(1) by blast
qed

theorem apqe_responder_accepts_witness:
  "\<exists>(e :: apqe_env) (rx :: radio) n n' session ei cj tkJi tkI key. apqe_responderLoop sample_wolf sample_kyber rx e n = Some (True, n') \<and>
    responder_checked sample_wolf sample_kyber e session n n' ei cj tkJi tkI key"
proof -
  obtain d :: apqe_duo and rx :: radio and B' where "apqe_sized (du_B d)"
    and run: "apqe_responderLoop sample_wolf sample_kyber rx (du_eB d) (du_B d) = Some (True, B')"
    by (rule sample_responds)
  from apqe_responder_accepts [OF sample_wolf_sizes sample_kyber_sizes this] run show ?thesis by blast
qed

text \<open>
  What the initiator has checked: both credentials the gateway returned name the right
  identities and verify, the own one carries the current public key, M1 is built from the own
  challenge behind its pseudonym, H2 in M2 is the digest of what M2 decodes to, M3 is built
  from it, and RESULT confirms the session key.
\<close>

definition initiator_checked_credentials :: "wolf \<Rightarrow> apqe_env \<Rightarrow> u16 \<Rightarrow> apqe_node \<Rightarrow> apqe_node \<Rightarrow> bool" where
  "initiator_checked_credentials W e slot n n' \<longleftrightarrow>
    (\<exists>m1 f1 s1 m2 f2 s2. queryByIdentitySlot W (q_identityHash n) slot (ae_fabric e 0) m1 (q_fabric n) = Some (Some (q_own n'), f1, s1) \<and>
      queryByIdentitySlot W (q_peerIdentityHash n) slot (ae_fabric e 1) m2 s1 = Some (Some (q_peer n'), f2, s2)) \<and>
    constantTimeEqual (fc_identityHash (q_own n')) (q_identityHash n) ID_BYTES \<and>
    constantTimeEqual (fc_identityHash (q_peer n')) (q_peerIdentityHash n) ID_BYTES \<and>
    verifyCredential W (q_own n') \<and> verifyCredential W (q_peer n') \<and>
    constantTimeEqual (fc_publicKey (q_own n')) (q_publicKey n') KYBER_PUBLIC_KEY_BYTES"

definition initiator_checked_messages ::
  "wolf \<Rightarrow> kyber \<Rightarrow> apqe_env \<Rightarrow> u32 \<Rightarrow> apqe_node \<Rightarrow> apqe_node \<Rightarrow> bytes \<Rightarrow> bytes \<Rightarrow> bytes \<Rightarrow> bytes \<Rightarrow> bytes \<Rightarrow> bool" where
  "initiator_checked_messages W K e session n n' ci tkJi cj nj key \<longleftrightarrow>
    reversibleInverse W (q_puf n) (q_secretKey n') (fc_tid (q_own n')) = Inr ci \<and>
    q_m1 n' = apqe_M1 W K (fc_publicKey (q_peer n')) (ae_coins e) (apqe_ei (fc_tid (q_own n')) ci (ae_nonce e) (fc_tid (q_peer n'))) \<and>
    tkJi = commutativeMap (q_puf n) (xorBytes (q_m2 n') (ae_nonce e) HASH_BYTES) \<and>
    (cj, nj) = unmaskPair tkJi (drop HASH_BYTES (q_m2 n')) \<and>
    constantTimeEqual (apqe_digest W [tkJi, xorBytes (q_m2 n') (ae_nonce e) HASH_BYTES, cj, nj]) (drop (HASH_BYTES + PJ_BYTES) (q_m2 n')) HASH_BYTES \<and>
    (let tkI = commutativeMap (q_puf n) cj;
         tkIj = commutativeMap (q_puf n) (xorBytes (fc_w (q_peer n')) (apqe_digest W [cj]) HASH_BYTES)
     in key = apqe_key W tkJi tkIj (ae_nonce e) nj \<and> q_m3 n' = apqe_M3 W tkI tkIj key nj) \<and>
    (\<exists>t b kh. apqe_decodeResult (q_result n') session SessionMetrics_init = Some (t, b, kh) \<and>
      constantTimeEqual (apqe_digest W [key]) kh HASH_BYTES)"

text \<open>C32: The initiator accepts only what it checked: when \<open>runInitiatorSession\<close> returns true, with a
  32-byte nonce, both credentials came from the gateway and passed every check, M1 and M3 in
  the object are the messages of the protocol for the values they carry, M2 carries the
  digest of its own content, and RESULT the hash of exactly this session key.\<close>

theorem apqe_initiator_accepts:
  assumes "wolf_sizes W" and "kyber_sizes K" and "apqe_sized n" and "length (ae_nonce e) = APQE_NONCE_BYTES"
    and "apqe_runInitiatorSession W K e session slot n = Some (Some report, n')"
  shows "own_keys W K n n' \<and> initiator_checked_credentials W e slot n n' \<and>
    (\<exists>ci tkJi cj nj key. initiator_checked_messages W K e session n n' ci tkJi cj nj key)"
proof -
  let ?p1 = "[timedReconstruct W e, timedKeygen K e, queryOwn W e slot, queryPeer W e slot, checkIdentities,
      \<lambda>c. timedVerify W (ae_us e 2) (q_own c) c, \<lambda>c. timedVerify W (ae_us e 3) (q_peer c) c, checkOwnKey]"
  let ?p2 = "[invertOwnTid W e, composeEi e, encryptBlocks K e [0..<EI_BLOCKS], sealM1 W e, apqe_sendM1 e session]"
  let ?p3 = "[apqe_receiveM2 e session, openM2 e, checkH2 W e, recoverRj W e, composeM3 e,
      deriveSessionKey W e, sealM3 W e, apqe_sendM3 e session]"
  let ?p4 = "[apqe_receiveResult e session, confirmKey W session]"
  have stages: "apqe_initiatorStages W K e session slot = ?p1 @ (?p2 @ (?p3 @ ?p4))" by (simp add: apqe_initiatorStages_def)
  obtain c where run: "runStages (?p1 @ (?p2 @ (?p3 @ ?p4))) (apqe_enter n) = (Some True, c)" and n': "n' = apqe_node.truncate c"
    using assms(5) unfolding apqe_runInitiatorSession_def stages by (auto split: prod.splits option.splits if_splits)
  from run obtain c1 c2 c3 where r: "runStages ?p1 (apqe_enter n) = (Some True, c1)" "runStages ?p2 c1 = (Some True, c2)"
    "runStages ?p3 c2 = (Some True, c3)" "runStages ?p4 c3 = (Some True, c)"
    unfolding runStages_append andThen_True by blast
  from credentials_True [OF r(1)] obtain seed pk sk own peer m1 f1 s1 m2 f2 s2 m where o:
    "reconstructKyberSeed W (q_puf n) = Inr seed" "indcpa_keypair K seed = (pk, sk)"
    "queryByIdentitySlot W (q_identityHash n) slot (ae_fabric e 0) m1 (q_fabric n) = Some (Some own, f1, s1)"
    "queryByIdentitySlot W (q_peerIdentityHash n) slot (ae_fabric e 1) m2 s1 = Some (Some peer, f2, s2)"
    "constantTimeEqual (fc_identityHash own) (q_identityHash n) ID_BYTES"
    "constantTimeEqual (fc_identityHash peer) (q_peerIdentityHash n) ID_BYTES"
    "verifyCredential W own" "verifyCredential W peer" "constantTimeEqual (fc_publicKey own) pk KYBER_PUBLIC_KEY_BYTES"
    and c1: "c1 = (apqe_enter n)\<lparr>s_seed := seed, q_publicKey := pk, q_secretKey := sk, q_own := own, q_peer := peer, q_fabric := s2, s_m := m\<rparr>"
    by auto
  have tids: "length (fc_tid own) = TID_BYTES" "length (fc_tid peer) = TID_BYTES"
    using o(3,4) query_arrays by (auto simp: queryByIdentitySlot_def credential_arrays_def)
  have "\<exists>ci ei w m. reversibleInverse W (q_puf c1) (q_secretKey c1) (fc_tid (q_own c1)) = Inr ci \<and>
    ei = apqe_ei (fc_tid (q_own c1)) ci (ae_nonce e) (fc_tid (q_peer c1)) \<and>
    c2 = c1\<lparr>s_ci := ci, s_ni := ae_nonce e, s_ei := ei, q_m1 := apqe_M1 W K (fc_publicKey (q_peer c1)) (ae_coins e) ei, q_wire := w, s_m := m\<rparr>"
    by (rule M1_True [OF assms(1,2,4) _ _ _ _ r(2)]) (use tids assms(3) in \<open>simp_all add: c1 apqe_sized_def\<close>)
  then obtain ci ei w m' where ci: "reversibleInverse W (q_puf n) sk (fc_tid own) = Inr ci" "ei = apqe_ei (fc_tid own) ci (ae_nonce e) (fc_tid peer)"
    and c2: "c2 = c1\<lparr>s_ci := ci, s_ni := ae_nonce e, s_ei := ei, q_m1 := apqe_M1 W K (fc_publicKey peer) (ae_coins e) ei, q_wire := w, s_m := m'\<rparr>"
    by (auto simp: c1)
  have "length (q_m3 c2) = APQE_M3_BYTES" using assms(3) by (simp add: c2 c1 apqe_sized_def)
  note s3 = M3_True [OF assms(1) this r(3)] and s4 = confirm_True [OF r(4)]
  have "own_keys W K n n' \<and> initiator_checked_credentials W e slot n n'"
    using o s3 s4 unfolding own_keys_def initiator_checked_credentials_def n' by (elim exE conjE) (simp add: c2 c1, blast)
  moreover have "\<exists>ci tkJi cj nj key. initiator_checked_messages W K e session n n' ci tkJi cj nj key"
    using ci s3 s4 unfolding initiator_checked_messages_def n' Let_def by (elim exE conjE) (simp add: c2 c1, metis)
  ultimately show ?thesis by blast
qed

theorem apqe_initiator_accepts_witness:
  "\<exists>(e :: apqe_env) session slot n report n'. apqe_runInitiatorSession sample_wolf sample_kyber e session slot n = Some (Some report, n') \<and>
    initiator_checked_credentials sample_wolf e slot n n' \<and>
    (\<exists>ci tkJi cj nj key. initiator_checked_messages sample_wolf sample_kyber e session n n' ci tkJi cj nj key)"
proof -
  obtain d :: apqe_duo and rx :: radio where d: "duo_ready sample_wolf sample_kyber d" "duo_served sample_wolf d"
    "apqe_hears (rx_start rx) (rx_polls rx) 1000 MSG_M1 0 (of_nat APQE_M1_BYTES) 1 (duo_M1 sample_wolf sample_kyber d) 0x0a000001 5000"
    "apqe_hears_direct (ae_recvs (du_eA d) 0) MSG_M2 1 (duo_M2 sample_wolf d) 0x0a000001 5000"
    "apqe_hears_direct (ae_recvs (du_eB d) 0) MSG_M3 1 (duo_M3 sample_wolf d) 0x0a000001 5000"
    "\<forall>B'. apqe_responderLoop sample_wolf sample_kyber rx (du_eB d) (du_B d) = Some (True, B') \<longrightarrow>
      apqe_hears_direct (ae_recvs (du_eA d) 1) APQE_MSG_RESULT 1 (q_result B') 0x0a000001 5000"
    by (rule sample_duo_linked)
  obtain cB :: apqe_session and t m where B: "apqe_responderLoop sample_wolf sample_kyber rx (du_eB d) (du_B d) = Some (True, apqe_node.truncate cB)"
    "q_result cB = apqe_encodeResult 1 t m (apqe_digest sample_wolf [duo_key sample_wolf d])"
    by (rule apqe_session_runs [OF d(1-3,5)])
  with d(6) have res: "apqe_hears_direct (ae_recvs (du_eA d) 1) APQE_MSG_RESULT 1
      (apqe_encodeResult 1 t m (apqe_digest sample_wolf [duo_key sample_wolf d])) 0x0a000001 5000" by simp
  obtain cA :: apqe_session where "runStages (apqe_initiatorStages sample_wolf sample_kyber (du_eA d) 1 (du_slot d)) (apqe_enter (du_A d)) = (Some True, cA)"
    by (rule initiator_run [OF d(1,2,4) res])
  note run = runInitiator_stages [OF this]
  have "apqe_sized (du_A d)" "length (ae_nonce (du_eA d)) = APQE_NONCE_BYTES" using d(1) by (simp_all add: duo_ready_def apqe_party_def)
  from apqe_initiator_accepts [OF sample_wolf_sizes sample_kyber_sizes this run] run show ?thesis by blast
qed

end
