(* ===== verification/TextFormats.thy ===== *)
theory TextFormats
  imports ProtocolConstants
begin

text \<open>
  The text formats of the services on the ground: \<open>encoding/hex\<close>, \<open>strconv.Itoa\<close> and the JSON form of
  the struct \<open>Credential\<close>, which the gateway and the chaincode declare alike. A Go string is
  a list of characters.

  JSON is modelled as far as the services use it: what \<open>json.Marshal\<close> writes for the
  struct (its text fields are hexadecimal by then, so nothing is escaped), and what
  \<open>json.Unmarshal\<close> reads from a flat object without blanks and escapes. Its members may come
  in any order, unknown ones are skipped and absent ones keep their zero value.
\<close>

section \<open>Hexadecimal\<close>

definition hexDigit :: "nat \<Rightarrow> char" where
  "hexDigit n = ''0123456789abcdef'' ! n"

definition fromHexChar :: "char \<Rightarrow> nat option" where
  "fromHexChar c =
    (let n = of_char c in
     if 48 \<le> n \<and> n \<le> 57 then Some (n - 48)
     else if 97 \<le> n \<and> n \<le> 102 then Some (n - 87)
     else if 65 \<le> n \<and> n \<le> 70 then Some (n - 55)
     else None)"

fun EncodeToString :: "bytes \<Rightarrow> string" where
  "EncodeToString [] = []"
| "EncodeToString (b # bs) = hexDigit (unat b div 16) # hexDigit (unat b mod 16) # EncodeToString bs"

fun DecodeString :: "string \<Rightarrow> bytes option" where
  "DecodeString [] = Some []"
| "DecodeString [c] = None"
| "DecodeString (c # d # cs) =
    (case (fromHexChar c, fromHexChar d, DecodeString cs) of
       (Some a, Some b, Some bs) \<Rightarrow> Some (of_nat (16 * a + b) # bs)
     | _ \<Rightarrow> None)"

definition hex_digits :: "char set" where
  "hex_digits = set ''0123456789abcdef''"

lemma sixteen: "n < 16 \<Longrightarrow> n \<in> {0, 1, 2, 3, 4, 5, 6, 7, 8, 9, 10, 11, 12, 13, 14, 15 :: nat}"
  unfolding insert_iff empty_iff by presburger

lemma fromHexChar_hexDigit [simp]: "n < 16 \<Longrightarrow> fromHexChar (hexDigit n) = Some n"
  by (drule sixteen) (auto simp: hexDigit_def fromHexChar_def)

lemma hexDigit_in [simp]: "n < 16 \<Longrightarrow> hexDigit n \<in> hex_digits"
  by (simp add: hexDigit_def hex_digits_def nth_mem del: set_simps)

lemma nibbles:
  fixes b :: u8
  shows "unat b div 16 < 16" and "unat b mod 16 < 16"
  using unsigned_less [of b, where ?'a = nat] by (simp_all add: less_mult_imp_div_less)

lemma DecodeString_EncodeToString [simp]: "DecodeString (EncodeToString bs) = Some bs"
  by (induction bs) (simp_all add: nibbles)

lemma EncodeToString_inject [simp]: "EncodeToString a = EncodeToString b \<longleftrightarrow> a = b"
  by (metis DecodeString_EncodeToString option.inject)

lemma set_EncodeToString: "set (EncodeToString bs) \<subseteq> hex_digits"
  by (induction bs) (simp_all add: nibbles)

lemma length_EncodeToString [simp]: "length (EncodeToString bs) = 2 * length bs"
  by (induction bs) simp_all

section \<open>Decimal numbers\<close>

fun Itoa :: "nat \<Rightarrow> string" where
  "Itoa n = (if n < 10 then [hexDigit n] else Itoa (n div 10) @ [hexDigit (n mod 10)])"

declare Itoa.simps [simp del]

definition decimal_digit :: "char \<Rightarrow> bool" where
  "decimal_digit c \<longleftrightarrow> c \<in> set ''0123456789''"

definition decimal_value :: "string \<Rightarrow> nat" where
  "decimal_value = foldl (\<lambda>n c. 10 * n + (of_char c - 48)) 0"

lemma ten: "n < 10 \<Longrightarrow> n \<in> {0, 1, 2, 3, 4, 5, 6, 7, 8, 9 :: nat}"
  unfolding insert_iff empty_iff by presburger

lemma decimal_hexDigit [simp]:
  "n < 10 \<Longrightarrow> decimal_digit (hexDigit n)" "n < 10 \<Longrightarrow> of_char (hexDigit n) = 48 + n"
  by (drule ten, auto simp: hexDigit_def decimal_digit_def)+

lemma Itoa_digits: "c \<in> set (Itoa n) \<Longrightarrow> decimal_digit c"
proof (induction n rule: Itoa.induct)
  case (1 n)
  then show ?case by (subst (asm) Itoa.simps) (auto split: if_splits)
qed

lemma Itoa_nonempty [simp]: "Itoa n \<noteq> []"
  by (subst Itoa.simps) simp

lemma decimal_value_Itoa [simp]: "decimal_value (Itoa n) = n"
proof (induction n rule: Itoa.induct)
  case (1 n)
  then show ?case by (subst Itoa.simps) (auto simp: decimal_value_def)
qed

lemma Itoa_inject [simp]: "Itoa a = Itoa b \<longleftrightarrow> a = b"
  by (metis decimal_value_Itoa)

section \<open>The record \<open>Credential\<close> and its JSON form\<close>

record Credential =
  cr_IdentityHash :: string
  cr_Slot :: u16
  cr_TID :: string
  cr_PublicKey :: string
  cr_W :: string
  cr_VerifyHash :: string

definition json_quote :: "string \<Rightarrow> string" where
  "json_quote s = CHR 0x22 # s @ [CHR 0x22]"

definition json_Marshal :: "Credential \<Rightarrow> string" where
  "json_Marshal c =
    ''{'' @ json_quote ''identityHash'' @ '':'' @ json_quote (cr_IdentityHash c) @
    '','' @ json_quote ''slot'' @ '':'' @ Itoa (unat (cr_Slot c)) @
    '','' @ json_quote ''tid'' @ '':'' @ json_quote (cr_TID c) @
    '','' @ json_quote ''publicKey'' @ '':'' @ json_quote (cr_PublicKey c) @
    '','' @ json_quote ''w'' @ '':'' @ json_quote (cr_W c) @
    '','' @ json_quote ''verifyHash'' @ '':'' @ json_quote (cr_VerifyHash c) @ ''}''"

text \<open>Values are texts or natural numbers; a reader returns what it read and the rest.\<close>

datatype json_value = JsonText string | JsonNumber nat

fun readText :: "string \<Rightarrow> (string \<times> string) option" where
  "readText [] = None"
| "readText (c # cs) = (if c = CHR 0x22 then Some ([], cs) else map_option (apfst ((#) c)) (readText cs))"

definition readValue :: "string \<Rightarrow> (json_value \<times> string) option" where
  "readValue s =
    (case s of
       [] \<Rightarrow> None
     | c # cs \<Rightarrow>
         if c = CHR 0x22 then map_option (apfst JsonText) (readText cs)
         else if decimal_digit c then
           Some (JsonNumber (decimal_value (takeWhile decimal_digit s)), dropWhile decimal_digit s)
         else None)"

definition readMember :: "string \<Rightarrow> ((string \<times> json_value) \<times> string) option" where
  "readMember s =
    (case s of
       [] \<Rightarrow> None
     | c # cs \<Rightarrow>
         if c \<noteq> CHR 0x22 then None
         else case readText cs of
           Some (name, d # ds) \<Rightarrow> if d = CHR '':'' then map_option (apfst (Pair name)) (readValue ds) else None
         | _ \<Rightarrow> None)"

lemma readText_shorter: "readText s = Some (t, r) \<Longrightarrow> length r < length s"
  by (induction s arbitrary: t r) (force split: if_splits)+

lemma readValue_shorter: "readValue s = Some (v, r) \<Longrightarrow> length r < length s"
  using length_dropWhile_le [of decimal_digit "tl s"]
  by (auto simp: readValue_def less_Suc_eq_le dest!: readText_shorter split: list.splits if_splits)

lemma readMember_shorter: "readMember s = Some (m, r) \<Longrightarrow> length r < length s"
  by (fastforce simp: readMember_def dest: readText_shorter readValue_shorter split: list.splits if_splits option.splits prod.splits)

text \<open>The members up to the closing brace, which ends the text.\<close>

function readMembers :: "string \<Rightarrow> (string \<times> json_value) list option" where
  "readMembers s =
    (case readMember s of
       None \<Rightarrow> None
     | Some (m, r) \<Rightarrow>
         if r = ''}'' then Some [m]
         else if take 1 r = '','' then map_option ((#) m) (readMembers (drop 1 r))
         else None)"
  by pat_completeness auto
termination
  by (relation "measure length") (auto dest!: readMember_shorter)

declare readMembers.simps [simp del]

definition json_object :: "string \<Rightarrow> (string \<times> json_value) list option" where
  "json_object s = (if s = ''{}'' then Some [] else if take 1 s = ''{'' then readMembers (drop 1 s) else None)"

text \<open>A text member must hold a text, \<open>slot\<close> a number below \<open>2^16\<close>; otherwise it is an error.\<close>

definition setMember :: "string \<times> json_value \<Rightarrow> Credential \<Rightarrow> Credential option" where
  "setMember m c =
    (case m of
       (name, JsonText t) \<Rightarrow>
         if name = ''identityHash'' then Some (c\<lparr>cr_IdentityHash := t\<rparr>)
         else if name = ''tid'' then Some (c\<lparr>cr_TID := t\<rparr>)
         else if name = ''publicKey'' then Some (c\<lparr>cr_PublicKey := t\<rparr>)
         else if name = ''w'' then Some (c\<lparr>cr_W := t\<rparr>)
         else if name = ''verifyHash'' then Some (c\<lparr>cr_VerifyHash := t\<rparr>)
         else if name = ''slot'' then None
         else Some c
     | (name, JsonNumber n) \<Rightarrow>
         if name = ''slot'' then if n < 2 ^ 16 then Some (c\<lparr>cr_Slot := of_nat n\<rparr>) else None
         else if name \<in> {''identityHash'', ''tid'', ''publicKey'', ''w'', ''verifyHash''} then None
         else Some c)"

fun setMembers :: "(string \<times> json_value) list \<Rightarrow> Credential \<Rightarrow> Credential option" where
  "setMembers [] c = Some c"
| "setMembers (m # ms) c = Option.bind (setMember m c) (setMembers ms)"

definition zeroCredential :: Credential where
  "zeroCredential = \<lparr>cr_IdentityHash = [], cr_Slot = 0, cr_TID = [], cr_PublicKey = [], cr_W = [], cr_VerifyHash = []\<rparr>"

definition json_Unmarshal :: "string \<Rightarrow> string + Credential" where
  "json_Unmarshal s =
    (case Option.bind (json_object s) (\<lambda>ms. setMembers ms zeroCredential) of
       None \<Rightarrow> Inl ''json: cannot unmarshal'' | Some c \<Rightarrow> Inr c)"

section \<open>Reading back\<close>

text \<open>Texts of hexadecimal digits need no escapes.\<close>

definition plain :: "string \<Rightarrow> bool" where
  "plain s \<longleftrightarrow> CHR 0x22 \<notin> set s"

definition plainCredential :: "Credential \<Rightarrow> bool" where
  "plainCredential c \<longleftrightarrow> plain (cr_IdentityHash c) \<and> plain (cr_TID c) \<and> plain (cr_PublicKey c) \<and> plain (cr_W c) \<and> plain (cr_VerifyHash c)"

lemma readText_plain: "plain s \<Longrightarrow> readText (s @ CHR 0x22 # r) = Some (s, r)"
  by (induction s) (auto simp: plain_def)

lemma readValue_text: "plain s \<Longrightarrow> readValue (json_quote s @ r) = Some (JsonText s, r)"
  by (simp add: readValue_def json_quote_def readText_plain)

lemma readValue_number:
  assumes "r \<noteq> []" and "\<not> decimal_digit (hd r)"
  shows "readValue (Itoa n @ r) = Some (JsonNumber n, r)"
proof -
  obtain c cs where n: "Itoa n = c # cs" using Itoa_nonempty [of n] by (cases "Itoa n") auto
  then have "decimal_digit c" using Itoa_digits [of c n] by simp
  moreover have "takeWhile decimal_digit (Itoa n @ r) = Itoa n" "dropWhile decimal_digit (Itoa n @ r) = r"
    using assms Itoa_digits by (cases r; simp add: takeWhile_append2 dropWhile_append2)+
  moreover have "c \<noteq> CHR 0x22" using \<open>decimal_digit c\<close> by (auto simp: decimal_digit_def)
  moreover have "decimal_value (c # cs) = n" using n decimal_value_Itoa [of n] by simp
  ultimately show ?thesis using n by (simp add: readValue_def)
qed

lemma readMember_plain: "plain name \<Longrightarrow> readMember (json_quote name @ CHR '':'' # v) = map_option (apfst (Pair name)) (readValue v)"
  by (simp add: readMember_def json_quote_def readText_plain)

lemma plain_names:
  "plain ''identityHash''" "plain ''slot''" "plain ''tid''" "plain ''publicKey''" "plain ''w''" "plain ''verifyHash''"
  by (simp_all add: plain_def)

lemma members_text:
  assumes "plain name" and "plain s" and "r = ''}'' \<or> take 1 r = '',''"
  shows "readMembers (json_quote name @ '':'' @ json_quote s @ r) =
    (if r = ''}'' then Some [(name, JsonText s)] else map_option ((#) (name, JsonText s)) (readMembers (drop 1 r)))"
  using assms by (subst readMembers.simps) (auto simp: readMember_plain readValue_text)

lemma members_number:
  assumes "plain name" and "take 1 r = '',''"
  shows "readMembers (json_quote name @ '':'' @ Itoa n @ r) = map_option ((#) (name, JsonNumber n)) (readMembers (drop 1 r))"
proof -
  have "r \<noteq> []" "\<not> decimal_digit (hd r)" using assms(2) by (cases r; simp add: decimal_digit_def)+
  then show ?thesis
    using assms by (subst readMembers.simps) (auto simp: readMember_plain readValue_number)
qed

lemma json_Unmarshal_Marshal [simp]:
  assumes "plainCredential c"
  shows "json_Unmarshal (json_Marshal c) = Inr c"
proof -
  note p = assms [unfolded plainCredential_def]
  have "json_object (json_Marshal c) = Some
    [(''identityHash'', JsonText (cr_IdentityHash c)), (''slot'', JsonNumber (unat (cr_Slot c))), (''tid'', JsonText (cr_TID c)),
     (''publicKey'', JsonText (cr_PublicKey c)), (''w'', JsonText (cr_W c)), (''verifyHash'', JsonText (cr_VerifyHash c))]"
    using p by (simp add: json_object_def json_Marshal_def members_text [simplified] members_number [simplified] plain_names)
  then show ?thesis
    using unsigned_less [of "cr_Slot c", where ?'a = nat] by (simp add: json_Unmarshal_def setMember_def zeroCredential_def)
qed

lemma plain_hex: "set s \<subseteq> hex_digits \<Longrightarrow> plain s"
  by (auto simp: plain_def hex_digits_def)

end
