(* ===== verification/FabricChaincode.thy ===== *)
theory FabricChaincode
  imports TextFormats
begin

text \<open>
  The chaincode of the baseline's credential ledger, \<open>fabric/chaincode-go/main.go\<close>: records
  under a key of identity and slot, and an index from pseudonyms (TIDs) to these keys. The
  world state is a map from keys to texts. The stub of the peer is outside of the
  repository: what \<open>GetState\<close>, \<open>PutState\<close> and \<open>DelState\<close> may report as errors is the
  argument \<open>F\<close>. A transaction function that returns an error (\<open>Inl\<close>) has no effect, since
  its writes are not endorsed, and none of these functions reads a key after writing it.
\<close>

section \<open>The stub\<close>

type_synonym world = "string \<rightharpoonup> string"

datatype stub_call = GetState string | PutState string | DelState string

type_synonym faults = "stub_call \<Rightarrow> string option"

definition no_faults :: faults where
  "no_faults = (\<lambda>_. None)"

text \<open>A call of the stub, and \<open>fmt.Errorf("context: %w", err)\<close>.\<close>

definition stubCall :: "faults \<Rightarrow> stub_call \<Rightarrow> 'a \<Rightarrow> string + 'a" where
  "stubCall F call v = (case F call of None \<Rightarrow> Inr v | Some e \<Rightarrow> Inl e)"

definition wrapError :: "string \<Rightarrow> string + 'a \<Rightarrow> string + 'a" where
  "wrapError context r = (case r of Inl e \<Rightarrow> Inl (context @ '': '' @ e) | Inr v \<Rightarrow> Inr v)"

text \<open>An absent key is read as an empty slice.\<close>

definition getState :: "faults \<Rightarrow> string \<Rightarrow> world \<Rightarrow> string + string" where
  "getState F key w = stubCall F (GetState key) (case w key of None \<Rightarrow> [] | Some v \<Rightarrow> v)"

definition putState :: "faults \<Rightarrow> string \<Rightarrow> string \<Rightarrow> world \<Rightarrow> string + world" where
  "putState F key v w = stubCall F (PutState key) (w(key \<mapsto> v))"

definition delState :: "faults \<Rightarrow> string \<Rightarrow> world \<Rightarrow> string + world" where
  "delState F key w = stubCall F (DelState key) (w(key := None))"

section \<open>Transaction functions\<close>

text \<open>The error text of \<open>hex.DecodeString\<close> is abbreviated.\<close>

definition validateHex :: "string \<Rightarrow> string \<Rightarrow> nat \<Rightarrow> string + unit" where
  "validateHex name value bytes =
    (case DecodeString value of
       None \<Rightarrow> Inl (name @ '' is not valid hex: encoding/hex'')
     | Some raw \<Rightarrow>
         if length raw \<noteq> bytes then Inl (name @ '' must be '' @ Itoa bytes @ '' bytes, got '' @ Itoa (length raw))
         else Inr ())"

definition credentialKey :: "string \<Rightarrow> u16 \<Rightarrow> string" where
  "credentialKey identityHash slot = ''cred:'' @ identityHash @ '':'' @ Itoa (unat slot)"

definition tidIndexKey :: "string \<Rightarrow> string" where
  "tidIndexKey tid = ''tid:'' @ tid"

text \<open>What happens to an existing record: the index of its old pseudonym goes, and an equal record ends the call.\<close>

definition replacePrevious :: "faults \<Rightarrow> string \<Rightarrow> string \<Rightarrow> string \<Rightarrow> world \<Rightarrow> string + bool \<times> world" where
  "replacePrevious F existing tid encoded w =
    (if length existing \<noteq> 0 then
       bindE (wrapError ''decode previous credential'' (json_Unmarshal existing)) (\<lambda>previous.
       bindE (if cr_TID previous \<noteq> tid
              then wrapError ''remove old TID index'' (delState F (tidIndexKey (cr_TID previous)) w)
              else Inr w) (\<lambda>w.
       Inr (existing = encoded, w)))
     else Inr (False, w))"

definition PutCredential :: "faults \<Rightarrow> Credential \<Rightarrow> world \<Rightarrow> string + world" where
  "PutCredential F credential w =
    bindE (validateHex ''identityHash'' (cr_IdentityHash credential) 32) (\<lambda>_.
    bindE (validateHex ''tid'' (cr_TID credential) 32) (\<lambda>_.
    bindE (validateHex ''publicKey'' (cr_PublicKey credential) 800) (\<lambda>_.
    bindE (validateHex ''w'' (cr_W credential) 32) (\<lambda>_.
    bindE (validateHex ''verifyHash'' (cr_VerifyHash credential) 32) (\<lambda>_.
    let key = credentialKey (cr_IdentityHash credential) (cr_Slot credential) in
    bindE (wrapError ''read existing credential'' (getState F key w)) (\<lambda>existing.
    let encoded = json_Marshal credential in
    bindE (replacePrevious F existing (cr_TID credential) encoded w) (\<lambda>(same, w).
    if same then Inr w
    else
      bindE (wrapError ''write credential'' (putState F key encoded w)) (\<lambda>w.
      wrapError ''write TID index'' (putState F (tidIndexKey (cr_TID credential)) key w)))))))))"

definition QueryByIdentitySlot :: "faults \<Rightarrow> string \<Rightarrow> u16 \<Rightarrow> world \<Rightarrow> string + Credential" where
  "QueryByIdentitySlot F identityHash slot w =
    bindE (validateHex ''identityHash'' identityHash 32) (\<lambda>_.
    bindE (wrapError ''read credential'' (getState F (credentialKey identityHash slot) w)) (\<lambda>data.
    if length data = 0 then Inl ''credential not found''
    else wrapError ''decode credential'' (json_Unmarshal data)))"

definition QueryByTemporaryIdentity :: "faults \<Rightarrow> string \<Rightarrow> world \<Rightarrow> string + Credential" where
  "QueryByTemporaryIdentity F tid w =
    bindE (validateHex ''tid'' tid 32) (\<lambda>_.
    bindE (wrapError ''read TID index'' (getState F (tidIndexKey tid) w)) (\<lambda>key.
    if length key = 0 then Inl ''temporary identity not found''
    else
      bindE (wrapError ''read indexed credential'' (getState F key w)) (\<lambda>data.
      if length data = 0 then Inl ''indexed credential missing''
      else wrapError ''decode credential'' (json_Unmarshal data))))"

definition DeleteCredential :: "faults \<Rightarrow> string \<Rightarrow> u16 \<Rightarrow> world \<Rightarrow> string + world" where
  "DeleteCredential F identityHash slot w =
    bindE (QueryByIdentitySlot F identityHash slot w) (\<lambda>credential.
    bindE (wrapError ''delete credential'' (delState F (credentialKey identityHash slot) w)) (\<lambda>w.
    wrapError ''delete TID index'' (delState F (tidIndexKey (cr_TID credential)) w)))"

section \<open>Results\<close>

lemma stub_Inr [result_simps]:
  "stubCall F call v = Inr x \<longleftrightarrow> F call = None \<and> x = v"
  "wrapError context r = Inr y \<longleftrightarrow> r = Inr y"
  by (auto simp: stubCall_def wrapError_def split: option.splits sum.splits)

lemma state_Inr [result_simps]:
  "getState F key w = Inr v \<longleftrightarrow> F (GetState key) = None \<and> v = (case w key of None \<Rightarrow> [] | Some v \<Rightarrow> v)"
  "putState F key v w = Inr w' \<longleftrightarrow> F (PutState key) = None \<and> w' = w(key \<mapsto> v)"
  "delState F key w = Inr w' \<longleftrightarrow> F (DelState key) = None \<and> w' = w(key := None)"
  by (auto simp: getState_def putState_def delState_def result_simps)

lemma no_fault_calls [simp]:
  "getState no_faults key w = Inr (case w key of None \<Rightarrow> [] | Some v \<Rightarrow> v)"
  "putState no_faults key v w = Inr (w(key \<mapsto> v))" "delState no_faults key w = Inr (w(key := None))"
  by (simp_all add: state_Inr no_faults_def)

lemma wrapError_Inr [simp]: "wrapError context (Inr v) = Inr v"
  by (simp add: wrapError_def)

text \<open>A hexadecimal text of \<open>n\<close> bytes, in either case of letters.\<close>

definition hexText :: "nat \<Rightarrow> string \<Rightarrow> bool" where
  "hexText n s \<longleftrightarrow> (\<exists>b. DecodeString s = Some b \<and> length b = n)"

lemma validateHex_Inr [simp]: "validateHex name s n = Inr u \<longleftrightarrow> hexText n s"
  by (auto simp: validateHex_def hexText_def split: option.splits)

lemma validateHex_ok: "hexText n s \<Longrightarrow> validateHex name s n = Inr ()"
  by simp

lemma hexText_Encode [simp]: "hexText n (EncodeToString b) \<longleftrightarrow> length b = n"
  by (simp add: hexText_def)

lemma DecodeString_chars: "DecodeString s = Some b \<Longrightarrow> (\<forall>c \<in> set s. fromHexChar c \<noteq> None) \<and> length s = 2 * length b"
  by (induction s arbitrary: b rule: DecodeString.induct) (auto split: option.splits)

lemma hexText_chars:
  assumes "hexText n s"
  shows "length s = 2 * n" and "plain s"
proof -
  from assms obtain b where b: "DecodeString s = Some b" "length b = n" by (auto simp: hexText_def)
  note chars = DecodeString_chars [OF b(1)]
  show "length s = 2 * n" using chars b(2) by simp
  have "fromHexChar (CHR 0x22) = None" by (simp add: fromHexChar_def)
  then show "plain s" using chars by (auto simp: plain_def)
qed

definition validCredential :: "Credential \<Rightarrow> bool" where
  "validCredential c \<longleftrightarrow> hexText 32 (cr_IdentityHash c) \<and> hexText 32 (cr_TID c) \<and> hexText 800 (cr_PublicKey c) \<and>
    hexText 32 (cr_W c) \<and> hexText 32 (cr_VerifyHash c)"

lemma valid_plain: "validCredential c \<Longrightarrow> plainCredential c"
  by (auto simp: validCredential_def plainCredential_def intro: hexText_chars(2))

lemma valid_Marshal: "validCredential c \<Longrightarrow> json_Unmarshal (json_Marshal c) = Inr c"
  by (simp add: valid_plain)

lemma Marshal_nonempty [simp]: "json_Marshal c \<noteq> []"
  by (simp add: json_Marshal_def)

lemma Marshal_inject: "validCredential c \<Longrightarrow> validCredential d \<Longrightarrow> json_Marshal c = json_Marshal d \<longleftrightarrow> c = d"
  by (metis valid_Marshal Inr_inject)

abbreviation key_of :: "Credential \<Rightarrow> string" where
  "key_of c \<equiv> credentialKey (cr_IdentityHash c) (cr_Slot c)"

lemma keys [simp]:
  "credentialKey i s \<noteq> []" "credentialKey i s \<noteq> tidIndexKey t" "tidIndexKey t \<noteq> credentialKey i s"
  "tidIndexKey t = tidIndexKey t' \<longleftrightarrow> t = t'"
  by (simp_all add: credentialKey_def tidIndexKey_def)

lemma credentialKey_inject:
  assumes "hexText 32 i" and "hexText 32 i'"
  shows "credentialKey i s = credentialKey i' s' \<longleftrightarrow> i = i' \<and> s = s'"
  using hexText_chars(1) [OF assms(1)] hexText_chars(1) [OF assms(2)]
  by (auto simp: credentialKey_def unsigned_word_eqI)

section \<open>The invariant of the ledger\<close>

text \<open>
  Records are stored under their own key, and an entry of the index leads to a stored record
  with that pseudonym. \<open>indexed\<close>: in addition every stored record is found by its pseudonym.
\<close>

definition ledger_sound :: "world \<Rightarrow> bool" where
  "ledger_sound w \<longleftrightarrow>
    (\<forall>i s v. hexText 32 i \<longrightarrow> w (credentialKey i s) = Some v \<longrightarrow>
      (\<exists>c. validCredential c \<and> cr_IdentityHash c = i \<and> cr_Slot c = s \<and> v = json_Marshal c)) \<and>
    (\<forall>t k. w (tidIndexKey t) = Some k \<longrightarrow>
      (\<exists>c. validCredential c \<and> cr_TID c = t \<and> k = key_of c \<and> w k = Some (json_Marshal c)))"

definition stored :: "world \<Rightarrow> Credential \<Rightarrow> bool" where
  "stored w c \<longleftrightarrow> validCredential c \<and> w (key_of c) = Some (json_Marshal c)"

definition indexed :: "world \<Rightarrow> bool" where
  "indexed w \<longleftrightarrow> (\<forall>c. stored w c \<longrightarrow> w (tidIndexKey (cr_TID c)) = Some (key_of c))"

lemma empty_ledger_sound: "ledger_sound Map.empty" "indexed Map.empty"
  by (simp_all add: ledger_sound_def indexed_def stored_def)

lemma sound_record:
  assumes "ledger_sound w" and "hexText 32 i" and "w (credentialKey i s) = Some v"
  obtains c where "stored w c" and "cr_IdentityHash c = i" and "cr_Slot c = s" and "v = json_Marshal c"
  using assms by (fastforce simp: ledger_sound_def stored_def)

lemma sound_index:
  assumes "ledger_sound w" and "w (tidIndexKey t) = Some k"
  obtains c where "stored w c" and "cr_TID c = t" and "k = key_of c"
  using assms by (fastforce simp: ledger_sound_def stored_def)

lemma stored_same_key: "stored w c \<Longrightarrow> stored w d \<Longrightarrow> key_of c = key_of d \<Longrightarrow> c = d"
  by (auto simp: stored_def Marshal_inject)

lemma key_of_eq: "validCredential c \<Longrightarrow> validCredential d \<Longrightarrow>
  key_of c = key_of d \<longleftrightarrow> cr_IdentityHash c = cr_IdentityHash d \<and> cr_Slot c = cr_Slot d"
  by (simp add: credentialKey_inject validCredential_def)

section \<open>What the functions do to it\<close>

text \<open>The world after a put that is not a repetition.\<close>

definition recorded :: "Credential \<Rightarrow> Credential option \<Rightarrow> world \<Rightarrow> world" where
  "recorded c previous w =
    (case previous of None \<Rightarrow> w | Some p \<Rightarrow> if cr_TID p \<noteq> cr_TID c then w(tidIndexKey (cr_TID p) := None) else w)
      (key_of c \<mapsto> json_Marshal c, tidIndexKey (cr_TID c) \<mapsto> key_of c)"

text \<open>\<open>previous\<close> is the record that \<open>c\<close> replaces.\<close>

definition replaces :: "Credential \<Rightarrow> Credential option \<Rightarrow> world \<Rightarrow> bool" where
  "replaces c previous w \<longleftrightarrow> validCredential c \<and> (\<forall>d. stored w d \<and> key_of d = key_of c \<longleftrightarrow> previous = Some d)"

lemma PutCredential_Inr:
  assumes w: "ledger_sound w" and put: "PutCredential F c w = Inr w'"
  shows "stored w c \<and> w' = w \<or> (\<exists>previous. replaces c previous w \<and> w' = recorded c previous w)"
proof -
  have valid: "validCredential c"
    using put by (auto simp: PutCredential_def validCredential_def result_simps)
  then have hex: "hexText 32 (cr_IdentityHash c)" by (simp add: validCredential_def)
  show ?thesis
  proof (cases "w (key_of c)")
    case None
    then have "w' = recorded c None w"
      using put by (auto simp: PutCredential_def replacePrevious_def recorded_def Let_def result_simps)
    moreover have "replaces c None w" using valid None by (auto simp: replaces_def stored_def)
    ultimately show ?thesis by blast
  next
    case (Some v)
    from sound_record [OF w hex this] obtain p
      where p: "stored w p" "cr_IdentityHash p = cr_IdentityHash c" "cr_Slot p = cr_Slot c" "v = json_Marshal p" .
    then have read: "json_Unmarshal v = Inr p" by (simp add: stored_def valid_Marshal)
    show ?thesis
    proof (cases "p = c")
      case True
      then have "w' = w"
        using put Some p(4) read by (auto simp: PutCredential_def replacePrevious_def Let_def result_simps)
      then show ?thesis using True p(1) by simp
    next
      case False
      then have "json_Marshal p \<noteq> json_Marshal c"
        using valid p(1) Marshal_inject by (auto simp: stored_def)
      then have "w' = recorded c (Some p) w"
        using put Some p(4) read
        by (auto simp: PutCredential_def replacePrevious_def recorded_def Let_def result_simps split: if_splits)
      moreover have "replaces c (Some p) w"
        unfolding replaces_def
      proof (intro conjI allI iffI)
        fix d assume "stored w d \<and> key_of d = key_of c"
        then show "Some p = Some d" using stored_same_key [OF p(1), of d] p(2,3) by simp
      next
        fix d assume "Some p = Some d"
        then show "stored w d" "key_of d = key_of c" using p by simp_all
      qed (rule valid)
      ultimately show ?thesis by blast
    qed
  qed
qed

text \<open>The records and the index of the two worlds that a transaction can produce.\<close>

definition removed :: "Credential \<Rightarrow> world \<Rightarrow> world" where
  "removed c w = w(key_of c := None, tidIndexKey (cr_TID c) := None)"

lemma recorded_at:
  "recorded c previous w (credentialKey i s) = (if credentialKey i s = key_of c then Some (json_Marshal c) else w (credentialKey i s))"
  "recorded c previous w (tidIndexKey t) =
    (if t = cr_TID c then Some (key_of c) else if \<exists>p. previous = Some p \<and> cr_TID p = t then None else w (tidIndexKey t))"
  by (auto simp: recorded_def split: option.split)

lemma removed_at:
  "removed c w (credentialKey i s) = (if credentialKey i s = key_of c then None else w (credentialKey i s))"
  "removed c w (tidIndexKey t) = (if t = cr_TID c then None else w (tidIndexKey t))"
  by (auto simp: removed_def)

lemma stored_recorded:
  assumes "replaces c previous w"
  shows "stored (recorded c previous w) d \<longleftrightarrow> d = c \<or> stored w d \<and> key_of d \<noteq> key_of c"
proof -
  have "validCredential c" using assms by (simp add: replaces_def)
  then show ?thesis
    by (cases "key_of d = key_of c") (auto simp: stored_def recorded_at(1) Marshal_inject)
qed

lemma stored_removed: "stored (removed c w) d \<longleftrightarrow> stored w d \<and> key_of d \<noteq> key_of c"
  by (auto simp: stored_def removed_at)

lemma recorded_sound:
  assumes w: "ledger_sound w" and c: "replaces c previous w"
  shows "ledger_sound (recorded c previous w)"
  unfolding ledger_sound_def
proof (intro conjI allI impI)
  fix i s v
  assume i: "hexText 32 i" and v: "recorded c previous w (credentialKey i s) = Some v"
  show "\<exists>d. validCredential d \<and> cr_IdentityHash d = i \<and> cr_Slot d = s \<and> v = json_Marshal d"
  proof (cases "credentialKey i s = key_of c")
    case True
    then have "i = cr_IdentityHash c" "s = cr_Slot c"
      using credentialKey_inject [OF i] c by (auto simp: replaces_def validCredential_def)
    then show ?thesis using v True c by (intro exI [of _ c]) (simp add: recorded_at replaces_def)
  next
    case False
    then have "w (credentialKey i s) = Some v" using v by (simp add: recorded_at)
    from sound_record [OF w i this] obtain d
      where "stored w d" "cr_IdentityHash d = i" "cr_Slot d = s" "v = json_Marshal d" .
    then show ?thesis by (auto simp: stored_def)
  qed
next
  fix t k
  assume k: "recorded c previous w (tidIndexKey t) = Some k"
  show "\<exists>d. validCredential d \<and> cr_TID d = t \<and> k = key_of d \<and> recorded c previous w k = Some (json_Marshal d)"
  proof (cases "t = cr_TID c")
    case True
    then have "k = key_of c" using k by (simp add: recorded_at)
    then show ?thesis using c True by (intro exI [of _ c]) (simp add: recorded_at(1) replaces_def)
  next
    case other: False
    then have "w (tidIndexKey t) = Some k" and gone: "\<nexists>p. previous = Some p \<and> cr_TID p = t"
      using k by (simp_all add: recorded_at split: if_splits)
    from sound_index [OF w this(1)] obtain d where d: "stored w d" "cr_TID d = t" "k = key_of d" .
    then have "key_of d \<noteq> key_of c" using c gone by (auto simp: replaces_def)
    then show ?thesis using d by (intro exI [of _ d]) (simp add: recorded_at stored_def)
  qed
qed

lemma removed_sound:
  assumes w: "ledger_sound w" and c: "stored w c"
  shows "ledger_sound (removed c w)"
  unfolding ledger_sound_def
proof (intro conjI allI impI)
  fix i s v
  assume "hexText 32 i" and "removed c w (credentialKey i s) = Some v"
  then have i: "hexText 32 i" and "w (credentialKey i s) = Some v" by (simp_all add: removed_at split: if_splits)
  from sound_record [OF w this] obtain d
    where "stored w d" "cr_IdentityHash d = i" "cr_Slot d = s" "v = json_Marshal d" .
  then show "\<exists>d. validCredential d \<and> cr_IdentityHash d = i \<and> cr_Slot d = s \<and> v = json_Marshal d"
    by (auto simp: stored_def)
next
  fix t k
  assume "removed c w (tidIndexKey t) = Some k"
  then have "w (tidIndexKey t) = Some k" and t: "t \<noteq> cr_TID c" by (simp_all add: removed_at split: if_splits)
  from sound_index [OF w this(1)] obtain d where d: "stored w d" "cr_TID d = t" "k = key_of d" .
  then have "key_of d \<noteq> key_of c" using stored_same_key [OF _ c] t by blast
  then show "\<exists>d. validCredential d \<and> cr_TID d = t \<and> k = key_of d \<and> removed c w k = Some (json_Marshal d)"
    using d by (intro exI [of _ d]) (simp add: removed_at stored_def)
qed

text \<open>The index stays complete when no other record has the pseudonym of the new one.\<close>

definition free_TID :: "Credential \<Rightarrow> world \<Rightarrow> bool" where
  "free_TID c w \<longleftrightarrow> (\<forall>d. stored w d \<and> cr_TID d = cr_TID c \<longrightarrow> key_of d = key_of c)"

lemma recorded_indexed:
  assumes "indexed w" and c: "replaces c previous w" and "free_TID c w"
  shows "indexed (recorded c previous w)"
  unfolding indexed_def
proof (intro allI impI)
  fix d assume "stored (recorded c previous w) d"
  then consider "d = c" | "stored w d" "key_of d \<noteq> key_of c" by (auto simp: stored_recorded [OF c])
  then show "recorded c previous w (tidIndexKey (cr_TID d)) = Some (key_of d)"
  proof cases
    case 2
    then have "cr_TID d \<noteq> cr_TID c" using assms(3) by (auto simp: free_TID_def)
    moreover have "cr_TID p \<noteq> cr_TID d" if "previous = Some p" for p
    proof
      assume tid: "cr_TID p = cr_TID d"
      from that c have "stored w p" "key_of p = key_of c" by (auto simp: replaces_def)
      then have "w (tidIndexKey (cr_TID p)) = Some (key_of c)" using assms(1) by (simp add: indexed_def)
      then show False using assms(1) 2 tid by (simp add: indexed_def)
    qed
    ultimately show ?thesis using assms(1) 2(1) by (auto simp: recorded_at(2) indexed_def)
  qed (simp add: recorded_at)
qed

lemma removed_indexed:
  assumes "indexed w" and "stored w c"
  shows "indexed (removed c w)"
  unfolding indexed_def
proof (intro allI impI)
  fix d assume "stored (removed c w) d"
  then have d: "stored w d" "key_of d \<noteq> key_of c" by (simp_all add: stored_removed)
  then have "w (tidIndexKey (cr_TID d)) = Some (key_of d)" "w (tidIndexKey (cr_TID c)) = Some (key_of c)"
    using assms by (simp_all add: indexed_def)
  then show "removed c w (tidIndexKey (cr_TID d)) = Some (key_of d)"
    using d(2) by (auto simp: removed_at(2))
qed

lemma DeleteCredential_Inr:
  assumes "ledger_sound w" and "DeleteCredential F i s w = Inr w'"
  obtains c where "stored w c" and "cr_IdentityHash c = i" and "cr_Slot c = s" and "w' = removed c w"
proof -
  from assms(2) obtain c v where hex: "hexText 32 i" and v: "w (credentialKey i s) = Some v" and c: "json_Unmarshal v = Inr c"
    and w': "w' = w(credentialKey i s := None, tidIndexKey (cr_TID c) := None)"
    by (auto simp: DeleteCredential_def QueryByIdentitySlot_def result_simps split: if_splits option.splits)
  from sound_record [OF assms(1) hex v] obtain d
    where d: "stored w d" "cr_IdentityHash d = i" "cr_Slot d = s" "v = json_Marshal d" .
  then have "d = c" using c by (simp add: stored_def valid_Marshal)
  then show ?thesis using that [of c] d w' by (simp add: removed_def)
qed

section \<open>Queries\<close>

lemma QueryByIdentitySlot_Inr:
  assumes "ledger_sound w" and "QueryByIdentitySlot F i s w = Inr c"
  shows "stored w c \<and> cr_IdentityHash c = i \<and> cr_Slot c = s"
proof -
  from assms(2) obtain v where hex: "hexText 32 i" and v: "w (credentialKey i s) = Some v" and c: "json_Unmarshal v = Inr c"
    by (auto simp: QueryByIdentitySlot_def result_simps split: if_splits option.splits)
  from sound_record [OF assms(1) hex v] obtain d
    where d: "stored w d" "cr_IdentityHash d = i" "cr_Slot d = s" "v = json_Marshal d" .
  then have "d = c" using c by (simp add: stored_def valid_Marshal)
  then show ?thesis using d by simp
qed

lemma QueryByTemporaryIdentity_Inr:
  assumes "ledger_sound w" and "QueryByTemporaryIdentity F t w = Inr c"
  shows "stored w c \<and> cr_TID c = t"
proof -
  from assms(2) obtain k v where k: "w (tidIndexKey t) = Some k" and v: "w k = Some v" and c: "json_Unmarshal v = Inr c"
    by (auto simp: QueryByTemporaryIdentity_def result_simps split: if_splits option.splits)
  from sound_index [OF assms(1) k] obtain d where d: "stored w d" "cr_TID d = t" "k = key_of d" .
  then have "v = json_Marshal d" "validCredential d" using v by (simp_all add: stored_def)
  then have "d = c" using c valid_Marshal [of d] by simp
  then show ?thesis using d by simp
qed

lemma QueryByIdentitySlot_stored:
  "stored w c \<Longrightarrow> QueryByIdentitySlot no_faults (cr_IdentityHash c) (cr_Slot c) w = Inr c"
  by (auto simp: QueryByIdentitySlot_def stored_def validCredential_def validateHex_ok valid_Marshal)

lemma QueryByTemporaryIdentity_stored:
  "stored w c \<Longrightarrow> w (tidIndexKey (cr_TID c)) = Some (key_of c) \<Longrightarrow> QueryByTemporaryIdentity no_faults (cr_TID c) w = Inr c"
  by (auto simp: QueryByTemporaryIdentity_def stored_def validCredential_def validateHex_ok valid_Marshal)

lemma QueryByIdentitySlot_missing:
  "hexText 32 i \<Longrightarrow> w (credentialKey i s) = None \<Longrightarrow> QueryByIdentitySlot no_faults i s w = Inl ''credential not found''"
  by (simp add: QueryByIdentitySlot_def validateHex_ok)

text \<open>Without faults of the peer a valid record is put.\<close>

lemma PutCredential_works:
  assumes "ledger_sound w" and "validCredential c"
  shows "\<exists>w'. PutCredential no_faults c w = Inr w'"
proof -
  have hex: "hexText 32 (cr_IdentityHash c)" using assms(2) by (simp add: validCredential_def)
  show ?thesis
  proof (cases "w (key_of c)")
    case None
    then show ?thesis
      using assms(2) by (simp add: PutCredential_def replacePrevious_def validCredential_def validateHex_ok Let_def)
  next
    case (Some v)
    from sound_record [OF assms(1) hex this] obtain p where "stored w p" "v = json_Marshal p" by blast
    then have "json_Unmarshal v = Inr p" "v \<noteq> []" by (simp_all add: stored_def valid_Marshal)
    then show ?thesis
      using assms(2) Some by (simp add: PutCredential_def replacePrevious_def validCredential_def validateHex_ok Let_def)
  qed
qed

section \<open>Histories\<close>

text \<open>The worlds that transactions lead to, with whatever faults of the peer.\<close>

inductive ledger_reachable :: "world \<Rightarrow> bool" where
  created: "ledger_reachable Map.empty"
| put: "ledger_reachable w \<Longrightarrow> PutCredential F c w = Inr w' \<Longrightarrow> ledger_reachable w'"
| deleted: "ledger_reachable w \<Longrightarrow> DeleteCredential F i s w = Inr w' \<Longrightarrow> ledger_reachable w'"

lemma put_sound: "ledger_sound w \<Longrightarrow> PutCredential F c w = Inr w' \<Longrightarrow> ledger_sound w'"
  using PutCredential_Inr recorded_sound by blast

lemma delete_sound:
  assumes "ledger_sound w" and "DeleteCredential F i s w = Inr w'"
  shows "ledger_sound w'"
  by (rule DeleteCredential_Inr [OF assms]) (simp add: removed_sound assms(1))

lemma reachable_sound: "ledger_reachable w \<Longrightarrow> ledger_sound w"
  by (induction rule: ledger_reachable.induct) (auto intro: empty_ledger_sound put_sound delete_sound)

section \<open>The ledger as a store with an index\<close>

text \<open>
  What a client of such a store may rely on: a record is found under its key and by its tag, and
  a put concerns no other key, as long as no two keys share a tag.
\<close>

locale indexed_store =
  fixes inv :: "'s \<Rightarrow> bool"
    and holds :: "'s \<Rightarrow> 'v \<Rightarrow> bool"
    and find :: "'t \<Rightarrow> 's \<Rightarrow> 'v option"
    and put :: "'v \<Rightarrow> 's \<Rightarrow> 's"
    and key :: "'v \<Rightarrow> 'k"
    and tag :: "'v \<Rightarrow> 't"
    and ok :: "'v \<Rightarrow> bool"
  assumes put_inv: "inv s \<Longrightarrow> ok v \<Longrightarrow> (\<And>u. holds s u \<Longrightarrow> tag u = tag v \<Longrightarrow> key u = key v) \<Longrightarrow> inv (put v s)"
    and put_holds: "inv s \<Longrightarrow> ok v \<Longrightarrow> holds (put v s) u \<longleftrightarrow> u = v \<or> holds s u \<and> key u \<noteq> key v"
    and find_iff: "inv s \<Longrightarrow> find t s = Some v \<longleftrightarrow> holds s v \<and> tag v = t"
begin

definition tagged_apart :: "'v set \<Rightarrow> bool" where
  "tagged_apart V \<longleftrightarrow> (\<forall>u \<in> V. \<forall>v \<in> V. tag u = tag v \<longrightarrow> key u = key v)"

lemma put_found: "inv s \<Longrightarrow> ok v \<Longrightarrow> (\<And>u. holds s u \<Longrightarrow> tag u = tag v \<Longrightarrow> key u = key v) \<Longrightarrow> find (tag v) (put v s) = Some v"
  by (simp add: find_iff put_inv put_holds)

text \<open>After a series of puts exactly the records that no later one replaced are there, all of them found.\<close>

lemma puts_holds:
  assumes "inv s" and "\<forall>v \<in> set vs. ok v" and "tagged_apart ({u. holds s u} \<union> set vs)"
  shows "inv (fold put vs s) \<and> (\<forall>v. distinct (map key vs) \<and> v \<in> set vs \<longrightarrow> holds (fold put vs s) v) \<and>
    (\<forall>u. holds s u \<and> key u \<notin> key ` set vs \<longrightarrow> holds (fold put vs s) u)"
  using assms
proof (induction vs arbitrary: s)
  case (Cons v vs)
  have inv: "inv (put v s)" using Cons.prems by (intro put_inv) (auto simp: tagged_apart_def)
  have h: "holds (put v s) u \<longleftrightarrow> u = v \<or> holds s u \<and> key u \<noteq> key v" for u
    using Cons.prems by (intro put_holds) auto
  have "tagged_apart ({u. holds (put v s) u} \<union> set vs)"
    using Cons.prems(3) by (auto simp: tagged_apart_def h)
  with Cons.IH [OF inv] Cons.prems(2) show ?case by (auto simp: h)
qed simp

end

text \<open>On a peer that works.\<close>

definition put_record :: "Credential \<Rightarrow> world \<Rightarrow> world" where
  "put_record c w = (case PutCredential no_faults c w of Inl e \<Rightarrow> w | Inr w' \<Rightarrow> w')"

definition find_record :: "string \<Rightarrow> world \<Rightarrow> Credential option" where
  "find_record t w = (case QueryByTemporaryIdentity no_faults t w of Inl e \<Rightarrow> None | Inr c \<Rightarrow> Some c)"

lemma put_record_cases:
  assumes "ledger_sound w" and "validCredential c"
  obtains "stored w c" "put_record c w = w" | previous where "replaces c previous w" "put_record c w = recorded c previous w"
proof -
  obtain w' where w': "PutCredential no_faults c w = Inr w'" using PutCredential_works [OF assms] by blast
  then have "put_record c w = w'" by (simp add: put_record_def)
  with PutCredential_Inr [OF assms(1) w'] that show ?thesis by blast
qed

lemma put_record_stored: "stored w c \<Longrightarrow> put_record c w = w"
  by (simp add: put_record_def PutCredential_def replacePrevious_def stored_def validCredential_def validateHex_ok Let_def valid_Marshal
      [unfolded validCredential_def])

interpretation credentials: indexed_store "\<lambda>w. ledger_sound w \<and> indexed w" stored find_record put_record
  key_of cr_TID validCredential
proof
  fix w c d
  assume w: "ledger_sound w \<and> indexed w" and c: "validCredential c"
  show "stored (put_record c w) d \<longleftrightarrow> d = c \<or> stored w d \<and> key_of d \<noteq> key_of c"
    by (rule put_record_cases [of w c]) (use w c stored_same_key [of w c d] in \<open>auto simp: stored_recorded\<close>)
  assume "\<And>u. stored w u \<Longrightarrow> cr_TID u = cr_TID c \<Longrightarrow> key_of u = key_of c"
  then have "free_TID c w" by (simp add: free_TID_def)
  then show "ledger_sound (put_record c w) \<and> indexed (put_record c w)"
    by (rule_tac put_record_cases [of w c]) (use w c in \<open>auto simp: recorded_sound recorded_indexed\<close>)
next
  fix w t c
  assume w: "ledger_sound w \<and> indexed w"
  show "find_record t w = Some c \<longleftrightarrow> stored w c \<and> cr_TID c = t"
  proof
    assume "find_record t w = Some c"
    then show "stored w c \<and> cr_TID c = t"
      using w QueryByTemporaryIdentity_Inr [of w no_faults t c] by (simp add: find_record_def split: sum.splits)
  next
    assume c: "stored w c \<and> cr_TID c = t"
    then have "w (tidIndexKey (cr_TID c)) = Some (key_of c)" using w unfolding indexed_def by blast
    then show "find_record t w = Some c"
      using c QueryByTemporaryIdentity_stored [of w c] by (auto simp: find_record_def)
  qed
qed

end
