(* ===== verification/FabricGateway.thy ===== *)
theory FabricGateway
  imports FabricChaincode
begin

text \<open>
  The UDP gateway between the drones and the ledger, \<open>fabric/gateway-go/main.go\<close>. Go's
  HMAC-SHA-256 is the parameter \<open>H\<close>; \<open>binary.BigEndian\<close> is the codec of \<open>ProtocolConstants\<close>. The
  Fabric client library is the record \<open>contract\<close> of its two calls, which see the world of the
  ledger; the times they take are arguments. Connecting to a peer, keys and certificates, the
  environment variables and the log are left out.
\<close>

section \<open>Constants\<close>

abbreviation (input) gatewayMagic :: u16 where "gatewayMagic \<equiv> 0xA952"
abbreviation (input) gatewayVersion :: u8 where "gatewayVersion \<equiv> 1"
abbreviation (input) requestHeaderBytes :: nat where "requestHeaderBytes \<equiv> 12"
abbreviation (input) responseHeaderBytes :: nat where "responseHeaderBytes \<equiv> 19"
abbreviation (input) tagBytes :: nat where "tagBytes \<equiv> 32"
abbreviation (input) idBytes :: nat where "idBytes \<equiv> 32"
abbreviation (input) tidBytes :: nat where "tidBytes \<equiv> 32"
abbreviation (input) publicKeyBytes :: nat where "publicKeyBytes \<equiv> 800"
abbreviation (input) wBytes :: nat where "wBytes \<equiv> 32"
abbreviation (input) hashBytes :: nat where "hashBytes \<equiv> 32"
abbreviation (input) recordBytes :: nat where "recordBytes \<equiv> 928"
abbreviation (input) maxPacketBytes :: nat where "maxPacketBytes \<equiv> 979"
abbreviation (input) opPutCredential :: u8 where "opPutCredential \<equiv> 1"
abbreviation (input) opQueryIdentitySlot :: u8 where "opQueryIdentitySlot \<equiv> 2"
abbreviation (input) opQueryTID :: u8 where "opQueryTID \<equiv> 3"
abbreviation (input) opPing :: u8 where "opPing \<equiv> 4"
abbreviation (input) statusOK :: u8 where "statusOK \<equiv> 0"
abbreviation (input) statusBadRequest :: u8 where "statusBadRequest \<equiv> 1"
abbreviation (input) statusNotFound :: u8 where "statusNotFound \<equiv> 2"
abbreviation (input) statusFabricError :: u8 where "statusFabricError \<equiv> 3"
abbreviation (input) statusAuthentication :: u8 where "statusAuthentication \<equiv> 4"

lemma gateway_sizes:
  "recordBytes = idBytes + tidBytes + publicKeyBytes + wBytes + hashBytes"
  "maxPacketBytes = responseHeaderBytes + recordBytes + tagBytes"
  by simp_all

definition labHMACKey :: bytes where
  "labHMACKey =
    [0x7a, 0x0c, 0x9e, 0x51, 0x2b, 0xd8, 0x44, 0xf0,
     0xa1, 0x63, 0x37, 0x8d, 0xe4, 0x05, 0xc9, 0x72,
     0x19, 0xb6, 0x2f, 0xaa, 0x84, 0x33, 0xd1, 0x5c,
     0x68, 0xef, 0x90, 0x47, 0x12, 0xbc, 0x5a, 0x26]"

section \<open>Packets\<close>

record request =
  rq_op :: u8
  rq_requestID :: u32
  rq_slot :: u16
  rq_payload :: bytes

definition authenticate :: "(bytes \<Rightarrow> bytes \<Rightarrow> bytes) \<Rightarrow> bytes \<Rightarrow> bytes \<Rightarrow> bool" where
  "authenticate H data tag \<longleftrightarrow> H labHMACKey data = tag"

text \<open>The three results: the request, the status and the error.\<close>

definition parseRequest :: "(bytes \<Rightarrow> bytes \<Rightarrow> bytes) \<Rightarrow> bytes \<Rightarrow> request option \<times> u8 \<times> string option" where
  "parseRequest H packet =
    (if length packet < requestHeaderBytes + tagBytes then (None, statusBadRequest, Some ''packet too short'')
     else if getU16 packet \<noteq> gatewayMagic \<or> packet ! 2 \<noteq> gatewayVersion
     then (None, statusBadRequest, Some ''bad magic or version'')
     else
       let payloadLength = unat (getU16 (drop 10 packet));
           expectedLength = requestHeaderBytes + payloadLength + tagBytes
       in if expectedLength \<noteq> length packet then (None, statusBadRequest, Some ''length mismatch'')
          else if \<not> authenticate H (take (requestHeaderBytes + payloadLength) packet) (drop (requestHeaderBytes + payloadLength) packet)
          then (None, statusAuthentication, Some ''HMAC verification failed'')
          else
            (Some \<lparr>rq_op = packet ! 3, rq_requestID = getU32 (drop 4 packet), rq_slot = getU16 (drop 8 packet),
                   rq_payload = read_at 12 payloadLength packet\<rparr>, statusOK, None))"

text \<open>A request comes with status 0 and without an error, an error without a request.\<close>

lemma parseRequest_cases:
  obtains (accepted) req where "parseRequest H packet = (Some req, statusOK, None)"
      and "requestHeaderBytes + tagBytes \<le> length packet"
      and "H labHMACKey (take (length packet - tagBytes) packet) = drop (length packet - tagBytes) packet"
  | (refused) st err where "parseRequest H packet = (None, st, Some err)"
proof (cases "length packet < 44 \<or> getU16 packet \<noteq> gatewayMagic \<or> packet ! 2 \<noteq> gatewayVersion")
  case True
  then have "\<exists>st err. parseRequest H packet = (None, st, Some err)"
    by (elim disjE) (simp_all add: parseRequest_def)
  then show ?thesis using refused by blast
next
  case ok: False
  let ?n = "unat (getU16 (drop 10 packet))"
  show ?thesis
  proof (cases "12 + ?n + 32 \<noteq> length packet \<or> \<not> authenticate H (take (12 + ?n) packet) (drop (12 + ?n) packet)")
    case True
    then have "\<exists>st err. parseRequest H packet = (None, st, Some err)" using ok by (simp add: parseRequest_def Let_def)
    then show ?thesis using refused by blast
  next
    case False
    then have "12 + ?n + 32 = length packet" by simp
    then have "12 + ?n = length packet - 32" by (metis diff_add_inverse2)
    then show ?thesis
      using ok False by (intro accepted) (auto simp: parseRequest_def Let_def authenticate_def)
  qed
qed

definition buildResponse :: "(bytes \<Rightarrow> bytes \<Rightarrow> bytes) \<Rightarrow> u8 \<Rightarrow> u32 \<Rightarrow> u8 \<Rightarrow> u64 \<Rightarrow> bytes \<Rightarrow> bytes" where
  "buildResponse H op requestID status fabricUS payload =
    (let response = zeros (responseHeaderBytes + length payload + tagBytes);
         response = write_at 0 (putU16 gatewayMagic) response;
         response = response[2 := gatewayVersion];
         response = response[3 := op OR 0x80];
         response = write_at 4 (putU32 requestID) response;
         response = response[8 := status];
         response = write_at 9 (putU64 fabricUS) response;
         response = write_at 17 (putU16 (of_nat (length payload))) response;
         response = write_at 19 payload response;
         sum = H labHMACKey (take (responseHeaderBytes + length payload) response)
     in write_at (responseHeaderBytes + length payload) sum response)"

section \<open>Credentials\<close>

definition credentialFromPayload :: "bytes \<Rightarrow> u16 \<Rightarrow> string + Credential" where
  "credentialFromPayload payload slot =
    (if length payload \<noteq> recordBytes then Inl (''credential payload must be '' @ Itoa recordBytes @ '' bytes'')
     else
       let offset = 0;
           identityHash = EncodeToString (read_at offset idBytes payload); offset = offset + idBytes;
           tid = EncodeToString (read_at offset tidBytes payload); offset = offset + tidBytes;
           publicKey = EncodeToString (read_at offset publicKeyBytes payload); offset = offset + publicKeyBytes;
           w = EncodeToString (read_at offset wBytes payload); offset = offset + wBytes;
           verifyHash = EncodeToString (read_at offset hashBytes payload)
       in Inr \<lparr>cr_IdentityHash = identityHash, cr_Slot = slot, cr_TID = tid, cr_PublicKey = publicKey,
               cr_W = w, cr_VerifyHash = verifyHash\<rparr>)"

definition credentialField :: "string \<times> string \<times> nat \<Rightarrow> string + bytes" where
  "credentialField = (\<lambda>(name, value, size).
    case DecodeString value of
      None \<Rightarrow> Inl (''invalid '' @ name @ '' in ledger response'')
    | Some decoded \<Rightarrow>
        if length decoded \<noteq> size then Inl (''invalid '' @ name @ '' in ledger response'') else Inr decoded)"

definition credentialPayload :: "Credential \<Rightarrow> string + bytes" where
  "credentialPayload c =
    bindE (mapE credentialField
      [(''identityHash'', cr_IdentityHash c, idBytes), (''tid'', cr_TID c, tidBytes),
       (''publicKey'', cr_PublicKey c, publicKeyBytes), (''w'', cr_W c, wBytes),
       (''verifyHash'', cr_VerifyHash c, hashBytes)])
    (\<lambda>decoded. Inr (concat decoded))"

definition sameCredential :: "Credential \<Rightarrow> Credential \<Rightarrow> bool" where
  "sameCredential a b \<longleftrightarrow>
    cr_IdentityHash a = cr_IdentityHash b \<and> cr_Slot a = cr_Slot b \<and> cr_TID a = cr_TID b \<and>
    cr_PublicKey a = cr_PublicKey b \<and> cr_W a = cr_W b \<and> cr_VerifyHash a = cr_VerifyHash b"

text \<open>\<open>strings.ToLower\<close> on ASCII and \<open>strings.Contains\<close>.\<close>

definition toLower :: "string \<Rightarrow> string" where
  "toLower = map (\<lambda>c. let n = of_char c :: nat in if 65 \<le> n \<and> n \<le> 90 then char_of (n + 32) else c)"

fun contains :: "string \<Rightarrow> string \<Rightarrow> bool" where
  "contains [] t \<longleftrightarrow> t = []"
| "contains (c # s) t \<longleftrightarrow> take (length t) (c # s) = t \<or> contains s t"

definition isNotFound :: "string \<Rightarrow> bool" where
  "isNotFound err \<longleftrightarrow> contains (toLower err) ''not found'' \<or> contains (toLower err) ''missing''"

section \<open>Requests\<close>

record contract =
  EvaluateTransaction :: "string \<Rightarrow> string list \<Rightarrow> world \<Rightarrow> string + string"
  SubmitTransaction :: "string \<Rightarrow> string list \<Rightarrow> world \<Rightarrow> (string + string) \<times> world"

definition evaluateCredential :: "contract \<Rightarrow> string \<Rightarrow> string list \<Rightarrow> world \<Rightarrow> string + Credential" where
  "evaluateCredential C function args w = bindE (EvaluateTransaction C function args w) json_Unmarshal"

text \<open>What both queries do with the credential: status, time and payload.\<close>

definition answerQuery :: "string + Credential \<Rightarrow> u64 \<Rightarrow> u8 \<times> u64 \<times> bytes" where
  "answerQuery result elapsed =
    (case result of
       Inl err \<Rightarrow> if isNotFound err then (statusNotFound, elapsed, []) else (statusFabricError, elapsed, [])
     | Inr credential \<Rightarrow>
         (case credentialPayload credential of
            Inl err \<Rightarrow> (statusFabricError, elapsed, [])
          | Inr payload \<Rightarrow> (statusOK, elapsed, payload)))"

definition handlePut :: "contract \<Rightarrow> u64 \<Rightarrow> u64 \<Rightarrow> request \<Rightarrow> world \<Rightarrow> (u8 \<times> u64 \<times> bytes) \<times> world" where
  "handlePut C evalUS submitUS req w =
    (case credentialFromPayload (rq_payload req) (rq_slot req) of
       Inl err \<Rightarrow> ((statusBadRequest, 0, []), w)
     | Inr c \<Rightarrow>
         if (case evaluateCredential C ''QueryByIdentitySlot'' [cr_IdentityHash c, Itoa (unat (rq_slot req))] w of
               Inl queryErr \<Rightarrow> False | Inr existing \<Rightarrow> sameCredential existing c)
         then ((statusOK, evalUS, []), w)
         else
           (case SubmitTransaction C ''PutCredential''
                   [cr_IdentityHash c, Itoa (unat (rq_slot req)), cr_TID c, cr_PublicKey c, cr_W c, cr_VerifyHash c] w of
              (Inl err, w) \<Rightarrow> ((statusFabricError, submitUS, []), w)
            | (Inr _, w) \<Rightarrow> ((statusOK, submitUS, []), w)))"

definition handle :: "contract \<Rightarrow> u64 \<Rightarrow> u64 \<Rightarrow> request \<Rightarrow> world \<Rightarrow> (u8 \<times> u64 \<times> bytes) \<times> world" where
  "handle C evalUS submitUS req w =
    (if rq_op req = opPing then ((statusOK, 0, []), w)
     else if rq_op req = opPutCredential then handlePut C evalUS submitUS req w
     else if rq_op req = opQueryIdentitySlot then
       (if length (rq_payload req) \<noteq> idBytes then (statusBadRequest, 0, [])
        else answerQuery
          (evaluateCredential C ''QueryByIdentitySlot'' [EncodeToString (rq_payload req), Itoa (unat (rq_slot req))] w) evalUS, w)
     else if rq_op req = opQueryTID then
       (if length (rq_payload req) \<noteq> tidBytes then (statusBadRequest, 0, [])
        else answerQuery (evaluateCredential C ''QueryByTemporaryIdentity'' [EncodeToString (rq_payload req)] w) evalUS, w)
     else ((statusBadRequest, 0, []), w))"

section \<open>The service\<close>

text \<open>An address, and what one iteration of the loop meets at the socket.\<close>

type_synonym address = "u32 \<times> u16"

datatype udp_event = DeadlineError | ReadTimeout | ReadError | Received bytes address

text \<open>One datagram: what is sent, and the ledger afterwards.\<close>

definition serveDatagram ::
  "(bytes \<Rightarrow> bytes \<Rightarrow> bytes) \<Rightarrow> contract \<Rightarrow> u64 \<Rightarrow> u64 \<Rightarrow> bytes \<Rightarrow> address \<Rightarrow> world \<Rightarrow> (address \<times> bytes) list \<times> world" where
  "serveDatagram H C evalUS submitUS datagram remote w =
    (let packet = take maxPacketBytes datagram in
     case parseRequest H packet of
       (req, parseStatus, Some parseErr) \<Rightarrow>
         (case req of
            None \<Rightarrow> ([], w)
          | Some req \<Rightarrow> ([(remote, buildResponse H (rq_op req) (rq_requestID req) parseStatus 0 [])], w))
     | (None, parseStatus, None) \<Rightarrow> ([], w)
     | (Some req, parseStatus, None) \<Rightarrow>
         (case handle C evalUS submitUS req w of
            ((status, fabricUS, payload), w) \<Rightarrow>
              (replicate 3 (remote, buildResponse H (rq_op req) (rq_requestID req) status fabricUS payload), w)))"

text \<open>
  The loop over what it meets; each datagram comes with the times of the calls it causes. The
  flag says that the loop has returned. Its context is never cancelled.
\<close>

fun serve ::
  "(bytes \<Rightarrow> bytes \<Rightarrow> bytes) \<Rightarrow> contract \<Rightarrow> (udp_event \<times> u64 \<times> u64) list \<Rightarrow> world \<Rightarrow> (address \<times> bytes) list \<times> world \<times> bool" where
  "serve H C [] w = ([], w, False)"
| "serve H C ((ev, evalUS, submitUS) # evs) w =
    (case ev of
       DeadlineError \<Rightarrow> ([], w, True)
     | ReadTimeout \<Rightarrow> serve H C evs w
     | ReadError \<Rightarrow> ([], w, True)
     | Received datagram remote \<Rightarrow>
         (case serveDatagram H C evalUS submitUS datagram remote w of
            (sent, w) \<Rightarrow> (case serve H C evs w of (later, w, returned) \<Rightarrow> (sent @ later, w, returned))))"

end
