(* ===== verification/FabricExchange.thy ===== *)
theory FabricExchange
  imports FabricGateway ApqeProperties
begin

text \<open>
  Drone, gateway and chaincode together. The gateway accepts exactly the requests that
  \<open>FabricUdpClient\<close> sends, the client accepts what the gateway answers, and the Fabric network
  between gateway and chaincode is described by \<open>runs_chaincode\<close>. Both ends are linked by
  \<open>same_mac\<close>: wolfSSL and Go compute the same HMAC-SHA-256 for packets of these sizes.
\<close>

section \<open>The three parts\<close>

definition same_mac :: "wolf \<Rightarrow> (bytes \<Rightarrow> bytes \<Rightarrow> bytes) \<Rightarrow> bool" where
  "same_mac W H \<longleftrightarrow> (\<forall>x. length x \<le> GATEWAY_MAX_RESPONSE_BYTES \<longrightarrow> snd (wc_HmacFinal W GATEWAY_HMAC_KEY x) = H labHMACKey x)"

lemma shared_gateway_key: "labHMACKey = GATEWAY_HMAC_KEY"
  by (simp add: labHMACKey_def GATEWAY_HMAC_KEY_def)

text \<open>
  A Fabric network without failures: an evaluated function runs on the ledger, a submitted one
  also changes it; an error reaches the caller inside a longer text.
\<close>

definition relay :: "(string \<Rightarrow> string) \<Rightarrow> string + string \<Rightarrow> string + string" where
  "relay f r = (case r of Inl e \<Rightarrow> Inl (f e) | Inr v \<Rightarrow> Inr v)"

definition marshalled :: "string + Credential \<Rightarrow> string + string" where
  "marshalled r = bindE r (\<lambda>c. Inr (json_Marshal c))"

definition put_arguments :: "Credential \<Rightarrow> string list" where
  "put_arguments c = [cr_IdentityHash c, Itoa (unat (cr_Slot c)), cr_TID c, cr_PublicKey c, cr_W c, cr_VerifyHash c]"

definition runs_chaincode :: "contract \<Rightarrow> bool" where
  "runs_chaincode C \<longleftrightarrow>
    (\<exists>f. (\<forall>e. \<exists>pre post. f e = pre @ e @ post) \<and>
      (\<forall>i s w. EvaluateTransaction C ''QueryByIdentitySlot'' [i, Itoa (unat (s :: u16))] w =
        relay f (marshalled (QueryByIdentitySlot no_faults i s w))) \<and>
      (\<forall>t w. EvaluateTransaction C ''QueryByTemporaryIdentity'' [t] w = relay f (marshalled (QueryByTemporaryIdentity no_faults t w))) \<and>
      (\<forall>c w. SubmitTransaction C ''PutCredential'' (put_arguments c) w =
        (case PutCredential no_faults c w of Inl e \<Rightarrow> (Inl (f e), w) | Inr w' \<Rightarrow> (Inr [], w'))))"

text \<open>Such a network: it dispatches by name and reads the slot from its text.\<close>

definition labError :: "string \<Rightarrow> string" where
  "labError e = ''chaincode response 500, '' @ e"

definition lab_contract :: contract where
  "lab_contract =
    \<lparr>EvaluateTransaction = (\<lambda>function args w.
       if function = ''QueryByIdentitySlot''
       then relay labError (marshalled (QueryByIdentitySlot no_faults (args ! 0) (of_nat (decimal_value (args ! 1))) w))
       else relay labError (marshalled (QueryByTemporaryIdentity no_faults (args ! 0) w))),
     SubmitTransaction = (\<lambda>function args w.
       case PutCredential no_faults \<lparr>cr_IdentityHash = args ! 0, cr_Slot = of_nat (decimal_value (args ! 1)), cr_TID = args ! 2,
           cr_PublicKey = args ! 3, cr_W = args ! 4, cr_VerifyHash = args ! 5\<rparr> w of
         Inl e \<Rightarrow> (Inl (labError e), w)
       | Inr w' \<Rightarrow> (Inr [], w'))\<rparr>"

lemma lab_contract_runs: "runs_chaincode lab_contract"
  unfolding runs_chaincode_def
proof (intro exI conjI allI)
  fix e show "labError e = ''chaincode response 500, '' @ e @ []" by (simp add: labError_def)
next
  fix c w
  show "SubmitTransaction lab_contract ''PutCredential'' (put_arguments c) w =
      (case PutCredential no_faults c w of Inl e \<Rightarrow> (Inl (labError e), w) | Inr w' \<Rightarrow> (Inr [], w'))"
    by (cases c) (simp add: lab_contract_def put_arguments_def)
qed (simp_all add: lab_contract_def)

section \<open>Records as credentials of the ledger\<close>

definition as_ledger :: "u16 \<Rightarrow> FabricCredential \<Rightarrow> Credential" where
  "as_ledger slot cred =
    \<lparr>cr_IdentityHash = EncodeToString (fc_identityHash cred), cr_Slot = slot, cr_TID = EncodeToString (fc_tid cred),
     cr_PublicKey = EncodeToString (fc_publicKey cred), cr_W = EncodeToString (fc_w cred),
     cr_VerifyHash = EncodeToString (fc_verifyHash cred)\<rparr>"

lemma as_ledger_valid: "credential_arrays cred \<Longrightarrow> validCredential (as_ledger slot cred)"
  by (simp add: validCredential_def as_ledger_def credential_arrays_def)

definition record_of :: "FabricCredential \<Rightarrow> bytes" where
  "record_of cred = fc_identityHash cred @ fc_tid cred @ fc_publicKey cred @ fc_w cred @ fc_verifyHash cred"

lemma length_record [simp]: "credential_arrays cred \<Longrightarrow> length (record_of cred) = FABRIC_RECORD_BYTES"
  by (simp add: record_of_def credential_arrays_def)

lemma serialize_record:
  assumes "credential_arrays cred" and "length buf = FABRIC_RECORD_BYTES"
  shows "serializeCredential cred buf = record_of cred"
proof -
  have first: "write_at 0 v buf = v @ drop (length v) buf" for v :: bytes by (simp add: write_at_def)
  show ?thesis
    using assms unfolding serializeCredential_def Let_def first credential_arrays_def
    by (simp add: write_at_append del: append_assoc) (simp add: record_of_def)
qed

lemma parse_record: "credential_arrays cred \<Longrightarrow> parseCredential (record_of cred) = cred"
  using parse_serialize [of cred "zeros FABRIC_RECORD_BYTES"] by (simp add: serialize_record)

lemma gateway_reads_record:
  "credential_arrays cred \<Longrightarrow> credentialFromPayload (record_of cred) slot = Inr (as_ledger slot cred)"
  by (simp add: credentialFromPayload_def as_ledger_def record_of_def credential_arrays_def read_at_def)

lemma gateway_writes_record:
  "credential_arrays cred \<Longrightarrow> credentialPayload (as_ledger slot cred) = Inr (record_of cred)"
  by (simp add: credentialPayload_def credentialField_def as_ledger_def record_of_def credential_arrays_def)

section \<open>Requests\<close>

lemma parse_fabric_datagram:
  assumes "wolf_sizes W" and "same_mac W H" and "length payload \<le> FABRIC_RECORD_BYTES"
  shows "parseRequest H (take maxPacketBytes (fabric_datagram W op requestId slot payload)) =
    (Some \<lparr>rq_op = op, rq_requestID = requestId, rq_slot = slot, rq_payload = payload\<rparr>, statusOK, None)"
proof -
  let ?body = "request_body op requestId slot payload"
  have bl: "length ?body = 12 + length payload" by simp
  then have tag: "snd (wc_HmacFinal W GATEWAY_HMAC_KEY ?body) = H labHMACKey ?body"
    using assms(2,3) unfolding same_mac_def by simp
  have tl: "length (H labHMACKey ?body) = 32" using assms(1) unfolding tag [symmetric] by (simp add: wolf_sizes_def)
  have n: "unat (of_nat (length payload) :: u16) = length payload" using assms(3) by (simp add: unat_u16_small)
  have "fabric_datagram W op requestId slot payload = ?body @ H labHMACKey ?body"
    by (simp add: fabric_datagram_def tag Let_def)
  then have dg: "take maxPacketBytes (fabric_datagram W op requestId slot payload) = ?body @ H labHMACKey ?body"
    using bl tl assms(3) by simp
  have "getU16 (?body @ t) = gatewayMagic" "(?body @ t) ! 2 = gatewayVersion" "(?body @ t) ! 3 = op"
    "getU32 (drop 4 (?body @ t)) = requestId" "getU16 (drop 8 (?body @ t)) = slot"
    "getU16 (drop 10 (?body @ t)) = of_nat (length payload)" "read_at 12 (length payload) (?body @ t) = payload" for t
    by (simp_all add: request_body_def nth_append read_at_def)
  then show ?thesis
    unfolding dg parseRequest_def using bl tl n by (simp add: authenticate_def)
qed

section \<open>Responses\<close>

text \<open>A poll that observes the datagram \<open>dg\<close> of the gateway.\<close>

definition fabric_hears :: "FabricState \<Rightarrow> bytes \<Rightarrow> poll \<Rightarrow> bool" where
  "fabric_hears s dg p \<longleftrightarrow>
    parsePacket p = int (length dg) \<and> readLength p = int (length dg) \<and>
    length (readBuffer p) = GATEWAY_MAX_RESPONSE_BYTES \<and> take (length dg) (readBuffer p) = dg \<and>
    remoteIP p = f_gatewayIp s \<and> remotePort p = f_gatewayPort s"

definition response_body :: "u8 \<Rightarrow> u32 \<Rightarrow> u8 \<Rightarrow> u64 \<Rightarrow> bytes \<Rightarrow> bytes" where
  "response_body op requestId status us payload =
    putU16 gatewayMagic @ [gatewayVersion, op OR 0x80] @ putU32 requestId @ [status] @ putU64 us @
    putU16 (of_nat (length payload)) @ payload"

lemma length_response_body [simp]: "length (response_body op requestId status us payload) = 19 + length payload"
  by (simp add: response_body_def)

lemma buildResponse_layout:
  assumes "length (H labHMACKey (response_body op requestId status us payload)) = tagBytes"
  shows "buildResponse H op requestId status us payload =
    response_body op requestId status us payload @ H labHMACKey (response_body op requestId status us payload)"
proof -
  have first: "write_at 0 v (zeros n) = v @ zeros (n - length v)" for v :: bytes and n by (simp add: write_at_def drop_zeros)
  let ?r = "write_at 17 (putU16 (of_nat (length payload))) (write_at 9 (putU64 us)
    ((write_at 4 (putU32 requestId) ((write_at 0 (putU16 gatewayMagic) (zeros (responseHeaderBytes + length payload + tagBytes)))
      [2 := gatewayVersion, 3 := op OR 0x80]))[8 := status]))"
  have filled: "write_at 19 payload ?r = response_body op requestId status us payload @ zeros 32"
    unfolding first by (simp add: layout del: append_assoc) (simp add: response_body_def)
  have sealed: "write_at n (H labHMACKey (take n r)) r = body @ H labHMACKey body"
    if "r = body @ zeros 32" "length body = n" "length (H labHMACKey body) = 32" for r body :: bytes and n
    using that by (simp add: write_at_def)
  show ?thesis
    unfolding buildResponse_def Let_def by (rule sealed [OF filled]) (use assms in simp_all)
qed

text \<open>The client accepts it as the answer to the request with that operation and number.\<close>

lemma response_accepted:
  assumes "wolf_works W" and "wolf_sizes W" and "same_mac W H" and "length payload \<le> FABRIC_RECORD_BYTES"
    and p: "fabric_hears s (buildResponse H op requestId status us payload) p"
  shows "fabric_authentic W op requestId s p (length payload)" and "fabric_buffer p" and "readBuffer p ! 8 = status"
    and "read_at GATEWAY_RESPONSE_HEADER_BYTES (length payload) (readBuffer p) = payload"
proof -
  let ?body = "response_body op requestId status us payload"
  have bl: "length ?body = 19 + length payload" by simp
  then have tag: "snd (wc_HmacFinal W GATEWAY_HMAC_KEY ?body) = H labHMACKey ?body"
    using assms(3,4) unfolding same_mac_def by simp
  have tl: "length (H labHMACKey ?body) = 32" using assms(2) unfolding tag [symmetric] by (simp add: wolf_sizes_def)
  have reply: "buildResponse H op requestId status us payload = ?body @ H labHMACKey ?body"
    by (rule buildResponse_layout) (fact tl)
  then have rl: "length (buildResponse H op requestId status us payload) = 51 + length payload" using bl tl by simp
  obtain rest where buf: "readBuffer p = ?body @ H labHMACKey ?body @ rest"
    using p unfolding fabric_hears_def reply by (metis append_assoc append_take_drop_id)
  have n: "unat (of_nat (length payload) :: u16) = length payload" using assms(4) by (simp add: unat_u16_small)
  have "apqe_hmacSha256 W GATEWAY_HMAC_KEY ?body = Inr (H labHMACKey ?body)"
    using assms(4) unfolding tag [symmetric] by (intro apqe_hmac_works [OF assms(1)]) (simp_all add: GATEWAY_HMAC_KEY_def)
  then have hm: "apqe_hmacSha256 W GATEWAY_HMAC_KEY (take (19 + length payload) (readBuffer p)) =
      Inr (read_at (19 + length payload) 32 (readBuffer p))"
    using bl tl unfolding buf by (simp add: read_at_def)
  have flds: "getU16 (readBuffer p) = GATEWAY_MAGIC" "readBuffer p ! 2 = GATEWAY_VERSION" "readBuffer p ! 3 = op OR 0x80"
    "getU32 (drop 4 (readBuffer p)) = requestId" "getU16 (drop 17 (readBuffer p)) = of_nat (length payload)"
    unfolding buf response_body_def by (simp_all add: nth_append)
  show "fabric_authentic W op requestId s p (length payload)"
    using p assms(4) hm flds rl n by (simp add: fabric_authentic_def fabric_hears_def)
  show "fabric_buffer p" using p assms(4) rl by (simp add: fabric_buffer_def fabric_hears_def)
  show "readBuffer p ! 8 = status" unfolding buf response_body_def by (simp add: nth_append)
  show "read_at GATEWAY_RESPONSE_HEADER_BYTES (length payload) (readBuffer p) = payload"
    unfolding buf response_body_def by (simp add: read_at_def)
qed

section \<open>A call through the gateway\<close>

text \<open>
  The network of a call: the first datagram that the client does not skip is one of those the
  gateway sends when it serves the request of the client in the world \<open>w\<close>, which becomes \<open>w'\<close>.
\<close>

definition through_gateway ::
  "wolf \<Rightarrow> (bytes \<Rightarrow> bytes \<Rightarrow> bytes) \<Rightarrow> contract \<Rightarrow> u8 \<Rightarrow> u16 \<Rightarrow> bytes \<Rightarrow> fabric_attempt list \<Rightarrow> FabricState \<Rightarrow> world \<Rightarrow> world \<Rightarrow> bool"
where
  "through_gateway W H C op slot payload attempts s w w' \<longleftrightarrow>
    (\<exists>a as pre p post evalUS submitUS remote sent reply. attempts = a # as \<and>
      fabric_sent (GATEWAY_REQUEST_HEADER_BYTES + length payload + GATEWAY_TAG_BYTES) a \<and>
      fa_polls a = pre @ p # post \<and>
      (\<forall>p' \<in> set pre. pollMillis p' - fa_start a < GATEWAY_TIMEOUT_MS \<and> fst (fabricPoll W op (f_nextRequestId s) p' s) = FabricIgnore) \<and>
      pollMillis p - fa_start a < GATEWAY_TIMEOUT_MS \<and>
      serveDatagram H C evalUS submitUS (fabric_datagram W op (f_nextRequestId s) slot payload) remote w = (sent, w') \<and>
      (remote, reply) \<in> set sent \<and> fabric_hears s reply p)"

text \<open>It concerns the address and the request number of the client only.\<close>

lemma through_gateway_same:
  assumes "f_nextRequestId s' = f_nextRequestId s" and "f_gatewayIp s' = f_gatewayIp s" and "f_gatewayPort s' = f_gatewayPort s"
  shows "through_gateway W H C op slot payload attempts s' = through_gateway W H C op slot payload attempts s"
proof -
  have "fst (fabricPoll W op i p s') = fst (fabricPoll W op i p s)" for i p
    using assms(2,3) by (auto simp: fabricPoll_def Let_def split: sum.split)
  then show ?thesis using assms by (simp add: through_gateway_def fabric_hears_def fun_eq_iff)
qed

lemma through_gateway_call:
  assumes W: "wolf_works W" "wolf_sizes W" "same_mac W H" and s: "fabric_sized s" and len: "length payload \<le> FABRIC_RECORD_BYTES"
    and net: "through_gateway W H C op slot payload attempts s w w'"
    and answer: "\<And>i e u. handle C e u \<lparr>rq_op = op, rq_requestID = i, rq_slot = slot, rq_payload = payload\<rparr> w =
      ((status, elapsed e u, answer), w1)"
    and small: "length answer \<le> capacity" "length answer \<le> FABRIC_RECORD_BYTES"
  shows "w' = w1" and "\<exists>m' s'. transact W op slot payload capacity attempts m s = Some (if status = GW_OK then Some answer else None, m', s') \<and>
    f_lastStatus s' = status \<and> f_nextRequestId s' = f_nextRequestId s + 1 \<and> f_recordScratch s' = f_recordScratch s \<and>
    f_gatewayIp s' = f_gatewayIp s \<and> f_gatewayPort s' = f_gatewayPort s \<and> fabric_sized s'"
proof -
  from net obtain a as pre p post e u remote sent reply where n: "attempts = a # as"
    "fabric_sent (GATEWAY_REQUEST_HEADER_BYTES + length payload + GATEWAY_TAG_BYTES) a" "fa_polls a = pre @ p # post"
    "\<forall>p' \<in> set pre. pollMillis p' - fa_start a < GATEWAY_TIMEOUT_MS \<and> fst (fabricPoll W op (f_nextRequestId s) p' s) = FabricIgnore"
    "pollMillis p - fa_start a < GATEWAY_TIMEOUT_MS"
    "serveDatagram H C e u (fabric_datagram W op (f_nextRequestId s) slot payload) remote w = (sent, w')"
    "(remote, reply) \<in> set sent" "fabric_hears s reply p"
    unfolding through_gateway_def by blast
  have served: "sent = replicate 3 (remote, buildResponse H op (f_nextRequestId s) status (elapsed e u) answer) \<and> w' = w1"
    using n(6) unfolding serveDatagram_def Let_def parse_fabric_datagram [OF W(2,3) len] by (simp add: answer)
  then show "w' = w1" by simp
  have "reply = buildResponse H op (f_nextRequestId s) status (elapsed e u) answer" using served n(7) by simp
  note reply = response_accepted [OF W small(2), OF n(8) [unfolded this]]
  have "GATEWAY_REQUEST_HEADER_BYTES + length payload + GATEWAY_TAG_BYTES \<le> length (f_tx s)"
    using s len by (simp add: fabric_sized_def)
  from transact_decides [OF W(1,2) this len n(2-5) reply(1,2), of slot capacity as m] obtain t
    where run: "transact W op slot payload capacity attempts m s =
      Some (fabricFinish capacity (fa_us a) (length answer)
        (m\<lparr>fm_appTx := fm_appTx m + of_nat (GATEWAY_REQUEST_HEADER_BYTES + length payload + GATEWAY_TAG_BYTES)\<rparr>)
        (s\<lparr>f_nextRequestId := f_nextRequestId s + 1, f_tx := t, f_rx := readBuffer p\<rparr>))" "length t = length (f_tx s)"
    unfolding n(1) by blast
  show "\<exists>m' s'. transact W op slot payload capacity attempts m s = Some (if status = GW_OK then Some answer else None, m', s') \<and>
    f_lastStatus s' = status \<and> f_nextRequestId s' = f_nextRequestId s + 1 \<and> f_recordScratch s' = f_recordScratch s \<and>
    f_gatewayIp s' = f_gatewayIp s \<and> f_gatewayPort s' = f_gatewayPort s \<and> fabric_sized s'"
    using run reply(3,4) small(1) s by (auto simp: fabricFinish_def Let_def fabric_sized_def)
qed

section \<open>What the gateway answers\<close>

lemma contains_middle: "contains (pre @ t @ post) t"
proof (induction pre)
  case Nil
  have "take (length t) (t @ post) = t" by simp
  then show ?case by (cases "t @ post") (auto simp del: take_append)
next
  case (Cons c pre)
  then show ?case by simp
qed

lemma toLower_append [simp]: "toLower (s @ t) = toLower s @ toLower t"
  by (simp add: toLower_def)

lemma not_found_relayed: "f e = pre @ ''credential not found'' @ post \<Longrightarrow> isNotFound (f e)"
proof -
  assume f: "f e = pre @ ''credential not found'' @ post"
  have "toLower (f e) = (toLower pre @ ''credential '') @ ''not found'' @ toLower post"
    by (simp add: f) (simp add: toLower_def)
  then show ?thesis unfolding isNotFound_def using contains_middle by metis
qed

lemma evaluate_slot:
  assumes "runs_chaincode C"
  shows "QueryByIdentitySlot no_faults i s w = Inr c \<Longrightarrow> validCredential c \<Longrightarrow>
      evaluateCredential C ''QueryByIdentitySlot'' [i, Itoa (unat s)] w = Inr c"
    and "QueryByIdentitySlot no_faults i s w = Inl ''credential not found'' \<Longrightarrow>
      \<exists>e. evaluateCredential C ''QueryByIdentitySlot'' [i, Itoa (unat s)] w = Inl e \<and> isNotFound e"
    and "QueryByIdentitySlot no_faults i s w = Inl err \<Longrightarrow>
      \<exists>e. evaluateCredential C ''QueryByIdentitySlot'' [i, Itoa (unat s)] w = Inl e"
proof -
  from assms obtain f where f: "\<forall>e. \<exists>pre post. f e = pre @ e @ post"
    and run: "EvaluateTransaction C ''QueryByIdentitySlot'' [i, Itoa (unat s)] w = relay f (marshalled (QueryByIdentitySlot no_faults i s w))"
    unfolding runs_chaincode_def by blast
  show "evaluateCredential C ''QueryByIdentitySlot'' [i, Itoa (unat s)] w = Inr c"
    if "QueryByIdentitySlot no_faults i s w = Inr c" "validCredential c"
    using that run by (simp add: evaluateCredential_def marshalled_def relay_def valid_Marshal)
  show "\<exists>e. evaluateCredential C ''QueryByIdentitySlot'' [i, Itoa (unat s)] w = Inl e \<and> isNotFound e"
    if "QueryByIdentitySlot no_faults i s w = Inl ''credential not found''"
  proof -
    obtain pre post where "f ''credential not found'' = pre @ ''credential not found'' @ post" using f by blast
    then show ?thesis using that run not_found_relayed [of f] by (simp add: evaluateCredential_def marshalled_def relay_def)
  qed
  show "\<exists>e. evaluateCredential C ''QueryByIdentitySlot'' [i, Itoa (unat s)] w = Inl e"
    if "QueryByIdentitySlot no_faults i s w = Inl err"
    using that run by (simp add: evaluateCredential_def marshalled_def relay_def)
qed

lemma evaluate_tid:
  assumes "runs_chaincode C" and "QueryByTemporaryIdentity no_faults t w = Inr c" and "validCredential c"
  shows "evaluateCredential C ''QueryByTemporaryIdentity'' [t] w = Inr c"
proof -
  from assms(1) obtain f
    where "EvaluateTransaction C ''QueryByTemporaryIdentity'' [t] w = relay f (marshalled (QueryByTemporaryIdentity no_faults t w))"
    unfolding runs_chaincode_def by blast
  then show ?thesis using assms(2,3) by (simp add: evaluateCredential_def marshalled_def relay_def valid_Marshal)
qed

lemma submit_put:
  assumes "runs_chaincode C" and "ledger_sound w" and "validCredential c"
  shows "SubmitTransaction C ''PutCredential'' (put_arguments c) w = (Inr [], put_record c w)"
proof -
  obtain w' where "PutCredential no_faults c w = Inr w'" using PutCredential_works [OF assms(2,3)] by blast
  then show ?thesis using assms(1) by (auto simp: runs_chaincode_def put_record_def)
qed

lemma sameCredential_eq: "sameCredential a b \<longleftrightarrow> a = b"
  by (cases a, cases b) (simp add: sameCredential_def)

lemma handle_put:
  assumes "runs_chaincode C" and "ledger_sound w" and "credential_arrays cred"
  shows "handle C e u \<lparr>rq_op = opPutCredential, rq_requestID = i, rq_slot = slot, rq_payload = record_of cred\<rparr> w =
    ((statusOK, if stored w (as_ledger slot cred) then e else u, []), put_record (as_ledger slot cred) w)"
proof -
  let ?c = "as_ledger slot cred"
  have v: "validCredential ?c" using assms(3) by (rule as_ledger_valid)
  have args: "[cr_IdentityHash ?c, Itoa (unat slot), cr_TID ?c, cr_PublicKey ?c, cr_W ?c, cr_VerifyHash ?c] = put_arguments ?c"
    by (simp add: put_arguments_def as_ledger_def)
  have slot: "cr_Slot ?c = slot" by (simp add: as_ledger_def)
  let ?same = "case evaluateCredential C ''QueryByIdentitySlot'' [cr_IdentityHash ?c, Itoa (unat slot)] w of
               Inl queryErr \<Rightarrow> False | Inr existing \<Rightarrow> sameCredential existing ?c"
  have same: "?same \<longleftrightarrow> stored w ?c"
  proof (cases "QueryByIdentitySlot no_faults (cr_IdentityHash ?c) slot w")
    case (Inl err)
    then have "\<not> stored w ?c" using QueryByIdentitySlot_stored [of w ?c] by (auto simp: slot)
    then show ?thesis using evaluate_slot(3) [OF assms(1) Inl] by auto
  next
    case (Inr c)
    note q = QueryByIdentitySlot_Inr [OF assms(2) Inr]
    then have "validCredential c" by (simp add: stored_def)
    then have ev: "evaluateCredential C ''QueryByIdentitySlot'' [cr_IdentityHash ?c, Itoa (unat slot)] w = Inr c"
      by (rule evaluate_slot(1) [OF assms(1) Inr])
    have "stored w ?c \<longleftrightarrow> c = ?c" using q stored_same_key [of w c ?c] by (auto simp: slot)
    then show ?thesis unfolding ev by (simp add: sameCredential_eq)
  qed
  have kept: "put_record ?c w = w" if "stored w ?c"
    using that by (rule put_record_stored)
  have "credentialFromPayload (record_of cred) slot = Inr ?c" using assms(3) by (rule gateway_reads_record)
  then show ?thesis
    unfolding handle_def handlePut_def using same kept submit_put [OF assms(1,2) v] by (simp add: args)
qed

lemma handle_query_slot:
  assumes "runs_chaincode C" and "credential_arrays cred" and "stored w (as_ledger slot cred)"
  shows "handle C e u \<lparr>rq_op = opQueryIdentitySlot, rq_requestID = i, rq_slot = slot, rq_payload = fc_identityHash cred\<rparr> w =
    ((statusOK, e, record_of cred), w)"
proof -
  have "QueryByIdentitySlot no_faults (EncodeToString (fc_identityHash cred)) slot w = Inr (as_ledger slot cred)"
    using QueryByIdentitySlot_stored [OF assms(3)] by (simp add: as_ledger_def)
  from evaluate_slot(1) [OF assms(1) this as_ledger_valid [OF assms(2)]] show ?thesis
    using assms(2) by (simp add: handle_def answerQuery_def gateway_writes_record credential_arrays_def)
qed

lemma handle_query_tid:
  assumes "runs_chaincode C" and "credential_arrays cred" and "stored w (as_ledger slot cred)"
    and "w (tidIndexKey (EncodeToString (fc_tid cred))) = Some (key_of (as_ledger slot cred))"
  shows "handle C e u \<lparr>rq_op = opQueryTID, rq_requestID = i, rq_slot = s0, rq_payload = fc_tid cred\<rparr> w =
    ((statusOK, e, record_of cred), w)"
proof -
  have "QueryByTemporaryIdentity no_faults (EncodeToString (fc_tid cred)) w = Inr (as_ledger slot cred)"
    using QueryByTemporaryIdentity_stored [OF assms(3)] assms(4) by (simp add: as_ledger_def)
  from evaluate_tid [OF assms(1) this as_ledger_valid [OF assms(2)]] show ?thesis
    using assms(2) by (simp add: handle_def answerQuery_def gateway_writes_record credential_arrays_def)
qed

lemma handle_query_missing:
  assumes "runs_chaincode C" and "length ident = ID_BYTES" and "w (credentialKey (EncodeToString ident) slot) = None"
  shows "handle C e u \<lparr>rq_op = opQueryIdentitySlot, rq_requestID = i, rq_slot = slot, rq_payload = ident\<rparr> w =
    ((statusNotFound, e, []), w)"
proof -
  have "QueryByIdentitySlot no_faults (EncodeToString ident) slot w = Inl ''credential not found''"
    using assms(2,3) by (simp add: QueryByIdentitySlot_missing)
  from evaluate_slot(2) [OF assms(1) this] show ?thesis using assms(2) by (auto simp: handle_def answerQuery_def)
qed

section \<open>The three calls of a drone\<close>

lemma put_through:
  assumes W: "wolf_works W" "wolf_sizes W" "same_mac W H" and C: "runs_chaincode C" and w: "ledger_sound w"
    and cred: "credential_arrays cred" and s: "fabric_sized s"
    and net: "through_gateway W H C GW_PUT_CREDENTIAL slot (record_of cred) attempts s w w'"
  shows "w' = put_record (as_ledger slot cred) w \<and>
    (\<exists>us s'. putCredential W slot cred us0 attempts s = Some (True, us, s') \<and> f_nextRequestId s' = f_nextRequestId s + 1 \<and>
      f_gatewayIp s' = f_gatewayIp s \<and> f_gatewayPort s' = f_gatewayPort s \<and> fabric_sized s')"
proof -
  let ?s = "s\<lparr>f_recordScratch := serializeCredential cred (f_recordScratch s)\<rparr>"
  have rec: "serializeCredential cred (f_recordScratch s) = record_of cred"
    using cred s by (intro serialize_record) (simp_all add: fabric_sized_def)
  have sized: "fabric_sized ?s" using s cred by (simp add: fabric_sized_def rec)
  have net': "through_gateway W H C GW_PUT_CREDENTIAL slot (record_of cred) attempts ?s w w'"
    using net through_gateway_same [of ?s s] by simp
  have len: "length (record_of cred) \<le> FABRIC_RECORD_BYTES" using cred by simp
  note call = through_gateway_call [OF W sized len net' handle_put [OF C w cred]]
  from call(2) [where capacity = 0 and m = "fabric_meter_init us0"] obtain m' s' where "transact W GW_PUT_CREDENTIAL slot (record_of cred) 0 attempts (fabric_meter_init us0) ?s = Some (Some [], m', s')"
    and "f_nextRequestId s' = f_nextRequestId s + 1" "f_gatewayIp s' = f_gatewayIp s" "f_gatewayPort s' = f_gatewayPort s" "fabric_sized s'"
    by auto
  then show ?thesis using call(1) [of 0] by (simp add: putCredential_def Let_def rec)
qed

lemma query_through:
  assumes W: "wolf_works W" "wolf_sizes W" "same_mac W H" and cred: "credential_arrays cred" and s: "fabric_sized s"
    and len: "length question = ID_BYTES"
    and net: "through_gateway W H C op slot question attempts s w w'"
    and answer: "\<And>i e u. handle C e u \<lparr>rq_op = op, rq_requestID = i, rq_slot = slot, rq_payload = question\<rparr> w =
      ((statusOK, e, record_of cred), w)"
  shows "w' = w \<and> (\<exists>m' s'. map_option receiveRecord (transact W op slot question (length (f_recordScratch s)) attempts m s) =
      Some (Some cred, m', s') \<and> f_nextRequestId s' = f_nextRequestId s + 1 \<and> f_gatewayIp s' = f_gatewayIp s \<and>
      f_gatewayPort s' = f_gatewayPort s \<and> fabric_sized s')"
proof -
  have l: "length question \<le> FABRIC_RECORD_BYTES" "length (record_of cred) \<le> length (f_recordScratch s)" "length (record_of cred) \<le> FABRIC_RECORD_BYTES"
    using len cred s by (simp_all add: fabric_sized_def)
  note call = through_gateway_call [OF W s l(1) net answer l(2,3)]
  from call(2) [where m = m] obtain m' s' where run: "transact W op slot question (length (f_recordScratch s)) attempts m s = Some (Some (record_of cred), m', s')"
    and s': "f_recordScratch s' = f_recordScratch s" "f_nextRequestId s' = f_nextRequestId s + 1" "f_gatewayIp s' = f_gatewayIp s"
      "f_gatewayPort s' = f_gatewayPort s" "fabric_sized s'" by auto
  have "write_at 0 (record_of cred) (f_recordScratch s') = record_of cred"
    using s' s cred by (intro write_at_full) (simp add: fabric_sized_def)
  then have "receiveRecord (Some (record_of cred), m', s') = (Some cred, m', s'\<lparr>f_recordScratch := record_of cred\<rparr>)"
    using cred by (simp add: receiveRecord_def parse_record)
  then show ?thesis using call(1) run s' cred by (simp add: fabric_sized_def)
qed

lemma slot_through:
  assumes W: "wolf_works W" "wolf_sizes W" "same_mac W H" and C: "runs_chaincode C" and cred: "credential_arrays cred"
    and s: "fabric_sized s" and net: "through_gateway W H C GW_QUERY_ID_SLOT slot (fc_identityHash cred) attempts s w w'"
    and "stored w (as_ledger slot cred)"
  shows "w' = w \<and> (\<exists>m' s'. queryByIdentitySlot W (fc_identityHash cred) slot attempts m s = Some (Some cred, m', s') \<and>
      f_nextRequestId s' = f_nextRequestId s + 1 \<and> f_gatewayIp s' = f_gatewayIp s \<and> f_gatewayPort s' = f_gatewayPort s \<and> fabric_sized s')"
  unfolding queryByIdentitySlot_def
  by (rule query_through [OF W cred s _ net handle_query_slot [OF C cred assms(8)]]) (use cred in \<open>simp add: credential_arrays_def\<close>)

lemma tid_through:
  assumes W: "wolf_works W" "wolf_sizes W" "same_mac W H" and C: "runs_chaincode C" and cred: "credential_arrays cred"
    and s: "fabric_sized s" and net: "through_gateway W H C GW_QUERY_TID 0 (fc_tid cred) attempts s w w'"
    and "stored w (as_ledger slot cred)" and "w (tidIndexKey (EncodeToString (fc_tid cred))) = Some (key_of (as_ledger slot cred))"
  shows "w' = w \<and> (\<exists>m' s'. queryByTid W (fc_tid cred) attempts m s = Some (Some cred, m', s') \<and>
      f_nextRequestId s' = f_nextRequestId s + 1 \<and> f_gatewayIp s' = f_gatewayIp s \<and> f_gatewayPort s' = f_gatewayPort s \<and> fabric_sized s')"
  unfolding queryByTid_def
  by (rule query_through [OF W cred s _ net handle_query_tid [OF C cred assms(8,9)]]) (use cred in \<open>simp add: credential_arrays_def\<close>)

text \<open>A query for a record that is not there fails with the gateway's status.\<close>

lemma missing_through:
  assumes W: "wolf_works W" "wolf_sizes W" "same_mac W H" and C: "runs_chaincode C" and len: "length ident = ID_BYTES"
    and s: "fabric_sized s" and net: "through_gateway W H C GW_QUERY_ID_SLOT slot ident attempts s w w'"
    and none: "w (credentialKey (EncodeToString ident) slot) = None"
  shows "\<exists>m' s'. queryByIdentitySlot W ident slot attempts m s = Some (None, m', s') \<and> f_lastStatus s' = GW_NOT_FOUND"
proof -
  have l: "length ident \<le> FABRIC_RECORD_BYTES" using len by simp
  note missing = handle_query_missing [where w = w and slot = slot, OF C len none]
  from through_gateway_call(2) [OF W s l net missing, where capacity = "length (f_recordScratch s)" and m = m]
  show ?thesis by (auto simp: queryByIdentitySlot_def receiveRecord_def)
qed

section \<open>A laboratory network\<close>

text \<open>The network in which the gateway's first reply is the only datagram.\<close>

definition lab_call ::
  "wolf \<Rightarrow> (bytes \<Rightarrow> bytes \<Rightarrow> bytes) \<Rightarrow> contract \<Rightarrow> u8 \<Rightarrow> u16 \<Rightarrow> bytes \<Rightarrow> FabricState \<Rightarrow> world \<Rightarrow> fabric_attempt list" where
  "lab_call W H C op slot payload s w =
    (let sent = fst (serveDatagram H C 300 2000 (fabric_datagram W op (f_nextRequestId s) slot payload) (1, 2) w)
     in [\<lparr>fa_send = \<lparr>beginPacketOk = True, written = GATEWAY_REQUEST_HEADER_BYTES + length payload + GATEWAY_TAG_BYTES, endPacketOk = True\<rparr>,
          fa_start = 0, fa_polls = [gateway_poll (f_gatewayIp s) (f_gatewayPort s) (snd (hd sent))], fa_us = 700\<rparr>])"

lemma lab_call_through:
  assumes W: "wolf_sizes W" "same_mac W H" and len: "length payload \<le> FABRIC_RECORD_BYTES"
    and answer: "\<And>i e u. handle C e u \<lparr>rq_op = op, rq_requestID = i, rq_slot = slot, rq_payload = payload\<rparr> w =
      ((status, elapsed e u, answer), w')"
    and small: "length answer \<le> FABRIC_RECORD_BYTES"
  shows "through_gateway W H C op slot payload (lab_call W H C op slot payload s w) s w w'"
proof -
  let ?reply = "buildResponse H op (f_nextRequestId s) status (elapsed 300 2000) answer"
  let ?body = "response_body op (f_nextRequestId s) status (elapsed 300 2000) answer"
  have served: "serveDatagram H C 300 2000 (fabric_datagram W op (f_nextRequestId s) slot payload) (1, 2) w = (replicate 3 ((1, 2), ?reply), w')"
    unfolding serveDatagram_def Let_def parse_fabric_datagram [OF W len] by (simp add: answer)
  have "length ?body \<le> GATEWAY_MAX_RESPONSE_BYTES" using small by simp
  then have "H labHMACKey ?body = snd (wc_HmacFinal W GATEWAY_HMAC_KEY ?body)" using W(2) by (simp only: same_mac_def)
  then have tl: "length (H labHMACKey ?body) = 32" using W(1) by (simp add: wolf_sizes_def)
  have "?reply = ?body @ H labHMACKey ?body" by (rule buildResponse_layout) (fact tl)
  then have "length ?reply \<le> 979" using small tl by simp
  then have "fabric_hears s ?reply (gateway_poll (f_gatewayIp s) (f_gatewayPort s) ?reply)"
    by (simp add: fabric_hears_def gateway_poll_def)
  then show ?thesis
    unfolding through_gateway_def lab_call_def Let_def served
    by (intro exI [of _ "[]"] exI) (auto simp: fabric_sent_def gateway_poll_def numeral_3_eq_3 intro!: served)
qed

definition sample_mac :: "bytes \<Rightarrow> bytes \<Rightarrow> bytes" where
  "sample_mac k x = sample_digest (k @ x)"

lemma sample_same_mac: "same_mac sample_wolf sample_mac"
  by (simp add: same_mac_def sample_mac_def sample_wolf_def shared_gateway_key)

end
