(* ===== verification/FabricLedgerProperties.thy ===== *)
theory FabricLedgerProperties
  imports FabricExchange ApqeServiceProperties
begin

text \<open>
  Properties of the baseline's ledger service: the index of the chaincode, the gateway in
  front of it, and the drones' calls through both.
\<close>

section \<open>The chaincode\<close>

text \<open>C38: Whatever transactions the ledger has seen, under whatever faults of the peer: a record that a
  query by pseudonym returns has that pseudonym and is the one stored under its own identity and slot,
  and a record that a query by identity and slot returns is the one stored there.\<close>

theorem ledger_answers_match:
  assumes "ledger_reachable w"
  shows "(QueryByTemporaryIdentity F t w = Inr c \<longrightarrow> cr_TID c = t \<and> w (key_of c) = Some (json_Marshal c)) \<and>
    (QueryByIdentitySlot F i s w = Inr d \<longrightarrow> cr_IdentityHash d = i \<and> cr_Slot d = s \<and> w (credentialKey i s) = Some (json_Marshal d))"
  using QueryByTemporaryIdentity_Inr [OF reachable_sound [OF assms], of F t c]
    QueryByIdentitySlot_Inr [OF reachable_sound [OF assms], of F i s d]
  by (auto simp: stored_def)

text \<open>A record whose five fields repeat one byte.\<close>

definition plain_record :: "u8 \<Rightarrow> u8 \<Rightarrow> Credential" where
  "plain_record ident tid =
    \<lparr>cr_IdentityHash = EncodeToString (replicate 32 ident), cr_Slot = 3, cr_TID = EncodeToString (replicate 32 tid),
     cr_PublicKey = EncodeToString (zeros 800), cr_W = EncodeToString (zeros 32), cr_VerifyHash = EncodeToString (zeros 32)\<rparr>"

lemma plain_record_valid: "validCredential (plain_record ident tid)"
  by (simp add: plain_record_def validCredential_def)

lemma plain_record_key: "key_of (plain_record a t) = key_of (plain_record b t') \<longleftrightarrow> a = b"
  by (simp add: key_of_eq plain_record_valid) (simp add: plain_record_def)

theorem ledger_answers_match_witness:
  "\<exists>w. PutCredential no_faults (plain_record 1 2) Map.empty = Inr w \<and> ledger_reachable w \<and>
    (QueryByTemporaryIdentity no_faults (EncodeToString (replicate 32 2)) w = Inr (plain_record 1 2) \<longrightarrow>
      w (key_of (plain_record 1 2)) = Some (json_Marshal (plain_record 1 2)))"
proof -
  obtain w where w: "PutCredential no_faults (plain_record 1 2) Map.empty = Inr w"
    using PutCredential_works [OF empty_ledger_sound(1) plain_record_valid] by blast
  then have "ledger_reachable w" by (rule ledger_reachable.put [OF ledger_reachable.created])
  from w this ledger_answers_match [OF this, of no_faults "EncodeToString (replicate 32 2)" "plain_record 1 2"]
  show ?thesis by blast
qed

text \<open>C40: The index has one entry per pseudonym, and a put never looks whose it is. When two records of
  different devices have the same pseudonym, the later put takes the entry over, so that a query
  returns the later record; once that one moves on to another pseudonym, the entry is gone: the
  first record is still stored, but no longer found, and putting it again changes nothing.\<close>

theorem shared_pseudonym_lost:
  assumes "ledger_sound w" and "stored w c" and "validCredential d" and "validCredential d'"
    and "key_of d \<noteq> key_of c" and "cr_TID d = cr_TID c" and "key_of d' = key_of d" and "cr_TID d' \<noteq> cr_TID c"
    and "PutCredential no_faults d w = Inr w1" and "\<not> stored w d"
    and "PutCredential no_faults d' w1 = Inr w2"
  shows "QueryByTemporaryIdentity no_faults (cr_TID c) w1 = Inr d \<and>
    QueryByIdentitySlot no_faults (cr_IdentityHash c) (cr_Slot c) w2 = Inr c \<and>
    QueryByTemporaryIdentity no_faults (cr_TID c) w2 = Inl ''temporary identity not found'' \<and>
    PutCredential no_faults c w2 = Inr w2"
proof -
  obtain p where p: "replaces d p w" "w1 = recorded d p w" using PutCredential_Inr [OF assms(1,9)] assms(10) by blast
  have s1: "ledger_sound w1" using put_sound [OF assms(1,9)] .
  have d: "stored w1 d" and c1: "stored w1 c" using assms(2,5) by (auto simp: p(2) stored_recorded [OF p(1)])
  have "w1 (tidIndexKey (cr_TID d)) = Some (key_of d)" by (simp add: p(2) recorded_at)
  from QueryByTemporaryIdentity_stored [OF d this] have found: "QueryByTemporaryIdentity no_faults (cr_TID c) w1 = Inr d"
    by (simp add: assms(6))
  have "d \<noteq> d'" using assms(6,8) by auto
  then have "\<not> stored w1 d'" using stored_same_key [OF d] assms(7) by auto
  then obtain q where q: "replaces d' q w1" "w2 = recorded d' q w1" using PutCredential_Inr [OF s1 assms(11)] by blast
  have "q = Some d" using q(1) d assms(7) by (auto simp: replaces_def)
  then have gone: "w2 (tidIndexKey (cr_TID c)) = None" using assms(6,8) by (auto simp: q(2) recorded_at)
  have c2: "stored w2 c" using c1 assms(5,7) by (auto simp: q(2) stored_recorded [OF q(1)])
  have "hexText 32 (cr_TID c)" using assms(2) by (simp add: stored_def validCredential_def)
  then have "QueryByTemporaryIdentity no_faults (cr_TID c) w2 = Inl ''temporary identity not found''"
    using gone by (simp add: QueryByTemporaryIdentity_def validateHex_ok)
  moreover have "PutCredential no_faults c w2 = Inr w2"
    using put_record_stored [OF c2] PutCredential_works [of w2 c] c2 put_sound [OF s1 assms(11)]
    by (auto simp: put_record_def stored_def)
  ultimately show ?thesis using found QueryByIdentitySlot_stored [OF c2] by simp
qed

theorem shared_pseudonym_lost_witness:
  "\<exists>w w1 w2. PutCredential no_faults (plain_record 1 7) Map.empty = Inr w \<and> PutCredential no_faults (plain_record 2 7) w = Inr w1 \<and>
    PutCredential no_faults (plain_record 2 8) w1 = Inr w2 \<and>
    QueryByTemporaryIdentity no_faults (EncodeToString (replicate 32 7)) w1 = Inr (plain_record 2 7) \<and>
    QueryByTemporaryIdentity no_faults (EncodeToString (replicate 32 7)) w2 = Inl ''temporary identity not found''"
proof -
  note v = plain_record_valid
  have tid: "cr_TID (plain_record i t) = EncodeToString (replicate 32 t)" for i t by (simp add: plain_record_def)
  obtain w where w: "PutCredential no_faults (plain_record 1 7) Map.empty = Inr w"
    using PutCredential_works [OF empty_ledger_sound(1) v] by blast
  note s = put_sound [OF empty_ledger_sound(1) w]
  obtain w1 where w1: "PutCredential no_faults (plain_record 2 7) w = Inr w1" using PutCredential_works [OF s v] by blast
  obtain w2 where w2: "PutCredential no_faults (plain_record 2 8) w1 = Inr w2"
    using PutCredential_works [OF put_sound [OF s w1] v] by blast
  have none: "\<not> stored Map.empty x" for x by (simp add: stored_def)
  obtain p where p: "replaces (plain_record 1 7) p Map.empty" "w = recorded (plain_record 1 7) p Map.empty"
    using PutCredential_Inr [OF empty_ledger_sound(1) w] none by blast
  have st: "stored w x \<longleftrightarrow> x = plain_record 1 7" for x using none by (auto simp: p(2) stored_recorded [OF p(1)])
  have ne: "plain_record 2 7 \<noteq> plain_record 1 7" "plain_record 2 7 \<noteq> plain_record 2 8"
    using plain_record_key [of 2 7 1 7] tid [of 2 7] tid [of 2 8] by auto
  show ?thesis
    using shared_pseudonym_lost [OF s _ v v _ _ _ _ w1 _ w2, of "plain_record 1 7"] w w1 w2
    by (simp add: st ne plain_record_key tid)
qed

section \<open>The gateway\<close>

text \<open>C39: The gateway answers no datagram that fails a check, in particular none without a valid tag, and
  such a datagram leaves the ledger alone; to every other one it sends one reply, three times, to the
  sender. The branch of \<open>serve\<close> that would report a bad request is never taken, because \<open>parseRequest\<close>
  returns no request with an error.\<close>

theorem gateway_silent_unless_authentic:
  assumes "serveDatagram H C evalUS submitUS datagram remote w = (sent, w')"
  shows "if \<exists>req. parseRequest H (take maxPacketBytes datagram) = (Some req, statusOK, None)
    then (\<exists>reply. sent = replicate 3 (remote, reply)) \<and>
      H labHMACKey (take (length (take maxPacketBytes datagram) - tagBytes) datagram) =
        drop (length (take maxPacketBytes datagram) - tagBytes) (take maxPacketBytes datagram)
    else sent = [] \<and> w' = w"
proof -
  let ?packet = "take maxPacketBytes datagram"
  show ?thesis
  proof (rule parseRequest_cases [of H ?packet])
    fix req
    assume req: "parseRequest H ?packet = (Some req, statusOK, None)"
      and "requestHeaderBytes + tagBytes \<le> length ?packet"
      and tag: "H labHMACKey (take (length ?packet - tagBytes) ?packet) = drop (length ?packet - tagBytes) ?packet"
    have "length ?packet - tagBytes \<le> maxPacketBytes" by simp
    then have "take (length ?packet - tagBytes) ?packet = take (length ?packet - tagBytes) datagram"
      by (simp only: take_take min_absorb1)
    then show ?thesis using assms req tag by (auto simp: serveDatagram_def Let_def split: prod.splits)
  next
    fix st err
    assume "parseRequest H ?packet = (None, st, Some err)"
    then show ?thesis using assms by (simp add: serveDatagram_def)
  qed
qed

theorem gateway_silent_unless_authentic_witness:
  "serveDatagram sample_mac lab_contract 0 0 (zeros 60) (1, 2) Map.empty = ([], Map.empty) \<and>
    (\<exists>reply. fst (serveDatagram sample_mac lab_contract 0 0 (fabric_datagram sample_wolf GW_PING 1 0 []) (1, 2) Map.empty) = replicate 3 ((1, 2), reply))"
proof
  have "parseRequest sample_mac (take maxPacketBytes (zeros 60)) \<noteq> (Some req, statusOK, None)" for req
    by (simp add: parseRequest_def zeros_def numeral_eq_Suc getU16_def)
  moreover obtain sent w' where run: "serveDatagram sample_mac lab_contract 0 0 (zeros 60) (1, 2) Map.empty = (sent, w')" by fastforce
  ultimately show "serveDatagram sample_mac lab_contract 0 0 (zeros 60) (1, 2) Map.empty = ([], Map.empty)"
    using gateway_silent_unless_authentic [OF run] by simp
next
  obtain sent w' where run: "serveDatagram sample_mac lab_contract 0 0 (fabric_datagram sample_wolf GW_PING 1 0 []) (1, 2) Map.empty = (sent, w')"
    by fastforce
  have "\<exists>req. parseRequest sample_mac (take maxPacketBytes (fabric_datagram sample_wolf GW_PING 1 0 [])) = (Some req, statusOK, None)"
    using parse_fabric_datagram [OF sample_wolf_sizes sample_same_mac, of "[]" GW_PING 1 0] by simp
  then show "\<exists>reply. fst (serveDatagram sample_mac lab_contract 0 0 (fabric_datagram sample_wolf GW_PING 1 0 []) (1, 2) Map.empty) = replicate 3 ((1, 2), reply)"
    using gateway_silent_unless_authentic [OF run] run by simp
qed

section \<open>Drone, gateway and ledger\<close>

text \<open>C36: What one drone enrolls is what another one fetches. When the gateway serves the put of a
  credential, \<open>putCredential\<close> returns true and the record is stored; as long as it stays, a query for its
  identity and slot that the gateway serves returns exactly this credential, on whichever drone. If the ledger's index was
  complete and no other record had the pseudonym, the same holds for the query by pseudonym.\<close>

theorem enrolled_credential_is_fetched:
  assumes W: "wolf_works W" "wolf_sizes W" "same_mac W H" and C: "runs_chaincode C" and w: "ledger_sound w"
    and cred: "credential_arrays cred" and sized: "fabric_sized sA" "fabric_sized sB"
    and put: "through_gateway W H C GW_PUT_CREDENTIAL slot (record_of cred) netA sA w w1"
    and stays: "w2 (key_of (as_ledger slot cred)) = w1 (key_of (as_ledger slot cred))"
      "w2 (tidIndexKey (EncodeToString (fc_tid cred))) = w1 (tidIndexKey (EncodeToString (fc_tid cred)))"
    and get: "through_gateway W H C GW_QUERY_ID_SLOT slot (fc_identityHash cred) netB sB w2 w3"
    and find: "through_gateway W H C GW_QUERY_TID 0 (fc_tid cred) netT sB w2 w4"
  shows "(\<exists>us sA'. putCredential W slot cred us0 netA sA = Some (True, us, sA')) \<and> stored w1 (as_ledger slot cred) \<and>
    (\<exists>m' sB'. queryByIdentitySlot W (fc_identityHash cred) slot netB m sB = Some (Some cred, m', sB')) \<and>
    (indexed w \<and> free_TID (as_ledger slot cred) w \<longrightarrow>
      (\<exists>m' sB'. queryByTid W (fc_tid cred) netT m sB = Some (Some cred, m', sB'))) \<and> w3 = w2"
proof -
  let ?c = "as_ledger slot cred"
  note v = as_ledger_valid [OF cred]
  have w1: "w1 = put_record ?c w" and put_ok: "\<exists>us sA'. putCredential W slot cred us0 netA sA = Some (True, us, sA')"
    using put_through [OF W C w cred sized(1) put] by blast+
  have in1: "stored w1 ?c" using put_record_cases [OF w v] by (metis stored_recorded w1)
  then have in2: "stored w2 ?c" using stays(1) by (simp add: stored_def)
  have get_ok: "\<exists>m' sB'. queryByIdentitySlot W (fc_identityHash cred) slot netB m sB = Some (Some cred, m', sB')" "w3 = w2"
    using slot_through [OF W C cred sized(2) get in2] by blast+
  have "\<exists>m' sB'. queryByTid W (fc_tid cred) netT m sB = Some (Some cred, m', sB')" if "indexed w" "free_TID ?c w"
  proof -
    have "indexed w1" using credentials.put_inv [of w ?c] w v that by (simp add: w1 free_TID_def)
    then have "w1 (tidIndexKey (cr_TID ?c)) = Some (key_of ?c)" using in1 by (simp add: indexed_def)
    then have "w2 (tidIndexKey (EncodeToString (fc_tid cred))) = Some (key_of ?c)" using stays(2) by (simp add: as_ledger_def)
    from tid_through [OF W C cred sized(2) find in2 this] show ?thesis by blast
  qed
  then show ?thesis using put_ok in1 get_ok by blast
qed

definition flat_credential :: "u8 \<Rightarrow> FabricCredential" where
  "flat_credential x =
    \<lparr>fc_identityHash = replicate 32 x, fc_tid = replicate 32 x, fc_publicKey = zeros 800, fc_w = zeros 32, fc_verifyHash = zeros 32\<rparr>"

lemma flat_arrays: "credential_arrays (flat_credential x)"
  by (simp add: credential_arrays_def flat_credential_def)

lemmas lab = sample_wolf_works sample_wolf_sizes sample_same_mac lab_contract_runs

abbreviation lab_net :: "u8 \<Rightarrow> u16 \<Rightarrow> bytes \<Rightarrow> FabricState \<Rightarrow> world \<Rightarrow> fabric_attempt list" where
  "lab_net \<equiv> lab_call sample_wolf sample_mac lab_contract"

abbreviation lab_reaches :: "u8 \<Rightarrow> u16 \<Rightarrow> bytes \<Rightarrow> fabric_attempt list \<Rightarrow> FabricState \<Rightarrow> world \<Rightarrow> world \<Rightarrow> bool" where
  "lab_reaches \<equiv> through_gateway sample_wolf sample_mac lab_contract"

lemma lab_put:
  "ledger_sound w \<Longrightarrow> lab_reaches GW_PUT_CREDENTIAL slot (record_of (flat_credential x))
    (lab_net GW_PUT_CREDENTIAL slot (record_of (flat_credential x)) s w) s w (put_record (as_ledger slot (flat_credential x)) w)"
  by (rule lab_call_through [OF lab(2,3) _ handle_put [OF lab(4) _ flat_arrays]]) (simp_all add: flat_arrays)

lemma lab_get:
  "stored w (as_ledger slot (flat_credential x)) \<Longrightarrow> lab_reaches GW_QUERY_ID_SLOT slot (replicate 32 x)
    (lab_net GW_QUERY_ID_SLOT slot (replicate 32 x) s w) s w w"
  using lab_call_through [OF lab(2,3) _ handle_query_slot [OF lab(4) flat_arrays], of x w slot s]
  by (simp add: flat_arrays) (simp add: flat_credential_def)

lemma lab_find:
  assumes "stored w (as_ledger slot (flat_credential x))"
    and "w (tidIndexKey (EncodeToString (replicate 32 x))) = Some (key_of (as_ledger slot (flat_credential x)))"
  shows "lab_reaches GW_QUERY_TID 0 (replicate 32 x) (lab_net GW_QUERY_TID 0 (replicate 32 x) s w) s w w"
  using lab_call_through [OF lab(2,3) _ handle_query_tid [OF lab(4) flat_arrays assms(1)], of 0 s] assms(2)
  by (simp add: flat_arrays) (simp add: flat_credential_def)

lemma flat_put:
  assumes "ledger_sound w" and "indexed w" and "free_TID (as_ledger slot (flat_credential x)) w"
  defines "c \<equiv> as_ledger slot (flat_credential x)"
  shows "ledger_sound (put_record c w)" and "indexed (put_record c w)" and "stored (put_record c w) c"
    and "put_record c w (tidIndexKey (EncodeToString (replicate 32 x))) = Some (key_of c)"
proof -
  have v: "validCredential c" unfolding c_def by (rule as_ledger_valid [OF flat_arrays])
  have inv: "ledger_sound (put_record c w) \<and> indexed (put_record c w)"
    using credentials.put_inv [of w c] assms(1-3) v by (simp add: free_TID_def c_def)
  then show "ledger_sound (put_record c w)" "indexed (put_record c w)" by simp_all
  show st: "stored (put_record c w) c" using credentials.put_holds [of w c c] assms(1,2) v by simp
  have "cr_TID c = EncodeToString (replicate 32 x)" by (simp add: c_def as_ledger_def flat_credential_def)
  with st inv show "put_record c w (tidIndexKey (EncodeToString (replicate 32 x))) = Some (key_of c)"
    unfolding indexed_def by metis
qed

lemma nothing_stored: "free_TID c Map.empty"
  by (simp add: free_TID_def stored_def)

theorem enrolled_credential_is_fetched_witness:
  "\<exists>netA netB netT sA mB sB mT sT us. putCredential sample_wolf 5 (flat_credential 9) 0 netA FabricUdpClient_ctor = Some (True, us, sA) \<and>
    queryByIdentitySlot sample_wolf (replicate 32 9) 5 netB no_meter FabricUdpClient_ctor = Some (Some (flat_credential 9), mB, sB) \<and>
    queryByTid sample_wolf (replicate 32 9) netT no_meter FabricUdpClient_ctor = Some (Some (flat_credential 9), mT, sT)"
proof -
  let ?c = "as_ledger 5 (flat_credential 9)" and ?s = FabricUdpClient_ctor
  let ?w = "put_record ?c Map.empty"
  note put = flat_put [OF empty_ledger_sound nothing_stored, of 5 9]
  have f: "fc_identityHash (flat_credential 9) = replicate 32 9" "fc_tid (flat_credential 9) = replicate 32 9"
    by (simp_all add: flat_credential_def)
  note get = lab_get [OF put(3), of ?s, folded f(1)] and find = lab_find [OF put(3,4), of ?s, folded f(2)]
  note stay = refl [of "?w (key_of ?c)"] refl [of "?w (tidIndexKey (EncodeToString (fc_tid (flat_credential 9))))"]
  from enrolled_credential_is_fetched [OF lab empty_ledger_sound(1) flat_arrays sample_fabric_sized sample_fabric_sized
      lab_put [OF empty_ledger_sound(1)] stay get find, of 0 no_meter, unfolded f]
  show ?thesis using empty_ledger_sound(2) nothing_stored by blast
qed

text \<open>C37: The gateway and the chaincode are the service that a session relies on (\<open>duo_served\<close>). When both drones
  have enrolled their credentials of a slot, with pseudonyms that no other record has, and the gateway serves
  the two queries of the initiator and the one of the responder, each query returns the right
  credential, and the ledger is left as it was with its index still complete.\<close>

theorem gateway_serves_session:
  assumes W: "wolf_works W" "wolf_sizes W" "same_mac W H" and C: "runs_chaincode C" and w: "ledger_sound w" "indexed w"
    and cred: "credential_arrays (du_credA d)" "credential_arrays (du_credB d)"
    and ids: "fc_identityHash (du_credA d) = q_identityHash (du_A d)" "fc_identityHash (du_credB d) = q_peerIdentityHash (du_A d)"
    and apart: "fc_identityHash (du_credA d) \<noteq> fc_identityHash (du_credB d)" "fc_tid (du_credA d) \<noteq> fc_tid (du_credB d)"
      "free_TID (as_ledger (du_slot d) (du_credA d)) w" "free_TID (as_ledger (du_slot d) (du_credB d)) w"
    and sized: "fabric_sized (q_fabric (du_A d))" "fabric_sized (q_fabric (du_B d))" "fabric_sized sA" "fabric_sized sB"
    and puts: "through_gateway W H C GW_PUT_CREDENTIAL (du_slot d) (record_of (du_credA d)) netA sA w w1"
      "through_gateway W H C GW_PUT_CREDENTIAL (du_slot d) (record_of (du_credB d)) netB sB w1 w2"
    and queries: "through_gateway W H C GW_QUERY_ID_SLOT (du_slot d) (q_identityHash (du_A d)) (ae_fabric (du_eA d) 0) (q_fabric (du_A d)) w2 v1"
      "through_gateway W H C GW_QUERY_ID_SLOT (du_slot d) (q_peerIdentityHash (du_A d)) (ae_fabric (du_eA d) 1)
        ((q_fabric (du_A d))\<lparr>f_nextRequestId := f_nextRequestId (q_fabric (du_A d)) + 1\<rparr>) v1 v2"
      "through_gateway W H C GW_QUERY_TID 0 (fc_tid (du_credA d)) (ae_fabric (du_eB d) 0) (q_fabric (du_B d)) v2 v3"
  shows "duo_served W d \<and> v3 = w2 \<and> ledger_sound w2 \<and> indexed w2"
proof -
  let ?a = "as_ledger (du_slot d) (du_credA d)" and ?b = "as_ledger (du_slot d) (du_credB d)"
  note v = as_ledger_valid [OF cred(1)] as_ledger_valid [OF cred(2)]
  have w1: "w1 = put_record ?a w" using put_through [OF W C w(1) cred(1) sized(3) puts(1)] by blast
  have i1: "ledger_sound w1 \<and> indexed w1"
    using credentials.put_inv [of w ?a] w v(1) apart(3) by (simp add: w1 free_TID_def)
  have w2: "w2 = put_record ?b w1" using put_through [OF W C _ cred(2) sized(4) puts(2)] i1 by blast
  have fold: "w2 = fold put_record [?a, ?b] w" by (simp add: w1 w2)
  have keys: "key_of ?a \<noteq> key_of ?b" using apart(1) v by (simp add: key_of_eq) (simp add: as_ledger_def)
  have tids: "cr_TID ?a \<noteq> cr_TID ?b" using apart(2) by (simp add: as_ledger_def)
  have h1: "stored w1 u \<longleftrightarrow> u = ?a \<or> stored w u \<and> key_of u \<noteq> key_of ?a" for u
    using credentials.put_holds [of w ?a u] w v(1) by (simp add: w1)
  have i2: "ledger_sound w2 \<and> indexed w2"
    using credentials.put_inv [of w1 ?b] i1 v(2) apart(4) tids by (auto simp: w2 h1 free_TID_def)
  have h2: "stored w2 u \<longleftrightarrow> u = ?b \<or> stored w1 u \<and> key_of u \<noteq> key_of ?b" for u
    using credentials.put_holds [of w1 ?b u] i1 v(2) by (simp add: w2)
  have st: "stored w2 ?a" "stored w2 ?b" using keys by (simp_all add: h1 h2)
  have "w2 (tidIndexKey (cr_TID ?a)) = Some (key_of ?a)" using i2 st(1) by (simp add: indexed_def)
  then have index: "w2 (tidIndexKey (EncodeToString (fc_tid (du_credA d)))) = Some (key_of ?a)" by (simp add: as_ledger_def)
  from slot_through [OF W C cred(1) sized(1) queries(1) [folded ids(1)] st(1), of no_meter, unfolded ids(1)] obtain m1 f1
    where q1: "v1 = w2" "queryByIdentitySlot W (q_identityHash (du_A d)) (du_slot d) (ae_fabric (du_eA d) 0) no_meter (q_fabric (du_A d)) =
        Some (Some (du_credA d), m1, f1)"
      and f1: "f_nextRequestId f1 = f_nextRequestId (q_fabric (du_A d)) + 1" "f_gatewayIp f1 = f_gatewayIp (q_fabric (du_A d))"
        "f_gatewayPort f1 = f_gatewayPort (q_fabric (du_A d))" "fabric_sized f1" by blast
  have "through_gateway W H C GW_QUERY_ID_SLOT (du_slot d) (fc_identityHash (du_credB d)) (ae_fabric (du_eA d) 1) f1 w2 v2"
    using queries(2) through_gateway_same [of f1 "(q_fabric (du_A d))\<lparr>f_nextRequestId := f_nextRequestId (q_fabric (du_A d)) + 1\<rparr>"] f1
    by (simp add: q1(1) ids(2))
  from slot_through [OF W C cred(2) f1(4) this st(2), of m1, unfolded ids(2)] obtain m2 f2
    where q2: "v2 = w2" "queryByIdentitySlot W (q_peerIdentityHash (du_A d)) (du_slot d) (ae_fabric (du_eA d) 1) m1 f1 = Some (Some (du_credB d), m2, f2)"
    by blast
  from tid_through [OF W C cred(1) sized(2) queries(3) [unfolded q2(1)] st(1) index, of no_meter] obtain m3 f3
    where q3: "v3 = w2" "queryByTid W (fc_tid (du_credA d)) (ae_fabric (du_eB d) 0) no_meter (q_fabric (du_B d)) = Some (Some (du_credA d), m3, f3)"
    by blast
  show ?thesis using q1(2) q2(2) q3 i2 by (auto simp: duo_served_def)
qed

text \<open>Two drones with different identities, enrolled one after the other on an empty ledger.\<close>

definition lab_ledger :: world where
  "lab_ledger = put_record (as_ledger 0 (flat_credential 2)) (put_record (as_ledger 0 (flat_credential 1)) Map.empty)"

definition lab_duo :: apqe_duo where
  "lab_duo =
    (let s = FabricUdpClient_ctor; next = s\<lparr>f_nextRequestId := f_nextRequestId s + 1\<rparr>;
         calls = (\<lambda>i :: nat. if i = 0 then lab_net GW_QUERY_ID_SLOT 0 (replicate 32 1) s lab_ledger
                else lab_net GW_QUERY_ID_SLOT 0 (replicate 32 2) next lab_ledger);
         env = sample_apqe_env 0 (flat_credential 1) (\<lambda>_. 0) silent_radio
     in \<lparr>du_A = sample_apqe\<lparr>q_identityHash := replicate 32 1, q_peerIdentityHash := replicate 32 2\<rparr>,
         du_B = sample_apqe\<lparr>q_identityHash := replicate 32 2, q_peerIdentityHash := replicate 32 1\<rparr>,
         du_eA = env\<lparr>ae_fabric := calls\<rparr>,
         du_eB = env\<lparr>ae_fabric := \<lambda>_. lab_net GW_QUERY_TID 0 (replicate 32 1) s lab_ledger\<rparr>,
         du_slot = 0, du_credA = flat_credential 1, du_credB = flat_credential 2\<rparr>)"

theorem gateway_serves_session_witness:
  "duo_served sample_wolf lab_duo \<and> indexed lab_ledger"
proof -
  let ?s = FabricUdpClient_ctor and ?a = "as_ledger 0 (flat_credential 1)" and ?b = "as_ledger 0 (flat_credential 2)"
  let ?w1 = "put_record ?a Map.empty"
  have f: "fc_identityHash (flat_credential x) = replicate 32 x" "fc_tid (flat_credential x) = replicate 32 x" for x
    by (simp_all add: flat_credential_def)
  have valid: "validCredential ?a" "validCredential ?b" by (rule as_ledger_valid [OF flat_arrays])+
  have ne: "replicate 32 (1 :: u8) \<noteq> replicate 32 2" by simp
  have tids: "cr_TID ?a \<noteq> cr_TID ?b" using ne by (simp add: as_ledger_def f)
  have keys: "key_of ?a \<noteq> key_of ?b" using ne valid by (simp add: key_of_eq) (simp add: as_ledger_def f)
  note p1 = flat_put [OF empty_ledger_sound nothing_stored, of 0 1]
  have only: "stored ?w1 u \<longleftrightarrow> u = ?a" for u
    using credentials.put_holds [of Map.empty ?a u] empty_ledger_sound valid by (simp add: stored_def)
  have free: "free_TID ?b ?w1" using tids by (auto simp: free_TID_def only)
  note p2 = flat_put [OF p1(1,2) free, folded lab_ledger_def]
  have a2: "stored lab_ledger ?a"
    using credentials.put_holds [of ?w1 ?b ?a] p1 valid keys by (simp add: lab_ledger_def)
  have "lab_ledger (tidIndexKey (cr_TID ?a)) = Some (key_of ?a)" using p2(2) a2 by (simp add: indexed_def)
  then have index: "lab_ledger (tidIndexKey (EncodeToString (replicate 32 1))) = Some (key_of ?a)" by (simp add: as_ledger_def f)
  note puts = lab_put [OF empty_ledger_sound(1), of 0 1 ?s] lab_put [OF p1(1), of 0 2 ?s, folded lab_ledger_def]
  have d: "du_slot lab_duo = 0" "du_credA lab_duo = flat_credential 1" "du_credB lab_duo = flat_credential 2"
    "q_identityHash (du_A lab_duo) = replicate 32 1" "q_peerIdentityHash (du_A lab_duo) = replicate 32 2"
    "q_fabric (du_A lab_duo) = ?s" "q_fabric (du_B lab_duo) = ?s"
    "ae_fabric (du_eA lab_duo) 0 = lab_net GW_QUERY_ID_SLOT 0 (replicate 32 1) ?s lab_ledger"
    "ae_fabric (du_eA lab_duo) 1 = lab_net GW_QUERY_ID_SLOT 0 (replicate 32 2) (?s\<lparr>f_nextRequestId := f_nextRequestId ?s + 1\<rparr>) lab_ledger"
    "ae_fabric (du_eB lab_duo) 0 = lab_net GW_QUERY_TID 0 (replicate 32 1) ?s lab_ledger"
    by (simp_all add: lab_duo_def Let_def)
  from gateway_serves_session [of sample_wolf sample_mac lab_contract Map.empty lab_duo ?s ?s, unfolded d f,
      OF lab empty_ledger_sound flat_arrays flat_arrays refl refl ne ne nothing_stored nothing_stored
        sample_fabric_sized sample_fabric_sized sample_fabric_sized sample_fabric_sized puts
        lab_get [OF a2] lab_get [OF p2(3)] lab_find [OF a2 index]]
  show ?thesis by blast
qed

text \<open>A query for a record that is not on the ledger is not mistaken for one: the gateway recognises the error of
  the chaincode, and the drone's call returns false with the status \<open>GW_NOT_FOUND\<close>.\<close>

theorem missing_credential_reported:
  assumes "wolf_works W" and "wolf_sizes W" and "same_mac W H" and "runs_chaincode C" and "length ident = ID_BYTES" and "fabric_sized s"
    and "through_gateway W H C GW_QUERY_ID_SLOT slot ident attempts s w w'"
    and "w (credentialKey (EncodeToString ident) slot) = None"
  shows "\<exists>m' s'. queryByIdentitySlot W ident slot attempts m s = Some (None, m', s') \<and> f_lastStatus s' = GW_NOT_FOUND"
  using assms by (rule missing_through)

theorem missing_credential_reported_witness:
  "\<exists>net m' s'. queryByIdentitySlot sample_wolf (zeros 32) 7 net no_meter FabricUdpClient_ctor = Some (None, m', s') \<and> f_lastStatus s' = GW_NOT_FOUND"
proof -
  have id: "length (zeros 32) = ID_BYTES" by simp
  note none = handle_query_missing [where w = Map.empty and slot = 7, OF lab(4) id refl]
  have "lab_reaches GW_QUERY_ID_SLOT 7 (zeros 32) (lab_net GW_QUERY_ID_SLOT 7 (zeros 32) FabricUdpClient_ctor Map.empty) FabricUdpClient_ctor Map.empty Map.empty"
    by (rule lab_call_through [OF lab(2,3) _ none]) simp_all
  from missing_credential_reported [OF lab id sample_fabric_sized this refl] show ?thesis by blast
qed

end
