(* ===== verification/LedgerService.thy ===== *)
theory LedgerService
  imports RepositoryExchange TextFormats "HOL-Library.Char_ord" "HOL-Library.List_Lexorder"
begin

text \<open>
  The rest of the repository's service, \<open>laptop_server/gcs_ledger_server.py\<close>: the hash-chained
  audit file, the limits of SQLite, the exceptions, the reply copies, the receive loop and
  restarts. Parsing, tables and replies are those of \<open>LedgerServer\<close>.

  \<open>hashlib.sha256\<close> is the parameter \<open>S\<close>. A dict is the list of its items. A line of the
  audit file is the dict that \<open>json.loads\<close> reads from it, \<open>None\<close> where it reads none; what the
  service hashes is the text that \<open>json.dumps\<close> writes. The clock is seen through the decimal
  text of its reading. The columns \<open>source_ip\<close> and \<open>updated_at\<close> are never read and left out.
\<close>

section \<open>JSON texts of dicts\<close>

datatype pyjson = PyText string | PyInt nat | PyFloat string

type_synonym dict = "(string \<times> pyjson) list"

text \<open>The texts the service writes, hexadecimal digits, names and addresses, need no escapes.\<close>

fun dump_value :: "pyjson \<Rightarrow> string" where
  "dump_value (PyText s) = json_quote s"
| "dump_value (PyInt n) = Itoa n"
| "dump_value (PyFloat r) = r"

fun dump_items :: "dict \<Rightarrow> string" where
  "dump_items [] = []"
| "dump_items [(k, v)] = json_quote k @ '':'' @ dump_value v"
| "dump_items ((k, v) # kvs) = json_quote k @ '':'' @ dump_value v @ '','' @ dump_items kvs"

text \<open>\<open>json.dumps(body, sort_keys=True, separators=(",", ":"))\<close>\<close>

definition dumps_canonical :: "dict \<Rightarrow> string" where
  "dumps_canonical body = ''{'' @ dump_items (sort_key fst body) @ ''}''"

section \<open>The service and its exceptions\<close>

datatype python_error = OverflowError | OSError

record service =
  tables :: ledger
  audit_file :: "dict option list"
  previous_audit_hash :: string

text \<open>
  What one request meets: the clock, whether the audit file opens and takes the block, and how
  many datagrams the socket sends. A write that breaks off in the middle of a line is not modelled.
\<close>

record surroundings =
  clock :: string
  audit_opens :: bool
  sendto_works :: nat

definition zero_hash :: string where
  "zero_hash = replicate 64 (CHR ''0'')"

definition sha256_hexdigest :: "(bytes \<Rightarrow> bytes) \<Rightarrow> string \<Rightarrow> string" where
  "sha256_hexdigest S s = EncodeToString (S (map of_char s))"

text \<open>The last line of the file: \<open>str(json.loads(last)["block_hash"])\<close>, zeros where that fails.\<close>

definition load_last_audit_hash :: "dict option list \<Rightarrow> string" where
  "load_last_audit_hash lines =
    (if lines = [] then zero_hash
     else case last lines of
       None \<Rightarrow> zero_hash
     | Some body \<Rightarrow>
         (case map_of body ''block_hash'' of
            None \<Rightarrow> zero_hash
          | Some (PyText s) \<Rightarrow> s
          | Some (PyInt n) \<Rightarrow> Itoa n
          | Some (PyFloat r) \<Rightarrow> r))"

definition open_ledger :: "ledger \<Rightarrow> dict option list \<Rightarrow> service" where
  "open_ledger t lines = \<lparr>tables = t, audit_file = lines, previous_audit_hash = load_last_audit_hash lines\<rparr>"

definition audit_body :: "dict \<Rightarrow> string \<Rightarrow> string \<Rightarrow> dict" where
  "audit_body event now previous = event @ [(''timestamp'', PyFloat now), (''previous_hash'', PyText previous)]"

definition append_audit ::
  "(bytes \<Rightarrow> bytes) \<Rightarrow> surroundings \<Rightarrow> dict \<Rightarrow> service \<Rightarrow> python_error option \<times> service" where
  "append_audit S env event sv =
    (let body = audit_body event (clock env) (previous_audit_hash sv);
         block_hash = sha256_hexdigest S (dumps_canonical body);
         body = body @ [(''block_hash'', PyText block_hash)]
     in if \<not> audit_opens env then (Some OSError, sv)
        else (None, sv\<lparr>audit_file := audit_file sv @ [Some body], previous_audit_hash := block_hash\<rparr>))"

definition root_event :: "bytes \<times> u32 \<Rightarrow> root_record \<Rightarrow> string \<Rightarrow> dict" where
  "root_event = (\<lambda>(device_id, version) (ident, rootValue, suite_id, status, expiry_unix) source_ip.
    [(''event'', PyText ''root''),
     (''device_id'', PyText (EncodeToString device_id)),
     (''version'', PyInt (unat version)),
     (''identifier'', PyText (EncodeToString ident)),
     (''root'', PyText (EncodeToString rootValue)),
     (''suite_id'', PyInt (unat suite_id)),
     (''status'', PyInt (unat status)),
     (''expiry_unix'', PyInt (unat expiry_unix)),
     (''source_ip'', PyText source_ip)])"

definition path_event :: "(bytes \<Rightarrow> bytes) \<Rightarrow> bytes \<times> u32 \<times> u32 \<Rightarrow> bytes \<Rightarrow> string \<Rightarrow> dict" where
  "path_event S = (\<lambda>(device_id, version, q) path source_ip.
    [(''event'', PyText ''path''),
     (''device_id'', PyText (EncodeToString device_id)),
     (''version'', PyInt (unat version)),
     (''q'', PyInt (unat q)),
     (''path_sha256'', PyText (EncodeToString (S path))),
     (''source_ip'', PyText source_ip)])"

text \<open>
  \<open>Ledger.upsert_root\<close>: SQLite's integers have 64 bits with a sign, and \<open>sqlite3\<close> raises
  \<open>OverflowError\<close> when an argument does not fit; only the expiry can be that large. The row
  is committed before the audit block is appended.
\<close>

definition store_root ::
  "(bytes \<Rightarrow> bytes) \<Rightarrow> surroundings \<Rightarrow> bytes \<times> u32 \<Rightarrow> root_record \<Rightarrow> string \<Rightarrow> service \<Rightarrow> python_error option \<times> service" where
  "store_root S env key new_tuple source_ip sv =
    (if get_root key (tables sv) = Some new_tuple then (None, sv)
     else case new_tuple of (ident, rootValue, suite_id, status, expiry_unix) \<Rightarrow>
       if 2 ^ 63 \<le> unat expiry_unix then (Some OverflowError, sv)
       else append_audit S env (root_event key new_tuple source_ip)
         (sv\<lparr>tables := upsert_root key new_tuple (tables sv)\<rparr>))"

definition store_path ::
  "(bytes \<Rightarrow> bytes) \<Rightarrow> surroundings \<Rightarrow> bytes \<times> u32 \<times> u32 \<Rightarrow> bytes \<Rightarrow> string \<Rightarrow> service \<Rightarrow> python_error option \<times> service" where
  "store_path S env key path source_ip sv =
    (if get_path key (tables sv) = Some path then (None, sv)
     else append_audit S env (path_event S key path source_ip) (sv\<lparr>tables := upsert_path key path (tables sv)\<rparr>))"

section \<open>Serving requests\<close>

type_synonym peer_address = "string \<times> nat"

text \<open>\<open>copies\<close> datagrams, up to the first that the socket refuses.\<close>

definition send_reply ::
  "surroundings \<Rightarrow> bytes \<Rightarrow> peer_address \<Rightarrow> nat \<Rightarrow> python_error option \<times> (peer_address \<times> bytes) list" where
  "send_reply env payload address copies =
    (if copies \<le> sendto_works env then (None, replicate copies (address, payload))
     else (Some OSError, replicate (sendto_works env) (address, payload)))"

text \<open>The reply to a request that was carried out, or the exception it raised.\<close>

definition reply_after ::
  "surroundings \<Rightarrow> nat \<Rightarrow> peer_address \<Rightarrow> python_error option \<times> service \<Rightarrow> bytes \<Rightarrow>
    python_error option \<times> (peer_address \<times> bytes) list \<times> service" where
  "reply_after env copies address outcome payload =
    (case outcome of
       (Some e, sv) \<Rightarrow> (Some e, [], sv)
     | (None, sv) \<Rightarrow> (case send_reply env payload address copies of (e, sent) \<Rightarrow> (e, sent, sv)))"

text \<open>
  The body of the receive loop. It catches \<open>ValueError\<close>, which only the parsers raise, and
  nothing else: the first component is the exception that leaves the loop.
\<close>

definition serve_packet ::
  "(bytes \<Rightarrow> bytes) \<Rightarrow> hmac \<Rightarrow> nat \<Rightarrow> surroundings \<Rightarrow> bytes \<Rightarrow> peer_address \<Rightarrow> service \<Rightarrow>
    python_error option \<times> (peer_address \<times> bytes) list \<times> service" where
  "serve_packet S H copies env packet address sv =
    (let reply = reply_after env copies address; ignore = (None, [], sv) in
     if length packet < 5 \<or> take 4 packet \<noteq> GCS2 then ignore
     else if packet ! 4 = OP_ENROLL_ROOT then
       (case parse_root_record H packet of
          None \<Rightarrow> ignore
        | Some ((device_id, version), values) \<Rightarrow>
            reply (store_root S env (device_id, version) values (fst address) sv) (build_ack H device_id version 0 0))
     else if packet ! 4 = OP_ENROLL_PATH then
       (case parse_path_record H packet of
          None \<Rightarrow> ignore
        | Some ((device_id, version, q), path) \<Rightarrow>
            reply (store_path S env (device_id, version, q) path (fst address) sv) (build_ack H device_id version q 0))
     else if packet ! 4 = OP_GET_ROOT then
       (case parse_get_root H packet of
          None \<Rightarrow> ignore
        | Some (requester, target, version) \<Rightarrow>
            reply (None, sv)
              (case get_root (target, version) (tables sv) of
                 None \<Rightarrow> build_not_found H target version 0
               | Some values \<Rightarrow> build_root_response H target version values))
     else if packet ! 4 = OP_GET_PATH then
       (case parse_get_path H packet of
          None \<Rightarrow> ignore
        | Some (requester, target, version, q) \<Rightarrow>
            reply (None, sv)
              (case get_path (target, version, q) (tables sv) of
                 None \<Rightarrow> build_not_found H target version q
               | Some path \<Rightarrow> build_path_response H target version q path))
     else ignore)"

text \<open>
  The loop over what it meets: a timeout of \<open>recvfrom\<close> or a datagram, of which at most 2048
  bytes are read, and whether a stop signal arrived meanwhile.
\<close>

datatype ledger_event = SocketTimeout | Arrives surroundings bytes peer_address

datatype loop_end = StillRunning | Returned | Raised python_error

fun service_loop ::
  "(bytes \<Rightarrow> bytes) \<Rightarrow> hmac \<Rightarrow> nat \<Rightarrow> bool \<Rightarrow> (ledger_event \<times> bool) list \<Rightarrow> service \<Rightarrow>
    loop_end \<times> (peer_address \<times> bytes) list \<times> service" where
  "service_loop S H copies running [] sv = (if running then StillRunning else Returned, [], sv)"
| "service_loop S H copies running ((ev, stopped) # evs) sv =
    (if \<not> running then (Returned, [], sv)
     else case ev of
       SocketTimeout \<Rightarrow> service_loop S H copies (\<not> stopped) evs sv
     | Arrives env datagram address \<Rightarrow>
         (case serve_packet S H copies env (take 2048 datagram) address sv of
            (Some e, sent, sv) \<Rightarrow> (Raised e, sent, sv)
          | (None, sent, sv) \<Rightarrow>
              (case service_loop S H copies (\<not> stopped) evs sv of
                 (end', later, sv) \<Rightarrow> (end', sent @ later, sv))))"

end
