(* ===== verification/LedgerServiceProperties.thy ===== *)
theory LedgerServiceProperties
  imports LedgerService RepositoryProperties
begin

text \<open>
  The audit file of the repository's service against its tables: the file is a hash chain and
  a complete record of the tables as long as it can be written, across any number of
  launches; what happens when it cannot, and which request ends the service.
\<close>

section \<open>The chain\<close>

definition block_hash_of :: "(bytes \<Rightarrow> bytes) \<Rightarrow> dict \<Rightarrow> string" where
  "block_hash_of S body = sha256_hexdigest S (dumps_canonical (filter (\<lambda>(k, _). k \<noteq> ''block_hash'') body))"

definition linked :: "(bytes \<Rightarrow> bytes) \<Rightarrow> string \<Rightarrow> dict option \<Rightarrow> bool" where
  "linked S previous line =
    (case line of
       None \<Rightarrow> False
     | Some body \<Rightarrow> map_of body ''previous_hash'' = Some (PyText previous) \<and>
         map_of body ''block_hash'' = Some (PyText (block_hash_of S body)))"

fun chained :: "(bytes \<Rightarrow> bytes) \<Rightarrow> string \<Rightarrow> dict option list \<Rightarrow> bool" where
  "chained S previous [] \<longleftrightarrow> True"
| "chained S previous (line # lines) \<longleftrightarrow> linked S previous line \<and> chained S (load_last_audit_hash [line]) lines"

lemma load_last_Cons: "lines \<noteq> [] \<Longrightarrow> load_last_audit_hash (line # lines) = load_last_audit_hash lines"
  by (simp add: load_last_audit_hash_def)

lemma load_last_snoc: "load_last_audit_hash (lines @ [line]) = load_last_audit_hash [line]"
  by (simp add: load_last_audit_hash_def)

lemma chained_snoc:
  "chained S previous (lines @ [line]) \<longleftrightarrow>
    chained S previous lines \<and> linked S (if lines = [] then previous else load_last_audit_hash lines) line"
  by (induction lines arbitrary: previous) (auto simp: load_last_Cons)

section \<open>Reading the tables back from the file\<close>

definition text_at :: "dict \<Rightarrow> string \<Rightarrow> string" where
  "text_at body k = (case map_of body k of Some (PyText s) \<Rightarrow> s | _ \<Rightarrow> [])"

definition bytes_at :: "dict \<Rightarrow> string \<Rightarrow> bytes" where
  "bytes_at body k = (case DecodeString (text_at body k) of Some bs \<Rightarrow> bs | None \<Rightarrow> [])"

definition number_at :: "dict \<Rightarrow> string \<Rightarrow> nat" where
  "number_at body k = (case map_of body k of Some (PyInt n) \<Rightarrow> n | _ \<Rightarrow> 0)"

definition replay_root :: "(bytes \<times> u32 \<Rightarrow> root_record option) \<Rightarrow> dict option \<Rightarrow> bytes \<times> u32 \<Rightarrow> root_record option" where
  "replay_root t line =
    (case line of
       None \<Rightarrow> t
     | Some body \<Rightarrow>
         if text_at body ''event'' = ''root'' then
           t((bytes_at body ''device_id'', of_nat (number_at body ''version'')) \<mapsto>
             (bytes_at body ''identifier'', bytes_at body ''root'', of_nat (number_at body ''suite_id''),
              of_nat (number_at body ''status''), of_nat (number_at body ''expiry_unix'')))
         else t)"

definition replay_path :: "(bytes \<times> u32 \<times> u32 \<Rightarrow> string option) \<Rightarrow> dict option \<Rightarrow> bytes \<times> u32 \<times> u32 \<Rightarrow> string option" where
  "replay_path t line =
    (case line of
       None \<Rightarrow> t
     | Some body \<Rightarrow>
         if text_at body ''event'' = ''path'' then
           t((bytes_at body ''device_id'', of_nat (number_at body ''version''), of_nat (number_at body ''q'')) \<mapsto>
             text_at body ''path_sha256'')
         else t)"

definition audited_roots :: "dict option list \<Rightarrow> bytes \<times> u32 \<Rightarrow> root_record option" where
  "audited_roots = foldl replay_root (\<lambda>_. None)"

definition audited_paths :: "dict option list \<Rightarrow> bytes \<times> u32 \<times> u32 \<Rightarrow> string option" where
  "audited_paths = foldl replay_path (\<lambda>_. None)"

text \<open>The file says what the tables hold, the paths through their hashes.\<close>

definition recorded :: "(bytes \<Rightarrow> bytes) \<Rightarrow> service \<Rightarrow> bool" where
  "recorded S sv \<longleftrightarrow>
    credential_roots (tables sv) = audited_roots (audit_file sv) \<and>
    map_option (EncodeToString \<circ> S) \<circ> lms_paths (tables sv) = audited_paths (audit_file sv)"

definition chain_kept :: "(bytes \<Rightarrow> bytes) \<Rightarrow> service \<Rightarrow> bool" where
  "chain_kept S sv \<longleftrightarrow>
    chained S zero_hash (audit_file sv) \<and> previous_audit_hash sv = load_last_audit_hash (audit_file sv)"

definition fits_sqlite :: "ledger \<Rightarrow> bool" where
  "fits_sqlite t \<longleftrightarrow> (\<forall>key i r s st expiry. credential_roots t key = Some (i, r, s, st, expiry) \<longrightarrow> unat expiry < 2 ^ 63)"

lemma fits_sqliteD: "fits_sqlite t \<Longrightarrow> credential_roots t key = Some (i, r, s, st, expiry) \<Longrightarrow> \<not> 2 ^ 63 \<le> unat expiry"
  by (cases key) (simp add: fits_sqlite_def not_le)

section \<open>One block\<close>

text \<open>The block that \<open>append_audit\<close> writes for an event.\<close>

definition audit_block :: "(bytes \<Rightarrow> bytes) \<Rightarrow> string \<Rightarrow> dict \<Rightarrow> string \<Rightarrow> dict" where
  "audit_block S now event previous =
    audit_body event now previous @
    [(''block_hash'', PyText (sha256_hexdigest S (dumps_canonical (audit_body event now previous))))]"

definition event_names :: "dict \<Rightarrow> bool" where
  "event_names event \<longleftrightarrow>
    ''block_hash'' \<notin> fst ` set event \<and> ''previous_hash'' \<notin> fst ` set event \<and> ''timestamp'' \<notin> fst ` set event"

lemma event_names: "event_names (root_event k v ip)" "event_names (path_event S k' p ip)"
  by (cases k; cases v; simp add: event_names_def root_event_def) (cases k'; simp add: event_names_def path_event_def)

lemma map_of_absent: "k \<notin> fst ` set event \<Longrightarrow> map_of (event @ kvs) k = map_of kvs k"
  by (simp add: map_add_dom_app_simps(3) dom_map_of_conv_image_fst)

lemma audit_block_fields:
  assumes "event_names event"
  shows "map_of (audit_block S now event previous) ''previous_hash'' = Some (PyText previous)"
    and "map_of (audit_block S now event previous) ''block_hash'' =
      Some (PyText (sha256_hexdigest S (dumps_canonical (audit_body event now previous))))"
  using assms by (simp_all add: event_names_def audit_block_def audit_body_def map_of_absent del: map_of_append)

lemma audit_block_hash:
  assumes "event_names event"
  shows "block_hash_of S (audit_block S now event previous) = sha256_hexdigest S (dumps_canonical (audit_body event now previous))"
proof -
  have "filter (\<lambda>(k, _). k \<noteq> ''block_hash'') event = event"
    using assms by (force simp: event_names_def filter_id_conv)
  then show ?thesis by (simp add: block_hash_of_def audit_block_def audit_body_def)
qed

lemma audit_block_linked: "event_names event \<Longrightarrow> linked S previous (Some (audit_block S now event previous))"
  by (simp add: linked_def audit_block_fields audit_block_hash)

lemma load_last_block:
  "event_names event \<Longrightarrow> load_last_audit_hash (lines @ [Some (audit_block S now event previous)]) =
    sha256_hexdigest S (dumps_canonical (audit_body event now previous))"
  by (simp add: load_last_audit_hash_def audit_block_fields)

lemma load_last_Nil [simp]: "load_last_audit_hash [] = zero_hash"
  by (simp add: load_last_audit_hash_def)

text \<open>An append adds one block and leaves the service as opening the files again would.\<close>

lemma append_audit_eq:
  assumes "event_names event"
  shows "append_audit S env event sv =
    (if audit_opens env then
       (None, open_ledger (tables sv) (audit_file sv @ [Some (audit_block S (clock env) event (previous_audit_hash sv))]))
     else (Some OSError, sv))"
  by (cases sv) (simp add: append_audit_def Let_def open_ledger_def load_last_block [OF assms], simp add: audit_block_def)

lemma open_ledger_fields [simp]:
  "tables (open_ledger t a) = t" "audit_file (open_ledger t a) = a" "previous_audit_hash (open_ledger t a) = load_last_audit_hash a"
  by (simp_all add: open_ledger_def)

lemma append_audit_chain:
  assumes "event_names event" and "chain_kept S sv"
  shows "chain_kept S (snd (append_audit S env event sv))"
  using assms
  by (auto simp: append_audit_eq chain_kept_def chained_snoc audit_block_linked)

text \<open>A block read back is the row it was written for.\<close>

lemma replay_root_block:
  "replay_root t (Some (audit_block S now (root_event key v ip) previous)) = t(key \<mapsto> v)"
  "replay_path u (Some (audit_block S now (root_event key v ip) previous)) = u"
  by (cases key; cases v; simp add: replay_root_def replay_path_def audit_block_def audit_body_def root_event_def text_at_def bytes_at_def number_at_def)+

lemma replay_path_block:
  "replay_path u (Some (audit_block S now (path_event S key p ip) previous)) = u(key \<mapsto> EncodeToString (S p))"
  "replay_root t (Some (audit_block S now (path_event S key p ip) previous)) = t"
  by (cases key; simp add: replay_root_def replay_path_def audit_block_def audit_body_def path_event_def text_at_def bytes_at_def number_at_def)+

section \<open>One request\<close>

lemma store_root_keeps:
  assumes "chain_kept S sv"
  shows "chain_kept S (snd (store_root S env key v ip sv))"
  using assms append_audit_chain [OF event_names(1), of S "sv\<lparr>tables := upsert_root key v (tables sv)\<rparr>" env key v ip]
  by (cases v) (simp add: store_root_def chain_kept_def)

lemma store_path_keeps:
  assumes "chain_kept S sv"
  shows "chain_kept S (snd (store_path S env key p ip sv))"
  using assms append_audit_chain [OF event_names(2), of S "sv\<lparr>tables := upsert_path key p (tables sv)\<rparr>" env S key p ip]
  by (simp add: store_path_def chain_kept_def)

lemma store_root_recorded:
  assumes "recorded S sv" and "audit_opens env"
  shows "recorded S (snd (store_root S env key v ip sv))"
  using assms
  by (cases v) (simp add: store_root_def append_audit_eq event_names recorded_def audited_roots_def audited_paths_def
      replay_root_block upsert_root_def)

lemma store_path_recorded:
  assumes "recorded S sv" and "audit_opens env"
  shows "recorded S (snd (store_path S env key p ip sv))"
  using assms
  by (simp add: store_path_def append_audit_eq event_names recorded_def audited_roots_def audited_paths_def
      replay_path_block upsert_path_def fun_eq_iff)

lemma store_root_fits: "fits_sqlite (tables sv) \<Longrightarrow> fits_sqlite (tables (snd (store_root S env key v ip sv)))"
  by (cases v) (auto simp: store_root_def append_audit_eq event_names fits_sqlite_def upsert_root_def split: if_splits)

lemma store_path_fits: "fits_sqlite (tables sv) \<Longrightarrow> fits_sqlite (tables (snd (store_path S env key p ip sv)))"
  by (simp add: store_path_def append_audit_eq event_names fits_sqlite_def upsert_path_def)

text \<open>A request changes the service through one of the two stores or not at all.\<close>

lemma reply_after_service [simp]: "snd (snd (reply_after env copies address outcome payload)) = snd outcome"
  by (cases outcome) (simp add: reply_after_def split: option.splits prod.splits)

lemma serve_packet_keeps:
  assumes "P sv" and "\<And>key v. P (snd (store_root S env key v (fst address) sv))"
    and "\<And>key p. P (snd (store_path S env key p (fst address) sv))"
  shows "P (snd (snd (serve_packet S H copies env packet address sv)))"
  using assms by (simp add: serve_packet_def Let_def split: option.split prod.split)

section \<open>Any number of launches\<close>

text \<open>A launch opens the files and runs the loop; the next one opens what it left.\<close>

definition meets :: "(surroundings \<Rightarrow> bool) \<Rightarrow> ledger_event \<times> bool \<Rightarrow> bool" where
  "meets ok round = (case fst round of SocketTimeout \<Rightarrow> True | Arrives env _ _ \<Rightarrow> ok env)"

inductive service_reachable :: "(bytes \<Rightarrow> bytes) \<Rightarrow> hmac \<Rightarrow> (surroundings \<Rightarrow> bool) \<Rightarrow> service \<Rightarrow> bool"
  for S :: "bytes \<Rightarrow> bytes" and H :: hmac and ok :: "surroundings \<Rightarrow> bool" where
  fresh: "service_reachable S H ok (open_ledger empty_ledger [])"
| launched: "service_reachable S H ok sv \<Longrightarrow> list_all (meets ok) rounds \<Longrightarrow>
    service_reachable S H ok (snd (snd (service_loop S H copies running rounds (open_ledger (tables sv) (audit_file sv)))))"

lemma service_loop_keeps:
  assumes "P sv" and "list_all (meets ok) rounds"
    and step: "\<And>env packet address sv. ok env \<Longrightarrow> P sv \<Longrightarrow> P (snd (snd (serve_packet S H copies env packet address sv)))"
  shows "P (snd (snd (service_loop S H copies running rounds sv)))"
  using assms(1,2)
proof (induction rounds arbitrary: running sv)
  case Nil
  then show ?case by simp
next
  case (Cons round rounds)
  obtain ev stopped where r: "round = (ev, stopped)" by (cases round)
  show ?case
  proof (cases ev)
    case SocketTimeout
    then show ?thesis using Cons r by simp
  next
    case (Arrives env datagram address)
    obtain e sent sv' where s: "serve_packet S H copies env (take 2048 datagram) address sv = (e, sent, sv')"
      by (cases "serve_packet S H copies env (take 2048 datagram) address sv")
    have "P sv" using Cons.prems(1) .
    have "P sv'" using step [of env sv "take 2048 datagram" address] Cons.prems Arrives r s by (simp add: meets_def)
    then show ?thesis
      using Cons.IH [of sv' "\<not> stopped"] Cons.prems(2) \<open>P sv\<close> r Arrives s
      by (cases "service_loop S H copies (\<not> stopped) rounds sv'") (simp split: option.split)
  qed
qed

lemma service_loop_append:
  assumes "service_loop S H copies running rounds sv = (StillRunning, sent, sv')"
  shows "service_loop S H copies running (rounds @ rest) sv =
    (case service_loop S H copies True rest sv' of (end', later, sv'') \<Rightarrow> (end', sent @ later, sv''))"
  using assms
proof (induction S H copies running rounds sv arbitrary: sent sv' rule: service_loop.induct)
  case (1 S H copies running sv)
  then show ?case by (auto split: if_splits prod.splits)
next
  case (2 S H copies running ev stopped evs sv)
  then show ?case by (auto split: if_splits prod.splits ledger_event.splits option.splits)
qed

lemma reachable_invariant:
  assumes "service_reachable S H ok sv"
  shows "chain_kept S sv \<and> fits_sqlite (tables sv) \<and> ((\<forall>env. ok env \<longrightarrow> audit_opens env) \<longrightarrow> recorded S sv)"
  using assms
proof induction
  case fresh
  then show ?case
    by (simp add: chain_kept_def fits_sqlite_def recorded_def audited_roots_def audited_paths_def empty_ledger_def fun_eq_iff)
next
  case (launched sv rounds copies running)
  define P where "P sv \<longleftrightarrow> chain_kept S sv \<and> fits_sqlite (tables sv) \<and> ((\<forall>env. ok env \<longrightarrow> audit_opens env) \<longrightarrow> recorded S sv)" for sv
  have "P (open_ledger (tables sv) (audit_file sv))"
    using launched.IH by (simp add: P_def chain_kept_def recorded_def)
  then have "P (snd (snd (service_loop S H copies running rounds (open_ledger (tables sv) (audit_file sv)))))"
    using launched.hyps(2)
  proof (rule service_loop_keeps)
    fix env packet address sv
    assume "ok env" and "P sv"
    then have kept: "chain_kept S sv" "fits_sqlite (tables sv)"
      and recorded: "\<forall>env. ok env \<longrightarrow> audit_opens env \<Longrightarrow> recorded S sv \<and> audit_opens env" by (simp_all add: P_def)
    show "P (snd (snd (serve_packet S H copies env packet address sv)))"
      unfolding P_def
    proof (intro conjI impI)
      show "chain_kept S (snd (snd (serve_packet S H copies env packet address sv)))"
        by (rule serve_packet_keeps) (simp_all add: kept store_root_keeps store_path_keeps)
      show "fits_sqlite (tables (snd (snd (serve_packet S H copies env packet address sv))))"
        by (rule serve_packet_keeps) (simp_all add: kept store_root_fits store_path_fits)
      assume "\<forall>env. ok env \<longrightarrow> audit_opens env"
      note r = recorded [OF this]
      show "recorded S (snd (snd (serve_packet S H copies env packet address sv)))"
        by (rule serve_packet_keeps) (simp_all add: r store_root_recorded store_path_recorded)
    qed
  qed
  then show ?case by (simp add: P_def)
qed

section \<open>The properties\<close>

text \<open>A sample enrolment, as the client builds it.\<close>

definition sample_enrollment :: "u64 \<Rightarrow> bytes" where
  "sample_enrollment expiry =
    (let body = gcs_header OP_ENROLL_ROOT @ replicate 32 7 @ putU32 1 @ replicate 16 8 @ replicate 32 9 @ putU32 2 @ [1] @
       zeros 3 @ putU64 expiry
     in body @ compute_tag sample_hmac body)"

lemma sample_enrollment_parsed:
  "parse_root_record sample_hmac (sample_enrollment expiry) =
     Some ((replicate 32 7, 1), (replicate 16 8, replicate 32 9, 2, 1, expiry))"
proof -
  have "sealRequest sample_wolf (enrollRootRequest (replicate 32 7) (replicate 16 8) (replicate 32 9) 1 2 1 expiry) =
    Inr (sample_enrollment expiry)"
    using sealRequest_eq [OF sample_wolf_sizes sample_same_hmac, of "gcs_header OP_ENROLL_ROOT @ replicate 32 7 @ putU32 1 @
      replicate 16 8 @ replicate 32 9 @ putU32 2 @ [1] @ zeros 3 @ putU64 expiry"]
    by (simp add: enrollRoot_layout sample_enrollment_def Let_def)
  from parse_enroll_root [OF sample_wolf_sizes sample_same_hmac _ _ _ this] show ?thesis by simp
qed

lemma handled_root:
  assumes "parse_root_record H packet = Some (key, v)"
  shows "serve_packet S H copies env packet address sv =
    reply_after env copies address (store_root S env key v (fst address) sv) (build_ack H (fst key) (snd key) 0 0)"
  using assms by (cases key) (auto simp: parse_root_record_def serve_packet_def Let_def split: if_splits)

definition calm :: surroundings where
  "calm = \<lparr>clock = ''1753876543.25'', audit_opens = True, sendto_works = 3\<rparr>"

definition full_disk :: surroundings where
  "full_disk = calm\<lparr>audit_opens := False\<rparr>"

definition sample_sender :: peer_address where
  "sample_sender = (''192.168.4.2'', 4210)"

definition sample_arrival :: "u64 \<Rightarrow> ledger_event" where
  "sample_arrival expiry = Arrives calm (sample_enrollment expiry) sample_sender"

definition sample_service :: service where
  "sample_service =
    snd (snd (service_loop sample_digest sample_hmac 1 True [(sample_arrival 5, False)] (open_ledger empty_ledger [])))"

lemma sample_first_launch:
  "service_loop sample_digest sample_hmac 1 True [(sample_arrival 5, False)] (open_ledger empty_ledger []) =
    (StillRunning, [(sample_sender, build_ack sample_hmac (replicate 32 7) 1 0 0)], sample_service)"
  "length (audit_file sample_service) = 1"
proof -
  have l: "length (sample_enrollment 5) \<le> 2048"
    using sample_enrollment_parsed [of 5] by (auto simp: parse_root_record_def split: if_splits)
  show "service_loop sample_digest sample_hmac 1 True [(sample_arrival 5, False)] (open_ledger empty_ledger []) =
    (StillRunning, [(sample_sender, build_ack sample_hmac (replicate 32 7) 1 0 0)], sample_service)"
    "length (audit_file sample_service) = 1"
    using l by (simp_all add: sample_service_def sample_arrival_def handled_root [OF sample_enrollment_parsed] store_root_def
        append_audit_eq event_names calm_def get_root_def empty_ledger_def reply_after_def send_reply_def)
qed

lemma sample_reachable: "service_reachable sample_digest sample_hmac audit_opens sample_service"
  using service_reachable.launched [OF service_reachable.fresh [of sample_digest sample_hmac audit_opens], of "[(sample_arrival 5, False)]" 1 True]
  by (simp add: sample_service_def meets_def sample_arrival_def calm_def)

text \<open>C22: Across any number of launches, as long as the audit file can be written, it is a
  linked chain of blocks from the zero hash on, and replaying it gives the two tables: every
  root record with all its fields and every path through its hash.\<close>

theorem audit_records_every_change:
  assumes "service_reachable S H audit_opens sv"
  shows "chained S zero_hash (audit_file sv)
    \<and> credential_roots (tables sv) = audited_roots (audit_file sv)
    \<and> map_option (EncodeToString \<circ> S) \<circ> lms_paths (tables sv) = audited_paths (audit_file sv)"
  using reachable_invariant [OF assms] by (simp add: chain_kept_def recorded_def)

theorem audit_records_every_change_witness:
  "length (audit_file sample_service) = 1 \<and> chained sample_digest zero_hash (audit_file sample_service)
    \<and> credential_roots (tables sample_service) = audited_roots (audit_file sample_service)
    \<and> map_option (EncodeToString \<circ> sample_digest) \<circ> lms_paths (tables sample_service) = audited_paths (audit_file sample_service)"
  using audit_records_every_change [OF sample_reachable] sample_first_launch(2) by simp

text \<open>C24: An authenticated enrolment whose expiry needs all 64 bits ends the service: SQLite takes
  no such integer, and the loop catches no \<open>OverflowError\<close>. Nothing is stored or sent and what
  arrives later is not served. The tables of a service with a history never hold such a record.\<close>

theorem oversized_expiry_ends_service:
  assumes "service_reachable S H ok sv" and "list_all (meets ok) before"
    and "service_loop S H copies True before (open_ledger (tables sv) (audit_file sv)) = (StillRunning, sent, sv')"
    and "parse_root_record H packet = Some (key, (ident, rootValue, suite_id, status, expiry))"
    and "2 ^ 63 \<le> unat expiry"
  shows "service_loop S H copies True (before @ (Arrives env packet address, stopped) # later)
      (open_ledger (tables sv) (audit_file sv)) = (Raised OverflowError, sent, sv')"
proof -
  have "service_reachable S H ok sv'"
    using service_reachable.launched [OF assms(1,2), of copies True] assms(3) by simp
  then have "fits_sqlite (tables sv')" using reachable_invariant by blast
  then have "get_root key (tables sv') \<noteq> Some (ident, rootValue, suite_id, status, expiry)"
    using assms(5) fits_sqliteD by (fastforce simp: get_root_def)
  moreover have "length packet \<le> 2048"
    using assms(4) by (auto simp: parse_root_record_def split: if_splits)
  ultimately show ?thesis
    using assms(5) by (simp add: service_loop_append [OF assms(3)] handled_root [OF assms(4)] store_root_def reply_after_def)
qed

theorem oversized_expiry_ends_service_witness:
  "service_loop sample_digest sample_hmac 1 True
      [(sample_arrival 5, False), (sample_arrival (2 ^ 63), False), (sample_arrival 6, False)] (open_ledger empty_ledger []) =
    (Raised OverflowError, [(sample_sender, build_ack sample_hmac (replicate 32 7) 1 0 0)], sample_service)"
  using oversized_expiry_ends_service [OF service_reachable.fresh [of sample_digest sample_hmac audit_opens],
      of "[(sample_arrival 5, False)]" 1 _ _ "sample_enrollment (2 ^ 63)"] sample_first_launch sample_enrollment_parsed [of "2 ^ 63"]
  by (simp add: sample_arrival_def meets_def calm_def)

text \<open>C25: When the audit file cannot be opened, the record is stored all the same, the service
  ends without an answer, and after the next launch the repetition of the enrolment is
  acknowledged as unchanged: the table holds a record of which no block was ever written.\<close>

theorem lost_audit_never_repaired:
  assumes "parse_root_record H packet = Some (key, (ident, rootValue, suite_id, status, expiry))" and "unat expiry < 2 ^ 63"
    and "get_root key (tables sv) \<noteq> Some (ident, rootValue, suite_id, status, expiry)"
    and "\<not> audit_opens env" and "copies \<le> sendto_works env'"
    and crash: "serve_packet S H copies env packet address sv = (raised, sent, sv')"
    and again: "serve_packet S H copies env' packet address (open_ledger (tables sv') (audit_file sv')) = (raised', sent', sv'')"
  shows "raised = Some OSError \<and> sent = []
    \<and> raised' = None \<and> sent' = replicate copies (address, build_ack H (fst key) (snd key) 0 0)
    \<and> get_root key (tables sv'') = Some (ident, rootValue, suite_id, status, expiry) \<and> audit_file sv'' = audit_file sv"
proof -
  have c: "raised = Some OSError" "sent = []" "sv' = sv\<lparr>tables := upsert_root key (ident, rootValue, suite_id, status, expiry) (tables sv)\<rparr>"
    using crash assms(2-4) by (simp_all add: handled_root [OF assms(1)] store_root_def append_audit_eq event_names reply_after_def)
  then show ?thesis
    using again assms(5) by (simp add: handled_root [OF assms(1)] store_root_def roots.get_put reply_after_def send_reply_def) (auto simp: roots.get_put)
qed

theorem lost_audit_never_repaired_witness:
  "\<exists>sv' sv''. serve_packet sample_digest sample_hmac 1 full_disk (sample_enrollment 5) sample_sender (open_ledger empty_ledger []) =
      (Some OSError, [], sv')
    \<and> serve_packet sample_digest sample_hmac 1 calm (sample_enrollment 5) sample_sender (open_ledger (tables sv') (audit_file sv')) =
      (None, [(sample_sender, build_ack sample_hmac (replicate 32 7) 1 0 0)], sv'')
    \<and> get_root (replicate 32 7, 1) (tables sv'') = Some (replicate 16 8, replicate 32 9, 2, 1, 5) \<and> audit_file sv'' = []"
proof -
  obtain raised sent sv' where 1: "serve_packet sample_digest sample_hmac 1 full_disk (sample_enrollment 5) sample_sender
    (open_ledger empty_ledger []) = (raised, sent, sv')" by (metis prod_cases3)
  obtain raised' sent' sv'' where 2: "serve_packet sample_digest sample_hmac 1 calm (sample_enrollment 5) sample_sender
    (open_ledger (tables sv') (audit_file sv')) = (raised', sent', sv'')" by (metis prod_cases3)
  show ?thesis
    using lost_audit_never_repaired [OF sample_enrollment_parsed _ _ _ _ 1 2] 1 2
    by (simp add: full_disk_def calm_def get_root_def empty_ledger_def)
qed

section \<open>While nothing fails\<close>

lemma quiet_reply: "copies \<le> sendto_works env \<Longrightarrow> reply_after env copies address (None, sv) payload = (None, replicate copies (address, payload), sv)"
  by (simp add: reply_after_def send_reply_def)

lemma quiet_root:
  assumes "audit_opens env" and "unat expiry < 2 ^ 63"
  shows "\<exists>sv'. store_root S env key (ident, rootValue, suite_id, status, expiry) ip sv = (None, sv') \<and>
    tables sv' = upsert_root key (ident, rootValue, suite_id, status, expiry) (tables sv)"
  using assms by (simp add: store_root_def append_audit_eq event_names upsert_root_def)

lemma quiet_path:
  "audit_opens env \<Longrightarrow> \<exists>sv'. store_path S env key path ip sv = (None, sv') \<and> tables sv' = upsert_path key path (tables sv)"
  by (simp add: store_path_def append_audit_eq event_names upsert_path_def)

lemma quiet_enrollment:
  assumes "copies \<le> sendto_works env" and "\<exists>sv'. outcome = (None, sv') \<and> tables sv' = t"
  shows "fst (reply_after env copies address outcome payload) = None"
    and "fst (snd (reply_after env copies address outcome payload)) = replicate copies (address, payload)"
    and "tables (snd outcome) = t"
  using assms by (auto simp: quiet_reply)

text \<open>C23: While the audit file opens, the socket sends and no expiry needs all 64 bits, the service is the
  request handler of \<open>LedgerServer\<close>: it raises nothing, sends the handler's reply \<open>copies\<close>
  times to the sender and its tables change as the handler's.\<close>

theorem service_refines_handler:
  assumes "audit_opens env" and send: "copies \<le> sendto_works env"
    and fits: "\<And>key ident rootValue suite_id status expiry.
      parse_root_record H packet = Some (key, (ident, rootValue, suite_id, status, expiry)) \<Longrightarrow> unat expiry < 2 ^ 63"
    and "serve_packet S H copies env packet address sv = (raised, sent, sv')"
    and "handle_request H packet (tables sv) = (reply, t)"
  shows "raised = None \<and> tables sv' = t
    \<and> sent = (case reply of None \<Rightarrow> [] | Some payload \<Rightarrow> replicate copies (address, payload))"
proof -
  let ?serve = "serve_packet S H copies env packet address sv" and ?handle = "handle_request H packet (tables sv)"
  note root = quiet_enrollment [OF send quiet_root [OF assms(1) fits]]
  note path = quiet_enrollment [OF send quiet_path [OF assms(1)]]
  have "fst ?serve = None \<and> tables (snd (snd ?serve)) = snd ?handle
    \<and> fst (snd ?serve) = (case fst ?handle of None \<Rightarrow> [] | Some payload \<Rightarrow> replicate copies (address, payload))"
    by (simp add: serve_packet_def handle_request_def Let_def root path quiet_reply [OF send] split: option.split prod.split)
  then show ?thesis using assms(4,5) by simp
qed

theorem service_refines_handler_witness:
  "\<exists>sv'. serve_packet sample_digest sample_hmac 1 calm (sample_enrollment 5) sample_sender (open_ledger empty_ledger []) =
      (None, [(sample_sender, build_ack sample_hmac (replicate 32 7) 1 0 0)], sv')
    \<and> tables sv' = upsert_root (replicate 32 7, 1) (replicate 16 8, replicate 32 9, 2, 1, 5) empty_ledger"
proof -
  let ?packet = "sample_enrollment 5"
  obtain raised sent sv' where 1: "serve_packet sample_digest sample_hmac 1 calm ?packet sample_sender
    (open_ledger empty_ledger []) = (raised, sent, sv')" by (metis prod_cases3)
  have p: "length ?packet = ROOT_RECORD_BYTES" "take 4 ?packet = GCS2" "?packet ! 4 = OP_ENROLL_ROOT"
    using sample_enrollment_parsed [of 5] by (auto simp: parse_root_record_def split: if_splits)
  have 2: "handle_request sample_hmac ?packet (tables (open_ledger empty_ledger [])) =
    (Some (build_ack sample_hmac (replicate 32 7) 1 0 0),
     upsert_root (replicate 32 7, 1) (replicate 16 8, replicate 32 9, 2, 1, 5) empty_ledger)"
    using p by (simp add: handle_request_def sample_enrollment_parsed)
  show ?thesis
    using service_refines_handler [OF _ _ _ 1 2] 1 by (simp add: calm_def sample_enrollment_parsed)
qed

section \<open>From one node to the other\<close>

lemma served_enrollment:
  assumes "parse_root_record H packet = Some (key, vals)" and "serve_packet S H copies env packet address sv = (None, sent, sv')"
  shows "get_root key (tables sv') = Some vals"
proof -
  obtain ident rootValue suite_id status expiry where v: "vals = (ident, rootValue, suite_id, status, expiry)" by (cases vals) auto
  have "fst (store_root S env key vals (fst address) sv) = None \<and> snd (store_root S env key vals (fst address) sv) = sv'"
    using assms(2) unfolding handled_root [OF assms(1)] by (auto simp: reply_after_def split: option.splits prod.splits)
  then show ?thesis
    by (auto simp: store_root_def v append_audit_eq event_names roots.get_put split: if_splits)
qed

lemma served_query:
  assumes "parse_get_root H packet = Some (requester, target, version)" and "get_root (target, version) (tables sv) = Some vals"
    and "serve_packet S H copies env packet address sv = (raised, sent, sv')" and "(address', reply) \<in> set sent"
  shows "reply = build_root_response H target version vals" and "address' = address"
proof -
  have "serve_packet S H copies env packet address sv =
      reply_after env copies address (None, sv) (build_root_response H target version vals)"
    using assms(1,2) by (auto simp: parse_get_root_def serve_packet_def Let_def split: if_splits)
  then show "reply = build_root_response H target version vals" and "address' = address"
    using assms(3,4) by (auto simp: reply_after_def send_reply_def split: if_splits)
qed

text \<open>C21: What one node enrolls is what its peer fetches, through the real service. Once the service has
  served the request of \<open>enrollOwnRoot\<close> without an exception (so its expiry fits SQLite and the audit
  block was written), and as long as that table entry stays, across restarts too, any datagram it sends for the
  request of \<open>fetchPeerRoot\<close> makes the peer return exactly the enrolled identifier, root,
  suite, status and expiry, whatever irrelevant datagrams arrive before.\<close>

theorem enrolled_root_is_fetched:
  assumes "wolf_sizes W" and "same_hmac W H"
    and "length (m_deviceId sA) = ID_BYTES" and "length (m_identifier lms) = 16"
    and "root lms = Some r" and "length r = HASH_BYTES" and "status \<le> 3"
    and "length (m_deviceId sB) = ID_BYTES" and "m_peerId sB = m_deviceId sA"
    and "sealRequest W (enrollRootRequest (m_deviceId sA) (m_identifier lms) r version suiteId status expiry) = Inr requestA"
    and "serve_packet S H copiesA envA requestA addressA sv0 = (None, sentA, sv1)"
    and "get_root (m_deviceId sA, version) (tables sv2) = get_root (m_deviceId sA, version) (tables sv1)"
    and "sealRequest W (getRootRequest (m_deviceId sB) (m_peerId sB) version) = Inr requestB"
    and "serve_packet S H copiesB envB requestB addressB sv2 = (raised, sentB, sv3)" and "(addressB, reply) \<in> set sentB"
    and "sent_ok requestB a" and "attemptPolls a = pre @ p # post"
    and "\<forall>p' \<in> set pre. pollMillis p' - attemptStart a < GCS_TIMEOUT_MS \<and>
      fst (pollResponse W OP_ROOT_RECORD version ANY_Q p' sB) = Ignore"
    and "pollMillis p - attemptStart a < GCS_TIMEOUT_MS" and "replies sB reply p"
  shows "\<exists>s'. fetchPeerRoot W version ((a # as) # rounds) sB =
    Some (Some \<lparr>p_ready = True, p_version = version, p_identifier = m_identifier lms, p_root = r,
      p_suiteId = suiteId, p_status = status, p_expiryUnix = expiry\<rparr>, s')"
proof -
  note A = parse_enroll_root [OF assms(1-4,6,10,7)]
  have stored: "get_root (m_peerId sB, version) (tables sv2) = Some (m_identifier lms, r, suiteId, status, expiry)"
    using served_enrollment [OF A(1) assms(11)] assms(9,12) by simp
  have peer: "length (m_peerId sB) = ID_BYTES" using assms(3,9) by simp
  note B = parse_get_root_request [OF assms(1,2,8) peer assms(13)]
  have "reply = build_root_response H (m_deviceId sA) version (m_identifier lms, r, suiteId, status, expiry)"
    using served_query(1) [OF B(1) stored assms(14,15)] assms(9) by simp
  then have rep: "replies sB (build_root_response H (m_deviceId sA) version (m_identifier lms, r, suiteId, status, expiry)) p"
    using assms(20) by simp
  note R = root_response_answers [OF assms(1-4,6) rep]
  have "length (readBuffer p) = MAX_GCS_PACKET_BYTES" using assms(20) by (simp add: replies_def)
  from fetchPeerRoot_answer [OF assms(13,16-19) R(1,2) _ peer this] R(3,4) assms(9)
  show ?thesis by simp
qed

theorem enrolled_root_is_fetched_witness:
  "\<exists>rA rB sv1 s'. serve_packet sample_digest sample_hmac 1 calm rA sample_sender (open_ledger empty_ledger []) =
      (None, [(sample_sender, build_ack sample_hmac (zeros 32) 1 0 0)], sv1) \<and>
    serve_packet sample_digest sample_hmac 1 calm rB sample_sender sv1 = (None, [(sample_sender, sample_root_reply)], sv1) \<and>
    fetchPeerRoot sample_wolf 1 ((sample_attempt rB sample_root_reply # []) # []) sample_client =
    Some (Some \<lparr>p_ready = True, p_version = 1, p_identifier = m_identifier sample_lms, p_root = zeros 32,
      p_suiteId = 0x10001, p_status = 1, p_expiryUnix = 0\<rparr>, s')"
proof (rule sample_requests)
  fix rA rB
  assume A: "sealRequest sample_wolf (enrollRootRequest (zeros 32) (zeros 16) (zeros 32) 1 0x10001 1 0) = Inr rA"
    and B: "sealRequest sample_wolf (getRootRequest (zeros 32) (zeros 32) 1) = Inr rB"
  note pA = parse_enroll_root [OF sample_wolf_sizes sample_same_hmac _ _ _ A, simplified]
  note pB = parse_get_root_request [OF sample_wolf_sizes sample_same_hmac _ _ B, simplified]
  obtain e sent sv1 where s: "serve_packet sample_digest sample_hmac 1 calm rA sample_sender (open_ledger empty_ledger []) = (e, sent, sv1)"
    by (metis prod_cases3)
  then have e: "e = None" "sent = [(sample_sender, build_ack sample_hmac (zeros 32) 1 0 0)]"
    by (auto simp: handled_root [OF pA(1)] store_root_def append_audit_eq event_names calm_def get_root_def empty_ledger_def
        reply_after_def send_reply_def)
  note hA = s [unfolded e]
  have hB: "serve_packet sample_digest sample_hmac 1 calm rB sample_sender sv1 = (None, [(sample_sender, sample_root_reply)], sv1)"
    using pB served_enrollment [OF pA(1) hA]
    by (simp add: serve_packet_def reply_after_def send_reply_def calm_def sample_root_reply_def)
  have "\<exists>s'. fetchPeerRoot sample_wolf 1 ((sample_attempt rB sample_root_reply # []) # []) sample_client =
    Some (Some \<lparr>p_ready = True, p_version = 1, p_identifier = m_identifier sample_lms, p_root = zeros 32,
      p_suiteId = 0x10001, p_status = 1, p_expiryUnix = 0\<rparr>, s')"
    by (rule enrolled_root_is_fetched [OF sample_wolf_sizes sample_same_hmac _ _ sample_lms_root _ _ _ _ _ hA refl _ hB _
          sample_attempt_ok sample_attempt_polls _ reply_in_time sample_root_delivered, where sA = sample_client])
      (simp_all add: A B sample_lms_fields)
  then show ?thesis using hA hB by blast
qed

end
