(* ===== verification/Spec2Isabelle.thy ===== *)
theory Spec2Isabelle
  imports SessionReport Deployment SecretResidue ApqeAcceptance FabricLedgerProperties LedgerServiceProperties
begin

text \<open>
  \<^bold>\<open>The program.\<close> Firmware for two unmanned aerial vehicles (ESP32) that authenticate each other
  and agree on a session key, and the services they talk to. The repository holds two
  packages. \<open>ESP32_Proposed_Protocol_Complete_v4\<close> is the proposed protocol: each vehicle
  reconstructs a root from its PUF, derives from it the seed of an LMS tree of 1024 one-time
  keys (LM-OTS, SHA-256), publishes the root of the tree at a repository on the ground (the
  ledger server of \<open>laptop_server\<close>), and then runs sessions of five messages, M0 to M4, in
  which an ML-KEM exchange is signed by both sides with one-time keys and confirmed by two tags. The
  authentication path of a signature is carried in the message or fetched from the
  repository, by deployment mode. \<open>APQE_CDA_Complete_v4\<close> is the baseline it is compared
  with: credentials on a Hyperledger Fabric ledger behind a UDP gateway, an emulated PUF and
  Kyber, and sessions of three messages.

  \<^bold>\<open>Theories and code.\<close> All firmware paths are below \<open>Arduino/libraries\<close>.

  \<^item> \<open>Prelude\<close>: buffers with \<open>memcpy\<close> (\<open>read_at\<close>, \<open>write_at\<close>), results (\<open>'a res\<close>, \<open>bindE\<close>), stages
    (\<open>runStages\<close>) and the collections of facts the others extend.
  \<^item> \<open>PollLoop\<close>: what the four waiting loops of the firmware have in common, proved once.
  \<^item> \<open>ProtocolConstants\<close>, \<open>CryptoHelpers\<close>, \<open>LmotsLms\<close>, \<open>FragmentedUdp\<close>, \<open>GcsLedgerClient\<close>: the
    files of these names in \<open>ProposedUavProtocol/library/src\<close>, one definition per function.
  \<^item> \<open>ProposedUavProtocol\<close> (object, counter, PUF and KEM), \<open>ProtocolMessages\<close> (message
    builders and checks, transcript, keys), \<open>InitiatorSession\<close> (\<open>runInitiatorSession\<close>),
    \<open>ResponderSession\<close> (\<open>runResponderOnce\<close>, \<open>loop\<close>) and \<open>Provisioning\<close> (\<open>begin\<close>):
    the class \<open>ProposedUavProtocol\<close> of \<open>ProposedUavProtocol.h/.cpp\<close>.
  \<^item> \<open>LedgerServer\<close>: parsing, tables, dispatch and responses of \<open>gcs_ledger_server.py\<close>; \<open>LedgerService\<close>: its
    audit chain, exceptions, reply copies, receive loop and restarts.
  \<^item> \<open>ApqeConstants\<close>, \<open>ApqeCrypto\<close> (\<open>CryptoHelpers\<close>, \<open>KyberCpaWrapper\<close>, \<open>SoftwarePuf\<close>),
    \<open>ApqeUdp\<close> (\<open>FragmentedUdp\<close>), \<open>ApqeFabric\<close> (\<open>FabricUdpClient\<close>), \<open>ApqeProtocol\<close> (object,
    credentials, enrolment, RESULT) and \<open>ApqeSessions\<close> (handlers and loop): the files in
    \<open>ApqeCdaProtocol/src\<close>.
  \<^item> \<open>TextFormats\<close> (hexadecimal, decimal, JSON), \<open>FabricChaincode\<close> (\<open>fabric/chaincode-go/main.go\<close>) and
    \<open>FabricGateway\<close> (\<open>fabric/gateway-go/main.go\<close>): the ledger of the baseline and the gateway in front of it.
  \<^item> \<open>Sketches\<close>: the configurations, \<open>setup\<close> and \<open>loop\<close> of the six \<open>.ino\<close> files.

  \<^bold>\<open>State.\<close> The members of a class are a record (\<open>LmsState\<close>, \<open>GcsState\<close>, \<open>node\<close>, \<open>FabricState\<close>,
  \<open>apqe_node\<close>, ...); the locals of a session handler extend the record of the object
  (\<open>session\<close>, \<open>apqe_session\<close>). The persistent counter in flash is the field \<open>nextq\<close>, which a
  restart keeps. Four fields are not in the code and only record what happened:
  \<open>wire\<close> and \<open>q_wire\<close> the datagrams sent, \<open>signatures\<close> the one-time signatures made,
  \<open>gcs_sent\<close> the requests to the repository. The scratch buffers of \<open>LmotsLms\<close>, in which every
  hash input is assembled, are state like the rest: each operation of that class has a companion that
  says what it leaves in them (\<open>sign_scratch\<close>, ...). Arrays are
  byte lists; a write past the end makes a list longer, so that constant lengths are memory
  safety. Integers have the width of the code. Hash results and the like are fallible
  (\<open>Inl\<close>), a handler is a list of stages that each end where the code can return or jump to its cleanup.

  \<^bold>\<open>What is outside, and how it enters.\<close> wolfSSL is the record \<open>wolf\<close> of functions, the Kyber
  reference code the record \<open>kyber\<close>, HMAC and SHA-256 of Python and Go parameters, the Fabric client library the record
  \<open>contract\<close>; what the code relies
  on of them is named: output sizes (\<open>wolf_sizes\<close>, \<open>kem_sizes\<close>, \<open>kyber_sizes\<close>), hash calls that return 0
  (\<open>wolf_works\<close>), decapsulation that inverts encapsulation (\<open>kem_works\<close>, \<open>kyber_correct\<close>), one HMAC on both
  ends (\<open>same_hmac\<close>, \<open>same_mac\<close>), a Fabric network that runs the chaincode (\<open>runs_chaincode\<close>). Each has an
  instance (\<open>sample_wolf\<close>, \<open>sample_kyber\<close>, \<open>sample_hmac\<close>, \<open>lab_contract\<close>) on which the examples run. The PUF reconstruction, random bytes, clocks, flash writes and the
  network are fields of the environments \<open>env\<close>, \<open>boot\<close>, \<open>apqe_env\<close>, \<open>apqe_boot\<close>. A polling
  loop runs over the list of what its iterations observe (\<open>poll\<close>); a call whose list ends before it
  has returned is still waiting, \<open>None\<close>. There is no other fuel: every other loop of the
  code is bounded by a number in the code and is structural recursion.
  That the polling loops end is proved from the clock alone.

  \<^bold>\<open>What the theorems show.\<close> By component:

  \<^item> \<open>CryptoHelpers\<close>: the HKDF loop is RFC 5869's.
  \<^item> \<open>LmotsTheorems\<close>, \<open>HashTree\<close>, \<open>LmsTree\<close>, \<open>LmotsScratch\<close>, \<open>LmsVerify\<close>, \<open>LmsTotal\<close>: signing, building and
    verifying succeed exactly where they should, no hash input outgrows the buffer it is assembled in, every signature verifies, an accepted signature has the tree's
    key or exhibits a collision, coefficients of distinct digests are incomparable.
  \<^item> \<open>FragmentationTheorems\<close>, \<open>FragmentationProperties\<close>: reassembly is exact under reordering, repetition and
    foreign traffic, stays in its buffer and ends; what is accepted was observed; and the
    gaps that the reassembler leaves open. \<open>ApqeUdp\<close> carries them over to the baseline by refinement.
  \<^item> \<open>GcsTheorems\<close>, \<open>RepositoryExchange\<close>, \<open>RepositoryProperties\<close>: client and server together are a
    store (with the service's failures in \<open>LedgerServiceProperties\<close>), answers are authentic, requests end and account their bytes, and what an acknowledgement does not prove.
  \<^item> \<open>LedgerServiceProperties\<close>: the audit file of the server is a hash chain from which both tables can be
    replayed, the service refines the request handler, an enrolled root is fetched from it, and the two failures that break it: an expiry that SQLite
    does not take and an audit file that cannot be opened.
  \<^item> \<open>SessionEffects\<close>, \<open>CounterSafety\<close>, \<open>MemorySafety\<close>, \<open>SessionProperties\<close>, \<open>SecretErasure\<close>: invariants of
    every stage of both handlers: no one-time key signs twice in the life of a device, across power
    losses; no array overflows; the members and locals that the cleanup wipes are zero. \<open>SecretResidue\<close>: the
    secret that a session leaves in the scratch buffer of \<open>LmotsLms\<close>, which nothing wipes.
  \<^item> \<open>MessageLayout\<close>, \<open>InitiatorTheorems\<close>, \<open>ResponderTheorems\<close>, \<open>AgreementProperties\<close>: the byte layout of the
    messages, what each side has checked when it accepts or sends, and the agreement of the keys.
  \<^item> \<open>Exchange\<close>, \<open>HonestInitiator\<close>, \<open>HonestResponder\<close>, \<open>HonestSession\<close>, \<open>AcceptanceProperties\<close>: the abstract
    exchange of five messages, and that two devices whose messages are delivered implement it.
  \<^item> \<open>SessionReport\<close>: the numbers of \<open>printInitiatorResult\<close>, and that the byte count it prints is the documented one.
  \<^item> \<open>BootProperties\<close>: a device whose \<open>begin\<close> returned true is provisioned, and ready for that exchange;
    \<open>begin\<close> returns true against a repository that answers. \<open>Deployment\<close>: two devices that booted against a
    repository that vouches for each to the other complete the session that follows; the two sketches do.
  \<^item> \<open>ApqeExchange\<close>, \<open>ApqeHonest\<close>, \<open>ApqeProperties\<close>, \<open>ApqeFabricTheorems\<close>,
    \<open>ApqeServiceProperties\<close>, \<open>ApqeAcceptance\<close>: the same questions for the baseline, and the impersonation
    that its PUF emulation allows.
  \<^item> \<open>FabricChaincode\<close>, \<open>FabricExchange\<close>, \<open>FabricLedgerProperties\<close>: the ledger's records and its index of pseudonyms
    under every history of transactions, drone, gateway and chaincode together as a store and as the service
    that a session of the baseline relies on, and what two records with one pseudonym do to the index.

  Interfaces are locales, each interpreted on the model: \<open>byte_codec\<close> (integer codecs),
  \<open>hash_tree\<close> (a built tree, and the climb over it), \<open>one_time_signature\<close> (what the
  verifier recomputes), \<open>record_store\<close> (the tables of the server), \<open>indexed_store\<close> (the ledger of the baseline),
  \<open>waiting\<close> and its extension \<open>client_waiting\<close> (the loops that wait for a datagram: the two reassemblers
  and the two clients).

  \<^bold>\<open>Not modelled.\<close> Serial output (but for the numbers of the two session reports), delays, yields and memory
  statistics, which change no state; the discarding of stale datagrams before a request, which is not observable in a
  list of polls. The third-party code wolfSSL and Kyber, and \<open>PufFeProvider\<close>,
  which the repository only declares, are parameters. Of the ledger server the SQL texts (the tables
  they keep are modelled), the columns that nothing reads, the command line and printing are left out. Of the gateway the
  connection to a peer with its keys and certificates is left out. The parsers of results, the packaging tools (Python) and the
  symbolic models (Verifpal) are not part of the running program.
\<close>

end
